(* ===== verification/Forge_Prelude.thy ===== *)
theory Forge_Prelude
  imports Complex_Main "HOL-Library.AList"
begin

text \<open>
  The Python data the modelled modules share, and the generic lemmas on it.

  \<^item> Numbers: \<open>pyfloat\<close> is a Python float read as its exact rational value, with
    the infinities and NaN kept apart, so that comparisons have Python's results.
  \<^item> \<open>pyval\<close> is a JSON-like Python value. A \<open>dict\<close> is an association list in
    insertion order: \<open>dput\<close> replaces an existing key in place and appends a new one.
  \<^item> Text: a \<open>str\<close> is a list of characters, one per code point below 256.
  \<^item> Exceptions: a function that may raise returns \<open>'e + 'a\<close>, \<open>Inl\<close> the exception;
    \<open>bindr\<close> and \<open>mapr\<close> sequence such computations.
\<close>

named_theorems pydict \<open>rewriting of dictionary reads and writes\<close>

section \<open>Floats and values\<close>

datatype pyfloat = Fin rat | PosInf | NegInf | NaN

text \<open>Python's \<open>a <= b\<close> and \<open>a < b\<close>: every comparison with NaN is false.\<close>

fun pf_le :: "pyfloat \<Rightarrow> pyfloat \<Rightarrow> bool" where
  "pf_le NaN _ = False"
| "pf_le _ NaN = False"
| "pf_le NegInf _ = True"
| "pf_le _ PosInf = True"
| "pf_le (Fin a) (Fin b) = (a \<le> b)"
| "pf_le _ _ = False"

fun pf_lt :: "pyfloat \<Rightarrow> pyfloat \<Rightarrow> bool" where
  "pf_lt NaN _ = False"
| "pf_lt _ NaN = False"
| "pf_lt NegInf b = (b \<noteq> NegInf)"
| "pf_lt (Fin a) (Fin b) = (a < b)"
| "pf_lt (Fin _) b = (b = PosInf)"
| "pf_lt PosInf _ = False"

text \<open>Truth value of a float: everything but zero, NaN included.\<close>

definition pf_true :: "pyfloat \<Rightarrow> bool" where
  "pf_true f = (f \<noteq> Fin 0)"

datatype pyval =
    PNone
  | PBool bool
  | PInt int
  | PFloat pyfloat
  | PStr string
  | PList "pyval list"
  | PDict "(string \<times> pyval) list"

type_synonym 'v pydict = "(string \<times> 'v) list"

section \<open>Dictionaries\<close>

text \<open>\<open>d[k] = v\<close>, \<open>d.get(k)\<close>, \<open>k in d\<close>, \<open>d.update(e)\<close>, \<open>{k: v for ...}\<close>.\<close>

definition dput :: "string \<Rightarrow> 'v \<Rightarrow> 'v pydict \<Rightarrow> 'v pydict" where
  "dput k v d = AList.update k v d"

definition dget :: "'v pydict \<Rightarrow> string \<Rightarrow> 'v option" where
  "dget d k = map_of d k"

definition dkeys :: "'v pydict \<Rightarrow> string list" where
  "dkeys d = map fst d"

definition dvals :: "'v pydict \<Rightarrow> 'v list" where
  "dvals d = map snd d"

definition dmem :: "string \<Rightarrow> 'v pydict \<Rightarrow> bool" where
  "dmem k d = (dget d k \<noteq> None)"

definition dupdate :: "'v pydict \<Rightarrow> 'v pydict \<Rightarrow> 'v pydict" where
  "dupdate d e = foldl (\<lambda>acc (k, v). dput k v acc) d e"

definition dict_of :: "(string \<times> 'v) list \<Rightarrow> 'v pydict" where
  "dict_of xs = dupdate [] xs"

definition wf_dict :: "'v pydict \<Rightarrow> bool" where
  "wf_dict d = distinct (map fst d)"

lemma dget_dput [pydict]: "dget (dput k v d) k' = (if k' = k then Some v else dget d k')"
  by (simp add: dget_def dput_def update_conv')

lemma dget_Nil [pydict]: "dget [] k = None"
  by (simp add: dget_def)

lemma dkeys_dput [pydict]: "set (dkeys (dput k v d)) = insert k (set (dkeys d))"
  by (auto simp: dkeys_def dput_def update_keys)

lemma dget_None_iff: "dget d k = None \<longleftrightarrow> k \<notin> set (dkeys d)"
  by (auto simp: dget_def dkeys_def map_of_eq_None_iff)

lemma dmem_iff: "dmem k d \<longleftrightarrow> k \<in> set (dkeys d)"
  by (simp add: dmem_def dget_None_iff)

lemma dget_SomeD: "dget d k = Some v \<Longrightarrow> k \<in> set (dkeys d)"
  using dget_None_iff [of d k] by auto

lemma dkeys_dput_mem: "k \<in> set (dkeys d) \<Longrightarrow> dkeys (dput k v d) = dkeys d"
  by (simp add: dkeys_def dput_def update_keys)

lemma distinct_update_iff: "distinct (map fst (AList.update k v al)) = distinct (map fst al)"
  by (induction al) (auto simp: dom_update split: prod.splits)

lemma wf_dput [pydict]: "wf_dict (dput k v d) = wf_dict d"
  by (simp add: wf_dict_def dput_def distinct_update_iff)

lemma dput_last: "dput k v (dput k w d) = dput k v d"
  by (simp add: dput_def update_last)

lemma dvals_in: "wf_dict d \<Longrightarrow> v \<in> set (dvals d) \<longleftrightarrow> (\<exists>k. dget d k = Some v)"
proof -
  assume "wf_dict d"
  then have "dget d k = Some v \<longleftrightarrow> (k, v) \<in> set d" for k
    by (simp add: wf_dict_def dget_def)
  then show ?thesis
    by (force simp: dvals_def)
qed

lemma dkeys_simps [simp]: "dkeys [] = []" "dkeys (x # d) = fst x # dkeys d"
  by (simp_all add: dkeys_def)

lemma dupdate_simps [simp]:
  "dupdate d [] = d" "dupdate d (x # e) = dupdate (dput (fst x) (snd x) d) e"
  by (simp_all add: dupdate_def case_prod_beta)

lemma dkeys_dupdate: "set (dkeys (dupdate d e)) = set (dkeys d) \<union> set (dkeys e)"
  by (induction e arbitrary: d) (simp_all add: pydict)

lemma wf_dupdate: "wf_dict (dupdate d e) = wf_dict d"
  by (induction e arbitrary: d) (simp_all add: wf_dput)

lemma dget_dupdate:
  "wf_dict e \<Longrightarrow> dget (dupdate d e) k = (case dget e k of None \<Rightarrow> dget d k | Some v \<Rightarrow> Some v)"
proof (induction e arbitrary: d)
  case Nil
  then show ?case by (simp add: dupdate_def pydict)
next
  case (Cons x e)
  obtain j v where x: "x = (j, v)" by force
  from Cons.prems x have wf: "wf_dict e" and j: "dget e j = None"
    by (auto simp: wf_dict_def dget_None_iff dkeys_def)
  have "dget (dupdate d (x # e)) k = dget (dupdate (dput j v d) e) k"
    by (simp add: x)
  also have "\<dots> = (case dget e k of None \<Rightarrow> dget (dput j v d) k | Some v \<Rightarrow> Some v)"
    by (rule Cons.IH [OF wf])
  also have "\<dots> = (case dget (x # e) k of None \<Rightarrow> dget d k | Some v \<Rightarrow> Some v)"
    using j by (auto simp: x dget_def [of "_ # _"] dget_def [symmetric] pydict split: option.splits)
  finally show ?case .
qed

lemma wf_dict_of [simp]: "wf_dict (dict_of xs)"
  by (simp add: dict_of_def wf_dupdate) (simp add: wf_dict_def)

lemma dkeys_dict_of [simp]: "set (dkeys (dict_of xs)) = set (map fst xs)"
  by (simp add: dict_of_def dkeys_dupdate) (simp add: dkeys_def)

lemma dict_of_distinct: "distinct (map fst xs) \<Longrightarrow> dict_of xs = xs"
proof -
  have app: "AList.update k v d = d @ [(k, v)]" if "k \<notin> fst ` set d" for k and v :: 'a and d
    using that by (induction d) auto
  have upd: "dupdate d xs = d @ xs" if "distinct (map fst (d @ xs))" for d :: "'a pydict"
    using that
  proof (induction xs arbitrary: d)
    case (Cons x xs)
    have "dput (fst x) (snd x) d = d @ [x]"
      using Cons.prems by (simp add: dput_def app)
    with Cons.IH [of "d @ [x]"] Cons.prems show ?case by simp
  qed simp
  show "distinct (map fst xs) \<Longrightarrow> dict_of xs = xs"
    using upd [of "[]"] by (simp add: dict_of_def)
qed

section \<open>Keyed tables\<close>

text \<open>
  What the users of a dictionary or of a database table rely on: a read returns the last
  value written under its key. The Python dictionary and the tables of the run store are
  instances.
\<close>

locale keyed_table =
  fixes put :: "'k \<Rightarrow> 'v \<Rightarrow> 't \<Rightarrow> 't"
    and get :: "'t \<Rightarrow> 'k \<Rightarrow> 'v option"
  assumes get_put_same: "get (put k v t) k = Some v"
    and get_put_other: "k' \<noteq> k \<Longrightarrow> get (put k v t) k' = get t k'"
begin

lemma get_put: "get (put k v t) k' = (if k' = k then Some v else get t k')"
  by (simp add: get_put_same get_put_other)

definition puts :: "('a \<Rightarrow> 'k) \<Rightarrow> ('a \<Rightarrow> 'v) \<Rightarrow> 'a list \<Rightarrow> 't \<Rightarrow> 't" where
  "puts key row xs t = foldl (\<lambda>acc x. put (key x) (row x) acc) t xs"

lemma get_puts_other: "k \<notin> key ` set xs \<Longrightarrow> get (puts key row xs t) k = get t k"
  by (induction xs arbitrary: t) (auto simp: puts_def get_put)

lemma get_puts:
  assumes "distinct (map key xs)" and "x \<in> set xs"
  shows "get (puts key row xs t) (key x) = Some (row x)"
  using assms
proof (induction xs arbitrary: t)
  case (Cons y xs)
  show ?case
  proof (cases "x = y")
    case True
    with Cons.prems have "get (puts key row xs (put (key y) (row y) t)) (key x) = Some (row x)"
      using get_puts_other [of "key x" key xs row "put (key y) (row y) t"] by (auto simp: get_put)
    then show ?thesis by (simp add: puts_def)
  next
    case False
    with Cons show ?thesis by (simp add: puts_def)
  qed
qed simp

lemma put_commute: "k \<noteq> k' \<Longrightarrow> get (put k v (put k' v' t)) = get (put k' v' (put k v t))"
  by (auto simp: get_put)

end

interpretation pyd: keyed_table dput dget
  by unfold_locales (simp_all add: pydict)

section \<open>Exceptions\<close>

definition bindr :: "'e + 'a \<Rightarrow> ('a \<Rightarrow> 'e + 'b) \<Rightarrow> 'e + 'b" where
  "bindr m f = (case m of Inl e \<Rightarrow> Inl e | Inr a \<Rightarrow> f a)"

fun mapr :: "('a \<Rightarrow> 'e + 'b) \<Rightarrow> 'a list \<Rightarrow> 'e + 'b list" where
  "mapr f [] = Inr []"
| "mapr f (x # xs) = bindr (f x) (\<lambda>y. bindr (mapr f xs) (\<lambda>ys. Inr (y # ys)))"

lemma bindr_Inr [simp]: "bindr (Inr a) f = f a"
  by (simp add: bindr_def)

lemma bindr_Inl [simp]: "bindr (Inl e) f = Inl e"
  by (simp add: bindr_def)

lemma bindr_eq_Inr: "bindr m f = Inr b \<longleftrightarrow> (\<exists>a. m = Inr a \<and> f a = Inr b)"
  by (auto simp: bindr_def split: sum.splits)

lemma bindr_eq_Inl: "bindr m f = Inl e \<longleftrightarrow> m = Inl e \<or> (\<exists>a. m = Inr a \<and> f a = Inl e)"
  by (auto simp: bindr_def split: sum.splits)

lemma mapr_length: "mapr f xs = Inr ys \<Longrightarrow> length ys = length xs"
  by (induction xs arbitrary: ys) (auto simp: bindr_eq_Inr)

lemma mapr_mem: "mapr f xs = Inr ys \<Longrightarrow> y \<in> set ys \<Longrightarrow> \<exists>x \<in> set xs. f x = Inr y"
  by (induction xs arbitrary: ys) (auto simp: bindr_eq_Inr)

section \<open>Text\<close>

text \<open>The characters below 256 that \<open>str.isspace\<close> accepts, and \<open>str.strip()\<close>.\<close>

definition py_isspace :: "char \<Rightarrow> bool" where
  "py_isspace c = (let n = of_char c :: int in
     9 \<le> n \<and> n \<le> 13 \<or> 28 \<le> n \<and> n \<le> 32 \<or> n = 133 \<or> n = 160)"

definition py_lstrip :: "string \<Rightarrow> string" where
  "py_lstrip s = dropWhile py_isspace s"

definition py_rstrip :: "string \<Rightarrow> string" where
  "py_rstrip s = rev (dropWhile py_isspace (rev s))"

definition py_strip :: "string \<Rightarrow> string" where
  "py_strip s = py_rstrip (py_lstrip s)"

text \<open>\<open>xs[:n]\<close>: a negative bound counts from the end.\<close>

definition py_take :: "int \<Rightarrow> 'a list \<Rightarrow> 'a list" where
  "py_take n xs = (if 0 \<le> n then take (nat n) xs else take (length xs - nat (- n)) xs)"

lemma set_py_take: "set (py_take n xs) \<subseteq> set xs"
  by (auto simp: py_take_def dest: in_set_takeD)

lemma distinct_py_take: "distinct xs \<Longrightarrow> distinct (py_take n xs)"
  by (simp add: py_take_def)

lemma length_py_take: "0 \<le> n \<Longrightarrow> int (length (py_take n xs)) \<le> n"
  by (simp add: py_take_def)

lemma py_take_map: "py_take n (map f xs) = map f (py_take n xs)"
  by (simp add: py_take_def take_map)

lemma py_take_Nil_iff: "0 < n \<Longrightarrow> py_take n xs = [] \<longleftrightarrow> xs = []"
  by (simp add: py_take_def)

text \<open>\<open>text.startswith(p)\<close> with the rest of the text after the prefix.\<close>

fun strip_prefix :: "string \<Rightarrow> string \<Rightarrow> string option" where
  "strip_prefix [] s = Some s"
| "strip_prefix (c # p) [] = None"
| "strip_prefix (c # p) (d # s) = (if c = d then strip_prefix p s else None)"

lemma strip_prefix_Some: "strip_prefix p s = Some r \<longleftrightarrow> s = p @ r"
  by (induction p s rule: strip_prefix.induct) auto

text \<open>The regular-expression class \<open>[A-Za-z0-9_]\<close>.\<close>

definition is_word_char :: "char \<Rightarrow> bool" where
  "is_word_char c = (let n = of_char c :: int in
     65 \<le> n \<and> n \<le> 90 \<or> 97 \<le> n \<and> n \<le> 122 \<or> 48 \<le> n \<and> n \<le> 57 \<or> n = 95)"

text \<open>\<open>str(n)\<close> of an integer.\<close>

definition digit_char :: "int \<Rightarrow> char" where
  "digit_char d = char_of (48 + d)"

function show_pos :: "int \<Rightarrow> string" where
  "show_pos n = (if n < 10 then [digit_char n] else show_pos (n div 10) @ [digit_char (n mod 10)])"
  by pat_completeness auto
termination
  by (relation "measure nat") auto

declare show_pos.simps [simp del]

definition show_int :: "int \<Rightarrow> string" where
  "show_int i = (if i < 0 then ''-'' @ show_pos (- i) else show_pos i)"

lemma find_append_left: "find P xs = Some r \<Longrightarrow> find P (xs @ ys) = Some r"
  by (induction xs) auto

lemma find_mem: "find P xs = Some x \<Longrightarrow> P x \<and> x \<in> set xs"
  by (induction xs) (auto split: if_splits)

lemma find_distinct: "distinct (map f xs) \<Longrightarrow> x \<in> set xs \<Longrightarrow> find (\<lambda>y. f y = f x) xs = Some x"
  by (induction xs) (auto simp: image_iff)

section \<open>Loops that a rank drives to an end\<close>

text \<open>
  A loop consumes a stream of inputs; a step continues with a new state or stops with a
  result. The rank never grows, and shrinks on every \<open>busy\<close> input that does not stop the
  loop: then the loop stops as soon as it has seen enough busy inputs.
\<close>

locale ranked_loop =
  fixes step :: "'i \<Rightarrow> 's \<Rightarrow> 's + 'r"
    and inv :: "'s \<Rightarrow> bool"
    and rank :: "'s \<Rightarrow> nat"
    and busy :: "'i \<Rightarrow> bool"
  assumes keep: "inv s \<Longrightarrow> step i s = Inl s' \<Longrightarrow> inv s' \<and> rank s' \<le> rank s"
    and progress: "inv s \<Longrightarrow> busy i \<Longrightarrow> step i s = Inl s' \<Longrightarrow> rank s' < rank s"
begin

fun loop :: "(nat \<Rightarrow> 'i) \<Rightarrow> nat \<Rightarrow> nat \<Rightarrow> 's \<Rightarrow> 'r option" where
  "loop env 0 k s = None"
| "loop env (Suc fuel) k s = (case step (env k) s of Inl s' \<Rightarrow> loop env fuel (Suc k) s' | Inr r \<Rightarrow> Some r)"

lemma loop_bound:
  "(\<And>j. busy (env j)) \<Longrightarrow> inv s \<Longrightarrow> rank s < fuel \<Longrightarrow> \<exists>r. loop env fuel k s = Some r"
proof (induction fuel arbitrary: k s)
  case (Suc fuel)
  show ?case
  proof (cases "step (env k) s")
    case (Inl s')
    with keep [OF Suc.prems(2)] progress [OF Suc.prems(2,1)] have "inv s'" "rank s' < rank s" by auto
    with Suc Inl show ?thesis by simp
  qed simp
qed simp

lemma loop_skip: "inv s \<Longrightarrow> (\<exists>fuel r. loop env fuel k s = Some r) \<or>
    (\<exists>s'. inv s' \<and> rank s' \<le> rank s \<and> (\<forall>fuel r. loop env fuel (k + n) s' = Some r \<longrightarrow> loop env (n + fuel) k s = Some r))"
proof (induction n arbitrary: k s)
  case 0
  then show ?case by auto
next
  case (Suc n)
  show ?case
  proof (cases "step (env k) s")
    case (Inl s')
    with keep [OF Suc.prems] have s': "inv s'" "rank s' \<le> rank s" by auto
    have ex: "\<exists>fuel r. loop env fuel k s = Some r" if "loop env f (Suc k) s' = Some r" for f r
      by (rule exI [of _ "Suc f"]) (use that Inl in simp)
    from Suc.IH [OF s'(1), of "Suc k"] ex show ?thesis
    proof (elim disjE exE conjE, goal_cases)
      case (2 u)
      then have "inv u \<and> rank u \<le> rank s \<and>
          (\<forall>fuel r. loop env fuel (k + Suc n) u = Some r \<longrightarrow> loop env (Suc n + fuel) k s = Some r)"
        using s' Inl by auto
      then show ?case by blast
    qed blast
  next
    case (Inr r)
    then have "loop env (Suc 0) k s = Some r" by simp
    then show ?thesis by blast
  qed
qed

lemma loop_stops:
  assumes often: "\<And>k. \<exists>j \<ge> k. busy (env j)" and "inv s"
  shows "\<exists>fuel r. loop env fuel k s = Some r"
  using assms(2)
proof (induction "rank s" arbitrary: s k rule: less_induct)
  case less
  obtain j where j: "k \<le> j" "busy (env j)" using often by blast
  from loop_skip [OF less.prems, of env k "j - k"] show ?case
  proof (elim disjE exE conjE)
    fix u
    assume u: "inv u" "rank u \<le> rank s"
      and again: "\<forall>fuel r. loop env fuel (k + (j - k)) u = Some r \<longrightarrow> loop env (j - k + fuel) k s = Some r"
    have "\<exists>fuel r. loop env fuel j u = Some r"
    proof (cases "step (env j) u")
      case (Inl u')
      with keep [OF u(1)] progress [OF u(1) j(2)] u(2) have "inv u'" "rank u' < rank s" by auto
      then obtain f r where "loop env f (Suc j) u' = Some r" using less.hyps by blast
      with Inl have "loop env (Suc f) j u = Some r" by simp
      then show ?thesis by blast
    next
      case (Inr r)
      then have "loop env (Suc 0) j u = Some r" by simp
      then show ?thesis by blast
    qed
    with again j(1) show ?thesis by auto
  qed blast
qed

end

end
