(* ===== verification/States.thy ===== *)
theory States
  imports Forge_Prelude
begin

text \<open>
  \<^verbatim>\<open>dft_forge/runtime/states.py\<close>: the node and run state machines.
  \<open>ALLOWED_NODE_TRANSITIONS\<close> is the transition table, \<open>can_transition\<close> its
  test, \<open>determine_run_status\<close> the aggregation of the node states of a finished run.
  The locale \<open>lifecycle\<close> states what the scheduler relies on: terminal states are
  left only by an explicit return to the initial state.
\<close>

section \<open>The two enumerations\<close>

datatype node_state =
  PENDING | READY | RUNNING | REPAIRING | SUCCEEDED | FAILED | BLOCKED | SKIPPED | CANCELLED

datatype run_state =
    R_CREATED | R_VALIDATED | R_RUNNING | R_PAUSED
  | R_SUCCEEDED | R_FAILED | R_CANCELLED | R_PARTIALLY_SUCCEEDED

fun node_state_value :: "node_state \<Rightarrow> string" where
  "node_state_value PENDING = ''pending''"
| "node_state_value READY = ''ready''"
| "node_state_value RUNNING = ''running''"
| "node_state_value REPAIRING = ''repairing''"
| "node_state_value SUCCEEDED = ''succeeded''"
| "node_state_value FAILED = ''failed''"
| "node_state_value BLOCKED = ''blocked''"
| "node_state_value SKIPPED = ''skipped''"
| "node_state_value CANCELLED = ''cancelled''"

fun run_state_value :: "run_state \<Rightarrow> string" where
  "run_state_value R_CREATED = ''created''"
| "run_state_value R_VALIDATED = ''validated''"
| "run_state_value R_RUNNING = ''running''"
| "run_state_value R_PAUSED = ''paused''"
| "run_state_value R_SUCCEEDED = ''succeeded''"
| "run_state_value R_FAILED = ''failed''"
| "run_state_value R_CANCELLED = ''cancelled''"
| "run_state_value R_PARTIALLY_SUCCEEDED = ''partially_succeeded''"

text \<open>The states can be enumerated, so quantifiers over them evaluate.\<close>

instantiation node_state :: enum
begin

definition enum_node_state :: "node_state list" where
  "enum_node_state = [PENDING, READY, RUNNING, REPAIRING, SUCCEEDED, FAILED, BLOCKED, SKIPPED, CANCELLED]"

definition enum_all_node_state :: "(node_state \<Rightarrow> bool) \<Rightarrow> bool" where
  "enum_all_node_state P = list_all P enum_class.enum"

definition enum_ex_node_state :: "(node_state \<Rightarrow> bool) \<Rightarrow> bool" where
  "enum_ex_node_state P = list_ex P enum_class.enum"

instance proof
  show U: "(UNIV :: node_state set) = set enum_class.enum"
    by (auto simp: enum_node_state_def intro: node_state.exhaust)
  show "distinct (enum_class.enum :: node_state list)"
    by (simp add: enum_node_state_def)
  fix P :: "node_state \<Rightarrow> bool"
  show "enum_class.enum_all P \<longleftrightarrow> Ball UNIV P"
    by (simp only: U enum_all_node_state_def list_all_iff)
  show "enum_class.enum_ex P \<longleftrightarrow> Bex UNIV P"
    by (simp only: U enum_ex_node_state_def list_ex_iff)
qed

end

instantiation run_state :: enum
begin

definition enum_run_state :: "run_state list" where
  "enum_run_state = [R_CREATED, R_VALIDATED, R_RUNNING, R_PAUSED, R_SUCCEEDED, R_FAILED,
     R_CANCELLED, R_PARTIALLY_SUCCEEDED]"

definition enum_all_run_state :: "(run_state \<Rightarrow> bool) \<Rightarrow> bool" where
  "enum_all_run_state P = list_all P enum_class.enum"

definition enum_ex_run_state :: "(run_state \<Rightarrow> bool) \<Rightarrow> bool" where
  "enum_ex_run_state P = list_ex P enum_class.enum"

instance proof
  show U: "(UNIV :: run_state set) = set enum_class.enum"
    by (auto simp: enum_run_state_def intro: run_state.exhaust)
  show "distinct (enum_class.enum :: run_state list)"
    by (simp add: enum_run_state_def)
  fix P :: "run_state \<Rightarrow> bool"
  show "enum_class.enum_all P \<longleftrightarrow> Ball UNIV P"
    by (simp only: U enum_all_run_state_def list_all_iff)
  show "enum_class.enum_ex P \<longleftrightarrow> Bex UNIV P"
    by (simp only: U enum_ex_run_state_def list_ex_iff)
qed

end

text \<open>\<open>NodeState(text)\<close> and \<open>RunState(text)\<close>: the member with that value, or ValueError.\<close>

definition parse_node_state :: "string \<Rightarrow> node_state option" where
  "parse_node_state v = find (\<lambda>s. node_state_value s = v) enum_class.enum"

definition parse_run_state :: "string \<Rightarrow> run_state option" where
  "parse_run_state v = find (\<lambda>s. run_state_value s = v) enum_class.enum"

lemma parse_node_state_value [simp]: "parse_node_state (node_state_value s) = Some s"
  by (cases s) (simp_all add: parse_node_state_def enum_node_state_def)

lemma parse_run_state_value [simp]: "parse_run_state (run_state_value s) = Some s"
  by (cases s) (simp_all add: parse_run_state_def enum_run_state_def)

section \<open>Terminal states and the transition table\<close>

definition TERMINAL_NODE_STATES :: "node_state set" where
  "TERMINAL_NODE_STATES = {SUCCEEDED, FAILED, BLOCKED, SKIPPED, CANCELLED}"

definition TERMINAL_RUN_STATES :: "run_state set" where
  "TERMINAL_RUN_STATES = {R_SUCCEEDED, R_FAILED, R_CANCELLED, R_PARTIALLY_SUCCEEDED}"

fun ALLOWED_NODE_TRANSITIONS :: "node_state \<Rightarrow> node_state set" where
  "ALLOWED_NODE_TRANSITIONS PENDING = {READY, BLOCKED, SKIPPED, CANCELLED}"
| "ALLOWED_NODE_TRANSITIONS READY = {RUNNING, SKIPPED, CANCELLED}"
| "ALLOWED_NODE_TRANSITIONS RUNNING = {SUCCEEDED, FAILED, REPAIRING, READY, CANCELLED}"
| "ALLOWED_NODE_TRANSITIONS REPAIRING = {READY, FAILED, CANCELLED}"
| "ALLOWED_NODE_TRANSITIONS SUCCEEDED = {}"
| "ALLOWED_NODE_TRANSITIONS FAILED = {PENDING}"
| "ALLOWED_NODE_TRANSITIONS BLOCKED = {PENDING}"
| "ALLOWED_NODE_TRANSITIONS SKIPPED = {}"
| "ALLOWED_NODE_TRANSITIONS CANCELLED = {PENDING}"

definition can_transition :: "node_state \<Rightarrow> node_state \<Rightarrow> bool" where
  "can_transition source target = (target \<in> ALLOWED_NODE_TRANSITIONS source)"

definition determine_run_status :: "node_state list \<Rightarrow> run_state" where
  "determine_run_status node_states =
     (if node_states = [] then R_FAILED
      else
        let all_succeeded = list_all (\<lambda>s. s = SUCCEEDED) node_states;
            any_succeeded = list_ex (\<lambda>s. s = SUCCEEDED) node_states;
            any_cancelled = list_ex (\<lambda>s. s = CANCELLED) node_states
        in if all_succeeded then R_SUCCEEDED
           else if any_cancelled \<and> \<not> any_succeeded then R_CANCELLED
           else if any_succeeded then R_PARTIALLY_SUCCEEDED
           else R_FAILED)"

lemma determine_run_status_terminal: "determine_run_status ss \<in> TERMINAL_RUN_STATES"
  by (simp add: determine_run_status_def TERMINAL_RUN_STATES_def Let_def)

lemma determine_run_status_set: "set xs = set ys \<Longrightarrow> determine_run_status xs = determine_run_status ys"
  by (cases "xs = []") (auto simp: determine_run_status_def list_all_iff list_ex_iff)

section \<open>Life cycles\<close>

text \<open>
  What a user of a state machine relies on: a terminal state is left only for the
  initial state, so a path that never goes back to the initial state stays in the first
  terminal state it reaches.
\<close>

locale lifecycle =
  fixes step :: "'s \<Rightarrow> 's \<Rightarrow> bool"
    and initial :: 's
    and terminal :: "'s set"
  assumes initial_not_terminal: "initial \<notin> terminal"
    and terminal_exit: "s \<in> terminal \<Longrightarrow> step s t \<Longrightarrow> t = initial"
begin

definition forward :: "'s \<Rightarrow> 's \<Rightarrow> bool" where
  "forward s t = (step s t \<and> t \<noteq> initial)"

lemma forward_terminal: "forward s t \<Longrightarrow> s \<notin> terminal"
  by (auto simp: forward_def dest: terminal_exit)

lemma forward_path_terminal: "forward\<^sup>*\<^sup>* s t \<Longrightarrow> s \<in> terminal \<Longrightarrow> t = s"
  by (erule converse_rtranclpE) (auto dest: forward_terminal)

lemma forward_path_initial: "forward\<^sup>*\<^sup>* s initial \<Longrightarrow> s = initial"
  by (erule rtranclp.cases) (auto simp: forward_def)

lemma reopened_through_initial:
  "step\<^sup>*\<^sup>* s t \<Longrightarrow> s \<in> terminal \<Longrightarrow> t \<noteq> s \<Longrightarrow> step s initial \<and> step\<^sup>*\<^sup>* initial t"
  by (erule converse_rtranclpE) (auto dest: terminal_exit)

end

interpretation nodes_lc: lifecycle can_transition PENDING TERMINAL_NODE_STATES
  by unfold_locales (auto simp: TERMINAL_NODE_STATES_def can_transition_def)

abbreviation node_forward :: "node_state \<Rightarrow> node_state \<Rightarrow> bool" where
  "node_forward \<equiv> nodes_lc.forward"

lemma node_forwardI: "can_transition s t \<Longrightarrow> t \<noteq> PENDING \<Longrightarrow> node_forward s t"
  by (simp add: nodes_lc.forward_def)

section \<open>Properties\<close>

text \<open>
  A terminal node state is left only by the explicit return to Pending, Succeeded and
  Skipped are never left, and every other state can still reach a terminal one.
\<close>

theorem node_terminal_states:
  "(s \<in> TERMINAL_NODE_STATES \<longleftrightarrow> ALLOWED_NODE_TRANSITIONS s \<subseteq> {PENDING})
   \<and> (ALLOWED_NODE_TRANSITIONS s = {} \<longleftrightarrow> s = SUCCEEDED \<or> s = SKIPPED)
   \<and> (\<exists>t \<in> TERMINAL_NODE_STATES. can_transition\<^sup>*\<^sup>* s t)"
proof -
  have "can_transition\<^sup>*\<^sup>* s CANCELLED \<or> s \<in> TERMINAL_NODE_STATES"
    by (cases s) (auto simp: TERMINAL_NODE_STATES_def can_transition_def)
  then have "\<exists>t \<in> TERMINAL_NODE_STATES. can_transition\<^sup>*\<^sup>* s t"
    by (auto simp: TERMINAL_NODE_STATES_def)
  then show ?thesis
    by (cases s) (simp_all add: TERMINAL_NODE_STATES_def)
qed

text \<open>
  The status of a finished run is exactly the documented priority: all succeeded, then
  cancelled without any success, then any success, then failed; it is always terminal.
\<close>

theorem run_status_priority:
  "determine_run_status ss =
     (if ss \<noteq> [] \<and> set ss = {SUCCEEDED} then R_SUCCEEDED
      else if SUCCEEDED \<in> set ss then R_PARTIALLY_SUCCEEDED
      else if CANCELLED \<in> set ss then R_CANCELLED
      else R_FAILED)
   \<and> determine_run_status ss \<in> TERMINAL_RUN_STATES"
proof -
  have "list_all (\<lambda>s. s = SUCCEEDED) ss \<longleftrightarrow> set ss = {SUCCEEDED}" if "ss \<noteq> []"
    using that by (cases ss) (auto simp: list_all_iff)
  then show ?thesis
    by (auto simp: determine_run_status_def TERMINAL_RUN_STATES_def Let_def list_ex_iff)
qed

end
