(* ===== verification/Cycle.thy ===== *)
theory Cycle
  imports Forge_Prelude
begin

text \<open>
  \<^verbatim>\<open>GraphTemplate._detect_cycle\<close> of \<^verbatim>\<open>dft_forge/runtime/graph.py\<close>: a
  three-colour depth-first search over the dependency lists. The mutable \<open>color\<close>
  dictionary and \<open>path\<close> list are the state \<open>(c, p)\<close> the calls thread; \<open>Inl\<close> is a
  returned cycle, \<open>Inr\<close> a search that ended without one. \<open>color\<close> and \<open>adj\<close> have the
  same keys, so \<open>dep in color\<close> is membership in the keys of \<open>adj\<close>.
\<close>

section \<open>The search\<close>

datatype color = WHITE | GRAY | BLACK

type_synonym 'a adj = "('a \<times> 'a list) list"

type_synonym 'a dfs_state = "('a \<Rightarrow> color) \<times> 'a list"

definition adj_get :: "'a adj \<Rightarrow> 'a \<Rightarrow> 'a list" where
  "adj_get adj v = (case map_of adj v of None \<Rightarrow> [] | Some ds \<Rightarrow> ds)"

definition whites :: "'a adj \<Rightarrow> ('a \<Rightarrow> color) \<Rightarrow> 'a set" where
  "whites adj c = {v \<in> fst ` set adj. c v = WHITE}"

function (sequential)
  dfs :: "'a adj \<Rightarrow> 'a \<Rightarrow> 'a dfs_state \<Rightarrow> 'a list + 'a dfs_state" and
  dfs_deps :: "'a adj \<Rightarrow> 'a list \<Rightarrow> 'a dfs_state \<Rightarrow> 'a list + 'a dfs_state"
where
  "dfs adj v (c, p) =
     (if c v = GRAY then Inl (dropWhile (\<lambda>x. x \<noteq> v) p @ [v])
      else if c v = BLACK then Inr (c, p)
      else (case dfs_deps adj (adj_get adj v) (c(v := GRAY), p @ [v]) of
              Inl found \<Rightarrow> Inl found
            | Inr (c', p') \<Rightarrow> Inr (c'(v := BLACK), butlast p')))"
| "dfs_deps adj [] s = Inr s"
| "dfs_deps adj (d # ds) s =
     (if d \<in> fst ` set adj then
        (case dfs adj d s of Inl found \<Rightarrow> Inl found | Inr s' \<Rightarrow> dfs_deps adj ds s')
      else dfs_deps adj ds s)"
  by pat_completeness auto

lemma finite_whites [simp]: "finite (whites adj c)"
  by (simp add: whites_def)

lemma whites_shrink:
  "dfs_dfs_deps_dom (Inl (adj, v, s)) \<Longrightarrow> dfs adj v s = Inr s' \<Longrightarrow> whites adj (fst s') \<subseteq> whites adj (fst s)"
  "dfs_dfs_deps_dom (Inr (adj, ds, s)) \<Longrightarrow> dfs_deps adj ds s = Inr s' \<Longrightarrow> whites adj (fst s') \<subseteq> whites adj (fst s)"
proof (induction arbitrary: s' and s' rule: dfs_dfs_deps.pinduct)
  case (1 adj v c p)
  show ?case
  proof (cases "c v = WHITE")
    case True
    with "1.prems" obtain c1 p1 where r: "dfs_deps adj (adj_get adj v) (c(v := GRAY), p @ [v]) = Inr (c1, p1)"
      and s': "s' = (c1(v := BLACK), butlast p1)"
      by (auto simp: dfs.psimps [OF "1.hyps"] split: sum.splits)
    have "whites adj c1 \<subseteq> whites adj (c(v := GRAY))"
      using "1.IH" [OF _ _ r] True by (simp add: fun_upd_def)
    then show ?thesis
      by (auto simp: whites_def s' split: if_splits)
  next
    case False
    then show ?thesis
      using "1.prems" by (cases "c v") (auto simp: dfs.psimps [OF "1.hyps"])
  qed
next
  case (2 adj s)
  then show ?case by (simp add: dfs_deps.psimps)
next
  case (3 adj d ds s)
  show ?case
  proof (cases "d \<in> fst ` set adj")
    case True
    with "3.prems" obtain s1 where r: "dfs adj d s = Inr s1" "dfs_deps adj ds s1 = Inr s'"
      by (auto simp: dfs_deps.psimps(2) [OF "3.hyps"] split: sum.splits)
    with "3.IH"(1,2) True show ?thesis by blast
  next
    case False
    with "3.prems" "3.IH"(3) show ?thesis
      by (simp add: dfs_deps.psimps(2) [OF "3.hyps"])
  qed
qed

termination dfs
proof (relation "inv_image (less_than <*lex*> less_than)
    (\<lambda>x. case x of Inl (adj, v, s) \<Rightarrow> (card (whites adj (fst s)), 1)
       | Inr (adj, ds, s) \<Rightarrow> (card (whites adj (fst s)), 2 * length ds))", goal_cases)
  case 1
  show ?case by auto
next
  case (2 adj v c p)
  show ?case
  proof (cases "v \<in> fst ` set adj")
    case True
    with 2 have "whites adj (c(v := GRAY)) \<subset> whites adj c"
      by (cases "c v") (auto simp: whites_def)
    then show ?thesis
      by (simp add: psubset_card_mono)
  next
    case False
    then have "map_of adj v = None" and "whites adj (c(v := GRAY)) = whites adj c"
      by (auto simp: map_of_eq_None_iff whites_def)
    then show ?thesis by (simp add: adj_get_def)
  qed
next
  case (4 adj d ds s s')
  then have "card (whites adj (fst s')) \<le> card (whites adj (fst s))"
    by (intro card_mono whites_shrink(1)) auto
  then show ?case by auto
qed auto

declare dfs.simps [simp del]

fun detect_from :: "'a adj \<Rightarrow> 'a list \<Rightarrow> 'a dfs_state \<Rightarrow> 'a list option" where
  "detect_from adj [] s = None"
| "detect_from adj (n # ns) (c, p) =
     (if c n = WHITE then
        (case dfs adj n (c, p) of Inl found \<Rightarrow> Some found | Inr s' \<Rightarrow> detect_from adj ns s')
      else detect_from adj ns (c, p))"


section \<open>Correctness of the search\<close>

definition edges :: "'a adj \<Rightarrow> ('a \<times> 'a) set" where
  "edges adj = {(v, w). w \<in> set (adj_get adj v) \<and> w \<in> fst ` set adj}"

definition is_cycle :: "('a \<times> 'a) set \<Rightarrow> 'a list \<Rightarrow> bool" where
  "is_cycle E xs \<longleftrightarrow> 2 \<le> length xs \<and> hd xs = last xs \<and> successively (\<lambda>a b. (a, b) \<in> E) xs"

text \<open>
  The state the search keeps: the path holds exactly the grey nodes and follows edges, and
  the black nodes are closed under edges and lie on no cycle.
\<close>

definition dfs_inv :: "'a adj \<Rightarrow> 'a dfs_state \<Rightarrow> bool" where
  "dfs_inv adj s \<longleftrightarrow>
     distinct (snd s) \<and> set (snd s) = {v. fst s v = GRAY} \<and>
     successively (\<lambda>a b. (a, b) \<in> edges adj) (snd s) \<and>
     (\<forall>v w. fst s v = BLACK \<longrightarrow> (v, w) \<in> edges adj \<longrightarrow> fst s w = BLACK) \<and>
     (\<forall>v. fst s v = BLACK \<longrightarrow> (v, v) \<notin> (edges adj)\<^sup>+)"

definition dfs_post :: "'a adj \<Rightarrow> 'a set \<Rightarrow> 'a dfs_state \<Rightarrow> 'a list + 'a dfs_state \<Rightarrow> bool" where
  "dfs_post adj D s r = (case r of
     Inl found \<Rightarrow> is_cycle (edges adj) found
   | Inr s' \<Rightarrow> dfs_inv adj s' \<and> snd s' = snd s \<and> (\<forall>v \<in> D. fst s' v = BLACK) \<and>
       (\<forall>v. fst s v = BLACK \<longrightarrow> fst s' v = BLACK))"

lemma trancl_in_closed:
  "(v, w) \<in> E\<^sup>+ \<Longrightarrow> v \<in> B \<Longrightarrow> (\<And>x y. x \<in> B \<Longrightarrow> (x, y) \<in> E \<Longrightarrow> y \<in> B) \<Longrightarrow> w \<in> B"
  by (induction rule: trancl_induct) auto

lemma successively_snoc:
  "successively P (xs @ [x]) \<longleftrightarrow> successively P xs \<and> (xs \<noteq> [] \<longrightarrow> P (last xs) x)"
  by (auto simp: successively_append_iff)

lemma gray_is_cycle:
  assumes inv: "dfs_inv adj (c, p)" and "c v = GRAY" and "(last p, v) \<in> edges adj"
  shows "is_cycle (edges adj) (dropWhile (\<lambda>x. x \<noteq> v) p @ [v])"
proof -
  let ?q = "dropWhile (\<lambda>x. x \<noteq> v) p"
  have "v \<in> set p" using inv assms(2) by (simp add: dfs_inv_def)
  then have q: "?q \<noteq> []" by (simp add: dropWhile_eq_Nil_conv)
  then have hd: "hd ?q = v" using hd_dropWhile [of "\<lambda>x. x \<noteq> v" p] by simp
  have p: "p = takeWhile (\<lambda>x. x \<noteq> v) p @ ?q" by simp
  then have "last ?q = last p" using q by (metis last_appendR)
  moreover have "successively (\<lambda>a b. (a, b) \<in> edges adj) ?q"
    using inv p unfolding dfs_inv_def by (metis snd_conv successively_append_iff)
  ultimately show ?thesis
    using q hd assms(3) by (auto simp: is_cycle_def successively_snoc Suc_le_eq)
qed

lemma dfs_inv_push:
  assumes "dfs_inv adj (c, p)" and "c v = WHITE" and "p \<noteq> [] \<longrightarrow> (last p, v) \<in> edges adj"
  shows "dfs_inv adj (c(v := GRAY), p @ [v])"
  using assms by (auto simp: dfs_inv_def successively_snoc)

lemma dfs_inv_pop:
  assumes inv: "dfs_inv adj (c', p @ [v])" and succ: "\<And>w. (v, w) \<in> edges adj \<Longrightarrow> c' w = BLACK"
  shows "dfs_inv adj (c'(v := BLACK), p)"
proof -
  have v: "c' v = GRAY" using inv by (auto simp: dfs_inv_def)
  have "(v, v) \<notin> (edges adj)\<^sup>+"
  proof
    assume "(v, v) \<in> (edges adj)\<^sup>+"
    then obtain w where w: "(v, w) \<in> edges adj" "(w, v) \<in> (edges adj)\<^sup>*"
      by (meson tranclD)
    have "c' u = BLACK" if "(w, u) \<in> (edges adj)\<^sup>*" for u
      using that inv succ [OF w(1)] by (induction rule: rtrancl_induct) (auto simp: dfs_inv_def)
    with v w(2) show False by force
  qed
  with inv succ v show ?thesis
    by (auto simp: dfs_inv_def successively_snoc)
qed

lemma dfs_correct:
  "dfs_inv adj s \<Longrightarrow> (snd s \<noteq> [] \<longrightarrow> (last (snd s), v) \<in> edges adj) \<Longrightarrow>
     (snd s = [] \<longrightarrow> fst s v = WHITE) \<Longrightarrow> dfs_post adj {v} s (dfs adj v s)"
  "dfs_inv adj s \<Longrightarrow> snd s \<noteq> [] \<Longrightarrow> (\<And>d. d \<in> set ds \<Longrightarrow> d \<in> fst ` set adj \<Longrightarrow> (last (snd s), d) \<in> edges adj) \<Longrightarrow>
     dfs_post adj (set ds \<inter> fst ` set adj) s (dfs_deps adj ds s)"
proof (induction adj v s and adj ds s rule: dfs_dfs_deps.induct)
  case (1 adj v c p)
  show ?case
  proof (cases "c v")
    case GRAY
    then have "p \<noteq> []" using "1.prems" by auto
    with "1.prems" GRAY show ?thesis
      by (simp add: dfs.simps dfs_post_def gray_is_cycle)
  next
    case BLACK
    with "1.prems" show ?thesis by (simp add: dfs.simps dfs_post_def)
  next
    case WHITE
    let ?s1 = "(c(v := GRAY), p @ [v])"
    have inv1: "dfs_inv adj ?s1" using "1.prems" WHITE by (intro dfs_inv_push) auto
    have post: "dfs_post adj (set (adj_get adj v) \<inter> fst ` set adj) ?s1 (dfs_deps adj (adj_get adj v) ?s1)"
      using "1.IH" WHITE inv1 by (auto simp: edges_def)
    show ?thesis
    proof (cases "dfs_deps adj (adj_get adj v) ?s1")
      case (Inl found)
      with post WHITE show ?thesis by (simp add: dfs.simps dfs_post_def)
    next
      case (Inr s')
      obtain c' p' where s': "s' = (c', p')" by force
      with post Inr have "dfs_inv adj (c', p @ [v])" and p': "p' = p @ [v]"
        and "\<And>w. (v, w) \<in> edges adj \<Longrightarrow> c' w = BLACK"
        and mono: "\<And>u. u \<noteq> v \<Longrightarrow> c u = BLACK \<Longrightarrow> c' u = BLACK"
        by (auto simp: dfs_post_def edges_def)
      then have "dfs_inv adj (c'(v := BLACK), p)" by (intro dfs_inv_pop)
      with Inr s' p' mono WHITE show ?thesis
        by (auto simp: dfs.simps dfs_post_def)
    qed
  qed
next
  case (2 adj s)
  then show ?case by (simp add: dfs_post_def)
next
  case (3 adj d ds s)
  show ?case
  proof (cases "d \<in> fst ` set adj")
    case True
    with "3.IH"(1) "3.prems" have post: "dfs_post adj {d} s (dfs adj d s)" by simp
    show ?thesis
    proof (cases "dfs adj d s")
      case (Inl found)
      with post True show ?thesis by (simp add: dfs_post_def)
    next
      case (Inr s')
      with post have s': "dfs_inv adj s'" "snd s' = snd s" "fst s' d = BLACK"
        "\<And>v. fst s v = BLACK \<Longrightarrow> fst s' v = BLACK"
        by (auto simp: dfs_post_def)
      with "3.IH"(2) [OF True Inr] "3.prems"
      have "dfs_post adj (set ds \<inter> fst ` set adj) s' (dfs_deps adj ds s')" by simp
      with s' Inr True show ?thesis by (auto simp: dfs_post_def split: sum.splits del: imageE)
    qed
  next
    case False
    with "3" show ?thesis by (simp add: dfs_post_def split: sum.splits)
  qed
qed

lemma detect_from_correct:
  assumes "dfs_inv adj (c, [])" and "set ns \<subseteq> fst ` set adj"
    and "\<And>v. v \<in> fst ` set adj \<Longrightarrow> v \<notin> set ns \<Longrightarrow> c v = BLACK"
  shows "case detect_from adj ns (c, []) of
      Some found \<Rightarrow> is_cycle (edges adj) found | None \<Rightarrow> acyclic (edges adj)"
  using assms
proof (induction ns arbitrary: c)
  case Nil
  have "(v, v) \<notin> (edges adj)\<^sup>+" for v
  proof
    assume c: "(v, v) \<in> (edges adj)\<^sup>+"
    then obtain u where "(u, v) \<in> edges adj" by (meson tranclD2)
    then have "c v = BLACK" using Nil.prems(3) by (auto simp: edges_def)
    with c Nil.prems(1) show False by (auto simp: dfs_inv_def)
  qed
  then show ?case by (simp add: acyclic_def)
next
  case (Cons n ns)
  show ?case
  proof (cases "c n = WHITE")
    case True
    with Cons.prems have post: "dfs_post adj {n} (c, []) (dfs adj n (c, []))"
      by (intro dfs_correct) auto
    show ?thesis
    proof (cases "dfs adj n (c, [])")
      case (Inl found)
      with post True show ?thesis by (simp add: dfs_post_def)
    next
      case (Inr s')
      with post obtain c' where "s' = (c', [])" "dfs_inv adj (c', [])" "c' n = BLACK"
        "\<And>v. c v = BLACK \<Longrightarrow> c' v = BLACK"
        by (cases s') (auto simp: dfs_post_def)
      with Cons.IH [of c'] Cons.prems True Inr show ?thesis by (auto del: imageE)
    qed
  next
    case False
    then have "c n = BLACK" using Cons.prems(1) by (cases "c n") (auto simp: dfs_inv_def)
    with Cons.prems(3) have "c v = BLACK" if "v \<in> fst ` set adj" "v \<notin> set ns" for v
      using that by (cases "v = n") auto
    with Cons.IH [of c] Cons.prems(1,2) \<open>c n = BLACK\<close> show ?thesis by simp
  qed
qed

definition detect_cycle :: "'a adj \<Rightarrow> 'a list \<Rightarrow> 'a list option" where
  "detect_cycle adj ns = detect_from adj ns (\<lambda>_. WHITE, [])"

lemma is_cycle_not_acyclic:
  assumes "is_cycle E xs" shows "\<not> acyclic E"
proof -
  have path: "(hd ys, last ys) \<in> E\<^sup>+" if "2 \<le> length ys" "successively (\<lambda>a b. (a, b) \<in> E) ys" for ys
    using that
  proof (induction ys)
    case (Cons a ys)
    then obtain b zs where ys: "ys = b # zs" by (cases ys) auto
    show ?case
    proof (cases zs)
      case Nil
      with Cons.prems ys show ?thesis by auto
    next
      case (Cons c ws)
      with Cons.IH Cons.prems ys have "(b, last ys) \<in> E\<^sup>+" "(a, b) \<in> E" by auto
      with ys show ?thesis by (auto intro: trancl_into_trancl2)
    qed
  qed simp
  with assms have "(hd xs, hd xs) \<in> E\<^sup>+" unfolding is_cycle_def by metis
  then show ?thesis by (auto simp: acyclic_def)
qed

lemma detect_cycle_sound:
  assumes "set ns = fst ` set adj"
  shows "detect_cycle adj ns = Some found \<Longrightarrow> is_cycle (edges adj) found"
    and "detect_cycle adj ns = None \<longleftrightarrow> acyclic (edges adj)"
proof -
  have "dfs_inv adj (\<lambda>_. WHITE, [])" by (simp add: dfs_inv_def)
  then have r: "case detect_cycle adj ns of
      Some found \<Rightarrow> is_cycle (edges adj) found | None \<Rightarrow> acyclic (edges adj)"
    unfolding detect_cycle_def using assms by (intro detect_from_correct) auto
  then show "detect_cycle adj ns = Some found \<Longrightarrow> is_cycle (edges adj) found" by simp
  from r show "detect_cycle adj ns = None \<longleftrightarrow> acyclic (edges adj)"
    by (auto split: option.splits dest: is_cycle_not_acyclic)
qed

end
