(* ===== verification/Graph.thy ===== *)
theory Graph
  imports Cycle
begin

text \<open>
  \<^verbatim>\<open>dft_forge/runtime/graph.py\<close>: declarative graph templates, their validation
  and their dictionary form. \<open>NodeSpec\<close> and \<open>GraphTemplate\<close> are records. A validation
  message is a constructor of \<open>tmpl_error\<close> that carries what the message interpolates;
  \<open>validate\<close> returns them in the order the code appends them. The cycle search is in
  theory \<open>Cycle\<close>.
\<close>

section \<open>Templates\<close>

record node_spec =
  ns_id :: string
  ns_tool :: string
  ns_params :: "pyval pydict"
  ns_depends_on :: "string list"
  ns_max_attempts :: int
  ns_max_repair_attempts :: int
  ns_repair :: "string option"
  ns_timeout_seconds :: "pyfloat option"
  ns_execution_mode :: string

record graph_template =
  template_id :: string
  description :: string
  t_nodes :: "node_spec list"
  t_inputs :: "pyval pydict"
  t_outputs :: "pyval pydict"

definition template_node :: "graph_template \<Rightarrow> string \<Rightarrow> node_spec option" where
  "template_node t nid = find (\<lambda>n. ns_id n = nid) (t_nodes t)"

abbreviation t_ids :: "graph_template \<Rightarrow> string list" where
  "t_ids t \<equiv> map ns_id (t_nodes t)"

section \<open>References\<close>

text \<open>
  \<open>PARAM_REF_RE\<close> as a scanner: \<open>${inputs.k}\<close>, \<open>${nodes.k}\<close> and
  \<open>${nodes.k.outputs.o}\<close> give scope, key and output key. The word class has neither
  \<open>.\<close> nor \<open>}\<close>, so the longest word is the only split the pattern can take.
  \<open>fin\<close> is what may follow the closing brace: nothing for \<open>fullmatch\<close>, nothing or one
  newline for \<open>match\<close> with \<open>$\<close>.
\<close>

definition span_word :: "string \<Rightarrow> string \<times> string" where
  "span_word s = (takeWhile is_word_char s, dropWhile is_word_char s)"

definition scan_key :: "(string \<Rightarrow> bool) \<Rightarrow> string \<Rightarrow> (string \<times> string option) option" where
  "scan_key fin r =
     (let (key, rest) = span_word r in
      if key = [] then None
      else case strip_prefix ''}'' rest of
          Some tail \<Rightarrow> if fin tail then Some (key, None) else None
        | None \<Rightarrow>
            (case strip_prefix ''.outputs.'' rest of
               None \<Rightarrow> None
             | Some r2 \<Rightarrow>
                 (let (out, rest2) = span_word r2 in
                  if out = [] then None
                  else case strip_prefix ''}'' rest2 of
                      Some tail \<Rightarrow> if fin tail then Some (key, Some out) else None
                    | None \<Rightarrow> None)))"

definition scan_ref :: "(string \<Rightarrow> bool) \<Rightarrow> string \<Rightarrow> (string \<times> string \<times> string option) option" where
  "scan_ref fin s =
     (case strip_prefix ''${inputs.'' s of
        Some r \<Rightarrow> map_option (Pair ''inputs'') (scan_key fin r)
      | None \<Rightarrow>
          (case strip_prefix ''${nodes.'' s of
             Some r \<Rightarrow> map_option (Pair ''nodes'') (scan_key fin r)
           | None \<Rightarrow> None))"

definition fin_fullmatch :: "string \<Rightarrow> bool" where
  "fin_fullmatch tail = (tail = [])"

definition fin_dollar :: "string \<Rightarrow> bool" where
  "fin_dollar tail = (tail = [] \<or> tail = [CHR 0x0A])"

definition param_ref_fullmatch :: "string \<Rightarrow> (string \<times> string \<times> string option) option" where
  "param_ref_fullmatch s = scan_ref fin_fullmatch s"

definition output_ref_match :: "string \<Rightarrow> (string \<times> string) option" where
  "output_ref_match s =
     (case scan_ref fin_dollar s of
        Some (scope, key, Some out) \<Rightarrow> if scope = ''nodes'' then Some (key, out) else None
      | _ \<Rightarrow> None)"

definition node_id_fullmatch :: "string \<Rightarrow> bool" where
  "node_id_fullmatch s = (s \<noteq> [] \<and> list_all is_word_char s)"

fun iter_param_strings :: "pyval \<Rightarrow> string list"
  and iter_param_list :: "pyval list \<Rightarrow> string list"
  and iter_param_items :: "(string \<times> pyval) list \<Rightarrow> string list" where
  "iter_param_strings (PStr s) = [py_strip s]"
| "iter_param_strings (PDict kvs) = iter_param_items kvs"
| "iter_param_strings (PList vs) = iter_param_list vs"
| "iter_param_strings _ = []"
| "iter_param_list [] = []"
| "iter_param_list (v # vs) = iter_param_strings v @ iter_param_list vs"
| "iter_param_items [] = []"
| "iter_param_items ((k, v) # kvs) = iter_param_strings v @ iter_param_items kvs"

section \<open>Validation\<close>

datatype tmpl_error =
    EmptyTemplateId
  | NoNodes
  | DuplicateNodeIds
  | EmptyNodeId
  | UnsupportedChars string
  | EmptyTool string
  | MaxAttemptsBelowOne string
  | MaxRepairNegative string
  | TimeoutNotPositive string
  | BadExecutionMode string string
  | DuplicateDependencies string
  | UnknownDependency string string
  | SelfDependency string
  | MalformedRef string string
  | UnknownInputRef string string
  | NodeRefNeedsOutput string string
  | UnknownNodeRef string string
  | UndeclaredNodeRef string string
  | CycleDetected "string list"
  | BadOutputRef string
  | OutputUnknownNode string string
  | UnknownTool string string

definition check_param_ref :: "graph_template \<Rightarrow> node_spec \<Rightarrow> string \<Rightarrow> tmpl_error list" where
  "check_param_ref t n raw =
     (if strip_prefix ''${'' raw = None then []
      else case param_ref_fullmatch raw of
          None \<Rightarrow> [MalformedRef (ns_id n) raw]
        | Some (scope, key, output_key) \<Rightarrow>
            if scope = ''inputs'' \<and> (output_key \<noteq> None \<or> \<not> dmem key (t_inputs t))
            then [UnknownInputRef (ns_id n) key]
            else if scope = ''nodes'' then
              (if output_key = None then [NodeRefNeedsOutput (ns_id n) raw]
               else if key \<notin> set (t_ids t) then [UnknownNodeRef (ns_id n) key]
               else if key \<notin> set (ns_depends_on n) then [UndeclaredNodeRef (ns_id n) key]
               else [])
            else [])"

definition validate_node :: "graph_template \<Rightarrow> node_spec \<Rightarrow> tmpl_error list" where
  "validate_node t n =
     (if ns_id n \<noteq> [] \<and> \<not> node_id_fullmatch (ns_id n) then [UnsupportedChars (ns_id n)] else [])
     @ (if py_strip (ns_tool n) = [] then [EmptyTool (ns_id n)] else [])
     @ (if ns_max_attempts n < 1 then [MaxAttemptsBelowOne (ns_id n)] else [])
     @ (if ns_max_repair_attempts n < 0 then [MaxRepairNegative (ns_id n)] else [])
     @ (case ns_timeout_seconds n of
          None \<Rightarrow> []
        | Some f \<Rightarrow> if pf_le f (Fin 0) then [TimeoutNotPositive (ns_id n)] else [])
     @ (if ns_execution_mode n \<notin> {''local'', ''hpc''}
        then [BadExecutionMode (ns_id n) (ns_execution_mode n)] else [])
     @ (if \<not> distinct (ns_depends_on n) then [DuplicateDependencies (ns_id n)] else [])
     @ map (UnknownDependency (ns_id n)) (filter (\<lambda>d. d \<notin> set (t_ids t)) (ns_depends_on n))
     @ (if ns_id n \<in> set (ns_depends_on n) then [SelfDependency (ns_id n)] else [])
     @ concat (map (check_param_ref t n) (iter_param_strings (PDict (ns_params n))))"

definition template_adj :: "graph_template \<Rightarrow> string list pydict" where
  "template_adj t = dict_of (map (\<lambda>n. (ns_id n, ns_depends_on n)) (t_nodes t))"

definition template_cycle :: "graph_template \<Rightarrow> string list option" where
  "template_cycle t = detect_cycle (template_adj t) (t_ids t)"

definition validate_output :: "graph_template \<Rightarrow> string \<times> pyval \<Rightarrow> tmpl_error list" where
  "validate_output t = (\<lambda>(name, ref).
     case ref of
       PStr s \<Rightarrow>
         (case output_ref_match s of
            None \<Rightarrow> [BadOutputRef name]
          | Some (node_id, _) \<Rightarrow> if node_id \<notin> set (t_ids t) then [OutputUnknownNode name node_id] else [])
     | _ \<Rightarrow> [BadOutputRef name])"

definition validate :: "graph_template \<Rightarrow> string list option \<Rightarrow> tmpl_error list" where
  "validate t known_tools =
     (if py_strip (template_id t) = [] then [EmptyTemplateId] else [])
     @ (if t_nodes t = [] then [NoNodes] else [])
     @ (if \<not> distinct (t_ids t) then [DuplicateNodeIds] else [])
     @ (if \<exists>n \<in> set (t_nodes t). py_strip (ns_id n) = [] then [EmptyNodeId] else [])
     @ concat (map (validate_node t) (t_nodes t))
     @ (case template_cycle t of None \<Rightarrow> [] | Some found \<Rightarrow> [CycleDetected found])
     @ concat (map (validate_output t) (t_outputs t))
     @ (case known_tools of
          None \<Rightarrow> []
        | Some tools \<Rightarrow>
            map (\<lambda>n. UnknownTool (ns_id n) (ns_tool n)) (filter (\<lambda>n. ns_tool n \<notin> set tools) (t_nodes t)))"

section \<open>Dictionary form\<close>

text \<open>
  \<open>to_dict\<close> and \<open>from_dict\<close>. \<open>MissingKey\<close> is the code's KeyError. The coercions
  \<open>str\<close>, \<open>int\<close> and \<open>list\<close> are modelled on JSON scalars and containers where their
  value does not depend on Python's printing of floats and containers or on number parsing;
  those, and the values that make the code raise, are \<open>IllTyped\<close>.
\<close>

datatype load_error = MissingKey string | IllTyped string

definition node_to_dict :: "node_spec \<Rightarrow> pyval" where
  "node_to_dict n = PDict (
     [(''id'', PStr (ns_id n)), (''tool'', PStr (ns_tool n)), (''params'', PDict (ns_params n)),
      (''depends_on'', PList (map PStr (ns_depends_on n))),
      (''max_attempts'', PInt (ns_max_attempts n)),
      (''max_repair_attempts'', PInt (ns_max_repair_attempts n))]
     @ (case ns_repair n of None \<Rightarrow> [] | Some r \<Rightarrow> [(''repair'', PStr r)])
     @ (case ns_timeout_seconds n of
          None \<Rightarrow> []
        | Some f \<Rightarrow> if pf_true f then [(''timeout_seconds'', PFloat f)] else [])
     @ (if ns_execution_mode n \<noteq> ''local'' then [(''execution_mode'', PStr (ns_execution_mode n))] else []))"

definition to_dict :: "graph_template \<Rightarrow> pyval pydict" where
  "to_dict t =
     [(''template_id'', PStr (template_id t)), (''description'', PStr (description t)),
      (''inputs'', PDict (t_inputs t)), (''outputs'', PDict (t_outputs t)),
      (''nodes'', PList (map node_to_dict (t_nodes t)))]"

definition get_or :: "pyval pydict \<Rightarrow> string \<Rightarrow> pyval \<Rightarrow> pyval" where
  "get_or d k v = (case dget d k of None \<Rightarrow> v | Some x \<Rightarrow> x)"

definition require :: "pyval pydict \<Rightarrow> string \<Rightarrow> load_error + pyval" where
  "require d k = (case dget d k of None \<Rightarrow> Inl (MissingKey k) | Some x \<Rightarrow> Inr x)"

fun as_str :: "string \<Rightarrow> pyval \<Rightarrow> load_error + string" where
  "as_str k (PStr s) = Inr s"
| "as_str k (PInt i) = Inr (show_int i)"
| "as_str k (PBool b) = Inr (if b then ''True'' else ''False'')"
| "as_str k PNone = Inr ''None''"
| "as_str k _ = Inl (IllTyped k)"

fun as_int :: "string \<Rightarrow> pyval \<Rightarrow> load_error + int" where
  "as_int k (PInt i) = Inr i"
| "as_int k (PBool b) = Inr (if b then 1 else 0)"
| "as_int k (PFloat (Fin r)) = Inr (if 0 \<le> r then \<lfloor>r\<rfloor> else \<lceil>r\<rceil>)"
| "as_int k _ = Inl (IllTyped k)"

fun as_dict :: "string \<Rightarrow> pyval \<Rightarrow> load_error + pyval pydict" where
  "as_dict k (PDict d) = Inr d"
| "as_dict k _ = Inl (IllTyped k)"

fun as_list :: "string \<Rightarrow> pyval \<Rightarrow> load_error + pyval list" where
  "as_list k (PList l) = Inr l"
| "as_list k (PStr s) = Inr (map (\<lambda>c. PStr [c]) s)"
| "as_list k (PDict d) = Inr (map (\<lambda>(x, _). PStr x) d)"
| "as_list k _ = Inl (IllTyped k)"

fun as_opt_str :: "string \<Rightarrow> pyval \<Rightarrow> load_error + string option" where
  "as_opt_str k PNone = Inr None"
| "as_opt_str k (PStr s) = Inr (Some s)"
| "as_opt_str k _ = Inl (IllTyped k)"

fun as_opt_float :: "string \<Rightarrow> pyval \<Rightarrow> load_error + pyfloat option" where
  "as_opt_float k PNone = Inr None"
| "as_opt_float k (PFloat f) = Inr (Some f)"
| "as_opt_float k (PInt i) = Inr (Some (Fin (of_int i)))"
| "as_opt_float k _ = Inl (IllTyped k)"

definition node_from_dict :: "pyval \<Rightarrow> load_error + node_spec" where
  "node_from_dict v =
     bindr (as_dict ''nodes'' v) (\<lambda>n.
     bindr (bindr (require n ''id'') (as_str ''id'')) (\<lambda>i.
     bindr (bindr (require n ''tool'') (as_str ''tool'')) (\<lambda>tool.
     bindr (as_dict ''params'' (get_or n ''params'' (PDict []))) (\<lambda>params.
     bindr (bindr (as_list ''depends_on'' (get_or n ''depends_on'' (PList []))) (mapr (as_str ''depends_on''))) (\<lambda>deps.
     bindr (as_int ''max_attempts'' (get_or n ''max_attempts'' (PInt 1))) (\<lambda>ma.
     bindr (as_int ''max_repair_attempts'' (get_or n ''max_repair_attempts'' (PInt 2))) (\<lambda>mr.
     bindr (as_opt_str ''repair'' (get_or n ''repair'' PNone)) (\<lambda>rep.
     bindr (as_opt_float ''timeout_seconds'' (get_or n ''timeout_seconds'' PNone)) (\<lambda>tmo.
     bindr (as_str ''execution_mode'' (get_or n ''execution_mode'' (PStr ''local''))) (\<lambda>mode.
       Inr \<lparr>ns_id = i, ns_tool = tool, ns_params = params, ns_depends_on = deps,
            ns_max_attempts = ma, ns_max_repair_attempts = mr, ns_repair = rep,
            ns_timeout_seconds = tmo, ns_execution_mode = mode\<rparr>))))))))))"

definition from_dict :: "pyval pydict \<Rightarrow> load_error + graph_template" where
  "from_dict data =
     bindr (bindr (as_list ''nodes'' (get_or data ''nodes'' (PList []))) (mapr node_from_dict)) (\<lambda>nodes.
     bindr (bindr (require data ''template_id'') (as_str ''template_id'')) (\<lambda>tid.
     bindr (as_str ''description'' (get_or data ''description'' (PStr []))) (\<lambda>descr.
     bindr (as_dict ''inputs'' (get_or data ''inputs'' (PDict []))) (\<lambda>ins.
     bindr (as_dict ''outputs'' (get_or data ''outputs'' (PDict []))) (\<lambda>outs.
       Inr \<lparr>template_id = tid, description = descr, t_nodes = nodes, t_inputs = ins, t_outputs = outs\<rparr>)))))"

section \<open>References: printing, reading, agreement\<close>

lemma span_word_append:
  "list_all is_word_char k \<Longrightarrow> r = [] \<or> \<not> is_word_char (hd r) \<Longrightarrow> span_word (k @ r) = (k, r)"
  by (cases r) (auto simp: span_word_def list_all_iff takeWhile_append dropWhile_append
      dropWhile_eq_Nil_conv takeWhile_eq_all_conv)

lemma not_word_brace [simp]: "\<not> is_word_char CHR ''}''" "\<not> is_word_char CHR ''.''"
  by (simp_all add: is_word_char_def)

lemma scan_ref_input:
  "node_id_fullmatch k \<Longrightarrow> scan_ref fin (''${inputs.'' @ k @ ''}'') =
     (if fin [] then Some (''inputs'', k, None) else None)"
  using span_word_append [of k "''}''"]
  by (auto simp: node_id_fullmatch_def scan_ref_def scan_key_def)

lemma scan_ref_node_output:
  "node_id_fullmatch k \<Longrightarrow> node_id_fullmatch out \<Longrightarrow>
     scan_ref fin (''${nodes.'' @ k @ ''.outputs.'' @ out @ ''}'') =
     (if fin [] then Some (''nodes'', k, Some out) else None)"
  using span_word_append [of k "''.outputs.'' @ out @ ''}''"] span_word_append [of out "''}''"]
  by (auto simp: node_id_fullmatch_def scan_ref_def scan_key_def)

lemma scan_ref_scope: "scan_ref fin s = Some (scope, key, out) \<Longrightarrow> scope = ''inputs'' \<or> scope = ''nodes''"
  by (auto simp: scan_ref_def split: option.splits)

lemma span_word_eq: "span_word s = (k, r) \<Longrightarrow> s = k @ r"
  by (auto simp: span_word_def)

lemma fin_dollar_brace:
  "\<nexists>u. r = u @ [CHR 0x0A] \<Longrightarrow> r = pre @ ''}'' @ x \<Longrightarrow> fin_dollar x = fin_fullmatch x"
  by (auto simp: fin_dollar_def fin_fullmatch_def)

lemma scan_key_dollar:
  "scan_key fin_dollar r = scan_key fin_fullmatch r \<or> (\<exists>u. r = u @ [CHR 0x0A])"
proof (rule disjCI)
  assume no: "\<nexists>u. r = u @ [CHR 0x0A]"
  obtain key rest where r: "span_word r = (key, rest)" by force
  then have eq: "r = key @ rest" by (rule span_word_eq)
  show "scan_key fin_dollar r = scan_key fin_fullmatch r"
  proof (cases "strip_prefix ''}'' rest")
    case (Some x)
    then have "r = key @ ''}'' @ x" using eq by (simp add: strip_prefix_Some)
    with Some r show ?thesis by (simp add: scan_key_def fin_dollar_brace [OF no])
  next
    case N1: None
    show ?thesis
    proof (cases "strip_prefix ''.outputs.'' rest")
      case None
      with N1 r show ?thesis by (simp add: scan_key_def)
    next
      case S2: (Some r2)
      obtain out rest2 where r2: "span_word r2 = (out, rest2)" by force
      show ?thesis
      proof (cases "strip_prefix ''}'' rest2")
        case None
        with N1 S2 r r2 show ?thesis by (simp add: scan_key_def)
      next
        case (Some x)
        then have "r = (key @ ''.outputs.'' @ out) @ ''}'' @ x"
          using eq S2 span_word_eq [OF r2] by (simp add: strip_prefix_Some)
        then have "fin_dollar x = fin_fullmatch x" by (rule fin_dollar_brace [OF no])
        with N1 S2 Some r r2 show ?thesis by (simp add: scan_key_def)
      qed
    qed
  qed
qed

lemma scan_ref_dollar:
  "scan_ref fin_dollar s = scan_ref fin_fullmatch s \<or> (\<exists>u. s = u @ [CHR 0x0A])"
proof (rule disjCI)
  assume no: "\<nexists>u. s = u @ [CHR 0x0A]"
  have "scan_key fin_dollar x = scan_key fin_fullmatch x" if "s = pre @ x" for pre x
    using scan_key_dollar [of x] no that by (metis append.assoc)
  then show "scan_ref fin_dollar s = scan_ref fin_fullmatch s"
    unfolding scan_ref_def by (simp add: strip_prefix_Some split: option.splits)
qed

lemma py_strip_no_newline: "py_strip s \<noteq> u @ [CHR 0x0A]"
proof
  assume eq: "py_strip s = u @ [CHR 0x0A]"
  then have "dropWhile py_isspace (rev (py_lstrip s)) = CHR 0x0A # rev u"
    unfolding py_strip_def py_rstrip_def by (metis rev.simps(2) rev_rev_ident rev_append rev_singleton_conv append_Cons append_Nil)
  then have "\<not> py_isspace CHR 0x0A" by (metis hd_dropWhile list.sel(1) list.distinct(1))
  then show False by (simp add: py_isspace_def)
qed

lemma scan_ref_stripped: "scan_ref fin_dollar (py_strip s) = scan_ref fin_fullmatch (py_strip s)"
  using scan_ref_dollar [of "py_strip s"] py_strip_no_newline [of s] by blast

lemma word_strip_nonempty:
  assumes "node_id_fullmatch s" shows "py_strip s \<noteq> []"
proof -
  from assms have w: "list_all is_word_char s" and "s \<noteq> []" by (auto simp: node_id_fullmatch_def)
  then obtain c cs where s: "s = c # cs" by (cases s) auto
  have nsp: "\<not> py_isspace d" if "is_word_char d" for d
    using that unfolding is_word_char_def py_isspace_def Let_def by linarith
  then have "py_lstrip s = s" using w s by (simp add: py_lstrip_def)
  moreover have "c \<in> set s" "\<not> py_isspace c" using w s nsp by auto
  ultimately show ?thesis
    by (auto simp: py_strip_def py_rstrip_def dropWhile_eq_Nil_conv)
qed

section \<open>What validation accepts\<close>

definition dep_rel :: "graph_template \<Rightarrow> (string \<times> string) set" where
  "dep_rel t = {(ns_id n, d) | n d. n \<in> set (t_nodes t) \<and> d \<in> set (ns_depends_on n)}"

definition valid_ref :: "graph_template \<Rightarrow> node_spec \<Rightarrow> string \<Rightarrow> bool" where
  "valid_ref t n raw \<longleftrightarrow>
     (\<exists>key. param_ref_fullmatch raw = Some (''inputs'', key, None) \<and> dmem key (t_inputs t)) \<or>
     (\<exists>key out. param_ref_fullmatch raw = Some (''nodes'', key, Some out) \<and>
        key \<in> set (t_ids t) \<and> key \<in> set (ns_depends_on n))"

definition valid_node :: "graph_template \<Rightarrow> node_spec \<Rightarrow> bool" where
  "valid_node t n \<longleftrightarrow>
     node_id_fullmatch (ns_id n) \<and> py_strip (ns_tool n) \<noteq> [] \<and>
     1 \<le> ns_max_attempts n \<and> 0 \<le> ns_max_repair_attempts n \<and>
     (\<forall>f. ns_timeout_seconds n = Some f \<longrightarrow> \<not> pf_le f (Fin 0)) \<and>
     ns_execution_mode n \<in> {''local'', ''hpc''} \<and>
     distinct (ns_depends_on n) \<and> set (ns_depends_on n) \<subseteq> set (t_ids t) - {ns_id n} \<and>
     (\<forall>raw \<in> set (iter_param_strings (PDict (ns_params n))).
        strip_prefix ''${'' raw \<noteq> None \<longrightarrow> valid_ref t n raw)"

definition valid_template :: "graph_template \<Rightarrow> string list option \<Rightarrow> bool" where
  "valid_template t known_tools \<longleftrightarrow>
     py_strip (template_id t) \<noteq> [] \<and> t_nodes t \<noteq> [] \<and> distinct (t_ids t) \<and>
     (\<forall>n \<in> set (t_nodes t). valid_node t n) \<and>
     acyclic (dep_rel t) \<and>
     (\<forall>(name, ref) \<in> set (t_outputs t). \<exists>s nid out. ref = PStr s \<and>
        output_ref_match s = Some (nid, out) \<and> nid \<in> set (t_ids t)) \<and>
     (\<forall>tools. known_tools = Some tools \<longrightarrow> (\<forall>n \<in> set (t_nodes t). ns_tool n \<in> set tools))"

lemma check_param_ref_Nil:
  "check_param_ref t n raw = [] \<longleftrightarrow> strip_prefix ''${'' raw = None \<or> valid_ref t n raw"
  using scan_ref_scope [of fin_fullmatch raw]
  by (auto simp: check_param_ref_def valid_ref_def param_ref_fullmatch_def split: option.splits)

lemma validate_node_Nil:
  "validate_node t n = [] \<and> py_strip (ns_id n) \<noteq> [] \<longleftrightarrow> valid_node t n"
proof -
  have id: "(ns_id n \<noteq> [] \<longrightarrow> node_id_fullmatch (ns_id n)) \<and> py_strip (ns_id n) \<noteq> [] \<longleftrightarrow> node_id_fullmatch (ns_id n)"
    using word_strip_nonempty [of "ns_id n"]
    by (auto simp: node_id_fullmatch_def py_strip_def py_rstrip_def py_lstrip_def)
  have deps: "filter (\<lambda>d. d \<notin> set (t_ids t)) (ns_depends_on n) = [] \<longleftrightarrow> set (ns_depends_on n) \<subseteq> set (t_ids t)"
    unfolding filter_empty_conv by blast
  have "validate_node t n = [] \<longleftrightarrow>
     (ns_id n \<noteq> [] \<longrightarrow> node_id_fullmatch (ns_id n)) \<and> py_strip (ns_tool n) \<noteq> [] \<and>
     1 \<le> ns_max_attempts n \<and> 0 \<le> ns_max_repair_attempts n \<and>
     (\<forall>f. ns_timeout_seconds n = Some f \<longrightarrow> \<not> pf_le f (Fin 0)) \<and>
     ns_execution_mode n \<in> {''local'', ''hpc''} \<and> distinct (ns_depends_on n) \<and>
     set (ns_depends_on n) \<subseteq> set (t_ids t) \<and> ns_id n \<notin> set (ns_depends_on n) \<and>
     (\<forall>raw \<in> set (iter_param_strings (PDict (ns_params n))).
        strip_prefix ''${'' raw = None \<or> valid_ref t n raw)"
    unfolding validate_node_def append_is_Nil_conv map_is_Nil_conv deps concat_eq_Nil_conv
    by (simp add: check_param_ref_Nil not_less not_le split: option.split)
  moreover have "set (ns_depends_on n) \<subseteq> set (t_ids t) - {ns_id n} \<longleftrightarrow>
     set (ns_depends_on n) \<subseteq> set (t_ids t) \<and> ns_id n \<notin> set (ns_depends_on n)"
    by blast
  ultimately show ?thesis
    using id unfolding valid_node_def by (simp only: imp_conv_disj not_not) argo
qed

lemma template_edges:
  assumes "distinct (t_ids t)" and "\<forall>n \<in> set (t_nodes t). set (ns_depends_on n) \<subseteq> set (t_ids t)"
  shows "edges (template_adj t) = dep_rel t"
proof -
  have adj: "template_adj t = map (\<lambda>n. (ns_id n, ns_depends_on n)) (t_nodes t)"
    using assms(1) by (simp add: template_adj_def dict_of_distinct o_def)
  have get: "map_of (template_adj t) v = Some ds \<longleftrightarrow> (\<exists>n \<in> set (t_nodes t). v = ns_id n \<and> ds = ns_depends_on n)" for v ds
    using assms(1) by (auto simp: adj o_def)
  have keys: "fst ` set (template_adj t) = set (t_ids t)"
    by (auto simp: adj image_image)
  show ?thesis
  proof (rule set_eqI, clarify)
    fix v w
    have "(v, w) \<in> edges (template_adj t) \<longleftrightarrow>
        (\<exists>ds. map_of (template_adj t) v = Some ds \<and> w \<in> set ds) \<and> w \<in> set (t_ids t)"
      by (cases "map_of (template_adj t) v") (simp_all add: edges_def adj_get_def keys del: set_map)
    also have "\<dots> \<longleftrightarrow> (v, w) \<in> dep_rel t"
      using assms(2) unfolding get dep_rel_def by blast
    finally show "(v, w) \<in> edges (template_adj t) \<longleftrightarrow> (v, w) \<in> dep_rel t" .
  qed
qed

lemma template_cycle_correct:
  assumes "distinct (t_ids t)" and "\<forall>n \<in> set (t_nodes t). set (ns_depends_on n) \<subseteq> set (t_ids t)"
  shows "template_cycle t = None \<longleftrightarrow> acyclic (dep_rel t)"
    and "template_cycle t = Some found \<Longrightarrow> is_cycle (dep_rel t) found"
proof -
  have "set (t_ids t) = fst ` set (template_adj t)"
    using dkeys_dict_of [of "map (\<lambda>n. (ns_id n, ns_depends_on n)) (t_nodes t)"]
    by (simp add: template_adj_def dkeys_def image_image)
  then show "template_cycle t = None \<longleftrightarrow> acyclic (dep_rel t)"
    and "template_cycle t = Some found \<Longrightarrow> is_cycle (dep_rel t) found"
    using detect_cycle_sound [of "t_ids t" "template_adj t"] template_edges [OF assms]
    by (simp_all add: template_cycle_def)
qed

section \<open>Properties\<close>

lemma validate_output_Nil:
  "validate_output t x = [] \<longleftrightarrow> (case x of (name, ref) \<Rightarrow> \<exists>s nid out. ref = PStr s \<and>
     output_ref_match s = Some (nid, out) \<and> nid \<in> set (t_ids t))"
  by (cases x; cases "snd x") (auto simp: validate_output_def simp del: set_map split: option.splits)

lemma validate_Nil_iff: "validate t known_tools = [] \<longleftrightarrow> valid_template t known_tools"
proof -
  have nodes: "(\<forall>n \<in> set (t_nodes t). validate_node t n = []) \<and> \<not> (\<exists>n \<in> set (t_nodes t). py_strip (ns_id n) = [])
      \<longleftrightarrow> (\<forall>n \<in> set (t_nodes t). valid_node t n)"
    using validate_node_Nil [of t] by blast
  have tools: "(case known_tools of None \<Rightarrow> []
        | Some tools \<Rightarrow> map (\<lambda>n. UnknownTool (ns_id n) (ns_tool n)) (filter (\<lambda>n. ns_tool n \<notin> set tools) (t_nodes t))) = []
      \<longleftrightarrow> (\<forall>tools. known_tools = Some tools \<longrightarrow> (\<forall>n \<in> set (t_nodes t). ns_tool n \<in> set tools))"
    by (auto simp: filter_empty_conv split: option.split)
  have cyc: "template_cycle t = None \<longleftrightarrow> acyclic (dep_rel t)"
    if "distinct (t_ids t)" "\<forall>n \<in> set (t_nodes t). valid_node t n"
    using that by (intro template_cycle_correct(1)) (auto simp: valid_node_def)
  have "validate t known_tools = [] \<longleftrightarrow>
     py_strip (template_id t) \<noteq> [] \<and> t_nodes t \<noteq> [] \<and> distinct (t_ids t) \<and>
     \<not> (\<exists>n \<in> set (t_nodes t). py_strip (ns_id n) = []) \<and>
     (\<forall>n \<in> set (t_nodes t). validate_node t n = []) \<and> template_cycle t = None \<and>
     (\<forall>x \<in> set (t_outputs t). validate_output t x = []) \<and>
     (\<forall>tools. known_tools = Some tools \<longrightarrow> (\<forall>n \<in> set (t_nodes t). ns_tool n \<in> set tools))"
    unfolding validate_def append_is_Nil_conv tools concat_eq_Nil_conv
    by (simp split: option.split)
  then show ?thesis
    using nodes cyc unfolding valid_template_def validate_output_Nil by blast
qed

text \<open>
  C13. Validation returns no error exactly for the well-formed templates: non-empty distinct
  ids in the id alphabet, positive attempt bounds and timeouts, dependencies that exist and
  form an acyclic relation, parameter references that name a declared input or an output
  of a declared dependency, outputs that name a node, and known tools.
\<close>

theorem validate_iff_valid: "validate t known_tools = [] \<longleftrightarrow> valid_template t known_tools"
  by (rule validate_Nil_iff)

text \<open>
  C14. The cycle search of a template whose ids are distinct and whose dependencies exist
  reports nothing exactly when the dependency relation is acyclic, and what it reports is
  a cycle: a dependency path of at least two entries that ends where it starts.
\<close>

theorem cycle_detection_exact:
  assumes "distinct (t_ids t)" and "\<forall>n \<in> set (t_nodes t). set (ns_depends_on n) \<subseteq> set (t_ids t)"
  shows "case template_cycle t of
      None \<Rightarrow> acyclic (dep_rel t)
    | Some found \<Rightarrow> is_cycle (dep_rel t) found \<and> \<not> acyclic (dep_rel t)"
  using template_cycle_correct [OF assms] is_cycle_not_acyclic
  by (auto split: option.split)

definition spec0 :: "string \<Rightarrow> string list \<Rightarrow> node_spec" where
  "spec0 i deps = \<lparr>ns_id = i, ns_tool = ''qe'', ns_params = [], ns_depends_on = deps,
     ns_max_attempts = 1, ns_max_repair_attempts = 2, ns_repair = None,
     ns_timeout_seconds = None, ns_execution_mode = ''local''\<rparr>"

definition cyclic_template :: graph_template where
  "cyclic_template = \<lparr>template_id = ''loop'', description = [],
     t_nodes = [spec0 ''a'' [''b''], spec0 ''b'' [''a'']], t_inputs = [], t_outputs = []\<rparr>"

theorem cycle_detection_exact_witness:
  "template_cycle cyclic_template = Some [''a'', ''b'', ''a'']
   \<and> is_cycle (dep_rel cyclic_template) [''a'', ''b'', ''a'']"
proof -
  have c: "template_cycle cyclic_template = Some [''a'', ''b'', ''a'']"
    by code_simp
  have "case template_cycle cyclic_template of
      None \<Rightarrow> acyclic (dep_rel cyclic_template)
    | Some found \<Rightarrow> is_cycle (dep_rel cyclic_template) found \<and> \<not> acyclic (dep_rel cyclic_template)"
    by (rule cycle_detection_exact) (simp_all add: cyclic_template_def spec0_def)
  with c show ?thesis by simp
qed

text \<open>The dictionary form.\<close>

lemma mapr_map_Inr: "(\<And>x. x \<in> set xs \<Longrightarrow> f (g x) = Inr (h x)) \<Longrightarrow> mapr f (map g xs) = Inr (map h xs)"
  by (induction xs) simp_all

lemmas dict_read = get_or_def require_def dget_def

lemma node_dict_roundtrip:
  assumes "ns_timeout_seconds n \<noteq> Some (Fin 0)"
  shows "node_from_dict (node_to_dict n) = Inr n"
proof -
  have deps: "mapr (as_str k) (map PStr (ns_depends_on n)) = Inr (ns_depends_on n)" for k
    using mapr_map_Inr [of "ns_depends_on n" "as_str k" PStr "\<lambda>x. x"] by simp
  have tmo: "ns_timeout_seconds n = Some f \<Longrightarrow> pf_true f" for f
    using assms by (simp add: pf_true_def)
  show ?thesis
    using tmo
    by (cases "ns_repair n"; cases "ns_timeout_seconds n"; cases "ns_execution_mode n = ''local''")
      (simp_all add: node_to_dict_def node_from_dict_def dict_read deps)
qed

text \<open>
  C29. A template that validates survives \<open>to_dict\<close> followed by \<open>from_dict\<close> unchanged.
\<close>

theorem template_dict_roundtrip:
  assumes "validate t known_tools = []"
  shows "from_dict (to_dict t) = Inr t"
proof -
  have "ns_timeout_seconds n \<noteq> Some (Fin 0)" if "n \<in> set (t_nodes t)" for n
    using assms that by (auto simp: validate_Nil_iff valid_template_def valid_node_def)
  then have "mapr node_from_dict (map node_to_dict (t_nodes t)) = Inr (t_nodes t)"
    using mapr_map_Inr [of "t_nodes t" node_from_dict node_to_dict "\<lambda>x. x"]
    by (simp add: node_dict_roundtrip)
  then show ?thesis
    by (simp add: to_dict_def from_dict_def dict_read)
qed

definition bands_template :: graph_template where
  "bands_template = \<lparr>template_id = ''t2'', description = ''bands'',
     t_nodes =
       [(spec0 ''scf'' [])\<lparr>ns_params := [(''material'', PStr ''${inputs.material}'')],
          ns_timeout_seconds := Some (Fin 60), ns_repair := Some ''qe''\<rparr>,
        (spec0 ''nscf'' [''scf''])\<lparr>ns_params := [(''scf_out'', PStr ''${nodes.scf.outputs.stdout_file}'')]\<rparr>,
        (spec0 ''bands'' [''scf'', ''nscf''])\<lparr>ns_execution_mode := ''hpc''\<rparr>],
     t_inputs = [(''material'', PStr ''Si'')],
     t_outputs = [(''gap'', PStr ''${nodes.bands.outputs.band_gap_ev}'')]\<rparr>"

lemma bands_template_valid: "validate bands_template (Some [''qe'']) = []"
  by code_simp

theorem template_dict_roundtrip_witness: "from_dict (to_dict bands_template) = Inr bands_template"
  by (rule template_dict_roundtrip [OF bands_template_valid])

end
