(* ===== verification/Run.thy ===== *)
theory Run
  imports States Graph
begin

text \<open>
  \<^verbatim>\<open>dft_forge/runtime/run.py\<close>: node and run instances, the guarded state
  transition, parameter binding and run creation. The wall clock is an argument
  \<open>now\<close>; the random run id is an argument of \<open>create_run\<close>. The ValueErrors of the
  runtime are the constructors of \<open>run_error\<close>; \<open>show_error\<close> is the text that ends up
  in \<open>node.error\<close>.
\<close>

section \<open>Runs\<close>

type_synonym time = rat

record tool_error =
  te_message :: string
  te_category :: string
  te_repairable :: bool

record node_run =
  nr_node_id :: string
  nr_state :: node_state
  nr_attempt :: int
  nr_repair_attempts :: int
  nr_params :: "pyval pydict"
  nr_params_resolved :: bool
  nr_outputs :: "pyval pydict"
  nr_error :: "string option"
  nr_job_id :: "string option"
  nr_workdir :: "string option"
  nr_updated_at :: time

record graph_run =
  gr_run_id :: string
  gr_template_id :: string
  gr_state :: run_state
  gr_nodes :: "node_run pydict"
  gr_inputs :: "pyval pydict"
  gr_created_at :: time
  gr_updated_at :: time

datatype run_error =
    IllegalTransition node_state node_state string
  | UndeclaredInput string
  | NoOutputsKey string
  | NodeNotSucceeded string
  | OutputNotProduced string string
  | UnknownInputs "string list"
  | KeyErr string
  | BadStatus string
  | UnknownRun string
  | UnknownTemplate string
  | InvalidTemplate string "tmpl_error list"

definition quoted :: "string \<Rightarrow> string" where
  "quoted s = [CHR 0x27] @ s @ [CHR 0x27]"

fun show_error :: "run_error \<Rightarrow> string" where
  "show_error (IllegalTransition s t nid) =
     ''illegal transition '' @ node_state_value s @ '' -> '' @ node_state_value t @ '' for node '' @ quoted nid"
| "show_error (UndeclaredInput v) = ''reference to undeclared template input: '' @ v"
| "show_error (NoOutputsKey v) = ''node reference without outputs key: '' @ v"
| "show_error (NodeNotSucceeded k) = ''referenced node '' @ quoted k @ '' has not succeeded''"
| "show_error (OutputNotProduced out k) =
     ''referenced output '' @ quoted out @ '' not produced by node '' @ quoted k"
| "show_error (UnknownInputs ks) = ''unknown template inputs: '' @ concat (map quoted ks)"
| "show_error (KeyErr k) = quoted k"
| "show_error (BadStatus v) = quoted v @ '' is not a valid state''"
| "show_error (UnknownRun r) = ''unknown run '' @ quoted r"
| "show_error (UnknownTemplate t) = ''unknown template '' @ quoted t"
| "show_error (InvalidTemplate t es) = ''invalid template '' @ quoted t"

definition new_node_run :: "time \<Rightarrow> string \<Rightarrow> node_run" where
  "new_node_run now nid =
     \<lparr>nr_node_id = nid, nr_state = PENDING, nr_attempt = 0, nr_repair_attempts = 0,
      nr_params = [], nr_params_resolved = False, nr_outputs = [], nr_error = None,
      nr_job_id = None, nr_workdir = None, nr_updated_at = now\<rparr>"

definition transition :: "time \<Rightarrow> node_state \<Rightarrow> node_run \<Rightarrow> run_error + node_run" where
  "transition now target node =
     (if \<not> can_transition (nr_state node) target
      then Inl (IllegalTransition (nr_state node) target (nr_node_id node))
      else Inr (node\<lparr>nr_state := target, nr_updated_at := now\<rparr>))"

definition touch :: "time \<Rightarrow> graph_run \<Rightarrow> graph_run" where
  "touch now run = run\<lparr>gr_updated_at := now\<rparr>"

definition node_states :: "graph_run \<Rightarrow> node_state list" where
  "node_states run = map nr_state (dvals (gr_nodes run))"

definition set_node :: "node_run \<Rightarrow> graph_run \<Rightarrow> graph_run" where
  "set_node node run = run\<lparr>gr_nodes := dput (nr_node_id node) node (gr_nodes run)\<rparr>"

section \<open>Parameter binding\<close>

definition resolve_ref :: "graph_run \<Rightarrow> string \<Rightarrow> run_error + pyval" where
  "resolve_ref run s =
     (case scan_ref fin_dollar (py_strip s) of
        None \<Rightarrow> Inr (PStr s)
      | Some (scope, key, out_key) \<Rightarrow>
          if scope = ''inputs'' then
            (case dget (gr_inputs run) key of
               None \<Rightarrow> Inl (UndeclaredInput s)
             | Some v \<Rightarrow> Inr v)
          else
            (case out_key of
               None \<Rightarrow> Inl (NoOutputsKey s)
             | Some out \<Rightarrow>
                 (case dget (gr_nodes run) key of
                    None \<Rightarrow> Inl (NodeNotSucceeded key)
                  | Some upstream \<Rightarrow>
                      if nr_state upstream \<noteq> SUCCEEDED then Inl (NodeNotSucceeded key)
                      else
                        (case dget (nr_outputs upstream) out of
                           None \<Rightarrow> Inl (OutputNotProduced out key)
                         | Some v \<Rightarrow> Inr v))))"

fun resolve_value :: "graph_run \<Rightarrow> pyval \<Rightarrow> run_error + pyval"
  and resolve_list :: "graph_run \<Rightarrow> pyval list \<Rightarrow> run_error + pyval list"
  and resolve_items :: "graph_run \<Rightarrow> (string \<times> pyval) list \<Rightarrow> run_error + (string \<times> pyval) list" where
  "resolve_value run (PStr s) = resolve_ref run s"
| "resolve_value run (PDict kvs) = bindr (resolve_items run kvs) (\<lambda>r. Inr (PDict r))"
| "resolve_value run (PList vs) = bindr (resolve_list run vs) (\<lambda>r. Inr (PList r))"
| "resolve_value run v = Inr v"
| "resolve_list run [] = Inr []"
| "resolve_list run (v # vs) =
     bindr (resolve_value run v) (\<lambda>r. bindr (resolve_list run vs) (\<lambda>rs. Inr (r # rs)))"
| "resolve_items run [] = Inr []"
| "resolve_items run ((k, v) # kvs) =
     bindr (resolve_value run v) (\<lambda>r. bindr (resolve_items run kvs) (\<lambda>rs. Inr ((k, r) # rs)))"

definition resolve_params :: "graph_run \<Rightarrow> pyval pydict \<Rightarrow> run_error + pyval pydict" where
  "resolve_params run ps = resolve_items run ps"

definition create_run :: "time \<Rightarrow> string \<Rightarrow> graph_template \<Rightarrow> pyval pydict \<Rightarrow> run_error + graph_run" where
  "create_run now rid t ins =
     (let unknown = filter (\<lambda>k. \<not> dmem k (t_inputs t)) (dkeys ins) in
      if ins \<noteq> [] \<and> unknown \<noteq> [] then Inl (UnknownInputs unknown)
      else Inr \<lparr>gr_run_id = rid, gr_template_id = template_id t, gr_state = R_CREATED,
             gr_nodes = dict_of (map (\<lambda>n. (ns_id n, new_node_run now (ns_id n))) (t_nodes t)),
             gr_inputs = dupdate (t_inputs t) ins, gr_created_at = now, gr_updated_at = now\<rparr>)"

section \<open>Lemmas\<close>

lemma transition_Inr:
  "transition now target node = Inr node' \<longleftrightarrow>
     can_transition (nr_state node) target \<and> node' = node\<lparr>nr_state := target, nr_updated_at := now\<rparr>"
  by (auto simp: transition_def)

lemma transition_ok [simp]:
  "can_transition (nr_state node) target \<Longrightarrow>
     transition now target node = Inr (node\<lparr>nr_state := target, nr_updated_at := now\<rparr>)"
  by (simp add: transition_def)

lemma gr_nodes_set_node [simp]: "gr_nodes (set_node node run) = dput (nr_node_id node) node (gr_nodes run)"
  by (simp add: set_node_def)

lemma set_node_fields [simp]:
  "gr_run_id (set_node node run) = gr_run_id run"
  "gr_template_id (set_node node run) = gr_template_id run"
  "gr_state (set_node node run) = gr_state run"
  "gr_inputs (set_node node run) = gr_inputs run"
  by (simp_all add: set_node_def)

lemma dget_map: "dget (map (\<lambda>n. (f n, g n)) xs) k = map_option g (find (\<lambda>n. f n = k) xs)"
  by (induction xs) (auto simp: dget_def)

lemma template_node_SomeD: "template_node t k = Some n \<Longrightarrow> n \<in> set (t_nodes t) \<and> ns_id n = k"
  by (auto simp: template_node_def find_Some_iff)

lemma template_node_unique:
  "distinct (t_ids t) \<Longrightarrow> n \<in> set (t_nodes t) \<Longrightarrow> template_node t (ns_id n) = Some n"
  by (simp add: template_node_def find_distinct)

text \<open>A reference can be resolved when what it names exists and is finished.\<close>

definition resolvable :: "graph_run \<Rightarrow> string \<Rightarrow> bool" where
  "resolvable run raw =
     (case param_ref_fullmatch raw of
        None \<Rightarrow> True
      | Some (scope, key, out_key) \<Rightarrow>
          if scope = ''inputs'' then dmem key (gr_inputs run)
          else (\<exists>out up. out_key = Some out \<and> dget (gr_nodes run) key = Some up \<and>
                  nr_state up = SUCCEEDED \<and> dmem out (nr_outputs up)))"

lemma resolve_ref_ok: "(\<exists>r. resolve_ref run s = Inr r) \<longleftrightarrow> resolvable run (py_strip s)"
  by (auto simp: resolve_ref_def resolvable_def param_ref_fullmatch_def scan_ref_stripped dmem_def
      split: option.splits)

lemma resolve_ok:
  "(\<exists>r. resolve_value run v = Inr r) \<longleftrightarrow> (\<forall>raw \<in> set (iter_param_strings v). resolvable run raw)"
  "(\<exists>r. resolve_list run vs = Inr r) \<longleftrightarrow> (\<forall>raw \<in> set (iter_param_list vs). resolvable run raw)"
  "(\<exists>r. resolve_items run kvs = Inr r) \<longleftrightarrow> (\<forall>raw \<in> set (iter_param_items kvs). resolvable run raw)"
proof (induction run v and run vs and run kvs rule: resolve_value_resolve_list_resolve_items.induct)
  case (1 run s)
  show ?case using resolve_ref_ok [of run s] by simp
qed (auto simp: bindr_eq_Inr)


lemma gr_nodes_create_run:
  "create_run now rid t ins = Inr run \<Longrightarrow>
     gr_nodes run = dict_of (map (\<lambda>n. (ns_id n, new_node_run now (ns_id n))) (t_nodes t))"
  by (auto simp: create_run_def Let_def split: if_splits)

lemma dget_dict_of_const:
  "dget (dict_of (map (\<lambda>x. (f x, g (f x))) xs)) k = (if k \<in> f ` set xs then Some (g k) else None)"
proof -
  have "dget (dupdate d (map (\<lambda>x. (f x, g (f x))) xs)) k = (if k \<in> f ` set xs then Some (g k) else dget d k)" for d
    by (induction xs arbitrary: d) (auto simp: pydict)
  from this [of "[]"] show ?thesis by (simp add: dict_of_def pydict)
qed

lemma resolve_params_ok:
  "(\<exists>r. resolve_params run ps = Inr r) \<longleftrightarrow>
     (\<forall>raw \<in> set (iter_param_strings (PDict ps)). resolvable run raw)"
  using resolve_ok(3) [of run ps] by (simp add: resolve_params_def)

section \<open>Properties\<close>

text \<open>
  Parameter binding raises exactly when some string of the parameters, at any depth,
  is a reference to an undeclared input, to a node that has not succeeded, or to an output
  that node did not produce: the resolver visits the strings the validator visits.
\<close>

theorem resolve_params_total:
  "(\<exists>r. resolve_params run ps = Inr r) \<longleftrightarrow>
     list_all (resolvable run) (iter_param_strings (PDict ps))"
  by (simp add: resolve_params_ok list_all_iff del: iter_param_strings.simps)

text \<open>
  C21. In a run of a validated template, once all dependencies of a node have succeeded and
  produced the outputs its parameters name, binding its parameters cannot raise.
\<close>

theorem validated_params_resolve:
  assumes valid: "validate t known_tools = []"
    and run: "create_run now rid t ins = Inr run0" "gr_inputs run = gr_inputs run0"
    and n: "n \<in> set (t_nodes t)"
    and deps: "\<And>d. d \<in> set (ns_depends_on n) \<Longrightarrow>
       \<exists>up. dget (gr_nodes run) d = Some up \<and> nr_state up = SUCCEEDED"
    and outs: "\<And>raw d out up. raw \<in> set (iter_param_strings (PDict (ns_params n))) \<Longrightarrow>
       param_ref_fullmatch raw = Some (''nodes'', d, Some out) \<Longrightarrow>
       dget (gr_nodes run) d = Some up \<Longrightarrow> dmem out (nr_outputs up)"
  shows "\<exists>r. resolve_params run (ns_params n) = Inr r"
proof -
  have ins: "dmem k (gr_inputs run)" if "dmem k (t_inputs t)" for k
    using run that by (auto simp: create_run_def Let_def dmem_iff dkeys_dupdate split: if_splits)
  have vn: "valid_node t n"
    using valid n by (simp add: validate_iff_valid valid_template_def)
  have "resolvable run raw" if raw: "raw \<in> set (iter_param_strings (PDict (ns_params n)))" for raw
  proof (cases "param_ref_fullmatch raw")
    case None
    then show ?thesis by (simp add: resolvable_def)
  next
    case (Some ref)
    then have "strip_prefix ''${'' raw \<noteq> None"
      by (auto simp: param_ref_fullmatch_def scan_ref_def strip_prefix_Some split: option.splits)
    with vn raw have "valid_ref t n raw" by (simp add: valid_node_def)
    then show ?thesis
      using ins deps outs [OF raw] unfolding valid_ref_def resolvable_def by fastforce
  qed
  then show ?thesis unfolding resolve_params_ok by blast
qed

definition run_after_scf :: graph_run where
  "run_after_scf =
     \<lparr>gr_run_id = ''run_1'', gr_template_id = ''t2'', gr_state = R_RUNNING,
      gr_nodes =
        [(''scf'', (new_node_run 0 ''scf'')\<lparr>nr_state := SUCCEEDED,
            nr_outputs := [(''stdout_file'', PStr ''scf.out'')]\<rparr>),
         (''nscf'', new_node_run 0 ''nscf''), (''bands'', new_node_run 0 ''bands'')],
      gr_inputs = [(''material'', PStr ''Si'')], gr_created_at = 0, gr_updated_at = 0\<rparr>"

theorem validated_params_resolve_witness:
  "\<exists>r. resolve_params run_after_scf [(''scf_out'', PStr ''${nodes.scf.outputs.stdout_file}'')] = Inr r"
proof -
  define n where "n = t_nodes bands_template ! 1"
  have n: "n \<in> set (t_nodes bands_template)" by (simp add: n_def bands_template_def)
  have par: "ns_params n = [(''scf_out'', PStr ''${nodes.scf.outputs.stdout_file}'')]"
    and deps: "ns_depends_on n = [''scf'']"
    by (simp_all add: n_def bands_template_def spec0_def)
  have strs: "iter_param_strings (PDict (ns_params n)) = [''${nodes.scf.outputs.stdout_file}'']"
    unfolding par by code_simp
  have ref: "param_ref_fullmatch ''${nodes.scf.outputs.stdout_file}'' = Some (''nodes'', ''scf'', Some ''stdout_file'')"
    by code_simp
  let ?r0 = "projr (create_run 0 ''run_1'' bands_template [])"
  have r0: "create_run 0 ''run_1'' bands_template [] = Inr ?r0" "gr_inputs run_after_scf = gr_inputs ?r0"
    by (simp_all add: create_run_def run_after_scf_def bands_template_def)
  have scf: "dget (gr_nodes run_after_scf) ''scf'' = Some ((new_node_run 0 ''scf'')\<lparr>nr_state := SUCCEEDED,
      nr_outputs := [(''stdout_file'', PStr ''scf.out'')]\<rparr>)"
    by (simp add: run_after_scf_def dget_def)
  have "\<exists>r. resolve_params run_after_scf (ns_params n) = Inr r"
    by (rule validated_params_resolve [OF bands_template_valid r0 n])
      (auto simp: strs deps ref scf dmem_def dget_def [of "[_]"] simp del: iter_param_strings.simps)
  with par show ?thesis by simp
qed

lemma create_run_cases:
  "case create_run now rid t ins of
     Inl e \<Rightarrow> e = UnknownInputs (filter (\<lambda>k. \<not> dmem k (t_inputs t)) (dkeys ins)) \<and>
       (\<exists>k \<in> set (dkeys ins). \<not> dmem k (t_inputs t))
   | Inr run \<Rightarrow> (\<forall>k \<in> set (dkeys ins). dmem k (t_inputs t)) \<and>
       gr_state run = R_CREATED \<and> wf_dict (gr_nodes run) \<and>
       (\<forall>k. dget (gr_nodes run) k = (if k \<in> set (t_ids t) then Some (new_node_run now k) else None)) \<and>
       set (dkeys (gr_inputs run)) = set (dkeys (t_inputs t))"
proof (cases "filter (\<lambda>k. \<not> dmem k (t_inputs t)) (dkeys ins) = []")
  case True
  then have all: "\<forall>k \<in> set (dkeys ins). dmem k (t_inputs t)"
    by (simp add: filter_empty_conv)
  then have "set (dkeys (dupdate (t_inputs t) ins)) = set (dkeys (t_inputs t))"
    by (auto simp: dkeys_dupdate dmem_iff)
  with True all show ?thesis
    by (simp add: create_run_def Let_def dget_dict_of_const)
next
  case False
  then have "ins \<noteq> []" and "\<exists>k \<in> set (dkeys ins). \<not> dmem k (t_inputs t)"
    by (auto simp: filter_empty_conv)
  with False show ?thesis by (simp add: create_run_def Let_def)
qed

text \<open>
  A created run has one pending, never attempted node per template node and nothing
  else, its inputs are the template defaults overridden by the caller's, and creation
  raises exactly when the caller passes an input the template does not declare.
\<close>

theorem create_run_spec:
  "case create_run now rid t ins of
     Inl e \<Rightarrow> e = UnknownInputs (filter (\<lambda>k. \<not> dmem k (t_inputs t)) (dkeys ins)) \<and>
       (\<exists>k \<in> set (dkeys ins). \<not> dmem k (t_inputs t))
   | Inr run \<Rightarrow> (\<forall>k \<in> set (dkeys ins). dmem k (t_inputs t)) \<and>
       gr_state run = R_CREATED \<and> wf_dict (gr_nodes run) \<and>
       (\<forall>k. dget (gr_nodes run) k = (if k \<in> set (t_ids t) then Some (new_node_run now k) else None)) \<and>
       set (dkeys (gr_inputs run)) = set (dkeys (t_inputs t))"
  by (rule create_run_cases)

theorem create_run_spec_witness:
  "create_run 0 ''run_1'' bands_template [(''materail'', PStr ''Si'')] = Inl (UnknownInputs [''materail''])"
proof -
  have "\<not> dmem ''materail'' (t_inputs bands_template)"
    by (simp add: bands_template_def dmem_def dget_def)
  with create_run_spec [where now = 0 and rid = "''run_1''" and t = bands_template
      and ins = "[(''materail'', PStr ''Si'')]"] show ?thesis
    by (auto simp: dkeys_def split: sum.splits)
qed

end
