(* ===== verification/Store.thy ===== *)
theory Store
  imports Run
begin

text \<open>
  \<^verbatim>\<open>dft_forge/runtime/store.py\<close>: the SQLite run store. Its two tables are
  association lists over their primary keys (\<open>id\<close>; \<open>run_id, node_id\<close>), and
  INSERT OR REPLACE is the update of such a list. The JSON column is kept as the record it
  encodes. \<open>save_run\<close> and \<open>save_node_run\<close> also return the object whose timestamp they
  refresh. SQL leaves the order of an unordered SELECT open; the tables are read in
  insertion order here.
\<close>

section \<open>Tables\<close>

record run_row =
  rr_template_id :: string
  rr_status :: string
  rr_inputs :: "pyval pydict"
  rr_created_at :: time
  rr_updated_at :: time

record node_row =
  nw_status :: string
  nw_attempt :: int
  nw_repair_attempts :: int
  nw_params :: "pyval pydict"
  nw_outputs :: "pyval pydict"
  nw_error :: "string option"
  nw_job_id :: "string option"
  nw_workdir :: "string option"
  nw_updated_at :: time

record store =
  graph_runs :: "(string \<times> run_row) list"
  node_runs :: "((string \<times> string) \<times> node_row) list"

definition empty_store :: store where
  "empty_store = \<lparr>graph_runs = [], node_runs = []\<rparr>"

definition put_run_row :: "string \<Rightarrow> run_row \<Rightarrow> store \<Rightarrow> store" where
  "put_run_row rid row st = st\<lparr>graph_runs := AList.update rid row (graph_runs st)\<rparr>"

definition put_node_row :: "string \<times> string \<Rightarrow> node_row \<Rightarrow> store \<Rightarrow> store" where
  "put_node_row k row st = st\<lparr>node_runs := AList.update k row (node_runs st)\<rparr>"

definition get_run_row :: "store \<Rightarrow> string \<Rightarrow> run_row option" where
  "get_run_row st rid = map_of (graph_runs st) rid"

definition get_node_row :: "store \<Rightarrow> string \<times> string \<Rightarrow> node_row option" where
  "get_node_row st k = map_of (node_runs st) k"

interpretation run_tbl: keyed_table put_run_row get_run_row
  by unfold_locales (simp_all add: put_run_row_def get_run_row_def update_conv')

interpretation node_tbl: keyed_table put_node_row get_node_row
  by unfold_locales (simp_all add: put_node_row_def get_node_row_def update_conv')

lemma get_other_table [simp]:
  "get_node_row (put_run_row r row st) k = get_node_row st k"
  "get_run_row (put_node_row k nrow st) r = get_run_row st r"
  by (simp_all add: get_node_row_def get_run_row_def put_run_row_def put_node_row_def)

section \<open>Operations\<close>

definition row_of_run :: "graph_run \<Rightarrow> run_row" where
  "row_of_run run = \<lparr>rr_template_id = gr_template_id run, rr_status = run_state_value (gr_state run),
     rr_inputs = gr_inputs run, rr_created_at = gr_created_at run, rr_updated_at = gr_updated_at run\<rparr>"

definition save_run :: "time \<Rightarrow> graph_run \<Rightarrow> store \<Rightarrow> graph_run \<times> store" where
  "save_run now run st = (let run = touch now run in
     (run, put_run_row (gr_run_id run) (row_of_run run) st))"

definition row_of_node :: "node_run \<Rightarrow> node_row" where
  "row_of_node node = \<lparr>nw_status = node_state_value (nr_state node), nw_attempt = nr_attempt node,
     nw_repair_attempts = nr_repair_attempts node, nw_params = nr_params node,
     nw_outputs = nr_outputs node, nw_error = nr_error node, nw_job_id = nr_job_id node,
     nw_workdir = nr_workdir node, nw_updated_at = nr_updated_at node\<rparr>"

definition save_node_run :: "time \<Rightarrow> graph_run \<Rightarrow> node_run \<Rightarrow> store \<Rightarrow> node_run \<times> store" where
  "save_node_run now run node st = (let node = node\<lparr>nr_updated_at := now\<rparr> in
     (node, put_node_row (gr_run_id run, nr_node_id node) (row_of_node node) st))"

definition node_of_row :: "time \<Rightarrow> string \<Rightarrow> node_row \<Rightarrow> run_error + node_run" where
  "node_of_row now nid row =
     (case parse_node_state (nw_status row) of
        None \<Rightarrow> Inl (BadStatus (nw_status row))
      | Some s \<Rightarrow> Inr \<lparr>nr_node_id = nid, nr_state = s, nr_attempt = nw_attempt row,
          nr_repair_attempts = nw_repair_attempts row, nr_params = nw_params row,
          nr_params_resolved = False, nr_outputs = nw_outputs row, nr_error = nw_error row,
          nr_job_id = nw_job_id row, nr_workdir = nw_workdir row, nr_updated_at = now\<rparr>)"

text \<open>
  The two loops of \<open>load_run\<close>: the stored rows of nodes the template knows, then
  \<open>setdefault\<close> with a fresh node for every template node without a row.
\<close>

fun load_rows :: "time \<Rightarrow> string list \<Rightarrow> (string \<times> node_row) list \<Rightarrow> node_run pydict \<Rightarrow> run_error + node_run pydict" where
  "load_rows now ids [] nodes = Inr nodes"
| "load_rows now ids ((nid, row) # rows) nodes =
     (if nid \<notin> set ids then load_rows now ids rows nodes
      else bindr (node_of_row now nid row) (\<lambda>node. load_rows now ids rows (dput nid node nodes)))"

definition set_default :: "time \<Rightarrow> string \<Rightarrow> node_run pydict \<Rightarrow> node_run pydict" where
  "set_default now nid nodes = (if dmem nid nodes then nodes else dput nid (new_node_run now nid) nodes)"

definition load_run :: "time \<Rightarrow> string \<Rightarrow> graph_template \<Rightarrow> store \<Rightarrow> run_error + graph_run option" where
  "load_run now rid t st =
     (case get_run_row st rid of
        None \<Rightarrow> Inr None
      | Some row \<Rightarrow>
          (case parse_run_state (rr_status row) of
             None \<Rightarrow> Inl (BadStatus (rr_status row))
           | Some s \<Rightarrow>
               bindr (load_rows now (t_ids t)
                  (map (\<lambda>(k, nrow). (snd k, nrow)) (filter (\<lambda>(k, nrow). fst k = rid) (node_runs st))) [])
                 (\<lambda>nodes. Inr (Some
                   \<lparr>gr_run_id = rid, gr_template_id = rr_template_id row, gr_state = s,
                    gr_nodes = foldl (\<lambda>acc nid. set_default now nid acc) nodes (t_ids t),
                    gr_inputs = rr_inputs row, gr_created_at = rr_created_at row,
                    gr_updated_at = rr_updated_at row\<rparr>))))"

definition list_runs :: "store \<Rightarrow> (string \<times> string \<times> string \<times> time) list" where
  "list_runs st = sort_key (\<lambda>(_, _, _, updated). - updated)
     (map (\<lambda>(rid, row). (rid, rr_template_id row, rr_status row, rr_updated_at row)) (graph_runs st))"

definition template_id_for :: "store \<Rightarrow> string \<Rightarrow> string option" where
  "template_id_for st rid = map_option rr_template_id (get_run_row st rid)"

definition reset_in_flight :: "node_run \<Rightarrow> node_run" where
  "reset_in_flight node =
     (if nr_state node \<in> {RUNNING, READY, REPAIRING} then node\<lparr>nr_state := PENDING\<rparr> else node)"

definition resume_run :: "time \<Rightarrow> string \<Rightarrow> graph_template \<Rightarrow> store \<Rightarrow> run_error + graph_run option \<times> store" where
  "resume_run now rid t st =
     bindr (load_run now rid t st) (\<lambda>r.
       case r of
         None \<Rightarrow> Inr (None, st)
       | Some run \<Rightarrow>
           if gr_state run \<in> TERMINAL_RUN_STATES then Inr (Some run, st)
           else
             (let run = run\<lparr>gr_nodes := map (\<lambda>(k, node). (k, reset_in_flight node)) (gr_nodes run),
                            gr_state := R_VALIDATED\<rparr>;
                  (run, st) = save_run now run st
              in Inr (Some run, st)))"

section \<open>Loading\<close>

text \<open>What a loaded node is: the stored row read back, or a fresh node.\<close>

definition stored_node :: "time \<Rightarrow> store \<Rightarrow> string \<Rightarrow> string \<Rightarrow> run_error + node_run" where
  "stored_node now st rid nid =
     (case get_node_row st (rid, nid) of
        None \<Rightarrow> Inr (new_node_run now nid)
      | Some row \<Rightarrow> node_of_row now nid row)"

definition wf_store :: "store \<Rightarrow> bool" where
  "wf_store st \<longleftrightarrow> distinct (map fst (graph_runs st)) \<and> distinct (map fst (node_runs st))"

lemma wf_store_puts [simp]:
  "wf_store (put_run_row r row st) = wf_store st" "wf_store (put_node_row k nrow st) = wf_store st"
  by (simp_all add: wf_store_def put_run_row_def put_node_row_def distinct_update_iff)

lemma wf_empty_store [simp]: "wf_store empty_store"
  by (simp add: wf_store_def empty_store_def)

lemma load_rows_spec:
  assumes "distinct (map fst rows)"
    and "\<And>k row. k \<in> set ids \<Longrightarrow> map_of rows k = Some row \<Longrightarrow> node_of_row now k row = Inr (g k)"
  shows "\<exists>nodes. load_rows now ids rows d = Inr nodes \<and> wf_dict nodes = wf_dict d \<and>
     (\<forall>k. dget nodes k = (if k \<in> set ids \<and> k \<in> fst ` set rows then Some (g k) else dget d k))"
  using assms
proof (induction rows arbitrary: d)
  case (Cons x rows)
  obtain nid row where x: "x = (nid, row)" by force
  have new: "map_of rows nid = None" using Cons.prems(1) x by (simp add: map_of_eq_None_iff)
  have ok: "node_of_row now k row' = Inr (g k)" if "k \<in> set ids" "map_of rows k = Some row'" for k row'
    using that Cons.prems(2) [of k row'] new x by (cases "k = nid") auto
  show ?case
  proof (cases "nid \<in> set ids")
    case True
    then have g: "node_of_row now nid row = Inr (g nid)" using Cons.prems(2) x by simp
    from Cons.IH [OF _ ok, of "dput nid (g nid) d"] Cons.prems(1)
    obtain nodes where "load_rows now ids rows (dput nid (g nid) d) = Inr nodes"
      "wf_dict nodes = wf_dict d"
      "\<forall>k. dget nodes k = (if k \<in> set ids \<and> k \<in> fst ` set rows then Some (g k) else dget (dput nid (g nid) d) k)"
      by (auto simp: pydict)
    with True g x show ?thesis by (auto simp: pydict)
  next
    case False
    with Cons.IH [OF _ ok, of d] Cons.prems(1) x show ?thesis by auto
  qed
qed simp

lemma set_defaults_spec:
  "wf_dict (foldl (\<lambda>acc nid. set_default now nid acc) nodes ids) = wf_dict nodes"
  "dget (foldl (\<lambda>acc nid. set_default now nid acc) nodes ids) k =
     (case dget nodes k of Some n \<Rightarrow> Some n | None \<Rightarrow> if k \<in> set ids then Some (new_node_run now k) else None)"
  by (induction ids arbitrary: nodes)
    (auto simp: set_default_def pydict dmem_def split: option.splits)

lemma map_of_run_rows:
  "map_of (map (\<lambda>(k, nrow). (snd k, nrow)) (filter (\<lambda>(k, nrow). fst k = rid) rows)) nid = map_of rows (rid, nid)"
  by (induction rows) auto

lemma distinct_run_rows:
  "distinct (map fst rows) \<Longrightarrow>
     distinct (map fst (map (\<lambda>(k, nrow). (snd k, nrow)) (filter (\<lambda>(k, nrow). fst k = rid) rows)))"
  by (induction rows) (force simp: image_iff)+

lemma load_run_spec:
  assumes "wf_store st" and row: "get_run_row st rid = Some row"
    and s: "parse_run_state (rr_status row) = Some s"
    and g: "\<And>k. k \<in> set (t_ids t) \<Longrightarrow> stored_node now st rid k = Inr (g k)"
  shows "\<exists>nodes. load_run now rid t st = Inr (Some
      \<lparr>gr_run_id = rid, gr_template_id = rr_template_id row, gr_state = s, gr_nodes = nodes,
       gr_inputs = rr_inputs row, gr_created_at = rr_created_at row, gr_updated_at = rr_updated_at row\<rparr>) \<and>
      wf_dict nodes \<and> (\<forall>k. dget nodes k = (if k \<in> set (t_ids t) then Some (g k) else None))"
proof -
  let ?rows = "map (\<lambda>(k, nrow). (snd k, nrow)) (filter (\<lambda>(k, nrow). fst k = rid) (node_runs st))"
  have at: "map_of ?rows k = get_node_row st (rid, k)" for k
    unfolding map_of_run_rows by (simp add: get_node_row_def)
  have "distinct (map fst ?rows)"
    using assms(1) unfolding wf_store_def by (intro distinct_run_rows) blast
  moreover have "node_of_row now k row' = Inr (g k)" if "k \<in> set (t_ids t)" "map_of ?rows k = Some row'" for k row'
    using g [OF that(1)] that(2) unfolding at stored_node_def by simp
  ultimately obtain nodes where l: "load_rows now (t_ids t) ?rows [] = Inr nodes" "wf_dict nodes"
    "\<And>k. dget nodes k = (if k \<in> set (t_ids t) \<and> k \<in> fst ` set ?rows then Some (g k) else None)"
    using load_rows_spec [of ?rows "t_ids t" now g "[]"] by (auto simp: wf_dict_def dget_def simp del: set_map)
  let ?all = "foldl (\<lambda>acc nid. set_default now nid acc) nodes (t_ids t)"
  have "dget ?all k = (if k \<in> set (t_ids t) then Some (g k) else None)" for k
  proof (cases "k \<in> fst ` set ?rows")
    case False
    then have "get_node_row st (rid, k) = None" unfolding at [symmetric] by (simp add: map_of_eq_None_iff)
    then have "k \<in> set (t_ids t) \<Longrightarrow> g k = new_node_run now k"
      using g [of k] by (simp add: stored_node_def)
    then show ?thesis using False l(3) [of k] by (simp add: set_defaults_spec(2) del: set_map)
  qed (simp add: set_defaults_spec(2) l(3) del: set_map)
  with l row s show ?thesis
    by (simp add: load_run_def set_defaults_spec(1) del: set_map)
qed

lemma load_rows_ok:
  "load_rows now ids rows d = Inr nodes \<Longrightarrow> k \<in> set ids \<Longrightarrow> (k, row) \<in> set rows \<Longrightarrow>
     \<exists>n. node_of_row now k row = Inr n"
  by (induction rows arbitrary: d) (auto simp: bindr_eq_Inr split: if_splits)

text \<open>What a successful load says about the rows.\<close>

lemma load_run_inv:
  assumes "wf_store st" and l: "load_run now rid t st = Inr (Some run)"
  obtains row where "get_run_row st rid = Some row" "parse_run_state (rr_status row) = Some (gr_state run)"
    "gr_run_id run = rid" "gr_template_id run = rr_template_id row" "gr_inputs run = rr_inputs row"
    "wf_dict (gr_nodes run)"
    "\<And>k. dget (gr_nodes run) k = (if k \<in> set (t_ids t) then Some (projr (stored_node now st rid k)) else None)"
    "\<And>k. k \<in> set (t_ids t) \<Longrightarrow> \<exists>n. stored_node now st rid k = Inr n \<and> nr_node_id n = k"
proof -
  let ?rows = "map (\<lambda>(k, nrow). (snd k, nrow)) (filter (\<lambda>(k, nrow). fst k = rid) (node_runs st))"
  obtain row s nodes where row: "get_run_row st rid = Some row" "parse_run_state (rr_status row) = Some s"
    and rows: "load_rows now (t_ids t) ?rows [] = Inr nodes"
    using l by (auto simp: load_run_def bindr_eq_Inr simp del: set_map split: option.splits)
  have st: "\<exists>n. stored_node now st rid k = Inr n \<and> nr_node_id n = k" if k: "k \<in> set (t_ids t)" for k
  proof (cases "get_node_row st (rid, k)")
    case None
    then show ?thesis by (simp add: stored_node_def new_node_run_def)
  next
    case (Some nrow)
    then have "map_of ?rows k = Some nrow" unfolding map_of_run_rows by (simp add: get_node_row_def)
    from load_rows_ok [OF rows k map_of_SomeD [OF this]] obtain n where n: "node_of_row now k nrow = Inr n" ..
    then have "nr_node_id n = k" by (auto simp: node_of_row_def split: option.splits)
    with Some n show ?thesis by (simp add: stored_node_def)
  qed
  have "stored_node now st rid k = Inr (projr (stored_node now st rid k))" if "k \<in> set (t_ids t)" for k
    using st [OF that] by auto
  from load_run_spec [where t = t, OF assms(1) row this] l row st that show thesis by auto
qed

definition persisted :: "time \<Rightarrow> node_run \<Rightarrow> node_run" where
  "persisted now node = node\<lparr>nr_params_resolved := False, nr_updated_at := now\<rparr>"

lemma node_of_row_of_node: "node_of_row now (nr_node_id n) (row_of_node n) = Inr (persisted now n)"
  by (simp add: node_of_row_def row_of_node_def persisted_def)

lemma stored_node_save:
  "stored_node now (snd (save_node_run now' run n st)) (gr_run_id run) (nr_node_id n) = Inr (persisted now n)"
  by (simp add: save_node_run_def Let_def stored_node_def node_tbl.get_put node_of_row_def row_of_node_def persisted_def)

text \<open>Resuming, seen per node.\<close>

lemma dget_reset:
  "dget (map (\<lambda>(k, node). (k, reset_in_flight node)) d) k = map_option reset_in_flight (dget d k)"
  unfolding dget_def by (induction d) auto

lemma dkeys_reset: "dkeys (map (\<lambda>(k, node). (k, reset_in_flight node)) d) = dkeys d"
  by (induction d) (auto simp: dkeys_def)

lemma reset_state: "nr_state (reset_in_flight n) \<in> insert PENDING TERMINAL_NODE_STATES"
  by (cases "nr_state n") (simp_all add: reset_in_flight_def TERMINAL_NODE_STATES_def)

lemma resume_run_Inr:
  assumes "load_run now rid t st = Inr (Some run)" and "gr_state run \<notin> TERMINAL_RUN_STATES"
  shows "resume_run now rid t st =
     (let run' = touch now (run\<lparr>gr_nodes := map (\<lambda>(k, node). (k, reset_in_flight node)) (gr_nodes run),
                gr_state := R_VALIDATED\<rparr>)
      in Inr (Some run', put_run_row (gr_run_id run) (row_of_run run') st))"
  using assms by (simp add: resume_run_def save_run_def Let_def touch_def)

section \<open>Properties\<close>

definition run_keyed :: "graph_run \<Rightarrow> bool" where
  "run_keyed run \<longleftrightarrow> wf_dict (gr_nodes run) \<and> (\<forall>k n. dget (gr_nodes run) k = Some n \<longrightarrow> nr_node_id n = k)"

text \<open>The calls that persist a whole run: \<open>save_run\<close>, then \<open>save_node_run\<close> for every node.\<close>

definition save_all :: "time \<Rightarrow> graph_run \<Rightarrow> store \<Rightarrow> store" where
  "save_all now run st =
     foldl (\<lambda>acc n. snd (save_node_run now run n acc)) (snd (save_run now run st)) (dvals (gr_nodes run))"

lemma save_all_puts:
  "save_all now run st = node_tbl.puts (\<lambda>n. (gr_run_id run, nr_node_id n))
     (\<lambda>n. row_of_node (n\<lparr>nr_updated_at := now\<rparr>)) (dvals (gr_nodes run)) (snd (save_run now run st))"
  by (simp add: save_all_def node_tbl.puts_def save_node_run_def Let_def)

lemma run_keyed_ids:
  assumes "run_keyed run"
  shows "map nr_node_id (dvals (gr_nodes run)) = dkeys (gr_nodes run)"
proof -
  have "nr_node_id n = k" if "(k, n) \<in> set (gr_nodes run)" for k n
    using assms that by (auto simp: run_keyed_def wf_dict_def dget_def)
  then show ?thesis by (auto simp: dvals_def dkeys_def o_def case_prod_beta)
qed

lemma get_save_all:
  assumes "run_keyed run"
  shows "get_node_row (save_all now run st) (gr_run_id run, k) =
     (case dget (gr_nodes run) k of
        Some n \<Rightarrow> Some (row_of_node (n\<lparr>nr_updated_at := now\<rparr>))
      | None \<Rightarrow> get_node_row st (gr_run_id run, k))"
proof (cases "dget (gr_nodes run) k")
  case None
  then have "(gr_run_id run, k) \<notin> (\<lambda>n. (gr_run_id run, nr_node_id n)) ` set (dvals (gr_nodes run))"
    using arg_cong [OF run_keyed_ids [OF assms], of set] by (auto simp: dget_None_iff)
  with None show ?thesis
    unfolding save_all_puts
    by (subst node_tbl.get_puts_other) (auto simp: save_run_def Let_def)
next
  case (Some n)
  then have n: "n \<in> set (dvals (gr_nodes run))" "nr_node_id n = k"
    using assms by (auto simp: run_keyed_def dvals_in)
  have "distinct (map nr_node_id (dvals (gr_nodes run)))"
    unfolding run_keyed_ids [OF assms] using assms by (simp add: run_keyed_def wf_dict_def dkeys_def)
  then have "distinct (map (\<lambda>n. (gr_run_id run, nr_node_id n)) (dvals (gr_nodes run)))"
    by (simp add: distinct_map inj_on_def)
  from node_tbl.get_puts [OF this n(1)] Some n show ?thesis
    unfolding save_all_puts by simp
qed

lemma wf_save_all [simp]: "wf_store (save_all now run st) = wf_store st"
proof -
  have "wf_store (foldl (\<lambda>acc n. snd (save_node_run now run n acc)) st' ns) = wf_store st'" for ns st'
    by (induction ns arbitrary: st') (simp_all add: save_node_run_def Let_def)
  then show ?thesis by (simp add: save_all_def save_run_def Let_def)
qed

lemma get_run_save_all:
  "get_run_row (save_all now run st) (gr_run_id run) = Some (row_of_run (touch now run))"
proof -
  have "get_run_row (foldl (\<lambda>acc n. snd (save_node_run now run n acc)) st' ns) r = get_run_row st' r" for ns st' r
    by (induction ns arbitrary: st') (simp_all add: save_node_run_def Let_def)
  then show ?thesis
    by (simp add: save_all_def save_run_def Let_def touch_def run_tbl.get_put)
qed

text \<open>
  C15. A run that was saved with all its nodes is loaded back unchanged, but for the refreshed
  timestamps and the \<open>params_resolved\<close> flag, which is not persisted and comes back false.
\<close>

theorem store_roundtrip:
  assumes "wf_store st" and keyed: "run_keyed run" and ids: "set (dkeys (gr_nodes run)) = set (t_ids t)"
  shows "\<exists>nodes. load_run now' (gr_run_id run) t (save_all now run st) =
      Inr (Some (run\<lparr>gr_nodes := nodes, gr_updated_at := now\<rparr>)) \<and> wf_dict nodes \<and>
      (\<forall>k. dget nodes k = map_option (persisted now') (dget (gr_nodes run) k))"
proof -
  let ?g = "\<lambda>k. persisted now' (the (dget (gr_nodes run) k))"
  have stored: "stored_node now' (save_all now run st) (gr_run_id run) k = Inr (?g k)" if "k \<in> set (t_ids t)" for k
  proof -
    have "k \<in> set (dkeys (gr_nodes run))" using that ids by simp
    then obtain n where n: "dget (gr_nodes run) k = Some n"
      using dget_None_iff [of "gr_nodes run" k] by (cases "dget (gr_nodes run) k") auto
    then have "nr_node_id n = k" using keyed by (auto simp: run_keyed_def)
    with n node_of_row_of_node [of now' "n\<lparr>nr_updated_at := now\<rparr>"] show ?thesis
      by (simp add: stored_node_def get_save_all [OF keyed] persisted_def)
  qed
  have eq: "\<lparr>gr_run_id = gr_run_id run, gr_template_id = gr_template_id run, gr_state = gr_state run,
      gr_nodes = nodes, gr_inputs = gr_inputs run, gr_created_at = gr_created_at run, gr_updated_at = now\<rparr>
    = run\<lparr>gr_nodes := nodes, gr_updated_at := now\<rparr>" for nodes
    by (cases run) simp
  from load_run_spec [where t = t and s = "gr_state run", OF _ get_run_save_all _ stored] assms(1)
  obtain nodes where l: "load_run now' (gr_run_id run) t (save_all now run st) =
      Inr (Some (run\<lparr>gr_nodes := nodes, gr_updated_at := now\<rparr>))" "wf_dict nodes"
    and nodes: "\<And>k. dget nodes k = (if k \<in> set (t_ids t) then Some (?g k) else None)"
    by (auto simp: row_of_run_def touch_def eq simp del: set_map)
  have "dget nodes k = map_option (persisted now') (dget (gr_nodes run) k)" for k
    using ids dget_None_iff [of "gr_nodes run" k]
    by (cases "dget (gr_nodes run) k") (simp_all add: nodes del: set_map)
  with l show ?thesis by blast
qed

text \<open>
  C16. Crash recovery: resuming a run that is not terminal puts exactly the running, ready and
  repairing nodes back to Pending, with every other field of theirs as it was, and leaves every
  other node as it is (succeeded nodes keep their outputs). Of the run only the state, now
  Validated, and the update time change, and of the store only the row of the run, which then
  records the resumed run. A terminal run and the store are returned as they are.
\<close>

theorem resume_run_spec:
  assumes "load_run now rid t st = Inr (Some run)"
  shows "case resume_run now rid t st of
     Inl e \<Rightarrow> False
   | Inr (r, st') \<Rightarrow> \<exists>run'. r = Some run' \<and>
      (if gr_state run \<in> TERMINAL_RUN_STATES then run' = run \<and> st' = st
       else run' = run\<lparr>gr_nodes := gr_nodes run', gr_state := R_VALIDATED, gr_updated_at := now\<rparr> \<and>
         dkeys (gr_nodes run') = dkeys (gr_nodes run) \<and>
         (\<forall>k. dget (gr_nodes run') k = map_option
            (\<lambda>n. if nr_state n \<in> {RUNNING, READY, REPAIRING} then n\<lparr>nr_state := PENDING\<rparr> else n)
            (dget (gr_nodes run) k)) \<and>
         (\<forall>k n. dget (gr_nodes run') k = Some n \<longrightarrow> nr_state n \<in> insert PENDING TERMINAL_NODE_STATES) \<and>
         st' = put_run_row (gr_run_id run) (row_of_run run') st \<and>
         get_run_row st' (gr_run_id run) = Some (row_of_run run'))"
proof (cases "gr_state run \<in> TERMINAL_RUN_STATES")
  case True
  with assms show ?thesis by (simp add: resume_run_def)
next
  case False
  have "reset_in_flight = (\<lambda>n. if nr_state n \<in> {RUNNING, READY, REPAIRING} then n\<lparr>nr_state := PENDING\<rparr> else n)"
    by (simp add: reset_in_flight_def fun_eq_iff)
  then have "dget (map (\<lambda>(k, node). (k, reset_in_flight node)) (gr_nodes run)) k = map_option
      (\<lambda>n. if nr_state n \<in> {RUNNING, READY, REPAIRING} then n\<lparr>nr_state := PENDING\<rparr> else n) (dget (gr_nodes run) k)" for k
    by (simp add: dget_reset)
  moreover have "nr_state n \<in> insert PENDING TERMINAL_NODE_STATES"
    if "dget (map (\<lambda>(k, node). (k, reset_in_flight node)) (gr_nodes run)) k = Some n" for k n
    using that reset_state by (auto simp: dget_reset)
  ultimately show ?thesis
    unfolding resume_run_Inr [OF assms False] using False
    by (simp add: Let_def touch_def dkeys_reset run_tbl.get_put)
qed

text \<open>
  The run list is sorted by update time, most recent first, and has one entry per saved run.
\<close>

theorem list_runs_newest_first:
  "sorted_wrt (\<lambda>a b. snd (snd (snd b)) \<le> snd (snd (snd a))) (list_runs st)
   \<and> set (map fst (list_runs st)) = set (map fst (graph_runs st))
   \<and> length (list_runs st) = length (graph_runs st)"
proof -
  let ?rows = "map (\<lambda>(rid, row). (rid, rr_template_id row, rr_status row, rr_updated_at row)) (graph_runs st)"
  have "sorted (map (\<lambda>(_, _, _, u). - u) (list_runs st))"
    by (simp add: list_runs_def)
  then have "sorted_wrt (\<lambda>a b. snd (snd (snd b)) \<le> snd (snd (snd a))) (list_runs st)"
    by (simp add: sorted_wrt_map case_prod_beta)
  then show ?thesis
    by (auto simp: list_runs_def image_image case_prod_beta)
qed

definition demo_run :: graph_run where
  "demo_run = projr (create_run 1 ''run_1'' bands_template [])"

theorem store_roundtrip_witness:
  "\<exists>nodes. load_run 7 ''run_1'' bands_template (save_all 5 demo_run empty_store) =
      Inr (Some (demo_run\<lparr>gr_nodes := nodes, gr_updated_at := 5\<rparr>))"
proof -
  have nodes: "gr_nodes demo_run = [(''scf'', new_node_run 1 ''scf''), (''nscf'', new_node_run 1 ''nscf''),
      (''bands'', new_node_run 1 ''bands'')]" and rid: "gr_run_id demo_run = ''run_1''"
    by (simp_all add: demo_run_def create_run_def bands_template_def spec0_def dict_of_def dput_def)
  have keyed: "run_keyed demo_run"
    by (auto simp: run_keyed_def nodes wf_dict_def dget_def new_node_run_def split: if_splits)
  have "set (dkeys (gr_nodes demo_run)) = set (t_ids bands_template)"
    by (simp add: nodes bands_template_def spec0_def)
  from store_roundtrip [OF wf_empty_store keyed this, of 7 5] rid show ?thesis by auto
qed

definition busy_run :: graph_run where
  "busy_run = set_node ((new_node_run 1 ''scf'')\<lparr>nr_state := SUCCEEDED, nr_outputs := [(''stdout_file'', PStr ''pw.out'')]\<rparr>)
     (set_node ((new_node_run 1 ''nscf'')\<lparr>nr_state := RUNNING, nr_attempt := 1\<rparr>) (demo_run\<lparr>gr_state := R_RUNNING\<rparr>))"

theorem resume_run_spec_witness:
  "\<exists>run' st'. resume_run 9 ''run_1'' bands_template (save_all 2 busy_run empty_store) = Inr (Some run', st')
     \<and> gr_state run' = R_VALIDATED
     \<and> map_option nr_state (dget (gr_nodes run') ''nscf'') = Some PENDING
     \<and> map_option nr_outputs (dget (gr_nodes run') ''scf'') = Some [(''stdout_file'', PStr ''pw.out'')]"
proof -
  let ?st = "save_all 2 busy_run empty_store"
  have "case load_run 9 ''run_1'' bands_template ?st of
      Inr (Some run) \<Rightarrow> gr_state run = R_RUNNING \<and> map_option nr_state (dget (gr_nodes run) ''nscf'') = Some RUNNING \<and>
        map_option nr_state (dget (gr_nodes run) ''scf'') = Some SUCCEEDED \<and>
        map_option nr_outputs (dget (gr_nodes run) ''scf'') = Some [(''stdout_file'', PStr ''pw.out'')]
    | _ \<Rightarrow> False"
    by code_simp
  then obtain run where run: "load_run 9 ''run_1'' bands_template ?st = Inr (Some run)" "gr_state run = R_RUNNING"
    "map_option nr_state (dget (gr_nodes run) ''nscf'') = Some RUNNING"
    "map_option nr_state (dget (gr_nodes run) ''scf'') = Some SUCCEEDED"
    "map_option nr_outputs (dget (gr_nodes run) ''scf'') = Some [(''stdout_file'', PStr ''pw.out'')]"
    by (auto split: sum.splits option.splits)
  obtain run' st' where r: "resume_run 9 ''run_1'' bands_template ?st = Inr (Some run', st')"
    and e: "run' = run\<lparr>gr_nodes := gr_nodes run', gr_state := R_VALIDATED, gr_updated_at := 9\<rparr>"
    and n: "\<And>k. dget (gr_nodes run') k = map_option
      (\<lambda>n. if nr_state n \<in> {RUNNING, READY, REPAIRING} then n\<lparr>nr_state := PENDING\<rparr> else n) (dget (gr_nodes run) k)"
    using resume_run_spec [OF run(1)] run(2)
    by (cases "resume_run 9 ''run_1'' bands_template ?st") (auto simp: TERMINAL_RUN_STATES_def)
  have "gr_state run' = R_VALIDATED" by (subst e) simp
  moreover have "map_option nr_state (dget (gr_nodes run') ''nscf'') = Some PENDING"
    using n [of "''nscf''"] run(3) by auto
  moreover obtain m where "dget (gr_nodes run) ''scf'' = Some m" "nr_state m = SUCCEEDED"
    "nr_outputs m = [(''stdout_file'', PStr ''pw.out'')]" using run(4,5) by auto
  with n [of "''scf''"] have "map_option nr_outputs (dget (gr_nodes run') ''scf'') = Some [(''stdout_file'', PStr ''pw.out'')]"
    by simp
  ultimately show ?thesis using r by blast
qed

end
