(* ===== verification/Scheduler.thy ===== *)
theory Scheduler
  imports Store
begin

text \<open>
  \<^verbatim>\<open>dft_forge/runtime/scheduler.py\<close>: the dependency-driven scheduler loop.

  \<^item> \<open>sched\<close> is what one call of \<open>_run_threaded\<close> holds: the run, the store it writes to
    and the \<open>futures\<close> dictionary, kept as the node ids of the outstanding futures in
    insertion order.
  \<^item> A tool runs outside the loop. What it returned by the time the loop looks at its
    future is the input \<open>ti_done\<close> of a tick (\<open>None\<close>: not done yet); \<open>ti_cancel\<close> is
    the cancel event and \<open>ti_now\<close> the wall clock of the tick.
  \<^item> A repair handler may change a node's params and error text and answers whether the
    node should run again, or raises; it is a function of the node and the error.
  \<^item> \<open>tick\<close> is one iteration of the \<open>while True\<close> loop: it continues, returns, or lets an
    exception of \<open>_prepare_dispatch\<close> escape. \<open>notify\<close> and logging are left out: they
    swallow their own exceptions and change no state.
\<close>

section \<open>Configuration and state\<close>

datatype tool_result =
    ToolOk "pyval pydict"
  | ToolRaised tool_error
  | ToolCrashed string

datatype repair_outcome = Repaired bool | RepairCrashed string

type_synonym repairer = "node_run \<Rightarrow> tool_error \<Rightarrow> pyval pydict \<times> string \<times> repair_outcome"

record sched_cfg =
  sc_tools :: "string list"
  sc_repairers :: "repairer pydict"
  sc_max_concurrency :: int
  sc_base_dir :: string

record tick_in =
  ti_now :: time
  ti_cancel :: bool
  ti_done :: "string \<Rightarrow> tool_result option"

record sched =
  sd_run :: graph_run
  sd_store :: store
  sd_futures :: "string list"

datatype tick_result = Continue sched | Return sched | Raise run_error sched

text \<open>\<open>self.max_concurrency = max(1, max_concurrency)\<close>.\<close>

definition concurrency :: "sched_cfg \<Rightarrow> int" where
  "concurrency cfg = max 1 (sc_max_concurrency cfg)"

definition node_at :: "graph_run \<Rightarrow> string \<Rightarrow> run_error + node_run" where
  "node_at run k = (case dget (gr_nodes run) k of None \<Rightarrow> Inl (KeyErr k) | Some n \<Rightarrow> Inr n)"

section \<open>Ready and blocked nodes\<close>

fun all_succeeded :: "graph_run \<Rightarrow> string list \<Rightarrow> run_error + bool" where
  "all_succeeded run [] = Inr True"
| "all_succeeded run (d # ds) =
     bindr (node_at run d) (\<lambda>n. if nr_state n = SUCCEEDED then all_succeeded run ds else Inr False)"

fun find_ready_from :: "graph_run \<Rightarrow> node_spec list \<Rightarrow> run_error + string list" where
  "find_ready_from run [] = Inr []"
| "find_ready_from run (spec # specs) =
     bindr (node_at run (ns_id spec)) (\<lambda>node.
       if nr_state node \<notin> {PENDING, READY} then find_ready_from run specs
       else bindr (all_succeeded run (ns_depends_on spec)) (\<lambda>ok.
              bindr (find_ready_from run specs) (\<lambda>ready. Inr (if ok then ns_id spec # ready else ready))))"

definition find_ready_nodes :: "graph_run \<Rightarrow> graph_template \<Rightarrow> run_error + string list" where
  "find_ready_nodes run t = find_ready_from run (t_nodes t)"

definition dead :: "node_state set" where
  "dead = {FAILED, CANCELLED, BLOCKED, SKIPPED}"

fun any_dead :: "graph_run \<Rightarrow> string list \<Rightarrow> run_error + bool" where
  "any_dead run [] = Inr False"
| "any_dead run (d # ds) =
     bindr (node_at run d) (\<lambda>n. if nr_state n \<in> dead then Inr True else any_dead run ds)"

fun block_from :: "time \<Rightarrow> node_spec list \<Rightarrow> graph_run \<Rightarrow> run_error + graph_run" where
  "block_from now [] run = Inr run"
| "block_from now (spec # specs) run =
     bindr (node_at run (ns_id spec)) (\<lambda>node.
       if nr_state node \<noteq> PENDING then block_from now specs run
       else bindr (any_dead run (ns_depends_on spec)) (\<lambda>d.
              if d then bindr (transition now BLOCKED node) (\<lambda>node. block_from now specs (set_node node run))
              else block_from now specs run))"

definition process_blocked :: "time \<Rightarrow> graph_run \<Rightarrow> graph_template \<Rightarrow> run_error + graph_run" where
  "process_blocked now run t = block_from now (t_nodes t) run"

section \<open>Dispatch\<close>

definition put_node :: "time \<Rightarrow> node_run \<Rightarrow> sched \<Rightarrow> sched" where
  "put_node now node st =
     (let (node, store) = save_node_run now (sd_run st) node (sd_store st)
      in st\<lparr>sd_run := set_node node (sd_run st), sd_store := store\<rparr>)"

definition bind_params :: "graph_run \<Rightarrow> node_spec \<Rightarrow> node_run \<Rightarrow> run_error + node_run" where
  "bind_params run spec node =
     (if nr_params_resolved node then Inr node
      else bindr (resolve_params run (ns_params spec)) (\<lambda>ps.
             Inr (node\<lparr>nr_params := ps, nr_params_resolved := True\<rparr>)))"

definition prepare_dispatch :: "sched_cfg \<Rightarrow> graph_template \<Rightarrow> time \<Rightarrow> string \<Rightarrow> sched \<Rightarrow> run_error + sched" where
  "prepare_dispatch cfg t now nid st =
     (case template_node t nid of
        None \<Rightarrow> Inl (KeyErr nid)
      | Some spec \<Rightarrow>
          bindr (node_at (sd_run st) nid) (\<lambda>node.
          bindr (bind_params (sd_run st) spec node) (\<lambda>node.
          bindr (let node = node\<lparr>nr_attempt := nr_attempt node + 1\<rparr> in
                 if nr_state node = PENDING then transition now READY node else Inr node) (\<lambda>node.
          bindr (transition now RUNNING node) (\<lambda>node.
            Inr (put_node now
              (node\<lparr>nr_workdir := Some (sc_base_dir cfg @ ''/'' @ gr_run_id (sd_run st) @ ''/'' @ nid)\<rparr>) st))))))"

text \<open>The dispatch loop: an exception stops it and leaves what was dispatched before.\<close>

fun dispatch_all :: "sched_cfg \<Rightarrow> graph_template \<Rightarrow> time \<Rightarrow> string list \<Rightarrow> sched \<Rightarrow> run_error option \<times> sched" where
  "dispatch_all cfg t now [] st = (None, st)"
| "dispatch_all cfg t now (nid # nids) st =
     (case prepare_dispatch cfg t now nid st of
        Inl e \<Rightarrow> (Some e, st)
      | Inr st' \<Rightarrow> dispatch_all cfg t now nids (st'\<lparr>sd_futures := sd_futures st' @ [nid]\<rparr>))"

section \<open>Completion\<close>

definition repairer_for :: "sched_cfg \<Rightarrow> node_spec \<Rightarrow> repairer option" where
  "repairer_for cfg spec =
     (case ns_repair spec of
        Some name \<Rightarrow> if name = [] then None else dget (sc_repairers cfg) name
      | None \<Rightarrow> (case sc_repairers cfg of [] \<Rightarrow> None | (_, r) # _ \<Rightarrow> Some r))"

definition run_repairer :: "repairer \<Rightarrow> tool_error \<Rightarrow> node_run \<Rightarrow> bool \<times> node_run" where
  "run_repairer r exc node =
     (case r node exc of
        (ps, err, Repaired b) \<Rightarrow> (b, node\<lparr>nr_params := ps, nr_error := Some err\<rparr>)
      | (ps, err, RepairCrashed msg) \<Rightarrow>
          (False, node\<lparr>nr_params := ps, nr_error := Some (err @ '' | repair crashed: '' @ msg)\<rparr>))"

definition handle_failure :: "sched_cfg \<Rightarrow> time \<Rightarrow> node_spec \<Rightarrow> tool_error \<Rightarrow> node_run \<Rightarrow> sched \<Rightarrow> run_error + node_run \<times> sched" where
  "handle_failure cfg now spec exc node st =
     (let node = node\<lparr>nr_error := Some (''['' @ te_category exc @ ''] '' @ te_message exc)\<rparr> in
      case (if te_repairable exc \<and> nr_repair_attempts node < ns_max_repair_attempts spec
            then repairer_for cfg spec else None) of
        Some r \<Rightarrow>
          bindr (transition now REPAIRING node) (\<lambda>node.
            let st = put_node now node st;
                node = node\<lparr>nr_updated_at := now, nr_repair_attempts := nr_repair_attempts node + 1\<rparr>;
                (repaired, node) = run_repairer r exc node
            in bindr (transition now (if repaired then READY else FAILED) node) (\<lambda>node. Inr (node, st)))
      | None \<Rightarrow>
          if nr_attempt node < ns_max_attempts spec
          then bindr (transition now READY node) (\<lambda>node. Inr (node, st))
          else bindr (transition now FAILED node) (\<lambda>node. Inr (node, st)))"

text \<open>\<open>_execute_tool\<close>: an unregistered tool name raises before any tool code runs.\<close>

definition execute_tool :: "sched_cfg \<Rightarrow> node_spec \<Rightarrow> tool_result \<Rightarrow> tool_result" where
  "execute_tool cfg spec res =
     (if ns_tool spec \<notin> set (sc_tools cfg)
      then ToolRaised \<lparr>te_message = ''no tool registered for '' @ quoted (ns_tool spec),
             te_category = ''config'', te_repairable = False\<rparr>
      else res)"

definition crash_error :: "string \<Rightarrow> tool_error" where
  "crash_error msg = \<lparr>te_message = msg, te_category = ''unknown'', te_repairable = False\<rparr>"

definition finish :: "sched_cfg \<Rightarrow> graph_template \<Rightarrow> time \<Rightarrow> string \<Rightarrow> tool_result \<Rightarrow> sched \<Rightarrow> run_error + sched" where
  "finish cfg t now nid res st =
     bindr (node_at (sd_run st) nid) (\<lambda>node.
       if nr_state node \<in> TERMINAL_NODE_STATES then Inr st
       else
         (case template_node t nid of
            None \<Rightarrow> Inl (KeyErr nid)
          | Some spec \<Rightarrow>
              bindr
                (case execute_tool cfg spec res of
                   ToolOk outs \<Rightarrow>
                     (let node = node\<lparr>nr_outputs := outs, nr_error := None\<rparr> in
                      case transition now SUCCEEDED node of
                        Inr node \<Rightarrow> Inr (node, st)
                      | Inl e \<Rightarrow> handle_failure cfg now spec (crash_error (show_error e)) node st)
                 | ToolRaised exc \<Rightarrow> handle_failure cfg now spec exc node st
                 | ToolCrashed msg \<Rightarrow> handle_failure cfg now spec (crash_error msg) node st)
                (\<lambda>(node, st). Inr (put_node now node st))))"

fun finish_all :: "sched_cfg \<Rightarrow> graph_template \<Rightarrow> time \<Rightarrow> (string \<Rightarrow> tool_result option) \<Rightarrow> string list \<Rightarrow> sched \<Rightarrow> run_error option \<times> sched" where
  "finish_all cfg t now fin [] st = (None, st)"
| "finish_all cfg t now fin (nid # nids) st =
     (case fin nid of
        None \<Rightarrow> finish_all cfg t now fin nids st
      | Some res \<Rightarrow>
          (let st = st\<lparr>sd_futures := remove1 nid (sd_futures st)\<rparr> in
           case finish cfg t now nid res st of
             Inl e \<Rightarrow> (Some e, st)
           | Inr st \<Rightarrow> finish_all cfg t now fin nids st))"

section \<open>Cancellation and the loop\<close>

fun cancel_nodes :: "time \<Rightarrow> string list \<Rightarrow> sched \<Rightarrow> run_error option \<times> sched" where
  "cancel_nodes now [] st = (None, st)"
| "cancel_nodes now (nid # nids) st =
     (case node_at (sd_run st) nid of
        Inl e \<Rightarrow> (Some e, st)
      | Inr node \<Rightarrow>
          if nr_state node = RUNNING then
            (case transition now CANCELLED node of
               Inl e \<Rightarrow> (Some e, st)
             | Inr node \<Rightarrow> cancel_nodes now nids (put_node now node st))
          else cancel_nodes now nids st)"

definition set_run_state :: "time \<Rightarrow> run_state \<Rightarrow> sched \<Rightarrow> sched" where
  "set_run_state now s st =
     (let (run, store) = save_run now ((sd_run st)\<lparr>gr_state := s\<rparr>) (sd_store st)
      in st\<lparr>sd_run := run, sd_store := store\<rparr>)"

definition cancel :: "time \<Rightarrow> sched \<Rightarrow> tick_result" where
  "cancel now st =
     (case cancel_nodes now (sd_futures st) st of
        (Some e, st) \<Rightarrow> Raise e st
      | (None, st) \<Rightarrow> Return (set_run_state now R_PAUSED st))"

definition all_terminal :: "graph_run \<Rightarrow> bool" where
  "all_terminal run = list_all (\<lambda>s. s \<in> TERMINAL_NODE_STATES) (node_states run)"

definition check_done :: "graph_template \<Rightarrow> time \<Rightarrow> sched \<Rightarrow> tick_result" where
  "check_done t now st =
     (if sd_futures st \<noteq> [] then Continue st
      else case find_ready_nodes (sd_run st) t of
          Inl e \<Rightarrow> Raise e st
        | Inr ready \<Rightarrow>
            if ready = [] \<and> all_terminal (sd_run st)
            then Return (set_run_state now (determine_run_status (node_states (sd_run st))) st)
            else Continue st)"

definition tick :: "sched_cfg \<Rightarrow> graph_template \<Rightarrow> tick_in \<Rightarrow> sched \<Rightarrow> tick_result" where
  "tick cfg t inp st =
     (let now = ti_now inp in
      if ti_cancel inp then cancel now st
      else
        case process_blocked now (sd_run st) t of
          Inl e \<Rightarrow> Raise e st
        | Inr run \<Rightarrow>
            (let st = st\<lparr>sd_run := run\<rparr> in
             case find_ready_nodes run t of
               Inl e \<Rightarrow> Raise e st
             | Inr ready \<Rightarrow>
                 (case dispatch_all cfg t now
                         (py_take (concurrency cfg - int (length (sd_futures st))) ready) st of
                    (Some e, st) \<Rightarrow> Raise e st
                  | (None, st) \<Rightarrow>
                      (case finish_all cfg t now (ti_done inp) (sd_futures st) st of
                         (Some e, st) \<Rightarrow> Raise e st
                       | (None, st) \<Rightarrow> check_done t now st))))"

definition sched_start :: "time \<Rightarrow> graph_run \<Rightarrow> store \<Rightarrow> sched" where
  "sched_start now run store =
     set_run_state now R_RUNNING \<lparr>sd_run = run, sd_store = store, sd_futures = []\<rparr>"

text \<open>The loop on a stream of inputs; the fuel bounds the number of ticks.\<close>

fun sched_loop :: "sched_cfg \<Rightarrow> graph_template \<Rightarrow> (nat \<Rightarrow> tick_in) \<Rightarrow> nat \<Rightarrow> nat \<Rightarrow> sched \<Rightarrow> tick_result option" where
  "sched_loop cfg t env 0 k st = None"
| "sched_loop cfg t env (Suc fuel) k st =
     (case tick cfg t (env k) st of
        Continue st' \<Rightarrow> sched_loop cfg t env fuel (Suc k) st'
      | r \<Rightarrow> Some r)"

end
