(* ===== verification/Sched_Spec.thy ===== *)
theory Sched_Spec
  imports Scheduler
begin

text \<open>
  The abstract scheduler: what one node-level step of
  \<^verbatim>\<open>dft_forge/runtime/scheduler.py\<close> may do to the states, the attempt counters and the
  outputs of the nodes and to the set of running futures. \<open>astep\<close> leaves open which
  node moves and what its tool returns. Its invariants, its progress measure and the absence
  of deadlocks are proved here, once; theory \<open>Sched_Refine\<close> shows that the loop of the
  code only takes such steps.
\<close>

section \<open>States and steps\<close>

record anode =
  an_state :: node_state
  an_attempt :: int
  an_repairs :: int
  an_outputs :: "pyval pydict"

record astate =
  a_node :: "string \<Rightarrow> anode option"
  a_fut :: "string list"

definition a_upd :: "string \<Rightarrow> anode \<Rightarrow> astate \<Rightarrow> astate" where
  "a_upd k n s = s\<lparr>a_node := (a_node s)(k \<mapsto> n)\<rparr>"

definition a_is :: "astate \<Rightarrow> string \<Rightarrow> node_state \<Rightarrow> bool" where
  "a_is s k x = (\<exists>n. a_node s k = Some n \<and> an_state n = x)"

definition deps_met :: "astate \<Rightarrow> node_spec \<Rightarrow> bool" where
  "deps_met s spec = (\<forall>d \<in> set (ns_depends_on spec). a_is s d SUCCEEDED)"

definition deps_dead :: "astate \<Rightarrow> node_spec \<Rightarrow> bool" where
  "deps_dead s spec = (\<exists>d \<in> set (ns_depends_on spec). \<exists>x \<in> dead. a_is s d x)"

inductive astep :: "graph_template \<Rightarrow> int \<Rightarrow> astate \<Rightarrow> astate \<Rightarrow> bool"
  for t mc where
  block: "a_node s k = Some n \<Longrightarrow> an_state n = PENDING \<Longrightarrow> template_node t k = Some spec \<Longrightarrow>
     deps_dead s spec \<Longrightarrow> astep t mc s (a_upd k (n\<lparr>an_state := BLOCKED\<rparr>) s)"
| dispatch: "a_node s k = Some n \<Longrightarrow> an_state n \<in> {PENDING, READY} \<Longrightarrow> template_node t k = Some spec \<Longrightarrow>
     deps_met s spec \<Longrightarrow> int (length (a_fut s)) < mc \<Longrightarrow>
     astep t mc s ((a_upd k (n\<lparr>an_state := RUNNING, an_attempt := an_attempt n + 1\<rparr>) s)\<lparr>a_fut := a_fut s @ [k]\<rparr>)"
| succeed: "a_node s k = Some n \<Longrightarrow> an_state n = RUNNING \<Longrightarrow> k \<in> set (a_fut s) \<Longrightarrow>
     astep t mc s ((a_upd k (n\<lparr>an_state := SUCCEEDED, an_outputs := outs\<rparr>) s)\<lparr>a_fut := remove1 k (a_fut s)\<rparr>)"
| retry: "a_node s k = Some n \<Longrightarrow> an_state n = RUNNING \<Longrightarrow> k \<in> set (a_fut s) \<Longrightarrow> template_node t k = Some spec \<Longrightarrow>
     an_attempt n < ns_max_attempts spec \<Longrightarrow>
     astep t mc s ((a_upd k (n\<lparr>an_state := READY\<rparr>) s)\<lparr>a_fut := remove1 k (a_fut s)\<rparr>)"
| fail: "a_node s k = Some n \<Longrightarrow> an_state n = RUNNING \<Longrightarrow> k \<in> set (a_fut s) \<Longrightarrow> template_node t k = Some spec \<Longrightarrow>
     ns_max_attempts spec \<le> an_attempt n \<Longrightarrow>
     astep t mc s ((a_upd k (n\<lparr>an_state := FAILED\<rparr>) s)\<lparr>a_fut := remove1 k (a_fut s)\<rparr>)"
| repair: "a_node s k = Some n \<Longrightarrow> an_state n = RUNNING \<Longrightarrow> k \<in> set (a_fut s) \<Longrightarrow> template_node t k = Some spec \<Longrightarrow>
     an_repairs n < ns_max_repair_attempts spec \<Longrightarrow> x \<in> {READY, FAILED} \<Longrightarrow>
     astep t mc s ((a_upd k (n\<lparr>an_state := x, an_repairs := an_repairs n + 1\<rparr>) s)\<lparr>a_fut := remove1 k (a_fut s)\<rparr>)"

inductive_cases astepE: "astep t mc s s'"

text \<open>Every step changes one node, along the transition table and never back to Pending.\<close>

lemma astep_one:
  assumes "astep t mc s s'"
  obtains k n n' where "a_node s k = Some n" "a_node s' = (a_node s)(k \<mapsto> n')"
    "an_state n \<in> {PENDING, READY, RUNNING}" "node_forward\<^sup>*\<^sup>* (an_state n) (an_state n')"
    "an_state n' \<noteq> PENDING" "an_state n' \<noteq> REPAIRING"
    "an_state n = RUNNING \<longrightarrow> k \<in> set (a_fut s)"
proof -
  have fw: "node_forward x y" if "y \<in> ALLOWED_NODE_TRANSITIONS x" "y \<noteq> PENDING" for x y
    using that by (intro node_forwardI) (simp_all add: can_transition_def)
  have pr: "node_forward\<^sup>*\<^sup>* PENDING RUNNING"
    by (rule converse_rtranclp_into_rtranclp [of _ _ READY]) (auto intro!: r_into_rtranclp fw)
  show ?thesis
    using assms
  proof (cases rule: astep.cases)
    case (block k n spec)
    then show ?thesis using that [of k n "n\<lparr>an_state := BLOCKED\<rparr>"] by (simp add: a_upd_def fw r_into_rtranclp)
  next
    case (dispatch k n spec)
    then have "node_forward\<^sup>*\<^sup>* (an_state n) RUNNING"
      by (cases "an_state n") (simp_all add: pr fw r_into_rtranclp)
    moreover have "an_state n \<noteq> RUNNING" using dispatch by auto
    ultimately show ?thesis
      using that [of k n "n\<lparr>an_state := RUNNING, an_attempt := an_attempt n + 1\<rparr>"] dispatch
      by (simp add: a_upd_def)
  next
    case (succeed k n outs)
    then show ?thesis
      using that [of k n "n\<lparr>an_state := SUCCEEDED, an_outputs := outs\<rparr>"] by (simp add: a_upd_def fw r_into_rtranclp)
  next
    case (retry k n spec)
    then show ?thesis using that [of k n "n\<lparr>an_state := READY\<rparr>"] by (simp add: a_upd_def fw r_into_rtranclp)
  next
    case (fail k n spec)
    then show ?thesis using that [of k n "n\<lparr>an_state := FAILED\<rparr>"] by (simp add: a_upd_def fw r_into_rtranclp)
  next
    case (repair k n spec x)
    then have "node_forward\<^sup>*\<^sup>* (an_state n) x" by (auto intro!: r_into_rtranclp fw)
    with repair show ?thesis
      using that [of k n "n\<lparr>an_state := x, an_repairs := an_repairs n + 1\<rparr>"] by (auto simp: a_upd_def)
  qed
qed

section \<open>The invariant\<close>

definition ainv :: "graph_template \<Rightarrow> int \<Rightarrow> astate \<Rightarrow> bool" where
  "ainv t mc s \<longleftrightarrow>
     (\<forall>k. a_node s k \<noteq> None \<longleftrightarrow> k \<in> set (t_ids t)) \<and>
     distinct (a_fut s) \<and> (\<forall>k. k \<in> set (a_fut s) \<longleftrightarrow> a_is s k RUNNING) \<and>
     int (length (a_fut s)) \<le> mc \<and>
     (\<forall>k. \<not> a_is s k REPAIRING) \<and>
     (\<forall>k spec. a_is s k READY \<or> a_is s k RUNNING \<longrightarrow> template_node t k = Some spec \<longrightarrow> deps_met s spec)"

lemma a_is_upd [simp]: "a_is (a_upd k n s) j x \<longleftrightarrow> (if j = k then an_state n = x else a_is s j x)"
  by (simp add: a_is_def a_upd_def)

lemma a_is_fut [simp]: "a_is (s\<lparr>a_fut := f\<rparr>) j x = a_is s j x"
  by (simp add: a_is_def)

lemma a_upd_sel [simp]:
  "a_node (a_upd k n s) = (a_node s)(k \<mapsto> n)" "a_fut (a_upd k n s) = a_fut s"
  by (simp_all add: a_upd_def)

lemma deps_met_fut [simp]: "deps_met (s\<lparr>a_fut := f\<rparr>) spec = deps_met s spec"
  by (simp add: deps_met_def)

lemma deps_met_upd:
  "deps_met s spec \<Longrightarrow> \<not> a_is s k SUCCEEDED \<or> an_state n = SUCCEEDED \<Longrightarrow> deps_met (a_upd k n s) spec"
  by (auto simp: deps_met_def)

lemma a_isI: "a_node s k = Some n \<Longrightarrow> an_state n = x \<Longrightarrow> a_is s k x"
  by (simp add: a_is_def)

lemma a_is_unique: "a_is s k x \<Longrightarrow> a_is s k y \<Longrightarrow> x = y"
  by (auto simp: a_is_def)

lemma astep_ainv:
  assumes "astep t mc s s'" and "ainv t mc s"
  shows "ainv t mc s'"
  using assms
proof (cases rule: astep.cases)
  case (block k n spec)
  have "a_is s k PENDING" using block by (auto simp: a_is_def)
  then show ?thesis
    using assms(2) block unfolding ainv_def
    by (auto intro!: deps_met_upd dest: a_is_unique)
next
  case (dispatch k n spec)
  then have k: "a_is s k PENDING \<or> a_is s k READY" by (auto simp: a_is_def)
  then have "k \<notin> set (a_fut s)"
    using assms(2) unfolding ainv_def by (metis a_is_unique node_state.distinct(3,17))
  with k show ?thesis
    using assms(2) dispatch unfolding ainv_def
    by (auto intro!: deps_met_upd dest: a_is_unique)
next
  case (succeed k n outs)
  have "a_is s k RUNNING" using succeed by (auto simp: a_is_def)
  then show ?thesis
    using assms(2) succeed unfolding ainv_def
    by (auto intro!: deps_met_upd simp: length_remove1 dest: a_is_unique)
next
  case (retry k n spec)
  have "a_is s k RUNNING" using retry by (auto simp: a_is_def)
  then show ?thesis
    using assms(2) retry unfolding ainv_def
    by (auto intro!: deps_met_upd simp: length_remove1 dest: a_is_unique)
next
  case (fail k n spec)
  have "a_is s k RUNNING" using fail by (auto simp: a_is_def)
  then show ?thesis
    using assms(2) fail unfolding ainv_def
    by (auto intro!: deps_met_upd simp: length_remove1 dest: a_is_unique)
next
  case (repair k n spec x)
  have "a_is s k RUNNING" using repair by (auto simp: a_is_def)
  then show ?thesis
    using assms(2) repair unfolding ainv_def
    by (auto intro!: deps_met_upd simp: length_remove1 dest: a_is_unique)
qed

text \<open>The part of the invariant about the futures alone, which also holds of interrupted runs.\<close>

definition afut :: "int \<Rightarrow> astate \<Rightarrow> bool" where
  "afut mc s \<longleftrightarrow> distinct (a_fut s) \<and> (\<forall>k \<in> set (a_fut s). a_is s k RUNNING) \<and> int (length (a_fut s)) \<le> mc"

lemma ainv_afut: "ainv t mc s \<Longrightarrow> afut mc s"
  by (simp add: ainv_def afut_def)

lemma astep_afut:
  assumes "astep t mc s s'" and "afut mc s"
  shows "afut mc s'"
  using assms
proof (cases rule: astep.cases)
  case (dispatch k n spec)
  then have "k \<notin> set (a_fut s)" using assms(2) by (auto simp: afut_def a_is_def)
  with dispatch assms(2) show ?thesis by (auto simp: afut_def)
next
  case (block k n spec)
  then have "k \<notin> set (a_fut s)" using assms(2) by (auto simp: afut_def a_is_def)
  with block assms(2) show ?thesis by (auto simp: afut_def)
qed (use assms(2) in \<open>auto simp: afut_def length_remove1\<close>)

lemma asteps_afut: "(astep t mc)\<^sup>*\<^sup>* s s' \<Longrightarrow> afut mc s \<Longrightarrow> afut mc s'"
  by (induction rule: rtranclp_induct) (auto dest: astep_afut)

text \<open>A running node that has no future never changes.\<close>

lemma astep_orphan:
  assumes "astep t mc s s'" and "a_is s k RUNNING" and "k \<notin> set (a_fut s)"
  shows "a_is s' k RUNNING \<and> k \<notin> set (a_fut s')"
  using assms
  by (cases rule: astep.cases) (auto simp: a_is_def dest: in_set_remove1 [THEN iffD1, rotated] notin_set_remove1)

lemma asteps_orphan:
  "(astep t mc)\<^sup>*\<^sup>* s s' \<Longrightarrow> a_is s k RUNNING \<and> k \<notin> set (a_fut s) \<Longrightarrow> a_is s' k RUNNING \<and> k \<notin> set (a_fut s')"
  by (induction rule: rtranclp_induct) (auto dest: astep_orphan)

text \<open>Terminal nodes never change again.\<close>

lemma astep_terminal:
  assumes "astep t mc s s'" and "a_node s k = Some n" and "an_state n \<in> TERMINAL_NODE_STATES"
  shows "a_node s' k = Some n"
proof -
  obtain j m m' where "a_node s j = Some m" "a_node s' = (a_node s)(j \<mapsto> m')"
    "an_state m \<in> {PENDING, READY, RUNNING}"
    using assms(1) by (rule astep_one)
  with assms(2,3) show ?thesis by (auto simp: TERMINAL_NODE_STATES_def)
qed

lemma asteps_terminal:
  "(astep t mc)\<^sup>*\<^sup>* s s' \<Longrightarrow> a_node s k = Some n \<Longrightarrow> an_state n \<in> TERMINAL_NODE_STATES \<Longrightarrow> a_node s' k = Some n"
  by (induction rule: rtranclp_induct) (auto dest: astep_terminal)

lemma asteps_ainv: "(astep t mc)\<^sup>*\<^sup>* s s' \<Longrightarrow> ainv t mc s \<Longrightarrow> ainv t mc s'"
  by (induction rule: rtranclp_induct) (auto dest: astep_ainv)

section \<open>Histories\<close>

text \<open>
  What the state of a node says about its past in a run that started with fresh nodes: a
  node that was dispatched had all its dependencies succeed, every dispatch beyond
  \<open>max_attempts\<close> was paid for by a repair, a failed node used its attempts up or had a
  failed repair, and a blocked node never ran and has a dead dependency.
\<close>

definition node_history :: "astate \<Rightarrow> node_spec \<Rightarrow> anode \<Rightarrow> bool" where
  "node_history s spec n \<longleftrightarrow>
     0 \<le> an_repairs n \<and> an_repairs n \<le> ns_max_repair_attempts spec \<and>
     0 \<le> an_attempt n \<and> an_attempt n \<le> ns_max_attempts spec + an_repairs n \<and>
     (case an_state n of
        PENDING \<Rightarrow> an_attempt n = 0 \<and> an_repairs n = 0
      | READY \<Rightarrow> 0 < an_attempt n \<and> an_attempt n < ns_max_attempts spec + an_repairs n \<and> deps_met s spec
      | RUNNING \<Rightarrow> 0 < an_attempt n \<and> deps_met s spec
      | SUCCEEDED \<Rightarrow> 0 < an_attempt n \<and> deps_met s spec
      | FAILED \<Rightarrow> 0 < an_attempt n \<and> deps_met s spec \<and>
          (ns_max_attempts spec \<le> an_attempt n \<or> 0 < an_repairs n)
      | BLOCKED \<Rightarrow> an_attempt n = 0 \<and> deps_dead s spec
      | _ \<Rightarrow> False)"

definition ahist :: "graph_template \<Rightarrow> astate \<Rightarrow> bool" where
  "ahist t s \<longleftrightarrow> (\<forall>k n spec. a_node s k = Some n \<longrightarrow> template_node t k = Some spec \<longrightarrow> node_history s spec n)"

lemma deps_met_step:
  assumes "astep t mc s s'" and "deps_met s spec"
  shows "deps_met s' spec"
  using assms(2) astep_terminal [OF assms(1)]
  by (fastforce simp: deps_met_def a_is_def TERMINAL_NODE_STATES_def)

lemma deps_dead_step:
  assumes "astep t mc s s'" and "deps_dead s spec"
  shows "deps_dead s' spec"
  using assms(2) astep_terminal [OF assms(1)] unfolding deps_dead_def a_is_def
  by (fastforce simp: dead_def TERMINAL_NODE_STATES_def)

lemma node_history_step:
  "astep t mc s s' \<Longrightarrow> node_history s spec n \<Longrightarrow> node_history s' spec n"
  using deps_met_step [of t mc s s' spec] deps_dead_step [of t mc s s' spec]
  unfolding node_history_def by (auto split: node_state.splits)

lemma astep_ahist:
  assumes step: "astep t mc s s'" and h: "ahist t s" and inv: "ainv t mc s"
    and pos: "\<And>spec. spec \<in> set (t_nodes t) \<Longrightarrow> 1 \<le> ns_max_attempts spec \<and> 0 \<le> ns_max_repair_attempts spec"
  shows "ahist t s'"
proof -
  have old: "node_history s' spec n" if "a_node s k = Some n" "template_node t k = Some spec" for k n spec
    using node_history_step [OF step] h that unfolding ahist_def by blast
  have upd: "ahist t s'"
    if a: "a_node s' = (a_node s)(k \<mapsto> n')" and
      n': "\<And>spec. template_node t k = Some spec \<Longrightarrow> node_history s' spec n'" for k n'
    using old n' unfolding ahist_def a by auto
  note hs = old [unfolded node_history_def]
  show ?thesis
    using step
  proof (cases rule: astep.cases)
    case (block k n spec)
    then show ?thesis
      using hs [of k n spec] deps_dead_step [OF step, of spec]
      by (intro upd [of k "n\<lparr>an_state := BLOCKED\<rparr>"]) (auto simp: node_history_def)
  next
    case (dispatch k n spec)
    have "1 \<le> ns_max_attempts spec" using pos template_node_SomeD [OF dispatch(4)] by auto
    then show ?thesis
      using dispatch hs [of k n spec] deps_met_step [OF step, of spec]
      by (intro upd [of k "n\<lparr>an_state := RUNNING, an_attempt := an_attempt n + 1\<rparr>"]) (auto simp: node_history_def)
  next
    case (succeed k n outs)
    then show ?thesis
      using hs [of k n]
      by (intro upd [of k "n\<lparr>an_state := SUCCEEDED, an_outputs := outs\<rparr>"]) (auto simp: node_history_def)
  next
    case (retry k n spec)
    then show ?thesis
      using hs [of k n spec]
      by (intro upd [of k "n\<lparr>an_state := READY\<rparr>"]) (auto simp: node_history_def)
  next
    case (fail k n spec)
    then show ?thesis
      using hs [of k n spec]
      by (intro upd [of k "n\<lparr>an_state := FAILED\<rparr>"]) (auto simp: node_history_def)
  next
    case (repair k n spec x)
    then show ?thesis
      using hs [of k n spec]
      by (intro upd [of k "n\<lparr>an_state := x, an_repairs := an_repairs n + 1\<rparr>"]) (auto simp: node_history_def)
  qed
qed

lemma asteps_ahist:
  "(astep t mc)\<^sup>*\<^sup>* s s' \<Longrightarrow> ahist t s \<Longrightarrow> ainv t mc s \<Longrightarrow>
     (\<And>spec. spec \<in> set (t_nodes t) \<Longrightarrow> 1 \<le> ns_max_attempts spec \<and> 0 \<le> ns_max_repair_attempts spec) \<Longrightarrow>
     ahist t s'"
  by (induction rule: rtranclp_induct) (auto intro: astep_ahist asteps_ainv)

section \<open>The progress measure\<close>

text \<open>
  \<open>dispatches_left\<close> bounds how often a pending or ready node can still be dispatched: the
  plain attempts that are left, at least one, plus one for every repair that is left. Each
  dispatch and each completion lowers \<open>weight\<close>; a terminal node weighs nothing.
\<close>

definition dispatches_left :: "node_spec \<Rightarrow> int \<Rightarrow> int \<Rightarrow> nat" where
  "dispatches_left spec attempt repairs =
     nat (max 1 (ns_max_attempts spec - attempt)) + nat (ns_max_repair_attempts spec - repairs)"

definition weight :: "node_spec \<Rightarrow> anode \<Rightarrow> nat" where
  "weight spec n =
     (if an_state n \<in> TERMINAL_NODE_STATES then 0
      else if an_state n \<in> {PENDING, READY} then 2 * dispatches_left spec (an_attempt n) (an_repairs n)
      else 2 * dispatches_left spec (an_attempt n - 1) (an_repairs n) - 1)"

definition a_weight :: "graph_template \<Rightarrow> astate \<Rightarrow> nat" where
  "a_weight t s = (\<Sum>spec \<leftarrow> t_nodes t. case a_node s (ns_id spec) of None \<Rightarrow> 0 | Some n \<Rightarrow> weight spec n)"

lemma dispatches_left_pos: "0 < dispatches_left spec a r"
  by (auto simp: dispatches_left_def max_def)

lemma sum_list_update_less:
  fixes f g :: "'a \<Rightarrow> nat"
  assumes "x \<in> set xs" and "f x < g x" and "\<And>y. y \<in> set xs \<Longrightarrow> f y \<le> g y"
  shows "(\<Sum>y \<leftarrow> xs. f y) < (\<Sum>y \<leftarrow> xs. g y)"
  using assms
proof (induction xs)
  case (Cons a xs)
  have le: "(\<Sum>y \<leftarrow> xs. f y) \<le> (\<Sum>y \<leftarrow> xs. g y)" using Cons.prems(3) by (intro sum_list_mono) auto
  show ?case
  proof (cases "x \<in> set xs")
    case True
    with Cons show ?thesis by (simp add: add_le_less_mono)
  next
    case False
    with Cons.prems le show ?thesis by (auto intro: add_less_le_mono)
  qed
qed simp

lemma a_weight_less:
  assumes ids: "distinct (t_ids t)" and spec: "template_node t k = Some spec"
    and "a_node s k = Some n" "a_node s' = (a_node s)(k \<mapsto> n')" and "weight spec n' < weight spec n"
  shows "a_weight t s' < a_weight t s"
  unfolding a_weight_def
proof (rule sum_list_update_less [of spec])
  have sp: "spec \<in> set (t_nodes t)" "ns_id spec = k" using spec by (auto dest: template_node_SomeD)
  then show "spec \<in> set (t_nodes t)" by simp
  show "(case a_node s' (ns_id spec) of None \<Rightarrow> 0 | Some n \<Rightarrow> weight spec n)
      < (case a_node s (ns_id spec) of None \<Rightarrow> 0 | Some n \<Rightarrow> weight spec n)"
    using sp assms(3-5) by simp
  fix y assume y: "y \<in> set (t_nodes t)"
  show "(case a_node s' (ns_id y) of None \<Rightarrow> 0 | Some n \<Rightarrow> weight y n)
      \<le> (case a_node s (ns_id y) of None \<Rightarrow> 0 | Some n \<Rightarrow> weight y n)"
  proof (cases "ns_id y = k")
    case True
    then have "y = spec" using template_node_unique [OF ids y] spec by simp
    with sp assms(3-5) show ?thesis by simp
  qed (simp add: assms(4))
qed

lemma astep_weight:
  assumes "distinct (t_ids t)" and "ainv t mc s" and "astep t mc s s'"
  shows "a_weight t s' < a_weight t s"
  using assms(3)
proof (cases rule: astep.cases)
  case (block k n spec)
  then show ?thesis
    using dispatches_left_pos [of spec "an_attempt n" "an_repairs n"]
    by (intro a_weight_less [OF assms(1), of k spec s n _ "n\<lparr>an_state := BLOCKED\<rparr>"])
      (auto simp: weight_def TERMINAL_NODE_STATES_def)
next
  case (dispatch k n spec)
  then show ?thesis
    using dispatches_left_pos [of spec "an_attempt n" "an_repairs n"]
    by (intro a_weight_less [OF assms(1), of k spec s n _ "n\<lparr>an_state := RUNNING, an_attempt := an_attempt n + 1\<rparr>"])
      (auto simp: weight_def TERMINAL_NODE_STATES_def)
next
  case (succeed k n outs)
  have "k \<in> set (t_ids t)" using succeed assms(2) by (auto simp: ainv_def simp del: set_map)
  then obtain spec where "template_node t k = Some spec"
    using template_node_unique [OF assms(1)] by auto
  with succeed show ?thesis
    using dispatches_left_pos [of spec "an_attempt n - 1" "an_repairs n"]
    by (intro a_weight_less [OF assms(1), of k spec s n _ "n\<lparr>an_state := SUCCEEDED, an_outputs := outs\<rparr>"])
      (auto simp: weight_def TERMINAL_NODE_STATES_def)
next
  case (retry k n spec)
  have "dispatches_left spec (an_attempt n) (an_repairs n) < dispatches_left spec (an_attempt n - 1) (an_repairs n)"
    using retry by (auto simp: dispatches_left_def)
  with retry show ?thesis
    by (intro a_weight_less [OF assms(1), of k spec s n _ "n\<lparr>an_state := READY\<rparr>"])
      (auto simp: weight_def TERMINAL_NODE_STATES_def)
next
  case (fail k n spec)
  then show ?thesis
    using dispatches_left_pos [of spec "an_attempt n - 1" "an_repairs n"]
    by (intro a_weight_less [OF assms(1), of k spec s n _ "n\<lparr>an_state := FAILED\<rparr>"])
      (auto simp: weight_def TERMINAL_NODE_STATES_def)
next
  case (repair k n spec x)
  have "dispatches_left spec (an_attempt n) (an_repairs n + 1) < dispatches_left spec (an_attempt n - 1) (an_repairs n)"
    using repair by (auto simp: dispatches_left_def max_def)
  with repair show ?thesis
    by (intro a_weight_less [OF assms(1), of k spec s n _ "n\<lparr>an_state := x, an_repairs := an_repairs n + 1\<rparr>"])
      (auto simp: weight_def TERMINAL_NODE_STATES_def)
qed

section \<open>No deadlock\<close>

text \<open>
  In a template with acyclic, existing dependencies, a state without running futures in
  which no node is ready and no pending node has a dead dependency is final.
\<close>

lemma no_deadlock:
  assumes inv: "ainv t mc s" and ids: "distinct (t_ids t)"
    and deps: "\<And>n. n \<in> set (t_nodes t) \<Longrightarrow> set (ns_depends_on n) \<subseteq> set (t_ids t)"
    and acyc: "acyclic (dep_rel t)" and "a_fut s = []"
    and not_ready: "\<And>spec. spec \<in> set (t_nodes t) \<Longrightarrow> a_is s (ns_id spec) PENDING \<or> a_is s (ns_id spec) READY \<Longrightarrow> \<not> deps_met s spec"
    and not_dead: "\<And>spec. spec \<in> set (t_nodes t) \<Longrightarrow> a_is s (ns_id spec) PENDING \<Longrightarrow> \<not> deps_dead s spec"
    and n: "a_node s k = Some n"
  shows "an_state n \<in> TERMINAL_NODE_STATES"
proof -
  have "finite (dep_rel t)"
    by (rule finite_subset [of _ "set (t_ids t) \<times> set (t_ids t)"]) (use deps in \<open>auto simp: dep_rel_def\<close>)
  then have wf: "wf ((dep_rel t)\<inverse>)" using acyc by (simp add: finite_acyclic_wf_converse)
  have spec: "\<exists>spec. template_node t j = Some spec" if "a_node s j = Some m" for j m
  proof -
    have "j \<in> set (t_ids t)" using that inv unfolding ainv_def by (metis option.distinct(1))
    then show ?thesis using template_node_unique [OF ids] by auto
  qed
  have idle: "\<not> a_is s j RUNNING" "\<not> a_is s j REPAIRING" for j
    using inv assms(5) by (auto simp: ainv_def)
  have not_ready_state: "\<not> a_is s j READY" for j
  proof
    assume r: "a_is s j READY"
    then obtain sp where sp: "template_node t j = Some sp" using spec by (auto simp: a_is_def)
    then have "deps_met s sp" using r inv unfolding ainv_def by blast
    then show False using not_ready [of sp] sp r by (auto dest: template_node_SomeD)
  qed
  show ?thesis
    using n
  proof (induction k arbitrary: n rule: wf_induct_rule [OF wf])
    case (1 k)
    show ?case
    proof (rule ccontr)
      assume nt: "an_state n \<notin> TERMINAL_NODE_STATES"
      have P: "a_is s k PENDING"
        using nt idle [of k] not_ready_state [of k] 1(2)
        by (cases "an_state n") (auto simp: a_is_def TERMINAL_NODE_STATES_def)
      obtain sp where sp: "sp \<in> set (t_nodes t)" "ns_id sp = k"
        using spec [OF 1(2)] by (auto dest: template_node_SomeD)
      have "a_is s d SUCCEEDED" if d: "d \<in> set (ns_depends_on sp)" for d
      proof -
        obtain m where m: "a_node s d = Some m"
          using deps [OF sp(1)] d inv unfolding ainv_def by blast
        have "(d, k) \<in> (dep_rel t)\<inverse>" using sp d by (auto simp: dep_rel_def)
        then have "an_state m \<in> TERMINAL_NODE_STATES" using 1(1) m by blast
        moreover have "an_state m \<notin> dead"
          using not_dead [OF sp(1)] P sp(2) d m by (auto simp: deps_dead_def a_is_def)
        ultimately show ?thesis
          using m by (auto simp: a_is_def TERMINAL_NODE_STATES_def dead_def)
      qed
      then have "deps_met s sp" by (simp add: deps_met_def)
      then show False using not_ready [OF sp(1)] P sp(2) by blast
    qed
  qed
qed

end
