(* ===== verification/Sched_Refine.thy ===== *)
theory Sched_Refine
  imports Sched_Spec
begin

text \<open>
  The scheduler loop of \<^verbatim>\<open>dft_forge/runtime/scheduler.py\<close> refines the abstract steps
  of \<open>Sched_Spec\<close>: blocking, dispatch, completion and therefore every tick map to
  sequences of abstract steps under the abstraction \<open>abs_sched\<close>. A tick that returns has
  reached a final state, and a tick that changes nothing is waiting for a tool.
\<close>

section \<open>Abstraction\<close>

definition abs_node :: "node_run \<Rightarrow> anode" where
  "abs_node n = \<lparr>an_state = nr_state n, an_attempt = nr_attempt n, an_repairs = nr_repair_attempts n,
     an_outputs = nr_outputs n\<rparr>"

definition abs_run :: "graph_run \<Rightarrow> string list \<Rightarrow> astate" where
  "abs_run run fs = \<lparr>a_node = (\<lambda>k. map_option abs_node (dget (gr_nodes run) k)), a_fut = fs\<rparr>"

definition abs_sched :: "sched \<Rightarrow> astate" where
  "abs_sched st = abs_run (sd_run st) (sd_futures st)"

definition run_ok :: "graph_template \<Rightarrow> graph_run \<Rightarrow> bool" where
  "run_ok t run \<longleftrightarrow> run_keyed run \<and> set (dkeys (gr_nodes run)) = set (t_ids t) \<and>
     (\<forall>x. dmem x (t_inputs t) \<longrightarrow> dmem x (gr_inputs run))"

lemma run_okI:
  assumes "list_all (\<lambda>(k, n). nr_node_id n = k) (gr_nodes run)" and "distinct (dkeys (gr_nodes run))"
    and "dkeys (gr_nodes run) = t_ids t" and "dkeys (gr_inputs run) = dkeys (t_inputs t)"
  shows "run_ok t run"
  using assms
  by (auto simp: run_ok_def run_keyed_def wf_dict_def dkeys_def dget_def list_all_iff dmem_iff
      dest!: map_of_SomeD)

definition tmpl_ok :: "graph_template \<Rightarrow> bool" where
  "tmpl_ok t \<longleftrightarrow> distinct (t_ids t) \<and> (\<forall>n \<in> set (t_nodes t). set (ns_depends_on n) \<subseteq> set (t_ids t))"

lemma tmpl_ok_valid: "validate t kt = [] \<Longrightarrow> tmpl_ok t \<and> acyclic (dep_rel t)"
  by (auto simp: validate_Nil_iff valid_template_def valid_node_def tmpl_ok_def)

lemma run_ok_node:
  assumes "run_ok t run" and "k \<in> set (t_ids t)"
  obtains n where "dget (gr_nodes run) k = Some n" "nr_node_id n = k" "node_at run k = Inr n"
proof -
  have "k \<in> set (dkeys (gr_nodes run))" using assms by (simp add: run_ok_def)
  then obtain n where "dget (gr_nodes run) k = Some n"
    using dget_None_iff [of "gr_nodes run" k] by (cases "dget (gr_nodes run) k") auto
  then show ?thesis using assms(1) that [of n] by (auto simp: run_ok_def run_keyed_def node_at_def)
qed

lemma abs_run_sel [simp]:
  "a_node (abs_run run fs) k = map_option abs_node (dget (gr_nodes run) k)" "a_fut (abs_run run fs) = fs"
  by (simp_all add: abs_run_def)

lemma abs_node_sel [simp]:
  "an_state (abs_node n) = nr_state n" "an_attempt (abs_node n) = nr_attempt n"
  "an_repairs (abs_node n) = nr_repair_attempts n" "an_outputs (abs_node n) = nr_outputs n"
  by (simp_all add: abs_node_def)

lemma a_is_abs: "dget (gr_nodes run) k = Some n \<Longrightarrow> a_is (abs_run run fs) k x \<longleftrightarrow> nr_state n = x"
  by (simp add: a_is_def)

lemma run_ok_set_node: "run_ok t run \<Longrightarrow> nr_node_id n \<in> set (t_ids t) \<Longrightarrow> run_ok t (set_node n run)"
  by (auto simp: run_ok_def run_keyed_def pydict insert_absorb simp del: set_map split: if_splits)

lemma abs_set_node: "abs_run (set_node n run) fs = a_upd (nr_node_id n) (abs_node n) (abs_run run fs)"
  by (auto simp: abs_run_def a_upd_def pydict)

lemma abs_run_fut: "abs_run run fs = (abs_run run gs)\<lparr>a_fut := fs\<rparr>"
  by (simp add: abs_run_def)

lemma a_upd_fut: "(a_upd k n s)\<lparr>a_fut := fs\<rparr> = a_upd k n (s\<lparr>a_fut := fs\<rparr>)"
  by (simp add: a_upd_def)

section \<open>Ready and blocked nodes\<close>

lemma all_succeeded_eq:
  assumes "run_ok t run" and "set ds \<subseteq> set (t_ids t)"
  shows "all_succeeded run ds = Inr (\<forall>d \<in> set ds. a_is (abs_run run fs) d SUCCEEDED)"
  using assms(2)
proof (induction ds)
  case (Cons d ds)
  then obtain n where n: "dget (gr_nodes run) d = Some n" "node_at run d = Inr n"
    using run_ok_node [OF assms(1), of d] by auto
  with Cons show ?case by (simp add: a_is_abs)
qed simp

lemma any_dead_eq:
  assumes "run_ok t run" and "set ds \<subseteq> set (t_ids t)"
  shows "any_dead run ds = Inr (\<exists>d \<in> set ds. \<exists>x \<in> dead. a_is (abs_run run fs) d x)"
  using assms(2)
proof (induction ds)
  case (Cons d ds)
  then obtain n where n: "dget (gr_nodes run) d = Some n" "node_at run d = Inr n"
    using run_ok_node [OF assms(1), of d] by auto
  with Cons show ?case by (simp add: a_is_abs)
qed simp

definition ready_spec :: "astate \<Rightarrow> node_spec \<Rightarrow> bool" where
  "ready_spec s spec \<longleftrightarrow>
     (a_is s (ns_id spec) PENDING \<or> a_is s (ns_id spec) READY) \<and> deps_met s spec"

lemma find_ready_eq:
  assumes "tmpl_ok t" and "run_ok t run"
  shows "find_ready_nodes run t = Inr (map ns_id (filter (ready_spec (abs_run run fs)) (t_nodes t)))"
proof -
  have "find_ready_from run specs = Inr (map ns_id (filter (ready_spec (abs_run run fs)) specs))"
    if "set specs \<subseteq> set (t_nodes t)" for specs
    using that
  proof (induction specs)
    case (Cons spec specs)
    then have "ns_id spec \<in> set (t_ids t)" and deps: "set (ns_depends_on spec) \<subseteq> set (t_ids t)"
      using assms(1) by (auto simp: tmpl_ok_def)
    then obtain n where "dget (gr_nodes run) (ns_id spec) = Some n" "node_at run (ns_id spec) = Inr n"
      using run_ok_node [OF assms(2)] by metis
    with Cons deps show ?case
      by (auto simp: ready_spec_def a_is_abs deps_met_def all_succeeded_eq [OF assms(2), of _ fs])
  qed simp
  then show ?thesis by (simp add: find_ready_nodes_def)
qed

lemma block_from_sim:
  assumes "tmpl_ok t" and "run_ok t run" and "set specs \<subseteq> set (t_nodes t)"
  shows "\<exists>run'. block_from now specs run = Inr run' \<and> run_ok t run' \<and>
     run'\<lparr>gr_nodes := gr_nodes run\<rparr> = run \<and>
     (astep t mc)\<^sup>*\<^sup>* (abs_run run fs) (abs_run run' fs) \<and>
     ((\<exists>spec \<in> set specs. a_is (abs_run run fs) (ns_id spec) PENDING \<and> deps_dead (abs_run run fs) spec) \<longrightarrow>
        (astep t mc)\<^sup>+\<^sup>+ (abs_run run fs) (abs_run run' fs))"
  using assms(2,3)
proof (induction specs arbitrary: run)
  case (Cons spec specs)
  have mem: "spec \<in> set (t_nodes t)" "ns_id spec \<in> set (t_ids t)" and deps: "set (ns_depends_on spec) \<subseteq> set (t_ids t)"
    using Cons.prems assms(1) by (auto simp: tmpl_ok_def)
  obtain n where n: "dget (gr_nodes run) (ns_id spec) = Some n" "nr_node_id n = ns_id spec" "node_at run (ns_id spec) = Inr n"
    using run_ok_node [OF Cons.prems(1) mem(2)] by metis
  have dd: "any_dead run (ns_depends_on spec) = Inr (deps_dead (abs_run run fs) spec)"
    unfolding deps_dead_def by (rule any_dead_eq [OF Cons.prems(1) deps])
  show ?case
  proof (cases "nr_state n = PENDING \<and> deps_dead (abs_run run fs) spec")
    case True
    let ?n = "n\<lparr>nr_state := BLOCKED, nr_updated_at := now\<rparr>"
    have tr: "transition now BLOCKED n = Inr ?n" using True by (simp add: can_transition_def)
    have ok: "run_ok t (set_node ?n run)" using Cons.prems(1) mem n by (intro run_ok_set_node) auto
    have tn: "template_node t (ns_id spec) = Some spec"
      using assms(1) mem(1) by (intro template_node_unique) (auto simp: tmpl_ok_def)
    have eq: "abs_node ?n = (abs_node n)\<lparr>an_state := BLOCKED\<rparr>" by (simp add: abs_node_def)
    have step: "astep t mc (abs_run run fs) (abs_run (set_node ?n run) fs)"
      using astep.block [of "abs_run run fs" "ns_id spec" "abs_node n" t spec mc] n True tn
      by (simp add: abs_set_node eq)
    obtain run' where "block_from now specs (set_node ?n run) = Inr run'" "run_ok t run'"
      "run'\<lparr>gr_nodes := gr_nodes (set_node ?n run)\<rparr> = set_node ?n run"
      "(astep t mc)\<^sup>*\<^sup>* (abs_run (set_node ?n run) fs) (abs_run run' fs)"
      using Cons.IH [OF ok] Cons.prems(2) by auto
    moreover from this(3) have "run'\<lparr>gr_nodes := gr_nodes run\<rparr> = run"
      by (cases run; cases run') (simp add: set_node_def)
    ultimately show ?thesis
      using step n True dd tr by (auto intro: rtranclp_into_tranclp2 converse_rtranclp_into_rtranclp)
  next
    case False
    then have "block_from now (spec # specs) run = block_from now specs run"
      using n dd by auto
    with Cons.IH [OF Cons.prems(1)] Cons.prems(2) False n show ?thesis
      by (auto simp: a_is_abs)
  qed
qed simp

section \<open>Dispatch and completion\<close>

lemma abs_node_update: "abs_node (n\<lparr>nr_updated_at := now\<rparr>) = abs_node n"
  by (simp add: abs_node_def)

lemma put_node_sel:
  "sd_futures (put_node now n st) = sd_futures st"
  "sd_run (put_node now n st) = set_node (n\<lparr>nr_updated_at := now\<rparr>) (sd_run st)"
  by (simp_all add: put_node_def save_node_run_def Let_def)

lemma abs_put_node: "abs_sched (put_node now n st) = a_upd (nr_node_id n) (abs_node n) (abs_sched st)"
  by (simp add: abs_sched_def put_node_sel abs_set_node abs_node_update)

lemma abs_fut: "abs_sched (st\<lparr>sd_futures := fs\<rparr>) = (abs_sched st)\<lparr>a_fut := fs\<rparr>"
  by (simp add: abs_sched_def abs_run_def)

lemma bind_params_fields:
  "bind_params run spec n = Inr n' \<Longrightarrow> nr_node_id n' = nr_node_id n \<and> abs_node n' = abs_node n"
  by (auto simp: bind_params_def bindr_eq_Inr abs_node_def split: if_splits)

lemma prepare_dispatch_sim:
  assumes "run_ok t (sd_run st)" and spec: "template_node t k = Some spec"
    and n: "dget (gr_nodes (sd_run st)) k = Some n"
    and st': "prepare_dispatch cfg t now k st = Inr st'"
  shows "nr_state n \<in> {PENDING, READY} \<and> run_ok t (sd_run st') \<and> sd_futures st' = sd_futures st \<and>
     abs_sched st' = a_upd k ((abs_node n)\<lparr>an_state := RUNNING, an_attempt := nr_attempt n + 1\<rparr>) (abs_sched st)"
proof -
  have k: "k \<in> set (t_ids t)" using spec template_node_SomeD [OF spec] by force
  have at: "node_at (sd_run st) k = Inr n" and nid: "nr_node_id n = k"
    using n assms(1) by (auto simp: node_at_def run_ok_def run_keyed_def)
  obtain n1 where n1: "bind_params (sd_run st) spec n = Inr n1"
    using st' spec at by (auto simp: prepare_dispatch_def bindr_eq_Inr)
  note f = bind_params_fields [OF n1]
  then have f': "nr_state n1 = nr_state n" "nr_attempt n1 = nr_attempt n"
    "nr_repair_attempts n1 = nr_repair_attempts n" "nr_outputs n1 = nr_outputs n"
    unfolding abs_node_def by simp_all
  let ?n2 = "n1\<lparr>nr_attempt := nr_attempt n1 + 1\<rparr>"
  obtain n3 where n3: "(if nr_state ?n2 = PENDING then transition now READY ?n2 else Inr ?n2) = Inr n3"
    and n4: "can_transition (nr_state n3) RUNNING"
    and st'_eq: "st' = put_node now (n3\<lparr>nr_state := RUNNING, nr_updated_at := now,
        nr_workdir := Some (sc_base_dir cfg @ ''/'' @ gr_run_id (sd_run st) @ ''/'' @ k)\<rparr>) st"
    using st' spec at n1 by (auto simp: prepare_dispatch_def bindr_eq_Inr transition_Inr Let_def)
  from n3 have n3': "nr_node_id n3 = k" "nr_attempt n3 = nr_attempt n + 1"
    "nr_repair_attempts n3 = nr_repair_attempts n" "nr_outputs n3 = nr_outputs n"
    "nr_state n3 = (if nr_state n = PENDING then READY else nr_state n)"
    using f f' nid by (auto simp: transition_Inr split: if_splits)
  have "nr_state n \<in> {PENDING, READY}"
    using n4 n3'(5) by (cases "nr_state n") (auto simp: can_transition_def)
  then show ?thesis
    using assms(1) k n3' unfolding st'_eq
    by (auto simp: put_node_sel abs_put_node abs_node_def intro!: run_ok_set_node)
qed

text \<open>Dispatching a ready node raises only when a parameter reference does not resolve.\<close>

definition unresolved :: "graph_template \<Rightarrow> run_error \<Rightarrow> sched \<Rightarrow> bool" where
  "unresolved t e st \<longleftrightarrow> (\<exists>spec \<in> set (t_nodes t).
     resolve_params (sd_run st) (ns_params spec) = Inl e \<and> deps_met (abs_sched st) spec)"

lemma prepare_dispatch_error:
  assumes "run_ok t (sd_run st)" and spec: "template_node t k = Some spec"
    and n: "dget (gr_nodes (sd_run st)) k = Some n" "nr_state n \<in> {PENDING, READY}"
    and err: "prepare_dispatch cfg t now k st = Inl e"
  shows "resolve_params (sd_run st) (ns_params spec) = Inl e"
proof -
  have at: "node_at (sd_run st) k = Inr n" using n by (simp add: node_at_def)
  show ?thesis
  proof (cases "bind_params (sd_run st) spec n")
    case (Inl e')
    with err spec at show ?thesis
      by (auto simp: prepare_dispatch_def bind_params_def bindr_eq_Inl split: if_splits)
  next
    case (Inr n1)
    with bind_params_fields [OF this] have "nr_state n1 \<in> {PENDING, READY}"
      using n(2) by (auto simp: abs_node_def)
    with err spec at Inr show ?thesis
      by (auto simp: prepare_dispatch_def transition_def can_transition_def Let_def split: if_splits)
  qed
qed

lemma ready_spec_keep:
  assumes "ready_spec s spec" and "ns_id spec \<noteq> k" and "\<not> a_is s k SUCCEEDED"
  shows "ready_spec ((a_upd k n s)\<lparr>a_fut := fs\<rparr>) spec"
  using assms by (auto simp: ready_spec_def deps_met_def)

lemma dispatch_all_sim:
  assumes "tmpl_ok t" and "run_ok t (sd_run st)" and "distinct (map ns_id specs)"
    and "set specs \<subseteq> set (t_nodes t)" and "\<forall>spec \<in> set specs. ready_spec (abs_sched st) spec"
    and "int (length (sd_futures st) + length specs) \<le> mc"
    and "dispatch_all cfg t now (map ns_id specs) st = (e, st')"
  shows "run_ok t (sd_run st') \<and> (astep t mc)\<^sup>*\<^sup>* (abs_sched st) (abs_sched st') \<and>
     (specs \<noteq> [] \<and> e = None \<longrightarrow> (astep t mc)\<^sup>+\<^sup>+ (abs_sched st) (abs_sched st')) \<and>
     (\<forall>err. e = Some err \<longrightarrow> unresolved t err st')"
  using assms(2-)
proof (induction specs arbitrary: st)
  case (Cons spec specs)
  let ?k = "ns_id spec"
  have mem: "spec \<in> set (t_nodes t)" "?k \<in> set (t_ids t)" using Cons.prems(3) by auto
  have tn: "template_node t ?k = Some spec"
    using assms(1) mem(1) by (intro template_node_unique) (auto simp: tmpl_ok_def)
  obtain n where n: "dget (gr_nodes (sd_run st)) ?k = Some n"
    using run_ok_node [OF Cons.prems(1) mem(2)] by metis
  show ?case
  proof (cases "prepare_dispatch cfg t now ?k st")
    case (Inl err)
    have "nr_state n \<in> {PENDING, READY}"
      using Cons.prems(4) n by (auto simp: ready_spec_def abs_sched_def a_is_abs)
    from prepare_dispatch_error [OF Cons.prems(1) tn n this Inl] mem Cons.prems(4)
    have "unresolved t err st" by (auto simp: unresolved_def ready_spec_def)
    with Inl Cons.prems show ?thesis by auto
  next
    case (Inr st1)
    let ?st2 = "st1\<lparr>sd_futures := sd_futures st1 @ [?k]\<rparr>"
    let ?n' = "(abs_node n)\<lparr>an_state := RUNNING, an_attempt := nr_attempt n + 1\<rparr>"
    note sim = prepare_dispatch_sim [OF Cons.prems(1) tn n Inr]
    then have ab: "abs_sched ?st2 = (a_upd ?k ?n' (abs_sched st))\<lparr>a_fut := a_fut (abs_sched st) @ [?k]\<rparr>"
      by (simp add: abs_fut) (simp add: abs_sched_def)
    have ns: "\<not> a_is (abs_sched st) ?k SUCCEEDED"
      using sim n by (auto simp: abs_sched_def a_is_abs)
    have "deps_met (abs_sched st) spec" using Cons.prems(4) by (simp add: ready_spec_def)
    then have step: "astep t mc (abs_sched st) (abs_sched ?st2)"
      unfolding ab using sim n tn Cons.prems(5)
        astep.dispatch [of "abs_sched st" ?k "abs_node n" t spec mc]
      by (simp add: abs_sched_def)
    have "ns_id sp \<noteq> ?k" if "sp \<in> set specs" for sp
      using that Cons.prems(2) by (force simp: image_iff)
    then have "\<forall>sp \<in> set specs. ready_spec (abs_sched ?st2) sp"
      unfolding ab using Cons.prems(4) ns by (intro ballI ready_spec_keep) auto
    then have "run_ok t (sd_run st') \<and> (astep t mc)\<^sup>*\<^sup>* (abs_sched ?st2) (abs_sched st') \<and>
        (\<forall>err. e = Some err \<longrightarrow> unresolved t err st')"
      using Cons.IH [of ?st2] Cons.prems Inr sim by auto
    with step show ?thesis by (auto intro: rtranclp_into_tranclp2 converse_rtranclp_into_rtranclp)
  qed
qed simp


text \<open>One completion: what \<open>_finish\<close> may do to a running node and nothing else.\<close>

definition finish_step :: "node_spec \<Rightarrow> anode \<Rightarrow> anode \<Rightarrow> bool" where
  "finish_step spec n n' \<longleftrightarrow>
     (\<exists>outs. n' = n\<lparr>an_state := SUCCEEDED, an_outputs := outs\<rparr>) \<or>
     (an_attempt n < ns_max_attempts spec \<and> n' = n\<lparr>an_state := READY\<rparr>) \<or>
     (ns_max_attempts spec \<le> an_attempt n \<and> n' = n\<lparr>an_state := FAILED\<rparr>) \<or>
     (an_repairs n < ns_max_repair_attempts spec \<and>
        (\<exists>x \<in> {READY, FAILED}. n' = n\<lparr>an_state := x, an_repairs := an_repairs n + 1\<rparr>))"

lemma finish_step_astep:
  assumes "finish_step spec n n'" and "a_node s k = Some n" "an_state n = RUNNING"
    "k \<in> set (a_fut s)" "template_node t k = Some spec"
  shows "astep t mc s ((a_upd k n' s)\<lparr>a_fut := remove1 k (a_fut s)\<rparr>)"
  using assms unfolding finish_step_def by (auto intro: astep.intros)

lemma run_repairer_fields:
  "run_repairer r exc n = (b, n') \<Longrightarrow>
     nr_node_id n' = nr_node_id n \<and> nr_state n' = nr_state n \<and> nr_attempt n' = nr_attempt n \<and>
     nr_repair_attempts n' = nr_repair_attempts n \<and> nr_outputs n' = nr_outputs n"
  by (auto simp: run_repairer_def split: prod.splits repair_outcome.splits)

lemma handle_failure_sim:
  assumes run: "nr_state n = RUNNING"
    and ok: "run_ok t (sd_run st)" "nr_node_id n \<in> set (t_ids t)"
  shows "\<exists>n' st'. handle_failure cfg now spec exc n st = Inr (n', st') \<and>
     nr_node_id n' = nr_node_id n \<and> finish_step spec (abs_node n) (abs_node n') \<and>
     nr_state n' \<in> {READY, FAILED} \<and>
     run_ok t (sd_run st') \<and> sd_futures st' = sd_futures st \<and>
     (\<exists>m. abs_sched st' = a_upd (nr_node_id n) m (abs_sched st) \<or> abs_sched st' = abs_sched st)"
proof -
  let ?n = "n\<lparr>nr_error := Some (''['' @ te_category exc @ ''] '' @ te_message exc)\<rparr>"
  show ?thesis
  proof (cases "if te_repairable exc \<and> nr_repair_attempts n < ns_max_repair_attempts spec
      then repairer_for cfg spec else None")
    case None
    then show ?thesis
      using assms
      by (auto simp: handle_failure_def Let_def can_transition_def finish_step_def abs_node_def)
  next
    case (Some r)
    then have room: "nr_repair_attempts n < ns_max_repair_attempts spec" by (auto split: if_splits)
    let ?n1 = "?n\<lparr>nr_state := REPAIRING, nr_updated_at := now\<rparr>"
    let ?n2 = "?n1\<lparr>nr_repair_attempts := nr_repair_attempts n + 1\<rparr>"
    obtain b n3 where r: "run_repairer r exc ?n2 = (b, n3)" by force
    note f = run_repairer_fields [OF r]
    let ?n4 = "n3\<lparr>nr_state := (if b then READY else FAILED), nr_updated_at := now\<rparr>"
    have hf: "handle_failure cfg now spec exc n st = Inr (?n4, put_node now ?n1 st)"
      using Some run r f by (simp add: handle_failure_def Let_def can_transition_def)
    have "finish_step spec (abs_node n) (abs_node ?n4)"
      using f room by (cases b) (simp_all add: finish_step_def abs_node_def)
    then show ?thesis
      unfolding hf using f ok
      by (auto simp: put_node_sel abs_put_node intro!: run_ok_set_node)
  qed
qed

lemma finish_sim:
  assumes ok: "run_ok t (sd_run st)" and spec: "template_node t k = Some spec"
    and n: "dget (gr_nodes (sd_run st)) k = Some n" "nr_state n = RUNNING"
  shows "\<exists>st' n'. finish cfg t now k res st = Inr st' \<and> run_ok t (sd_run st') \<and>
     sd_futures st' = sd_futures st \<and> finish_step spec (abs_node n) n' \<and>
     abs_sched st' = a_upd k n' (abs_sched st)"
proof -
  have k: "k \<in> set (t_ids t)" using template_node_SomeD [OF spec] by force
  have at: "node_at (sd_run st) k = Inr n" and nid: "nr_node_id n = k"
    using n ok by (auto simp: node_at_def run_ok_def run_keyed_def)
  have nt: "nr_state n \<notin> TERMINAL_NODE_STATES" using n(2) by (simp add: TERMINAL_NODE_STATES_def)
  have put: ?thesis
    if h: "handle_failure cfg now spec exc n st = Inr (n', st1)"
      "finish cfg t now k res st = Inr (put_node now n' st1)" for exc n' st1
  proof -
    have f: "nr_node_id n' = k" "finish_step spec (abs_node n) (abs_node n')"
      "run_ok t (sd_run st1)" "sd_futures st1 = sd_futures st"
      and ab: "\<exists>m. abs_sched st1 = a_upd k m (abs_sched st) \<or> abs_sched st1 = abs_sched st"
      using handle_failure_sim [OF n(2) ok, of cfg now spec exc] k nid h(1) by auto
    have "abs_sched (put_node now n' st1) = a_upd k (abs_node n') (abs_sched st)"
      using ab f(1) by (auto simp: abs_put_node a_upd_def)
    moreover have "run_ok t (sd_run (put_node now n' st1))"
      using f k by (auto simp: put_node_sel intro!: run_ok_set_node)
    ultimately show ?thesis using f h(2) by (auto simp: put_node_sel)
  qed
  have hf: "\<exists>n' st1. handle_failure cfg now spec exc n st = Inr (n', st1)" for exc
    using handle_failure_sim [OF n(2) ok, of cfg now spec exc] k nid by auto
  show ?thesis
  proof (cases "execute_tool cfg spec res")
    case (ToolOk outs)
    let ?n = "n\<lparr>nr_outputs := outs, nr_error := None, nr_state := SUCCEEDED, nr_updated_at := now\<rparr>"
    have "finish cfg t now k res st = Inr (put_node now ?n st)"
      using ToolOk at nt spec n(2) by (simp add: finish_def Let_def can_transition_def)
    moreover have "finish_step spec (abs_node n) (abs_node ?n)"
      by (auto simp: finish_step_def abs_node_def)
    moreover have "abs_sched (put_node now ?n st) = a_upd k (abs_node ?n) (abs_sched st)"
      using nid by (simp add: abs_put_node)
    moreover have "run_ok t (sd_run (put_node now ?n st))"
      using ok k nid by (auto simp: put_node_sel intro!: run_ok_set_node)
    ultimately show ?thesis by (auto simp: put_node_sel)
  next
    case (ToolRaised exc)
    then obtain n' st1 where h: "handle_failure cfg now spec exc n st = Inr (n', st1)" using hf by blast
    then show ?thesis
      by (rule put) (simp add: finish_def at nt spec ToolRaised h)
  next
    case (ToolCrashed msg)
    then obtain n' st1 where h: "handle_failure cfg now spec (crash_error msg) n st = Inr (n', st1)" using hf by blast
    then show ?thesis
      by (rule put) (simp add: finish_def at nt spec ToolCrashed h)
  qed
qed

lemma finish_all_sim:
  assumes "tmpl_ok t" and "run_ok t (sd_run st)" and "afut mc (abs_sched st)"
    and "distinct ks" and "set ks \<subseteq> set (sd_futures st)"
  shows "\<exists>st'. finish_all cfg t now fin ks st = (None, st') \<and> run_ok t (sd_run st') \<and>
     (astep t mc)\<^sup>*\<^sup>* (abs_sched st) (abs_sched st') \<and>
     ((\<exists>k \<in> set ks. fin k \<noteq> None) \<longrightarrow> (astep t mc)\<^sup>+\<^sup>+ (abs_sched st) (abs_sched st'))"
  using assms(2-)
proof (induction ks arbitrary: st)
  case (Cons k ks)
  show ?case
  proof (cases "fin k")
    case None
    with Cons show ?thesis by auto
  next
    case (Some res)
    have run: "a_is (abs_sched st) k RUNNING"
      using Cons.prems(2,4) by (auto simp: afut_def abs_sched_def)
    then obtain n where n: "dget (gr_nodes (sd_run st)) k = Some n" "nr_state n = RUNNING"
      by (auto simp: a_is_def abs_sched_def)
    have "k \<in> set (t_ids t)"
      using n(1) Cons.prems(1) dget_SomeD [OF n(1)] by (auto simp: run_ok_def simp del: set_map)
    then obtain spec where spec: "template_node t k = Some spec"
      using assms(1) template_node_unique [of t] by (auto simp: tmpl_ok_def)
    let ?st1 = "st\<lparr>sd_futures := remove1 k (sd_futures st)\<rparr>"
    obtain st2 n' where st2: "finish cfg t now k res ?st1 = Inr st2" "run_ok t (sd_run st2)"
      "sd_futures st2 = remove1 k (sd_futures st)" "finish_step spec (abs_node n) n'"
      "abs_sched st2 = a_upd k n' (abs_sched ?st1)"
      using finish_sim [of t ?st1 k spec n cfg now res] Cons.prems(1) spec n by auto
    have "abs_sched st2 = (a_upd k n' (abs_sched st))\<lparr>a_fut := remove1 k (a_fut (abs_sched st))\<rparr>"
      unfolding st2(5) by (simp add: abs_sched_def abs_run_def a_upd_def)
    then have step: "astep t mc (abs_sched st) (abs_sched st2)"
      using finish_step_astep [OF st2(4), of "abs_sched st" k t mc] n spec run Cons.prems(4)
      by (simp add: abs_sched_def)
    have "afut mc (abs_sched st2)" by (rule astep_afut [OF step Cons.prems(2)])
    moreover have "set ks \<subseteq> set (sd_futures st2)"
    proof
      fix x assume "x \<in> set ks"
      with Cons.prems(3,4) have "x \<noteq> k" "x \<in> set (sd_futures st)" by auto
      then show "x \<in> set (sd_futures st2)" by (simp add: st2(3) in_set_remove1)
    qed
    ultimately obtain st' where "finish_all cfg t now fin ks st2 = (None, st')" "run_ok t (sd_run st')"
      "(astep t mc)\<^sup>*\<^sup>* (abs_sched st2) (abs_sched st')"
      using Cons.IH [OF st2(2)] Cons.prems(3) by auto
    with Some st2(1) step show ?thesis
      by (auto simp: Let_def intro: rtranclp_into_tranclp2 converse_rtranclp_into_rtranclp)
  qed
qed simp


section \<open>Ticks\<close>

lemma set_run_state_sel [simp]:
  "sd_futures (set_run_state now x st) = sd_futures st"
  "gr_nodes (sd_run (set_run_state now x st)) = gr_nodes (sd_run st)"
  "gr_state (sd_run (set_run_state now x st)) = x"
  "gr_run_id (sd_run (set_run_state now x st)) = gr_run_id (sd_run st)"
  "abs_sched (set_run_state now x st) = abs_sched st"
  "run_ok t (sd_run (set_run_state now x st)) = run_ok t (sd_run st)"
  by (simp_all add: set_run_state_def save_run_def Let_def touch_def abs_sched_def abs_run_def
      run_ok_def run_keyed_def)

lemma get_run_row_set_run_state [simp]:
  "get_run_row (sd_store (set_run_state now x st)) (gr_run_id (sd_run st)) =
     Some (row_of_run (sd_run (set_run_state now x st)))"
  by (simp add: set_run_state_def save_run_def Let_def touch_def run_tbl.get_put)

lemma node_states_set_run_state [simp]: "node_states (sd_run (set_run_state now x st)) = node_states (sd_run st)"
  by (simp add: node_states_def)

lemma all_terminal_abs:
  assumes "run_ok t run"
  shows "all_terminal run \<longleftrightarrow> (\<forall>k n. a_node (abs_run run fs) k = Some n \<longrightarrow> an_state n \<in> TERMINAL_NODE_STATES)"
proof -
  have "wf_dict (gr_nodes run)" using assms by (simp add: run_ok_def run_keyed_def)
  then have "all_terminal run \<longleftrightarrow> (\<forall>k n. dget (gr_nodes run) k = Some n \<longrightarrow> nr_state n \<in> TERMINAL_NODE_STATES)"
    by (auto simp: all_terminal_def node_states_def list_all_iff dvals_in)
  also have "\<dots> \<longleftrightarrow> (\<forall>k n. a_node (abs_run run fs) k = Some n \<longrightarrow> an_state n \<in> TERMINAL_NODE_STATES)"
  proof (intro iffI allI impI)
    fix k n
    assume "\<forall>k n. a_node (abs_run run fs) k = Some n \<longrightarrow> an_state n \<in> TERMINAL_NODE_STATES"
      and "dget (gr_nodes run) k = Some n"
    then have "an_state (abs_node n) \<in> TERMINAL_NODE_STATES" by (metis abs_run_sel(1) option.map(2))
    then show "nr_state n \<in> TERMINAL_NODE_STATES" by simp
  qed auto
  finally show ?thesis .
qed

definition quiet :: "tick_in \<Rightarrow> sched \<Rightarrow> bool" where
  "quiet inp st \<longleftrightarrow> sd_futures st \<noteq> [] \<and> (\<forall>k \<in> set (sd_futures st). ti_done inp k = None)"

definition final_sched :: "sched \<Rightarrow> bool" where
  "final_sched st \<longleftrightarrow> sd_futures st = [] \<and> all_terminal (sd_run st) \<and>
     gr_state (sd_run st) = determine_run_status (node_states (sd_run st)) \<and>
     get_run_row (sd_store st) (gr_run_id (sd_run st)) = Some (row_of_run (sd_run st))"

lemma check_done_sim:
  assumes "tmpl_ok t" and "run_ok t (sd_run st)"
  shows "(check_done t now st = Continue st \<and>
       \<not> (sd_futures st = [] \<and> filter (ready_spec (abs_sched st)) (t_nodes t) = [] \<and> all_terminal (sd_run st))) \<or>
     (\<exists>st'. check_done t now st = Return st' \<and> final_sched st' \<and> run_ok t (sd_run st') \<and> abs_sched st' = abs_sched st)"
  using find_ready_eq [OF assms, of "sd_futures st"] assms(2)
  by (auto simp: check_done_def final_sched_def all_terminal_def abs_sched_def [symmetric])

lemma no_progress:
  assumes "r\<^sup>*\<^sup>* a b" and "r\<^sup>*\<^sup>* b c" and "\<not> r\<^sup>+\<^sup>+ a c"
  shows "b = a \<and> \<not> r\<^sup>+\<^sup>+ a b \<and> \<not> r\<^sup>+\<^sup>+ b c"
  using assms by (metis rtranclpD rtranclp_tranclp_tranclp tranclp_rtranclp_tranclp)

lemma tick_sim:
  assumes t: "tmpl_ok t" "acyclic (dep_rel t)" and ok: "run_ok t (sd_run st)"
    and inv: "afut (concurrency cfg) (abs_sched st)" and nc: "\<not> ti_cancel inp"
  shows "case tick cfg t inp st of
     Continue st' \<Rightarrow> run_ok t (sd_run st') \<and> (astep t (concurrency cfg))\<^sup>*\<^sup>* (abs_sched st) (abs_sched st') \<and>
        (ainv t (concurrency cfg) (abs_sched st) \<longrightarrow>
          (astep t (concurrency cfg))\<^sup>+\<^sup>+ (abs_sched st) (abs_sched st') \<or> (abs_sched st' = abs_sched st \<and> quiet inp st))
   | Return st' \<Rightarrow> run_ok t (sd_run st') \<and> (astep t (concurrency cfg))\<^sup>*\<^sup>* (abs_sched st) (abs_sched st') \<and> final_sched st'
   | Raise e st' \<Rightarrow> run_ok t (sd_run st') \<and> (astep t (concurrency cfg))\<^sup>*\<^sup>* (abs_sched st) (abs_sched st') \<and> unresolved t e st'"
proof -
  let ?mc = "concurrency cfg" and ?S = "astep t (concurrency cfg)" and ?A = "abs_sched st"
  obtain run1 where blk: "process_blocked (ti_now inp) (sd_run st) t = Inr run1" "run_ok t run1"
    and A1: "?S\<^sup>*\<^sup>* ?A (abs_run run1 (sd_futures st))"
    and B1: "(\<exists>spec \<in> set (t_nodes t). a_is ?A (ns_id spec) PENDING \<and> deps_dead ?A spec) \<longrightarrow>
        ?S\<^sup>+\<^sup>+ ?A (abs_run run1 (sd_futures st))"
    using block_from_sim [OF t(1) ok, of "t_nodes t" "ti_now inp" ?mc "sd_futures st"]
    by (auto simp: process_blocked_def abs_sched_def)
  let ?st1 = "st\<lparr>sd_run := run1\<rparr>"
  have ab1: "abs_run run1 (sd_futures st) = abs_sched ?st1" by (simp add: abs_sched_def)
  have inv1: "afut ?mc (abs_sched ?st1)" using asteps_afut [OF A1 inv] by (simp add: ab1)
  let ?ready = "filter (ready_spec (abs_sched ?st1)) (t_nodes t)"
  let ?slots = "?mc - int (length (sd_futures st))"
  let ?specs = "py_take ?slots ?ready"
  have slots: "0 \<le> ?slots" using inv by (simp add: afut_def abs_sched_def)
  have rdy: "find_ready_nodes run1 t = Inr (map ns_id ?ready)"
    using find_ready_eq [OF t(1) blk(2), of "sd_futures st"] by (simp only: ab1)
  obtain e st2 where dsp: "dispatch_all cfg t (ti_now inp) (map ns_id ?specs) ?st1 = (e, st2)" by force
  have "run_ok t (sd_run st2) \<and> ?S\<^sup>*\<^sup>* (abs_sched ?st1) (abs_sched st2) \<and>
      (?specs \<noteq> [] \<and> e = None \<longrightarrow> ?S\<^sup>+\<^sup>+ (abs_sched ?st1) (abs_sched st2)) \<and>
      (\<forall>err. e = Some err \<longrightarrow> unresolved t err st2)"
  proof (rule dispatch_all_sim [OF t(1) _ _ _ _ _ dsp])
    show "distinct (map ns_id ?specs)"
      using t(1) distinct_py_take [of "map ns_id ?ready" ?slots]
      by (simp add: tmpl_ok_def distinct_map_filter py_take_map)
    show "set ?specs \<subseteq> set (t_nodes t)" "\<forall>spec \<in> set ?specs. ready_spec (abs_sched ?st1) spec"
      using set_py_take [of ?slots ?ready] by auto
    show "int (length (sd_futures ?st1) + length ?specs) \<le> ?mc"
      using length_py_take [OF slots, of ?ready] by simp
  qed (use blk in simp)
  then have ok2: "run_ok t (sd_run st2)" and A2: "?S\<^sup>*\<^sup>* (abs_sched ?st1) (abs_sched st2)"
    and B2: "?specs \<noteq> [] \<and> e = None \<longrightarrow> ?S\<^sup>+\<^sup>+ (abs_sched ?st1) (abs_sched st2)"
    and E2: "\<And>err. e = Some err \<Longrightarrow> unresolved t err st2" by auto
  have A02: "?S\<^sup>*\<^sup>* ?A (abs_sched st2)" using A1 A2 by (simp add: ab1)
  have step: "tick cfg t inp st = (case e of Some err \<Rightarrow> Raise err st2 | None \<Rightarrow>
      (case finish_all cfg t (ti_now inp) (ti_done inp) (sd_futures st2) st2 of
         (Some err, st) \<Rightarrow> Raise err st | (None, st) \<Rightarrow> check_done t (ti_now inp) st))"
    using nc blk(1) rdy dsp by (simp add: tick_def Let_def py_take_map split: option.split)
  show ?thesis
  proof (cases e)
    case (Some err)
    with step ok2 A02 E2 show ?thesis by simp
  next
    case None
    have inv2: "afut ?mc (abs_sched st2)" by (rule asteps_afut [OF A2 inv1])
    then have "distinct (sd_futures st2)" by (simp add: afut_def abs_sched_def)
    from finish_all_sim [OF t(1) ok2 inv2 this order_refl, of cfg "ti_now inp" "ti_done inp"]
    obtain st3 where fin: "finish_all cfg t (ti_now inp) (ti_done inp) (sd_futures st2) st2 = (None, st3)"
      and ok3: "run_ok t (sd_run st3)" and A3: "?S\<^sup>*\<^sup>* (abs_sched st2) (abs_sched st3)"
      and B3: "(\<exists>k \<in> set (sd_futures st2). ti_done inp k \<noteq> None) \<longrightarrow> ?S\<^sup>+\<^sup>+ (abs_sched st2) (abs_sched st3)"
      by blast
    have A03: "?S\<^sup>*\<^sup>* ?A (abs_sched st3)" using A02 A3 by simp
    have tk: "tick cfg t inp st = check_done t (ti_now inp) st3" using step None fin by simp
    consider (ret) st' where "check_done t (ti_now inp) st3 = Return st'" "final_sched st'"
        "run_ok t (sd_run st')" "abs_sched st' = abs_sched st3"
      | (cont) "check_done t (ti_now inp) st3 = Continue st3"
        "\<not> (sd_futures st3 = [] \<and> filter (ready_spec (abs_sched st3)) (t_nodes t) = [] \<and> all_terminal (sd_run st3))"
      using check_done_sim [OF t(1) ok3, of "ti_now inp"] by blast
    then show ?thesis
    proof cases
      case ret
      with tk A03 show ?thesis by simp
    next
      case cont
      have "abs_sched st3 = ?A \<and> quiet inp st" if ai: "ainv t ?mc ?A" and no: "\<not> ?S\<^sup>+\<^sup>+ ?A (abs_sched st3)"
      proof -
        have A13: "?S\<^sup>*\<^sup>* (abs_sched ?st1) (abs_sched st3)" using A2 A3 by simp
        have e1: "abs_sched ?st1 = ?A" and nb: "\<not> ?S\<^sup>+\<^sup>+ ?A (abs_sched ?st1)"
          and n1: "\<not> ?S\<^sup>+\<^sup>+ (abs_sched ?st1) (abs_sched st3)"
          using no_progress [OF A1 [unfolded ab1] A13 no] by blast+
        have e2: "abs_sched st2 = abs_sched ?st1" and nd: "\<not> ?S\<^sup>+\<^sup>+ (abs_sched ?st1) (abs_sched st2)"
          and nf: "\<not> ?S\<^sup>+\<^sup>+ (abs_sched st2) (abs_sched st3)"
          using no_progress [OF A2 A3 n1] by blast+
        have e3: "abs_sched st3 = abs_sched st2"
          using rtranclpD [OF A3] nf by auto
        have fut: "sd_futures st2 = sd_futures st" "sd_futures st3 = sd_futures st"
          using arg_cong [OF e1, of a_fut] arg_cong [OF e2, of a_fut] arg_cong [OF e3, of a_fut]
          by (simp_all add: abs_sched_def)
        have "sd_futures st \<noteq> []"
        proof
          assume F: "sd_futures st = []"
          have "?specs = []" using B2 nd None by blast
          then have R: "?ready = []" using F by (simp add: py_take_Nil_iff concurrency_def)
          have "an_state n \<in> TERMINAL_NODE_STATES" if "a_node ?A k = Some n" for k n
          proof (rule no_deadlock [OF ai _ _ t(2) _ _ _ that])
            show "\<not> deps_met ?A spec" if "spec \<in> set (t_nodes t)" "a_is ?A (ns_id spec) PENDING \<or> a_is ?A (ns_id spec) READY" for spec
              using R that unfolding e1 by (auto simp: filter_empty_conv ready_spec_def)
            show "\<not> deps_dead ?A spec" if "spec \<in> set (t_nodes t)" "a_is ?A (ns_id spec) PENDING" for spec
              using B1 nb that unfolding ab1 by blast
          qed (use t(1) F in \<open>auto simp: tmpl_ok_def abs_sched_def\<close>)
          then have "all_terminal (sd_run st3)"
            unfolding all_terminal_abs [OF ok3, of "sd_futures st3", folded abs_sched_def]
            unfolding e3 e2 e1 by blast
          with cont(2) R F fut e1 e2 e3 show False by simp
        qed
        with B3 nf fut e1 e2 e3 show ?thesis by (auto simp: quiet_def)
      qed
      with cont(1) tk ok3 A03 show ?thesis by auto
    qed
  qed
qed

end
