(* ===== verification/Sched_Props.thy ===== *)
theory Sched_Props
  imports Sched_Refine
begin

text \<open>
  What the scheduler of \<^verbatim>\<open>dft_forge/runtime/scheduler.py\<close> guarantees of
  a run that is not cancelled: it returns, with the outcome the graph and the tools determine, and its invariants
  between the iterations. The last section holds the limits of the code: what an interrupted run cannot do
  any more. What also holds with cancellation is in \<open>Sched_Durable\<close>.
\<close>

section \<open>The loop stops\<close>

definition sched_inv :: "sched_cfg \<Rightarrow> graph_template \<Rightarrow> sched \<Rightarrow> bool" where
  "sched_inv cfg t st \<longleftrightarrow> tmpl_ok t \<and> acyclic (dep_rel t) \<and> run_ok t (sd_run st) \<and>
     ainv t (concurrency cfg) (abs_sched st)"

definition tick_step :: "sched_cfg \<Rightarrow> graph_template \<Rightarrow> tick_in \<Rightarrow> sched \<Rightarrow> sched + tick_result" where
  "tick_step cfg t inp st = (case tick cfg t inp st of Continue st' \<Rightarrow> Inl st' | r \<Rightarrow> Inr r)"

definition all_done :: "tick_in \<Rightarrow> bool" where
  "all_done inp \<longleftrightarrow> (\<forall>k. ti_done inp k \<noteq> None)"

lemma asteps_weight:
  "(astep t mc)\<^sup>+\<^sup>+ s s' \<Longrightarrow> distinct (t_ids t) \<Longrightarrow> ainv t mc s \<Longrightarrow> a_weight t s' < a_weight t s"
proof (induction rule: tranclp_induct)
  case (step u v)
  then have "ainv t mc u" using asteps_ainv by (metis tranclp_into_rtranclp)
  with step show ?case using astep_weight by fastforce
qed (rule astep_weight)

lemma tick_not_cancelled: "tick cfg t inp st = Continue st' \<Longrightarrow> \<not> ti_cancel inp"
  by (auto simp: tick_def cancel_def Let_def split: prod.splits option.splits)

lemma sched_inv_sel:
  assumes "sched_inv cfg t st"
  shows "tmpl_ok t" "acyclic (dep_rel t)" "run_ok t (sd_run st)" "ainv t (concurrency cfg) (abs_sched st)"
    "afut (concurrency cfg) (abs_sched st)"
  using assms ainv_afut by (auto simp: sched_inv_def)

lemma tick_continue:
  assumes inv: "sched_inv cfg t st" and "tick cfg t inp st = Continue st'"
  shows "sched_inv cfg t st' \<and> (astep t (concurrency cfg))\<^sup>*\<^sup>* (abs_sched st) (abs_sched st') \<and>
    (a_weight t (abs_sched st') < a_weight t (abs_sched st) \<or> abs_sched st' = abs_sched st \<and> quiet inp st)"
proof -
  note a = sched_inv_sel [OF inv]
  have "run_ok t (sd_run st') \<and> (astep t (concurrency cfg))\<^sup>*\<^sup>* (abs_sched st) (abs_sched st') \<and>
      ((astep t (concurrency cfg))\<^sup>+\<^sup>+ (abs_sched st) (abs_sched st') \<or> abs_sched st' = abs_sched st \<and> quiet inp st)"
    using tick_sim [OF sched_inv_sel(1-3,5) [OF inv] tick_not_cancelled [OF assms(2)]] assms(2) a(4) by simp
  then have ok: "run_ok t (sd_run st')" and m: "(astep t (concurrency cfg))\<^sup>*\<^sup>* (abs_sched st) (abs_sched st')"
    and "a_weight t (abs_sched st') < a_weight t (abs_sched st) \<or> abs_sched st' = abs_sched st \<and> quiet inp st"
    using asteps_weight [of t "concurrency cfg" "abs_sched st" "abs_sched st'"] a
    by (auto simp: tmpl_ok_def)
  then show ?thesis using a asteps_ainv [OF m a(4)] by (simp add: sched_inv_def)
qed

lemma all_done_busy: "all_done inp \<Longrightarrow> \<not> quiet inp st"
  by (cases "sd_futures st") (auto simp: all_done_def quiet_def)

interpretation sched_lp: ranked_loop "tick_step cfg t" "sched_inv cfg t" "\<lambda>st. a_weight t (abs_sched st)" all_done
  for cfg t
proof
  fix s i s'
  assume inv: "sched_inv cfg t s" and "tick_step cfg t i s = Inl s'"
  then have tk: "tick cfg t i s = Continue s'" by (simp add: tick_step_def split: tick_result.splits)
  note c = tick_continue [OF inv tk]
  then show "sched_inv cfg t s' \<and> a_weight t (abs_sched s') \<le> a_weight t (abs_sched s)" by auto
  show "a_weight t (abs_sched s') < a_weight t (abs_sched s)" if "all_done i"
    using c all_done_busy [OF that] by blast
qed

lemma sched_loop_eq: "sched_loop cfg t env fuel k st = sched_lp.loop cfg t env fuel k st"
  by (induction fuel arbitrary: k st) (auto simp: tick_step_def split: tick_result.splits)

text \<open>A run that can be started: one node per template node, pending or terminal.\<close>

definition startable :: "graph_template \<Rightarrow> graph_run \<Rightarrow> bool" where
  "startable t run \<longleftrightarrow> run_ok t run \<and>
     (\<forall>k n. dget (gr_nodes run) k = Some n \<longrightarrow> nr_state n \<in> insert PENDING TERMINAL_NODE_STATES)"

lemma sched_start_abs: "abs_sched (sched_start now run store) = abs_run run []"
  by (simp add: sched_start_def) (simp add: abs_sched_def)

lemma sched_inv_start:
  assumes "validate t kt = []" and "startable t run"
  shows "sched_inv cfg t (sched_start now run store)"
proof -
  have ok: "run_ok t run" using assms(2) by (simp add: startable_def)
  have st: "\<not> a_is (abs_run run []) k x" if "x \<in> {READY, RUNNING, REPAIRING}" for k x
    using assms(2) that unfolding a_is_def startable_def TERMINAL_NODE_STATES_def by fastforce
  have "(a_node (abs_run run []) k \<noteq> None) = (k \<in> set (t_ids t))" for k
    using ok dget_None_iff [of "gr_nodes run" k] by (auto simp: run_ok_def simp del: set_map)
  then have "ainv t (concurrency cfg) (abs_run run [])"
    using st by (auto simp: ainv_def concurrency_def simp del: set_map)
  moreover have "run_ok t (sd_run (sched_start now run store))"
    using ok by (simp add: sched_start_def)
  ultimately show ?thesis
    using tmpl_ok_valid [OF assms(1)] by (simp add: sched_inv_def sched_start_abs)
qed

lemma startable_create:
  assumes "create_run now rid t ins = Inr run"
  shows "startable t run"
proof -
  have g: "dget (gr_nodes run) k = (if k \<in> set (t_ids t) then Some (new_node_run now k) else None)" for k
    using create_run_cases [where now = now and rid = rid and t = t and ins = ins] assms by simp
  have w: "wf_dict (gr_nodes run)"
    using create_run_cases [where now = now and rid = rid and t = t and ins = ins] assms by simp
  have "k \<in> set (dkeys (gr_nodes run)) \<longleftrightarrow> k \<in> set (t_ids t)" for k
    using g [of k] dget_None_iff [of "gr_nodes run" k] by (auto simp del: set_map split: if_splits)
  moreover have "dmem x (gr_inputs run)" if "dmem x (t_inputs t)" for x
    using create_run_cases [where now = now and rid = rid and t = t and ins = ins] assms that
    by (simp add: dmem_iff)
  ultimately show ?thesis
    using g w
    by (auto simp: startable_def run_ok_def run_keyed_def new_node_run_def simp del: set_map split: if_splits)
qed

lemma startable_resume:
  assumes l: "load_run now rid t st = Inr (Some run)" and ok: "run_ok t run"
    and nt: "gr_state run \<notin> TERMINAL_RUN_STATES" and r: "resume_run now rid t st = Inr (Some run', st')"
  shows "startable t run'"
proof -
  have nodes: "gr_nodes run' = map (\<lambda>(k, node). (k, reset_in_flight node)) (gr_nodes run)"
    and ins: "gr_inputs run' = gr_inputs run"
    using resume_run_Inr [OF l nt] r by (auto simp: Let_def touch_def)
  have k: "dkeys (gr_nodes run') = dkeys (gr_nodes run)" by (simp add: nodes dkeys_reset)
  then have "wf_dict (gr_nodes run')" using ok by (simp add: run_ok_def run_keyed_def wf_dict_def dkeys_def)
  moreover have "nr_node_id (reset_in_flight n) = nr_node_id n" for n by (simp add: reset_in_flight_def)
  ultimately show ?thesis
    using ok k reset_state
    by (auto simp: startable_def run_ok_def run_keyed_def nodes ins dget_reset simp del: set_map)
qed

section \<open>States the loop reaches\<close>

text \<open>
  \<open>reach\<close> holds the states at the top of the loop, \<open>seen\<close> also those in which it
  returns or lets an exception escape. Cancellation is treated on its own below.
\<close>

fun tick_out :: "tick_result \<Rightarrow> sched" where
  "tick_out (Continue st) = st"
| "tick_out (Return st) = st"
| "tick_out (Raise e st) = st"

inductive reach :: "sched_cfg \<Rightarrow> graph_template \<Rightarrow> sched \<Rightarrow> sched \<Rightarrow> bool" for cfg t st0 where
  reach_start: "reach cfg t st0 st0"
| reach_tick: "reach cfg t st0 st \<Longrightarrow> tick cfg t inp st = Continue st' \<Longrightarrow> reach cfg t st0 st'"

inductive seen :: "sched_cfg \<Rightarrow> graph_template \<Rightarrow> sched \<Rightarrow> sched \<Rightarrow> bool" for cfg t st0 where
  seen_reach: "reach cfg t st0 st \<Longrightarrow> seen cfg t st0 st"
| seen_out: "reach cfg t st0 st \<Longrightarrow> \<not> ti_cancel inp \<Longrightarrow> seen cfg t st0 (tick_out (tick cfg t inp st))"

lemma reach_inv:
  assumes "reach cfg t st0 st" and "sched_inv cfg t st0"
  shows "sched_inv cfg t st \<and> (astep t (concurrency cfg))\<^sup>*\<^sup>* (abs_sched st0) (abs_sched st)"
  using assms(1)
proof induction
  case (reach_tick st inp st')
  with tick_continue [of cfg t st inp st'] show ?case by auto
qed (simp add: assms(2))

lemma tick_out_inv:
  assumes "sched_inv cfg t st" and "\<not> ti_cancel inp"
  shows "sched_inv cfg t (tick_out (tick cfg t inp st)) \<and>
    (astep t (concurrency cfg))\<^sup>*\<^sup>* (abs_sched st) (abs_sched (tick_out (tick cfg t inp st)))"
proof -
  have "run_ok t (sd_run (tick_out (tick cfg t inp st))) \<and>
      (astep t (concurrency cfg))\<^sup>*\<^sup>* (abs_sched st) (abs_sched (tick_out (tick cfg t inp st)))"
    using tick_sim [OF sched_inv_sel(1-3,5) [OF assms(1)] assms(2)]
    by (cases "tick cfg t inp st") auto
  with assms(1) asteps_ainv show ?thesis unfolding sched_inv_def by blast
qed

lemma seen_inv:
  assumes "seen cfg t st0 st" and "sched_inv cfg t st0"
  shows "sched_inv cfg t st \<and> (astep t (concurrency cfg))\<^sup>*\<^sup>* (abs_sched st0) (abs_sched st)"
  using assms(1)
proof cases
  case seen_reach
  then show ?thesis using reach_inv assms(2) by blast
next
  case (seen_out st1 inp)
  have "sched_inv cfg t st1" and m: "(astep t (concurrency cfg))\<^sup>*\<^sup>* (abs_sched st0) (abs_sched st1)"
    using reach_inv [OF seen_out(2) assms(2)] by auto
  with tick_out_inv [OF _ seen_out(3)] show ?thesis
    unfolding seen_out(1) by (meson rtranclp_trans)
qed

lemma loop_seen:
  assumes "sched_loop cfg t env fuel k st = Some r" and "reach cfg t st0 st"
  shows "\<exists>st1 j. reach cfg t st0 st1 \<and> tick cfg t (env j) st1 = r \<and> (\<forall>st'. r \<noteq> Continue st')"
  using assms(1,2)
proof (induction fuel arbitrary: k st)
  case (Suc fuel)
  show ?case
  proof (cases "tick cfg t (env k) st")
    case (Continue st')
    with Suc.IH [of "Suc k" st'] reach_tick [OF Suc.prems(2) Continue] Suc.prems(1) show ?thesis by simp
  qed (use Suc.prems in \<open>auto intro!: exI [of _ st] exI [of _ k]\<close>)
qed simp

lemma abs_sched_node: "dget (gr_nodes (sd_run st)) k = Some n \<Longrightarrow> a_node (abs_sched st) k = Some (abs_node n)"
  by (simp add: abs_sched_def)

lemma deps_met_run:
  "deps_met (abs_sched st) spec \<longleftrightarrow>
     (\<forall>d \<in> set (ns_depends_on spec). map_option nr_state (dget (gr_nodes (sd_run st)) d) = Some SUCCEEDED)"
  by (auto simp: deps_met_def a_is_def abs_sched_def)

lemma deps_dead_run:
  "deps_dead (abs_sched st) spec \<longleftrightarrow>
     (\<exists>d \<in> set (ns_depends_on spec). \<exists>x \<in> dead. map_option nr_state (dget (gr_nodes (sd_run st)) d) = Some x)"
  unfolding deps_dead_def a_is_def abs_sched_def by fastforce

text \<open>A fresh run, as \<open>create_run\<close> makes it and as the store loads it back.\<close>

definition fresh_run :: "time \<Rightarrow> graph_template \<Rightarrow> graph_run \<Rightarrow> bool" where
  "fresh_run now t run \<longleftrightarrow> startable t run \<and>
     (\<forall>k. dget (gr_nodes run) k = (if k \<in> set (t_ids t) then Some (new_node_run now k) else None))"

lemma fresh_created: "create_run now rid t ins = Inr run \<Longrightarrow> fresh_run now t run"
  using create_run_cases [where now = now and rid = rid and t = t and ins = ins]
  by (simp add: fresh_run_def startable_create)

lemma ahist_start:
  assumes "validate t kt = []" and "fresh_run now' t run"
  shows "ahist t (abs_sched (sched_start now run store))"
proof -
  have "dget (gr_nodes run) k = (if k \<in> set (t_ids t) then Some (new_node_run now' k) else None)" for k
    using assms(2) by (simp add: fresh_run_def)
  then have "node_history (abs_run run []) spec n"
    if "a_node (abs_run run []) k = Some n" "template_node t k = Some spec" for k n spec
    using that assms(1) template_node_SomeD [OF that(2)]
    by (auto simp: node_history_def abs_node_def new_node_run_def validate_Nil_iff valid_template_def
        valid_node_def simp del: set_map split: if_splits)
  then show ?thesis by (simp add: ahist_def sched_start_abs)
qed

lemma seen_ahist:
  assumes "validate t kt = []" and "fresh_run now' t run"
    and "seen cfg t (sched_start now run store) st"
  shows "sched_inv cfg t st \<and> ahist t (abs_sched st)"
proof -
  have inv: "sched_inv cfg t (sched_start now run store)"
    using sched_inv_start [OF assms(1)] assms(2) by (simp add: fresh_run_def)
  have "1 \<le> ns_max_attempts spec \<and> 0 \<le> ns_max_repair_attempts spec" if "spec \<in> set (t_nodes t)" for spec
    using assms(1) that by (auto simp: validate_Nil_iff valid_template_def valid_node_def)
  with asteps_ahist [OF _ ahist_start [OF assms(1,2)]] seen_inv [OF assms(3) inv] inv
  show ?thesis unfolding sched_inv_def by blast
qed

lemma run_node_spec:
  assumes "sched_inv cfg t st" and "dget (gr_nodes (sd_run st)) k = Some n"
  obtains spec where "template_node t k = Some spec"
proof -
  have "k \<in> set (t_ids t)"
    using assms dget_SomeD [OF assms(2)] unfolding sched_inv_def run_ok_def by blast
  then show ?thesis
    using that assms(1) template_node_unique [of t] by (auto simp: sched_inv_def tmpl_ok_def)
qed

lemma seen_missing_output:
  assumes v: "validate t kt = []" and inv: "sched_inv cfg t st" and u: "unresolved t e st"
  shows "\<exists>spec \<in> set (t_nodes t). \<exists>raw \<in> set (iter_param_strings (PDict (ns_params spec))). \<exists>d out up.
     param_ref_fullmatch raw = Some (''nodes'', d, Some out) \<and> d \<in> set (ns_depends_on spec) \<and>
     dget (gr_nodes (sd_run st)) d = Some up \<and> nr_state up = SUCCEEDED \<and> \<not> dmem out (nr_outputs up)"
proof -
  obtain spec where spec: "spec \<in> set (t_nodes t)" "deps_met (abs_sched st) spec"
    and "resolve_params (sd_run st) (ns_params spec) = Inl e"
    using u by (auto simp: unresolved_def)
  then obtain raw where raw: "raw \<in> set (iter_param_strings (PDict (ns_params spec)))" "\<not> resolvable (sd_run st) raw"
    using resolve_params_ok [of "sd_run st" "ns_params spec"] by (metis sum.distinct(1))
  then have ref: "param_ref_fullmatch raw \<noteq> None" by (cases "param_ref_fullmatch raw") (simp_all add: resolvable_def)
  then have "strip_prefix ''${'' raw \<noteq> None"
    by (auto simp: param_ref_fullmatch_def scan_ref_def strip_prefix_Some split: option.splits)
  with v raw spec(1) have "valid_ref t spec raw"
    unfolding validate_Nil_iff valid_template_def valid_node_def by blast
  moreover have "\<forall>x. dmem x (t_inputs t) \<longrightarrow> dmem x (gr_inputs (sd_run st))"
    using inv by (simp add: sched_inv_def run_ok_def)
  ultimately obtain d out where d: "param_ref_fullmatch raw = Some (''nodes'', d, Some out)" "d \<in> set (ns_depends_on spec)"
    using raw(2) unfolding valid_ref_def by (auto simp: resolvable_def)
  moreover from this(2) spec(2) obtain up where "dget (gr_nodes (sd_run st)) d = Some up" "nr_state up = SUCCEEDED"
    by (auto simp: deps_met_run)
  moreover from calculation have "\<not> dmem out (nr_outputs up)" using raw(2) by (simp add: resolvable_def)
  ultimately show ?thesis using raw(1) spec(1) by blast
qed

text \<open>What a state of a finished node says, on the code's own records.\<close>

definition succeeded :: "graph_run \<Rightarrow> string \<Rightarrow> bool" where
  "succeeded run d \<longleftrightarrow> map_option nr_state (dget (gr_nodes run) d) = Some SUCCEEDED"

definition outcome_ok :: "graph_run \<Rightarrow> node_spec \<Rightarrow> node_run \<Rightarrow> bool" where
  "outcome_ok run spec n =
     (case nr_state n of
        SUCCEEDED \<Rightarrow> 1 \<le> nr_attempt n \<and> list_all (succeeded run) (ns_depends_on spec)
      | FAILED \<Rightarrow> list_all (succeeded run) (ns_depends_on spec) \<and>
          (ns_max_attempts spec \<le> nr_attempt n \<or> 1 \<le> nr_repair_attempts n)
      | BLOCKED \<Rightarrow> nr_attempt n = 0 \<and>
          list_ex (\<lambda>d. \<exists>x \<in> dead. map_option nr_state (dget (gr_nodes run) d) = Some x) (ns_depends_on spec)
      | _ \<Rightarrow> False)"

lemma outcome_okI:
  assumes "ahist t (abs_sched st)" and "dget (gr_nodes (sd_run st)) k = Some n"
    and "template_node t k = Some spec" and "nr_state n \<in> TERMINAL_NODE_STATES"
  shows "outcome_ok (sd_run st) spec n"
proof -
  have "node_history (abs_sched st) spec (abs_node n)"
    using assms(1,3) abs_sched_node [OF assms(2)] unfolding ahist_def by blast
  with assms(4) show ?thesis
    by (auto simp: node_history_def outcome_ok_def deps_met_run deps_dead_run succeeded_def list_all_iff
        list_ex_iff TERMINAL_NODE_STATES_def split: node_state.splits)
qed

text \<open>What an iteration that is not cancelled and does not go on leaves.\<close>

definition final_outcome :: "graph_template \<Rightarrow> tick_result \<Rightarrow> bool" where
  "final_outcome t r =
     (case r of
        Return st \<Rightarrow> sd_futures st = [] \<and>
          (\<forall>k n spec. dget (gr_nodes (sd_run st)) k = Some n \<longrightarrow> template_node t k = Some spec \<longrightarrow> outcome_ok (sd_run st) spec n) \<and>
          gr_state (sd_run st) = determine_run_status (node_states (sd_run st)) \<and>
          get_run_row (sd_store st) (gr_run_id (sd_run st)) = Some (row_of_run (sd_run st))
      | Raise e st \<Rightarrow> \<exists>spec \<in> set (t_nodes t). \<exists>raw \<in> set (iter_param_strings (PDict (ns_params spec))). \<exists>d out up.
          param_ref_fullmatch raw = Some (''nodes'', d, Some out) \<and> d \<in> set (ns_depends_on spec) \<and>
          dget (gr_nodes (sd_run st)) d = Some up \<and> nr_state up = SUCCEEDED \<and> \<not> dmem out (nr_outputs up)
      | Continue st \<Rightarrow> False)"

lemma tick_outcome:
  assumes "validate t kt = []" and "fresh_run now' t run"
    and st1: "reach cfg t (sched_start now run store) st1" "tick cfg t inp st1 = r" "\<forall>st'. r \<noteq> Continue st'"
    and "\<not> ti_cancel inp"
  shows "final_outcome t r"
proof -
  let ?s0 = "sched_start now run store"
  have seen: "seen cfg t ?s0 (tick_out r)"
    using seen.seen_out [OF st1(1) assms(6)] st1(2) by simp
  have inv1: "sched_inv cfg t st1"
    using seen_ahist [OF assms(1,2) seen_reach [OF st1(1)]] by simp
  have inv: "sched_inv cfg t (tick_out r)" and hist: "ahist t (abs_sched (tick_out r))"
    using seen_ahist [OF assms(1,2) seen] by simp_all
  note sim = tick_sim [OF sched_inv_sel(1-3,5) [OF inv1] assms(6), unfolded st1(2)]
  show ?thesis
  proof (cases r)
    case (Return st)
    with sim have f: "final_sched st" by simp
    then have "nr_state n \<in> TERMINAL_NODE_STATES" if "dget (gr_nodes (sd_run st)) k = Some n" for k n
      using that inv Return
      by (auto simp: final_sched_def all_terminal_def node_states_def list_all_iff dvals_in sched_inv_def
          run_ok_def run_keyed_def)
    with hist f Return show ?thesis by (auto simp: final_outcome_def final_sched_def intro: outcome_okI)
  next
    case (Raise e st)
    with sim seen_missing_output [OF assms(1), of cfg st e] inv show ?thesis by (auto simp: final_outcome_def)
  qed (use st1(3) in blast)
qed

section \<open>Properties\<close>

text \<open>
  C2. The scheduler returns. For a validated template and a run whose nodes are pending or
  terminal (as \<open>create_run\<close> and \<open>resume_run\<close> leave them), if the tools keep finishing,
  that is if again and again a tick finds the outstanding futures done, the loop leaves
  after finitely many ticks, whatever the tools and repair handlers return.
\<close>

theorem scheduler_returns:
  assumes "validate t kt = []" and "startable t run" and "\<And>k. \<exists>j \<ge> k. all_done (env j)"
  shows "\<exists>fuel r. sched_loop cfg t env fuel 0 (sched_start now run store) = Some r"
  unfolding sched_loop_eq by (rule sched_lp.loop_stops [OF assms(3) sched_inv_start [OF assms(1,2)]])

text \<open>
  If every tick finds the outstanding futures done, a fresh run of a validated template
  is over after at most one tick more than twice the number of dispatches the templates
  allows, \<open>max_attempts + max_repair_attempts\<close> for every node.
\<close>

theorem created_run_tick_bound:
  assumes "validate t kt = []" and "create_run now' rid t ins = Inr run" and "\<And>k. all_done (env k)"
    and fuel: "(\<Sum>n \<leftarrow> t_nodes t. 2 * nat (ns_max_attempts n + ns_max_repair_attempts n)) < fuel"
  shows "\<exists>r. sched_loop cfg t env fuel 0 (sched_start now run store) = Some r"
proof -
  let ?s = "abs_run run []"
  have g: "dget (gr_nodes run) k = (if k \<in> set (t_ids t) then Some (new_node_run now' k) else None)" for k
    using create_run_cases [where now = now' and rid = rid and t = t and ins = ins] assms(2) by simp
  have "(case a_node ?s (ns_id n) of None \<Rightarrow> 0 | Some m \<Rightarrow> weight n m) =
      2 * nat (ns_max_attempts n + ns_max_repair_attempts n)" if n: "n \<in> set (t_nodes t)" for n
  proof -
    have "1 \<le> ns_max_attempts n" "0 \<le> ns_max_repair_attempts n"
      using assms(1) n by (auto simp: validate_Nil_iff valid_template_def valid_node_def)
    then show ?thesis
      using n g [of "ns_id n"]
      by (auto simp: weight_def abs_node_def new_node_run_def TERMINAL_NODE_STATES_def dispatches_left_def
          nat_add_distrib)
  qed
  then have "a_weight t (abs_sched (sched_start now run store)) < fuel"
    using fuel by (simp add: a_weight_def sched_start_abs cong: map_cong)
  from sched_lp.loop_bound [OF assms(3) sched_inv_start [OF assms(1) startable_create [OF assms(2)]] this]
  show ?thesis by (simp add: sched_loop_eq)
qed

text \<open>
  C1. What the loop returns, without cancellation, for a fresh run of a validated template:
  all nodes are terminal, each succeeded node ran after its dependencies succeeded, each
  failed node used up its attempts or had a failed repair, each blocked node never ran and
  has a dead dependency; the run status is the aggregate of the node states and is what the
  store holds. An exception escapes only when a dependency succeeded without producing an
  output that a parameter of a dependent node refers to.
\<close>

theorem scheduler_outcome:
  assumes "validate t kt = []" and "create_run now' rid t ins = Inr run"
    and "\<And>k. \<not> ti_cancel (env k)"
    and "sched_loop cfg t env fuel 0 (sched_start now run store) = Some r"
  shows "case r of
     Return st \<Rightarrow> sd_futures st = [] \<and>
       (\<forall>k n spec. dget (gr_nodes (sd_run st)) k = Some n \<longrightarrow> template_node t k = Some spec \<longrightarrow> outcome_ok (sd_run st) spec n) \<and>
       gr_state (sd_run st) = determine_run_status (node_states (sd_run st)) \<and>
       get_run_row (sd_store st) (gr_run_id (sd_run st)) = Some (row_of_run (sd_run st))
   | Raise e st \<Rightarrow> \<exists>spec \<in> set (t_nodes t). \<exists>raw \<in> set (iter_param_strings (PDict (ns_params spec))). \<exists>d out up.
       param_ref_fullmatch raw = Some (''nodes'', d, Some out) \<and> d \<in> set (ns_depends_on spec) \<and>
       dget (gr_nodes (sd_run st)) d = Some up \<and> nr_state up = SUCCEEDED \<and> \<not> dmem out (nr_outputs up)
   | Continue st \<Rightarrow> False"
proof -
  obtain st1 j where st1: "reach cfg t (sched_start now run store) st1" "tick cfg t (env j) st1 = r" "\<forall>st'. r \<noteq> Continue st'"
    using loop_seen [OF assms(4) reach_start] by blast
  from tick_outcome [OF assms(1) fresh_created [OF assms(2)] st1 assms(3)] show ?thesis
    unfolding final_outcome_def .
qed

text \<open>The history and the terminal nodes of the states seen without a cancelling tick.\<close>

lemma seen_dependencies:
  assumes "validate t kt = []" and "create_run now' rid t ins = Inr run"
    and "seen cfg t (sched_start now run store) st"
    and n: "dget (gr_nodes (sd_run st)) k = Some n" and spec: "template_node t k = Some spec"
  shows "(0 < nr_attempt n \<longrightarrow> list_all (succeeded (sd_run st)) (ns_depends_on spec)) \<and>
     nr_attempt n \<le> ns_max_attempts spec + nr_repair_attempts n \<and>
     nr_repair_attempts n \<le> ns_max_repair_attempts spec"
proof -
  have "ahist t (abs_sched st)" using seen_ahist [OF assms(1) fresh_created [OF assms(2)] assms(3)] by simp
  then have "node_history (abs_sched st) spec (abs_node n)"
    using spec abs_sched_node [OF n] unfolding ahist_def by blast
  then show ?thesis
    by (auto simp: node_history_def deps_met_run succeeded_def list_all_iff split: node_state.splits)
qed

lemma seen_terminal:
  assumes "sched_inv cfg t st" and "seen cfg t st st'"
    and n: "dget (gr_nodes (sd_run st)) k = Some n" "nr_state n \<in> TERMINAL_NODE_STATES"
  shows "\<exists>n'. dget (gr_nodes (sd_run st')) k = Some n' \<and> nr_state n' = nr_state n \<and> nr_outputs n' = nr_outputs n \<and>
     nr_attempt n' = nr_attempt n \<and> nr_repair_attempts n' = nr_repair_attempts n"
proof -
  have "(astep t (concurrency cfg))\<^sup>*\<^sup>* (abs_sched st) (abs_sched st')"
    using seen_inv [OF assms(2,1)] by simp
  then have "a_node (abs_sched st') k = Some (abs_node n)"
    by (rule asteps_terminal [OF _ abs_sched_node [OF n(1)]]) (simp add: n(2))
  then show ?thesis by (auto simp: abs_sched_def abs_node_def)
qed

text \<open>
  The failure policy. A repairable error of a node with repairs left and a repair handler
  is given to the handler once, after the node was stored as Repairing: the node is requeued
  if the handler repaired it and fails otherwise, even when plain attempts are left. Every
  other error is retried while \<open>attempt < max_attempts\<close> and then fails the node.
\<close>

theorem handle_failure_policy:
  assumes "nr_state n = RUNNING"
  shows "\<exists>n' st'. handle_failure cfg now spec exc n st = Inr (n', st') \<and> nr_attempt n' = nr_attempt n \<and>
     (if te_repairable exc \<and> nr_repair_attempts n < ns_max_repair_attempts spec \<and> repairer_for cfg spec \<noteq> None
      then nr_repair_attempts n' = nr_repair_attempts n + 1 \<and>
        nr_state n' = (if fst (run_repairer (the (repairer_for cfg spec)) exc
             (n\<lparr>nr_error := Some (''['' @ te_category exc @ ''] '' @ te_message exc), nr_state := REPAIRING,
                nr_updated_at := now, nr_repair_attempts := nr_repair_attempts n + 1\<rparr>)) then READY else FAILED) \<and>
        map_option nw_status (get_node_row (sd_store st') (gr_run_id (sd_run st), nr_node_id n)) = Some ''repairing''
      else st' = st \<and> nr_repair_attempts n' = nr_repair_attempts n \<and>
        nr_error n' = Some (''['' @ te_category exc @ ''] '' @ te_message exc) \<and>
        nr_state n' = (if nr_attempt n < ns_max_attempts spec then READY else FAILED))"
proof (cases "te_repairable exc \<and> nr_repair_attempts n < ns_max_repair_attempts spec \<and> repairer_for cfg spec \<noteq> None")
  case True
  then obtain r where r: "repairer_for cfg spec = Some r" by blast
  let ?n1 = "n\<lparr>nr_error := Some (''['' @ te_category exc @ ''] '' @ te_message exc), nr_state := REPAIRING,
      nr_updated_at := now\<rparr>"
  obtain b n3 where rr: "run_repairer r exc (?n1\<lparr>nr_repair_attempts := nr_repair_attempts n + 1\<rparr>) = (b, n3)" by force
  note f = run_repairer_fields [OF rr]
  have "handle_failure cfg now spec exc n st =
      Inr (n3\<lparr>nr_state := (if b then READY else FAILED), nr_updated_at := now\<rparr>, put_node now ?n1 st)"
    using True r assms rr f by (simp add: handle_failure_def Let_def can_transition_def)
  with True r rr f show ?thesis
    by (simp add: put_node_def save_node_run_def Let_def node_tbl.get_put row_of_node_def)
next
  case False
  then have "(if te_repairable exc \<and> nr_repair_attempts n < ns_max_repair_attempts spec
      then repairer_for cfg spec else None) = None" by auto
  then have "handle_failure cfg now spec exc n st =
      Inr (n\<lparr>nr_error := Some (''['' @ te_category exc @ ''] '' @ te_message exc),
        nr_state := (if nr_attempt n < ns_max_attempts spec then READY else FAILED), nr_updated_at := now\<rparr>, st)"
    using assms by (simp add: handle_failure_def Let_def can_transition_def)
  then show ?thesis unfolding if_not_P [OF False] by simp
qed

text \<open>
  The limit of \<open>start\<close>: a run that still has a running node when the scheduler is
  called, as an interrupted process leaves it in the store, never finishes. The node has no
  future, so nothing completes it, and the loop neither reruns it nor returns.
\<close>

theorem orphan_never_returns:
  assumes "validate t kt = []" and "run_ok t run" and "dget (gr_nodes run) k = Some n" "nr_state n = RUNNING"
    and "\<And>j. \<not> ti_cancel (env j)"
  shows "sched_loop cfg t env fuel 0 (sched_start now run store) \<noteq> Some (Return st)"
proof
  let ?s0 = "sched_start now run store" and ?S = "astep t (concurrency cfg)"
  let ?I = "\<lambda>st. run_ok t (sd_run st) \<and> afut (concurrency cfg) (abs_sched st) \<and>
      a_is (abs_sched st) k RUNNING \<and> k \<notin> set (a_fut (abs_sched st))"
  have t: "tmpl_ok t" "acyclic (dep_rel t)" using tmpl_ok_valid [OF assms(1)] by auto
  assume "sched_loop cfg t env fuel 0 ?s0 = Some (Return st)"
  then obtain st1 j where st1: "reach cfg t ?s0 st1" "tick cfg t (env j) st1 = Return st"
    using loop_seen [OF _ reach_start] by blast
  have keep: "?I s'" if "?I s" "?S\<^sup>*\<^sup>* (abs_sched s) (abs_sched s')" "run_ok t (sd_run s')" for s s'
    using that asteps_afut asteps_orphan by blast
  have "a_is (abs_sched ?s0) k RUNNING"
    using assms(3,4) by (simp add: sched_start_abs a_is_abs)
  moreover have "run_ok t (sd_run ?s0)" using assms(2) by (simp add: sched_start_def)
  ultimately have s0: "?I ?s0" by (simp add: sched_start_abs afut_def concurrency_def)
  have "?I st1"
    using st1(1)
  proof induction
    case (reach_tick s inp s')
    then have "run_ok t (sd_run s)" "afut (concurrency cfg) (abs_sched s)" by simp_all
    from tick_sim [OF t this tick_not_cancelled [OF reach_tick(2)], unfolded reach_tick(2)]
    have "run_ok t (sd_run s')" "?S\<^sup>*\<^sup>* (abs_sched s) (abs_sched s')" by simp_all
    with keep [OF reach_tick(3)] show ?case by blast
  qed (rule s0)
  then have "run_ok t (sd_run st1)" "afut (concurrency cfg) (abs_sched st1)" by simp_all
  from tick_sim [OF t this assms(5) [of j], unfolded st1(2)]
  have "run_ok t (sd_run st) \<and> ?S\<^sup>*\<^sup>* (abs_sched st1) (abs_sched st) \<and> final_sched st" by simp
  moreover from this keep [OF \<open>?I st1\<close>, of st] obtain m where
    "a_node (abs_run (sd_run st) (sd_futures st)) k = Some m" "an_state m = RUNNING"
    unfolding a_is_def abs_sched_def by blast
  ultimately have "an_state m \<in> TERMINAL_NODE_STATES"
    using all_terminal_abs [of t "sd_run st" "sd_futures st"] unfolding final_sched_def by blast
  with \<open>an_state m = RUNNING\<close> show False by (simp add: TERMINAL_NODE_STATES_def)
qed

end
