(* ===== verification/Sched_Durable.thy ===== *)
theory Sched_Durable
  imports Sched_Props
begin

text \<open>
  What the scheduler of \<^verbatim>\<open>dft_forge/runtime/scheduler.py\<close> writes to the store, and
  what cancellation does. The locale \<open>store_inv\<close> collects the only ways in which a tick
  changes the scheduler: through \<open>put_node\<close>, which saves what it sets, through
  \<open>set_run_state\<close>, through the futures, and through the unsaved blocking of nodes. A property
  closed under these holds after every tick, cancelled or not. The theorems on durability, the
  order of dependencies, the concurrency cap and finished nodes speak of the boundaries of the iterations,
  the one that sees the cancel event included.
\<close>

section \<open>Invariants of ticks\<close>

definition blocks :: "graph_run \<Rightarrow> graph_run \<Rightarrow> bool" where
  "blocks run run' \<longleftrightarrow> run' = run\<lparr>gr_nodes := gr_nodes run'\<rparr> \<and> (run_keyed run \<longrightarrow> run_keyed run') \<and>
     (\<forall>k n'. dget (gr_nodes run') k = Some n' \<longrightarrow>
        dget (gr_nodes run) k = Some n' \<or> nr_state n' = BLOCKED \<and> map_option nr_state (dget (gr_nodes run) k) = Some PENDING)"

lemma blocks_refl: "blocks run run"
  by (simp add: blocks_def)

lemma blocks_trans: "blocks run1 run2 \<Longrightarrow> blocks run2 run3 \<Longrightarrow> blocks run1 run3"
  unfolding blocks_def
proof (intro conjI allI impI, goal_cases)
  case 1
  then show ?case by (cases run1; cases run2; cases run3) auto
next
  case (3 k n)
  then show ?case by (cases "dget (gr_nodes run2) k") (auto 0 4)
qed blast

lemma run_keyed_set_node: "run_keyed run \<Longrightarrow> run_keyed (set_node n run)"
  by (auto simp: run_keyed_def pydict split: if_splits)

lemma block_from_blocks:
  "block_from now specs run = Inr run' \<Longrightarrow> run_keyed run \<Longrightarrow> blocks run run'"
proof (induction specs arbitrary: run)
  case (Cons spec specs)
  obtain n where n: "node_at run (ns_id spec) = Inr n" using Cons.prems(1) by (auto simp: bindr_eq_Inr)
  show ?case
  proof (cases "block_from now specs run = Inr run'")
    case False
    then obtain n' where n': "transition now BLOCKED n = Inr n'" "block_from now specs (set_node n' run) = Inr run'"
      "nr_state n = PENDING"
      using Cons.prems(1) n by (auto simp: bindr_eq_Inr split: if_splits)
    have "nr_node_id n = ns_id spec"
      using n Cons.prems(2) by (auto simp: node_at_def run_keyed_def split: option.splits)
    with n n' Cons.prems(2) have "blocks run (set_node n' run)"
      by (auto simp: blocks_def set_node_def transition_Inr node_at_def pydict run_keyed_def split: option.splits if_splits)
    then show ?thesis
      using Cons.IH [OF n'(2)] Cons.prems(2) run_keyed_set_node blocks_trans by blast
  qed (use Cons in blast)
qed (simp add: blocks_refl)

locale store_inv =
  fixes P :: "sched \<Rightarrow> bool"
  assumes put: "P st \<Longrightarrow> nr_state n \<notin> {PENDING, BLOCKED} \<Longrightarrow> P (put_node now n st)"
    and fut: "P st \<Longrightarrow> P (st\<lparr>sd_futures := fs\<rparr>)"
    and state: "P st \<Longrightarrow> P (set_run_state now x st)"
    and block: "P st \<Longrightarrow> blocks (sd_run st) run' \<Longrightarrow> P (st\<lparr>sd_run := run'\<rparr>)"
    and keyed: "P st \<Longrightarrow> run_keyed (sd_run st)"
begin

lemma dispatch_P: "P st \<Longrightarrow> P (snd (dispatch_all cfg t now ks st))"
proof (induction ks arbitrary: st)
  case (Cons k ks)
  show ?case
  proof (cases "prepare_dispatch cfg t now k st")
    case (Inr st1)
    then have "P st1" using put Cons.prems
      by (auto simp: prepare_dispatch_def bindr_eq_Inr transition_Inr split: option.splits)
    with Inr Cons.IH fut show ?thesis by simp
  qed (simp add: Cons.prems)
qed simp

lemma handle_failure_P:
  assumes "P st" and "handle_failure cfg now spec exc n st = Inr (n', st')"
  shows "P st' \<and> nr_state n' \<notin> {PENDING, BLOCKED}"
proof (cases "if te_repairable exc \<and> nr_repair_attempts n < ns_max_repair_attempts spec
    then repairer_for cfg spec else None")
  case None
  with assms show ?thesis by (auto simp: handle_failure_def Let_def bindr_eq_Inr transition_Inr split: if_splits)
next
  case (Some r)
  with assms put show ?thesis
    by (auto simp: handle_failure_def Let_def bindr_eq_Inr transition_Inr case_prod_beta split: if_splits)
qed

lemma finish_P:
  assumes "P st" and f: "finish cfg t now k res st = Inr st'"
  shows "P st'"
proof -
  have h: "P st'" if "bindr (handle_failure cfg now spec exc n st) (\<lambda>(node, st). Inr (put_node now node st)) = Inr st'"
    for spec exc n
    using that put handle_failure_P [OF assms(1)] by (auto simp: bindr_eq_Inr)
  obtain n where n: "node_at (sd_run st) k = Inr n" using f by (auto simp: finish_def bindr_eq_Inr)
  show ?thesis
  proof (cases "nr_state n \<in> TERMINAL_NODE_STATES \<or> template_node t k = None")
    case True
    then show ?thesis using f n assms(1) by (auto simp: finish_def split: if_splits option.splits)
  next
    case False
    then obtain spec where spec: "template_node t k = Some spec" by auto
    show ?thesis
    proof (cases "execute_tool cfg spec res")
      case (ToolOk outs)
      let ?n = "n\<lparr>nr_outputs := outs, nr_error := None\<rparr>"
      show ?thesis
        using f n False spec ToolOk h put [OF assms(1)]
        by (cases "transition now SUCCEEDED ?n") (auto simp: finish_def Let_def transition_Inr)
    qed (use f n False spec h in \<open>auto simp: finish_def\<close>)
  qed
qed

lemma finish_all_P: "P st \<Longrightarrow> P (snd (finish_all cfg t now fin ks st))"
proof (induction ks arbitrary: st)
  case (Cons k ks)
  show ?case
  proof (cases "fin k")
    case (Some res)
    let ?st = "st\<lparr>sd_futures := remove1 k (sd_futures st)\<rparr>"
    have "P ?st" by (rule fut [OF Cons.prems])
    then show ?thesis
      using Some Cons.IH finish_P by (cases "finish cfg t now k res ?st") (auto simp: Let_def)
  qed (use Cons in simp)
qed simp

lemma cancel_nodes_P: "P st \<Longrightarrow> P (snd (cancel_nodes now ks st))"
  using put by (induction ks arbitrary: st) (auto simp: transition_Inr split: sum.splits)

lemma check_done_P: "P st \<Longrightarrow> P (tick_out (check_done t now st))"
  using state by (auto simp: check_done_def split: sum.splits)

lemma cancel_P: "P st \<Longrightarrow> P (tick_out (cancel now st))"
  using cancel_nodes_P [of st now "sd_futures st"] state
  by (auto simp: cancel_def split: prod.splits option.splits)

lemma tick_P:
  assumes "P st"
  shows "P (tick_out (tick cfg t inp st))"
proof (cases "ti_cancel inp")
  case True
  then show ?thesis using cancel_P [OF assms] by (simp add: tick_def)
next
  case nc: False
  show ?thesis
  proof (cases "process_blocked (ti_now inp) (sd_run st) t")
    case (Inr run)
    let ?st = "st\<lparr>sd_run := run\<rparr>"
    have st: "P ?st"
      using block [OF assms] block_from_blocks [OF _ keyed [OF assms]] Inr by (simp add: process_blocked_def)
    show ?thesis
    proof (cases "find_ready_nodes run t")
      case (Inr ready)
      let ?ks = "py_take (concurrency cfg - int (length (sd_futures ?st))) ready"
      obtain e1 st1 where st1: "dispatch_all cfg t (ti_now inp) ?ks ?st = (e1, st1)" by force
      obtain e2 st2 where st2: "finish_all cfg t (ti_now inp) (ti_done inp) (sd_futures st1) st1 = (e2, st2)" by force
      have "P st1" using dispatch_P [OF st] st1 by (metis snd_conv)
      moreover from finish_all_P [OF this] st2 have "P st2" by (metis snd_conv)
      moreover have "tick cfg t inp st = (case e1 of Some e \<Rightarrow> Raise e st1
          | None \<Rightarrow> (case e2 of Some e \<Rightarrow> Raise e st2 | None \<Rightarrow> check_done t (ti_now inp) st2))"
        using \<open>process_blocked _ _ _ = _\<close> Inr st1 st2 nc by (simp add: tick_def split: option.split)
      ultimately show ?thesis using check_done_P by (auto split: option.splits)
    qed (use Inr st nc in \<open>simp add: tick_def\<close>)
  qed (use nc assms in \<open>simp add: tick_def\<close>)
qed

end

section \<open>What the store holds\<close>

text \<open>
  \<open>saved store0 rid st\<close>: the row of the run is current, every node that is neither pending nor
  blocked has a row that loads back as that node, the rows of pending and blocked nodes are
  those of \<open>store0\<close>, and so are all rows of other runs.
\<close>

definition saved :: "store \<Rightarrow> string \<Rightarrow> sched \<Rightarrow> bool" where
  "saved store0 rid st \<longleftrightarrow> run_keyed (sd_run st) \<and> gr_run_id (sd_run st) = rid \<and> wf_store (sd_store st) \<and>
     (\<exists>row. get_run_row (sd_store st) rid = Some row \<and> rr_status row = run_state_value (gr_state (sd_run st)) \<and>
        rr_inputs row = gr_inputs (sd_run st) \<and> rr_template_id row = gr_template_id (sd_run st)) \<and>
     (\<forall>k n. dget (gr_nodes (sd_run st)) k = Some n \<longrightarrow>
        (if nr_state n \<in> {PENDING, BLOCKED} then get_node_row (sd_store st) (rid, k) = get_node_row store0 (rid, k)
         else \<forall>now. stored_node now (sd_store st) rid k = Inr (persisted now n))) \<and>
     (\<forall>r. r \<noteq> rid \<longrightarrow> get_run_row (sd_store st) r = get_run_row store0 r \<and>
        (\<forall>k. get_node_row (sd_store st) (r, k) = get_node_row store0 (r, k)))"

lemma put_node_store:
  "sd_store (put_node now n st) = put_node_row (gr_run_id (sd_run st), nr_node_id n)
     (row_of_node (n\<lparr>nr_updated_at := now\<rparr>)) (sd_store st)"
  by (simp add: put_node_def save_node_run_def Let_def)

lemma set_run_state_store:
  "sd_store (set_run_state now x st) = put_run_row (gr_run_id (sd_run st))
     (row_of_run (touch now ((sd_run st)\<lparr>gr_state := x\<rparr>))) (sd_store st)"
  "sd_run (set_run_state now x st) = touch now ((sd_run st)\<lparr>gr_state := x\<rparr>)"
  by (simp_all add: set_run_state_def save_run_def Let_def touch_def)

lemma persisted_touch [simp]: "persisted now (n\<lparr>nr_updated_at := x\<rparr>) = persisted now n"
  by (simp add: persisted_def)

lemma stored_node_put:
  "stored_node now (put_node_row (rid, nr_node_id n) (row_of_node n) st) r k =
     (if r = rid \<and> k = nr_node_id n then Inr (persisted now n) else stored_node now st r k)"
  by (simp add: stored_node_def node_tbl.get_put node_of_row_of_node)

lemma stored_node_put_run [simp]: "stored_node now (put_run_row r row st) rid k = stored_node now st rid k"
  by (simp add: stored_node_def)

lemma saved_put:
  assumes "saved store0 rid st" and "nr_state n \<notin> {PENDING, BLOCKED}"
  shows "saved store0 rid (put_node now n st)"
proof -
  let ?n = "n\<lparr>nr_updated_at := now\<rparr>"
  have st: "stored_node x (put_node_row (r, nr_node_id n) (row_of_node ?n) s) r k =
      (if k = nr_node_id n then Inr (persisted x n) else stored_node x s r k)" for x k r s
    using stored_node_put [of x r ?n s r k] by simp
  have "run_keyed (set_node ?n (sd_run st))"
    using assms(1) by (simp add: saved_def run_keyed_set_node)
  then show ?thesis
    using assms unfolding saved_def
    by (auto simp: put_node_sel st node_tbl.get_put put_node_store set_node_def pydict split: if_splits)
qed

interpretation saved_inv: store_inv "saved store0 rid" for store0 rid
proof
  show "saved store0 rid (st\<lparr>sd_run := run'\<rparr>)" if "saved store0 rid st" "blocks (sd_run st) run'" for st run'
  proof -
    have e: "gr_run_id run' = gr_run_id (sd_run st)" "gr_state run' = gr_state (sd_run st)"
      "gr_inputs run' = gr_inputs (sd_run st)" "gr_template_id run' = gr_template_id (sd_run st)"
      using that(2) unfolding blocks_def by (metis graph_run.ext_inject graph_run.surjective graph_run.update_convs)+
    have node: "if nr_state n \<in> {PENDING, BLOCKED} then get_node_row (sd_store st) (rid, k) = get_node_row store0 (rid, k)
         else \<forall>now. stored_node now (sd_store st) rid k = Inr (persisted now n)"
      if "dget (gr_nodes run') k = Some n" for k n
      using that \<open>saved store0 rid st\<close> \<open>blocks (sd_run st) run'\<close> unfolding saved_def blocks_def by fastforce
    show ?thesis
      using that node by (simp add: saved_def e) (simp add: blocks_def)
  qed
qed (simp_all add: saved_put, auto simp: saved_def set_run_state_store touch_def run_keyed_def run_tbl.get_put row_of_run_def)

lemma saved_start:
  assumes "fresh_run now' t run" and "gr_run_id run = rid" and "wf_store store"
  shows "saved store rid (sched_start now run store)"
proof -
  have "startable t run" using assms(1) by (simp add: fresh_run_def)
  moreover have "nr_state n = PENDING" if "dget (gr_nodes run) k = Some n" for k n
    using that assms(1) by (auto simp: fresh_run_def new_node_run_def split: if_splits)
  ultimately show ?thesis
    using assms(2,3)
    by (auto simp: sched_start_def saved_def set_run_state_store touch_def run_tbl.get_put row_of_run_def
        startable_def run_ok_def run_keyed_def)
qed

lemma created_run_id: "create_run now rid t ins = Inr run \<Longrightarrow> gr_run_id run = rid"
  by (auto simp: create_run_def Let_def split: if_splits)

section \<open>Cancellation\<close>

definition cancelled_by :: "time \<Rightarrow> string list \<Rightarrow> string \<Rightarrow> node_run \<Rightarrow> node_run" where
  "cancelled_by now ks k n =
     (if k \<in> set ks \<and> nr_state n = RUNNING then n\<lparr>nr_state := CANCELLED, nr_updated_at := now\<rparr> else n)"

lemma cancelled_by_state [simp]:
  "nr_state (cancelled_by now ks k n) = (if k \<in> set ks \<and> nr_state n = RUNNING then CANCELLED else nr_state n)"
  "nr_attempt (cancelled_by now ks k n) = nr_attempt n"
  "nr_repair_attempts (cancelled_by now ks k n) = nr_repair_attempts n"
  "nr_outputs (cancelled_by now ks k n) = nr_outputs n"
  by (simp_all add: cancelled_by_def)

lemma cancel_nodes_exact:
  assumes "run_ok t (sd_run st)" and "set ks \<subseteq> set (t_ids t)"
  shows "\<exists>st'. cancel_nodes now ks st = (None, st') \<and> run_ok t (sd_run st') \<and> sd_futures st' = sd_futures st \<and>
     (\<forall>k. dget (gr_nodes (sd_run st')) k = map_option (cancelled_by now ks k) (dget (gr_nodes (sd_run st)) k))"
  using assms
proof (induction ks arbitrary: st)
  case Nil
  then show ?case by (auto simp: cancelled_by_def option.map_ident)
next
  case (Cons j ks)
  obtain n where n: "dget (gr_nodes (sd_run st)) j = Some n" "nr_node_id n = j" "node_at (sd_run st) j = Inr n"
    using run_ok_node [OF Cons.prems(1), of j] Cons.prems(2) by auto
  show ?case
  proof (cases "nr_state n = RUNNING")
    case True
    let ?n = "n\<lparr>nr_state := CANCELLED, nr_updated_at := now\<rparr>"
    let ?st = "put_node now ?n st"
    have "run_ok t (sd_run ?st)"
      using Cons.prems n by (auto simp: put_node_sel intro!: run_ok_set_node)
    with Cons.IH [of ?st] Cons.prems(2) obtain st' where "cancel_nodes now ks ?st = (None, st')" "run_ok t (sd_run st')"
      and f: "sd_futures st' = sd_futures ?st"
      and st': "\<And>k. dget (gr_nodes (sd_run st')) k = map_option (cancelled_by now ks k) (dget (gr_nodes (sd_run ?st)) k)"
      by auto
    moreover have "cancel_nodes now (j # ks) st = cancel_nodes now ks ?st"
      using n True by (simp add: transition_def can_transition_def)
    moreover have "dget (gr_nodes (sd_run ?st)) k =
        (if k = j then Some ?n else dget (gr_nodes (sd_run st)) k)" for k
      using n by (simp add: put_node_sel set_node_def pydict)
    moreover have "sd_futures ?st = sd_futures st" by (simp add: put_node_sel)
    ultimately show ?thesis using n True by (intro exI [of _ st']) (auto simp: st' cancelled_by_def intro!: option.map_cong0)
  next
    case False
    then have "cancel_nodes now (j # ks) st = cancel_nodes now ks st" using n by simp
    with Cons.IH [OF Cons.prems(1)] Cons.prems(2) False n show ?thesis
      by (auto simp: cancelled_by_def intro!: option.map_cong0)
  qed
qed

text \<open>The tick that sees the cancel event, on a state of the loop.\<close>

lemma cancel_tick:
  assumes "sched_inv cfg t st" and "ti_cancel inp"
  shows "\<exists>st'. tick cfg t inp st = Return st' \<and> run_ok t (sd_run st') \<and> sd_futures st' = sd_futures st \<and>
     gr_state (sd_run st') = R_PAUSED \<and>
     get_run_row (sd_store st') (gr_run_id (sd_run st')) = Some (row_of_run (sd_run st')) \<and>
     (\<forall>k. dget (gr_nodes (sd_run st')) k =
        map_option (cancelled_by (ti_now inp) (sd_futures st) k) (dget (gr_nodes (sd_run st)) k))"
proof -
  have "set (sd_futures st) \<subseteq> set (t_ids t)"
    using assms(1) dget_SomeD unfolding sched_inv_def run_ok_def
    by (fastforce simp: ainv_def abs_sched_def a_is_def)
  from cancel_nodes_exact [OF sched_inv_sel(3) [OF assms(1)] this, of "ti_now inp"]
  obtain st' where c: "cancel_nodes (ti_now inp) (sd_futures st) st = (None, st')" "run_ok t (sd_run st')"
    "sd_futures st' = sd_futures st"
    and st': "\<And>k. dget (gr_nodes (sd_run st')) k =
      map_option (cancelled_by (ti_now inp) (sd_futures st) k) (dget (gr_nodes (sd_run st)) k)"
    by blast
  have "tick cfg t inp st = Return (set_run_state (ti_now inp) R_PAUSED st')"
    using assms(2) c by (simp add: tick_def cancel_def)
  with c st' show ?thesis by simp
qed

text \<open>
  \<open>visited\<close>: the states at the top of the loop, and those in which an iteration ends, whatever
  it did: it goes on, returns, lets an exception escape, or was cancelled.
\<close>

inductive visited :: "sched_cfg \<Rightarrow> graph_template \<Rightarrow> sched \<Rightarrow> sched \<Rightarrow> bool" for cfg t st0 where
  visited_top: "reach cfg t st0 st \<Longrightarrow> visited cfg t st0 st"
| visited_out: "reach cfg t st0 st \<Longrightarrow> visited cfg t st0 (tick_out (tick cfg t inp st))"

lemma visited_cases:
  assumes "visited cfg t st0 st" and "sched_inv cfg t st0"
  obtains (seen) "seen cfg t st0 st"
  | (cancelled) st1 inp where "reach cfg t st0 st1" "sched_inv cfg t st1" "ti_cancel inp" "tick cfg t inp st1 = Return st"
      "run_ok t (sd_run st)" "sd_futures st = sd_futures st1"
      "\<And>k. dget (gr_nodes (sd_run st)) k =
         map_option (cancelled_by (ti_now inp) (sd_futures st1) k) (dget (gr_nodes (sd_run st1)) k)"
  using assms(1)
proof cases
  case visited_top
  then show ?thesis using seen seen_reach by blast
next
  case (visited_out st1 inp)
  show ?thesis
  proof (cases "ti_cancel inp")
    case True
    have "sched_inv cfg t st1" using reach_inv [OF visited_out(2) assms(2)] by simp
    with cancel_tick [OF this True] visited_out True cancelled show ?thesis by auto
  next
    case False
    with visited_out seen_out seen show ?thesis by blast
  qed
qed

context store_inv
begin

lemma visited_P:
  assumes "visited cfg t st0 st" and "P st0"
  shows "P st"
proof -
  have "P st" if "reach cfg t st0 st" for st
    using that
  proof induction
    case (reach_tick st inp st')
    with tick_P [of st cfg t inp] show ?case by simp
  qed (rule assms(2))
  with assms(1) tick_P show ?thesis by cases auto
qed

end

lemmas visited_saved = saved_inv.visited_P

text \<open>The inputs and the template of the run never change.\<close>

definition same_inputs :: "pyval pydict \<Rightarrow> string \<Rightarrow> sched \<Rightarrow> bool" where
  "same_inputs ins tid st \<longleftrightarrow> run_keyed (sd_run st) \<and> gr_inputs (sd_run st) = ins \<and> gr_template_id (sd_run st) = tid"

interpretation inputs_inv: store_inv "same_inputs ins tid" for ins tid
proof
  show "same_inputs ins tid (st\<lparr>sd_run := run'\<rparr>)" if "same_inputs ins tid st" "blocks (sd_run st) run'" for st run'
  proof -
    have "gr_inputs run' = gr_inputs (sd_run st)" "gr_template_id run' = gr_template_id (sd_run st)"
      using that(2) unfolding blocks_def by (metis graph_run.ext_inject graph_run.surjective graph_run.update_convs)+
    then show ?thesis using that by (simp add: same_inputs_def blocks_def)
  qed
  show "same_inputs ins tid (put_node now n st)" if "same_inputs ins tid st" for n now st
    using that by (simp add: same_inputs_def put_node_sel run_keyed_set_node set_node_def [of _ "sd_run st", THEN arg_cong [of _ _ gr_inputs]] set_node_def [of _ "sd_run st", THEN arg_cong [of _ _ gr_template_id]])
qed (auto simp: same_inputs_def set_run_state_store touch_def run_keyed_def)

lemma visited_run_ok: "visited cfg t st0 st \<Longrightarrow> sched_inv cfg t st0 \<Longrightarrow> run_ok t (sd_run st)"
  by (elim visited_cases) (use seen_inv in \<open>auto simp: sched_inv_def\<close>)

lemma started_inv:
  "validate t kt = [] \<Longrightarrow> create_run now' rid t ins = Inr run \<Longrightarrow> sched_inv cfg t (sched_start now run store)"
  by (simp add: sched_inv_start startable_create)

lemma inv_futures:
  assumes "sched_inv cfg t st"
  shows "distinct (sd_futures st)" "int (length (sd_futures st)) \<le> max 1 (sc_max_concurrency cfg)"
    "set (sd_futures st) = {k. map_option nr_state (dget (gr_nodes (sd_run st)) k) = Some RUNNING}"
  using assms by (auto simp: sched_inv_def ainv_def abs_sched_def a_is_def concurrency_def)

section \<open>Properties\<close>

text \<open>
  C3. Crash durability, at the boundaries of the scheduler's iterations: at the top of every
  iteration of the loop on a fresh run of a validated template, and where an iteration goes on,
  returns, raises or is cancelled, the store loads back a run with the same inputs and the same
  status, in which every node that left Pending, unless it was only blocked, is as it was, with
  its outputs, error and counters (only \<open>params_resolved\<close> is lost); a pending or blocked node
  comes back as a fresh pending node. The rows of other runs are untouched. Inside an iteration
  the record of a node runs ahead of its row between a change and the save that follows it;
  these states are not claimed.
\<close>

theorem crash_durability:
  assumes "validate t kt = []" and "create_run now' rid t ins = Inr run"
    and "wf_store store" and "\<And>k. get_node_row store (rid, k) = None"
    and "visited cfg t (sched_start now run store) st"
  shows "\<exists>run'. load_run later rid t (sd_store st) = Inr (Some run') \<and>
     gr_state run' = gr_state (sd_run st) \<and> gr_inputs run' = gr_inputs (sd_run st) \<and>
     (\<forall>k n. dget (gr_nodes (sd_run st)) k = Some n \<longrightarrow>
        dget (gr_nodes run') k = Some (if nr_state n \<in> {PENDING, BLOCKED} then new_node_run later k else persisted later n)) \<and>
     (\<forall>r k. r \<noteq> rid \<longrightarrow> get_run_row (sd_store st) r = get_run_row store r \<and>
        get_node_row (sd_store st) (r, k) = get_node_row store (r, k))"
proof -
  have sv: "saved store rid st" by (rule visited_saved [OF assms(5) saved_start [OF fresh_created [OF assms(2)] created_run_id [OF assms(2)] assms(3)]])
  have ok: "run_ok t (sd_run st)" by (rule visited_run_ok [OF assms(5) started_inv [OF assms(1,2)]])
  obtain row where row: "get_run_row (sd_store st) rid = Some row" "rr_inputs row = gr_inputs (sd_run st)"
    "parse_run_state (rr_status row) = Some (gr_state (sd_run st))"
    using sv by (auto simp: saved_def simp del: run_state_value.simps)
  let ?g = "\<lambda>k. case dget (gr_nodes (sd_run st)) k of None \<Rightarrow> new_node_run later k
    | Some n \<Rightarrow> if nr_state n \<in> {PENDING, BLOCKED} then new_node_run later k else persisted later n"
  have "stored_node later (sd_store st) rid k = Inr (?g k)" if k: "k \<in> set (t_ids t)" for k
  proof -
    obtain n where n: "dget (gr_nodes (sd_run st)) k = Some n" using run_ok_node [OF ok k] by metis
    with sv have "if nr_state n \<in> {PENDING, BLOCKED} then get_node_row (sd_store st) (rid, k) = get_node_row store (rid, k)
         else \<forall>now. stored_node now (sd_store st) rid k = Inr (persisted now n)"
      by (simp add: saved_def)
    with n assms(4) show ?thesis by (auto simp: stored_node_def [of _ _ _ k] split: if_splits)
  qed
  from load_run_spec [where t = t, OF _ row(1,3) this] sv row(2)
  obtain run' where run': "load_run later rid t (sd_store st) = Inr (Some run')"
    "gr_state run' = gr_state (sd_run st)" "gr_inputs run' = gr_inputs (sd_run st)"
    and get: "\<And>k. dget (gr_nodes run') k = (if k \<in> set (t_ids t) then Some (?g k) else None)"
    by (auto simp: saved_def simp del: set_map)
  have "k \<in> set (t_ids t)" if "dget (gr_nodes (sd_run st)) k = Some n" for k n
    using ok dget_SomeD [OF that] unfolding run_ok_def by blast
  with run' get sv show ?thesis by (auto simp: saved_def simp del: set_map)
qed

text \<open>
  Cancellation never raises: the tick that sees the cancel event returns the run as
  Paused, saved, with every running node cancelled and every other node in the state it had.
\<close>

theorem cancel_pauses:
  assumes "validate t kt = []" and "startable t run"
    and "reach cfg t (sched_start now run store) st" and "ti_cancel inp"
  shows "\<exists>st'. tick cfg t inp st = Return st' \<and> gr_state (sd_run st') = R_PAUSED \<and>
     get_run_row (sd_store st') (gr_run_id (sd_run st')) = Some (row_of_run (sd_run st')) \<and>
     (\<forall>k. dget (gr_nodes (sd_run st')) k = map_option (\<lambda>n. if nr_state n = RUNNING
        then n\<lparr>nr_state := CANCELLED, nr_updated_at := ti_now inp\<rparr> else n) (dget (gr_nodes (sd_run st)) k))"
proof -
  have inv: "sched_inv cfg t st" using reach_inv [OF assms(3) sched_inv_start [OF assms(1,2)]] by simp
  have "map_option (cancelled_by (ti_now inp) (sd_futures st) k) (dget (gr_nodes (sd_run st)) k) =
      map_option (\<lambda>n. if nr_state n = RUNNING then n\<lparr>nr_state := CANCELLED, nr_updated_at := ti_now inp\<rparr> else n)
        (dget (gr_nodes (sd_run st)) k)" for k
    using inv_futures(3) [OF inv] by (auto simp: cancelled_by_def intro!: option.map_cong0)
  with cancel_tick [OF inv assms(4)] show ?thesis by auto
qed

text \<open>
  C10. At the top of every iteration of the loop and where an iteration ends, there are never
  more outstanding futures than the concurrency cap, without duplicates. They are exactly the
  running nodes, except after the tick that saw the cancel event: then no node is running any
  more and every future left is one of a node that this tick marked as cancelled.
\<close>

theorem concurrency_cap:
  assumes "validate t kt = []" and "startable t run" and "reach cfg t (sched_start now run store) st"
  shows "distinct (sd_futures st) \<and> int (length (sd_futures st)) \<le> max 1 (sc_max_concurrency cfg) \<and>
     set (sd_futures st) = {k. map_option nr_state (dget (gr_nodes (sd_run st)) k) = Some RUNNING} \<and>
     (let st' = tick_out (tick cfg t inp st) in
        distinct (sd_futures st') \<and> int (length (sd_futures st')) \<le> max 1 (sc_max_concurrency cfg) \<and>
        (if ti_cancel inp
         then sd_futures st' = sd_futures st \<and>
           {k. map_option nr_state (dget (gr_nodes (sd_run st')) k) = Some RUNNING} = {} \<and>
           set (sd_futures st') \<subseteq> {k. map_option nr_state (dget (gr_nodes (sd_run st')) k) = Some CANCELLED}
         else set (sd_futures st') = {k. map_option nr_state (dget (gr_nodes (sd_run st')) k) = Some RUNNING}))"
proof -
  have inv: "sched_inv cfg t st" using reach_inv [OF assms(3) sched_inv_start [OF assms(1,2)]] by simp
  note f = inv_futures [OF inv]
  show ?thesis
  proof (cases "ti_cancel inp")
    case False
    with tick_out_inv [OF inv] have "sched_inv cfg t (tick_out (tick cfg t inp st))" by blast
    from f inv_futures [OF this] False show ?thesis by (simp add: Let_def)
  next
    case True
    from cancel_tick [OF inv this] obtain st' where st': "tick cfg t inp st = Return st'" "sd_futures st' = sd_futures st"
      and n: "\<And>k. dget (gr_nodes (sd_run st')) k =
        map_option (cancelled_by (ti_now inp) (sd_futures st) k) (dget (gr_nodes (sd_run st)) k)"
      by blast
    have k: "k \<in> set (sd_futures st) \<longleftrightarrow> (\<exists>n. dget (gr_nodes (sd_run st)) k = Some n \<and> nr_state n = RUNNING)" for k
      using f(3) by simp
    have "{k. map_option nr_state (dget (gr_nodes (sd_run st')) k) = Some RUNNING} = {}"
      by (auto simp: n k split: if_splits)
    moreover have "set (sd_futures st) \<subseteq> {k. map_option nr_state (dget (gr_nodes (sd_run st')) k) = Some CANCELLED}"
      by (auto simp: n k)
    ultimately show ?thesis using f st' True by (simp add: Let_def)
  qed
qed

text \<open>
  C9. Dependency order: at the top of every iteration of the scheduler on a fresh run, and
  where an iteration ends, cancelled or not, a node that was ever dispatched has all its
  dependencies succeeded, and it was dispatched at most \<open>max_attempts\<close> times plus once for
  every repair, of which there are at most \<open>max_repair_attempts\<close>.
\<close>

theorem dependencies_first:
  assumes "validate t kt = []" and "create_run now' rid t ins = Inr run"
    and "visited cfg t (sched_start now run store) st"
    and n: "dget (gr_nodes (sd_run st)) k = Some n" and spec: "template_node t k = Some spec"
  shows "(0 < nr_attempt n \<longrightarrow> list_all (succeeded (sd_run st)) (ns_depends_on spec)) \<and>
     nr_attempt n \<le> ns_max_attempts spec + nr_repair_attempts n \<and>
     nr_repair_attempts n \<le> ns_max_repair_attempts spec"
  using assms(3) started_inv [OF assms(1,2)]
proof (cases rule: visited_cases)
  case seen
  from seen_dependencies [OF assms(1,2) this n spec] show ?thesis .
next
  case (cancelled st1 inp)
  obtain n1 where n1: "dget (gr_nodes (sd_run st1)) k = Some n1" "n = cancelled_by (ti_now inp) (sd_futures st1) k n1"
    using n cancelled(7) by auto
  have "succeeded (sd_run st) d" if "succeeded (sd_run st1) d" for d
    using that by (auto simp: succeeded_def cancelled(7))
  with seen_dependencies [OF assms(1,2) seen_reach [OF cancelled(1)] n1(1) spec] n1(2)
  show ?thesis by (auto simp: list_all_iff)
qed

text \<open>
  C22. A node that is terminal at the top of an iteration keeps its state, its attempt counters
  and its outputs at the top of every later iteration of the same scheduler call, and where the
  call goes on, returns, raises or is cancelled; the cancelling tick leaves the whole record of
  the node as it is.
\<close>

theorem terminal_nodes_stay:
  assumes "validate t kt = []" and "startable t run"
    and st: "reach cfg t (sched_start now run store) st" and "visited cfg t st st'"
    and n: "dget (gr_nodes (sd_run st)) k = Some n" "nr_state n \<in> TERMINAL_NODE_STATES"
  shows "\<exists>n'. dget (gr_nodes (sd_run st')) k = Some n' \<and> nr_state n' = nr_state n \<and> nr_outputs n' = nr_outputs n \<and>
     nr_attempt n' = nr_attempt n \<and> nr_repair_attempts n' = nr_repair_attempts n \<and>
     (ti_cancel inp \<longrightarrow> dget (gr_nodes (sd_run (tick_out (tick cfg t inp st)))) k = Some n)"
proof -
  have inv: "sched_inv cfg t st" using reach_inv [OF st sched_inv_start [OF assms(1,2)]] by simp
  have c: "cancelled_by now ks k n = n" for now ks
    using n(2) by (auto simp: cancelled_by_def TERMINAL_NODE_STATES_def)
  have "\<exists>n'. dget (gr_nodes (sd_run st')) k = Some n' \<and> nr_state n' = nr_state n \<and> nr_outputs n' = nr_outputs n \<and>
     nr_attempt n' = nr_attempt n \<and> nr_repair_attempts n' = nr_repair_attempts n"
    using assms(4) inv
  proof (cases rule: visited_cases)
    case seen
    then show ?thesis by (rule seen_terminal [OF inv _ n])
  next
    case (cancelled st1 inp)
    from seen_terminal [OF inv seen_reach [OF cancelled(1)] n] n(2) cancelled(7) show ?thesis
      by (auto simp: TERMINAL_NODE_STATES_def)
  qed
  moreover have "dget (gr_nodes (sd_run (tick_out (tick cfg t inp st)))) k = Some n" if "ti_cancel inp"
    using cancel_tick [OF inv that] n(1) c by auto
  ultimately show ?thesis by blast
qed

text \<open>
  A cancelled node is not resumed: \<open>resume_run\<close> leaves it cancelled, so the scheduler
  never runs it again and the resumed run cannot succeed.
\<close>

theorem cancelled_not_resumed:
  assumes "validate t kt = []" and "run_ok t run"
    and "load_run now rid t store = Inr (Some run)" "gr_state run = R_PAUSED"
    and "dget (gr_nodes run) k = Some n" "nr_state n = CANCELLED"
    and "resume_run now rid t store = Inr (Some run', store')"
    and "\<And>j. \<not> ti_cancel (env j)"
    and "sched_loop cfg t env fuel 0 (sched_start now run' store') = Some (Return st)"
  shows "map_option nr_state (dget (gr_nodes (sd_run st)) k) = Some CANCELLED \<and> gr_state (sd_run st) \<noteq> R_SUCCEEDED"
proof -
  let ?s0 = "sched_start now run' store'"
  have nt: "gr_state run \<notin> TERMINAL_RUN_STATES" using assms(4) by (simp add: TERMINAL_RUN_STATES_def)
  have start: "startable t run'" by (rule startable_resume [OF assms(3,2) nt assms(7)])
  have "gr_nodes run' = map (\<lambda>(k, node). (k, reset_in_flight node)) (gr_nodes run)"
    using resume_run_Inr [OF assms(3) nt] assms(7) by (auto simp: Let_def touch_def)
  then have "dget (gr_nodes run') k = Some (reset_in_flight n)" using assms(5) by (simp add: dget_reset)
  then have "dget (gr_nodes run') k = Some n" using assms(6) by (simp add: reset_in_flight_def)
  then have c: "a_node (abs_sched ?s0) k = Some (abs_node n)" by (simp add: sched_start_abs)
  obtain st1 j where st1: "reach cfg t ?s0 st1" "tick cfg t (env j) st1 = Return st"
    using loop_seen [OF assms(9) reach_start] by blast
  have "seen cfg t ?s0 st" using seen.seen_out [OF st1(1) assms(8), of j] st1(2) by simp
  then have inv: "sched_inv cfg t st" and "(astep t (concurrency cfg))\<^sup>*\<^sup>* (abs_sched ?s0) (abs_sched st)"
    using seen_inv sched_inv_start [OF assms(1) start] by auto
  then have "a_node (abs_sched st) k = Some (abs_node n)"
    by (rule_tac asteps_terminal [OF _ c]) (simp_all add: assms(6) TERMINAL_NODE_STATES_def)
  then obtain n' where n': "dget (gr_nodes (sd_run st)) k = Some n'" "nr_state n' = CANCELLED"
    using assms(6) by (auto simp: abs_sched_def abs_node_def)
  have "sched_inv cfg t st1" using reach_inv [OF st1(1)] sched_inv_start [OF assms(1) start] by blast
  from tick_sim [OF sched_inv_sel(1-3,5) [OF this] assms(8), of j, unfolded st1(2)]
  have f: "gr_state (sd_run st) = determine_run_status (node_states (sd_run st))" by (simp add: final_sched_def)
  have "CANCELLED \<in> set (node_states (sd_run st))"
    using n' inv by (force simp: node_states_def dvals_in sched_inv_def run_ok_def run_keyed_def)
  then have "gr_state (sd_run st) \<noteq> R_SUCCEEDED"
    unfolding f by (auto simp: determine_run_status_def Let_def list_all_iff)
  with n' show ?thesis by simp
qed

end
