(* ===== verification/Engine.thy ===== *)
theory Engine
  imports Sched_Durable "HOL-Library.List_Lexorder" "HOL-Library.Char_ord"
begin

text \<open>
  \<^verbatim>\<open>dft_forge/runtime/engine.py\<close>: \<open>GraphEngine\<close>, the facade over the store and the
  scheduler.

  \<^item> \<open>engine\<close> holds the tool names, the repair handlers, the registered templates and the
    store. \<open>en_dir\<close> is the content of \<open>templates_dir\<close>: the parsed document of every file,
    \<open>None\<close> for a file that does not parse; reading and parsing it is the library's.
  \<^item> An operation is a function of the engine: it may not return (the scheduler loop), it may
    raise, and what it changed before it raised stays changed.
  \<^item> Run ids, the clock and the inputs of the scheduler ticks are arguments.
\<close>

section \<open>Operations that change the engine\<close>

datatype engine_error = RunError run_error | LoadError load_error | ParseError string

record engine =
  en_tools :: "string list"
  en_repairers :: "repairer pydict"
  en_templates :: "graph_template pydict"
  en_dir :: "(string \<times> pyval option) list option"
  en_max_concurrency :: int
  en_base_dir :: string
  en_store :: store

type_synonym 'a eop = "engine \<Rightarrow> ((engine_error + 'a) \<times> engine) option"

definition eret :: "'a \<Rightarrow> 'a eop" where
  "eret a e = Some (Inr a, e)"

definition eraise :: "engine_error \<Rightarrow> 'a eop" where
  "eraise x e = Some (Inl x, e)"

definition ebind :: "'a eop \<Rightarrow> ('a \<Rightarrow> 'b eop) \<Rightarrow> 'b eop" where
  "ebind m f e = (case m e of
     None \<Rightarrow> None
   | Some (Inl x, e') \<Rightarrow> Some (Inl x, e')
   | Some (Inr a, e') \<Rightarrow> f a e')"

definition lift_run :: "run_error + 'a \<Rightarrow> 'a eop" where
  "lift_run r = (case r of Inl x \<Rightarrow> eraise (RunError x) | Inr a \<Rightarrow> eret a)"

definition modify :: "(engine \<Rightarrow> engine) \<Rightarrow> unit eop" where
  "modify f e = Some (Inr (), f e)"

definition set_store :: "store \<Rightarrow> unit eop" where
  "set_store st = modify (\<lambda>e. e\<lparr>en_store := st\<rparr>)"

definition get_store :: "store eop" where
  "get_store e = Some (Inr (en_store e), e)"

lemma ebind_eq_Some:
  "ebind m f e = Some (r, e') \<longleftrightarrow>
     (\<exists>x. m e = Some (Inl x, e') \<and> r = Inl x) \<or> (\<exists>a e1. m e = Some (Inr a, e1) \<and> f a e1 = Some (r, e'))"
  by (auto simp: ebind_def split: option.splits prod.splits sum.splits)

lemma eop_simps [simp]:
  "eret a e = Some (Inr a, e)" "eraise x e = Some (Inl x, e)" "modify f e = Some (Inr (), f e)"
  "get_store e = Some (Inr (en_store e), e)" "set_store st e = Some (Inr (), e\<lparr>en_store := st\<rparr>)"
  "lift_run (Inl z) e = Some (Inl (RunError z), e)" "lift_run (Inr a) e = Some (Inr a, e)"
  by (simp_all add: eret_def eraise_def modify_def get_store_def set_store_def lift_run_def)

section \<open>Registries\<close>

definition register_tool :: "string \<Rightarrow> unit eop" where
  "register_tool name = modify (\<lambda>e. e\<lparr>en_tools := (if name \<in> set (en_tools e) then en_tools e else en_tools e @ [name])\<rparr>)"

definition register_template :: "graph_template \<Rightarrow> unit eop" where
  "register_template t e =
     (let errors = validate t (Some (en_tools e)) in
      if errors \<noteq> [] then eraise (RunError (InvalidTemplate (template_id t) errors)) e
      else modify (\<lambda>e. e\<lparr>en_templates := dput (template_id t) t (en_templates e)\<rparr>) e)"

definition load_template :: "string \<Rightarrow> pyval option \<Rightarrow> engine_error + graph_template" where
  "load_template path doc =
     (case doc of
        Some (PDict data) \<Rightarrow> (case from_dict data of Inl x \<Rightarrow> Inl (LoadError x) | Inr t \<Rightarrow> Inr t)
      | _ \<Rightarrow> Inl (ParseError path))"

text \<open>The loop over the suffixes: the first existing file is loaded and registered.\<close>

fun try_suffixes :: "(string \<times> pyval option) list \<Rightarrow> string \<Rightarrow> string list \<Rightarrow> graph_template option eop" where
  "try_suffixes dir tid [] = eret None"
| "try_suffixes dir tid (suffix # suffixes) =
     (case map_of dir (tid @ suffix) of
        None \<Rightarrow> try_suffixes dir tid suffixes
      | Some doc \<Rightarrow>
          (case load_template (tid @ suffix) doc of
             Inl x \<Rightarrow> eraise x
           | Inr t \<Rightarrow> ebind (register_template t) (\<lambda>_. eret (Some t))))"

definition get_template :: "string \<Rightarrow> graph_template eop" where
  "get_template tid e =
     (case dget (en_templates e) tid of
        Some t \<Rightarrow> eret t e
      | None \<Rightarrow>
          ebind (case en_dir e of None \<Rightarrow> eret None | Some dir \<Rightarrow> try_suffixes dir tid [''.json'', ''.yaml'', ''.yml''])
            (\<lambda>r. case r of Some t \<Rightarrow> eret t | None \<Rightarrow> eraise (RunError (UnknownTemplate tid))) e)"

definition json_stem :: "string \<Rightarrow> string option" where
  "json_stem path = (if drop (length path - 5) path = ''.json'' \<and> 5 \<le> length path
     then Some (if length path = 5 then path else take (length path - 5) path) else None)"

text \<open>\<open>try ... except Exception: continue\<close> around loading and registering one file.\<close>

definition scan_file :: "string \<times> pyval option \<Rightarrow> engine \<Rightarrow> engine" where
  "scan_file f e = (case f of (path, doc) \<Rightarrow>
     (case json_stem path of
        None \<Rightarrow> e
      | Some stem \<Rightarrow>
          if dmem stem (en_templates e) then e
          else (case load_template path doc of
                  Inl _ \<Rightarrow> e
                | Inr t \<Rightarrow> (case register_template t e of Some (_, e') \<Rightarrow> e' | None \<Rightarrow> e))))"

definition list_templates :: "string list eop" where
  "list_templates e =
     (let e' = (case en_dir e of None \<Rightarrow> e | Some dir \<Rightarrow> fold scan_file (sort_key fst dir) e)
      in Some (Inr (sort (dkeys (en_templates e'))), e'))"

section \<open>Life cycle of a run\<close>

definition create :: "time \<Rightarrow> string \<Rightarrow> string \<Rightarrow> pyval pydict \<Rightarrow> graph_run eop" where
  "create now rid tid ins =
     ebind (get_template tid) (\<lambda>t.
     ebind (lift_run (create_run now rid t ins)) (\<lambda>run.
     ebind get_store (\<lambda>st.
       let (run, st) = save_run now run st in ebind (set_store st) (\<lambda>_. eret run))))"

definition peek_template_id :: "string \<Rightarrow> string eop" where
  "peek_template_id rid e =
     (case template_id_for (en_store e) rid of
        None \<Rightarrow> eraise (RunError (UnknownRun rid)) e
      | Some tid \<Rightarrow> eret tid e)"

definition load_by_id :: "time \<Rightarrow> string \<Rightarrow> graph_run eop" where
  "load_by_id now rid =
     ebind (peek_template_id rid) (\<lambda>tid.
     ebind (get_template tid) (\<lambda>t.
     ebind get_store (\<lambda>st.
     ebind (lift_run (load_run now rid t st)) (\<lambda>r.
       case r of None \<Rightarrow> eraise (RunError (UnknownRun rid)) | Some run \<Rightarrow> eret run))))"

text \<open>One scheduler call: at most \<open>fuel\<close> ticks on the inputs \<open>env\<close>.\<close>

definition cfg_of :: "engine \<Rightarrow> sched_cfg" where
  "cfg_of e = \<lparr>sc_tools = en_tools e, sc_repairers = en_repairers e,
     sc_max_concurrency = en_max_concurrency e, sc_base_dir = en_base_dir e\<rparr>"

definition schedule :: "(nat \<Rightarrow> tick_in) \<Rightarrow> nat \<Rightarrow> time \<Rightarrow> graph_template \<Rightarrow> graph_run \<Rightarrow> graph_run eop" where
  "schedule env fuel now t run e =
     (case sched_loop (cfg_of e) t env fuel 0 (sched_start now run (en_store e)) of
        Some (Return st) \<Rightarrow> Some (Inr (sd_run st), e\<lparr>en_store := sd_store st\<rparr>)
      | Some (Raise x st) \<Rightarrow> Some (Inl (RunError x), e\<lparr>en_store := sd_store st\<rparr>)
      | _ \<Rightarrow> None)"

definition start :: "(nat \<Rightarrow> tick_in) \<Rightarrow> nat \<Rightarrow> time \<Rightarrow> string \<Rightarrow> graph_run eop" where
  "start env fuel now rid =
     ebind (load_by_id now rid) (\<lambda>run.
       if gr_state run \<in> TERMINAL_RUN_STATES then eret run
       else ebind (get_template (gr_template_id run)) (\<lambda>t. schedule env fuel now t run))"

definition run_template :: "(nat \<Rightarrow> tick_in) \<Rightarrow> nat \<Rightarrow> time \<Rightarrow> string \<Rightarrow> string \<Rightarrow> pyval pydict \<Rightarrow> graph_run eop" where
  "run_template env fuel now rid tid ins =
     ebind (create now rid tid ins) (\<lambda>run. start env fuel now (gr_run_id run))"

definition resume :: "(nat \<Rightarrow> tick_in) \<Rightarrow> nat \<Rightarrow> time \<Rightarrow> string \<Rightarrow> graph_run eop" where
  "resume env fuel now rid =
     ebind (peek_template_id rid) (\<lambda>tid.
     ebind (get_template tid) (\<lambda>t.
     ebind get_store (\<lambda>st.
     ebind (lift_run (resume_run now rid t st)) (\<lambda>(r, st).
     ebind (set_store st) (\<lambda>_.
       case r of
         None \<Rightarrow> eraise (RunError (UnknownRun rid))
       | Some run \<Rightarrow> if gr_state run \<in> TERMINAL_RUN_STATES then eret run else schedule env fuel now t run)))))"

definition reset_for_retry :: "node_run \<Rightarrow> node_run" where
  "reset_for_retry node = node\<lparr>nr_attempt := 0, nr_repair_attempts := 0, nr_error := None, nr_params := [],
     nr_params_resolved := False\<rparr>"

fun retry_nodes :: "time \<Rightarrow> string list \<Rightarrow> graph_run \<Rightarrow> graph_run eop" where
  "retry_nodes now [] run = eret run"
| "retry_nodes now (nid # nids) run =
     ebind (lift_run (bindr (node_at run nid) (transition now PENDING))) (\<lambda>node.
     ebind get_store (\<lambda>st.
       let (node, st) = save_node_run now run (reset_for_retry node) st
       in ebind (set_store st) (\<lambda>_. retry_nodes now nids (set_node node run))))"

definition default_targets :: "graph_run \<Rightarrow> string list" where
  "default_targets run = map nr_node_id (filter (\<lambda>n. nr_state n \<in> {FAILED, BLOCKED}) (dvals (gr_nodes run)))"

definition retry :: "(nat \<Rightarrow> tick_in) \<Rightarrow> nat \<Rightarrow> time \<Rightarrow> string \<Rightarrow> string list option \<Rightarrow> graph_run eop" where
  "retry env fuel now rid node_ids =
     ebind (load_by_id now rid) (\<lambda>run.
     ebind (retry_nodes now
        (case node_ids of Some (k # ks) \<Rightarrow> k # ks | _ \<Rightarrow> default_targets run) run) (\<lambda>run.
     ebind get_store (\<lambda>st.
       let (run, st) = save_run now (run\<lparr>gr_state := R_VALIDATED\<rparr>) st
       in ebind (set_store st) (\<lambda>_. start env fuel now rid))))"

record node_status =
  st_state :: string
  st_attempt :: int
  st_repair_attempts :: int
  st_error :: "string option"
  st_outputs :: "pyval pydict"

record run_status =
  st_run_id :: string
  st_template_id :: string
  st_run_state :: string
  st_inputs :: "pyval pydict"
  st_nodes :: "node_status pydict"

definition status :: "time \<Rightarrow> string \<Rightarrow> run_status eop" where
  "status now rid =
     ebind (load_by_id now rid) (\<lambda>run. eret
       \<lparr>st_run_id = gr_run_id run, st_template_id = gr_template_id run,
        st_run_state = run_state_value (gr_state run), st_inputs = gr_inputs run,
        st_nodes = map (\<lambda>(k, n). (k, \<lparr>st_state = node_state_value (nr_state n), st_attempt = nr_attempt n,
           st_repair_attempts = nr_repair_attempts n, st_error = nr_error n, st_outputs = nr_outputs n\<rparr>))
           (gr_nodes run)\<rparr>)"

definition engine_list_runs :: "(string \<times> string \<times> string \<times> time) list eop" where
  "engine_list_runs e = Some (Inr (list_runs (en_store e)), e)"

end
