(* ===== verification/Engine_Props.thy ===== *)
theory Engine_Props
  imports Engine
begin

text \<open>
  What \<open>GraphEngine\<close> of \<^verbatim>\<open>dft_forge/runtime/engine.py\<close> guarantees: its registry only
  ever holds templates that validate against its tools, creating and running a template ends,
  a retry restarts exactly the failed part of a run, and a finished run is left alone.
\<close>

section \<open>The template registry\<close>

definition reg_ok :: "engine \<Rightarrow> bool" where
  "reg_ok e \<longleftrightarrow> (\<forall>k t. dget (en_templates e) k = Some t \<longrightarrow> k = template_id t \<and> validate t (Some (en_tools e)) = [])"

text \<open>Operations that keep a property of the engine, and only extend its registries.\<close>

definition keeps :: "(engine \<Rightarrow> bool) \<Rightarrow> 'a eop \<Rightarrow> bool" where
  "keeps P m \<longleftrightarrow> (\<forall>e r e'. P e \<longrightarrow> m e = Some (r, e') \<longrightarrow> P e')"

named_theorems keeps_intro

lemma keeps_basic [keeps_intro]: "keeps P (eret a)" "keeps P (eraise x)" "keeps P (lift_run r)"
  by (auto simp: keeps_def lift_run_def split: sum.splits)

lemma keeps_bind [keeps_intro]: "keeps P m \<Longrightarrow> (\<And>a. keeps P (f a)) \<Longrightarrow> keeps P (ebind m f)"
  unfolding keeps_def ebind_eq_Some by blast

lemma keeps_prod [keeps_intro]: "(\<And>a b. keeps P (f a b)) \<Longrightarrow> keeps P (case p of (a, b) \<Rightarrow> f a b)"
  by (cases p) simp

lemma keeps_option [keeps_intro]:
  "keeps P f \<Longrightarrow> (\<And>a. keeps P (g a)) \<Longrightarrow> keeps P (case x of None \<Rightarrow> f | Some a \<Rightarrow> g a)"
  by (cases x) simp_all

lemma keeps_if [keeps_intro]: "keeps P f \<Longrightarrow> keeps P g \<Longrightarrow> keeps P (if b then f else g)"
  by simp

lemma keeps_get_store [keeps_intro]: "keeps P get_store"
  by (simp add: keeps_def)

lemma validate_more_tools:
  "validate t (Some ts) = [] \<Longrightarrow> set ts \<subseteq> set ts' \<Longrightarrow> validate t (Some ts') = []"
  unfolding validate_Nil_iff valid_template_def by fastforce

lemma validate_any_tools: "validate t kt = [] \<Longrightarrow> validate t None = []"
  unfolding validate_Nil_iff valid_template_def by fastforce

lemma reg_ok_store: "keeps reg_ok (set_store st)"
  by (auto simp: keeps_def reg_ok_def)

lemma reg_ok_register_tool: "keeps reg_ok (register_tool name)"
proof -
  have "validate t (Some (en_tools e @ [name])) = []" if "validate t (Some (en_tools e)) = []" for t e
    by (rule validate_more_tools [OF that]) auto
  then show ?thesis by (auto simp: keeps_def reg_ok_def register_tool_def)
qed

lemma reg_ok_register_template: "keeps reg_ok (register_template t)"
  by (auto simp: keeps_def reg_ok_def register_template_def Let_def pydict split: if_splits)

lemma register_template_Inr:
  "register_template t e = Some (Inr u, e') \<Longrightarrow>
     validate t (Some (en_tools e)) = [] \<and> e' = e\<lparr>en_templates := dput (template_id t) t (en_templates e)\<rparr>"
  by (auto simp: register_template_def Let_def split: if_splits)

lemma register_template_fields:
  "register_template t e = Some (r, e') \<Longrightarrow> en_store e' = en_store e \<and> en_tools e' = en_tools e \<and>
     en_repairers e' = en_repairers e \<and> en_max_concurrency e' = en_max_concurrency e \<and> en_base_dir e' = en_base_dir e"
  by (auto simp: register_template_def Let_def split: if_splits)

lemma try_suffixes_spec:
  "try_suffixes dir tid sfx e = Some (r, e') \<Longrightarrow> reg_ok e \<Longrightarrow>
     reg_ok e' \<and> cfg_of e' = cfg_of e \<and> en_store e' = en_store e \<and>
     (\<forall>t. r = Inr (Some t) \<longrightarrow> dget (en_templates e') (template_id t) = Some t)"
proof (induction sfx)
  case (Cons s sfx)
  show ?case
  proof (cases "map_of dir (tid @ s)")
    case (Some doc)
    show ?thesis
    proof (cases "load_template (tid @ s) doc")
      case (Inr t)
      then obtain r1 where r1: "register_template t e = Some (r1, e')"
        and r: "r = (case r1 of Inl x \<Rightarrow> Inl x | Inr _ \<Rightarrow> Inr (Some t))"
        using Some Cons.prems(1) by (auto simp: ebind_eq_Some)
      have "reg_ok e'" using reg_ok_register_template Cons.prems(2) r1 unfolding keeps_def by blast
      with register_template_fields [OF r1] r register_template_Inr r1 show ?thesis
        by (cases r1) (auto simp: cfg_of_def pydict dest!: register_template_Inr)
    qed (use Some Cons.prems in auto)
  qed (use Cons in auto)
qed auto

lemma get_template_spec:
  assumes "get_template tid e = Some (r, e')" and "reg_ok e"
  shows "reg_ok e' \<and> cfg_of e' = cfg_of e \<and> en_store e' = en_store e \<and>
     (\<forall>t. r = Inr t \<longrightarrow> validate t (Some (en_tools e')) = [] \<and> dget (en_templates e') (template_id t) = Some t)"
proof (cases "dget (en_templates e) tid")
  case (Some t)
  with assms show ?thesis by (auto simp: get_template_def reg_ok_def)
next
  case None
  let ?m = "case en_dir e of None \<Rightarrow> eret None | Some dir \<Rightarrow> try_suffixes dir tid [''.json'', ''.yaml'', ''.yml'']"
  have "ebind ?m (\<lambda>r. case r of Some t \<Rightarrow> eret t | None \<Rightarrow> eraise (RunError (UnknownTemplate tid))) e = Some (r, e')"
    using assms(1) None unfolding get_template_def by (simp only: option.case)
  then obtain r1 where r1: "?m e = Some (r1, e')"
    and r: "r = (case r1 of Inl x \<Rightarrow> Inl x | Inr None \<Rightarrow> Inl (RunError (UnknownTemplate tid)) | Inr (Some t) \<Rightarrow> Inr t)"
    unfolding ebind_eq_Some
  proof (elim disjE exE conjE, goal_cases)
    case (1 x)
    then show ?case by simp
  next
    case (2 a e1)
    then show ?case by (cases a) auto
  qed
  have "reg_ok e' \<and> cfg_of e' = cfg_of e \<and> en_store e' = en_store e \<and>
     (\<forall>t. r1 = Inr (Some t) \<longrightarrow> dget (en_templates e') (template_id t) = Some t)"
  proof (cases "en_dir e")
    case None
    with r1 assms(2) show ?thesis by auto
  next
    case (Some dir)
    with r1 have "try_suffixes dir tid [''.json'', ''.yaml'', ''.yml''] e = Some (r1, e')"
      by (simp only: option.case)
    from try_suffixes_spec [OF this assms(2)] show ?thesis .
  qed
  then have k: "reg_ok e'" "cfg_of e' = cfg_of e" "en_store e' = en_store e"
    and g: "r1 = Inr (Some t) \<Longrightarrow> dget (en_templates e') (template_id t) = Some t" for t
    by blast+
  have "validate t (Some (en_tools e')) = [] \<and> dget (en_templates e') (template_id t) = Some t" if "r = Inr t" for t
  proof -
    have "r1 = Inr (Some t)" using that r by (simp split: sum.splits option.splits)
    from g [OF this] k(1) show ?thesis unfolding reg_ok_def by blast
  qed
  with k show ?thesis by blast
qed

lemma get_template_keeps: "keeps reg_ok (get_template tid)"
  using get_template_spec unfolding keeps_def by blast

lemma scan_file_reg_ok: "reg_ok e \<Longrightarrow> reg_ok (scan_file f e)"
  using reg_ok_register_template
  by (auto simp: scan_file_def keeps_def split: prod.splits option.splits sum.splits)

lemma list_templates_keeps: "keeps reg_ok list_templates"
proof -
  have "reg_ok e \<Longrightarrow> reg_ok (fold scan_file fs e)" for fs e
    by (induction fs arbitrary: e) (simp_all add: scan_file_reg_ok)
  then show ?thesis by (auto simp: keeps_def list_templates_def Let_def split: option.splits)
qed

lemma peek_keeps: "keeps reg_ok (peek_template_id rid)"
  by (auto simp: keeps_def peek_template_id_def split: option.splits)

lemma schedule_keeps: "keeps reg_ok (schedule env fuel now t run)"
  by (auto simp: keeps_def schedule_def reg_ok_def split: option.splits tick_result.splits)

lemmas op_keeps = keeps_intro get_template_keeps peek_keeps schedule_keeps reg_ok_store

lemma create_keeps: "keeps reg_ok (create now rid tid ins)"
  unfolding create_def Let_def by (intro op_keeps)

lemma load_by_id_keeps: "keeps reg_ok (load_by_id now rid)"
  unfolding load_by_id_def by (intro op_keeps)

lemma start_keeps: "keeps reg_ok (start env fuel now rid)"
  unfolding start_def by (intro op_keeps load_by_id_keeps)

lemma resume_keeps: "keeps reg_ok (resume env fuel now rid)"
  unfolding resume_def by (intro op_keeps)

lemma retry_nodes_keeps: "keeps reg_ok (retry_nodes now ks run)"
  by (induction ks arbitrary: run) (simp_all add: Let_def, (intro op_keeps | assumption)+)

lemma retry_keeps: "keeps reg_ok (retry env fuel now rid ks)"
  unfolding retry_def Let_def by (intro op_keeps load_by_id_keeps retry_nodes_keeps start_keeps)

lemma status_keeps: "keeps reg_ok (status now rid)"
  unfolding status_def by (intro op_keeps load_by_id_keeps)

lemma run_template_keeps: "keeps reg_ok (run_template env fuel now rid tid ins)"
  unfolding run_template_def by (intro op_keeps create_keeps start_keeps)

section \<open>Loading what was stored\<close>

lemma load_run_ok:
  assumes "wf_store st" and "load_run now rid t st = Inr (Some run)"
    and "\<And>x. dmem x (t_inputs t) \<Longrightarrow> dmem x (gr_inputs run)"
  shows "run_ok t run"
proof -
  obtain row where w: "wf_dict (gr_nodes run)"
    and g: "\<And>k. dget (gr_nodes run) k = (if k \<in> set (t_ids t) then Some (projr (stored_node now st rid k)) else None)"
    and n: "\<And>k. k \<in> set (t_ids t) \<Longrightarrow> \<exists>n. stored_node now st rid k = Inr n \<and> nr_node_id n = k"
    using load_run_inv [OF assms(1,2)] by metis
  have "nr_node_id m = k" if "dget (gr_nodes run) k = Some m" for k m
    using that n [of k] by (auto simp: g simp del: set_map split: if_splits)
  moreover have "set (dkeys (gr_nodes run)) = set (t_ids t)"
  proof -
    have "k \<in> set (dkeys (gr_nodes run)) \<longleftrightarrow> k \<in> set (t_ids t)" for k
      using dget_None_iff [of "gr_nodes run" k] by (auto simp: g simp del: set_map split: if_splits)
    then show ?thesis by blast
  qed
  ultimately show ?thesis using w assms(3) by (simp add: run_ok_def run_keyed_def del: set_map)
qed


lemma get_registered: "dget (en_templates e) tid = Some t \<Longrightarrow> get_template tid e = Some (Inr t, e)"
  by (simp add: get_template_def)

lemma load_by_id_eq:
  assumes "template_id_for (en_store e) rid = Some tid" and "dget (en_templates e) tid = Some t"
    and "load_run now rid t (en_store e) = Inr (Some run)"
  shows "load_by_id now rid e = Some (Inr run, e)"
  using assms by (simp add: load_by_id_def ebind_def peek_template_id_def get_registered)

lemma schedule_returns:
  assumes "validate t kt = []" and "startable t run" and "\<And>k. \<exists>j \<ge> k. all_done (env j)"
  shows "\<exists>fuel j r e' st1. schedule env fuel now t run e = Some (r, e') \<and>
     reach (cfg_of e) t (sched_start now run (en_store e)) st1 \<and>
     (case r of
        Inr run' \<Rightarrow> (\<exists>st. tick (cfg_of e) t (env j) st1 = Return st \<and> run' = sd_run st \<and> e' = e\<lparr>en_store := sd_store st\<rparr>)
      | Inl x \<Rightarrow> (\<exists>y st. tick (cfg_of e) t (env j) st1 = Raise y st \<and> x = RunError y \<and> e' = e\<lparr>en_store := sd_store st\<rparr>))"
proof -
  obtain fuel r where l: "sched_loop (cfg_of e) t env fuel 0 (sched_start now run (en_store e)) = Some r"
    using sched_lp.loop_stops [OF assms(3) sched_inv_start [OF assms(1,2)]] unfolding sched_loop_eq by blast
  then obtain st1 j where st1: "reach (cfg_of e) t (sched_start now run (en_store e)) st1"
    "tick (cfg_of e) t (env j) st1 = r" "\<forall>st. r \<noteq> Continue st"
    using loop_seen [OF l reach_start] by blast
  show ?thesis
  proof (cases r)
    case (Return st)
    with l st1 show ?thesis
      by (intro exI [of _ fuel] exI [of _ j] exI [of _ "Inr (sd_run st)"]) (auto simp: schedule_def)
  next
    case (Raise y st)
    with l st1 show ?thesis
      by (intro exI [of _ fuel] exI [of _ j] exI [of _ "Inl (RunError y)"]) (auto simp: schedule_def)
  qed (use st1(3) in blast)
qed





section \<open>Retrying\<close>

definition retried :: "time \<Rightarrow> node_run \<Rightarrow> node_run" where
  "retried now n = n\<lparr>nr_state := PENDING, nr_attempt := 0, nr_repair_attempts := 0, nr_params := [],
     nr_params_resolved := False, nr_error := None, nr_updated_at := now\<rparr>"

lemma retry_nodes_spec:
  assumes "run_keyed run" and "distinct ks" and "wf_store (en_store e)"
    and "\<And>k. k \<in> set ks \<Longrightarrow> \<exists>n. dget (gr_nodes run) k = Some n \<and> nr_state n \<in> {FAILED, BLOCKED, CANCELLED}"
  shows "\<exists>run' st. retry_nodes now ks run e = Some (Inr run', e\<lparr>en_store := st\<rparr>) \<and> wf_store st \<and>
     gr_run_id run' = gr_run_id run \<and> gr_template_id run' = gr_template_id run \<and> gr_inputs run' = gr_inputs run \<and>
     (\<forall>r. get_run_row st r = get_run_row (en_store e) r) \<and>
     (\<forall>x k. stored_node x st (gr_run_id run) k =
        (if k \<in> set ks then Inr (persisted x (retried now (the (dget (gr_nodes run) k))))
         else stored_node x (en_store e) (gr_run_id run) k))"
  using assms
proof (induction ks arbitrary: run e)
  case Nil
  then show ?case by (intro exI [of _ run] exI [of _ "en_store e"]) simp
next
  case (Cons k ks)
  obtain n where n: "dget (gr_nodes run) k = Some n" "nr_state n \<in> {FAILED, BLOCKED, CANCELLED}"
    using Cons.prems(4) by auto
  then have nid: "nr_node_id n = k" using Cons.prems(1) by (simp add: run_keyed_def)
  let ?n = "n\<lparr>nr_state := PENDING, nr_updated_at := now\<rparr>"
  let ?m = "(reset_for_retry ?n)\<lparr>nr_updated_at := now\<rparr>"
  let ?st = "put_node_row (gr_run_id run, k) (row_of_node ?m) (en_store e)"
  let ?e = "e\<lparr>en_store := ?st\<rparr>" and ?run = "set_node ?m run"
  have mid: "nr_node_id ?m = k" using nid by (simp add: reset_for_retry_def)
  have step: "retry_nodes now (k # ks) run e = retry_nodes now ks ?run ?e"
    using n nid by (auto simp: ebind_def node_at_def transition_def can_transition_def save_node_run_def Let_def
        reset_for_retry_def)
  have other: "dget (gr_nodes ?run) j = (if j = k then Some ?m else dget (gr_nodes run) j)" for j
    using mid by (simp add: set_node_def pydict)
  have "run_keyed ?run" using Cons.prems(1) by (rule run_keyed_set_node)
  moreover have "\<exists>n. dget (gr_nodes ?run) j = Some n \<and> nr_state n \<in> {FAILED, BLOCKED, CANCELLED}" if "j \<in> set ks" for j
    using that Cons.prems(2) Cons.prems(4) [of j] unfolding other [of j] by auto
  ultimately obtain run' st where IH: "retry_nodes now ks ?run ?e = Some (Inr run', ?e\<lparr>en_store := st\<rparr>)"
    "wf_store st" "gr_run_id run' = gr_run_id run" "gr_template_id run' = gr_template_id run" "gr_inputs run' = gr_inputs run"
    "\<forall>r. get_run_row st r = get_run_row (en_store e) r"
    and nodes: "\<And>x j. stored_node x st (gr_run_id run) j =
        (if j \<in> set ks then Inr (persisted x (retried now (the (dget (gr_nodes ?run) j))))
         else stored_node x ?st (gr_run_id run) j)"
    using Cons.IH [of ?run ?e] Cons.prems(2,3) by (auto simp: set_node_def)
  have "persisted x ?m = persisted x (retried now n)" for x
    by (simp add: retried_def reset_for_retry_def persisted_def)
  then have "stored_node x st (gr_run_id run) j =
      (if j \<in> set (k # ks) then Inr (persisted x (retried now (the (dget (gr_nodes run) j))))
       else stored_node x (en_store e) (gr_run_id run) j)" for x j
    using Cons.prems(2) n(1) stored_node_put [of x "gr_run_id run" ?m "en_store e" "gr_run_id run" j]
    unfolding nodes [of x j] other [of j] by (auto simp: mid)
  with step IH show ?case by auto
qed

lemma stored_node_persisted: "stored_node now st rid k = Inr n \<Longrightarrow> persisted now n = n"
  by (auto simp: stored_node_def node_of_row_def new_node_run_def persisted_def split: option.splits)

lemma default_targets_spec:
  assumes "run_keyed run"
  shows "distinct (default_targets run)"
    and "k \<in> set (default_targets run) \<longleftrightarrow> (\<exists>n. dget (gr_nodes run) k = Some n \<and> nr_state n \<in> {FAILED, BLOCKED})"
proof -
  have "distinct (map nr_node_id (dvals (gr_nodes run)))"
    unfolding run_keyed_ids [OF assms] using assms by (simp add: run_keyed_def wf_dict_def dkeys_def)
  then show "distinct (default_targets run)"
    unfolding default_targets_def by (rule distinct_map_filter)
  have w: "wf_dict (gr_nodes run)" using assms by (simp add: run_keyed_def)
  show "k \<in> set (default_targets run) \<longleftrightarrow> (\<exists>n. dget (gr_nodes run) k = Some n \<and> nr_state n \<in> {FAILED, BLOCKED})"
    using assms dvals_in [OF w] unfolding default_targets_def run_keyed_def by fastforce
qed

section \<open>Properties\<close>

text \<open>
  Every template in the registry validates against the registered tools and is
  registered under its own id; no operation of the engine, returning or raising, breaks this.
\<close>

theorem registry_valid:
  "keeps reg_ok (register_tool name) \<and> keeps reg_ok (register_template t) \<and> keeps reg_ok (get_template tid) \<and>
   keeps reg_ok list_templates \<and> keeps reg_ok (create now rid tid ins) \<and> keeps reg_ok (start env fuel now rid) \<and>
   keeps reg_ok (run_template env fuel now rid tid ins) \<and> keeps reg_ok (resume env fuel now rid) \<and>
   keeps reg_ok (retry env fuel now rid ks) \<and> keeps reg_ok (status now rid)"
  by (intro conjI reg_ok_register_tool reg_ok_register_template get_template_keeps list_templates_keeps
      create_keeps start_keeps run_template_keeps resume_keeps retry_keeps status_keeps)


text \<open>
  Resuming ends: whatever in-flight nodes the store holds for a run, \<open>resume\<close> returns
  when the tools keep finishing.
\<close>

theorem resume_returns:
  assumes reg: "reg_ok e" and tid: "template_id_for (en_store e) rid = Some tid"
    and get: "get_template tid e = Some (Inr t, e1)" and "wf_store (en_store e)"
    and l: "load_run now rid t (en_store e) = Inr (Some run)"
    and "\<And>x. dmem x (t_inputs t) \<Longrightarrow> dmem x (gr_inputs run)"
    and "\<And>k. \<exists>j \<ge> k. all_done (env j)"
  shows "\<exists>fuel r e'. resume env fuel now rid e = Some (r, e')"
proof -
  have e1: "en_store e1 = en_store e" "validate t (Some (en_tools e1)) = []"
    using get_template_spec [OF get reg] by auto
  have ok: "run_ok t run" by (rule load_run_ok [OF assms(4) l]) (rule assms(6))
  have pk: "peek_template_id rid e = Some (Inr tid, e)" using tid by (simp add: peek_template_id_def)
  show ?thesis
  proof (cases "gr_state run \<in> TERMINAL_RUN_STATES")
    case True
    then have "resume_run now rid t (en_store e) = Inr (Some run, en_store e)"
      using l by (simp add: resume_run_def)
    with True pk get e1 show ?thesis by (simp add: resume_def ebind_def)
  next
    case False
    then obtain run' st' where r: "resume_run now rid t (en_store e) = Inr (Some run', st')"
      using resume_run_Inr [OF l] by (auto simp: Let_def)
    have "gr_state run' = R_VALIDATED"
      using r resume_run_Inr [OF l False] by (auto simp: Let_def touch_def)
    then have "resume env fuel now rid e = schedule env fuel now t run' (e1\<lparr>en_store := st'\<rparr>)" for fuel
      using r pk get e1 by (simp add: resume_def ebind_def TERMINAL_RUN_STATES_def)
    with schedule_returns [OF e1(2) startable_resume [OF l ok False r] assms(7)] show ?thesis by metis
  qed
qed

text \<open>
  A finished run is left alone: \<open>start\<close> returns it as it is stored, for every fuel and
  without a scheduler tick, and the engine is unchanged.
\<close>

theorem start_finished:
  assumes "template_id_for (en_store e) rid = Some tid" and "dget (en_templates e) tid = Some t"
    and "load_run now rid t (en_store e) = Inr (Some run)" and "gr_state run \<in> TERMINAL_RUN_STATES"
  shows "start env fuel now rid e = Some (Inr run, e)"
  using load_by_id_eq [OF assms(1-3)] assms(4) by (simp add: start_def ebind_def)

text \<open>
  C12. \<open>retry\<close> without node ids restarts exactly the failed part: every failed or blocked node
  comes back from the store as Pending, with no attempt and no repair attempt counted, no error
  and no parameters bound, and otherwise as it was; every other node comes back as it was. The
  run is Validated and can be started again, and \<open>retry\<close> goes on as \<open>start\<close>.
\<close>

theorem retry_restarts:
  assumes tid: "template_id_for (en_store e) rid = Some tid" and t: "dget (en_templates e) tid = Some t"
    and wf: "wf_store (en_store e)" and l: "load_run now rid t (en_store e) = Inr (Some run)"
    and ins: "\<And>x. dmem x (t_inputs t) \<Longrightarrow> dmem x (gr_inputs run)"
    and idle: "\<And>k n. dget (gr_nodes run) k = Some n \<Longrightarrow> nr_state n \<notin> {RUNNING, READY, REPAIRING}"
  shows "\<exists>e1 run1. (\<forall>env fuel. retry env fuel now rid None e = start env fuel now rid e1) \<and>
     load_run now rid t (en_store e1) = Inr (Some run1) \<and> startable t run1 \<and> gr_state run1 = R_VALIDATED \<and>
     (\<forall>k n. dget (gr_nodes run) k = Some n \<longrightarrow> dget (gr_nodes run1) k =
        Some (if nr_state n \<in> {FAILED, BLOCKED}
              then n\<lparr>nr_state := PENDING, nr_attempt := 0, nr_repair_attempts := 0, nr_params := [],
                nr_params_resolved := False, nr_error := None, nr_updated_at := now\<rparr>
              else n))"
proof -
  have ok: "run_ok t run" by (rule load_run_ok [OF wf l ins])
  obtain row where row: "get_run_row (en_store e) rid = Some row" "gr_run_id run = rid" "gr_template_id run = rr_template_id row"
    and g: "\<And>k. dget (gr_nodes run) k = (if k \<in> set (t_ids t) then Some (projr (stored_node now (en_store e) rid k)) else None)"
    and sn: "\<And>k. k \<in> set (t_ids t) \<Longrightarrow> \<exists>n. stored_node now (en_store e) rid k = Inr n \<and> nr_node_id n = k"
    using load_run_inv [OF wf l] by metis
  let ?ks = "default_targets run"
  have keyed: "run_keyed run" using ok by (simp add: run_ok_def)
  note targets = default_targets_spec [OF keyed]
  have "\<exists>n. dget (gr_nodes run) k = Some n \<and> nr_state n \<in> {FAILED, BLOCKED, CANCELLED}" if "k \<in> set ?ks" for k
    using that targets(2) by auto
  from retry_nodes_spec [where now = now, OF keyed targets(1) wf this, unfolded row(2,3)]
  obtain run' st where r: "retry_nodes now ?ks run e = Some (Inr run', e\<lparr>en_store := st\<rparr>)" "wf_store st"
    "gr_run_id run' = rid" "gr_template_id run' = rr_template_id row" "gr_inputs run' = gr_inputs run"
    and nodes: "\<And>x k. stored_node x st rid k =
        (if k \<in> set ?ks then Inr (persisted x (retried now (the (dget (gr_nodes run) k)))) else stored_node x (en_store e) rid k)"
    by blast
  let ?run = "touch now (run'\<lparr>gr_state := R_VALIDATED\<rparr>)"
  let ?st = "put_run_row rid (row_of_run ?run) st"
  let ?e1 = "e\<lparr>en_store := ?st\<rparr>"
  have eq: "retry env fuel now rid None e = start env fuel now rid ?e1" for env fuel
    using load_by_id_eq [OF tid t l] r by (simp add: retry_def ebind_def save_run_def Let_def touch_def)
  let ?g = "\<lambda>k. if k \<in> set ?ks then persisted now (retried now (the (dget (gr_nodes run) k)))
    else projr (stored_node now (en_store e) rid k)"
  have st1: "stored_node now ?st rid k = Inr (?g k)" if "k \<in> set (t_ids t)" for k
    using sn [OF that] by (auto simp: nodes)
  have row1: "get_run_row ?st rid = Some (row_of_run ?run)" by (simp add: run_tbl.get_put)
  have "parse_run_state (rr_status (row_of_run ?run)) = Some R_VALIDATED"
    by (simp add: row_of_run_def touch_def del: run_state_value.simps)
  from load_run_spec [where t = t, OF _ row1 this st1] r
  obtain run1 where run1: "load_run now rid t ?st = Inr (Some run1)" "gr_state run1 = R_VALIDATED" "gr_inputs run1 = gr_inputs run"
    and g1: "\<And>k. dget (gr_nodes run1) k = (if k \<in> set (t_ids t) then Some (?g k) else None)"
    by (auto simp: row_of_run_def touch_def simp del: set_map)
  have all: "dget (gr_nodes run1) k = Some (if nr_state n \<in> {FAILED, BLOCKED} then retried now n else n)"
    if n: "dget (gr_nodes run) k = Some n" for k n
  proof -
    have k: "k \<in> set (t_ids t)" using n by (simp add: g del: set_map split: if_splits)
    have "persisted now n = n" if "k \<notin> set ?ks"
      using n k sn [OF k] stored_node_persisted [of now "en_store e" rid k n] by (auto simp: g simp del: set_map)
    moreover have "persisted now (retried now n) = retried now n" by (simp add: retried_def persisted_def)
    moreover have "k \<in> set ?ks \<longleftrightarrow> nr_state n \<in> {FAILED, BLOCKED}" using targets(2) n by auto
    ultimately show ?thesis using n k by (auto simp: g1 g simp del: set_map)
  qed
  have "run_ok t run1"
    by (rule load_run_ok [OF _ run1(1)]) (use r ins run1 in simp_all)
  moreover have "nr_state n1 \<in> insert PENDING TERMINAL_NODE_STATES" if "dget (gr_nodes run1) k = Some n1" for k n1
  proof -
    have "k \<in> set (t_ids t)" using that by (simp add: g1 del: set_map split: if_splits)
    then obtain n where n: "dget (gr_nodes run) k = Some n" by (simp add: g del: set_map)
    with all that have "n1 = (if nr_state n \<in> {FAILED, BLOCKED} then retried now n else n)" by simp
    with idle [OF n] show ?thesis
      by (cases "nr_state n") (auto simp: retried_def TERMINAL_NODE_STATES_def)
  qed
  ultimately have "startable t run1" by (simp add: startable_def)
  with eq run1 all show ?thesis by (intro exI [of _ ?e1] exI [of _ run1]) (simp add: retried_def)
qed

end
