(* ===== verification/Sched_Examples.thy ===== *)
theory Sched_Examples
  imports Sched_Durable
begin

text \<open>
  Runs of the scheduler on the three-step band structure template: the ticks with tools that
  succeed, that never answer, that are not registered, and a cancellation. They instantiate
  the theorems of \<open>Sched_Props\<close> and \<open>Sched_Durable\<close>, and the last one shows what happens
  to blocked nodes in the store.
\<close>

definition demo_cfg :: sched_cfg where
  "demo_cfg = \<lparr>sc_tools = [''qe''], sc_repairers = [], sc_max_concurrency = 2, sc_base_dir = ''/work''\<rparr>"

definition no_tools :: sched_cfg where
  "no_tools = demo_cfg\<lparr>sc_tools := []\<rparr>"

definition good_tick :: tick_in where
  "good_tick = \<lparr>ti_now = 5, ti_cancel = False, ti_done = (\<lambda>_. Some (ToolOk [(''stdout_file'', PStr ''pw.out'')]))\<rparr>"

definition wait_tick :: tick_in where
  "wait_tick = \<lparr>ti_now = 6, ti_cancel = False, ti_done = (\<lambda>_. None)\<rparr>"

definition cancel_tick :: tick_in where
  "cancel_tick = \<lparr>ti_now = 7, ti_cancel = True, ti_done = (\<lambda>_. None)\<rparr>"

definition demo_start :: sched where
  "demo_start = sched_start 4 demo_run empty_store"

definition demo_busy :: sched where
  "demo_busy = tick_out (tick demo_cfg bands_template wait_tick demo_start)"

definition demo_step :: sched where
  "demo_step = tick_out (tick demo_cfg bands_template good_tick demo_start)"

definition demo_paused :: sched where
  "demo_paused = tick_out (tick demo_cfg bands_template cancel_tick demo_busy)"

lemma demo_created: "create_run 1 ''run_1'' bands_template [] = Inr demo_run"
  by (simp add: demo_run_def create_run_def)

lemmas demo_startable = startable_create [OF demo_created]

lemma demo_ticks:
  "all_done good_tick" "\<not> ti_cancel good_tick" "\<not> ti_cancel wait_tick" "ti_cancel cancel_tick"
  by (simp_all add: all_done_def good_tick_def wait_tick_def cancel_tick_def)

lemma demo_busy_reach: "reach demo_cfg bands_template demo_start demo_busy"
proof -
  have "case tick demo_cfg bands_template wait_tick demo_start of Continue st \<Rightarrow> True | _ \<Rightarrow> False"
    by code_simp
  then have "tick demo_cfg bands_template wait_tick demo_start = Continue demo_busy"
    by (auto simp: demo_busy_def split: tick_result.splits)
  with reach_start show ?thesis by (rule reach_tick)
qed

lemma demo_step_reach: "reach demo_cfg bands_template demo_start demo_step"
proof -
  have "case tick demo_cfg bands_template good_tick demo_start of Continue st \<Rightarrow> True | _ \<Rightarrow> False"
    by code_simp
  then have "tick demo_cfg bands_template good_tick demo_start = Continue demo_step"
    by (auto simp: demo_step_def split: tick_result.splits)
  with reach_start show ?thesis by (rule reach_tick)
qed

lemma demo_loop:
  "case sched_loop demo_cfg bands_template (\<lambda>_. good_tick) 9 0 demo_start of
     Some (Return st) \<Rightarrow> gr_state (sd_run st) = R_SUCCEEDED | _ \<Rightarrow> False"
  by code_simp

theorem scheduler_returns_witness:
  "\<exists>fuel r. sched_loop demo_cfg bands_template (\<lambda>_. good_tick) fuel 0 demo_start = Some r"
  unfolding demo_start_def
  by (rule scheduler_returns [OF bands_template_valid demo_startable]) (use demo_ticks in blast)

theorem created_run_tick_bound_witness:
  "\<exists>r. sched_loop demo_cfg bands_template (\<lambda>_. good_tick) 40 0 demo_start = Some r"
  unfolding demo_start_def
  by (rule created_run_tick_bound [OF bands_template_valid demo_created]) (simp add: demo_ticks, code_simp)

theorem scheduler_outcome_witness:
  "\<exists>st. sched_loop demo_cfg bands_template (\<lambda>_. good_tick) 9 0 demo_start = Some (Return st) \<and>
     gr_state (sd_run st) = R_SUCCEEDED \<and> R_SUCCEEDED = determine_run_status (node_states (sd_run st))"
proof -
  obtain st where st: "sched_loop demo_cfg bands_template (\<lambda>_. good_tick) 9 0 demo_start = Some (Return st)"
    "gr_state (sd_run st) = R_SUCCEEDED"
    using demo_loop by (auto split: option.splits tick_result.splits)
  from scheduler_outcome [OF bands_template_valid demo_created demo_ticks(2) st(1) [unfolded demo_start_def]] st
  show ?thesis by simp
qed

theorem concurrency_cap_witness:
  "int (length (sd_futures demo_busy)) \<le> 2 \<and> sd_futures demo_busy = [''scf''] \<and>
     sd_futures demo_paused = [''scf''] \<and>
     map_option nr_state (dget (gr_nodes (sd_run demo_paused)) ''scf'') = Some CANCELLED"
proof -
  note c = concurrency_cap [OF bands_template_valid demo_startable demo_busy_reach [unfolded demo_start_def],
      of cancel_tick, unfolded Let_def if_P [OF demo_ticks(4)], folded demo_paused_def]
  have b: "sd_futures demo_busy = [''scf'']" by code_simp
  from c have "sd_futures demo_paused = sd_futures demo_busy"
    "set (sd_futures demo_paused) \<subseteq> {k. map_option nr_state (dget (gr_nodes (sd_run demo_paused)) k) = Some CANCELLED}"
    by blast+
  with b c show ?thesis by (simp add: demo_cfg_def)
qed

theorem dependencies_first_witness:
  "\<exists>n. dget (gr_nodes (sd_run demo_busy)) ''scf'' = Some n \<and> nr_attempt n = 1 \<and> 1 \<le> ns_max_attempts (hd (t_nodes bands_template))"
proof -
  have "case dget (gr_nodes (sd_run demo_busy)) ''scf'' of Some n \<Rightarrow> nr_attempt n = 1 \<and> nr_repair_attempts n = 0 | None \<Rightarrow> False"
    by code_simp
  then obtain n where n: "dget (gr_nodes (sd_run demo_busy)) ''scf'' = Some n" "nr_attempt n = 1" "nr_repair_attempts n = 0"
    by (auto split: option.splits)
  have "template_node bands_template ''scf'' = Some (hd (t_nodes bands_template))" by code_simp
  from dependencies_first [OF bands_template_valid demo_created
      visited_top [OF demo_busy_reach [unfolded demo_start_def]] n(1) this] n
  show ?thesis by simp
qed

theorem terminal_nodes_stay_witness:
  "\<exists>n'. dget (gr_nodes (sd_run (tick_out (tick demo_cfg bands_template cancel_tick demo_step)))) ''scf'' = Some n' \<and>
     nr_state n' = SUCCEEDED"
proof -
  have "case dget (gr_nodes (sd_run demo_step)) ''scf'' of Some n \<Rightarrow> nr_state n = SUCCEEDED | None \<Rightarrow> False"
    by code_simp
  then obtain n where n: "dget (gr_nodes (sd_run demo_step)) ''scf'' = Some n" "nr_state n = SUCCEEDED"
    by (auto split: option.splits)
  have "visited demo_cfg bands_template demo_step (tick_out (tick demo_cfg bands_template cancel_tick demo_step))"
    by (rule visited_out [OF reach_start])
  from terminal_nodes_stay [OF bands_template_valid demo_startable demo_step_reach [unfolded demo_start_def] this n(1)] n(2)
  show ?thesis by (auto simp: TERMINAL_NODE_STATES_def)
qed

theorem crash_durability_witness:
  "\<exists>run'. load_run 9 ''run_1'' bands_template (sd_store demo_step) = Inr (Some run') \<and>
     map_option nr_state (dget (gr_nodes run') ''scf'') = Some SUCCEEDED"
proof -
  have "case dget (gr_nodes (sd_run demo_step)) ''scf'' of Some n \<Rightarrow> nr_state n = SUCCEEDED | None \<Rightarrow> False"
    by code_simp
  moreover have "get_node_row empty_store (''run_1'', k) = None" for k
    by (simp add: get_node_row_def empty_store_def)
  ultimately show ?thesis
    using crash_durability [OF bands_template_valid demo_created wf_empty_store _
        visited_top [OF demo_step_reach [unfolded demo_start_def]], of 9]
    by (fastforce simp: persisted_def split: option.splits)
qed

theorem cancel_pauses_witness:
  "gr_state (sd_run demo_paused) = R_PAUSED \<and>
     map_option nr_state (dget (gr_nodes (sd_run demo_paused)) ''scf'') = Some CANCELLED"
proof -
  have "map_option nr_state (dget (gr_nodes (sd_run demo_busy)) ''scf'') = Some RUNNING" by code_simp
  moreover obtain st where "tick demo_cfg bands_template cancel_tick demo_busy = Return st"
    "gr_state (sd_run st) = R_PAUSED"
    "dget (gr_nodes (sd_run st)) ''scf'' = map_option (\<lambda>n. if nr_state n = RUNNING
       then n\<lparr>nr_state := CANCELLED, nr_updated_at := ti_now cancel_tick\<rparr> else n) (dget (gr_nodes (sd_run demo_busy)) ''scf'')"
    using cancel_pauses [OF bands_template_valid demo_startable demo_busy_reach [unfolded demo_start_def] demo_ticks(4)]
    by blast
  ultimately show ?thesis by (auto simp: demo_paused_def)
qed

theorem cancelled_not_resumed_witness:
  "\<exists>run store st. resume_run 8 ''run_1'' bands_template (sd_store demo_paused) = Inr (Some run, store) \<and>
     sched_loop demo_cfg bands_template (\<lambda>_. good_tick) 3 0 (sched_start 8 run store) = Some (Return st) \<and>
     gr_state (sd_run st) \<noteq> R_SUCCEEDED"
proof -
  let ?run = "the (projr (load_run 8 ''run_1'' bands_template (sd_store demo_paused)))"
  let ?res = "projr (resume_run 8 ''run_1'' bands_template (sd_store demo_paused))"
  let ?run' = "the (fst ?res)" and ?store' = "snd ?res"
  have l: "case load_run 8 ''run_1'' bands_template (sd_store demo_paused) of Inr (Some run) \<Rightarrow> True | _ \<Rightarrow> False"
    by code_simp
  have load: "load_run 8 ''run_1'' bands_template (sd_store demo_paused) = Inr (Some ?run)"
    using l by (auto split: sum.splits option.splits)
  have n: "\<exists>n. dget (gr_nodes ?run) ''scf'' = Some n \<and> nr_state n = CANCELLED"
  proof -
    have "case dget (gr_nodes ?run) ''scf'' of Some n \<Rightarrow> nr_state n = CANCELLED | None \<Rightarrow> False" by code_simp
    then show ?thesis by (auto split: option.splits)
  qed
  have paused: "gr_state ?run = R_PAUSED" by code_simp
  have ok: "run_ok bands_template ?run" by (rule run_okI; code_simp)
  have r: "case resume_run 8 ''run_1'' bands_template (sd_store demo_paused) of Inr (Some run, s) \<Rightarrow> True | _ \<Rightarrow> False"
    by code_simp
  have res: "resume_run 8 ''run_1'' bands_template (sd_store demo_paused) = Inr (Some ?run', ?store')"
    using r by (auto split: sum.splits option.splits)
  have "case sched_loop demo_cfg bands_template (\<lambda>_. good_tick) 3 0 (sched_start 8 ?run' ?store') of
      Some (Return st) \<Rightarrow> True | _ \<Rightarrow> False" by code_simp
  then obtain st where st: "sched_loop demo_cfg bands_template (\<lambda>_. good_tick) 3 0 (sched_start 8 ?run' ?store') = Some (Return st)"
    by (auto split: option.splits tick_result.splits)
  from n cancelled_not_resumed [OF bands_template_valid ok load paused _ _ res demo_ticks(2) st] res st
  show ?thesis by blast
qed

definition running_scf :: node_run where
  "running_scf = (new_node_run 1 ''scf'')\<lparr>nr_state := RUNNING, nr_attempt := 1\<rparr>"

theorem handle_failure_policy_witness:
  "\<exists>n'. handle_failure demo_cfg 9 (hd (t_nodes bands_template)) (crash_error ''boom'') running_scf demo_busy =
       Inr (n', demo_busy) \<and> nr_error n' = Some ''[unknown] boom''"
proof -
  have "nr_state running_scf = RUNNING" by (simp add: running_scf_def)
  from handle_failure_policy [OF this, of demo_cfg 9 "hd (t_nodes bands_template)" "crash_error ''boom''" demo_busy]
  show ?thesis by (auto simp: crash_error_def)
qed

theorem orphan_never_returns_witness:
  "sched_loop demo_cfg bands_template (\<lambda>_. good_tick) 50 0 (sched_start 8 (sd_run demo_busy) (sd_store demo_busy))
     \<noteq> Some (Return demo_busy)"
proof -
  have ok: "run_ok bands_template (sd_run demo_busy)"
    by (rule run_okI; code_simp)
  have "case dget (gr_nodes (sd_run demo_busy)) ''scf'' of Some n \<Rightarrow> nr_state n = RUNNING | None \<Rightarrow> False"
    by code_simp
  then obtain n where "dget (gr_nodes (sd_run demo_busy)) ''scf'' = Some n" "nr_state n = RUNNING"
    by (auto split: option.splits)
  from orphan_never_returns [OF bands_template_valid ok this demo_ticks(2)] show ?thesis .
qed

text \<open>
  A node that the scheduler blocks is blocked in the returned run only. Here the first
  node fails (its tool is not registered), the scheduler returns a finished, failed run with
  both later nodes blocked, and the store then loads these nodes as pending.
\<close>

theorem blocked_nodes_not_stored:
  "case sched_loop no_tools bands_template (\<lambda>_. good_tick) 9 0 demo_start of
     Some (Return st) \<Rightarrow>
       gr_state (sd_run st) = R_FAILED \<and> node_states (sd_run st) = [FAILED, BLOCKED, BLOCKED] \<and>
       (case load_run 9 ''run_1'' bands_template (sd_store st) of
          Inr (Some run) \<Rightarrow> gr_state run = R_FAILED \<and> node_states run = [FAILED, PENDING, PENDING]
        | _ \<Rightarrow> False)
   | _ \<Rightarrow> False"
  by code_simp

end
