(* ===== verification/Engine_Examples.thy ===== *)
theory Engine_Examples
  imports Engine_Props Sched_Examples
begin

text \<open>
  Instances of the theorems of \<open>Engine_Props\<close>: an engine with one tool and the band
  structure template, with an empty store, with an interrupted run and with a failed run.
\<close>

definition demo_engine :: engine where
  "demo_engine = \<lparr>en_tools = [''qe''], en_repairers = [], en_templates = [(''t2'', bands_template)], en_dir = None,
     en_max_concurrency = 2, en_base_dir = ''/work'', en_store = empty_store\<rparr>"

text \<open>The store after a crash while the first node runs, and after the first node failed.\<close>

definition crashed_engine :: engine where
  "crashed_engine = demo_engine\<lparr>en_store := sd_store demo_busy\<rparr>"

definition failed_sched :: sched where
  "failed_sched = tick_out (the (sched_loop no_tools bands_template (\<lambda>_. good_tick) 9 0 demo_start))"

definition failed_engine :: engine where
  "failed_engine = demo_engine\<lparr>en_store := sd_store failed_sched\<rparr>"

lemma demo_engine_templates [simp]:
  "dget (en_templates demo_engine) k = (if k = ''t2'' then Some bands_template else None)"
  "en_templates crashed_engine = en_templates demo_engine" "en_templates failed_engine = en_templates demo_engine"
  by (simp_all add: demo_engine_def crashed_engine_def failed_engine_def dget_def)

lemma demo_reg_ok: "reg_ok (demo_engine\<lparr>en_store := st\<rparr>)"
  using bands_template_valid by (auto simp: reg_ok_def demo_engine_def dget_def bands_template_def)


theorem resume_returns_witness:
  "\<exists>fuel r e'. resume (\<lambda>_. good_tick) fuel 9 ''run_1'' crashed_engine = Some (r, e')"
proof -
  have l: "case load_run 9 ''run_1'' bands_template (en_store crashed_engine) of
      Inr (Some run) \<Rightarrow> dkeys (gr_inputs run) = dkeys (t_inputs bands_template) | _ \<Rightarrow> False"
    by code_simp
  then obtain run where run: "load_run 9 ''run_1'' bands_template (en_store crashed_engine) = Inr (Some run)"
    "dkeys (gr_inputs run) = dkeys (t_inputs bands_template)"
    by (auto split: sum.splits option.splits)
  show ?thesis
  proof (rule resume_returns [OF _ _ get_registered _ run(1)])
    show "reg_ok crashed_engine" using demo_reg_ok by (simp add: crashed_engine_def)
    show "template_id_for (en_store crashed_engine) ''run_1'' = Some ''t2''" by code_simp
    show "wf_store (en_store crashed_engine)" unfolding wf_store_def by code_simp
  qed (use run(2) in \<open>auto simp: dmem_iff demo_ticks(1)\<close>)
qed

lemma failed_load:
  "case load_run 9 ''run_1'' bands_template (en_store failed_engine) of
     Inr (Some run) \<Rightarrow> gr_state run = R_FAILED \<and> dkeys (gr_inputs run) = dkeys (t_inputs bands_template) \<and>
       list_all (\<lambda>s. s \<notin> {RUNNING, READY, REPAIRING}) (node_states run)
   | _ \<Rightarrow> False"
  by code_simp

lemma failed_store: "template_id_for (en_store failed_engine) ''run_1'' = Some ''t2''" "wf_store (en_store failed_engine)"
  unfolding wf_store_def by code_simp+

theorem start_finished_witness:
  "\<exists>run. start (\<lambda>_. wait_tick) 0 9 ''run_1'' failed_engine = Some (Inr run, failed_engine) \<and> gr_state run = R_FAILED"
proof -
  obtain run where run: "load_run 9 ''run_1'' bands_template (en_store failed_engine) = Inr (Some run)"
    "gr_state run = R_FAILED"
    using failed_load by (auto split: sum.splits option.splits)
  from start_finished [OF failed_store(1) _ run(1), of "\<lambda>_. wait_tick" 0] run(2) show ?thesis
    by (simp add: TERMINAL_RUN_STATES_def)
qed

theorem retry_restarts_witness:
  "\<exists>e1 run1. retry (\<lambda>_. good_tick) 40 9 ''run_1'' None failed_engine = start (\<lambda>_. good_tick) 40 9 ''run_1'' e1 \<and>
     load_run 9 ''run_1'' bands_template (en_store e1) = Inr (Some run1) \<and> startable bands_template run1"
proof -
  obtain run where run: "load_run 9 ''run_1'' bands_template (en_store failed_engine) = Inr (Some run)"
    "dkeys (gr_inputs run) = dkeys (t_inputs bands_template)"
    and idle: "list_all (\<lambda>s. s \<notin> {RUNNING, READY, REPAIRING}) (node_states run)"
    using failed_load by (auto split: sum.splits option.splits)
  obtain row where w: "wf_dict (gr_nodes run)"
    using load_run_inv [OF failed_store(2) run(1)] by metis
  have "\<exists>e1 run1. (\<forall>env fuel. retry env fuel 9 ''run_1'' None failed_engine = start env fuel 9 ''run_1'' e1) \<and>
     load_run 9 ''run_1'' bands_template (en_store e1) = Inr (Some run1) \<and> startable bands_template run1 \<and>
     gr_state run1 = R_VALIDATED \<and>
     (\<forall>k n. dget (gr_nodes run) k = Some n \<longrightarrow> dget (gr_nodes run1) k =
        Some (if nr_state n \<in> {FAILED, BLOCKED}
              then n\<lparr>nr_state := PENDING, nr_attempt := 0, nr_repair_attempts := 0, nr_params := [],
                nr_params_resolved := False, nr_error := None, nr_updated_at := 9\<rparr>
              else n))"
  proof (rule retry_restarts [OF failed_store(1) _ failed_store(2) run(1)])
    show "nr_state n \<notin> {RUNNING, READY, REPAIRING}" if "dget (gr_nodes run) k = Some n" for k n
      using idle that dvals_in [OF w] by (auto simp: node_states_def list_all_iff)
  qed (use run(2) in \<open>simp_all add: dmem_iff\<close>)
  then show ?thesis by blast
qed

end
