(* ===== verification/Py_Text.thy ===== *)
theory Py_Text
  imports Forge_Prelude
begin

text \<open>
  Python's text operations and number formatting, as far as the modelled modules use them.

  \<^item> \<open>contains\<close>, \<open>lower\<close>, \<open>replace_all\<close>, \<open>split_on\<close>, \<open>words\<close>, \<open>splitlines\<close>, \<open>join\<close> stand for
    \<open>in\<close>, \<open>str.lower\<close>, \<open>str.replace\<close>, \<open>str.split(sep)\<close>, \<open>str.split()\<close>, \<open>str.splitlines\<close>, \<open>str.join\<close>.
  \<^item> \<open>round_he\<close> and \<open>round_dec\<close> are \<open>round(x)\<close> and \<open>round(x, n)\<close> (half to even) on the exact value.
  \<^item> \<open>fmt_f\<close>, \<open>fmt_e\<close>, \<open>float_repr\<close> are the formats \<open>.nf\<close>, \<open>.ne\<close> and \<open>repr\<close> of a float;
    \<open>repr\<close> prints at most 17 significant digits.
\<close>

section \<open>Exceptions\<close>

text \<open>The built-in exceptions the modelled code raises or lets through; a message is the text
  that \<open>str(exc)\<close> shows, where the code depends on it.\<close>

datatype py_exc =
    TypeError
  | ValueError string
  | KeyError string
  | IndexError
  | AttributeError
  | OverflowError
  | FileNotFound string
  | RuntimeError string

definition the_or :: "'e \<Rightarrow> 'a option \<Rightarrow> 'e + 'a" where
  "the_or e x = (case x of None \<Rightarrow> Inl e | Some a \<Rightarrow> Inr a)"

lemma the_or_simps [simp]: "the_or e None = Inl e" "the_or e (Some a) = Inr a"
  by (simp_all add: the_or_def)

lemma the_or_Inr: "the_or e x = Inr a \<longleftrightarrow> x = Some a"
  by (cases x) auto

section \<open>Searching and splitting\<close>

fun contains :: "string \<Rightarrow> string \<Rightarrow> bool" where
  "contains p [] = (p = [])"
| "contains p (c # s) = (strip_prefix p (c # s) \<noteq> None \<or> contains p s)"

lemma contains_iff: "contains p s \<longleftrightarrow> (\<exists>a b. s = a @ p @ b)"
proof (induction s)
  case (Cons c s)
  have "(\<exists>a b. c # s = a @ p @ b) \<longleftrightarrow> (\<exists>b. c # s = p @ b) \<or> (\<exists>a b. s = a @ p @ b)"
    by (metis append_Cons append_Nil list.exhaust list.inject)
  with Cons show ?case by (auto simp: strip_prefix_Some)
qed simp

lemma contains_append [intro]: "contains p (a @ p @ b)"
  by (auto simp: contains_iff)

lemma contains_mono: "contains p s \<Longrightarrow> contains p (a @ s @ b)"
  unfolding contains_iff by (metis append.assoc)

definition starts_with :: "string \<Rightarrow> string \<Rightarrow> bool" where
  "starts_with p s = (strip_prefix p s \<noteq> None)"

definition ends_with :: "string \<Rightarrow> string \<Rightarrow> bool" where
  "ends_with p s = (strip_prefix (rev p) (rev s) \<noteq> None)"

text \<open>\<open>str.lower\<close> on the characters below 256.\<close>

definition lower_char :: "char \<Rightarrow> char" where
  "lower_char c = (let n = of_char c :: int in
     if 65 \<le> n \<and> n \<le> 90 \<or> 192 \<le> n \<and> n \<le> 222 \<and> n \<noteq> 215 then char_of (n + 32) else c)"

definition lower :: "string \<Rightarrow> string" where
  "lower s = map lower_char s"

lemma lower_append [simp]: "lower (a @ b) = lower a @ lower b"
  by (simp add: lower_def)

lemma contains_lower: "contains p s \<Longrightarrow> contains (lower p) (lower s)"
  by (auto simp: contains_iff) blast

text \<open>\<open>s.replace(old, new)\<close> for a non-empty \<open>old\<close>.\<close>

function replace_all :: "string \<Rightarrow> string \<Rightarrow> string \<Rightarrow> string" where
  "replace_all old new s = (case s of [] \<Rightarrow> []
     | c # t \<Rightarrow> (if old = [] then s else
         case strip_prefix old s of
           Some r \<Rightarrow> new @ replace_all old new r
         | None \<Rightarrow> c # replace_all old new t))"
  by pat_completeness auto
termination
  by (relation "measure (\<lambda>(_, _, s). length s)") (auto simp: strip_prefix_Some Suc_le_eq)

declare replace_all.simps [simp del]

text \<open>\<open>s.split(sep)\<close> for a one-character separator, and its inverse \<open>sep.join\<close>.\<close>

fun split_on :: "char \<Rightarrow> string \<Rightarrow> string list" where
  "split_on c [] = [[]]"
| "split_on c (d # s) =
     (if d = c then [] # split_on c s
      else case split_on c s of w # ws \<Rightarrow> (d # w) # ws | [] \<Rightarrow> [[d]])"

fun join :: "string \<Rightarrow> string list \<Rightarrow> string" where
  "join sep [] = []"
| "join sep [w] = w"
| "join sep (w # ws) = w @ sep @ join sep ws"

lemma split_on_ne [simp]: "split_on c s \<noteq> []"
  by (induction s) (auto split: list.splits)

lemma join_split_on: "join [c] (split_on c s) = s"
proof (induction s)
  case (Cons d s)
  obtain w ws where s: "split_on c s = w # ws" using split_on_ne [of c s] by (cases "split_on c s") auto
  then show ?case using Cons by (cases ws) auto
qed simp

text \<open>\<open>s.split()\<close>: the words between runs of white space.\<close>

fun words_acc :: "string \<Rightarrow> string \<Rightarrow> string list" where
  "words_acc w [] = (if w = [] then [] else [rev w])"
| "words_acc w (c # s) =
     (if py_isspace c then (if w = [] then words_acc [] s else rev w # words_acc [] s)
      else words_acc (c # w) s)"

definition words :: "string \<Rightarrow> string list" where
  "words s = words_acc [] s"

text \<open>\<open>s.splitlines()\<close>: line feed, carriage return and the pair of them end a line, as do
  the other control characters that Python takes for line boundaries.\<close>

definition line_end :: "char \<Rightarrow> bool" where
  "line_end c = (let n = of_char c :: int in 10 \<le> n \<and> n \<le> 13 \<or> 28 \<le> n \<and> n \<le> 30 \<or> n = 133)"

fun lines_acc :: "string \<Rightarrow> string \<Rightarrow> string list" where
  "lines_acc w [] = (if w = [] then [] else [rev w])"
| "lines_acc w (c # s) =
     (if line_end c then
        rev w # (case s of d # t \<Rightarrow> if c = CHR 0x0D \<and> d = CHR 0x0A then lines_acc [] t else lines_acc [] s
                        | [] \<Rightarrow> [])
      else lines_acc (c # w) s)"

definition splitlines :: "string \<Rightarrow> string list" where
  "splitlines s = lines_acc [] s"

section \<open>Character classes\<close>

definition is_digit :: "char \<Rightarrow> bool" where
  "is_digit c = (let n = of_char c :: int in 48 \<le> n \<and> n \<le> 57)"

definition is_upper :: "char \<Rightarrow> bool" where
  "is_upper c = (let n = of_char c :: int in 65 \<le> n \<and> n \<le> 90)"

definition is_lower :: "char \<Rightarrow> bool" where
  "is_lower c = (let n = of_char c :: int in 97 \<le> n \<and> n \<le> 122)"

text \<open>The character classes on the bits of a character, for evaluation.\<close>

lemma lower_char_code [code]:
  "lower_char (Char b0 b1 b2 b3 b4 b5 b6 b7) =
    (if b6 \<and> \<not> b5 \<and> (b0 \<or> b1 \<or> b2 \<or> b3 \<or> b4 \<or> b7)
        \<and> (if b7 then \<not> (b0 \<and> b1 \<and> b2 \<and> b4) else \<not> (b4 \<and> b3 \<and> (b2 \<or> b1 \<and> b0)))
     then Char b0 b1 b2 b3 b4 True b6 b7 else Char b0 b1 b2 b3 b4 b5 b6 b7)"
  by (cases b0; cases b1; cases b2; cases b3; cases b4; cases b5; cases b6; cases b7)
    (simp_all add: lower_char_def Let_def char_of_def bit_0 bit_numeral_rec)

lemma is_digit_code [code]:
  "is_digit (Char b0 b1 b2 b3 b4 b5 b6 b7) = (\<not> b7 \<and> \<not> b6 \<and> b5 \<and> b4 \<and> \<not> (b3 \<and> (b1 \<or> b2)))"
  by (cases b0; cases b1; cases b2; cases b3; cases b4; cases b5; cases b6; cases b7)
    (simp_all add: is_digit_def Let_def)

lemma py_isspace_code [code]:
  "py_isspace (Char b0 b1 b2 b3 b4 b5 b6 b7) =
    (\<not> b6 \<and> (if b7 then (if b5 then \<not> (b0 \<or> b1 \<or> b2 \<or> b3 \<or> b4) else b0 \<and> b2 \<and> \<not> b1 \<and> \<not> b3 \<and> \<not> b4)
      else if b5 then \<not> (b0 \<or> b1 \<or> b2 \<or> b3 \<or> b4)
      else if b4 then b3 \<and> b2 else b3 \<and> (b0 \<or> b1 \<or> b2) \<and> \<not> (b2 \<and> b1)))"
  by (cases b0; cases b1; cases b2; cases b3; cases b4; cases b5; cases b6; cases b7)
    (simp_all add: py_isspace_def Let_def)

lemma is_word_char_code [code]:
  "is_word_char (Char b0 b1 b2 b3 b4 b5 b6 b7) =
    (\<not> b7 \<and> (if b6 then (b0 \<or> b1 \<or> b2 \<or> b3 \<or> b4) \<and> (\<not> (b4 \<and> b3 \<and> (b2 \<or> b1 \<and> b0)) \<or> \<not> b5 \<and> b4 \<and> b3 \<and> b2 \<and> b1 \<and> b0)
      else b5 \<and> b4 \<and> \<not> (b3 \<and> (b1 \<or> b2))))"
  by (cases b0; cases b1; cases b2; cases b3; cases b4; cases b5; cases b6; cases b7)
    (simp_all add: is_word_char_def Let_def)

definition digit_val :: "char \<Rightarrow> int" where
  "digit_val c = of_char c - 48"

text \<open>Reading a run of digits.\<close>

definition int_of_digits :: "string \<Rightarrow> int" where
  "int_of_digits ds = foldl (\<lambda>n c. 10 * n + digit_val c) 0 ds"

lemma digit_val_char [simp]: "0 \<le> d \<Longrightarrow> d < 10 \<Longrightarrow> digit_val (digit_char d) = d"
  by (simp add: digit_val_def digit_char_def)

lemma is_digit_char [simp]: "0 \<le> d \<Longrightarrow> d < 10 \<Longrightarrow> is_digit (digit_char d)"
proof -
  assume "0 \<le> d" "d < 10"
  then have "d = 0 \<or> d = 1 \<or> d = 2 \<or> d = 3 \<or> d = 4 \<or> d = 5 \<or> d = 6 \<or> d = 7 \<or> d = 8 \<or> d = 9"
    by arith
  then show ?thesis by (elim disjE; hypsubst; code_simp)
qed

lemma int_of_digits_show [simp]: "0 \<le> n \<Longrightarrow> int_of_digits (show_pos n) = n"
proof (induction n rule: show_pos.induct)
  case (1 n)
  then show ?case
    by (cases "n < 10") (simp_all add: int_of_digits_def show_pos.simps [of n])
qed

lemma show_pos_digits: "0 \<le> n \<Longrightarrow> c \<in> set (show_pos n) \<Longrightarrow> is_digit c"
proof (induction n arbitrary: c rule: show_pos.induct)
  case (1 n)
  then show ?case
    by (cases "n < 10") (auto simp: show_pos.simps [of n])
qed

lemma show_pos_ne [simp]: "show_pos n \<noteq> []"
  by (simp add: show_pos.simps [of n])

lemma show_pos_inject: "0 \<le> m \<Longrightarrow> 0 \<le> n \<Longrightarrow> show_pos m = show_pos n \<longleftrightarrow> m = n"
  by (metis int_of_digits_show)

section \<open>Rounding and formatting\<close>

text \<open>\<open>round(x)\<close>: half to even.\<close>

definition round_he :: "rat \<Rightarrow> int" where
  "round_he x = (let f = \<lfloor>x\<rfloor>; r = x - of_int f in
     if r < 1 / 2 then f else if 1 / 2 < r then f + 1 else if even f then f else f + 1)"

text \<open>\<open>round(x, n)\<close>.\<close>

definition round_dec :: "nat \<Rightarrow> rat \<Rightarrow> rat" where
  "round_dec n x = of_int (round_he (x * 10 ^ n)) / 10 ^ n"

lemma round_he_int [simp]: "round_he (of_int i) = i"
  by (simp add: round_he_def Let_def)

lemma round_he_mono: "x \<le> y \<Longrightarrow> round_he x \<le> round_he y"
proof -
  assume le: "x \<le> y"
  then have f: "\<lfloor>x\<rfloor> \<le> \<lfloor>y\<rfloor>" by (rule floor_mono)
  show ?thesis
  proof (cases "\<lfloor>x\<rfloor> = \<lfloor>y\<rfloor>")
    case True
    with le show ?thesis unfolding round_he_def Let_def by auto
  next
    case False
    with f have "\<lfloor>x\<rfloor> + 1 \<le> \<lfloor>y\<rfloor>" by simp
    then show ?thesis unfolding round_he_def Let_def by auto
  qed
qed

lemma round_he_close: "\<bar>of_int (round_he x) - x\<bar> \<le> 1 / 2"
proof -
  have "of_int \<lfloor>x\<rfloor> \<le> x" "x < of_int \<lfloor>x\<rfloor> + 1" by linarith+
  then show ?thesis unfolding round_he_def Let_def by (auto simp: abs_if simp del: of_int_floor_le)
qed

lemma round_dec_close: "\<bar>round_dec n x - x\<bar> \<le> 1 / (2 * 10 ^ n)"
proof -
  have "\<bar>round_dec n x - x\<bar> * 10 ^ n = \<bar>(round_dec n x - x) * 10 ^ n\<bar>"
    by (simp add: abs_mult)
  also have "\<dots> = \<bar>of_int (round_he (x * 10 ^ n)) - x * 10 ^ n\<bar>"
    by (simp add: round_dec_def left_diff_distrib)
  also have "\<dots> \<le> 1 / 2" by (rule round_he_close)
  finally show ?thesis by (simp add: field_simps)
qed

lemma round_dec_mono: "x \<le> y \<Longrightarrow> round_dec n x \<le> round_dec n y"
  by (simp add: round_dec_def divide_right_mono round_he_mono)

text \<open>\<open>f"{x:.nf}"\<close> of a finite value.\<close>

definition pad_left :: "nat \<Rightarrow> string \<Rightarrow> string" where
  "pad_left n s = replicate (n - length s) (CHR ''0'') @ s"

definition sign_of :: "rat \<Rightarrow> string" where
  "sign_of x = (if x < 0 then ''-'' else [])"

definition fmt_f :: "nat \<Rightarrow> rat \<Rightarrow> string" where
  "fmt_f n x = (let ds = pad_left (Suc n) (show_pos (round_he (\<bar>x\<bar> * 10 ^ n))); k = length ds - n in
     sign_of x @ take k ds @ (if n = 0 then [] else ''.'' @ drop k ds))"

text \<open>Powers of ten with an integer exponent, the exponent of the leading digit, and the
  first \<open>n + 1\<close> digits of a positive value.\<close>

definition p10 :: "int \<Rightarrow> rat" where
  "p10 e = (if 0 \<le> e then 10 ^ nat e else 1 / 10 ^ nat (- e))"

definition exp10 :: "rat \<Rightarrow> int" where
  "exp10 x = (let (a, b) = quotient_of x;
                  d = int (length (show_pos a)) - int (length (show_pos b)) in
     if p10 d \<le> x then d else d - 1)"

definition sci :: "nat \<Rightarrow> rat \<Rightarrow> string \<times> int" where
  "sci n x = (if x = 0 then (replicate (Suc n) (CHR ''0''), 0) else
     let e = exp10 x; m = round_he (x / p10 (e - int n)) in
     if m = 10 ^ Suc n then (show_pos (10 ^ n), e + 1) else (show_pos m, e))"

definition show_exp :: "int \<Rightarrow> string" where
  "show_exp e = (if e < 0 then ''e-'' else ''e+'') @ pad_left 2 (show_pos \<bar>e\<bar>)"

definition fmt_e :: "nat \<Rightarrow> rat \<Rightarrow> string" where
  "fmt_e n x = (let (ds, e) = sci n \<bar>x\<bar> in
     sign_of x @ take 1 ds @ (if n = 0 then [] else ''.'' @ drop 1 ds) @ show_exp e)"

text \<open>\<open>repr(x)\<close>: the digits without trailing zeros; positional notation for exponents from
  -4 to 15.\<close>

definition strip_zeros :: "string \<Rightarrow> string" where
  "strip_zeros ds = rev (dropWhile (\<lambda>c. c = CHR ''0'') (rev ds))"

definition float_repr_fin :: "rat \<Rightarrow> string" where
  "float_repr_fin x = (if x = 0 then ''0.0'' else
     let (ds0, e) = sci 16 \<bar>x\<bar>; ds = strip_zeros ds0; k = nat (e + 1) in
     sign_of x @
     (if 0 \<le> e \<and> e < 16 then
        (if length ds \<le> k then ds @ replicate (k - length ds) (CHR ''0'') @ ''.0''
         else take k ds @ ''.'' @ drop k ds)
      else if - 4 \<le> e \<and> e < 0 then ''0.'' @ replicate (nat (- e - 1)) (CHR ''0'') @ ds
      else take 1 ds @ (if length ds = 1 then [] else ''.'' @ drop 1 ds) @ show_exp e))"

fun float_repr :: "pyfloat \<Rightarrow> string" where
  "float_repr (Fin x) = float_repr_fin x"
| "float_repr PosInf = ''inf''"
| "float_repr NegInf = ''-inf''"
| "float_repr NaN = ''nan''"

text \<open>The formats on any float.\<close>

definition with_fmt :: "(rat \<Rightarrow> string) \<Rightarrow> pyfloat \<Rightarrow> string" where
  "with_fmt f x = (case x of Fin q \<Rightarrow> f q | _ \<Rightarrow> float_repr x)"

section \<open>Alphabets\<close>

lemma contains_set: "contains p s \<Longrightarrow> set p \<subseteq> set s"
  by (auto simp: contains_iff)

lemma contains_around:
  assumes "contains (p @ c # q) (a @ b)" "c \<notin> set b"
  shows "contains (p @ [c]) a"
proof -
  obtain x y where e: "a @ b = (x @ p @ [c]) @ q @ y" using assms(1) by (auto simp: contains_iff)
  then obtain us where "a = (x @ p @ [c]) @ us \<or> a @ us = x @ p @ [c] \<and> b = us @ q @ y"
    by (auto simp only: append_eq_append_conv2)
  then show ?thesis
  proof
    assume "a = (x @ p @ [c]) @ us"
    then have "a = x @ (p @ [c]) @ us" by simp
    then show ?thesis unfolding contains_iff by blast
  next
    assume u: "a @ us = x @ p @ [c] \<and> b = us @ q @ y"
    then have "us = []" using assms(2) by (cases us rule: rev_cases) auto
    then have "a = x @ (p @ [c]) @ []" using u by simp
    then show ?thesis unfolding contains_iff by blast
  qed
qed

lemma lower_char_blank [simp]: "lower_char c = CHR '' '' \<longleftrightarrow> c = CHR '' ''"
proof -
  have "(of_char (lower_char c) :: int) = (let n = of_char c in
     if 65 \<le> n \<and> n \<le> 90 \<or> 192 \<le> n \<and> n \<le> 222 \<and> n \<noteq> 215 then n + 32 else n)"
    by (auto simp: lower_char_def Let_def of_char_of)
  then have "(of_char (lower_char c) :: int) = 32 \<longleftrightarrow> (of_char c :: int) = 32"
    by (auto simp: Let_def)
  moreover have "\<And>d. (of_char d :: int) = 32 \<longleftrightarrow> d = CHR '' ''"
  proof -
    fix d show "(of_char d :: int) = 32 \<longleftrightarrow> d = CHR '' ''"
      using of_char_eq_iff [where 'a = int, of d "CHR '' ''"] by simp
  qed
  ultimately show ?thesis by simp
qed

lemma lower_no_blank: "CHR '' '' \<in> set (lower s) \<longleftrightarrow> CHR '' '' \<in> set s"
  unfolding lower_def by (metis (no_types, lifting) imageE image_eqI list.set_map lower_char_blank)

text \<open>Number texts have digits and the signs of a float only.\<close>

definition num_char :: "char \<Rightarrow> bool" where
  "num_char c = (is_digit c \<or> c \<in> set ''-+.e'')"

definition num_text :: "string \<Rightarrow> bool" where
  "num_text s = list_all num_char s"

lemma num_char_lits [simp]: "num_char (CHR ''-'')" "num_char (CHR ''+'')" "num_char (CHR ''.'')"
  "num_char (CHR ''e'')" "num_char (CHR ''0'')"
  by (simp_all add: num_char_def is_digit_def)

lemma num_text_simps [simp]: "num_text []" "num_text (c # s) = (num_char c \<and> num_text s)"
  "num_text (a @ b) = (num_text a \<and> num_text b)"
  by (simp_all add: num_text_def)

lemma num_text_show_pos [simp]: "0 \<le> n \<Longrightarrow> num_text (show_pos n)"
  using show_pos_digits by (auto simp: num_text_def num_char_def list_all_iff)

lemma num_text_sub: "num_text s \<Longrightarrow> set t \<subseteq> set s \<Longrightarrow> num_text t"
  by (auto simp: num_text_def list_all_iff)

lemma num_text_zeros [simp]: "num_text (replicate k (CHR ''0''))"
  by (auto simp: num_text_def list_all_iff)

lemma num_text_parts [simp]: "num_text s \<Longrightarrow> num_text (take k s)" "num_text s \<Longrightarrow> num_text (drop k s)"
  by (auto intro: num_text_sub dest: in_set_takeD in_set_dropD)

lemma num_text_pad [simp]: "num_text s \<Longrightarrow> num_text (pad_left n s)"
  by (simp add: pad_left_def)

lemma num_text_sign [simp]: "num_text (sign_of x)"
  by (simp add: sign_of_def)

lemma round_he_nonneg: "0 \<le> x \<Longrightarrow> 0 \<le> round_he x"
  using round_he_mono [of 0 x] round_he_int [of 0] by simp

lemma num_text_fmt_f: "num_text (fmt_f n x)"
  by (simp add: fmt_f_def Let_def round_he_nonneg)

lemma p10_pos: "0 < p10 e" by (simp add: p10_def)

lemma num_text_sci: "num_text (fst (sci n \<bar>x\<bar>))"
  by (auto simp: sci_def Let_def round_he_nonneg p10_pos less_imp_le simp del: replicate_Suc)

lemma num_text_exp [simp]: "num_text (show_exp e)"
  by (simp add: show_exp_def)

lemma num_text_fmt_e: "num_text (fmt_e n x)"
  using num_text_sci [of n x] by (auto simp: fmt_e_def Let_def case_prod_beta)

lemma num_text_strip [simp]: "num_text s \<Longrightarrow> num_text (strip_zeros s)"
  by (rule num_text_sub) (auto simp: strip_zeros_def dest: set_dropWhileD)

lemma num_text_repr: "num_text (float_repr_fin x)"
  using num_text_sci [of 16 x] by (auto simp: float_repr_fin_def Let_def case_prod_beta)

lemma lower_num: "num_text s \<Longrightarrow> lower s = s"
proof (induction s)
  case (Cons c s)
  then have "c \<in> set ''-+.e'' \<or> (of_char c :: int) < 58"
    by (auto simp: num_char_def is_digit_def Let_def)
  then have "lower_char c = c" by (auto simp: lower_char_def)
  with Cons show ?case by (simp add: lower_def)
qed (simp add: lower_def)
section \<open>Reading numbers\<close>

text \<open>\<open>int(s)\<close> and \<open>float(s)\<close> of a decimal numeral, surrounding white space allowed; \<open>None\<close> is
  the \<open>ValueError\<close>.\<close>

definition sign_split :: "string \<Rightarrow> bool \<times> string" where
  "sign_split s = (case s of
     c # t \<Rightarrow> if c = CHR ''-'' then (True, t) else if c = CHR ''+'' then (False, t) else (False, s)
   | [] \<Rightarrow> (False, []))"

definition py_int :: "string \<Rightarrow> int option" where
  "py_int s0 = (let (neg, ds) = sign_split (py_strip s0) in
     if ds \<noteq> [] \<and> list_all is_digit ds
     then Some (if neg then - int_of_digits ds else int_of_digits ds) else None)"

definition read_exp :: "string \<Rightarrow> int option" where
  "read_exp s = (case s of [] \<Rightarrow> Some 0
     | c # t \<Rightarrow> if c = CHR ''e'' \<or> c = CHR ''E'' then
         (let (neg, ds) = sign_split t in
            if ds \<noteq> [] \<and> list_all is_digit ds
            then Some (if neg then - int_of_digits ds else int_of_digits ds) else None)
       else None)"

definition read_decimal :: "string \<Rightarrow> rat option" where
  "read_decimal s = (let a = takeWhile is_digit s; r = dropWhile is_digit s;
       (b, r2) = (case r of c # t \<Rightarrow> if c = CHR ''.'' then (takeWhile is_digit t, dropWhile is_digit t) else ([], r)
                         | [] \<Rightarrow> ([], [])) in
     if a = [] \<and> b = [] then None
     else map_option (\<lambda>e. of_int (int_of_digits (a @ b)) * p10 (e - int (length b))) (read_exp r2))"

definition py_float :: "string \<Rightarrow> pyfloat option" where
  "py_float s0 = (let (neg, t) = sign_split (py_strip s0) in
     if lower t = ''inf'' \<or> lower t = ''infinity'' then Some (if neg then NegInf else PosInf)
     else if lower t = ''nan'' then Some NaN
     else map_option (\<lambda>q. Fin (if neg then - q else q)) (read_decimal t))"

section \<open>Float arithmetic\<close>

fun pf_neg :: "pyfloat \<Rightarrow> pyfloat" where
  "pf_neg (Fin a) = Fin (- a)"
| "pf_neg PosInf = NegInf"
| "pf_neg NegInf = PosInf"
| "pf_neg NaN = NaN"

fun pf_mul :: "pyfloat \<Rightarrow> pyfloat \<Rightarrow> pyfloat" where
  "pf_mul NaN _ = NaN"
| "pf_mul _ NaN = NaN"
| "pf_mul (Fin a) (Fin b) = Fin (a * b)"
| "pf_mul (Fin a) y = (if a = 0 then NaN else if 0 < a then y else pf_neg y)"
| "pf_mul x (Fin b) = (if b = 0 then NaN else if 0 < b then x else pf_neg x)"
| "pf_mul PosInf y = y"
| "pf_mul NegInf y = pf_neg y"

text \<open>\<open>min(x, y)\<close> keeps its first argument unless the second is smaller.\<close>

definition pf_min :: "pyfloat \<Rightarrow> pyfloat \<Rightarrow> pyfloat" where
  "pf_min x y = (if pf_lt y x then y else x)"

fun pf_abs :: "pyfloat \<Rightarrow> pyfloat" where
  "pf_abs (Fin a) = Fin \<bar>a\<bar>"
| "pf_abs NegInf = PosInf"
| "pf_abs x = x"

fun pf_round :: "nat \<Rightarrow> pyfloat \<Rightarrow> pyfloat" where
  "pf_round n (Fin a) = Fin (round_dec n a)"
| "pf_round n x = x"

text \<open>\<open>int(x)\<close> truncates; infinities and NaN raise.\<close>

fun pf_trunc :: "pyfloat \<Rightarrow> int option" where
  "pf_trunc (Fin a) = Some (if 0 \<le> a then \<lfloor>a\<rfloor> else - \<lfloor>- a\<rfloor>)"
| "pf_trunc _ = None"

text \<open>A number for arithmetic: \<open>bool\<close> counts as 0 and 1; other values raise \<open>TypeError\<close>.\<close>

fun num_of :: "pyval \<Rightarrow> pyfloat option" where
  "num_of (PBool b) = Some (Fin (if b then 1 else 0))"
| "num_of (PInt i) = Some (Fin (of_int i))"
| "num_of (PFloat f) = Some f"
| "num_of _ = None"

section \<open>Text of values\<close>

text \<open>\<open>repr(s)\<close> of a string: single quotes unless it holds one and no double quote, with
  the backslash and the common control characters escaped.\<close>

definition quote_char :: "string \<Rightarrow> char" where
  "quote_char s = (if CHR 0x27 \<in> set s \<and> CHR 0x22 \<notin> set s then CHR 0x22 else CHR 0x27)"

definition hex_digit :: "int \<Rightarrow> char" where
  "hex_digit d = (if d < 10 then char_of (48 + d) else char_of (87 + d))"

definition esc_char :: "char \<Rightarrow> char \<Rightarrow> string" where
  "esc_char q c = (let n = of_char c :: int in
     if c = CHR 0x5C \<or> c = q then [CHR 0x5C, c]
     else if n = 10 then [CHR 0x5C, CHR ''n''] else if n = 13 then [CHR 0x5C, CHR ''r'']
     else if n = 9 then [CHR 0x5C, CHR ''t'']
     else if n < 32 \<or> 127 \<le> n \<and> n \<le> 160 \<or> n = 173
       then [CHR 0x5C, CHR ''x'', hex_digit (n div 16), hex_digit (n mod 16)]
     else [c])"

definition str_repr :: "string \<Rightarrow> string" where
  "str_repr s = (let q = quote_char s in [q] @ concat (map (esc_char q) s) @ [q])"

fun py_repr :: "pyval \<Rightarrow> string" where
  "py_repr PNone = ''None''"
| "py_repr (PBool b) = (if b then ''True'' else ''False'')"
| "py_repr (PInt i) = show_int i"
| "py_repr (PFloat f) = float_repr f"
| "py_repr (PStr s) = str_repr s"
| "py_repr (PList vs) = ''['' @ join '', '' (map py_repr vs) @ '']''"
| "py_repr (PDict d) = ''{'' @ join '', '' (map (\<lambda>(k, v). str_repr k @ '': '' @ py_repr v) d) @ ''}''"

text \<open>\<open>str(v)\<close>, the text an f-string shows.\<close>

fun py_str :: "pyval \<Rightarrow> string" where
  "py_str (PStr s) = s"
| "py_str v = py_repr v"

text \<open>Truth value.\<close>

fun py_true :: "pyval \<Rightarrow> bool" where
  "py_true PNone = False"
| "py_true (PBool b) = b"
| "py_true (PInt i) = (i \<noteq> 0)"
| "py_true (PFloat f) = pf_true f"
| "py_true (PStr s) = (s \<noteq> [])"
| "py_true (PList vs) = (vs \<noteq> [])"
| "py_true (PDict d) = (d \<noteq> [])"

definition nl :: string where
  "nl = [CHR 0x0A]"

end
