(* ===== verification/Shell.thy ===== *)
theory Shell
  imports Py_Text
begin

text \<open>
  Shell commands: Python's \<open>shlex.quote\<close> and the part of the POSIX shell's token
  recognition that decides what a quoted command means.

  \<open>sh_lex\<close> reads blanks, quotes, operators and the characters that stand for themselves;
  it refuses (\<open>None\<close>) every character that starts an expansion, a comment or a pattern. A
  command that lexes therefore consists of exactly the listed words, nothing in them
  interpreted by the shell.
\<close>

section \<open>Quoting\<close>

text \<open>The class \<open>[\w@%+=:,./-]\<close> in ASCII.\<close>

definition sh_safe :: "char \<Rightarrow> bool" where
  "sh_safe c = (is_word_char c \<or> c \<in> set ''@%+=:,./-'')"

definition sq :: char where "sq = CHR 0x27"
definition dq :: char where "dq = CHR 0x22"

text \<open>\<open>shlex.quote\<close>: an embedded single quote becomes \<open>'"'"'\<close>.\<close>

fun quote_body :: "string \<Rightarrow> string" where
  "quote_body [] = []"
| "quote_body (c # s) = (if c = sq then [sq, dq, sq, dq, sq] else [c]) @ quote_body s"

definition shlex_quote :: "string \<Rightarrow> string" where
  "shlex_quote s = (if s = [] then [sq, sq]
     else if list_all sh_safe s then s
     else [sq] @ quote_body s @ [sq])"

section \<open>Tokens\<close>

datatype sh_tok = Word string | Op string

definition flush :: "string option \<Rightarrow> sh_tok list" where
  "flush w = (case w of None \<Rightarrow> [] | Some s \<Rightarrow> [Word s])"

definition word_add :: "string option \<Rightarrow> string \<Rightarrow> string option" where
  "word_add w s = Some ((case w of None \<Rightarrow> [] | Some u \<Rightarrow> u) @ s)"

text \<open>The text up to a closing quote, and what follows it.\<close>

fun upto_quote :: "char \<Rightarrow> string \<Rightarrow> (string \<times> string) option" where
  "upto_quote q [] = None"
| "upto_quote q (c # s) = (if c = q then Some ([], s)
     else map_option (\<lambda>(a, b). (c # a, b)) (upto_quote q s))"

lemma upto_quote_length: "upto_quote q s = Some (a, r) \<Longrightarrow> length r < length s"
  by (induction q s arbitrary: a rule: upto_quote.induct) (auto split: if_splits)

text \<open>Inside double quotes these four characters are special.\<close>

definition dq_plain :: "char \<Rightarrow> bool" where
  "dq_plain c = (c \<notin> {CHR 0x24, CHR 0x60, CHR 0x5C, CHR 0x21})"

definition is_op :: "char \<Rightarrow> bool" where
  "is_op c = (c \<in> set ''&|;<>()'' \<or> c = CHR 0x0A)"

function (sequential) sh_lex :: "string option \<Rightarrow> string \<Rightarrow> sh_tok list option" where
  "sh_lex w [] = Some (flush w)"
| "sh_lex w (c # s) =
     (if c = CHR '' '' \<or> c = CHR 0x09 then map_option ((@) (flush w)) (sh_lex None s)
      else if c = sq then
        (case upto_quote sq s of None \<Rightarrow> None | Some (a, r) \<Rightarrow> sh_lex (word_add w a) r)
      else if c = dq then
        (case upto_quote dq s of None \<Rightarrow> None
         | Some (a, r) \<Rightarrow> if list_all dq_plain a then sh_lex (word_add w a) r else None)
      else if is_op c then
        (if s \<noteq> [] \<and> hd s = c then map_option (\<lambda>ts. flush w @ Op [c, c] # ts) (sh_lex None (tl s))
         else map_option (\<lambda>ts. flush w @ Op [c] # ts) (sh_lex None s))
      else if sh_safe c then sh_lex (word_add w [c]) s
      else None)"
  by pat_completeness auto
termination
  by (relation "measure (\<lambda>(_, s). length s)") (auto dest: upto_quote_length)

definition sh_tokens :: "string \<Rightarrow> sh_tok list option" where
  "sh_tokens s = sh_lex None s"

section \<open>Quoting is exact\<close>

lemma word_add_add [simp]: "word_add (word_add w a) b = word_add w (a @ b)"
  by (simp add: word_add_def)

lemma word_add_flush [simp]: "flush (word_add None s) = [Word s]"
  by (simp add: flush_def word_add_def)

lemma flush_None [simp]: "flush None = []"
  by (simp add: flush_def)

lemma sh_safe_not: "sh_safe c \<Longrightarrow> c \<noteq> CHR '' '' \<and> c \<noteq> CHR 0x09 \<and> c \<noteq> sq \<and> c \<noteq> dq \<and> \<not> is_op c"
  unfolding sh_safe_def sq_def dq_def is_op_def by (auto simp: is_word_char_def)

lemma sh_lex_safe: "sh_safe c \<Longrightarrow> sh_lex w (c # s) = sh_lex (word_add w [c]) s"
  using sh_safe_not [of c] by simp

lemma quote_chars: "dq \<noteq> sq" "sq \<noteq> dq" "sq \<noteq> CHR '' ''" "sq \<noteq> CHR 0x09" "dq \<noteq> CHR '' ''" "dq \<noteq> CHR 0x09"
  by (simp_all add: sq_def dq_def)

lemma dq_plain_sq: "dq_plain sq"
  by (simp add: dq_plain_def sq_def)

lemma sh_lex_sq: "sh_lex w (sq # s) =
    (case upto_quote sq s of None \<Rightarrow> None | Some (a, r) \<Rightarrow> sh_lex (word_add w a) r)"
  by (simp add: quote_chars)

lemma sh_lex_dq: "sh_lex w (dq # s) =
    (case upto_quote dq s of None \<Rightarrow> None
     | Some (a, r) \<Rightarrow> if list_all dq_plain a then sh_lex (word_add w a) r else None)"
  by (simp add: quote_chars)

lemma sh_lex_blank: "sh_lex w (CHR '' '' # s) = map_option ((@) (flush w)) (sh_lex None s)"
  by simp

lemma sh_lex_and: "sh_lex None (CHR ''&'' # CHR ''&'' # CHR '' '' # r) = map_option ((#) (Op ''&&'')) (sh_lex None r)"
  by (simp add: sq_def dq_def is_op_def option.map_comp comp_def)

lemma sh_lex_to: "sh_lex None (CHR ''>'' # CHR '' '' # r) = map_option ((#) (Op ''>'')) (sh_lex None r)"
  by (simp add: sq_def dq_def is_op_def option.map_comp comp_def)

lemma sh_lex_Nil: "sh_lex w [] = Some (flush w)"
  by simp

declare sh_lex.simps [simp del]

lemmas sh_step = sh_lex_safe sh_lex_sq sh_lex_dq sh_lex_blank sh_lex_Nil

lemma sh_lex_safes: "list_all sh_safe s \<Longrightarrow> s \<noteq> [] \<Longrightarrow> sh_lex w (s @ r) = sh_lex (word_add w s) r"
proof (induction s arbitrary: w)
  case (Cons c s)
  then show ?case by (cases "s = []") (simp_all add: sh_lex_safe)
qed simp

lemma upto_sq_body: "\<exists>a r'. upto_quote sq (quote_body s @ sq # r) = Some (a, r') \<and>
    (\<forall>w. sh_lex (word_add w a) r' = sh_lex (word_add w s) r)"
proof (induction s)
  case (Cons c s)
  then obtain a r' where IH: "upto_quote sq (quote_body s @ sq # r) = Some (a, r')"
      "\<And>w. sh_lex (word_add w a) r' = sh_lex (word_add w s) r"
    by blast
  show ?case
  proof (cases "c = sq")
    case True
    have "sh_lex v (dq # sq # dq # sq # quote_body s @ sq # r) = sh_lex (word_add v (sq # s)) r" for v
      using IH(1) IH(2) [of "word_add v [sq]"] by (simp add: sh_step quote_chars dq_plain_sq)
    then show ?thesis using True by simp
  next
    case False
    have "sh_lex (word_add w (c # a)) r' = sh_lex (word_add w (c # s)) r" for w
      using IH(2) [of "word_add w [c]"] by simp
    with False IH(1) show ?thesis by auto
  qed
qed (auto)

lemma sh_lex_quote: "sh_lex w (shlex_quote s @ r) = sh_lex (word_add w s) r"
proof -
  consider "s = []" | "s \<noteq> []" "list_all sh_safe s" | "s \<noteq> []" "\<not> list_all sh_safe s" by blast
  then show ?thesis
  proof cases
    case 1
    then show ?thesis by (simp add: shlex_quote_def sh_step)
  next
    case 2
    then show ?thesis by (simp add: shlex_quote_def sh_lex_safes)
  next
    case 3
    with upto_sq_body [of s r] show ?thesis by (auto simp: shlex_quote_def sh_step)
  qed
qed

lemma sh_tokens_quote: "sh_tokens (shlex_quote s) = Some [Word s]"
  using sh_lex_quote [of None s "[]"] by (simp add: sh_tokens_def sh_step)

text \<open>A command built from words the shell reads as they are, one blank between them.\<close>

lemma append_single_fun [simp]: "((@) [x]) = (#) x"
  by (rule ext) simp

lemma sh_lex_word_blank:
  "list_all sh_safe s \<Longrightarrow> s \<noteq> [] \<Longrightarrow> sh_lex None (s @ CHR '' '' # r) = map_option ((#) (Word s)) (sh_lex None r)"
  by (simp add: sh_lex_safes sh_lex_blank option.map_comp comp_def)

lemma sh_lex_quote_blank:
  "sh_lex None (shlex_quote s @ CHR '' '' # r) = map_option ((#) (Word s)) (sh_lex None r)"
  by (simp add: sh_lex_quote sh_lex_blank option.map_comp comp_def)

lemma sh_lex_quote_end: "sh_lex None (shlex_quote s) = Some [Word s]"
  using sh_tokens_quote [of s] by (simp add: sh_tokens_def)

lemmas sh_cmd = sh_lex_word_blank sh_lex_quote_blank sh_lex_and sh_lex_to sh_lex_quote_end

section \<open>Here documents\<close>

text \<open>The lines a quoted here document hands on: those before the delimiter, each ended by a
  line feed.\<close>

definition heredoc_body :: "string \<Rightarrow> string \<Rightarrow> string option" where
  "heredoc_body delim text = (let ls = split_on (CHR 0x0A) text in
     if delim \<in> set ls then Some (concat (map (\<lambda>l. l @ nl) (takeWhile (\<lambda>l. l \<noteq> delim) ls))) else None)"

lemma split_on_append: "split_on c (a @ c # b) = split_on c a @ split_on c b"
proof (induction a)
  case (Cons d a)
  obtain w ws where "split_on c a = w # ws" by (cases "split_on c a") auto
  with Cons show ?case by simp
qed simp

lemma split_on_none: "c \<notin> set s \<Longrightarrow> split_on c s = [s]"
  by (induction s) auto

lemma concat_lines: "ls \<noteq> [] \<Longrightarrow> concat (map (\<lambda>l. l @ nl) ls) = join nl ls @ nl"
proof (induction ls)
  case (Cons l ls)
  then show ?case by (cases ls) auto
qed simp

lemma heredoc_exact:
  assumes "delim \<notin> set (split_on (CHR 0x0A) text)" and "CHR 0x0A \<notin> set delim"
  shows "heredoc_body delim (text @ nl @ delim) = Some (text @ nl)"
proof -
  have "split_on (CHR 0x0A) (text @ nl @ delim) = split_on (CHR 0x0A) text @ [delim]"
    using assms(2) by (simp add: nl_def split_on_append split_on_none)
  moreover have "takeWhile (\<lambda>l. l \<noteq> delim) (split_on (CHR 0x0A) text @ [delim]) = split_on (CHR 0x0A) text"
    using assms(1) by (subst takeWhile_append2) auto
  ultimately show ?thesis
    using join_split_on [of "CHR 0x0A" "text"] concat_lines [of "split_on (CHR 0x0A) text"]
    by (simp add: heredoc_body_def nl_def)
qed

end
