(* ===== verification/Recovery.thy ===== *)
theory Recovery
  imports Py_Text
begin

text \<open>
  The recovery controller (\<open>recovery.py\<close>): it classifies a failed run from the reasons of
  the verifier's report and plans bounded parameter changes for the next attempt.

  Parameters are a dictionary of JSON values. A parameter the arithmetic cannot take (a
  string as cutoff, say) raises \<open>TypeError\<close>, as in the code.
\<close>

section \<open>Data\<close>

datatype failure_kind =
    SCF_NOT_CONVERGED
  | NSCF_NOT_CONVERGED
  | FORCES_TOO_HIGH
  | PRESSURE_TOO_HIGH
  | BAD_CELL
  | BANDS_XML_MISSING
  | DOS_FILE_MISSING
  | TOOL_FAILURE
  | JOB_TIMEOUT
  | PARSER_MISMATCH
  | UNKNOWN

fun failure_value :: "failure_kind \<Rightarrow> string" where
  "failure_value SCF_NOT_CONVERGED = ''scf_not_converged''"
| "failure_value NSCF_NOT_CONVERGED = ''nscf_not_converged''"
| "failure_value FORCES_TOO_HIGH = ''forces_too_high''"
| "failure_value PRESSURE_TOO_HIGH = ''pressure_too_high''"
| "failure_value BAD_CELL = ''bad_cell''"
| "failure_value BANDS_XML_MISSING = ''bands_xml_missing''"
| "failure_value DOS_FILE_MISSING = ''dos_file_missing''"
| "failure_value TOOL_FAILURE = ''tool_failure''"
| "failure_value JOB_TIMEOUT = ''job_timeout''"
| "failure_value PARSER_MISMATCH = ''parser_mismatch''"
| "failure_value UNKNOWN = ''unknown''"

record recovery_action =
  action_type :: string
  target :: string
  act_params :: "pyval pydict"
  reason :: string
  applied :: bool

text \<open>The constructor with the defaults of the data class.\<close>

definition action :: "string \<Rightarrow> string \<Rightarrow> pyval pydict \<Rightarrow> string \<Rightarrow> recovery_action" where
  "action ty tg ps r = \<lparr>action_type = ty, target = tg, act_params = ps, reason = r, applied = False\<rparr>"

lemma action_sel [simp]:
  "action_type (action ty tg ps r) = ty" "act_params (action ty tg ps r) = ps" "applied (action ty tg ps r) = False"
  by (simp_all add: action_def)

definition action_to_dict :: "recovery_action \<Rightarrow> pyval pydict" where
  "action_to_dict a =
    [(''action_type'', PStr (action_type a)), (''target'', PStr (target a)),
     (''params'', PDict (act_params a)), (''reason'', PStr (reason a)),
     (''applied'', PBool (applied a))]"

definition action_str :: "recovery_action \<Rightarrow> string" where
  "action_str a =
    (if act_params a \<noteq> [] then
       action_type a @ ''('' @ join '', '' (map (\<lambda>(k, v). k @ ''='' @ py_str v) (act_params a)) @ ''): '' @ reason a
     else action_type a @ '': '' @ reason a)"

record controller =
  max_ecut_scale :: pyfloat
  max_nbnd_scale :: pyfloat
  max_kpoints_scale :: pyfloat
  max_rec_attempts :: int

definition default_controller :: controller where
  "default_controller =
    \<lparr>max_ecut_scale = Fin 3, max_nbnd_scale = Fin 2, max_kpoints_scale = Fin 2, max_rec_attempts = 3\<rparr>"

section \<open>Classification\<close>

definition some_has :: "string list \<Rightarrow> string list \<Rightarrow> bool" where
  "some_has ps rs = list_ex (\<lambda>r. list_ex (\<lambda>p. contains p r) ps) rs"

text \<open>The tests of \<open>classify\<close>, in its order.\<close>

definition classify_reasons :: "string list \<Rightarrow> failure_kind" where
  "classify_reasons reasons =
    (if some_has [''scf stage failed'', ''scf did not converge''] reasons then SCF_NOT_CONVERGED
     else if some_has [''nscf stage did not converge'', ''nscf stage did not pass''] reasons then NSCF_NOT_CONVERGED
     else if some_has [''bands xml parsed but empty'', ''bands.xml not found''] reasons then BANDS_XML_MISSING
     else if some_has [''dos file parsed but empty'', ''dos file not found''] reasons then DOS_FILE_MISSING
     else if some_has [''force''] reasons then FORCES_TOO_HIGH
     else if some_has [''pressure''] reasons then PRESSURE_TOO_HIGH
     else if some_has [''cell''] reasons then BAD_CELL
     else if some_has [''timed out''] reasons \<or> some_has [''timeout''] reasons then JOB_TIMEOUT
     else if some_has [''dos.x'', ''bands.x''] reasons then TOOL_FAILURE
     else if some_has [''parser failed'', ''format mismatch''] reasons then PARSER_MISMATCH
     else UNKNOWN)"

definition classify :: "bool \<Rightarrow> string list \<Rightarrow> failure_kind" where
  "classify passed failure_reasons =
    (let reasons = map lower failure_reasons in
     if \<not> passed \<and> reasons = [] then UNKNOWN else classify_reasons reasons)"

section \<open>Planners\<close>

text \<open>\<open>d.get(k, default)\<close>.\<close>

definition get_or :: "pyval pydict \<Rightarrow> string \<Rightarrow> pyval \<Rightarrow> pyval" where
  "get_or d k dflt = (case dget d k of None \<Rightarrow> dflt | Some v \<Rightarrow> v)"

definition arith :: "pyval \<Rightarrow> py_exc + pyfloat" where
  "arith v = the_or TypeError (num_of v)"

definition to_int :: "pyfloat \<Rightarrow> py_exc + int" where
  "to_int x = (case pf_trunc x of Some i \<Rightarrow> Inr i
                | None \<Rightarrow> Inl (if x = NaN then ValueError ''cannot convert float NaN to integer'' else OverflowError))"

definition ints :: "int list \<Rightarrow> pyval" where
  "ints xs = PList (map PInt xs)"

text \<open>The cutoff step that the planners for SCF and for forces share.\<close>

definition plan_ecut :: "controller \<Rightarrow> pyval pydict \<Rightarrow> py_exc + recovery_action list" where
  "plan_ecut c base =
    (let ev = get_or base ''ecutwfc'' (PFloat (Fin 25)) in
     bindr (arith ev) (\<lambda>ecut.
       let max_ecut = pf_mul ecut (max_ecut_scale c);
           new_ecut = pf_min (pf_mul ecut (Fin (3 / 2))) max_ecut in
       Inr (if pf_lt ecut new_ecut then
         [action ''increase_ecut'' ''ecutwfc'' [(''ecutwfc'', PFloat (pf_round 2 new_ecut))]
            (''Increase ecutwfc from '' @ py_str ev @ '' to '' @ float_repr (pf_round 2 new_ecut) @
             '' Ry (max '' @ float_repr (pf_round 2 max_ecut) @ '')'')]
         else [])))"

text \<open>The k-point step of the planners for SCF and for NSCF, on their own key and default.\<close>

definition plan_kpoints :: "controller \<Rightarrow> string \<Rightarrow> int \<Rightarrow> pyval pydict \<Rightarrow> py_exc + recovery_action list" where
  "plan_kpoints c key dflt base =
    (case get_or base key (ints [dflt, dflt, dflt, 1, 1, 1]) of
       PList kp \<Rightarrow>
         if 3 \<le> length kp then
           bindr (arith (kp ! 0)) (\<lambda>k0.
           bindr (to_int (pf_mul k0 (max_kpoints_scale c))) (\<lambda>max_kp.
           bindr (to_int (pf_mul k0 (Fin 2))) (\<lambda>dbl.
           let new_kp = min dbl max_kp in
           Inr (if pf_lt k0 (Fin (of_int new_kp)) then
             [action ''increase_kpoints'' key [(key, ints [new_kp, new_kp, new_kp, 1, 1, 1])]
               (''Increase kpoints from '' @ py_str (PList (take 3 kp)) @ '' to '' @
                py_str (ints [new_kp, new_kp, new_kp]) @ '' (max '' @ show_int max_kp @ '')'')]
             else []))))
         else Inr []
     | _ \<Rightarrow> Inr [])"

definition plan_scf_failure :: "controller \<Rightarrow> pyval pydict \<Rightarrow> py_exc + recovery_action list" where
  "plan_scf_failure c base =
    bindr (plan_ecut c base) (\<lambda>es.
    bindr (plan_kpoints c ''kpoints'' 4 base) (\<lambda>ks.
    Inr (es @ ks @ [action ''check_pseudos'' ''pseudos'' []
      ''Verify pseudopotentials are correct for the material''])))"

definition plan_nbnd :: "controller \<Rightarrow> pyval pydict \<Rightarrow> py_exc + recovery_action list" where
  "plan_nbnd c base =
    (let nv = get_or base ''nbnd'' (PInt 16) in
     bindr (arith nv) (\<lambda>nbnd.
     bindr (to_int (pf_mul nbnd (max_nbnd_scale c))) (\<lambda>max_nbnd.
     bindr (to_int (pf_mul nbnd (Fin (3 / 2)))) (\<lambda>up.
     let new_nbnd = min up max_nbnd in
     Inr (if pf_lt nbnd (Fin (of_int new_nbnd)) then
       [action ''increase_nbnd'' ''nbnd'' [(''nbnd'', PInt new_nbnd)]
         (''Increase nbnd from '' @ py_str nv @ '' to '' @ show_int new_nbnd @
          '' (max '' @ show_int max_nbnd @ '')'')]
       else [])))))"

definition plan_nscf_failure :: "controller \<Rightarrow> pyval pydict \<Rightarrow> py_exc + recovery_action list" where
  "plan_nscf_failure c base =
    bindr (plan_nbnd c base) (\<lambda>ns.
    bindr (plan_kpoints c ''kpoints_nscf'' 8 base) (\<lambda>ks. Inr (ns @ ks)))"

definition plan_forces_failure :: "controller \<Rightarrow> pyval pydict \<Rightarrow> py_exc + recovery_action list" where
  "plan_forces_failure c base =
    bindr (plan_ecut c base) (\<lambda>es.
    Inr (es @ [action ''tighten_conv_thr'' ''conv_thr'' [(''conv_thr'', PFloat (Fin (1 / 10 ^ 9)))]
      ''Tighten SCF convergence threshold to 1e-9'']))"

definition plan_pressure_failure :: "recovery_action list" where
  "plan_pressure_failure = [action ''check_structure'' ''structure'' []
     ''High pressure: verify initial structure and cell constraints'']"

definition plan_bad_cell :: "recovery_action list" where
  "plan_bad_cell = [action ''check_structure'' ''structure'' []
     ''Unreasonable cell parameters: check initial lattice constant'']"

definition plan_bands_missing :: "recovery_action list" where
  "plan_bands_missing = [action ''check_nscf_output'' ''nscf'' []
     ''bands.xml missing: verify NSCF completed and prefix matches'']"

definition plan_dos_missing :: "recovery_action list" where
  "plan_dos_missing = [action ''check_nscf_output'' ''nscf'' []
     ''DOS file missing: verify NSCF output completeness and prefix matches'']"

definition plan_tool_failure :: "recovery_action list" where
  "plan_tool_failure = [action ''retry_tool'' ''tool'' []
     ''Post-processing tool failed; retry execution'']"

definition plan_timeout :: "recovery_action list" where
  "plan_timeout = [action ''reduce_kpoints'' ''kpoints'' [(''kpoints'', ints [4, 4, 4, 1, 1, 1])]
     ''Job timed out: reduce k-point density to lower cost'']"

definition plan_parser_mismatch :: "recovery_action list" where
  "plan_parser_mismatch = [action ''retry'' ''all'' []
     ''Parser mismatch; retry to capture fresh output'']"

definition plan_actions ::
  "controller \<Rightarrow> failure_kind \<Rightarrow> pyval pydict \<Rightarrow> int \<Rightarrow> py_exc + recovery_action list" where
  "plan_actions c kind base attempt =
    (if max_rec_attempts c \<le> attempt then
       Inr [action ''give_up'' ''all'' []
         (''Max recovery attempts ('' @ show_int (max_rec_attempts c) @ '') reached'')]
     else case kind of
       SCF_NOT_CONVERGED \<Rightarrow> plan_scf_failure c base
     | NSCF_NOT_CONVERGED \<Rightarrow> plan_nscf_failure c base
     | FORCES_TOO_HIGH \<Rightarrow> plan_forces_failure c base
     | PRESSURE_TOO_HIGH \<Rightarrow> Inr plan_pressure_failure
     | BAD_CELL \<Rightarrow> Inr plan_bad_cell
     | BANDS_XML_MISSING \<Rightarrow> Inr plan_bands_missing
     | DOS_FILE_MISSING \<Rightarrow> Inr plan_dos_missing
     | TOOL_FAILURE \<Rightarrow> Inr plan_tool_failure
     | JOB_TIMEOUT \<Rightarrow> Inr plan_timeout
     | PARSER_MISMATCH \<Rightarrow> Inr plan_parser_mismatch
     | UNKNOWN \<Rightarrow> Inr [action ''retry'' ''all'' [] ''Unknown failure; retry with same parameters''])"

text \<open>\<open>apply_to_params\<close> also marks the actions it has applied: it returns them with the
  new parameters.\<close>

fun apply_to_params :: "recovery_action list \<Rightarrow> pyval pydict \<Rightarrow> pyval pydict \<times> recovery_action list" where
  "apply_to_params [] params = (params, [])"
| "apply_to_params (a # as) params =
     (let (ps, as') = apply_to_params as (if applied a then params else dupdate params (act_params a))
      in (ps, a\<lparr>applied := True\<rparr> # as'))"

section \<open>What a plan may change\<close>

text \<open>
  The contract of the planners, key by key: a cutoff or a band count grows, by at most half
  and at most by the controller's factor; a k-point mesh grows, at most to the double and
  within its factor; only the tightened threshold and the mesh after a timeout are constants.
\<close>

definition ecut_step :: "controller \<Rightarrow> pyval pydict \<Rightarrow> pyval pydict \<Rightarrow> bool" where
  "ecut_step c base ps = (\<exists>e n. num_of (get_or base ''ecutwfc'' (PFloat (Fin 25))) = Some e
     \<and> ps = [(''ecutwfc'', PFloat (pf_round 2 n))]
     \<and> pf_lt e n \<and> pf_le n (pf_mul e (Fin (3 / 2))) \<and> \<not> pf_lt (pf_mul e (max_ecut_scale c)) n)"

definition int_step :: "pyval \<Rightarrow> pyfloat \<Rightarrow> pyfloat \<Rightarrow> int \<Rightarrow> bool" where
  "int_step v f g n = (\<exists>x. num_of v = Some x \<and> pf_lt x (Fin (of_int n)) \<and>
     (\<exists>i j. pf_trunc (pf_mul x f) = Some i \<and> pf_trunc (pf_mul x g) = Some j \<and> n \<le> i \<and> n \<le> j))"

definition nbnd_step :: "controller \<Rightarrow> pyval pydict \<Rightarrow> pyval pydict \<Rightarrow> bool" where
  "nbnd_step c base ps = (\<exists>n. ps = [(''nbnd'', PInt n)]
     \<and> int_step (get_or base ''nbnd'' (PInt 16)) (Fin (3 / 2)) (max_nbnd_scale c) n)"

definition kpoints_step :: "controller \<Rightarrow> string \<Rightarrow> int \<Rightarrow> pyval pydict \<Rightarrow> pyval pydict \<Rightarrow> bool" where
  "kpoints_step c key dflt base ps = (\<exists>n k ks. ps = [(key, ints [n, n, n, 1, 1, 1])]
     \<and> get_or base key (ints [dflt, dflt, dflt, 1, 1, 1]) = PList (k # ks)
     \<and> int_step k (Fin 2) (max_kpoints_scale c) n)"

definition allowed_change :: "controller \<Rightarrow> failure_kind \<Rightarrow> pyval pydict \<Rightarrow> pyval pydict \<Rightarrow> bool" where
  "allowed_change c kind base ps =
    (ps = []
     \<or> kind \<in> {SCF_NOT_CONVERGED, FORCES_TOO_HIGH} \<and> ecut_step c base ps
     \<or> kind = SCF_NOT_CONVERGED \<and> kpoints_step c ''kpoints'' 4 base ps
     \<or> kind = NSCF_NOT_CONVERGED \<and> (nbnd_step c base ps \<or> kpoints_step c ''kpoints_nscf'' 8 base ps)
     \<or> kind = FORCES_TOO_HIGH \<and> ps = [(''conv_thr'', PFloat (Fin (1 / 10 ^ 9)))]
     \<or> kind = JOB_TIMEOUT \<and> ps = [(''kpoints'', ints [4, 4, 4, 1, 1, 1])])"

lemma pf_lt_irrefl [simp]: "\<not> pf_lt x x"
  by (cases x) auto

lemma pf_min_bounds: "pf_lt e (pf_min x y) \<Longrightarrow> pf_le (pf_min x y) x" "\<not> pf_lt y (pf_min x y)"
proof -
  show "pf_lt e (pf_min x y) \<Longrightarrow> pf_le (pf_min x y) x"
    by (cases x; cases y; cases e) (auto simp: pf_min_def split: if_splits)
qed (simp add: pf_min_def)

lemma plan_ecut_steps:
  assumes "plan_ecut c base = Inr as" and "a \<in> set as"
  shows "ecut_step c base (act_params a)"
proof -
  obtain e where e: "num_of (get_or base ''ecutwfc'' (PFloat (Fin 25))) = Some e"
    using assms(1) by (auto simp: plan_ecut_def Let_def bindr_eq_Inr arith_def the_or_Inr)
  let ?n = "pf_min (pf_mul e (Fin (3 / 2))) (pf_mul e (max_ecut_scale c))"
  from assms e have n: "pf_lt e ?n" and a: "act_params a = [(''ecutwfc'', PFloat (pf_round 2 ?n))]"
    by (auto simp: plan_ecut_def arith_def Let_def split: if_splits)
  from e a n pf_min_bounds(1) [OF n] pf_min_bounds(2) show ?thesis
    unfolding ecut_step_def by blast
qed

lemma to_int_Inr: "to_int x = Inr i \<longleftrightarrow> pf_trunc x = Some i"
  by (auto simp: to_int_def split: option.splits)

lemma plan_kpoints_steps:
  "plan_kpoints c key dflt base = Inr as \<Longrightarrow> a \<in> set as \<Longrightarrow> kpoints_step c key dflt base (act_params a)"
  unfolding plan_kpoints_def kpoints_step_def Let_def
  by (cases "get_or base key (ints [dflt, dflt, dflt, 1, 1, 1])")
    (auto simp: bindr_eq_Inr arith_def the_or_Inr to_int_Inr int_step_def Suc_le_length_iff
       numeral_3_eq_3 split: if_splits)

lemma plan_nbnd_steps: "plan_nbnd c base = Inr as \<Longrightarrow> a \<in> set as \<Longrightarrow> nbnd_step c base (act_params a)"
  unfolding plan_nbnd_def nbnd_step_def Let_def
  by (auto simp: bindr_eq_Inr arith_def the_or_Inr to_int_Inr int_step_def split: if_splits)

lemmas plan_steps = plan_ecut_steps plan_kpoints_steps plan_nbnd_steps

lemma plan_change:
  assumes "plan_actions c kind base attempt = Inr as" "attempt < max_rec_attempts c" "a \<in> set as"
  shows "allowed_change c kind base (act_params a)"
  using assms unfolding plan_actions_def
  by (cases kind)
    (auto simp: allowed_change_def plan_scf_failure_def plan_nscf_failure_def plan_forces_failure_def
      plan_pressure_failure_def plan_bad_cell_def plan_bands_missing_def plan_dos_missing_def
      plan_tool_failure_def plan_timeout_def plan_parser_mismatch_def bindr_eq_Inr action_def
      dest: plan_steps)

lemma plan_unapplied: "plan_actions c kind base attempt = Inr as \<Longrightarrow> a \<in> set as \<Longrightarrow> \<not> applied a"
  unfolding plan_actions_def
  by (cases kind)
    (auto simp: plan_scf_failure_def plan_nscf_failure_def plan_forces_failure_def
      plan_pressure_failure_def plan_bad_cell_def plan_bands_missing_def plan_dos_missing_def
      plan_tool_failure_def plan_timeout_def plan_parser_mismatch_def bindr_eq_Inr action_def
      plan_ecut_def plan_kpoints_def plan_nbnd_def Let_def split: if_splits pyval.splits)

lemma apply_given_up: "\<forall>a \<in> set as. act_params a = [] \<Longrightarrow> fst (apply_to_params as base) = base"
  by (induction as arbitrary: base) (auto simp: Let_def case_prod_beta)

text \<open>
  A recovery plan stays inside its contract. Once the attempts are used up it only gives up
  and changes no parameter; before that every action either changes nothing or makes the one
  bounded change its failure kind allows (cutoff and bands grow by at most half and at most by
  the controller's scale, meshes at most double, the two constants).
\<close>

theorem recovery_plan_bounded:
  assumes "plan_actions c kind base attempt = Inr as"
  shows "(max_rec_attempts c \<le> attempt \<longrightarrow>
            map action_type as = [''give_up''] \<and> fst (apply_to_params as base) = base)
       \<and> (attempt < max_rec_attempts c \<longrightarrow>
            (\<forall>a \<in> set as. \<not> applied a \<and> allowed_change c kind base (act_params a)))"
proof (intro conjI impI ballI)
  assume "max_rec_attempts c \<le> attempt"
  with assms have as: "as = [action ''give_up'' ''all'' []
         (''Max recovery attempts ('' @ show_int (max_rec_attempts c) @ '') reached'')]"
    by (simp add: plan_actions_def)
  show "map action_type as = [''give_up'']" "fst (apply_to_params as base) = base"
    by (simp_all add: as)
next
  fix a assume "attempt < max_rec_attempts c" "a \<in> set as"
  then show "\<not> applied a" "allowed_change c kind base (act_params a)"
    using assms plan_unapplied plan_change by blast+
qed

text \<open>What the actions in order leave in the parameters: the last writer of a key wins.\<close>

definition unapplied_params :: "recovery_action list \<Rightarrow> pyval pydict list" where
  "unapplied_params as = map act_params (filter (\<lambda>a. \<not> applied a) as)"

lemma apply_fold: "fst (apply_to_params as ps) = foldl dupdate ps (unapplied_params as)"
  by (induction as arbitrary: ps) (auto simp: unapplied_params_def Let_def case_prod_beta)

lemma apply_marks: "snd (apply_to_params as ps) = map (\<lambda>a. a\<lparr>applied := True\<rparr>) as"
  by (induction as arbitrary: ps) (auto simp: Let_def case_prod_beta)

lemma apply_done: "\<forall>a \<in> set as. applied a \<Longrightarrow> apply_to_params as ps = (ps, as)"
  by (induction as arbitrary: ps) (auto simp: Let_def)

lemma dget_updates: "\<forall>e \<in> set es. k \<notin> set (dkeys e) \<Longrightarrow> dget (foldl dupdate ps es) k = dget ps k"
proof (induction es arbitrary: ps)
  case (Cons e es)
  have "dget (dupdate ps e) k = dget ps k" if "k \<notin> set (dkeys e)" for ps
    using that by (induction e arbitrary: ps) (auto simp: pydict)
  with Cons show ?case by simp
qed simp

text \<open>
  Actions are applied once. The new parameters are the baseline updated by the parameters
  of the actions not applied before, in order; a key no such action mentions keeps its value;
  and applying the returned actions again, to any parameters, changes nothing.
\<close>

theorem apply_once:
  "fst (apply_to_params as base) = foldl dupdate base (unapplied_params as)
   \<and> (\<forall>k. k \<notin> (\<Union>e \<in> set (unapplied_params as). set (dkeys e)) \<longrightarrow>
          dget (fst (apply_to_params as base)) k = dget base k)
   \<and> (\<forall>ps. apply_to_params (snd (apply_to_params as base)) ps = (ps, snd (apply_to_params as base)))"
  by (auto simp: apply_fold dget_updates apply_marks apply_done)

text \<open>
  The plan after a timeout replaces the mesh by 4x4x4 whatever it was, so a coarser mesh
  becomes denser.
\<close>

theorem timeout_sets_mesh:
  assumes "attempt < max_rec_attempts c"
  shows "\<exists>as. plan_actions c JOB_TIMEOUT base attempt = Inr as
     \<and> dget (fst (apply_to_params as base)) ''kpoints'' = Some (ints [4, 4, 4, 1, 1, 1])"
  using assms by (simp add: plan_actions_def plan_timeout_def pydict)

section \<open>Witnesses\<close>

definition demo_base :: "pyval pydict" where
  "demo_base = [(''ecutwfc'', PFloat (Fin 40)), (''kpoints'', ints [2, 2, 2, 1, 1, 1])]"

lemma demo_plan:
  "plan_actions default_controller SCF_NOT_CONVERGED demo_base 1 = Inr
    [action ''increase_ecut'' ''ecutwfc'' [(''ecutwfc'', PFloat (Fin 60))]
       ''Increase ecutwfc from 40.0 to 60.0 Ry (max 120.0)'',
     action ''increase_kpoints'' ''kpoints'' [(''kpoints'', ints [4, 4, 4, 1, 1, 1])]
       ''Increase kpoints from [2, 2, 2] to [4, 4, 4] (max 4)'',
     action ''check_pseudos'' ''pseudos'' [] ''Verify pseudopotentials are correct for the material'']"
  by code_simp

theorem recovery_plan_bounded_witness:
  "ecut_step default_controller demo_base [(''ecutwfc'', PFloat (Fin 60))]"
  using recovery_plan_bounded [OF demo_plan]
  by (simp add: default_controller_def allowed_change_def kpoints_step_def ints_def)

theorem apply_once_witness:
  "fst (apply_to_params plan_timeout demo_base)
     = [(''ecutwfc'', PFloat (Fin 40)), (''kpoints'', ints [4, 4, 4, 1, 1, 1])]
   \<and> dget (fst (apply_to_params plan_timeout demo_base)) ''ecutwfc'' = Some (PFloat (Fin 40))"
proof -
  have "''ecutwfc'' \<notin> (\<Union>e \<in> set (unapplied_params plan_timeout). set (dkeys e))"
    by (simp add: unapplied_params_def plan_timeout_def)
  then have "dget (fst (apply_to_params plan_timeout demo_base)) ''ecutwfc'' = dget demo_base ''ecutwfc''"
    using apply_once [of plan_timeout demo_base] by blast
  moreover have "dget demo_base ''ecutwfc'' = Some (PFloat (Fin 40))"
    by (simp add: demo_base_def dget_def)
  moreover have "fst (apply_to_params plan_timeout demo_base)
     = [(''ecutwfc'', PFloat (Fin 40)), (''kpoints'', ints [4, 4, 4, 1, 1, 1])]"
    by (simp add: plan_timeout_def demo_base_def dput_def)
  ultimately show ?thesis by simp
qed

theorem timeout_sets_mesh_witness:
  "\<exists>as. plan_actions default_controller JOB_TIMEOUT demo_base 1 = Inr as
     \<and> dget (fst (apply_to_params as demo_base)) ''kpoints'' = Some (ints [4, 4, 4, 1, 1, 1])
     \<and> dget demo_base ''kpoints'' = Some (ints [2, 2, 2, 1, 1, 1])"
  using timeout_sets_mesh [of 1 default_controller demo_base]
  by (auto simp: default_controller_def demo_base_def dget_def)

end
