(* ===== verification/Hpc_Script.thy ===== *)
theory Hpc_Script
  imports Recovery
begin

text \<open>
  Job scripts (\<open>hpc/job_script.py\<close>): the parameters are resolved over the defaults, filled
  into the SLURM or PBS template, and directives left empty are dropped.
\<close>

section \<open>Constants\<close>

definition PW_COMMAND :: "string \<times> string" where
  "PW_COMMAND = (''srun pw.x -in '', '' > '')"

text \<open>\<open>ENGINE_COMMANDS[engine].format(input_file=i, output_file=o)\<close>; both engines share one command.\<close>

definition engine_command :: "string \<Rightarrow> (pyval \<Rightarrow> pyval \<Rightarrow> string) option" where
  "engine_command e = (if e = ''qe'' \<or> e = ''pw''
     then Some (\<lambda>i out. fst PW_COMMAND @ py_str i @ snd PW_COMMAND @ py_str out) else None)"

definition DEFAULTS :: "pyval pydict" where
  "DEFAULTS = [(''nodes'', PInt 1), (''ntasks'', PInt 8), (''cpus_per_task'', PInt 1),
     (''walltime'', PStr ''24:00:00''), (''partition'', PStr []), (''account'', PStr []),
     (''memory'', PStr []), (''module_loads'', PStr []), (''env_setup'', PStr [])]"

definition SBATCH_TEMPLATE :: string where
  "SBATCH_TEMPLATE = join nl
    [''#!/bin/bash'',
     ''#SBATCH --job-name={{job_name}}'',
     ''#SBATCH --nodes={{nodes}}'',
     ''#SBATCH --ntasks={{ntasks}}'',
     ''#SBATCH --cpus-per-task={{cpus_per_task}}'',
     ''#SBATCH --time={{walltime}}'',
     ''#SBATCH --partition={{partition}}'',
     ''#SBATCH --account={{account}}'',
     ''#SBATCH --mem={{memory}}'',
     ''#SBATCH --output={{job_name}}-%j.out'',
     ''#SBATCH --error={{job_name}}-%j.err'',
     [],
     ''{{module_loads}}'',
     ''{{env_setup}}'',
     [],
     ''cd {{work_dir}}'',
     ''{{run_command}}'',
     []]"

definition QSUB_TEMPLATE :: string where
  "QSUB_TEMPLATE = join nl
    [''#!/bin/bash'',
     ''#PBS -N {{job_name}}'',
     ''#PBS -l nodes={{nodes}}:ppn={{cpus_per_task}}'',
     ''#PBS -l walltime={{walltime}}'',
     ''#PBS -q {{partition}}'',
     ''#PBS -o {{job_name}}-$PBS_JOBID.out'',
     ''#PBS -e {{job_name}}-$PBS_JOBID.err'',
     [],
     ''{{module_loads}}'',
     ''{{env_setup}}'',
     [],
     ''cd {{work_dir}}'',
     ''{{run_command}}'',
     []]"

text \<open>\<open>_EMPTY_DIRECTIVE.match\<close> on a stripped line: after the keyword and white space, a word,
  and nothing but white space before a final equals sign.\<close>

definition empty_directive :: "string \<Rightarrow> bool" where
  "empty_directive l =
    (let rest = (case strip_prefix ''#SBATCH'' l of Some r \<Rightarrow> Some r | None \<Rightarrow> strip_prefix ''#PBS'' l) in
     case rest of None \<Rightarrow> False
     | Some r \<Rightarrow>
         let t = py_lstrip r in
         t \<noteq> r \<and> t \<noteq> [] \<and> last t = CHR ''='' \<and>
         (let u = py_rstrip (butlast t) in u \<noteq> [] \<and> \<not> list_ex py_isspace u))"

section \<open>Resolution\<close>

text \<open>\<open>v not in (None, "")\<close>.\<close>

fun given :: "pyval \<Rightarrow> bool" where
  "given PNone = False"
| "given (PStr s) = (s \<noteq> [])"
| "given v = True"

text \<open>\<open>int(v)\<close>.\<close>

fun as_integer :: "pyval \<Rightarrow> py_exc + int" where
  "as_integer (PBool b) = Inr (if b then 1 else 0)"
| "as_integer (PInt i) = Inr i"
| "as_integer (PFloat f) = to_int f"
| "as_integer (PStr s) = the_or (ValueError ''invalid literal for int() with base 10'') (py_int s)"
| "as_integer _ = Inl TypeError"

definition int_alias :: "string \<Rightarrow> string" where
  "int_alias k = (if k = ''ppn'' then ''cpus_per_task'' else k)"

definition text_alias :: "string \<Rightarrow> string" where
  "text_alias k = (if k = ''time_limit'' then ''walltime'' else if k = ''queue'' then ''partition'' else k)"

definition INT_KEYS :: "string list" where
  "INT_KEYS = [''nodes'', ''ntasks'', ''cpus_per_task'', ''ppn'']"

definition TEXT_KEYS :: "string list" where
  "TEXT_KEYS = [''walltime'', ''time_limit'', ''partition'', ''queue'', ''account'', ''memory'',
     ''module_loads'', ''env_setup'']"

definition given_in :: "pyval pydict \<Rightarrow> string \<Rightarrow> pyval option" where
  "given_in d k = (case dget d k of Some v \<Rightarrow> if given v then Some v else None | None \<Rightarrow> None)"

fun set_ints :: "pyval pydict \<Rightarrow> string list \<Rightarrow> pyval pydict \<Rightarrow> py_exc + pyval pydict" where
  "set_ints params [] merged = Inr merged"
| "set_ints params (k # ks) merged =
     (case given_in params k of
        None \<Rightarrow> set_ints params ks merged
      | Some v \<Rightarrow> bindr (as_integer v) (\<lambda>i. set_ints params ks (dput (int_alias k) (PInt i) merged)))"

definition set_texts :: "pyval pydict \<Rightarrow> string list \<Rightarrow> pyval pydict \<Rightarrow> pyval pydict" where
  "set_texts params ks merged = foldl (\<lambda>m k. case given_in params k of
     None \<Rightarrow> m | Some v \<Rightarrow> dput (text_alias k) v m) merged ks"

text \<open>\<open>_resolve\<close>: a missing or empty \<open>job_defaults\<close> is the empty dictionary.\<close>

definition resolve :: "pyval pydict \<Rightarrow> pyval pydict \<Rightarrow> py_exc + pyval pydict" where
  "resolve params job_defaults =
    (let merged0 = dupdate DEFAULTS (filter (\<lambda>(k, v). given v) job_defaults) in
     bindr (set_ints params INT_KEYS merged0) (\<lambda>merged1.
     let merged2 = set_texts params TEXT_KEYS merged1 in
     Inr (set_texts job_defaults (filter (\<lambda>k. \<not> dmem k params) TEXT_KEYS) merged2)))"

definition run_command :: "pyval pydict \<Rightarrow> string \<Rightarrow> string" where
  "run_command params engine =
    (if py_true (get_or params ''run_command'' PNone) then py_str (get_or params ''run_command'' PNone)
     else case engine_command engine of
       Some cmd \<Rightarrow> cmd (get_or params ''input_file'' (PStr ''pw.in'')) (get_or params ''output_file'' (PStr ''pw.out''))
     | None \<Rightarrow> ''srun '' @ engine)"

section \<open>Rendering\<close>

definition placeholder :: "string \<Rightarrow> string" where
  "placeholder k = ''{{'' @ k @ ''}}''"

definition fill :: "string \<Rightarrow> pyval pydict \<Rightarrow> string" where
  "fill template vs = foldl (\<lambda>t (k, v). replace_all (placeholder k) (py_str v) t) template vs"

definition render :: "string \<Rightarrow> pyval pydict \<Rightarrow> string" where
  "render template vs =
    py_strip (join nl (filter (\<lambda>l. \<not> empty_directive (py_strip l)) (splitlines (fill template vs)))) @ nl"

text \<open>What \<open>render_sbatch\<close> and \<open>render_qsub\<close> share: they differ in the template only.\<close>

definition render_job ::
  "string \<Rightarrow> pyval pydict \<Rightarrow> pyval pydict \<Rightarrow> string \<Rightarrow> string \<Rightarrow> string \<Rightarrow> py_exc + string" where
  "render_job template params job_defaults engine job_name work_dir =
    bindr (resolve params job_defaults) (\<lambda>r.
    Inr (render template
      (dput ''work_dir'' (PStr work_dir) (dput ''job_name'' (PStr job_name)
        (dput ''run_command'' (PStr (run_command params engine)) r)))))"

definition render_sbatch ::
  "pyval pydict \<Rightarrow> pyval pydict \<Rightarrow> string \<Rightarrow> string \<Rightarrow> string \<Rightarrow> py_exc + string" where
  "render_sbatch params job_defaults engine job_name work_dir =
    render_job SBATCH_TEMPLATE params job_defaults engine job_name work_dir"

definition render_qsub ::
  "pyval pydict \<Rightarrow> pyval pydict \<Rightarrow> string \<Rightarrow> string \<Rightarrow> string \<Rightarrow> py_exc + string" where
  "render_qsub params job_defaults engine job_name work_dir =
    render_job QSUB_TEMPLATE params job_defaults engine job_name work_dir"

section \<open>Precedence\<close>

definition over :: "pyval option \<Rightarrow> pyval option \<Rightarrow> pyval option" (* first given value *) where
  "over x y = (case x of None \<Rightarrow> y | Some v \<Rightarrow> Some v)"

lemma over_simps [simp]: "over None y = y" "over (Some v) y = Some v"
  by (simp_all add: over_def)

lemma dget_case_dput:
  "dget (case x of None \<Rightarrow> m | Some v \<Rightarrow> dput j v m) k = (if k = j then over x (dget m k) else dget m k)"
  by (cases x) (simp_all add: pydict)

lemma set_texts_simps:
  "set_texts p [] m = m"
  "set_texts p (k # ks) m = set_texts p ks (case given_in p k of None \<Rightarrow> m | Some v \<Rightarrow> dput (text_alias k) v m)"
  by (simp_all add: set_texts_def)

lemma dget_set_texts_none:
  "(\<And>j. j \<in> set ks \<Longrightarrow> text_alias j = k \<Longrightarrow> given_in p j = None) \<Longrightarrow> dget (set_texts p ks m) k = dget m k"
  by (induction ks arbitrary: m) (auto simp: set_texts_simps dget_case_dput)

lemma dget_set_texts:
  assumes "k \<in> set ks" "text_alias k = k" "\<And>j. j \<in> set ks \<Longrightarrow> text_alias j = k \<Longrightarrow> j \<noteq> k \<Longrightarrow> given_in p j = None"
  shows "dget (set_texts p ks m) k = over (given_in p k) (dget m k)"
  using assms
proof (induction ks arbitrary: m)
  case (Cons j ks)
  let ?m = "case given_in p j of None \<Rightarrow> m | Some v \<Rightarrow> dput (text_alias j) v m"
  have m: "over (given_in p k) (dget ?m k) = over (given_in p k) (dget m k)"
    using Cons.prems(2) Cons.prems(3) [of j] by (cases "j = k"; cases "given_in p k") (auto simp: dget_case_dput)
  show ?case
  proof (cases "k \<in> set ks")
    case True
    with Cons.IH [of ?m] Cons.prems m show ?thesis by (simp add: set_texts_simps)
  next
    case False
    then have eq: "j = k" using Cons.prems(1) by simp
    have "dget (set_texts p ks ?m) k = dget ?m k"
      by (rule dget_set_texts_none) (use Cons.prems(3) False in force)
    then show ?thesis using Cons.prems(2) unfolding set_texts_simps eq by (simp add: dget_case_dput)
  qed
qed simp

lemma set_ints_get:
  "set_ints p ks m = Inr m' \<Longrightarrow> k \<notin> int_alias ` set ks \<Longrightarrow> dget m' k = dget m k"
  by (induction ks arbitrary: m) (auto simp: bindr_eq_Inr pydict split: option.splits)

lemma given_in_dupdate:
  "wf_dict jd \<Longrightarrow> dget (dupdate D (filter (\<lambda>(k, v). given v) jd)) k = over (given_in jd k) (dget D k)"
proof -
  assume wf: "wf_dict jd"
  have wff: "wf_dict (filter (\<lambda>(k, v). given v) jd)"
    using wf by (simp add: wf_dict_def distinct_map_filter)
  have "dget (filter (\<lambda>(k, v). given v) jd) k = Some v \<longleftrightarrow> given_in jd k = Some v" for v
  proof -
    have "dget jd k = Some v \<longleftrightarrow> (k, v) \<in> set jd"
      using wf by (simp add: dget_def wf_dict_def)
    moreover have "dget (filter (\<lambda>(k, v). given v) jd) k = Some v \<longleftrightarrow> (k, v) \<in> set jd \<and> given v"
      using wff by (simp add: dget_def wf_dict_def)
    ultimately show ?thesis by (auto simp: given_in_def split: option.splits)
  qed
  then have f: "dget (filter (\<lambda>(k, v). given v) jd) k = given_in jd k"
    by (metis option.exhaust)
  show ?thesis by (simp add: dget_dupdate [OF wff] f over_def)
qed

text \<open>
  Precedence of the parameters. When neither dictionary uses an alias (\<open>ppn\<close>,
  \<open>time_limit\<close>, \<open>queue\<close>), each text option resolves to the node's own non-empty value, else the
  one of \<open>job_defaults\<close>, else the built-in one; a count that the node gives is its \<open>int()\<close>.
\<close>

theorem resolve_precedence:
  assumes "resolve params jd = Inr r" and wf: "wf_dict jd"
    and no_alias: "\<And>a. a \<in> {''ppn'', ''time_limit'', ''queue''} \<Longrightarrow> \<not> dmem a params \<and> \<not> dmem a jd"
  shows "(\<forall>k \<in> {''walltime'', ''partition'', ''account'', ''memory'', ''module_loads'', ''env_setup''}.
            dget r k = over (given_in params k) (over (given_in jd k) (dget DEFAULTS k)))
       \<and> (\<forall>k \<in> {''nodes'', ''ntasks'', ''cpus_per_task''}. case given_in params k of
            Some v \<Rightarrow> (\<exists>i. as_integer v = Inr i \<and> dget r k = Some (PInt i))
          | None \<Rightarrow> dget r k = over (given_in jd k) (dget DEFAULTS k))"
proof -
  let ?m0 = "dupdate DEFAULTS (filter (\<lambda>(k, v). given v) jd)"
  let ?ks = "filter (\<lambda>k. \<not> dmem k params) TEXT_KEYS"
  obtain m1 where m1: "set_ints params INT_KEYS ?m0 = Inr m1"
    and r: "r = set_texts jd ?ks (set_texts params TEXT_KEYS m1)"
    using assms(1) by (auto simp: resolve_def Let_def bindr_eq_Inr)
  have m0: "dget ?m0 k = over (given_in jd k) (dget DEFAULTS k)" for k
    by (rule given_in_dupdate [OF wf])
  have na: "given_in params a = None" "given_in jd a = None" if "a \<in> {''ppn'', ''time_limit'', ''queue''}" for a
    using no_alias [OF that] by (simp_all add: given_in_def dmem_def)
  show ?thesis
  proof (intro conjI ballI)
    fix k assume k: "k \<in> {''walltime'', ''partition'', ''account'', ''memory'', ''module_loads'', ''env_setup''}"
    then have own: "k \<in> set TEXT_KEYS" "text_alias k = k" "k \<notin> int_alias ` set INT_KEYS"
      by (auto simp: TEXT_KEYS_def text_alias_def INT_KEYS_def int_alias_def)
    have al: "j \<in> {''ppn'', ''time_limit'', ''queue''}" if "j \<in> set TEXT_KEYS" "text_alias j = k" "j \<noteq> k" for j
      using that by (auto simp: text_alias_def split: if_splits)
    have p: "dget (set_texts params TEXT_KEYS m1) k = over (given_in params k) (dget ?m0 k)"
      using dget_set_texts [OF own(1,2), of params m1] al na(1) set_ints_get [OF m1 own(3)] by simp
    show "dget r k = over (given_in params k) (over (given_in jd k) (dget DEFAULTS k))"
    proof (cases "dmem k params")
      case True
      then have "dget (set_texts jd ?ks m) k = dget m k" for m
        by (intro dget_set_texts_none na(2) al) auto
      with p m0 r show ?thesis by simp
    next
      case False
      then have "k \<in> set ?ks" using own by simp
      then have "dget r k = over (given_in jd k) (dget (set_texts params TEXT_KEYS m1) k)"
        unfolding r by (rule dget_set_texts [OF _ own(2)]) (use al na(2) in auto)
      moreover have "given_in params k = None"
        using False by (simp add: given_in_def dmem_def)
      ultimately show ?thesis using p m0 by (simp add: over_def split: option.splits)
    qed
  next
    fix k assume k: "k \<in> {''nodes'', ''ntasks'', ''cpus_per_task''}"
    then have "j \<in> set TEXT_KEYS \<Longrightarrow> text_alias j \<noteq> k" for j
      by (auto simp: TEXT_KEYS_def text_alias_def)
    then have "dget r k = dget m1 k"
      unfolding r by (intro trans [OF dget_set_texts_none dget_set_texts_none]) auto
    moreover have "case given_in params k of
            Some v \<Rightarrow> (\<exists>i. as_integer v = Inr i \<and> dget m1 k = Some (PInt i))
          | None \<Rightarrow> dget m1 k = dget ?m0 k"
      using m1 k na(1) [of "''ppn''"]
      by (cases "given_in params ''nodes''"; cases "given_in params ''ntasks''";
          cases "given_in params ''cpus_per_task''")
        (auto simp: INT_KEYS_def int_alias_def bindr_eq_Inr pydict)
    ultimately show "case given_in params k of
            Some v \<Rightarrow> (\<exists>i. as_integer v = Inr i \<and> dget r k = Some (PInt i))
          | None \<Rightarrow> dget r k = over (given_in jd k) (dget DEFAULTS k)"
      using m0 by (simp split: option.splits)
  qed
qed

text \<open>
  Through an alias the order is lost: when the node names its partition as \<open>queue\<close> (or
  its wall time as \<open>time_limit\<close>) and the job defaults name it by its own name, the default
  replaces the node's value.
\<close>

theorem alias_loses_precedence:
  assumes "resolve params jd = Inr r"
    and "(a, k) \<in> {(''queue'', ''partition''), (''time_limit'', ''walltime'')}"
    and "given_in params a = Some v" and "\<not> dmem k params"
    and "given_in jd k = Some w" and "given_in jd a = None"
  shows "dget r k = Some w"
proof -
  let ?ks = "filter (\<lambda>k. \<not> dmem k params) TEXT_KEYS"
  obtain m2 where r: "r = set_texts jd ?ks m2"
    using assms(1) by (auto simp: resolve_def Let_def bindr_eq_Inr)
  have k: "k \<in> set ?ks" "text_alias k = k" "\<And>j. text_alias j = k \<Longrightarrow> j \<noteq> k \<Longrightarrow> j = a"
    using assms(2,4) by (auto simp: TEXT_KEYS_def text_alias_def split: if_splits)
  have "dget r k = over (given_in jd k) (dget m2 k)"
    unfolding r by (rule dget_set_texts [OF k(1,2)]) (use k(3) assms(6) in auto)
  with assms(5) show ?thesis by simp
qed

lemma default_sbatch:
  "render_sbatch [] [] ''qe'' ''dftforge'' ''.'' = Inr (join nl
     [''#!/bin/bash'', ''#SBATCH --job-name=dftforge'', ''#SBATCH --nodes=1'', ''#SBATCH --ntasks=8'',
      ''#SBATCH --cpus-per-task=1'', ''#SBATCH --time=24:00:00'', ''#SBATCH --output=dftforge-%j.out'',
      ''#SBATCH --error=dftforge-%j.err'', [], [], [], [], ''cd .'',
      ''srun pw.x -in pw.in > pw.out'', []])"
  by code_simp

lemma default_qsub:
  "render_qsub [] [] ''qe'' ''dftforge'' ''.'' = Inr (join nl
     [''#!/bin/bash'', ''#PBS -N dftforge'', ''#PBS -l nodes=1:ppn=1'', ''#PBS -l walltime=24:00:00'',
      ''#PBS -q '', ''#PBS -o dftforge-$PBS_JOBID.out'', ''#PBS -e dftforge-$PBS_JOBID.err'',
      [], [], [], [], ''cd .'', ''srun pw.x -in pw.in > pw.out'', []])"
  by code_simp

text \<open>
  The default scripts. SLURM drops the options left empty; the PBS queue line has no
  equals sign, so an empty queue is kept as a directive without its argument.
\<close>

theorem default_scripts:
  "render_sbatch [] [] ''qe'' ''dftforge'' ''.'' = Inr (join nl
     [''#!/bin/bash'', ''#SBATCH --job-name=dftforge'', ''#SBATCH --nodes=1'', ''#SBATCH --ntasks=8'',
      ''#SBATCH --cpus-per-task=1'', ''#SBATCH --time=24:00:00'', ''#SBATCH --output=dftforge-%j.out'',
      ''#SBATCH --error=dftforge-%j.err'', [], [], [], [], ''cd .'',
      ''srun pw.x -in pw.in > pw.out'', []])
   \<and> render_qsub [] [] ''qe'' ''dftforge'' ''.'' = Inr (join nl
     [''#!/bin/bash'', ''#PBS -N dftforge'', ''#PBS -l nodes=1:ppn=1'', ''#PBS -l walltime=24:00:00'',
      ''#PBS -q '', ''#PBS -o dftforge-$PBS_JOBID.out'', ''#PBS -e dftforge-$PBS_JOBID.err'',
      [], [], [], [], ''cd .'', ''srun pw.x -in pw.in > pw.out'', []])"
  by (rule conjI [OF default_sbatch default_qsub])

section \<open>Witnesses\<close>

lemma demo_resolve:
  "resolve [(''ntasks'', PStr ''16''), (''partition'', PStr ''gpu'')]
     [(''ntasks'', PInt 4), (''account'', PStr ''grant''), (''partition'', PStr ''cpu'')] =
   Inr [(''nodes'', PInt 1), (''ntasks'', PInt 16), (''cpus_per_task'', PInt 1),
     (''walltime'', PStr ''24:00:00''), (''partition'', PStr ''gpu''), (''account'', PStr ''grant''),
     (''memory'', PStr []), (''module_loads'', PStr []), (''env_setup'', PStr [])]"
  by code_simp

theorem resolve_precedence_witness:
  "over (given_in [(''ntasks'', PStr ''16''), (''partition'', PStr ''gpu'')] ''partition'')
     (Some (PStr ''cpu'')) = Some (PStr ''gpu'')"
  using resolve_precedence [OF demo_resolve]
  by (simp add: wf_dict_def dmem_def dget_def given_in_def)

theorem alias_loses_precedence_witness:
  "\<exists>r. resolve [(''queue'', PStr ''gpu'')] [(''partition'', PStr ''cpu'')] = Inr r
     \<and> dget r ''partition'' = Some (PStr ''cpu'')"
proof -
  obtain r where r: "resolve [(''queue'', PStr ''gpu'')] [(''partition'', PStr ''cpu'')] = Inr r"
    by (simp add: resolve_def INT_KEYS_def given_in_def dget_def)
  have "dget r ''partition'' = Some (PStr ''cpu'')"
    by (rule alias_loses_precedence [OF r, of "''queue''" _ "PStr ''gpu''"])
      (simp_all add: given_in_def dget_def dmem_def)
  with r show ?thesis by blast
qed

end
