(* ===== verification/Hpc_Jobs.thy ===== *)
theory Hpc_Jobs
  imports Shell Hpc_Script
begin

text \<open>
  The SLURM and PBS adapters (\<open>hpc/scheduler.py\<close>) over a command runner
  (\<open>hpc/runner.py\<close>).

  What a command does on the other machine is a parameter: a \<open>runner\<close> answers a command
  given the commands it has run before, and every operation returns the longer history.
  So the answers may depend on anything that happened, and the history shows which commands
  an operation issued and in which order. The clock (\<open>int(time.time())\<close>) is an argument.
\<close>

section \<open>Runners\<close>

record cmd_result =
  exit_code :: int
  out :: string
  err :: string

definition ok :: "cmd_result \<Rightarrow> bool" where
  "ok r = (exit_code r = 0)"

type_synonym runner = "string list \<Rightarrow> string \<Rightarrow> cmd_result"

definition run :: "runner \<Rightarrow> string list \<Rightarrow> string \<Rightarrow> cmd_result \<times> string list" where
  "run r h cmd = (r h cmd, h @ [cmd])"

record ssh_cfg =
  host :: string
  username :: "string option"
  port :: int
  key_file :: "string option"
  jump_host :: "string option"
  connect_timeout :: int

text \<open>\<open>if self.key_file:\<close> is false for \<open>None\<close> and for the empty string.\<close>

definition set_opt :: "string option \<Rightarrow> string option" where
  "set_opt x = (case x of Some s \<Rightarrow> if s = [] then None else Some s | None \<Rightarrow> None)"

definition ssh_argv :: "ssh_cfg \<Rightarrow> string \<Rightarrow> string list" where
  "ssh_argv c remote_cmd =
    [''ssh'', ''-o'', ''ConnectTimeout='' @ show_int (connect_timeout c)]
    @ (if port c \<noteq> 22 then [''-p'', show_int (port c)] else [])
    @ (case set_opt (key_file c) of Some k \<Rightarrow> [''-i'', k] | None \<Rightarrow> [])
    @ (case set_opt (jump_host c) of Some j \<Rightarrow> [''-J'', j] | None \<Rightarrow> [])
    @ [(case set_opt (username c) of Some u \<Rightarrow> u @ ''@'' @ host c | None \<Rightarrow> host c),
       ''bash -l -c '' @ shlex_quote remote_cmd]"

section \<open>Job states\<close>

datatype job_status = JPending | JRunning | JCompleted | JFailed | JCancelled | JTimeout

definition SLURM_MAP :: "(string \<times> job_status) list" where
  "SLURM_MAP = [(''PENDING'', JPending), (''RUNNING'', JRunning), (''COMPLETED'', JCompleted),
     (''FAILED'', JFailed), (''CANCELLED'', JCancelled), (''TIMEOUT'', JFailed),
     (''NODE_FAIL'', JFailed), (''OUT_OF_MEMORY'', JFailed), (''PREEMPTED'', JCancelled),
     (''SUSPENDED'', JPending), (''CONFIGURING'', JPending), (''COMPLETING'', JRunning)]"

definition PBS_MAP :: "(string \<times> job_status) list" where
  "PBS_MAP = [(''Q'', JPending), (''H'', JPending), (''W'', JPending), (''T'', JPending),
     (''R'', JRunning), (''E'', JRunning), (''S'', JRunning), (''C'', JCompleted), (''F'', JFailed)]"

definition status_of :: "(string \<times> job_status) list \<Rightarrow> string \<Rightarrow> job_status" where
  "status_of m k = (case dget m k of Some s \<Rightarrow> s | None \<Rightarrow> JFailed)"

text \<open>\<open>SlurmScheduler._map\<close>: the first word, without trailing plus signs.\<close>

definition slurm_map :: "string \<Rightarrow> job_status" where
  "slurm_map state = status_of SLURM_MAP
     (case words state of [] \<Rightarrow> [] | w # _ \<Rightarrow> rev (dropWhile (\<lambda>c. c = CHR ''+'') (rev w)))"

section \<open>Submission\<close>

definition script_name :: "string \<Rightarrow> int \<Rightarrow> string" where
  "script_name job_name now = ''submit_'' @ job_name @ ''_'' @ show_int now @ ''.sh''"

definition heredoc_head :: "string \<Rightarrow> string \<Rightarrow> string" where
  "heredoc_head work_dir script_path =
    ''mkdir -p '' @ shlex_quote work_dir @ '' && cat > '' @ shlex_quote script_path"

definition EOF_MARK :: string where
  "EOF_MARK = ''DFTFORGE_EOF''"

definition heredoc_cmd :: "string \<Rightarrow> string \<Rightarrow> string \<Rightarrow> string" where
  "heredoc_cmd work_dir script_path script_text =
    heredoc_head work_dir script_path @ '' << '' @ [sq] @ EOF_MARK @ [sq] @ nl @
    script_text @ nl @ EOF_MARK"

definition submit_cmd :: "string \<Rightarrow> string \<Rightarrow> string \<Rightarrow> string" where
  "submit_cmd tool work_dir name = ''cd '' @ shlex_quote work_dir @ '' && '' @ tool @ '' '' @ shlex_quote name"

text \<open>Latin-1 characters that \<open>str.isdigit\<close> accepts: the digits and three superscripts.\<close>

definition py_isdigit :: "string \<Rightarrow> bool" where
  "py_isdigit s = (s \<noteq> [] \<and> list_all (\<lambda>c. is_digit c \<or> c \<in> {CHR 0xB2, CHR 0xB3, CHR 0xB9}) s)"

definition or_text :: "string \<Rightarrow> string \<Rightarrow> string" where
  "or_text s dflt = (if s = [] then dflt else s)"

type_synonym submission = "bool \<times> string \<times> string option"

definition slurm_reply :: "cmd_result \<Rightarrow> submission" where
  "slurm_reply res = (if \<not> ok res then (False, or_text (py_strip (err res)) ''sbatch failed'', None)
     else case find py_isdigit (words (out res)) of
       None \<Rightarrow> (False, ''could not parse job id from: '' @ py_strip (out res), None)
     | Some job_id \<Rightarrow> (True, ''submitted '' @ job_id, Some job_id))"

definition pbs_reply :: "cmd_result \<Rightarrow> submission" where
  "pbs_reply res = (if \<not> ok res \<or> py_strip (out res) = []
     then (False, or_text (py_strip (err res)) ''qsub failed'', None)
     else (True, ''submitted'', Some (hd (split_on (CHR ''.'') (py_strip (out res))))))"

text \<open>\<open>submit_job\<close> of both adapters: write the script, then hand it to the batch system. The
  resource arguments are not used by either.\<close>

definition submit_with ::
  "string \<Rightarrow> (cmd_result \<Rightarrow> submission) \<Rightarrow> runner \<Rightarrow> int \<Rightarrow> string list \<Rightarrow> string \<Rightarrow> string \<Rightarrow> string
     \<Rightarrow> submission \<times> string list" where
  "submit_with tool reply r now h script_text work_dir job_name =
    (let name = script_name job_name now;
         (res, h1) = run r h (heredoc_cmd work_dir (work_dir @ ''/'' @ name) script_text) in
     if \<not> ok res then ((False, ''failed to write script: '' @ py_strip (err res), None), h1)
     else let (res2, h2) = run r h1 (submit_cmd tool work_dir name) in (reply res2, h2))"

definition slurm_submit :: "runner \<Rightarrow> int \<Rightarrow> string list \<Rightarrow> string \<Rightarrow> string \<Rightarrow> string \<Rightarrow> submission \<times> string list" where
  "slurm_submit = submit_with ''sbatch'' slurm_reply"

definition pbs_submit :: "runner \<Rightarrow> int \<Rightarrow> string list \<Rightarrow> string \<Rightarrow> string \<Rightarrow> string \<Rightarrow> submission \<times> string list" where
  "pbs_submit = submit_with ''qsub'' pbs_reply"

section \<open>Status and cancellation\<close>

definition bar :: char where "bar = CHR ''|''"

definition squeue_cmd :: "string \<Rightarrow> string" where
  "squeue_cmd job_id = ''squeue -j '' @ shlex_quote job_id @ '' -h -o '' @ [sq] @ ''%i|%T'' @ [sq]"

definition sacct_cmd :: "string \<Rightarrow> string" where
  "sacct_cmd job_id = ''sacct -j '' @ shlex_quote job_id @ '' -n -o '' @ [sq] @ ''JobID,State'' @ [sq] @ '' --parsable2''"

text \<open>The state \<open>squeue\<close> reports for the job: the second field of the first line whose first
  field is the job id.\<close>

fun squeue_line :: "string \<Rightarrow> string list \<Rightarrow> string option" where
  "squeue_line job_id [] = None"
| "squeue_line job_id (l # ls) =
     (case split_on bar l of
        p0 # p1 # _ \<Rightarrow> if p0 = job_id then Some p1 else squeue_line job_id ls
      | _ \<Rightarrow> squeue_line job_id ls)"

text \<open>The state \<open>sacct\<close> reports: job steps (a dot in the id) are skipped.\<close>

fun sacct_line :: "string \<Rightarrow> string list \<Rightarrow> string option" where
  "sacct_line job_id [] = None"
| "sacct_line job_id (l # ls) =
     (case split_on bar l of
        jid # raw # _ \<Rightarrow>
          if CHR ''.'' \<in> set jid then sacct_line job_id ls
          else if jid = job_id then Some (py_strip raw) else sacct_line job_id ls
      | _ \<Rightarrow> sacct_line job_id ls)"

definition slurm_status :: "runner \<Rightarrow> string list \<Rightarrow> string \<Rightarrow> job_status option \<times> string list" where
  "slurm_status r h job_id =
    (let (res, h1) = run r h (squeue_cmd job_id) in
     case (if ok res then squeue_line job_id (splitlines (py_strip (out res))) else None) of
       Some st \<Rightarrow> (Some (slurm_map st), h1)
     | None \<Rightarrow>
         let (res2, h2) = run r h1 (sacct_cmd job_id) in
         (if \<not> ok res2 then None
          else map_option slurm_map (sacct_line job_id (splitlines (py_strip (out res2)))), h2))"

text \<open>\<open>line.split("=", 1)[1].strip()[:1]\<close> of the first line with the key and an equals sign.\<close>

fun qstat_line :: "string list \<Rightarrow> string option" where
  "qstat_line [] = None"
| "qstat_line (l # ls) =
     (if contains ''job_state'' l \<and> CHR ''='' \<in> set l
      then Some (take 1 (py_strip (tl (dropWhile (\<lambda>c. c \<noteq> CHR ''='') l))))
      else qstat_line ls)"

definition pbs_status :: "runner \<Rightarrow> string list \<Rightarrow> string \<Rightarrow> job_status option \<times> string list" where
  "pbs_status r h job_id =
    (let (res, h1) = run r h (''qstat -f '' @ shlex_quote job_id) in
     (if \<not> ok res then None else map_option (status_of PBS_MAP) (qstat_line (splitlines (out res))), h1))"

definition cancel_with :: "string \<Rightarrow> runner \<Rightarrow> string list \<Rightarrow> string \<Rightarrow> (bool \<times> string) \<times> string list" where
  "cancel_with tool r h job_id =
    (let (res, h1) = run r h (tool @ '' '' @ shlex_quote job_id) in
     ((ok res, if ok res then ''cancelled'' else py_strip (err res)), h1))"

definition slurm_cancel :: "runner \<Rightarrow> string list \<Rightarrow> string \<Rightarrow> (bool \<times> string) \<times> string list" where
  "slurm_cancel = cancel_with ''scancel''"

definition pbs_cancel :: "runner \<Rightarrow> string list \<Rightarrow> string \<Rightarrow> (bool \<times> string) \<times> string list" where
  "pbs_cancel = cancel_with ''qdel''"

section \<open>One call\<close>

text \<open>\<open>d.setdefault(k, v)\<close>.\<close>

definition setdefault :: "string \<Rightarrow> pyval \<Rightarrow> pyval pydict \<Rightarrow> pyval pydict" where
  "setdefault k v d = (if dmem k d then d else dput k v d)"

text \<open>The resource arguments are computed before the call, so a count that is no number raises;
  \<open>submit_job\<close> itself ignores them.\<close>

definition build_sbatch_for_qe ::
  "runner \<Rightarrow> int \<Rightarrow> string list \<Rightarrow> string \<Rightarrow> string \<Rightarrow> string \<Rightarrow> string \<Rightarrow> pyval pydict
     \<Rightarrow> (py_exc + submission) \<times> string list" where
  "build_sbatch_for_qe r now h work_dir input_file output_file job_name params0 =
    (let params = setdefault ''output_file'' (PStr output_file)
                   (setdefault ''input_file'' (PStr input_file) params0) in
     case bindr (render_sbatch params [] ''qe'' job_name work_dir) (\<lambda>script.
          bindr (as_integer (get_or params ''nodes'' (PInt 1))) (\<lambda>_.
          bindr (as_integer (get_or params ''ntasks'' (PInt 8))) (\<lambda>_.
          bindr (as_integer (get_or params ''cpus_per_task'' (PInt 1))) (\<lambda>_. Inr script)))) of
       Inl e \<Rightarrow> (Inl e, h)
     | Inr script \<Rightarrow>
         let (s, h') = slurm_submit r now h script work_dir job_name in (Inr s, h'))"

section \<open>The contract of an adapter\<close>

text \<open>The two commands of a submission.\<close>

definition write_step :: "int \<Rightarrow> string \<Rightarrow> string \<Rightarrow> string \<Rightarrow> string" where
  "write_step now script_text work_dir job_name =
    heredoc_cmd work_dir (work_dir @ ''/'' @ script_name job_name now) script_text"

definition submit_step :: "string \<Rightarrow> int \<Rightarrow> string \<Rightarrow> string \<Rightarrow> string" where
  "submit_step tool now work_dir job_name = submit_cmd tool work_dir (script_name job_name now)"

text \<open>What the users of \<open>SchedulerInterface\<close> rely on. SLURM and PBS are the two instances.\<close>

locale job_scheduler =
  fixes submit :: "runner \<Rightarrow> int \<Rightarrow> string list \<Rightarrow> string \<Rightarrow> string \<Rightarrow> string \<Rightarrow> submission \<times> string list"
    and status :: "runner \<Rightarrow> string list \<Rightarrow> string \<Rightarrow> job_status option \<times> string list"
    and cancel :: "runner \<Rightarrow> string list \<Rightarrow> string \<Rightarrow> (bool \<times> string) \<times> string list"
    and tool :: string and cancel_tool :: string
  assumes write_fails: "\<not> ok (r h (write_step now s w j)) \<Longrightarrow>
      \<exists>m. submit r now h s w j = ((False, m, None), h @ [write_step now s w j])"
    and write_ok: "ok (r h (write_step now s w j)) \<Longrightarrow>
      snd (submit r now h s w j) = h @ [write_step now s w j, submit_step tool now w j]"
    and id_iff: "fst (submit r now h s w j) = (b, m, jid) \<Longrightarrow> b \<longleftrightarrow> jid \<noteq> None"
    and accepted: "ok (r h (write_step now s w j)) \<Longrightarrow> fst (submit r now h s w j) = (True, m, jid) \<Longrightarrow>
      ok (r (h @ [write_step now s w j]) (submit_step tool now w j))"
    and status_asks: "\<exists>cs. snd (status r h i) = h @ cs \<and> cs \<noteq> [] \<and> length cs \<le> 2"
    and status_known: "fst (status r h i) \<noteq> None \<Longrightarrow> \<exists>h' c. snd (status r h i) = h' @ [c] \<and> ok (r h' c)"
    and cancel_one: "\<exists>m. cancel r h i =
      ((ok (r h (cancel_tool @ '' '' @ shlex_quote i)), m), h @ [cancel_tool @ '' '' @ shlex_quote i])"
begin

lemma submit_cases:
  obtains m where "\<not> ok (r h (write_step now s w j))"
      "submit r now h s w j = ((False, m, None), h @ [write_step now s w j])"
  | b m jid where "ok (r h (write_step now s w j))"
      "submit r now h s w j = ((b, m, jid), h @ [write_step now s w j, submit_step tool now w j])"
      "b \<longleftrightarrow> jid \<noteq> None" "b \<longrightarrow> ok (r (h @ [write_step now s w j]) (submit_step tool now w j))"
proof (cases "ok (r h (write_step now s w j))")
  case True
  obtain b m jid where f: "fst (submit r now h s w j) = (b, m, jid)" by (cases "fst (submit r now h s w j)")
  then have "submit r now h s w j = ((b, m, jid), h @ [write_step now s w j, submit_step tool now w j])"
    using write_ok [where r = r and h = h, OF True] by (cases "submit r now h s w j") auto
  with f True that(2) id_iff [OF f] accepted [where r = r and h = h, OF True] show ?thesis by (cases b) auto
next
  case False
  with write_fails [where r = r and h = h, OF False] that(1) show ?thesis by blast
qed

text \<open>A submission reports success exactly with a job id, only after both commands succeeded,
  and hands nothing to the batch system when the script could not be written.\<close>

lemma submission_outcome:
  assumes "submit r now h s w j = ((b, m, jid), h')"
  shows "(b \<longleftrightarrow> jid \<noteq> None)
     \<and> (b \<longrightarrow> h' = h @ [write_step now s w j, submit_step tool now w j]
            \<and> ok (r h (write_step now s w j))
            \<and> ok (r (h @ [write_step now s w j]) (submit_step tool now w j)))
     \<and> (\<not> ok (r h (write_step now s w j)) \<longrightarrow> \<not> b \<and> h' = h @ [write_step now s w j])"
  using assms by (rule_tac submit_cases [of r h now s w j]) auto

lemma appends:
  "\<exists>cs. snd (submit r now h s w j) = h @ cs" "\<exists>cs. snd (status r h i) = h @ cs"
  "\<exists>cs. snd (cancel r h i) = h @ cs"
  using status_asks [of r h i] cancel_one [of r h i]
  by (auto intro: submit_cases [of r h now s w j])

end

lemma submit_with_eq: "submit_with tool reply r now h s w j =
    (if ok (r h (write_step now s w j))
     then (reply (r (h @ [write_step now s w j]) (submit_step tool now w j)),
           h @ [write_step now s w j, submit_step tool now w j])
     else ((False, ''failed to write script: '' @ py_strip (err (r h (write_step now s w j))), None),
           h @ [write_step now s w j]))"
  by (simp add: submit_with_def run_def write_step_def submit_step_def Let_def)

lemma cancel_with_eq: "cancel_with tool r h i =
    ((ok (r h (tool @ '' '' @ shlex_quote i)),
      if ok (r h (tool @ '' '' @ shlex_quote i)) then ''cancelled''
      else py_strip (err (r h (tool @ '' '' @ shlex_quote i)))), h @ [tool @ '' '' @ shlex_quote i])"
  by (simp add: cancel_with_def run_def Let_def)

interpretation slurm: job_scheduler slurm_submit slurm_status slurm_cancel "''sbatch''" "''scancel''"
proof unfold_locales
  show "fst (slurm_status r h i) \<noteq> None \<Longrightarrow>
      \<exists>h' c. snd (slurm_status r h i) = h' @ [c] \<and> ok (r h' c)" for r h i
    by (force simp: slurm_status_def run_def Let_def split: option.splits if_splits)
qed (auto simp: slurm_submit_def slurm_cancel_def submit_with_eq cancel_with_eq slurm_status_def run_def
    slurm_reply_def Let_def split: if_splits option.splits)

interpretation pbs: job_scheduler pbs_submit pbs_status pbs_cancel "''qsub''" "''qdel''"
proof unfold_locales
  show "fst (pbs_status r h i) \<noteq> None \<Longrightarrow>
      \<exists>h' c. snd (pbs_status r h i) = h' @ [c] \<and> ok (r h' c)" for r h i
    by (auto simp: pbs_status_def run_def Let_def split: if_splits)
qed (auto simp: pbs_submit_def pbs_cancel_def submit_with_eq cancel_with_eq pbs_status_def run_def
    pbs_reply_def Let_def split: if_splits)

section \<open>Words of the commands\<close>

text \<open>The literal words of the commands, read one by one.\<close>

lemma lit_word: "list_all sh_safe s \<Longrightarrow> s \<noteq> [] \<Longrightarrow> sh_lex None (s @ CHR '' '' # r) = map_option ((#) (Word s)) (sh_lex None r)"
  by (rule sh_lex_word_blank)

lemma lit_safe: "list_all sh_safe ''mkdir''" "list_all sh_safe ''-p''" "list_all sh_safe ''cat''"
  "list_all sh_safe ''cd''" "list_all sh_safe ''sbatch''" "list_all sh_safe ''qsub''"
  "list_all sh_safe ''scancel''" "list_all sh_safe ''qdel''" "list_all sh_safe ''bash''"
  "list_all sh_safe ''-l''" "list_all sh_safe ''-c''" "list_all sh_safe ''squeue''" "list_all sh_safe ''sacct''"
  "list_all sh_safe ''qstat''" "list_all sh_safe ''-j''" "list_all sh_safe ''-f''"
  by code_simp+

lemmas lit_words = lit_safe [THEN lit_word, simplified]

lemma format_words:
  "sh_lex None (''-h -o '' @ [sq] @ ''%i|%T'' @ [sq]) = Some [Word ''-h'', Word ''-o'', Word ''%i|%T'']"
  "sh_lex None (''-n -o '' @ [sq] @ ''JobID,State'' @ [sq] @ '' --parsable2'')
     = Some [Word ''-n'', Word ''-o'', Word ''JobID,State'', Word ''--parsable2'']"
  by code_simp+

lemma query_words:
  "sh_tokens (squeue_cmd i) = Some [Word ''squeue'', Word ''-j'', Word i, Word ''-h'', Word ''-o'', Word ''%i|%T'']"
  "sh_tokens (sacct_cmd i) = Some [Word ''sacct'', Word ''-j'', Word i, Word ''-n'', Word ''-o'', Word ''JobID,State'', Word ''--parsable2'']"
  "sh_tokens (''qstat -f '' @ shlex_quote i) = Some [Word ''qstat'', Word ''-f'', Word i]"
  using format_words by (simp_all add: squeue_cmd_def sacct_cmd_def sh_tokens_def lit_words sh_cmd)

lemma submit_words:
  "sh_tokens (heredoc_head w p) = Some [Word ''mkdir'', Word ''-p'', Word w, Op ''&&'', Word ''cat'', Op ''>'', Word p]"
  "tool \<in> {''sbatch'', ''qsub''} \<Longrightarrow>
     sh_tokens (submit_cmd tool w name) = Some [Word ''cd'', Word w, Op ''&&'', Word tool, Word name]"
  "ctool \<in> {''scancel'', ''qdel''} \<Longrightarrow> sh_tokens (ctool @ '' '' @ shlex_quote i) = Some [Word ctool, Word i]"
  by (auto simp: heredoc_head_def submit_cmd_def sh_tokens_def sh_cmd lit_words)

section \<open>Properties\<close>

text \<open>
  C37. A submission reports success exactly when it returns a job id, and then the script was
  written and accepted by the batch system, in this order and with nothing else run; a script
  that could not be written is never submitted. This holds of SLURM and of PBS.
\<close>

theorem submission_is_two_steps:
  assumes "(submit, tool) \<in> {(slurm_submit, ''sbatch''), (pbs_submit, ''qsub'')}"
    and "submit r now h s w j = ((b, m, jid), h')"
  shows "(b \<longleftrightarrow> jid \<noteq> None)
     \<and> (b \<longrightarrow> h' = h @ [write_step now s w j, submit_step tool now w j]
            \<and> ok (r h (write_step now s w j))
            \<and> ok (r (h @ [write_step now s w j]) (submit_step tool now w j)))
     \<and> (\<not> ok (r h (write_step now s w j)) \<longrightarrow> \<not> b \<and> h' = h @ [write_step now s w j])"
  using assms slurm.submission_outcome [of r now h s w j] pbs.submission_outcome [of r now h s w j] by auto

text \<open>
  C38. No argument is read by the shell as anything but itself. For every working directory, job name, script and job id the
  commands that the operations of an adapter issue are read as exactly the words meant: a submission makes the directory and
  writes the script with a here document, which holds the script and a final line feed provided no line of the script is the
  end mark, and then changes into the directory and submits the script by name; a status query asks \<open>squeue\<close> and, where that
  does not tell, \<open>sacct\<close>, or \<open>qstat\<close>; a cancellation is one command. Each names the job id as one word.
\<close>

theorem commands_exact:
  assumes "EOF_MARK \<notin> set (split_on (CHR 0x0A) script)"
    and "(submit, tool) \<in> {(slurm_submit, ''sbatch''), (pbs_submit, ''qsub'')}"
    and "(cancel, ctool) \<in> {(slurm_cancel, ''scancel''), (pbs_cancel, ''qdel'')}"
  shows "(\<exists>name front c cs. name = script_name job_name now
           \<and> c = front @ '' << '' @ [sq] @ EOF_MARK @ [sq] @ nl @ script @ nl @ EOF_MARK
           \<and> sh_tokens front = Some [Word ''mkdir'', Word ''-p'', Word w, Op ''&&'', Word ''cat'', Op ''>'', Word (w @ ''/'' @ name)]
           \<and> heredoc_body EOF_MARK (script @ nl @ EOF_MARK) = Some (script @ nl)
           \<and> snd (submit r now h script w job_name) = h @ c # cs
           \<and> map sh_tokens cs = (if ok (r h c) then [Some [Word ''cd'', Word w, Op ''&&'', Word tool, Word name]] else []))
       \<and> (\<exists>cs. snd (slurm_status r h i) = h @ cs
           \<and> map sh_tokens cs \<in> {[Some [Word ''squeue'', Word ''-j'', Word i, Word ''-h'', Word ''-o'', Word ''%i|%T'']],
               [Some [Word ''squeue'', Word ''-j'', Word i, Word ''-h'', Word ''-o'', Word ''%i|%T''],
                Some [Word ''sacct'', Word ''-j'', Word i, Word ''-n'', Word ''-o'', Word ''JobID,State'', Word ''--parsable2'']]})
       \<and> (\<exists>cs. snd (pbs_status r h i) = h @ cs \<and> map sh_tokens cs = [Some [Word ''qstat'', Word ''-f'', Word i]])
       \<and> (\<exists>cs. snd (cancel r h i) = h @ cs \<and> map sh_tokens cs = [Some [Word ctool, Word i]])"
proof (intro conjI)
  let ?name = "script_name job_name now"
  have t: "tool \<in> {''sbatch'', ''qsub''}" "ctool \<in> {''scancel'', ''qdel''}" using assms(2,3) by auto
  have eof: "CHR 0x0A \<notin> set EOF_MARK" by (simp add: EOF_MARK_def)
  have "snd (submit r now h script w job_name) = h @ write_step now script w job_name
      # (if ok (r h (write_step now script w job_name)) then [submit_cmd tool w ?name] else [])"
    using assms(2) by (auto simp: slurm_submit_def pbs_submit_def submit_with_eq submit_step_def)
  then show "\<exists>name front c cs. name = ?name
      \<and> c = front @ '' << '' @ [sq] @ EOF_MARK @ [sq] @ nl @ script @ nl @ EOF_MARK
      \<and> sh_tokens front = Some [Word ''mkdir'', Word ''-p'', Word w, Op ''&&'', Word ''cat'', Op ''>'', Word (w @ ''/'' @ name)]
      \<and> heredoc_body EOF_MARK (script @ nl @ EOF_MARK) = Some (script @ nl)
      \<and> snd (submit r now h script w job_name) = h @ c # cs
      \<and> map sh_tokens cs = (if ok (r h c) then [Some [Word ''cd'', Word w, Op ''&&'', Word tool, Word name]] else [])"
    using heredoc_exact [OF assms(1)] eof submit_words(2) [OF t(1)]
    by (intro exI [of _ ?name] exI [of _ "heredoc_head w (w @ ''/'' @ ?name)"] exI [of _ "write_step now script w job_name"]
        exI [of _ "if ok (r h (write_step now script w job_name)) then [submit_cmd tool w ?name] else []"])
      (simp add: write_step_def heredoc_cmd_def submit_words(1))
  show "\<exists>cs. snd (cancel r h i) = h @ cs \<and> map sh_tokens cs = [Some [Word ctool, Word i]]"
    using assms(3) submit_words(3) [OF t(2)] by (auto simp: slurm_cancel_def pbs_cancel_def cancel_with_eq)
qed (auto simp: slurm_status_def pbs_status_def run_def Let_def query_words query_words(3) [simplified] split: option.splits)

text \<open>
  The last argument of the \<open>ssh\<close> call, read by the shell of the remote machine, runs
  \<open>bash -l -c\<close> on exactly the given command; user, port, key and jump host come before it.
\<close>

theorem ssh_command_exact:
  "sh_tokens (last (ssh_argv c cmd)) = Some [Word ''bash'', Word ''-l'', Word ''-c'', Word cmd]
   \<and> butlast (ssh_argv c cmd) = butlast (ssh_argv c cmd')"
  by (simp add: ssh_argv_def butlast_append sh_tokens_def lit_words sh_cmd)

section \<open>Witnesses\<close>

text \<open>A machine whose batch system accepts everything.\<close>

definition happy :: runner where
  "happy h c = \<lparr>exit_code = 0, out = (if contains ''sbatch'' c then ''Submitted batch job 42'' else []), err = []\<rparr>"

lemma happy_submit: "fst (slurm_submit happy 7 [] ''true'' ''/my work'' ''j'') = (True, ''submitted 42'', Some ''42'')"
  by code_simp

theorem submission_is_two_steps_witness:
  "ok (happy [] (write_step 7 ''true'' ''/my work'' ''j''))
   \<and> snd (slurm_submit happy 7 [] ''true'' ''/my work'' ''j'')
       = [write_step 7 ''true'' ''/my work'' ''j'', submit_step ''sbatch'' 7 ''/my work'' ''j'']"
proof -
  obtain h' where "slurm_submit happy 7 [] ''true'' ''/my work'' ''j'' = ((True, ''submitted 42'', Some ''42''), h')"
    using happy_submit by (cases "slurm_submit happy 7 [] ''true'' ''/my work'' ''j''") auto
  with submission_is_two_steps [of slurm_submit "''sbatch''", OF _ this] show ?thesis by simp
qed

text \<open>A directory, a job name and a job id that a shell would take apart.\<close>

theorem commands_exact_witness:
  "\<exists>c1 c2 c3. snd (slurm_submit happy 7 [] ''true'' ''/tmp/a; rm -rf b'' ''it's'') = [c1, c2]
     \<and> sh_tokens c2 = Some [Word ''cd'', Word ''/tmp/a; rm -rf b'', Op ''&&'', Word ''sbatch'', Word ''submit_it's_7.sh'']
     \<and> snd (pbs_cancel happy [] ''1; reboot'') = [c3] \<and> sh_tokens c3 = Some [Word ''qdel'', Word ''1; reboot'']"
proof -
  have "EOF_MARK \<notin> set (split_on (CHR 0x0A) ''true'')" "show_int 7 = ''7''" by code_simp+
  then show ?thesis
    using commands_exact [of "''true''" slurm_submit "''sbatch''" pbs_cancel "''qdel''" "''it's''" 7 "''/tmp/a; rm -rf b''" happy "[]" "''1; reboot''"]
    by (auto simp: ok_def happy_def script_name_def map_eq_Cons_conv)
qed

end
