(* ===== verification/Catalog_Data.thy ===== *)
theory Catalog_Data
  imports Py_Text
begin

text \<open>
  The material tables: \<open>LIBRARY_MATERIALS\<close> (\<open>catalog/library.py\<close>) and the built-in
  \<open>MATERIALS\<close> (\<open>catalog/__init__.py\<close>), entry by entry.

  An entry is a dictionary with fixed keys; it is a record here, and a key that only some
  entries have is an option. Lengths are in Angstrom, angles in degrees, sites fractional;
  decimal literals are their exact values. The Greek letter that starts three labels stands
  as its two UTF-8 bytes.
\<close>

record db_entry =
  db_formula :: string
  db_structure_type :: string
  db_space_group :: string
  db_mp_id :: "string option"
  db_name :: "string option"
  db_ibrav :: int
  db_lattice :: "pyfloat option"
  db_natoms_primitive :: "int option"
  db_cellpar :: "rat list option"
  db_sites :: "(string \<times> rat list) list option"
  db_nspecies :: int
  db_species :: "string list"
  db_masses :: "pyfloat list"
  db_pseudos :: "string pydict"
  db_occupations :: string
  db_smearing :: string
  db_degauss :: pyfloat
  db_ecutwfc :: "pyfloat option"
  db_ecutrho :: "pyfloat option"
  db_kpoints :: "int list option"
  db_charge :: "int option"
  db_is_metal :: bool
  db_category :: "string option"

text \<open>An entry of the library, its arguments in the order of the keys of the source.\<close>

definition lib_entry ::
  "string \<Rightarrow> string \<Rightarrow> string \<Rightarrow> string \<Rightarrow> string \<Rightarrow> int \<Rightarrow> rat list \<Rightarrow> (string \<times> rat list) list \<Rightarrow> int
   \<Rightarrow> string list \<Rightarrow> rat list \<Rightarrow> string pydict \<Rightarrow> string \<Rightarrow> string \<Rightarrow> rat \<Rightarrow> rat \<Rightarrow> rat \<Rightarrow> int list \<Rightarrow> bool
   \<Rightarrow> string \<Rightarrow> db_entry" where
  "lib_entry formula structure_type space_group mp_id name ibrav cellpar sites nspecies species masses
     pseudos occupations smearing degauss ecutwfc ecutrho kpoints is_metal category =
   \<lparr>db_formula = formula, db_structure_type = structure_type, db_space_group = space_group,
    db_mp_id = Some mp_id, db_name = Some name, db_ibrav = ibrav, db_lattice = None,
    db_natoms_primitive = None, db_cellpar = Some cellpar, db_sites = Some sites,
    db_nspecies = nspecies, db_species = species, db_masses = map Fin masses, db_pseudos = pseudos,
    db_occupations = occupations, db_smearing = smearing, db_degauss = Fin degauss,
    db_ecutwfc = Some (Fin ecutwfc), db_ecutrho = Some (Fin ecutrho), db_kpoints = Some kpoints,
    db_charge = None, db_is_metal = is_metal, db_category = Some category\<rparr>"

section \<open>The built-in materials\<close>

definition builtin_entry ::
  "string \<Rightarrow> string \<Rightarrow> string \<Rightarrow> int \<Rightarrow> rat \<Rightarrow> int \<Rightarrow> int \<Rightarrow> string list \<Rightarrow> rat list \<Rightarrow> string pydict
   \<Rightarrow> string \<Rightarrow> string \<Rightarrow> rat \<Rightarrow> int \<Rightarrow> bool \<Rightarrow> db_entry" where
  "builtin_entry formula structure_type space_group ibrav lattice natoms nspecies species masses pseudos
     occupations smearing degauss charge is_metal =
   \<lparr>db_formula = formula, db_structure_type = structure_type, db_space_group = space_group,
    db_mp_id = None, db_name = None, db_ibrav = ibrav, db_lattice = Some (Fin lattice),
    db_natoms_primitive = Some natoms, db_cellpar = None, db_sites = None,
    db_nspecies = nspecies, db_species = species, db_masses = map Fin masses, db_pseudos = pseudos,
    db_occupations = occupations, db_smearing = smearing, db_degauss = Fin degauss,
    db_ecutwfc = None, db_ecutrho = None, db_kpoints = None,
    db_charge = Some charge, db_is_metal = is_metal, db_category = None\<rparr>"

definition MATERIALS :: "db_entry pydict" where
  "MATERIALS =
    [(''Si'', builtin_entry ''Si'' ''diamond'' ''Fd-3m'' 2 (543 / 100) 2 1 [''Si''] [28086 / 1000]
        [(''Si'', ''Si_r.upf'')] ''smearing'' ''mp'' (5 / 1000) 0 False),
     (''Al'', builtin_entry ''Al'' ''fcc'' ''Fm-3m'' 2 (405 / 100) 1 1 [''Al''] [26982 / 1000]
        [(''Al'', ''Al.upf'')] ''smearing'' ''mp'' (2 / 100) 0 True),
     (''MgO'', builtin_entry ''MgO'' ''nacl'' ''Fm-3m'' 2 (421 / 100) 2 2 [''Mg'', ''O'']
        [24305 / 1000, 15999 / 1000] [(''Mg'', ''Mg.pz-n-vbc.UPF''), (''O'', ''O-q6.gth'')]
        ''smearing'' ''mp'' (1 / 100) 0 False)]"

section \<open>The library\<close>

definition library_1 :: "db_entry pydict" where
  "library_1 =
    [(''Ag'', lib_entry ''Ag'' ''fcc'' ''Fm-3m'' ''mp-124''
       ''silver (fcc)'' 0 [2902218 / 1000000, 2902218 / 1000000, 2902218 / 1000000, 60, 60, 60]
       [(''Ag'', [0, 0, 0])]
       1 [''Ag''] [1078682 / 10000]
       [(''Ag'', ''Ag.upf'')]
       ''smearing'' ''mp'' (2 / 100) (45) (360)
       [8, 8, 8, 1, 1, 1] True ''nonmagnetic_transition_metals''),
     (''AlAs'', lib_entry ''AlAs'' ''zincblende'' ''F-43m'' ''mp-2172''
       ''aluminum arsenide (zincblende)'' 0 [4013398 / 1000000, 4013398 / 1000000, 4013398 / 1000000, 60, 60, 60]
       [(''Al'', [0, 0, 0]), (''As'', [75 / 100, 75 / 100, 75 / 100])]
       2 [''Al'', ''As''] [269815385 / 10000000, 74921595 / 1000000]
       [(''Al'', ''Al.upf''), (''As'', ''As.upf'')]
       ''smearing'' ''mp'' (1 / 100) (45) (360)
       [6, 6, 6, 1, 1, 1] False ''iii_v_semiconductors''),
     (''AlN'', lib_entry ''AlN'' ''wurtzite'' ''P6_3mc'' ''mp-661''
       ''aluminum nitride (wurtzite)'' 0 [3128588 / 1000000, 3128588 / 1000000, 5016955 / 1000000, 90, 90, 120]
       [(''Al'', [666667 / 1000000, 333333 / 1000000, 499287 / 1000000]), (''Al'', [333333 / 1000000, 666667 / 1000000, 999287 / 1000000]), (''N'', [666667 / 1000000, 333333 / 1000000, 880713 / 1000000]), (''N'', [333333 / 1000000, 666667 / 1000000, 380713 / 1000000])]
       2 [''Al'', ''N''] [269815385 / 10000000, 14007 / 1000]
       [(''Al'', ''Al.upf''), (''N'', ''N.upf'')]
       ''smearing'' ''mp'' (1 / 100) (60) (480)
       [6, 6, 4, 1, 1, 1] False ''iii_v_semiconductors''),
     (''AlP'', lib_entry ''AlP'' ''zincblende'' ''F-43m'' ''mp-1550''
       ''aluminum phosphide (zincblende)'' 0 [3869972 / 1000000, 3869972 / 1000000, 3869972 / 1000000, 60, 60, 60]
       [(''Al'', [0, 0, 0]), (''P'', [75 / 100, 75 / 100, 75 / 100])]
       2 [''Al'', ''P''] [269815385 / 10000000, 30973761998 / 1000000000]
       [(''Al'', ''Al.upf''), (''P'', ''P.upf'')]
       ''smearing'' ''mp'' (1 / 100) (45) (360)
       [6, 6, 6, 1, 1, 1] False ''iii_v_semiconductors''),
     (''AlSb'', lib_entry ''AlSb'' ''zincblende'' ''F-43m'' ''mp-2624''
       ''aluminum antimonide (zincblende)'' 0 [4373485 / 1000000, 4373485 / 1000000, 4373485 / 1000000, 60, 60, 60]
       [(''Al'', [0, 0, 0]), (''Sb'', [75 / 100, 75 / 100, 75 / 100])]
       2 [''Al'', ''Sb''] [269815385 / 10000000, 12176 / 100]
       [(''Al'', ''Al.upf''), (''Sb'', ''Sb.upf'')]
       ''smearing'' ''mp'' (1 / 100) (45) (360)
       [6, 6, 6, 1, 1, 1] False ''iii_v_semiconductors''),
     (''Au'', lib_entry ''Au'' ''fcc'' ''Fm-3m'' ''mp-81''
       ''gold (fcc)'' 0 [2949546 / 1000000, 2949546 / 1000000, 2949546 / 1000000, 60, 60, 60]
       [(''Au'', [0, 0, 0])]
       1 [''Au''] [196966569 / 1000000]
       [(''Au'', ''Au.upf'')]
       ''smearing'' ''mp'' (2 / 100) (45) (360)
       [8, 8, 8, 1, 1, 1] True ''nonmagnetic_transition_metals'')]"

definition library_2 :: "db_entry pydict" where
  "library_2 =
    [(''BN'', lib_entry ''BN'' ''hexagonal (layered)'' ''P6_3/mmc'' ''mp-984''
       ''hexagonal boron nitride (h-BN)'' 0 [2512428 / 1000000, 2512428 / 1000000, 7707265 / 1000000, 90, 90, 120]
       [(''B'', [333333 / 1000000, 666667 / 1000000, 25 / 100]), (''B'', [666667 / 1000000, 333333 / 1000000, 75 / 100]), (''N'', [333333 / 1000000, 666667 / 1000000, 75 / 100]), (''N'', [666667 / 1000000, 333333 / 1000000, 25 / 100])]
       2 [''B'', ''N''] [1081 / 100, 14007 / 1000]
       [(''B'', ''B.upf''), (''N'', ''N.upf'')]
       ''smearing'' ''mp'' (1 / 100) (60) (480)
       [6, 6, 4, 1, 1, 1] False ''simple_oxides_nitrides_ternaries''),
     (''Be'', lib_entry ''Be'' ''hcp'' ''P6_3/mmc'' ''mp-87''
       ''beryllium (hcp)'' 0 [2264783 / 1000000, 2264783 / 1000000, 3574102 / 1000000, 90, 90, 120]
       [(''Be'', [333333 / 1000000, 666667 / 1000000, 75 / 100]), (''Be'', [666667 / 1000000, 333333 / 1000000, 25 / 100])]
       1 [''Be''] [90121831 / 10000000]
       [(''Be'', ''Be.upf'')]
       ''smearing'' ''mp'' (2 / 100) (50) (400)
       [8, 8, 8, 1, 1, 1] True ''simple_metals''),
     (''C'', lib_entry ''C'' ''diamond'' ''Fd-3m'' ''mp-66''
       ''carbon (diamond)'' 0 [2517827 / 1000000, 2517827 / 1000000, 2517827 / 1000000, 60, 60, 60]
       [(''C'', [5 / 10, 5 / 10, 5 / 10]), (''C'', [75 / 100, 75 / 100, 75 / 100])]
       1 [''C''] [12011 / 1000]
       [(''C'', ''C.upf'')]
       ''smearing'' ''mp'' (1 / 100) (60) (480)
       [6, 6, 6, 1, 1, 1] False ''elemental_semiconductors''),
     (''Ca'', lib_entry ''Ca'' ''fcc'' ''Fm-3m'' ''mp-45''
       ''calcium (fcc)'' 0 [3943404 / 1000000, 3943404 / 1000000, 3943404 / 1000000, 60, 60, 60]
       [(''Ca'', [0, 0, 0])]
       1 [''Ca''] [40078 / 1000]
       [(''Ca'', ''Ca.upf'')]
       ''smearing'' ''mp'' (2 / 100) (45) (360)
       [8, 8, 8, 1, 1, 1] True ''simple_metals''),
     (''CaO'', lib_entry ''CaO'' ''rocksalt'' ''Fm-3m'' ''mp-2605''
       ''calcium oxide (rocksalt)'' 0 [3399141 / 1000000, 3399141 / 1000000, 3399141 / 1000000, 60, 60, 60]
       [(''Ca'', [0, 0, 0]), (''O'', [5 / 10, 5 / 10, 5 / 10])]
       2 [''Ca'', ''O''] [40078 / 1000, 15999 / 1000]
       [(''Ca'', ''Ca.upf''), (''O'', ''O.upf'')]
       ''smearing'' ''mp'' (1 / 100) (60) (480)
       [6, 6, 6, 1, 1, 1] False ''simple_oxides_nitrides_ternaries''),
     (''Cd'', lib_entry ''Cd'' ''hcp'' ''P6_3/mmc'' ''mp-94''
       ''cadmium (hcp)'' 0 [2958475 / 1000000, 2958475 / 1000000, 5885928 / 1000000, 90, 90, 120]
       [(''Cd'', [333333 / 1000000, 666667 / 1000000, 25 / 100]), (''Cd'', [666667 / 1000000, 333333 / 1000000, 75 / 100])]
       1 [''Cd''] [112414 / 1000]
       [(''Cd'', ''Cd.upf'')]
       ''smearing'' ''mp'' (2 / 100) (45) (360)
       [8, 8, 8, 1, 1, 1] True ''nonmagnetic_transition_metals'')]"

definition library_3 :: "db_entry pydict" where
  "library_3 =
    [(''CdS'', lib_entry ''CdS'' ''wurtzite'' ''P6_3mc'' ''mp-672''
       ''cadmium sulfide (wurtzite)'' 0 [4168838 / 1000000, 4168838 / 1000000, 6779617 / 1000000, 90, 90, 120]
       [(''Cd'', [666667 / 1000000, 333333 / 1000000, 500224 / 1000000]), (''Cd'', [333333 / 1000000, 666667 / 1000000, 224 / 1000000]), (''S'', [666667 / 1000000, 333333 / 1000000, 876776 / 1000000]), (''S'', [333333 / 1000000, 666667 / 1000000, 376776 / 1000000])]
       2 [''Cd'', ''S''] [112414 / 1000, 3206 / 100]
       [(''Cd'', ''Cd.upf''), (''S'', ''S.upf'')]
       ''smearing'' ''mp'' (1 / 100) (45) (360)
       [6, 6, 4, 1, 1, 1] False ''ii_vi_semiconductors''),
     (''CdSe'', lib_entry ''CdSe'' ''zincblende'' ''F-43m'' ''mp-2691''
       ''cadmium selenide (zincblende)'' 0 [4342019 / 1000000, 4342019 / 1000000, 4342019 / 1000000, 60, 60, 60]
       [(''Cd'', [0, 0, 0]), (''Se'', [75 / 100, 75 / 100, 75 / 100])]
       2 [''Cd'', ''Se''] [112414 / 1000, 78971 / 1000]
       [(''Cd'', ''Cd.upf''), (''Se'', ''Se.upf'')]
       ''smearing'' ''mp'' (1 / 100) (45) (360)
       [6, 6, 6, 1, 1, 1] False ''ii_vi_semiconductors''),
     (''CdTe'', lib_entry ''CdTe'' ''zincblende'' ''F-43m'' ''mp-406''
       ''cadmium telluride (zincblende)'' 0 [464161 / 100000, 464161 / 100000, 464161 / 100000, 60, 60, 60]
       [(''Cd'', [0, 0, 0]), (''Te'', [25 / 100, 25 / 100, 25 / 100])]
       2 [''Cd'', ''Te''] [112414 / 1000, 1276 / 10]
       [(''Cd'', ''Cd.upf''), (''Te'', ''Te.upf'')]
       ''smearing'' ''mp'' (1 / 100) (45) (360)
       [6, 6, 6, 1, 1, 1] False ''ii_vi_semiconductors''),
     (''CsCl'', lib_entry ''CsCl'' ''CsCl-type simple cubic'' ''Pm-3m'' ''mp-22865''
       ''cesium chloride (CsCl-type)'' 0 [4143698 / 1000000, 4143698 / 1000000, 4143698 / 1000000, 90, 90, 90]
       [(''Cs'', [0, 0, 0]), (''Cl'', [5 / 10, 5 / 10, 5 / 10])]
       2 [''Cs'', ''Cl''] [13290545196 / 100000000, 3545 / 100]
       [(''Cs'', ''Cs.upf''), (''Cl'', ''Cl.upf'')]
       ''smearing'' ''mp'' (1 / 100) (45) (360)
       [6, 6, 6, 1, 1, 1] False ''alkali_halides''),
     (''Cu'', lib_entry ''Cu'' ''fcc'' ''Fm-3m'' ''mp-30''
       ''copper (fcc)'' 0 [2529625 / 1000000, 2529625 / 1000000, 2529625 / 1000000, 60, 60, 60]
       [(''Cu'', [0, 0, 0])]
       1 [''Cu''] [63546 / 1000]
       [(''Cu'', ''Cu.upf'')]
       ''smearing'' ''mp'' (2 / 100) (45) (360)
       [8, 8, 8, 1, 1, 1] True ''nonmagnetic_transition_metals''),
     (''Ga'', lib_entry ''Ga'' ([CHR 0xCE, CHR 0xB1] @ ''-Ga orthorhombic'') ''Cmce'' ''mp-142''
       ([CHR 0xCE, CHR 0xB1] @ ''-Ga (orthorhombic)'') 0 [4398079 / 1000000, 4398079 / 1000000, 4555504 / 1000000, 90, 90, 1194884 / 10000]
       [(''Ga'', [655696 / 1000000, 344304 / 1000000, 415401 / 1000000]), (''Ga'', [844304 / 1000000, 155696 / 1000000, 915401 / 1000000]), (''Ga'', [344304 / 1000000, 655696 / 1000000, 584599 / 1000000]), (''Ga'', [155696 / 1000000, 844304 / 1000000, 84599 / 1000000])]
       1 [''Ga''] [69723 / 1000]
       [(''Ga'', ''Ga.upf'')]
       ''smearing'' ''mp'' (2 / 100) (45) (360)
       [8, 8, 8, 1, 1, 1] True ''simple_metals'')]"

definition library_4 :: "db_entry pydict" where
  "library_4 =
    [(''GaAs'', lib_entry ''GaAs'' ''zincblende'' ''F-43m'' ''mp-2534''
       ''gallium arsenide (zincblende)'' 0 [4065993 / 1000000, 4065993 / 1000000, 4065993 / 1000000, 60, 60, 60]
       [(''Ga'', [0, 0, 0]), (''As'', [25 / 100, 25 / 100, 25 / 100])]
       2 [''Ga'', ''As''] [69723 / 1000, 74921595 / 1000000]
       [(''Ga'', ''Ga.upf''), (''As'', ''As.upf'')]
       ''smearing'' ''mp'' (1 / 100) (45) (360)
       [6, 6, 6, 1, 1, 1] False ''iii_v_semiconductors''),
     (''GaN'', lib_entry ''GaN'' ''wurtzite'' ''P6_3mc'' ''mp-804''
       ''gallium nitride (wurtzite)'' 0 [318893 / 100000, 318893 / 100000, 5192357 / 1000000, 90, 90, 120]
       [(''Ga'', [666667 / 1000000, 333333 / 1000000, 499084 / 1000000]), (''Ga'', [333333 / 1000000, 666667 / 1000000, 999084 / 1000000]), (''N'', [666667 / 1000000, 333333 / 1000000, 875916 / 1000000]), (''N'', [333333 / 1000000, 666667 / 1000000, 375916 / 1000000])]
       2 [''Ga'', ''N''] [69723 / 1000, 14007 / 1000]
       [(''Ga'', ''Ga.upf''), (''N'', ''N.upf'')]
       ''smearing'' ''mp'' (1 / 100) (60) (480)
       [6, 6, 4, 1, 1, 1] False ''iii_v_semiconductors''),
     (''GaP'', lib_entry ''GaP'' ''zincblende'' ''F-43m'' ''mp-2490''
       ''gallium phosphide (zincblende)'' 0 [3854881 / 1000000, 3854881 / 1000000, 3854881 / 1000000, 60, 60, 60]
       [(''Ga'', [0, 0, 0]), (''P'', [25 / 100, 25 / 100, 25 / 100])]
       2 [''Ga'', ''P''] [69723 / 1000, 30973761998 / 1000000000]
       [(''Ga'', ''Ga.upf''), (''P'', ''P.upf'')]
       ''smearing'' ''mp'' (1 / 100) (45) (360)
       [6, 6, 6, 1, 1, 1] False ''iii_v_semiconductors''),
     (''GaSb'', lib_entry ''GaSb'' ''zincblende'' ''F-43m'' ''mp-1156''
       ''gallium antimonide (zincblende)'' 0 [4339662 / 1000000, 4339662 / 1000000, 4339662 / 1000000, 60, 60, 60]
       [(''Ga'', [0, 0, 0]), (''Sb'', [75 / 100, 75 / 100, 75 / 100])]
       2 [''Ga'', ''Sb''] [69723 / 1000, 12176 / 100]
       [(''Ga'', ''Ga.upf''), (''Sb'', ''Sb.upf'')]
       ''smearing'' ''mp'' (1 / 100) (45) (360)
       [6, 6, 6, 1, 1, 1] False ''iii_v_semiconductors''),
     (''Ge'', lib_entry ''Ge'' ''diamond'' ''Fd-3m'' ''mp-32''
       ''germanium (diamond)'' 0 [4012728 / 1000000, 4012728 / 1000000, 4012728 / 1000000, 60, 60, 60]
       [(''Ge'', [5 / 10, 5 / 10, 5 / 10]), (''Ge'', [75 / 100, 75 / 100, 75 / 100])]
       1 [''Ge''] [7263 / 100]
       [(''Ge'', ''Ge.upf'')]
       ''smearing'' ''mp'' (1 / 100) (45) (360)
       [6, 6, 6, 1, 1, 1] False ''elemental_semiconductors''),
     (''In'', lib_entry ''In'' ''body-centered tetragonal'' ''I4/mmm'' ''mp-85''
       ''indium (body-centered tetragonal, I4/mmm)'' 0 [3319938 / 1000000, 3319938 / 1000000, 3319938 / 1000000, 1186106 / 10000, 1186106 / 10000, 924239 / 10000]
       [(''In'', [0, 0, 0])]
       1 [''In''] [114818 / 1000]
       [(''In'', ''In.upf'')]
       ''smearing'' ''mp'' (2 / 100) (45) (360)
       [8, 8, 8, 1, 1, 1] True ''simple_metals'')]"

definition library_5 :: "db_entry pydict" where
  "library_5 =
    [(''InAs'', lib_entry ''InAs'' ''zincblende'' ''F-43m'' ''mp-20305''
       ''indium arsenide (zincblende)'' 0 [4318388 / 1000000, 4318388 / 1000000, 4318388 / 1000000, 60, 60, 60]
       [(''In'', [75 / 100, 75 / 100, 75 / 100]), (''As'', [0, 0, 0])]
       2 [''In'', ''As''] [114818 / 1000, 74921595 / 1000000]
       [(''In'', ''In.upf''), (''As'', ''As.upf'')]
       ''smearing'' ''mp'' (1 / 100) (45) (360)
       [6, 6, 6, 1, 1, 1] False ''iii_v_semiconductors''),
     (''InP'', lib_entry ''InP'' ''zincblende'' ''F-43m'' ''mp-20351''
       ''indium phosphide (zincblende)'' 0 [4174725 / 1000000, 4174725 / 1000000, 4174725 / 1000000, 60, 60, 60]
       [(''In'', [0, 0, 0]), (''P'', [25 / 100, 25 / 100, 25 / 100])]
       2 [''In'', ''P''] [114818 / 1000, 30973761998 / 1000000000]
       [(''In'', ''In.upf''), (''P'', ''P.upf'')]
       ''smearing'' ''mp'' (1 / 100) (45) (360)
       [6, 6, 6, 1, 1, 1] False ''iii_v_semiconductors''),
     (''InSb'', lib_entry ''InSb'' ''zincblende'' ''F-43m'' ''mp-20012''
       ''indium antimonide (zincblende)'' 0 [4690396 / 1000000, 4690396 / 1000000, 4690396 / 1000000, 60, 60, 60]
       [(''In'', [0, 0, 0]), (''Sb'', [25 / 100, 25 / 100, 25 / 100])]
       2 [''In'', ''Sb''] [114818 / 1000, 12176 / 100]
       [(''In'', ''In.upf''), (''Sb'', ''Sb.upf'')]
       ''smearing'' ''mp'' (1 / 100) (45) (360)
       [6, 6, 6, 1, 1, 1] False ''iii_v_semiconductors''),
     (''K'', lib_entry ''K'' ''bcc'' ''Im-3m'' ''mp-58''
       ''potassium (bcc)'' 0 [4672308 / 1000000, 4672308 / 1000000, 4672308 / 1000000, 1094712 / 10000, 1094712 / 10000, 1094712 / 10000]
       [(''K'', [0, 0, 0])]
       1 [''K''] [390983 / 10000]
       [(''K'', ''K.upf'')]
       ''smearing'' ''mp'' (2 / 100) (45) (360)
       [8, 8, 8, 1, 1, 1] True ''simple_metals''),
     (''KBr'', lib_entry ''KBr'' ''rocksalt'' ''Fm-3m'' ''mp-23251''
       ''potassium bromide (rocksalt)'' 0 [4659185 / 1000000, 4659185 / 1000000, 4659185 / 1000000, 60, 60, 60]
       [(''K'', [0, 0, 0]), (''Br'', [5 / 10, 5 / 10, 5 / 10])]
       2 [''K'', ''Br''] [390983 / 10000, 79904 / 1000]
       [(''K'', ''K.upf''), (''Br'', ''Br.upf'')]
       ''smearing'' ''mp'' (1 / 100) (45) (360)
       [6, 6, 6, 1, 1, 1] False ''alkali_halides''),
     (''KCl'', lib_entry ''KCl'' ''rocksalt'' ''Fm-3m'' ''mp-23193''
       ''potassium chloride (rocksalt)'' 0 [4443277 / 1000000, 4443277 / 1000000, 4443277 / 1000000, 60, 60, 60]
       [(''K'', [0, 0, 0]), (''Cl'', [5 / 10, 5 / 10, 5 / 10])]
       2 [''K'', ''Cl''] [390983 / 10000, 3545 / 100]
       [(''K'', ''K.upf''), (''Cl'', ''Cl.upf'')]
       ''smearing'' ''mp'' (1 / 100) (45) (360)
       [6, 6, 6, 1, 1, 1] False ''alkali_halides'')]"

definition library_6 :: "db_entry pydict" where
  "library_6 =
    [(''KF'', lib_entry ''KF'' ''rocksalt'' ''Fm-3m'' ''mp-463''
       ''potassium fluoride (rocksalt)'' 0 [3753907 / 1000000, 3753907 / 1000000, 3753907 / 1000000, 60, 60, 60]
       [(''K'', [0, 0, 0]), (''F'', [5 / 10, 5 / 10, 5 / 10])]
       2 [''K'', ''F''] [390983 / 10000, 18998403163 / 1000000000]
       [(''K'', ''K.upf''), (''F'', ''F.upf'')]
       ''smearing'' ''mp'' (1 / 100) (60) (480)
       [6, 6, 6, 1, 1, 1] False ''alkali_halides''),
     (''Li'', lib_entry ''Li'' ''bcc'' ''Im-3m'' ''mp-135''
       ''lithium (bcc)'' 0 [2978532 / 1000000, 2978532 / 1000000, 2978532 / 1000000, 1094712 / 10000, 1094712 / 10000, 1094712 / 10000]
       [(''Li'', [0, 0, 0])]
       1 [''Li''] [694 / 100]
       [(''Li'', ''Li.upf'')]
       ''smearing'' ''mp'' (2 / 100) (45) (360)
       [8, 8, 8, 1, 1, 1] True ''simple_metals''),
     (''LiBr'', lib_entry ''LiBr'' ''rocksalt'' ''Fm-3m'' ''mp-23259''
       ''lithium bromide (rocksalt)'' 0 [3850466 / 1000000, 3850466 / 1000000, 3850466 / 1000000, 60, 60, 60]
       [(''Li'', [0, 0, 0]), (''Br'', [5 / 10, 5 / 10, 5 / 10])]
       2 [''Li'', ''Br''] [694 / 100, 79904 / 1000]
       [(''Li'', ''Li.upf''), (''Br'', ''Br.upf'')]
       ''smearing'' ''mp'' (1 / 100) (45) (360)
       [6, 6, 6, 1, 1, 1] False ''alkali_halides''),
     (''LiCl'', lib_entry ''LiCl'' ''rocksalt'' ''Fm-3m'' ''mp-22905''
       ''lithium chloride (rocksalt)'' 0 [3595104 / 1000000, 3595104 / 1000000, 3595104 / 1000000, 60, 60, 60]
       [(''Li'', [0, 0, 0]), (''Cl'', [5 / 10, 5 / 10, 5 / 10])]
       2 [''Li'', ''Cl''] [694 / 100, 3545 / 100]
       [(''Li'', ''Li.upf''), (''Cl'', ''Cl.upf'')]
       ''smearing'' ''mp'' (1 / 100) (45) (360)
       [6, 6, 6, 1, 1, 1] False ''alkali_halides''),
     (''LiF'', lib_entry ''LiF'' ''rocksalt'' ''Fm-3m'' ''mp-1138''
       ''lithium fluoride (rocksalt)'' 0 [2887419 / 1000000, 2887419 / 1000000, 2887419 / 1000000, 60, 60, 60]
       [(''Li'', [0, 0, 0]), (''F'', [5 / 10, 5 / 10, 5 / 10])]
       2 [''Li'', ''F''] [694 / 100, 18998403163 / 1000000000]
       [(''Li'', ''Li.upf''), (''F'', ''F.upf'')]
       ''smearing'' ''mp'' (1 / 100) (60) (480)
       [6, 6, 6, 1, 1, 1] False ''alkali_halides''),
     (''Mg'', lib_entry ''Mg'' ''hcp'' ''P6_3/mmc'' ''mp-153''
       ''magnesium (hcp)'' 0 [3172023 / 1000000, 3172023 / 1000000, 5141205 / 1000000, 90, 90, 120]
       [(''Mg'', [333333 / 1000000, 666667 / 1000000, 25 / 100]), (''Mg'', [666667 / 1000000, 333333 / 1000000, 75 / 100])]
       1 [''Mg''] [24305 / 1000]
       [(''Mg'', ''Mg.upf'')]
       ''smearing'' ''mp'' (2 / 100) (45) (360)
       [8, 8, 8, 1, 1, 1] True ''simple_metals'')]"

definition library_7 :: "db_entry pydict" where
  "library_7 =
    [(''Na'', lib_entry ''Na'' ''bcc'' ''Im-3m'' ''mp-127''
       ''sodium (bcc)'' 0 [3644281 / 1000000, 3644281 / 1000000, 3644281 / 1000000, 1094712 / 10000, 1094712 / 10000, 1094712 / 10000]
       [(''Na'', [0, 0, 0])]
       1 [''Na''] [2298976928 / 100000000]
       [(''Na'', ''Na.upf'')]
       ''smearing'' ''mp'' (2 / 100) (45) (360)
       [8, 8, 8, 1, 1, 1] True ''simple_metals''),
     (''NaBr'', lib_entry ''NaBr'' ''rocksalt'' ''Fm-3m'' ''mp-22916''
       ''sodium bromide (rocksalt)'' 0 [4188253 / 1000000, 4188253 / 1000000, 4188253 / 1000000, 60, 60, 60]
       [(''Na'', [0, 0, 0]), (''Br'', [5 / 10, 5 / 10, 5 / 10])]
       2 [''Na'', ''Br''] [2298976928 / 100000000, 79904 / 1000]
       [(''Na'', ''Na.upf''), (''Br'', ''Br.upf'')]
       ''smearing'' ''mp'' (1 / 100) (45) (360)
       [6, 6, 6, 1, 1, 1] False ''alkali_halides''),
     (''NaCl'', lib_entry ''NaCl'' ''rocksalt'' ''Fm-3m'' ''mp-22862''
       ''sodium chloride (rocksalt)'' 0 [3951402 / 1000000, 3951402 / 1000000, 3951402 / 1000000, 60, 60, 60]
       [(''Na'', [0, 0, 0]), (''Cl'', [5 / 10, 5 / 10, 5 / 10])]
       2 [''Na'', ''Cl''] [2298976928 / 100000000, 3545 / 100]
       [(''Na'', ''Na.upf''), (''Cl'', ''Cl.upf'')]
       ''smearing'' ''mp'' (1 / 100) (45) (360)
       [6, 6, 6, 1, 1, 1] False ''alkali_halides''),
     (''NaF'', lib_entry ''NaF'' ''rocksalt'' ''Fm-3m'' ''mp-682''
       ''sodium fluoride (rocksalt)'' 0 [3232743 / 1000000, 3232743 / 1000000, 3232743 / 1000000, 60, 60, 60]
       [(''Na'', [0, 0, 0]), (''F'', [5 / 10, 5 / 10, 5 / 10])]
       2 [''Na'', ''F''] [2298976928 / 100000000, 18998403163 / 1000000000]
       [(''Na'', ''Na.upf''), (''F'', ''F.upf'')]
       ''smearing'' ''mp'' (1 / 100) (60) (480)
       [6, 6, 6, 1, 1, 1] False ''alkali_halides''),
     (''P'', lib_entry ''P'' ''orthorhombic puckered layers'' ''Cmce'' ''mp-157''
       ''black phosphorus'' 0 [5708038 / 1000000, 5708038 / 1000000, 4543636 / 1000000, 90, 90, 1464432 / 10000]
       [(''P'', [404143 / 1000000, 595857 / 1000000, 911185 / 1000000]), (''P'', [595857 / 1000000, 404143 / 1000000, 88815 / 1000000]), (''P'', [95857 / 1000000, 904143 / 1000000, 411185 / 1000000]), (''P'', [904143 / 1000000, 95857 / 1000000, 588815 / 1000000])]
       1 [''P''] [30973761998 / 1000000000]
       [(''P'', ''P.upf'')]
       ''smearing'' ''mp'' (1 / 100) (45) (360)
       [6, 6, 6, 1, 1, 1] False ''elemental_semiconductors''),
     (''Pb'', lib_entry ''Pb'' ''fcc'' ''Fm-3m'' ''mp-20483''
       ''lead (fcc)'' 0 [3528116 / 1000000, 3528116 / 1000000, 3528116 / 1000000, 60, 60, 60]
       [(''Pb'', [0, 0, 0])]
       1 [''Pb''] [2072 / 10]
       [(''Pb'', ''Pb.upf'')]
       ''smearing'' ''mp'' (2 / 100) (45) (360)
       [8, 8, 8, 1, 1, 1] True ''simple_metals'')]"

definition library_8 :: "db_entry pydict" where
  "library_8 =
    [(''Pd'', lib_entry ''Pd'' ''fcc'' ''Fm-3m'' ''mp-2''
       ''palladium (fcc)'' 0 [2769951 / 1000000, 2769951 / 1000000, 2769951 / 1000000, 60, 60, 60]
       [(''Pd'', [0, 0, 0])]
       1 [''Pd''] [10642 / 100]
       [(''Pd'', ''Pd.upf'')]
       ''smearing'' ''mp'' (2 / 100) (45) (360)
       [8, 8, 8, 1, 1, 1] True ''nonmagnetic_transition_metals''),
     (''Pt'', lib_entry ''Pt'' ''fcc'' ''Fm-3m'' ''mp-126''
       ''platinum (fcc)'' 0 [2788228 / 1000000, 2788228 / 1000000, 2788228 / 1000000, 60, 60, 60]
       [(''Pt'', [0, 0, 0])]
       1 [''Pt''] [195084 / 1000]
       [(''Pt'', ''Pt.upf'')]
       ''smearing'' ''mp'' (2 / 100) (45) (360)
       [8, 8, 8, 1, 1, 1] True ''nonmagnetic_transition_metals''),
     (''Rb'', lib_entry ''Rb'' ''body-centered tetragonal I4/mmm (Yang 2026-04-25: chose mp-639755 as a quasi-bcc representative; mp-70 is an 8-atom P1 low-symmetry phase)'' ''I4/mmm'' ''mp-639755''
       ''rubidium (body-centered tetragonal, quasi-bcc)'' 0 [4991573 / 1000000, 4991573 / 1000000, 4991573 / 1000000, 1074161 / 10000, 1074161 / 10000, 1136646 / 10000]
       [(''Rb'', [0, 0, 0])]
       1 [''Rb''] [854678 / 10000]
       [(''Rb'', ''Rb.upf'')]
       ''smearing'' ''mp'' (2 / 100) (45) (360)
       [8, 8, 8, 1, 1, 1] True ''simple_metals''),
     (''RbCl'', lib_entry ''RbCl'' ''rocksalt'' ''Fm-3m'' ''mp-23295''
       ''rubidium chloride (rocksalt)'' 0 [4679219 / 1000000, 4679219 / 1000000, 4679219 / 1000000, 60, 60, 60]
       [(''Rb'', [0, 0, 0]), (''Cl'', [5 / 10, 5 / 10, 5 / 10])]
       2 [''Rb'', ''Cl''] [854678 / 10000, 3545 / 100]
       [(''Rb'', ''Rb.upf''), (''Cl'', ''Cl.upf'')]
       ''smearing'' ''mp'' (1 / 100) (45) (360)
       [6, 6, 6, 1, 1, 1] False ''alkali_halides''),
     (''Sn'', lib_entry ''Sn'' ''body-centered tetragonal'' ''I4_1/amd'' ''mp-84''
       ([CHR 0xCE, CHR 0xB2] @ ''-Sn (white tin, body-centered tetragonal metal)'') 0 [4454954 / 1000000, 4454954 / 1000000, 4454954 / 1000000, 974047 / 10000, 974047 / 10000, 1379231 / 10000]
       [(''Sn'', [25 / 100, 75 / 100, 5 / 10]), (''Sn'', [0, 0, 0])]
       1 [''Sn''] [11871 / 100]
       [(''Sn'', ''Sn.upf'')]
       ''smearing'' ''mp'' (2 / 100) (45) (360)
       [8, 8, 8, 1, 1, 1] True ''simple_metals''),
     (''Sr'', lib_entry ''Sr'' ''hcp'' ''P6_3/mmc'' ''mp-139''
       ''strontium (hcp, PBE ground state)'' 0 [4301199 / 1000000, 4301199 / 1000000, 7044557 / 1000000, 90, 90, 120]
       [(''Sr'', [333333 / 1000000, 666667 / 1000000, 25 / 100]), (''Sr'', [666667 / 1000000, 333333 / 1000000, 75 / 100])]
       1 [''Sr''] [8762 / 100]
       [(''Sr'', ''Sr.upf'')]
       ''smearing'' ''mp'' (2 / 100) (45) (360)
       [8, 8, 8, 1, 1, 1] True ''simple_metals'')]"

definition library_9 :: "db_entry pydict" where
  "library_9 =
    [(''SrO'', lib_entry ''SrO'' ''rocksalt'' ''Fm-3m'' ''mp-2472''
       ''strontium oxide (rocksalt)'' 0 [3654023 / 1000000, 3654023 / 1000000, 3654023 / 1000000, 60, 60, 60]
       [(''Sr'', [5 / 10, 5 / 10, 5 / 10]), (''O'', [0, 0, 0])]
       2 [''Sr'', ''O''] [8762 / 100, 15999 / 1000]
       [(''Sr'', ''Sr.upf''), (''O'', ''O.upf'')]
       ''smearing'' ''mp'' (1 / 100) (60) (480)
       [6, 6, 6, 1, 1, 1] False ''simple_oxides_nitrides_ternaries''),
     (''Zn'', lib_entry ''Zn'' ''hcp'' ''P6_3/mmc'' ''mp-79''
       ''zinc (hcp)'' 0 [261436 / 100000, 261436 / 100000, 4873161 / 1000000, 90, 90, 120]
       [(''Zn'', [333333 / 1000000, 666667 / 1000000, 25 / 100]), (''Zn'', [666667 / 1000000, 333333 / 1000000, 75 / 100])]
       1 [''Zn''] [6538 / 100]
       [(''Zn'', ''Zn.upf'')]
       ''smearing'' ''mp'' (2 / 100) (45) (360)
       [8, 8, 8, 1, 1, 1] True ''nonmagnetic_transition_metals''),
     (''ZnO'', lib_entry ''ZnO'' ''wurtzite'' ''P6_3mc'' ''mp-2133''
       ''zinc oxide (wurtzite)'' 0 [3237351 / 1000000, 3237351 / 1000000, 5222061 / 1000000, 90, 90, 120]
       [(''Zn'', [666667 / 1000000, 333333 / 1000000, 500592 / 1000000]), (''Zn'', [333333 / 1000000, 666667 / 1000000, 592 / 1000000]), (''O'', [666667 / 1000000, 333333 / 1000000, 879718 / 1000000]), (''O'', [333333 / 1000000, 666667 / 1000000, 379718 / 1000000])]
       2 [''Zn'', ''O''] [6538 / 100, 15999 / 1000]
       [(''Zn'', ''Zn.upf''), (''O'', ''O.upf'')]
       ''smearing'' ''mp'' (1 / 100) (60) (480)
       [6, 6, 4, 1, 1, 1] False ''ii_vi_semiconductors''),
     (''ZnS'', lib_entry ''ZnS'' ''zincblende'' ''F-43m'' ''mp-10695''
       ''zinc sulfide (zincblende)'' 0 [3809443 / 1000000, 3809443 / 1000000, 3809443 / 1000000, 60, 60, 60]
       [(''Zn'', [0, 0, 0]), (''S'', [25 / 100, 25 / 100, 25 / 100])]
       2 [''Zn'', ''S''] [6538 / 100, 3206 / 100]
       [(''Zn'', ''Zn.upf''), (''S'', ''S.upf'')]
       ''smearing'' ''mp'' (1 / 100) (45) (360)
       [6, 6, 6, 1, 1, 1] False ''ii_vi_semiconductors''),
     (''ZnSe'', lib_entry ''ZnSe'' ''zincblende'' ''F-43m'' ''mp-1190''
       ''zinc selenide (zincblende)'' 0 [4005679 / 1000000, 4005679 / 1000000, 4005679 / 1000000, 60, 60, 60]
       [(''Zn'', [0, 0, 0]), (''Se'', [75 / 100, 75 / 100, 75 / 100])]
       2 [''Zn'', ''Se''] [6538 / 100, 78971 / 1000]
       [(''Zn'', ''Zn.upf''), (''Se'', ''Se.upf'')]
       ''smearing'' ''mp'' (1 / 100) (45) (360)
       [6, 6, 6, 1, 1, 1] False ''ii_vi_semiconductors''),
     (''ZnTe'', lib_entry ''ZnTe'' ''zincblende'' ''F-43m'' ''mp-2176''
       ''zinc telluride (zincblende)'' 0 [4321292 / 1000000, 4321292 / 1000000, 4321292 / 1000000, 60, 60, 60]
       [(''Zn'', [5 / 10, 5 / 10, 5 / 10]), (''Te'', [25 / 100, 25 / 100, 25 / 100])]
       2 [''Zn'', ''Te''] [6538 / 100, 1276 / 10]
       [(''Zn'', ''Zn.upf''), (''Te'', ''Te.upf'')]
       ''smearing'' ''mp'' (1 / 100) (45) (360)
       [6, 6, 6, 1, 1, 1] False ''ii_vi_semiconductors'')]"

definition LIBRARY_MATERIALS :: "db_entry pydict" where
  "LIBRARY_MATERIALS =
    library_1 @ library_2 @ library_3 @ library_4 @ library_5 @ library_6 @ library_7 @ library_8 @ library_9"

section \<open>Consistency of an entry\<close>

text \<open>A chemical formula as counts of its elements: a capital, at most one small letter, digits.\<close>

fun formula_parts :: "nat \<Rightarrow> string \<Rightarrow> (string \<times> int) list" where
  "formula_parts 0 s = []"
| "formula_parts (Suc n) [] = []"
| "formula_parts (Suc n) (c # s) =
     (let small = (if s \<noteq> [] \<and> is_lower (hd s) then [hd s] else []);
          r = drop (length small) s;
          ds = takeWhile is_digit r in
      (c # small, if ds = [] then 1 else int_of_digits ds) # formula_parts n (dropWhile is_digit r))"

definition count_sites :: "(string \<times> rat list) list \<Rightarrow> string \<Rightarrow> int" where
  "count_sites sites el = int (length (filter (\<lambda>s. fst s = el) sites))"

text \<open>The atoms of the cell are a whole number of formula units.\<close>

definition stoichiometric :: "string \<Rightarrow> (string \<times> rat list) list \<Rightarrow> bool" where
  "stoichiometric f sites =
    (let parts = formula_parts (length f) f in
     case parts of [] \<Rightarrow> False
     | (e0, n0) # _ \<Rightarrow>
         let g = count_sites sites e0 div n0 in
         0 < g \<and> list_all (\<lambda>(e, n). count_sites sites e = g * n) parts
         \<and> list_all (\<lambda>s. fst s \<in> fst ` set parts) sites)"

definition species_ok :: "db_entry \<Rightarrow> bool" where
  "species_ok e =
    (db_nspecies e = int (length (db_species e)) \<and> distinct (db_species e) \<and> db_species e \<noteq> []
     \<and> length (db_masses e) = length (db_species e) \<and> list_all (pf_lt (Fin 0)) (db_masses e)
     \<and> map fst (db_pseudos e) = db_species e \<and> pf_lt (Fin 0) (db_degauss e))"

text \<open>What the compiler and the planner take for granted of a library entry stored under \<open>k\<close>.\<close>

definition library_entry_ok :: "string \<Rightarrow> db_entry \<Rightarrow> bool" where
  "library_entry_ok k e =
    (db_formula e = k \<and> species_ok e \<and> db_ibrav e = 0
     \<and> db_pseudos e = map (\<lambda>s. (s, s @ ''.upf'')) (db_species e)
     \<and> (case (db_cellpar e, db_sites e) of
          (Some cp, Some sites) \<Rightarrow>
            length cp = 6 \<and> list_all (\<lambda>x. 0 < x) cp \<and> list_all (\<lambda>x. x < 180) (drop 3 cp)
            \<and> list_all (\<lambda>(_, p). length p = 3 \<and> list_all (\<lambda>x. 0 \<le> x \<and> x < 1) p) sites
            \<and> distinct sites
            \<and> db_species e = rev (remdups (rev (map fst sites)))
            \<and> stoichiometric k sites
        | _ \<Rightarrow> False)
     \<and> (case (db_ecutwfc e, db_ecutrho e, db_kpoints e) of
          (Some w, Some r, Some ks) \<Rightarrow> pf_lt (Fin 0) w \<and> r = pf_mul w (Fin 8)
            \<and> length ks = 6 \<and> list_all (\<lambda>n. 0 < n) (take 3 ks) \<and> drop 3 ks = [1, 1, 1]
        | _ \<Rightarrow> False)
     \<and> db_degauss e = Fin (if db_is_metal e then 2 / 100 else 1 / 100))"

definition entries_ok :: "db_entry pydict \<Rightarrow> bool" where
  "entries_ok d = list_all (\<lambda>(k, e). library_entry_ok k e) d"

lemma library_1_ok: "entries_ok library_1"
  by code_simp

lemma library_2_ok: "entries_ok library_2"
  by code_simp

lemma library_3_ok: "entries_ok library_3"
  by code_simp

lemma library_4_ok: "entries_ok library_4"
  by code_simp

lemma library_5_ok: "entries_ok library_5"
  by code_simp

lemma library_6_ok: "entries_ok library_6"
  by code_simp

lemma library_7_ok: "entries_ok library_7"
  by code_simp

lemma library_8_ok: "entries_ok library_8"
  by code_simp

lemma library_9_ok: "entries_ok library_9"
  by code_simp

lemma library_ok: "entries_ok LIBRARY_MATERIALS"
  using library_1_ok library_2_ok library_3_ok library_4_ok library_5_ok library_6_ok library_7_ok
    library_8_ok library_9_ok
  by (simp add: LIBRARY_MATERIALS_def entries_ok_def)

lemma library_keys_distinct: "distinct (map fst LIBRARY_MATERIALS)"
  by code_simp

end
