(* ===== verification/Schemas.thy ===== *)
theory Schemas
  imports Py_Text
begin

text \<open>
  The protocol layer (\<open>protocol/schemas.py\<close>): the data classes the planner, the compiler, the
  verifier and the evidence share, their dictionary forms and the validation of plans.
\<close>

section \<open>Enumerations\<close>

datatype task_type = T1 | T2

fun task_type_value :: "task_type \<Rightarrow> string" where
  "task_type_value T1 = ''T1''"
| "task_type_value T2 = ''T2''"

datatype calculation_type = SCF | VC_RELAX | RELAX | BANDS_NSCF | DOS_NSCF | NEB

fun calculation_value :: "calculation_type \<Rightarrow> string" where
  "calculation_value SCF = ''scf''"
| "calculation_value VC_RELAX = ''vc-relax''"
| "calculation_value RELAX = ''relax''"
| "calculation_value BANDS_NSCF = ''bands_nscf''"
| "calculation_value DOS_NSCF = ''dos_nscf''"
| "calculation_value NEB = ''neb''"

datatype verdict = PASS | FAIL | ERROR | INCOMPLETE

fun verdict_value :: "verdict \<Rightarrow> string" where
  "verdict_value PASS = ''pass''"
| "verdict_value FAIL = ''fail''"
| "verdict_value ERROR = ''error''"
| "verdict_value INCOMPLETE = ''incomplete''"

section \<open>Data classes\<close>

record material_profile =
  formula :: string
  structure_type :: string
  space_group :: string
  ibrav :: int
  lattice_constant_bohr :: pyfloat
  natoms :: int
  nspecies :: int
  species :: "string list"
  masses :: "pyfloat list"
  pseudos :: "string pydict"
  occupations :: string
  smearing :: string
  degauss :: pyfloat
  charge :: int
  is_metal :: bool

definition strs :: "string list \<Rightarrow> pyval" where
  "strs xs = PList (map PStr xs)"

definition floats :: "pyfloat list \<Rightarrow> pyval" where
  "floats xs = PList (map PFloat xs)"

definition profile_to_dict :: "material_profile \<Rightarrow> pyval pydict" where
  "profile_to_dict p =
    [(''formula'', PStr (formula p)), (''structure_type'', PStr (structure_type p)),
     (''space_group'', PStr (space_group p)), (''ibrav'', PInt (ibrav p)),
     (''lattice_constant_bohr'', PFloat (lattice_constant_bohr p)), (''natoms'', PInt (natoms p)),
     (''nspecies'', PInt (nspecies p)), (''species'', strs (species p)), (''masses'', floats (masses p)),
     (''pseudos'', PDict (map (\<lambda>(k, v). (k, PStr v)) (pseudos p))),
     (''occupations'', PStr (occupations p)), (''smearing'', PStr (smearing p)),
     (''degauss'', PFloat (degauss p)), (''charge'', PInt (charge p)), (''is_metal'', PBool (is_metal p))]"

record step_ir =
  step_id :: string
  step_type :: string
  prefix :: string
  outdir :: string
  depends_on :: "string list"
  overrides :: "pyval pydict"

text \<open>The constructor with the defaults of the data class.\<close>

definition new_step :: "string \<Rightarrow> string \<Rightarrow> string \<Rightarrow> string list \<Rightarrow> step_ir" where
  "new_step i ty p ds = \<lparr>step_id = i, step_type = ty, prefix = p, outdir = ''./'', depends_on = ds, overrides = []\<rparr>"

definition step_to_dict :: "step_ir \<Rightarrow> pyval pydict" where
  "step_to_dict s =
    [(''step_id'', PStr (step_id s)), (''step_type'', PStr (step_type s)), (''prefix'', PStr (prefix s)),
     (''outdir'', PStr (outdir s)), (''depends_on'', strs (depends_on s)), (''overrides'', PDict (overrides s))]"

record workflow_ir =
  wf_task_id :: string
  wf_task_type :: string
  wf_material :: string
  wf_steps :: "step_ir list"
  wf_reasoning :: string

definition workflow_to_dict :: "workflow_ir \<Rightarrow> pyval pydict" where
  "workflow_to_dict w =
    [(''task_id'', PStr (wf_task_id w)), (''task_type'', PStr (wf_task_type w)),
     (''material'', PStr (wf_material w)), (''steps'', PList (map (\<lambda>s. PDict (step_to_dict s)) (wf_steps w))),
     (''reasoning'', PStr (wf_reasoning w))]"

record plan_patch =
  target_step :: string
  patch_action :: string
  new_params :: "pyval pydict"
  patch_reasoning :: string

definition patch_to_dict :: "plan_patch \<Rightarrow> pyval pydict" where
  "patch_to_dict p =
    [(''target_step'', PStr (target_step p)), (''action'', PStr (patch_action p)),
     (''new_params'', PDict (new_params p)), (''reasoning'', PStr (patch_reasoning p))]"

record task_spec =
  ts_task_id :: string
  ts_task_type :: string
  ts_material :: string
  ts_description :: string
  ts_profile :: "material_profile option"
  ts_parameters :: "pyval pydict"
  ts_prompt_file :: "string option"
  ts_metadata :: "pyval pydict"

definition opt_str :: "string option \<Rightarrow> pyval" where
  "opt_str x = (case x of None \<Rightarrow> PNone | Some s \<Rightarrow> PStr s)"

text \<open>\<open>asdict(self)\<close>: the profile, a data class itself, becomes a dictionary.\<close>

definition task_asdict :: "task_spec \<Rightarrow> pyval pydict" where
  "task_asdict t =
    [(''task_id'', PStr (ts_task_id t)), (''task_type'', PStr (ts_task_type t)),
     (''material'', PStr (ts_material t)), (''description'', PStr (ts_description t)),
     (''material_profile'', (case ts_profile t of None \<Rightarrow> PNone | Some p \<Rightarrow> PDict (profile_to_dict p))),
     (''parameters'', PDict (ts_parameters t)), (''prompt_file'', opt_str (ts_prompt_file t)),
     (''metadata'', PDict (ts_metadata t))]"

text \<open>\<open>v.to_dict()\<close> of a plain value: dictionaries have no such method.\<close>

definition call_to_dict :: "pyval \<Rightarrow> py_exc + pyval" where
  "call_to_dict v = Inl AttributeError"

definition task_to_dict :: "task_spec \<Rightarrow> py_exc + pyval pydict" where
  "task_to_dict t =
    (let d = task_asdict t in
     case dget d ''material_profile'' of
       Some v \<Rightarrow> if py_true v then bindr (call_to_dict v) (\<lambda>v'. Inr (dput ''material_profile'' v' d)) else Inr d
     | None \<Rightarrow> Inr d)"

record verification_input =
  vi_stdout :: string
  vi_stderr :: string
  vi_xml_path :: "string option"
  vi_job_success :: bool
  vi_metadata :: "pyval pydict"

record evidence_bundle =
  ev_task_id :: string
  ev_task_type :: string
  ev_status :: string
  ev_input_hash :: string
  ev_pseudo_hashes :: "string pydict"
  ev_qe_version :: string
  ev_parser_version :: string
  ev_commands :: "string list"
  ev_walltimes_sec :: "pyfloat list"
  ev_total_walltime_sec :: pyfloat
  ev_tokens_used :: int
  ev_errors :: "string list"
  ev_recovery_actions :: "string list"
  ev_verifier_verdict :: "pyval pydict option"
  ev_physical_results :: "pyval pydict"
  ev_output_files :: "string list"
  ev_log_files :: "string list"

definition evidence_to_dict :: "evidence_bundle \<Rightarrow> pyval pydict" where
  "evidence_to_dict e =
    [(''task_id'', PStr (ev_task_id e)), (''task_type'', PStr (ev_task_type e)), (''status'', PStr (ev_status e)),
     (''input_hash'', PStr (ev_input_hash e)),
     (''pseudo_hashes'', PDict (map (\<lambda>(k, v). (k, PStr v)) (ev_pseudo_hashes e))),
     (''qe_version'', PStr (ev_qe_version e)), (''parser_version'', PStr (ev_parser_version e)),
     (''commands'', strs (ev_commands e)), (''walltimes_sec'', floats (ev_walltimes_sec e)),
     (''total_walltime_sec'', PFloat (ev_total_walltime_sec e)), (''tokens_used'', PInt (ev_tokens_used e)),
     (''errors'', strs (ev_errors e)), (''recovery_actions'', strs (ev_recovery_actions e)),
     (''verifier_verdict'', (case ev_verifier_verdict e of None \<Rightarrow> PNone | Some d \<Rightarrow> PDict d)),
     (''physical_results'', PDict (ev_physical_results e)), (''output_files'', strs (ev_output_files e)),
     (''log_files'', strs (ev_log_files e))]"

section \<open>Validation\<close>

text \<open>\<open>str.isalnum\<close> on the characters below 256: letters, digits, and the superscripts and
  fractions that Python counts as numeric.\<close>

definition is_alnum :: "char \<Rightarrow> bool" where
  "is_alnum c = (let n = of_char c :: int in
     48 \<le> n \<and> n \<le> 57 \<or> 65 \<le> n \<and> n \<le> 90 \<or> 97 \<le> n \<and> n \<le> 122
     \<or> n \<in> {170, 178, 179, 181, 185, 186, 188, 189, 190} \<or> 192 \<le> n \<and> n \<noteq> 215 \<and> n \<noteq> 247)"

definition py_isalnum :: "string \<Rightarrow> bool" where
  "py_isalnum s = (s \<noteq> [] \<and> list_all is_alnum s)"

definition STEP_TYPES :: "string list" where
  "STEP_TYPES = [''scf'', ''vc-relax'', ''relax'', ''bands_nscf'', ''dos_nscf'']"

definition prefix_ok :: "string \<Rightarrow> bool" where
  "prefix_ok p = py_isalnum (filter (\<lambda>c. c \<noteq> CHR ''-'') (filter (\<lambda>c. c \<noteq> CHR ''_'') p))"

definition step_errors :: "step_ir \<Rightarrow> string list" where
  "step_errors s =
    (if step_type s \<in> set STEP_TYPES then [] else [''Invalid step_type: '' @ step_type s])
    @ (if prefix_ok (prefix s) then [] else [''Invalid prefix: '' @ prefix s])"

definition validate_workflow :: "workflow_ir \<Rightarrow> string list" where
  "validate_workflow w =
    (if wf_task_type w \<in> {''T1'', ''T2''} then [] else [''Invalid task_type: '' @ wf_task_type w])
    @ (if wf_steps w = [] then [''WorkflowIR has no steps''] else [])
    @ concat (map step_errors (wf_steps w))"

definition PATCH_ACTIONS :: "string list" where
  "PATCH_ACTIONS = [''modify_params'', ''change_kpoints'', ''increase_nbnd'', ''retry'', ''restart_from_prev'']"

definition validate_patch :: "plan_patch \<Rightarrow> string list" where
  "validate_patch p =
    (if patch_action p \<in> set PATCH_ACTIONS then [] else [''Invalid patch action: '' @ patch_action p])"

text \<open>What a valid plan is.\<close>

definition valid_workflow :: "workflow_ir \<Rightarrow> bool" where
  "valid_workflow w = (wf_task_type w \<in> {''T1'', ''T2''} \<and> wf_steps w \<noteq> []
     \<and> (\<forall>s \<in> set (wf_steps w). step_type s \<in> set STEP_TYPES \<and> prefix_ok (prefix s)))"

lemma step_errors_Nil: "step_errors s = [] \<longleftrightarrow> step_type s \<in> set STEP_TYPES \<and> prefix_ok (prefix s)"
  by (simp add: step_errors_def)

lemma validate_workflow_Nil: "validate_workflow w = [] \<longleftrightarrow> valid_workflow w"
  by (auto simp: validate_workflow_def valid_workflow_def step_errors_Nil)

text \<open>
  Every task specification that carries a material profile raises \<open>AttributeError\<close> when it is
  turned into a dictionary; without a profile the fields come out as they are.
\<close>

theorem task_to_dict_outcome:
  "task_to_dict t = (if ts_profile t = None then Inr (task_asdict t) else Inl AttributeError)"
  by (cases "ts_profile t")
    (simp_all add: task_to_dict_def task_asdict_def dget_def call_to_dict_def profile_to_dict_def)

section \<open>The planner\<close>

text \<open>The provider's answer (\<open>planner.py\<close>, \<open>llm.py\<close>).\<close>

record llm_request =
  rq_prompt :: string
  rq_materials :: "string list option"
  rq_calcs :: "string list option"

record llm_response =
  rs_workflow :: "workflow_ir option"
  rs_text :: string
  rs_error :: "string option"

definition error_response :: "string \<Rightarrow> llm_response" where
  "error_response e = \<lparr>rs_workflow = None, rs_text = [], rs_error = Some e\<rparr>"

text \<open>\<open>Planner.plan_from_prompt\<close> with the provider as its argument. An empty error text is no error.\<close>

definition plan_from_prompt :: "(llm_request \<Rightarrow> llm_response) \<Rightarrow> llm_request \<Rightarrow> py_exc + workflow_ir" where
  "plan_from_prompt provider request =
    (let response = provider request in
     case rs_error response of
       Some (c # e) \<Rightarrow> Inl (RuntimeError (''LLM planning failed: '' @ c # e))
     | _ \<Rightarrow>
       (case rs_workflow response of
          None \<Rightarrow> Inl (RuntimeError ''LLM provider returned no workflow'')
        | Some w \<Rightarrow>
            let errors = validate_workflow w in
            if errors \<noteq> [] then Inl (ValueError (''Invalid workflow: '' @ py_repr (strs errors)))
            else Inr w))"

definition plan_recovery_patch :: "string \<Rightarrow> string \<Rightarrow> pyval pydict \<Rightarrow> string \<Rightarrow> py_exc + pyval pydict" where
  "plan_recovery_patch target_step_id act ps why =
    (if act \<notin> {''modify_params'', ''change_kpoints'', ''increase_nbnd'', ''retry'', ''restart_from_prev''}
     then Inl (ValueError (''Unsupported recovery action: '' @ act))
     else Inr [(''target_step'', PStr target_step_id), (''action'', PStr act),
               (''new_params'', PDict ps), (''reasoning'', PStr why)])"

text \<open>
  The planner hands out a plan exactly when the provider reports no error and its plan is
  valid, and then it is the provider's plan; and a recovery patch is packaged exactly when the
  schema accepts its action, as the dictionary form of that patch.
\<close>

theorem planner_gate:
  "(plan_from_prompt provider q = Inr w \<longleftrightarrow>
      rs_error (provider q) \<in> {None, Some []} \<and> rs_workflow (provider q) = Some w \<and> valid_workflow w)
   \<and> (plan_recovery_patch (target_step p) (patch_action p) (new_params p) (patch_reasoning p) = Inr d \<longleftrightarrow>
      validate_patch p = [] \<and> d = patch_to_dict p)"
proof
  show "plan_from_prompt provider q = Inr w \<longleftrightarrow>
      rs_error (provider q) \<in> {None, Some []} \<and> rs_workflow (provider q) = Some w \<and> valid_workflow w"
    by (auto simp: plan_from_prompt_def Let_def validate_workflow_Nil split: option.splits list.splits)
qed (auto simp: plan_recovery_patch_def validate_patch_def PATCH_ACTIONS_def patch_to_dict_def)

end
