(* ===== verification/Catalog.thy ===== *)
theory Catalog
  imports Catalog_Data Schemas Recovery "HOL-Library.List_Lexorder" "HOL-Library.Char_ord"
begin

text \<open>
  The material catalog (\<open>catalog/__init__.py\<close>): profiles and task specifications for the built-in
  and the library materials, the registration of structures the user imports, and the task
  parameters derived from a library entry.

  The two module-level dictionaries that change at run time, \<open>MATERIALS\<close> and \<open>TASKS\<close>, are the
  state \<open>catalog\<close>. Of an imported structure (an ASE object) the model has what the code reads: the
  element symbols, the formula and the length of the first cell vector.
\<close>

section \<open>State\<close>

record task_rec =
  tk_task_id :: string
  tk_task_type :: string
  tk_material :: string
  tk_description :: string
  tk_parameters :: "pyval pydict"

definition task_entry :: "string \<Rightarrow> string \<Rightarrow> string \<Rightarrow> string \<Rightarrow> pyval pydict \<Rightarrow> task_rec" where
  "task_entry i ty m d ps =
    \<lparr>tk_task_id = i, tk_task_type = ty, tk_material = m, tk_description = d, tk_parameters = ps\<rparr>"

definition TASKS :: "task_rec pydict" where
  "TASKS =
    [(''T1_Si_vcrelax'', task_entry ''T1_Si_vcrelax'' ''T1'' ''Si''
        ''Si diamond structure vc-relax optimization''
        [(''ecutwfc'', PFloat (Fin 25)), (''ecutrho'', PFloat (Fin 200)), (''kpoints'', ints [4, 4, 4, 1, 1, 1]),
         (''conv_thr'', PFloat (Fin (1 / 10 ^ 8))), (''cell_optimization'', PBool True), (''nstep'', PInt 200)]),
     (''T1_Al_vcrelax'', task_entry ''T1_Al_vcrelax'' ''T1'' ''Al''
        ''Al FCC structure vc-relax optimization''
        [(''ecutwfc'', PFloat (Fin 20)), (''ecutrho'', PFloat (Fin 160)), (''kpoints'', ints [8, 8, 8, 1, 1, 1]),
         (''conv_thr'', PFloat (Fin (1 / 10 ^ 8))), (''cell_optimization'', PBool True), (''nstep'', PInt 200)]),
     (''T1_MgO_vcrelax'', task_entry ''T1_MgO_vcrelax'' ''T1'' ''MgO''
        ''MgO NaCl structure vc-relax optimization''
        [(''ecutwfc'', PFloat (Fin 40)), (''ecutrho'', PFloat (Fin 320)), (''kpoints'', ints [4, 4, 4, 1, 1, 1]),
         (''conv_thr'', PFloat (Fin (1 / 10 ^ 8))), (''cell_optimization'', PBool True), (''nstep'', PInt 200)]),
     (''T2_Si_bands'', task_entry ''T2_Si_bands'' ''T2'' ''Si''
        ''Si diamond structure band structure (SCF + NSCF + bands.x)''
        [(''subtype'', PStr ''bands''), (''ecutwfc'', PFloat (Fin 25)), (''ecutrho'', PFloat (Fin 200)),
         (''kpoints_scf'', ints [8, 8, 8, 1, 1, 1]), (''kpoints_nscf'', ints [8, 8, 8, 1, 1, 1]), (''conv_thr'', PFloat (Fin (1 / 10 ^ 8))),
         (''nbnd'', PInt 16), (''nkpoints_bands'', PInt 100)]),
     (''T2_Al_bands'', task_entry ''T2_Al_bands'' ''T2'' ''Al''
        ''Al FCC structure band structure (SCF + NSCF + bands.x)''
        [(''subtype'', PStr ''bands''), (''ecutwfc'', PFloat (Fin 20)), (''ecutrho'', PFloat (Fin 160)),
         (''kpoints_scf'', ints [12, 12, 12, 1, 1, 1]), (''kpoints_nscf'', ints [12, 12, 12, 1, 1, 1]), (''conv_thr'', PFloat (Fin (1 / 10 ^ 8))),
         (''nbnd'', PInt 12), (''nkpoints_bands'', PInt 100)]),
     (''T2_MgO_bands'', task_entry ''T2_MgO_bands'' ''T2'' ''MgO''
        ''MgO NaCl structure band structure (SCF + NSCF + bands.x)''
        [(''subtype'', PStr ''bands''), (''ecutwfc'', PFloat (Fin 40)), (''ecutrho'', PFloat (Fin 320)),
         (''kpoints_scf'', ints [8, 8, 8, 1, 1, 1]), (''kpoints_nscf'', ints [8, 8, 8, 1, 1, 1]), (''conv_thr'', PFloat (Fin (1 / 10 ^ 8))),
         (''nbnd'', PInt 24), (''nkpoints_bands'', PInt 100)]),
     (''T2_Si_dos'', task_entry ''T2_Si_dos'' ''T2'' ''Si''
        ''Si diamond structure DOS (SCF + NSCF + dos.x)''
        [(''subtype'', PStr ''dos''), (''ecutwfc'', PFloat (Fin 25)), (''ecutrho'', PFloat (Fin 200)),
         (''kpoints_scf'', ints [8, 8, 8, 1, 1, 1]), (''kpoints_nscf'', ints [8, 8, 8, 1, 1, 1]), (''conv_thr'', PFloat (Fin (1 / 10 ^ 8))),
         (''nbnd'', PInt 16), (''dos_deltae'', PFloat (Fin (1 / 100))), (''dos_fwhm'', PFloat (Fin (5 / 100)))]),
     (''T2_Al_dos'', task_entry ''T2_Al_dos'' ''T2'' ''Al''
        ''Al FCC structure DOS (SCF + NSCF + dos.x)''
        [(''subtype'', PStr ''dos''), (''ecutwfc'', PFloat (Fin 20)), (''ecutrho'', PFloat (Fin 160)),
         (''kpoints_scf'', ints [12, 12, 12, 1, 1, 1]), (''kpoints_nscf'', ints [12, 12, 12, 1, 1, 1]), (''conv_thr'', PFloat (Fin (1 / 10 ^ 8))),
         (''nbnd'', PInt 12), (''dos_deltae'', PFloat (Fin (1 / 100))), (''dos_fwhm'', PFloat (Fin (5 / 100)))]),
     (''T2_MgO_dos'', task_entry ''T2_MgO_dos'' ''T2'' ''MgO''
        ''MgO NaCl structure DOS (SCF + NSCF + dos.x)''
        [(''subtype'', PStr ''dos''), (''ecutwfc'', PFloat (Fin 40)), (''ecutrho'', PFloat (Fin 320)),
         (''kpoints_scf'', ints [8, 8, 8, 1, 1, 1]), (''kpoints_nscf'', ints [8, 8, 8, 1, 1, 1]), (''conv_thr'', PFloat (Fin (1 / 10 ^ 8))),
         (''nbnd'', PInt 24), (''dos_deltae'', PFloat (Fin (1 / 100))), (''dos_fwhm'', PFloat (Fin (5 / 100)))])]"

record catalog =
  materials :: "db_entry pydict"
  tasks :: "task_rec pydict"

definition initial_catalog :: catalog where
  "initial_catalog = \<lparr>materials = MATERIALS, tasks = TASKS\<rparr>"

section \<open>Profiles\<close>

text \<open>Bohr per Angstrom, as the code rounds it.\<close>

definition A2B :: rat where
  "A2B = 18897261246 / 10000000000"

definition list_materials :: "catalog \<Rightarrow> string list" where
  "list_materials c = sort (remdups (dkeys (materials c) @ dkeys LIBRARY_MATERIALS))"

definition lookup_material :: "catalog \<Rightarrow> string \<Rightarrow> db_entry option" where
  "lookup_material c m = (case dget (materials c) m of Some e \<Rightarrow> Some e | None \<Rightarrow> dget LIBRARY_MATERIALS m)"

definition missing_key :: "string \<Rightarrow> 'a option \<Rightarrow> py_exc + 'a" where
  "missing_key k x = the_or (KeyError k) x"

text \<open>Cell length and number of atoms: from the cell parameters, or from the built-in fields.\<close>

definition cell_size :: "db_entry \<Rightarrow> py_exc + (pyfloat \<times> int)" where
  "cell_size db =
    (case db_cellpar db of
       Some cp \<Rightarrow> bindr (the_or IndexError (if cp = [] then None else Some (hd cp))) (\<lambda>a.
                  bindr (missing_key ''sites'' (db_sites db)) (\<lambda>ss. Inr (Fin a, int (length ss))))
     | None \<Rightarrow> bindr (missing_key ''lattice_constant_angstrom'' (db_lattice db)) (\<lambda>a.
               bindr (missing_key ''natoms_primitive'' (db_natoms_primitive db)) (\<lambda>n. Inr (a, n))))"

definition get_material_profile :: "catalog \<Rightarrow> string \<Rightarrow> py_exc + material_profile" where
  "get_material_profile c m =
    (case lookup_material c m of
       None \<Rightarrow> Inl (ValueError (''Unknown material: '' @ m @ ''. Known: '' @
                 py_repr (strs (take 20 (list_materials c))) @ '' ...''))
     | Some db \<Rightarrow>
         bindr (cell_size db) (\<lambda>(a, n).
         Inr \<lparr>formula = db_formula db, structure_type = db_structure_type db,
              space_group = db_space_group db, ibrav = db_ibrav db,
              lattice_constant_bohr = pf_mul a (Fin A2B), natoms = n, nspecies = db_nspecies db,
              species = db_species db, masses = db_masses db, pseudos = db_pseudos db,
              occupations = db_occupations db, smearing = db_smearing db, degauss = db_degauss db,
              charge = (case db_charge db of Some q \<Rightarrow> q | None \<Rightarrow> 0), is_metal = db_is_metal db\<rparr>))"

section \<open>Tasks\<close>

definition spec_of_task :: "task_rec \<Rightarrow> material_profile \<Rightarrow> task_spec" where
  "spec_of_task t p =
    \<lparr>ts_task_id = tk_task_id t, ts_task_type = tk_task_type t, ts_material = tk_material t,
     ts_description = tk_description t, ts_profile = Some p, ts_parameters = tk_parameters t,
     ts_prompt_file = None, ts_metadata = []\<rparr>"

definition get_task_spec :: "catalog \<Rightarrow> string \<Rightarrow> py_exc + task_spec" where
  "get_task_spec c task_id =
    (case dget (tasks c) task_id of
       None \<Rightarrow> Inl (ValueError (''Unknown task: '' @ task_id @ ''. Known: '' @ py_repr (strs (dkeys (tasks c)))))
     | Some t \<Rightarrow> bindr (get_material_profile c (tk_material t)) (\<lambda>p. Inr (spec_of_task t p)))"

definition list_tasks :: "catalog \<Rightarrow> string option \<Rightarrow> string list" where
  "list_tasks c ty =
    (case ty of None \<Rightarrow> dkeys (tasks c)
     | Some t \<Rightarrow> map fst (filter (\<lambda>(_, e). tk_task_type e = t) (tasks c)))"

section \<open>Imported structures\<close>

definition or_else :: "string \<Rightarrow> string \<Rightarrow> string" where
  "or_else s d = (if s = [] then d else s)"

definition dynamic_entry :: "material_profile \<Rightarrow> db_entry" where
  "dynamic_entry p =
    \<lparr>db_formula = formula p, db_structure_type = ''user_imported'',
     db_space_group = or_else (space_group p) ''P1'', db_mp_id = None, db_name = None, db_ibrav = 0,
     db_lattice = Some (pf_mul (lattice_constant_bohr p) (Fin (1 / A2B))),
     db_natoms_primitive = Some (natoms p), db_cellpar = None, db_sites = None,
     db_nspecies = nspecies p, db_species = species p, db_masses = masses p, db_pseudos = pseudos p,
     db_occupations = occupations p, db_smearing = smearing p, db_degauss = degauss p,
     db_ecutwfc = None, db_ecutrho = None, db_kpoints = None, db_charge = Some (charge p),
     db_is_metal = is_metal p, db_category = None\<rparr>"

definition register_dynamic_material :: "string \<Rightarrow> material_profile \<Rightarrow> catalog \<Rightarrow> catalog" where
  "register_dynamic_material i p c = c\<lparr>materials := dput i (dynamic_entry p) (materials c)\<rparr>"

record ase_atoms =
  symbols :: "string list"
  chemical_formula :: string
  cell0_norm :: pyfloat

record import_report =
  rp_success :: bool
  rp_atoms :: "ase_atoms option"
  rp_species :: "string list"
  rp_formula :: string
  rp_space_group :: string
  rp_natoms :: int
  rp_nspecies :: int

definition mass_map :: "(string \<times> rat) list" where
  "mass_map =
    [(''H'', 1008 / 1000), (''He'', 40026 / 10000), (''Li'', 6941 / 1000), (''Be'', 90122 / 10000), (''B'', 1081 / 100), (''C'', 12011 / 1000),
     (''N'', 14007 / 1000), (''O'', 15999 / 1000), (''F'', 18998 / 1000), (''Na'', 2299 / 100), (''Mg'', 24305 / 1000), (''Al'', 26982 / 1000),
     (''Si'', 28086 / 1000), (''P'', 30974 / 1000), (''S'', 32065 / 1000), (''Cl'', 35453 / 1000), (''K'', 39098 / 1000), (''Ca'', 40078 / 1000),
     (''Ti'', 47867 / 1000), (''V'', 50942 / 1000), (''Cr'', 51996 / 1000), (''Mn'', 54938 / 1000), (''Fe'', 55845 / 1000), (''Co'', 58933 / 1000),
     (''Ni'', 58693 / 1000), (''Cu'', 63546 / 1000), (''Zn'', 6538 / 100), (''Ga'', 69723 / 1000), (''Ge'', 7263 / 100), (''As'', 74922 / 1000),
     (''Se'', 78971 / 1000), (''Br'', 79904 / 1000), (''Rb'', 85468 / 1000), (''Sr'', 8762 / 100), (''Y'', 88906 / 1000), (''Zr'', 91224 / 1000),
     (''Nb'', 92906 / 1000), (''Mo'', 9595 / 100), (''Tc'', 98), (''Ru'', 10107 / 100), (''Rh'', 102906 / 1000), (''Pd'', 10642 / 100),
     (''Ag'', 107868 / 1000), (''Cd'', 112414 / 1000), (''In'', 114818 / 1000), (''Sn'', 11871 / 100), (''Sb'', 12176 / 100), (''Te'', 1276 / 10),
     (''I'', 126904 / 1000), (''Cs'', 132905 / 1000), (''Ba'', 137327 / 1000), (''La'', 138905 / 1000), (''Ce'', 140116 / 1000), (''Pr'', 140908 / 1000),
     (''Nd'', 144242 / 1000), (''Pm'', 145), (''Sm'', 15036 / 100), (''Eu'', 151964 / 1000), (''Gd'', 15725 / 100), (''Tb'', 158925 / 1000),
     (''Dy'', 1625 / 10), (''Ho'', 16493 / 100), (''Er'', 167259 / 1000), (''Tm'', 168934 / 1000), (''Yb'', 173054 / 1000), (''Lu'', 174967 / 1000),
     (''Hf'', 17849 / 100), (''Ta'', 180948 / 1000), (''W'', 18384 / 100), (''Re'', 186207 / 1000), (''Os'', 19023 / 100), (''Ir'', 192217 / 1000),
     (''Pt'', 195084 / 1000), (''Au'', 196967 / 1000), (''Hg'', 200592 / 1000), (''Tl'', 204383 / 1000), (''Pb'', 2072 / 10), (''Bi'', 20898 / 100)]"

definition mass_of :: "string \<Rightarrow> rat" where
  "mass_of s = (case map_of mass_map s of Some m \<Rightarrow> m | None \<Rightarrow> 0)"

record dyn_options =
  dy_pseudos :: "string pydict"
  dy_occupations :: string
  dy_smearing :: string
  dy_degauss :: pyfloat
  dy_charge :: int
  dy_is_metal :: bool

definition default_dyn :: dyn_options where
  "default_dyn = \<lparr>dy_pseudos = [], dy_occupations = ''smearing'', dy_smearing = ''mp'',
     dy_degauss = Fin (2 / 100), dy_charge = 0, dy_is_metal = False\<rparr>"

definition build_dynamic_material_profile ::
  "import_report \<Rightarrow> dyn_options \<Rightarrow> py_exc + material_profile" where
  "build_dynamic_material_profile r o1 =
    (case rp_atoms r of
       None \<Rightarrow> Inl (ValueError ''Cannot build profile from failed validation report'')
     | Some atoms \<Rightarrow>
       if \<not> rp_success r then Inl (ValueError ''Cannot build profile from failed validation report'')
       else
         let sp = (if rp_species r \<noteq> [] then rp_species r else sort (remdups (symbols atoms)));
             ms = map mass_of sp in
         if list_ex (\<lambda>m. m = 0) ms
         then Inl (ValueError (''Unknown element(s) without mass lookup: '' @
                     py_repr (strs (filter (\<lambda>s. mass_of s = 0) sp))))
         else
           let a_angstrom = pf_mul (cell0_norm atoms) (Fin (1 / A2B)) in
           Inr \<lparr>formula = or_else (rp_formula r) (chemical_formula atoms),
                structure_type = ''user_imported'', space_group = or_else (rp_space_group r) ''P1'',
                ibrav = 0, lattice_constant_bohr = pf_mul a_angstrom (Fin A2B),
                natoms = rp_natoms r, nspecies = rp_nspecies r, species = sp, masses = map Fin ms,
                pseudos = dy_pseudos o1, occupations = dy_occupations o1, smearing = dy_smearing o1,
                degauss = dy_degauss o1, charge = dy_charge o1, is_metal = dy_is_metal o1\<rparr>)"

definition build_dynamic_task_spec ::
  "string \<Rightarrow> material_profile \<Rightarrow> string \<Rightarrow> pyval pydict \<Rightarrow> string \<Rightarrow> task_spec" where
  "build_dynamic_task_spec i p ty ps descr =
    \<lparr>ts_task_id = i, ts_task_type = ty, ts_material = formula p,
     ts_description = or_else descr (formula p @ '' user-imported structure''), ts_profile = Some p,
     ts_parameters = ps, ts_prompt_file = None, ts_metadata = [(''dynamic'', PBool True)]\<rparr>"

section \<open>Tasks for library materials\<close>

definition opt_or :: "'a \<Rightarrow> 'a option \<Rightarrow> 'a" where
  "opt_or d x = (case x of None \<Rightarrow> d | Some v \<Rightarrow> v)"

definition atom_count :: "db_entry \<Rightarrow> py_exc + int" where
  "atom_count db = (case db_sites db of Some ss \<Rightarrow> Inr (int (length ss))
     | None \<Rightarrow> missing_key ''natoms_primitive'' (db_natoms_primitive db))"

definition build_library_task_spec :: "catalog \<Rightarrow> string \<Rightarrow> string \<Rightarrow> string option \<Rightarrow> py_exc + task_rec" where
  "build_library_task_spec c m ty subtype0 =
    (case lookup_material c m of
       None \<Rightarrow> Inl (ValueError (''Unknown material: '' @ m))
     | Some db \<Rightarrow>
       let ecutwfc = opt_or (Fin 45) (db_ecutwfc db);
           ecutrho = opt_or (pf_mul ecutwfc (Fin 8)) (db_ecutrho db);
           kpoints = ints (opt_or [6, 6, 6, 1, 1, 1] (db_kpoints db));
           subtype = or_else (opt_or [] subtype0) ''bands'' in
       bindr (atom_count db) (\<lambda>n.
       let nbnd = (if db_is_metal db then n * 8 else n * 4) in
       if ty = ''T1'' then Inr (task_entry (''T1_'' @ m @ ''_vcrelax'') ''T1'' m
         (m @ '' ('' @ db_structure_type db @ '') vc-relax optimization'')
         [(''ecutwfc'', PFloat ecutwfc), (''ecutrho'', PFloat ecutrho), (''kpoints'', kpoints),
          (''conv_thr'', PFloat (Fin (1 / 10 ^ 8))), (''cell_optimization'', PBool True), (''nstep'', PInt 200)])
       else if ty = ''T2'' then Inr (task_entry (''T2_'' @ m @ ''_'' @ subtype) ''T2'' m
         (m @ '' '' @ subtype @ '' (SCF + NSCF)'')
         ([(''subtype'', PStr subtype), (''ecutwfc'', PFloat ecutwfc), (''ecutrho'', PFloat ecutrho),
           (''kpoints_scf'', kpoints), (''kpoints_nscf'', kpoints),
           (''conv_thr'', PFloat (Fin (1 / 10 ^ 8))), (''nbnd'', PInt nbnd)]
          @ (if subtype = ''bands'' then [(''nkpoints_bands'', PInt 100)]
             else [(''dos_deltae'', PFloat (Fin (1 / 100))), (''dos_fwhm'', PFloat (Fin (5 / 100)))])))
       else Inl (ValueError (''Unsupported task_type: '' @ ty))))"

end
