(* ===== verification/Catalog_Props.thy ===== *)
theory Catalog_Props
  imports Catalog
begin

text \<open>
  The catalog is complete and consistent: every built-in and library material has a sound
  profile, every task a specification; registration and lookup of an imported structure are
  inverse to each other; and the unit of an imported structure's lattice constant.
\<close>

section \<open>Sound profiles\<close>

definition profile_ok :: "material_profile \<Rightarrow> bool" where
  "profile_ok p =
    (nspecies p = int (length (species p)) \<and> distinct (species p) \<and> species p \<noteq> []
     \<and> length (masses p) = length (species p) \<and> list_all (pf_lt (Fin 0)) (masses p)
     \<and> map fst (pseudos p) = species p \<and> pf_lt (Fin 0) (degauss p)
     \<and> 0 < natoms p \<and> pf_lt (Fin 0) (lattice_constant_bohr p))"

lemma library_entry: "dget LIBRARY_MATERIALS m = Some e \<Longrightarrow> library_entry_ok m e"
  using library_ok by (auto simp: dget_def entries_ok_def list_all_iff dest: map_of_SomeD)

lemma library_profile:
  assumes "library_entry_ok m e" and "lookup_material c m = Some e"
  shows "\<exists>p. get_material_profile c m = Inr p \<and> profile_ok p"
proof -
  obtain cp ss where cs: "db_cellpar e = Some cp" "db_sites e = Some ss" and sp: "species_ok e"
    and cp: "length cp = 6" "list_all (\<lambda>x. 0 < x) cp" and ss: "db_species e = rev (remdups (rev (map fst ss)))"
    using assms(1) by (auto simp: library_entry_ok_def split: option.splits)
  have "ss \<noteq> []" using ss sp by (auto simp: species_ok_def)
  moreover obtain a cp' where "cp = a # cp'" "0 < a" using cp by (cases cp) auto
  ultimately show ?thesis
    using cs sp assms(2)
    by (simp add: get_material_profile_def cell_size_def missing_key_def profile_ok_def species_ok_def A2B_def)
qed

lemma builtin_lookup: "lookup_material initial_catalog m = (case dget MATERIALS m of Some e \<Rightarrow> Some e
    | None \<Rightarrow> dget LIBRARY_MATERIALS m)"
  by (simp add: lookup_material_def initial_catalog_def)

lemma builtin_profiles: "list_all (\<lambda>m. case get_material_profile initial_catalog m of Inr p \<Rightarrow> profile_ok p
    | Inl _ \<Rightarrow> False) (dkeys MATERIALS)"
  by code_simp

lemma known_profile:
  assumes "lookup_material initial_catalog m \<noteq> None"
  shows "\<exists>p. get_material_profile initial_catalog m = Inr p \<and> profile_ok p"
proof (cases "dget MATERIALS m")
  case None
  with assms obtain e where "dget LIBRARY_MATERIALS m = Some e" by (auto simp: builtin_lookup)
  with None show ?thesis by (intro library_profile [OF library_entry]) (simp_all add: builtin_lookup)
next
  case (Some e)
  then have "m \<in> set (dkeys MATERIALS)" by (rule dget_SomeD)
  with builtin_profiles have "case get_material_profile initial_catalog m of Inr p \<Rightarrow> profile_ok p | Inl _ \<Rightarrow> False"
    by (simp add: list_all_iff)
  then show ?thesis by (cases "get_material_profile initial_catalog m") auto
qed

lemma lookup_known: "lookup_material initial_catalog m \<noteq> None \<longleftrightarrow> m \<in> set (list_materials initial_catalog)"
proof -
  have "dget MATERIALS m \<noteq> None \<or> dget LIBRARY_MATERIALS m \<noteq> None \<longleftrightarrow>
      m \<in> set (dkeys MATERIALS) \<or> m \<in> set (dkeys LIBRARY_MATERIALS)"
    using dget_None_iff [of MATERIALS m] dget_None_iff [of LIBRARY_MATERIALS m] by simp
  moreover have "set (list_materials initial_catalog) = set (dkeys MATERIALS) \<union> set (dkeys LIBRARY_MATERIALS)"
    by (simp add: list_materials_def initial_catalog_def)
  ultimately show ?thesis
    by (cases "dget MATERIALS m"; cases "dget LIBRARY_MATERIALS m") (simp_all add: builtin_lookup)
qed

lemma tasks_ok: "list_all (\<lambda>(i, t). tk_task_id t = i \<and> tk_task_type t \<in> {''T1'', ''T2''}
    \<and> lookup_material initial_catalog (tk_material t) \<noteq> None) TASKS"
  by code_simp

text \<open>
  The shipped catalog is complete. A material has a profile exactly when it is listed, every
  profile is sound (species, masses and pseudopotentials agree, all positive where they must
  be), and every listed task has a specification under its own id with a sound profile.
\<close>

theorem catalog_complete:
  "((\<exists>p. get_material_profile initial_catalog m = Inr p) \<longleftrightarrow> m \<in> set (list_materials initial_catalog))
   \<and> (\<forall>p. get_material_profile initial_catalog m = Inr p \<longrightarrow> profile_ok p)
   \<and> (\<forall>t \<in> set (list_tasks initial_catalog None). \<exists>s p. get_task_spec initial_catalog t = Inr s
        \<and> ts_task_id s = t \<and> ts_task_type s \<in> {''T1'', ''T2''} \<and> ts_profile s = Some p \<and> profile_ok p)"
proof (intro conjI ballI allI impI)
  have unknown: "lookup_material initial_catalog m = None \<Longrightarrow> \<nexists>p. get_material_profile initial_catalog m = Inr p"
    by (simp add: get_material_profile_def)
  show "(\<exists>p. get_material_profile initial_catalog m = Inr p) \<longleftrightarrow> m \<in> set (list_materials initial_catalog)"
    using unknown known_profile [of m] lookup_known [of m] by blast
  show "profile_ok p" if "get_material_profile initial_catalog m = Inr p" for p
    using that unknown known_profile [of m] by fastforce
  fix t assume "t \<in> set (list_tasks initial_catalog None)"
  then have t: "t \<in> set (dkeys TASKS)" by (simp add: list_tasks_def initial_catalog_def)
  then obtain e where e: "dget TASKS t = Some e" using dget_None_iff [of TASKS t] by auto
  then have "(t, e) \<in> set TASKS" by (auto simp: dget_def dest: map_of_SomeD)
  with tasks_ok have ok: "tk_task_id e = t" "tk_task_type e \<in> {''T1'', ''T2''}"
      "lookup_material initial_catalog (tk_material e) \<noteq> None"
    by (auto simp: list_all_iff)
  from known_profile [OF ok(3)] obtain p where
    "get_material_profile initial_catalog (tk_material e) = Inr p" "profile_ok p" by blast
  with e ok show "\<exists>s p. get_task_spec initial_catalog t = Inr s
        \<and> ts_task_id s = t \<and> ts_task_type s \<in> {''T1'', ''T2''} \<and> ts_profile s = Some p \<and> profile_ok p"
    by (simp add: get_task_spec_def initial_catalog_def spec_of_task_def)
qed

section \<open>Imported structures\<close>

lemma pf_mul_inverse: "pf_mul (pf_mul x (Fin (1 / A2B))) (Fin A2B) = x"
  by (cases x) (simp_all add: A2B_def)

text \<open>
  A registered profile is found again, whatever the catalog held under its id: every field
  is the registered one, but the structure type and the lattice index, which mark an import,
  and an empty space group, which becomes P1. Other materials are not affected.
\<close>

theorem register_lookup:
  "get_material_profile (register_dynamic_material i p c) i =
     Inr (p\<lparr>structure_type := ''user_imported'', ibrav := 0, space_group := or_else (space_group p) ''P1''\<rparr>)
   \<and> (j \<noteq> i \<longrightarrow> lookup_material (register_dynamic_material i p c) j = lookup_material c j)"
  by (simp add: get_material_profile_def register_dynamic_material_def lookup_material_def
      dynamic_entry_def cell_size_def missing_key_def pf_mul_inverse pydict)

definition demo_profile :: material_profile where
  "demo_profile = \<lparr>formula = ''NaCl'', structure_type = ''nacl'', space_group = [], ibrav = 2,
     lattice_constant_bohr = Fin (10 :: rat), natoms = 2, nspecies = 2, species = [''Na'', ''Cl''],
     masses = [Fin 23, Fin 35], pseudos = [], occupations = ''fixed'', smearing = [], degauss = Fin 0,
     charge = 0, is_metal = False\<rparr>"

theorem register_lookup_witness:
  "lookup_material (register_dynamic_material ''x'' demo_profile initial_catalog) ''Si''
     = lookup_material initial_catalog ''Si''"
  using register_lookup [of "''x''" demo_profile initial_catalog "''Si''"] by simp

text \<open>
  The lattice constant of an imported structure is not converted: the field that holds Bohr
  for every catalog material holds the length of the first cell vector as ASE gives it, in
  Angstrom; the catalog's own materials are multiplied by the Bohr factor.
\<close>

theorem imported_lattice_unit:
  assumes "build_dynamic_material_profile r o1 = Inr p" and "rp_atoms r = Some atoms"
  shows "lattice_constant_bohr p = cell0_norm atoms
     \<and> (\<forall>e q. lookup_material c m = Some e \<longrightarrow> get_material_profile c m = Inr q \<longrightarrow>
          (\<exists>a n. cell_size e = Inr (a, n) \<and> lattice_constant_bohr q = pf_mul a (Fin A2B)))"
  using assms
  by (auto simp: build_dynamic_material_profile_def Let_def pf_mul_inverse get_material_profile_def
      bindr_eq_Inr split: if_splits)

definition demo_import :: import_report where
  "demo_import = \<lparr>rp_success = True,
     rp_atoms = Some \<lparr>symbols = [''Na'', ''Cl''], chemical_formula = ''ClNa'', cell0_norm = Fin (4 :: rat)\<rparr>,
     rp_species = [], rp_formula = [], rp_space_group = [], rp_natoms = 2, rp_nspecies = 2\<rparr>"

theorem imported_lattice_unit_witness:
  "\<exists>p. build_dynamic_material_profile demo_import default_dyn = Inr p \<and> lattice_constant_bohr p = Fin 4"
proof -
  have "isl (build_dynamic_material_profile demo_import default_dyn) = False" by code_simp
  then obtain p where p: "build_dynamic_material_profile demo_import default_dyn = Inr p"
    by (cases "build_dynamic_material_profile demo_import default_dyn") auto
  with imported_lattice_unit [OF p] show ?thesis by (simp add: demo_import_def)
qed

theorem catalog_complete_witness:
  "\<exists>s. get_task_spec initial_catalog ''T1_Si_vcrelax'' = Inr s \<and> ts_task_id s = ''T1_Si_vcrelax''"
proof -
  have "''T1_Si_vcrelax'' \<in> set (list_tasks initial_catalog None)" by code_simp
  then show ?thesis using catalog_complete [of "''Si''"] by blast
qed

end
