(* ===== verification/Ledger.thy ===== *)
theory Ledger
  imports Py_Text "HOL-Library.Multiset"
begin

text \<open>
  The evidence ledger (\<open>ledger.py\<close>): an append-only table of run attempts with a serial id, and
  its queries. The JSON columns are lists of texts; the clock is an argument.
\<close>

section \<open>Records and rows\<close>

record ledger_record =
  lr_task_id :: string
  lr_task_type :: string
  lr_attempt :: int
  lr_success :: bool
  lr_input_hash :: string
  lr_walltime_sec :: pyfloat
  lr_verifier_passed :: bool
  lr_failure_reasons :: "string list"
  lr_recovery_actions :: "string list"
  lr_failure_kind :: string
  lr_evidence_path :: string
  lr_output_files :: "string list"
  lr_timestamp :: string

text \<open>The run record of \<open>runner.py\<close>, as far as \<open>record_run\<close> reads it.\<close>

record run_record =
  rr_attempt :: int
  rr_success :: bool
  rr_input_hash :: string
  rr_walltime_sec :: pyfloat
  rr_verifier_passed :: bool
  rr_failure_reasons :: "string list"
  rr_recovery_actions :: "string list"

text \<open>What the caller may pass: a complete ledger record, a run record, or the fields alone.\<close>

datatype record_arg = FullRecord ledger_record | FromRun run_record | NoRecord

record ledger_row = ledger_record +
  row_id :: int

text \<open>The table and the last id that \<open>AUTOINCREMENT\<close> has given.\<close>

record ledger =
  rows :: "ledger_row list"
  last_id :: int

definition empty_ledger :: ledger where
  "empty_ledger = \<lparr>rows = [], last_id = 0\<rparr>"

section \<open>Recording\<close>

text \<open>\<open>kw\<close> holds the keyword arguments (the empty text or list where the caller gave none).\<close>

definition build_record :: "record_arg \<Rightarrow> ledger_record \<Rightarrow> ledger_record" where
  "build_record arg kw =
    (case arg of
       FullRecord r \<Rightarrow> r
     | FromRun rr \<Rightarrow> kw\<lparr>lr_attempt := rr_attempt rr, lr_success := rr_success rr,
           lr_input_hash := rr_input_hash rr, lr_walltime_sec := rr_walltime_sec rr,
           lr_verifier_passed := rr_verifier_passed rr, lr_failure_reasons := rr_failure_reasons rr,
           lr_recovery_actions := rr_recovery_actions rr\<rparr>
     | NoRecord \<Rightarrow> kw)"

text \<open>The timestamp written is always the time of the insertion.\<close>

definition row_of :: "int \<Rightarrow> string \<Rightarrow> ledger_record \<Rightarrow> ledger_row" where
  "row_of i now r =
    \<lparr>lr_task_id = lr_task_id r, lr_task_type = lr_task_type r, lr_attempt = lr_attempt r,
     lr_success = lr_success r, lr_input_hash = lr_input_hash r, lr_walltime_sec = lr_walltime_sec r,
     lr_verifier_passed = lr_verifier_passed r, lr_failure_reasons = lr_failure_reasons r,
     lr_recovery_actions = lr_recovery_actions r, lr_failure_kind = lr_failure_kind r,
     lr_evidence_path = lr_evidence_path r, lr_output_files = lr_output_files r,
     lr_timestamp = now, row_id = i\<rparr>"

definition record_run :: "record_arg \<Rightarrow> ledger_record \<Rightarrow> string \<Rightarrow> ledger \<Rightarrow> int \<times> ledger" where
  "record_run arg kw now l =
    (let i = last_id l + 1 in
     (i, l\<lparr>rows := rows l @ [row_of i now (build_record arg kw)], last_id := i\<rparr>))"

section \<open>Queries\<close>

text \<open>\<open>LIMIT n\<close>: a negative limit is no limit.\<close>

definition sql_limit :: "int \<Rightarrow> 'a list \<Rightarrow> 'a list" where
  "sql_limit n xs = (if n < 0 then xs else take (nat n) xs)"

definition of_task :: "string option \<Rightarrow> ledger_row list \<Rightarrow> ledger_row list" where
  "of_task t rs = (case t of None \<Rightarrow> rs | Some i \<Rightarrow> filter (\<lambda>r. lr_task_id r = i) rs)"

text \<open>\<open>ORDER BY id DESC\<close>.\<close>

definition get_runs :: "string option \<Rightarrow> int \<Rightarrow> ledger \<Rightarrow> ledger_row list" where
  "get_runs t limit l = sql_limit limit (sort_key (\<lambda>r. - row_id r) (of_task t (rows l)))"

text \<open>\<open>fetchone\<close> of a query without an order, served by the index on \<open>task_id\<close>: the index lists equal
  keys by row id, so the first matching row by id.\<close>

definition get_run :: "string \<Rightarrow> int \<Rightarrow> ledger \<Rightarrow> ledger_row option" where
  "get_run t attempt l =
    find (\<lambda>r. lr_task_id r = t \<and> lr_attempt r = attempt) (sort_key row_id (rows l))"

text \<open>\<open>GROUP BY failure_kind ORDER BY count DESC\<close>; the order of equal counts is not fixed by the
  query and is the order of the kinds here.\<close>

definition failures :: "string option \<Rightarrow> ledger \<Rightarrow> ledger_row list" where
  "failures t l = of_task t (filter (\<lambda>r. \<not> lr_success r \<and> lr_failure_kind r \<noteq> []) (rows l))"

definition count_kind :: "string \<Rightarrow> ledger_row list \<Rightarrow> int" where
  "count_kind k rs = int (length (filter (\<lambda>r. lr_failure_kind r = k) rs))"

definition get_failure_patterns :: "string option \<Rightarrow> ledger \<Rightarrow> (string \<times> int) list" where
  "get_failure_patterns t l =
    (let rs = failures t l in
     sort_key (\<lambda>(k, n). - n) (map (\<lambda>k. (k, count_kind k rs)) (remdups (map lr_failure_kind rs))))"

section \<open>The invariant of the table\<close>

definition ledger_ok :: "ledger \<Rightarrow> bool" where
  "ledger_ok l = (0 \<le> last_id l \<and> sorted (map row_id (rows l)) \<and> distinct (map row_id (rows l))
     \<and> (\<forall>r \<in> set (rows l). 0 < row_id r \<and> row_id r \<le> last_id l))"

lemma row_of_sel [simp]: "row_id (row_of i now r) = i" "lr_task_id (row_of i now r) = lr_task_id r"
  "lr_attempt (row_of i now r) = lr_attempt r" "lr_timestamp (row_of i now r) = now"
  "lr_success (row_of i now r) = lr_success r" "lr_failure_kind (row_of i now r) = lr_failure_kind r"
  by (simp_all add: row_of_def)

lemma ledger_ok_empty: "ledger_ok empty_ledger"
  by (simp add: ledger_ok_def empty_ledger_def)

lemma ledger_ok_record:
  assumes "ledger_ok l"
  shows "ledger_ok (snd (record_run arg kw now l))"
  using assms by (force simp: ledger_ok_def record_run_def Let_def sorted_append)

text \<open>Every ledger there can be: records into the empty one.\<close>

inductive reachable :: "ledger \<Rightarrow> bool" where
  start: "reachable empty_ledger"
| recorded: "reachable l \<Longrightarrow> reachable (snd (record_run arg kw now l))"

lemma reachable_ok: "reachable l \<Longrightarrow> ledger_ok l"
  by (induction rule: reachable.induct) (simp_all add: ledger_ok_empty ledger_ok_record)

lemma sorted_rows: "ledger_ok l \<Longrightarrow> sort_key row_id (rows l) = rows l"
  by (simp add: ledger_ok_def sorted_sort_id sort_key_id_if_sorted)

lemma newest_first:
  assumes "ledger_ok l"
  shows "sort_key (\<lambda>r. - row_id r) (of_task t (rows l)) = rev (of_task t (rows l))"
proof (rule sort_key_inj_key_eq)
  have s: "sorted (map row_id (of_task t (rows l)))" and d: "distinct (map row_id (of_task t (rows l)))"
    using assms by (auto simp: of_task_def ledger_ok_def sorted_filter distinct_map_filter split: option.splits)
  show "inj_on (\<lambda>r. - row_id r) (set (of_task t (rows l)))"
    using d by (auto simp: distinct_map inj_on_def)
  show "sorted (map (\<lambda>r. - row_id r) (rev (of_task t (rows l))))"
    using s by (simp add: sorted_map sorted_wrt_rev)
qed simp

lemma get_runs_rev: "ledger_ok l \<Longrightarrow> get_runs t limit l = sql_limit limit (rev (of_task t (rows l)))"
  by (simp add: get_runs_def newest_first)

lemma of_task_app: "of_task t (xs @ ys) = of_task t xs @ of_task t ys"
  by (simp add: of_task_def split: option.splits)

lemma of_task_Cons_hit: "t \<in> {None, Some (lr_task_id r)} \<Longrightarrow> of_task t [r] = [r]"
  by (auto simp: of_task_def)

text \<open>
  What is recorded is found, newest first. In every reachable ledger a new record gets an id
  above all others and, up to the limit, is the first run listed, for its task and over all
  tasks, followed by the runs listed before.
\<close>

theorem recorded_run_listed_first:
  assumes "reachable l" and "record_run arg kw now l = (i, l')"
    and "t \<in> {None, Some (lr_task_id (build_record arg kw))}" and "0 < limit"
  shows "(\<forall>r \<in> set (rows l). row_id r < i)
     \<and> get_runs t limit l' = row_of i now (build_record arg kw) # get_runs t (limit - 1) l"
proof -
  have ok: "ledger_ok l" using assms(1) by (rule reachable_ok)
  have l': "l' = snd (record_run arg kw now l)" and i: "i = last_id l + 1"
    using assms(2) by (auto simp: record_run_def Let_def)
  have rows: "rows l' = rows l @ [row_of i now (build_record arg kw)]"
    by (simp add: l' i record_run_def Let_def)
  have "ledger_ok l'" unfolding l' by (rule ledger_ok_record [OF ok])
  moreover have "nat limit = Suc (nat (limit - 1))" using assms(4) by simp
  ultimately show ?thesis
    using ok assms(3,4) rows i
    by (auto simp: get_runs_rev of_task_app of_task_Cons_hit sql_limit_def ledger_ok_def)
qed

text \<open>
  The lookup by task and attempt keeps the first run of a pair: once it answers, no later
  recording changes the answer, so a run recorded again under the same attempt number is not
  found by it.
\<close>

theorem get_run_keeps_oldest:
  assumes "reachable l" and "get_run t attempt l = Some r"
  shows "get_run t attempt (snd (record_run arg kw now l)) = Some r"
proof -
  have ok: "ledger_ok l" using assms(1) by (rule reachable_ok)
  have "rows (snd (record_run arg kw now l)) = rows l @ [row_of (last_id l + 1) now (build_record arg kw)]"
    by (simp add: record_run_def Let_def)
  moreover have "sort_key row_id (rows (snd (record_run arg kw now l))) = rows (snd (record_run arg kw now l))"
    by (rule sorted_rows [OF ledger_ok_record [OF ok]])
  ultimately show ?thesis
    using assms(2) ok by (simp add: get_run_def sorted_rows find_append_left)
qed

lemma sum_count_kind: "sum_list (map (\<lambda>k. count_kind k rs) (remdups (map lr_failure_kind rs))) = int (length rs)"
proof -
  have "sum_list (map (\<lambda>k. count_kind k rs) (remdups (map lr_failure_kind rs)))
      = (\<Sum>k \<in> lr_failure_kind ` set rs. count_kind k rs)"
    by (simp add: sum_list_distinct_conv_sum_set)
  also have "\<dots> = (\<Sum>k \<in> lr_failure_kind ` set rs. int (count_list (map lr_failure_kind rs) k))"
    by (intro sum.cong refl) (auto simp: count_kind_def count_list_eq_length_filter filter_map comp_def eq_commute)
  also have "\<dots> = int (length rs)"
    using sum_count_set [of "map lr_failure_kind rs" "lr_failure_kind ` set rs"]
    by (simp flip: of_nat_sum)
  finally show ?thesis .
qed

text \<open>
  The failure summary accounts for every failed run with a kind: the counts add up to their
  number, no kind appears twice, every count is positive and they do not increase.
\<close>

theorem failure_patterns_total:
  "sum_list (map snd (get_failure_patterns t l)) = int (length (failures t l))
   \<and> distinct (map fst (get_failure_patterns t l))
   \<and> (\<forall>(k, n) \<in> set (get_failure_patterns t l). 0 < n)
   \<and> sorted (map (\<lambda>(k, n). - n) (get_failure_patterns t l))"
proof -
  let ?ks = "remdups (map lr_failure_kind (failures t l))"
  let ?u = "map (\<lambda>k. (k, count_kind k (failures t l))) ?ks"
  have gp: "get_failure_patterns t l = sort_key (\<lambda>(k, n). - n) ?u"
    by (simp add: get_failure_patterns_def Let_def)
  have m: "mset (get_failure_patterns t l) = mset ?u" by (simp add: gp)
  have "mset (map snd (get_failure_patterns t l)) = mset (map snd ?u)"
    by (simp only: mset_map m)
  then have "sum_list (map snd (get_failure_patterns t l)) = sum_list (map snd ?u)"
    by (metis sum_mset_sum_list)
  moreover have "mset (map fst (get_failure_patterns t l)) = mset (map fst ?u)"
    by (simp only: mset_map m)
  then have "distinct (map fst (get_failure_patterns t l)) \<longleftrightarrow> distinct (map fst ?u)"
    by (rule mset_eq_imp_distinct_iff)
  then have "distinct (map fst (get_failure_patterns t l))"
    by (simp add: comp_def)
  moreover have "0 < n" if "(k, n) \<in> set (get_failure_patterns t l)" for k n
  proof -
    have "k \<in> lr_failure_kind ` set (failures t l)" "n = count_kind k (failures t l)"
      using that by (auto simp: gp)
    then show ?thesis by (auto simp: count_kind_def filter_empty_conv)
  qed
  moreover have "sorted (map (\<lambda>(k, n). - n) (get_failure_patterns t l))" by (simp add: gp)
  ultimately show ?thesis by (auto simp: comp_def sum_count_kind)
qed

section \<open>Witnesses\<close>

definition demo_record :: ledger_record where
  "demo_record = \<lparr>lr_task_id = ''T1'', lr_task_type = ''T1'', lr_attempt = 1, lr_success = False,
     lr_input_hash = [], lr_walltime_sec = Fin 1, lr_verifier_passed = False, lr_failure_reasons = [],
     lr_recovery_actions = [], lr_failure_kind = ''unknown'', lr_evidence_path = [],
     lr_output_files = [], lr_timestamp = []\<rparr>"

definition demo_ledger :: ledger where
  "demo_ledger = snd (record_run NoRecord demo_record ''mon'' empty_ledger)"

lemma demo_reachable: "reachable demo_ledger"
  unfolding demo_ledger_def by (intro reachable.intros)

theorem recorded_run_listed_first_witness:
  "get_runs (Some ''T1'') 5 (snd (record_run NoRecord demo_record ''tue'' demo_ledger))
     = row_of 2 ''tue'' demo_record # get_runs (Some ''T1'') 4 demo_ledger"
proof -
  have "record_run NoRecord demo_record ''tue'' demo_ledger
      = (2, snd (record_run NoRecord demo_record ''tue'' demo_ledger))"
    by (simp add: record_run_def demo_ledger_def empty_ledger_def)
  from recorded_run_listed_first [OF demo_reachable this, of "Some ''T1''" 5]
  show ?thesis by (simp add: build_record_def demo_record_def)
qed

theorem get_run_keeps_oldest_witness:
  "get_run ''T1'' 1 (snd (record_run NoRecord demo_record ''tue'' demo_ledger)) = Some (row_of 1 ''mon'' demo_record)"
proof (rule get_run_keeps_oldest [OF demo_reachable])
  show "get_run ''T1'' 1 demo_ledger = Some (row_of 1 ''mon'' demo_record)" by code_simp
qed

theorem failure_patterns_total_witness:
  "get_failure_patterns None demo_ledger = [(''unknown'', 1)] \<and> length (failures None demo_ledger) = 1"
proof -
  have "get_failure_patterns None demo_ledger = [(''unknown'', 1)]" by code_simp
  with failure_patterns_total [of None demo_ledger] show ?thesis by simp
qed

end
