(* ===== verification/Tool_Registry.thy ===== *)
theory Tool_Registry
  imports Recovery
begin

text \<open>
  The tool registry (\<open>tools/registry.py\<close>, \<open>tools/models.py\<close>) and the check of planned steps
  (\<open>agent_loop/step_validator.py\<close>).

  A tool's function may act on the outside world: it takes the world \<open>'w\<close> and returns it, with
  the exception's text or its result. The JSON-schema library is an argument, \<open>violations\<close>: for a
  schema and a value, the errors in the order of their paths, each with the path's components
  as texts and its message.
\<close>

section \<open>Tools\<close>

record 'w tool_entry =
  tool_id :: string
  tool_name :: string
  tool_description :: string
  version :: string
  author :: string
  category :: string
  input_schema :: pyval
  output_type :: string
  trust :: string
  permissions :: "string list"
  source :: string
  execute_fn :: "(pyval \<Rightarrow> 'w \<Rightarrow> (string + pyval) \<times> 'w) option"
  enabled :: bool

record tool_result =
  tr_data :: "pyval pydict"
  tr_output_type :: string
  tr_tool_id :: string
  tr_error :: "string option"

definition tool_to_dict :: "'w tool_entry \<Rightarrow> pyval pydict" where
  "tool_to_dict t =
    [(''id'', PStr (tool_id t)), (''name'', PStr (tool_name t)), (''description'', PStr (tool_description t)),
     (''version'', PStr (version t)), (''author'', PStr (author t)), (''category'', PStr (category t)),
     (''input_schema'', input_schema t), (''output_type'', PStr (output_type t)), (''trust'', PStr (trust t)),
     (''permissions'', PList (map PStr (permissions t))), (''enabled'', PBool (enabled t)),
     (''source'', PStr (source t))]"

text \<open>\<open>_VALID_ID.match\<close>: the final \<open>$\<close> also matches before a line feed at the very end.\<close>

definition id_start :: "char \<Rightarrow> bool" where
  "id_start c = (is_lower c \<or> is_digit c)"

definition id_char :: "char \<Rightarrow> bool" where
  "id_char c = (id_start c \<or> c \<in> set ''_.-'')"

definition validate_tool_id :: "string \<Rightarrow> bool" where
  "validate_tool_id s = (case s of [] \<Rightarrow> False
     | c # t \<Rightarrow> id_start c \<and> dropWhile id_char t \<in> {[], nl})"

section \<open>The registry\<close>

type_synonym 'w registry = "'w tool_entry pydict"

definition register :: "'w tool_entry \<Rightarrow> 'w registry \<Rightarrow> py_exc + 'w registry" where
  "register t r = (if validate_tool_id (tool_id t) then Inr (dput (tool_id t) t r)
     else Inl (ValueError (''Invalid tool id: '' @ str_repr (tool_id t))))"

definition unregister :: "string \<Rightarrow> 'w registry \<Rightarrow> 'w registry" where
  "unregister i r = filter (\<lambda>(k, _). k \<noteq> i) r"

definition get_tool :: "'w registry \<Rightarrow> string \<Rightarrow> 'w tool_entry option" where
  "get_tool r i = dget r i"

definition list_all_tools :: "'w registry \<Rightarrow> 'w tool_entry list" where
  "list_all_tools r = dvals r"

definition list_by_category :: "'w registry \<Rightarrow> string \<Rightarrow> 'w tool_entry list" where
  "list_by_category r c = filter (\<lambda>t. category t = c) (dvals r)"

definition set_enabled :: "bool \<Rightarrow> string \<Rightarrow> 'w registry \<Rightarrow> 'w registry" where
  "set_enabled b i r = (case dget r i of None \<Rightarrow> r | Some t \<Rightarrow> dput i (t\<lparr>enabled := b\<rparr>) r)"

definition enable :: "string \<Rightarrow> 'w registry \<Rightarrow> 'w registry" where
  "enable = set_enabled True"

definition disable :: "string \<Rightarrow> 'w registry \<Rightarrow> 'w registry" where
  "disable = set_enabled False"

section \<open>Calls\<close>

fun type_name :: "pyval \<Rightarrow> string" where
  "type_name PNone = ''NoneType''"
| "type_name (PBool _) = ''bool''"
| "type_name (PInt _) = ''int''"
| "type_name (PFloat _) = ''float''"
| "type_name (PStr _) = ''str''"
| "type_name (PList _) = ''list''"
| "type_name (PDict _) = ''dict''"

type_synonym violations = "pyval \<Rightarrow> pyval \<Rightarrow> (string list \<times> string) list"

text \<open>A schema that is no dictionary, or an empty one, is no schema.\<close>

definition schema_of :: "'w tool_entry \<Rightarrow> pyval option" where
  "schema_of t = (case input_schema t of PDict (x # d) \<Rightarrow> Some (PDict (x # d)) | _ \<Rightarrow> None)"

definition loc_text :: "string list \<Rightarrow> string" where
  "loc_text path = (if join ''.'' path = [] then ''args'' else join ''.'' path)"

definition drop_nulls :: "pyval pydict \<Rightarrow> pyval pydict" where
  "drop_nulls d = filter (\<lambda>(_, v). v \<noteq> PNone) d"

definition schema_violation :: "violations \<Rightarrow> 'w tool_entry \<Rightarrow> pyval \<Rightarrow> string option" where
  "schema_violation viol t args =
    (case schema_of t of None \<Rightarrow> None
     | Some schema \<Rightarrow>
       (case args of
          PDict d \<Rightarrow>
            (case viol schema (PDict (drop_nulls d)) of
               [] \<Rightarrow> None
             | (path, msg) # _ \<Rightarrow> Some (loc_text path @ '' '' @ msg))
        | _ \<Rightarrow> Some (''args must be an object, got '' @ type_name args)))"

definition error_result :: "string \<Rightarrow> string \<Rightarrow> string \<Rightarrow> tool_result" where
  "error_result ot i e = \<lparr>tr_data = [], tr_output_type = ot, tr_tool_id = i, tr_error = Some e\<rparr>"

text \<open>A violation text is never empty, so \<open>if violation\<close> is the test for \<open>None\<close>. A result that is no
  dictionary is wrapped as text.\<close>

definition call :: "violations \<Rightarrow> 'w registry \<Rightarrow> string \<Rightarrow> pyval \<Rightarrow> 'w \<Rightarrow> tool_result \<times> 'w" where
  "call viol r i args w =
    (case get_tool r i of
       None \<Rightarrow> (error_result ''text'' i (''Tool not found: '' @ i), w)
     | Some t \<Rightarrow>
       if \<not> enabled t then (error_result (output_type t) i (''Tool disabled: '' @ i), w)
       else case execute_fn t of
         None \<Rightarrow> (error_result (output_type t) i (''Tool missing executor: '' @ i), w)
       | Some f \<Rightarrow>
         (case schema_violation viol t args of
            Some v \<Rightarrow> (error_result (output_type t) i (''Invalid arguments for '' @ i @ '': '' @ v), w)
          | None \<Rightarrow>
            (case f args w of
               (Inl e, w') \<Rightarrow> (error_result (output_type t) i e, w')
             | (Inr v, w') \<Rightarrow>
                 (\<lparr>tr_data = (case v of PDict d \<Rightarrow> d | _ \<Rightarrow> [(''content'', PStr (py_str v))]),
                   tr_output_type = output_type t, tr_tool_id = i, tr_error = None\<rparr>, w'))))"

section \<open>The planner's own check\<close>

text \<open>\<open>validate_steps\<close>: \<open>step.get("tool")\<close> names the tool when it is a non-empty text; a step without
  \<open>args\<close> is checked with the empty object. Unlike the registry it keeps null arguments.\<close>

definition step_violations :: "violations \<Rightarrow> 'w registry \<Rightarrow> int \<Rightarrow> pyval \<Rightarrow> string list" where
  "step_violations viol r i st =
    (case st of
       PDict d \<Rightarrow>
         (case get_or d ''tool'' PNone of
            PStr tid \<Rightarrow>
              (case (if tid = [] then None else get_tool r tid) of
                 None \<Rightarrow> []
               | Some t \<Rightarrow>
                 (case schema_of t of None \<Rightarrow> []
                  | Some schema \<Rightarrow>
                    (case (case get_or d ''args'' PNone of PNone \<Rightarrow> PDict [] | a \<Rightarrow> a) of
                       PDict a \<Rightarrow> map (\<lambda>(path, msg). ''step '' @ show_int i @ '' ('' @ tid @ ''): '' @
                                          loc_text path @ '' '' @ msg) (viol schema (PDict a))
                     | a \<Rightarrow> [''step '' @ show_int i @ '' ('' @ tid @
                              ''): args must be an object, got '' @ type_name a])))
          | _ \<Rightarrow> [])
     | _ \<Rightarrow> [''step '' @ show_int i @ '': not an object''])"

fun validate_steps :: "violations \<Rightarrow> 'w registry \<Rightarrow> int \<Rightarrow> pyval list \<Rightarrow> string list" where
  "validate_steps viol r i [] = []"
| "validate_steps viol r i (s # ss) = step_violations viol r i s @ validate_steps viol r (i + 1) ss"

section \<open>The registry's invariant\<close>

definition reg_inv :: "'w registry \<Rightarrow> bool" where
  "reg_inv r = (wf_dict r \<and> (\<forall>(k, t) \<in> set r. tool_id t = k \<and> validate_tool_id k))"

lemma reg_inv_get: "reg_inv r \<Longrightarrow> dget r i = Some t \<Longrightarrow> tool_id t = i \<and> validate_tool_id i"
  by (auto simp: reg_inv_def dget_def dest: map_of_SomeD)

lemma reg_inv_iff: "reg_inv r \<longleftrightarrow> wf_dict r \<and> (\<forall>k t. dget r k = Some t \<longrightarrow> tool_id t = k \<and> validate_tool_id k)"
proof -
  have "wf_dict r \<Longrightarrow> dget r k = Some t \<longleftrightarrow> (k, t) \<in> set r" for k t
    by (simp add: dget_def wf_dict_def)
  then show ?thesis by (auto simp: reg_inv_def)
qed

lemma reg_inv_put: "reg_inv r \<Longrightarrow> tool_id t = i \<Longrightarrow> validate_tool_id i \<Longrightarrow> reg_inv (dput i t r)"
  by (auto simp: reg_inv_iff pydict)

lemma reg_inv_filter: "reg_inv r \<Longrightarrow> reg_inv (filter P r)"
  by (auto simp: reg_inv_def wf_dict_def distinct_map_filter)

lemma reg_inv_Nil [simp]: "reg_inv []"
  by (simp add: reg_inv_def wf_dict_def)

lemma reg_inv_unregister: "reg_inv r \<Longrightarrow> reg_inv (unregister i r)"
  unfolding unregister_def by (rule reg_inv_filter)

lemma dget_unregister: "dget (unregister i r) k = (if k = i then None else dget r k)"
  by (induction r) (auto simp: unregister_def dget_def)

lemma schema_violation_ne: "schema_violation viol t args \<noteq> Some []"
  by (auto simp: schema_violation_def split: option.splits pyval.splits list.splits)

text \<open>
  C39. Every registered tool stands under its own, valid id, whatever sequence of registrations,
  removals and switches led to the registry: the invariant holds of the empty registry and
  every operation keeps it; a registered tool is found under its id, a removed one is gone, and
  switching a tool changes nothing but its flag.
\<close>

theorem registry_invariant:
  assumes "reg_inv r"
  shows "reg_inv ([] :: 'w registry)
     \<and> (\<forall>r'. register t r = Inr r' \<longrightarrow> reg_inv r' \<and> get_tool r' (tool_id t) = Some t)
     \<and> reg_inv (unregister i r) \<and> get_tool (unregister i r) i = None
     \<and> reg_inv (enable i r) \<and> reg_inv (disable i r)
     \<and> (\<forall>u. get_tool r i = Some u \<longrightarrow> get_tool (disable i r) i = Some (u\<lparr>enabled := False\<rparr>)
          \<and> get_tool (enable i (disable i r)) i = Some (u\<lparr>enabled := True\<rparr>))"
  using assms reg_inv_get [OF assms, of i]
  by (auto simp: register_def enable_def disable_def set_enabled_def get_tool_def dget_unregister pydict
      intro!: reg_inv_put reg_inv_unregister split: if_splits option.splits)

definition runnable :: "violations \<Rightarrow> 'w registry \<Rightarrow> string \<Rightarrow> pyval \<Rightarrow> (pyval \<Rightarrow> 'w \<Rightarrow> (string + pyval) \<times> 'w) option" where
  "runnable viol r i args =
    (case get_tool r i of
       Some t \<Rightarrow> if enabled t \<and> schema_violation viol t args = None then execute_fn t else None
     | None \<Rightarrow> None)"

text \<open>
  A tool runs only behind every check. A call reaches the tool's function exactly when the
  tool is registered, enabled and has a function, and its arguments without the null ones
  satisfy its schema; in every other case the call returns an error and the world is as
  before.
\<close>

theorem call_gate:
  "(case runnable viol r i args of
      None \<Rightarrow> tr_error (fst (call viol r i args w)) \<noteq> None \<and> snd (call viol r i args w) = w
    | Some f \<Rightarrow> snd (call viol r i args w) = snd (f args w)
        \<and> (tr_error (fst (call viol r i args w)) = None \<longleftrightarrow> \<not> isl (fst (f args w))))
   \<and> tr_tool_id (fst (call viol r i args w)) = i"
  by (auto simp: call_def runnable_def error_result_def split: option.splits prod.splits sum.splits)

section \<open>Witness\<close>

definition demo_tool :: "nat tool_entry" where
  "demo_tool = \<lparr>tool_id = ''graph.run'', tool_name = ''run'', tool_description = [], version = ''1.0.0'',
     author = [], category = ''job'', input_schema = PDict [], output_type = ''json'', trust = ''builtin'',
     permissions = [], source = ''code'', execute_fn = Some (\<lambda>a w. (Inr a, Suc w)), enabled = True\<rparr>"

theorem registry_invariant_witness:
  "\<exists>r. register demo_tool [] = Inr r \<and> reg_inv r \<and> get_tool r ''graph.run'' = Some demo_tool"
proof -
  have "validate_tool_id (tool_id demo_tool)" by code_simp
  then obtain r where "register demo_tool [] = Inr r" by (simp add: register_def)
  with registry_invariant [of "[]" demo_tool "''x''"] show ?thesis by (auto simp: demo_tool_def)
qed

end
