(* ===== verification/Planning.thy ===== *)
theory Planning
  imports Tool_Registry "HOL-Library.List_Lexorder" "HOL-Library.Char_ord"
begin

text \<open>
  Goal-first plans (\<open>agent_loop/planning.py\<close>): normalisation of a planner's payload, discovery of
  the capabilities that the live registry and the graph templates offer, and compilation of a
  plan into executor steps.

  A directory of templates is the list of its files, each with the document read from it
  (\<open>None\<close> when it cannot be read or parsed). The Chinese labels stand as their UTF-8 bytes.
\<close>

section \<open>Values\<close>

text \<open>\<open>list(v)\<close>, and iteration over \<open>v\<close>: a dictionary gives its keys, a text its characters.\<close>

fun py_list :: "pyval \<Rightarrow> py_exc + pyval list" where
  "py_list (PList xs) = Inr xs"
| "py_list (PDict d) = Inr (map (\<lambda>(k, _). PStr k) d)"
| "py_list (PStr s) = Inr (map (\<lambda>c. PStr [c]) s)"
| "py_list _ = Inl TypeError"

text \<open>\<open>dict(v)\<close>: a dictionary, or a sequence of pairs. (Keys are texts: another kind of key, which
  Python would take, is refused.)\<close>

fun pair_of :: "pyval \<Rightarrow> py_exc + (string \<times> pyval)" where
  "pair_of (PList [PStr k, v]) = Inr (k, v)"
| "pair_of (PStr [c, d]) = Inr ([c], PStr [d])"
| "pair_of (PList _) = Inl (ValueError ''dictionary update sequence element'')"
| "pair_of (PStr _) = Inl (ValueError ''dictionary update sequence element'')"
| "pair_of (PDict _) = Inl (ValueError ''dictionary update sequence element'')"
| "pair_of _ = Inl TypeError"

definition py_dict :: "pyval \<Rightarrow> py_exc + pyval pydict" where
  "py_dict v = (case v of PDict d \<Rightarrow> Inr d
     | _ \<Rightarrow> bindr (py_list v) (\<lambda>xs. bindr (mapr pair_of xs) (\<lambda>ps. Inr (dict_of ps))))"

text \<open>\<open>a or b\<close>, and \<open>d.get(k)\<close>.\<close>

definition or_val :: "pyval \<Rightarrow> pyval \<Rightarrow> pyval" where
  "or_val a b = (if py_true a then a else b)"

definition getn :: "pyval pydict \<Rightarrow> string \<Rightarrow> pyval" where
  "getn d k = get_or d k PNone"

text \<open>\<open>v[:n]\<close> of a list or a text, then the texts of its elements cut to \<open>m\<close> characters.\<close>

definition py_slice :: "nat \<Rightarrow> pyval \<Rightarrow> py_exc + pyval list" where
  "py_slice n v = (case v of PList xs \<Rightarrow> Inr (take n xs)
     | PStr s \<Rightarrow> Inr (map (\<lambda>c. PStr [c]) (take n s)) | _ \<Rightarrow> Inl TypeError)"

definition texts :: "nat \<Rightarrow> nat \<Rightarrow> pyval \<Rightarrow> py_exc + string list" where
  "texts n m v = bindr (py_slice n v) (\<lambda>xs. Inr (map (\<lambda>x. take m (py_str x)) xs))"

definition utf8 :: "nat list \<Rightarrow> string" where
  "utf8 ns = map char_of ns"

section \<open>Plans\<close>

record plan_ir =
  goal :: string
  constraints :: "pyval pydict"
  assumptions :: "string list"
  expected_outputs :: "string list"
  actions :: "pyval pydict list"
  validation :: "string list"
  plan_source :: string

definition TEMPLATE_OUTPUT_LABELS :: "(string \<times> string list) list" where
  "TEMPLATE_OUTPUT_LABELS =
    [(''t0_scf'', [utf8 [0xE6, 0x80, 0xBB, 0xE8, 0x83, 0xBD, 0xE9, 0x87, 0x8F],
       utf8 [0xE5, 0x8E, 0x9F, 0xE5, 0xAD, 0x90, 0xE6, 0x95, 0xB0]]),
     (''t1_vc_relax'', [utf8 [0xE6, 0x80, 0xBB, 0xE8, 0x83, 0xBD, 0xE9, 0x87, 0x8F],
       utf8 [0xE5, 0xB9, 0xB3, 0xE8, 0xA1, 0xA1, 0xE6, 0x99, 0xB6, 0xE6, 0xA0, 0xBC, 0xE5, 0x8F, 0x82, 0xE6, 0x95, 0xB0],
       utf8 [0xE5, 0x8E, 0x8B, 0xE5, 0x8A, 0x9B],
       utf8 [0xE4, 0xBD, 0x93, 0xE7, 0xA7, 0xAF]]),
     (''t2_bands'', [utf8 [0xE6, 0x80, 0xBB, 0xE8, 0x83, 0xBD, 0xE9, 0x87, 0x8F],
       utf8 [0xE5, 0xB8, 0xA6, 0xE9, 0x9A, 0x99],
       utf8 [0xE8, 0xB4, 0xB9, 0xE7, 0xB1, 0xB3, 0xE8, 0x83, 0xBD, 0xE7, 0xBA, 0xA7],
       utf8 [0xE9, 0x87, 0x91, 0xE5, 0xB1, 0x9E, 0xE6, 0x80, 0xA7]]),
     (''t2_dos'', [utf8 [0xE6, 0x80, 0xBB, 0xE8, 0x83, 0xBD, 0xE9, 0x87, 0x8F],
       utf8 [0xE8, 0xB4, 0xB9, 0xE7, 0xB1, 0xB3, 0xE8, 0x83, 0xBD, 0xE7, 0xBA, 0xA7, 0xE6, 0x80, 0x81, 0xE5, 0xAF, 0x86, 0xE5, 0xBA, 0xA6]])]"

definition CAPABILITY_ALIASES :: "(string \<times> string) list" where
  "CAPABILITY_ALIASES =
    [(''understand.structure'', ''structure.analyze''), (''inspect.structure'', ''structure.analyze''),
     (''build.structure'', ''structure.generate''), (''build.2d'', ''structure.build2d''),
     (''dope.structure'', ''structure.dope''), (''run.template'', ''graph.run''),
     (''inspect.run'', ''graph.status''), (''verify.result'', ''result.verify''),
     (''parse.result'', ''result.parse''), (''compare.results'', ''analysis.compare'')]"

definition normalize_action :: "pyval pydict \<Rightarrow> pyval pydict" where
  "normalize_action a =
    [(''capability'', or_val (getn a ''capability'') (getn a ''tool'')), (''tool'', getn a ''tool''),
     (''args'', or_val (getn a ''args'') (PDict [])),
     (''description'', PStr (take 180 (py_str
        (or_val (or_val (getn a ''description'') (getn a ''reason'')) (PStr [])))))]"

definition dicts_of :: "pyval list \<Rightarrow> pyval pydict list" where
  "dicts_of vs = concat (map (\<lambda>v. case v of PDict d \<Rightarrow> [d] | _ \<Rightarrow> []) vs)"

definition from_payload :: "pyval pydict \<Rightarrow> string \<Rightarrow> py_exc + plan_ir" where
  "from_payload payload src =
    (let opt = (\<lambda>a b. or_val (or_val (getn payload a) (getn payload b)) (PList [])) in
     bindr (py_list (opt ''actions'' ''steps'')) (\<lambda>as.
     bindr (py_dict (or_val (getn payload ''constraints'') (PDict []))) (\<lambda>cs.
     bindr (texts 8 180 (or_val (getn payload ''assumptions'') (PList []))) (\<lambda>asm.
     bindr (texts 12 120 (opt ''expected_outputs'' ''outputs'')) (\<lambda>eo.
     bindr (texts 8 160 (opt ''validation'' ''success_criteria'')) (\<lambda>val.
     Inr \<lparr>goal = take 240 (py_strip (py_str (or_val (or_val (getn payload ''goal'')
              (getn payload ''objective'')) (PStr [])))),
          constraints = cs, assumptions = asm, expected_outputs = eo,
          actions = map normalize_action (dicts_of as), validation = val, plan_source = src\<rparr>))))))"

text \<open>\<open>list(dict.fromkeys(xs))\<close>: each text once, in the order of its first occurrence.\<close>

definition dedupe :: "string list \<Rightarrow> string list" where
  "dedupe xs = rev (remdups (rev xs))"

text \<open>One step of \<open>from_steps\<close>: its arguments must be a dictionary.\<close>

definition step_action :: "pyval pydict \<Rightarrow> py_exc + (pyval pydict \<times> string list)" where
  "step_action st =
    (case or_val (getn st ''args'') (PDict []) of
       PDict args \<Rightarrow>
         Inr ([(''capability'', getn st ''tool''), (''tool'', getn st ''tool''), (''args'', PDict args),
               (''description'', PStr (take 180 (py_str (or_val (getn st ''description'') (PStr [])))))],
              (if py_true (getn args ''template_id'')
               then (case dget TEMPLATE_OUTPUT_LABELS (py_str (getn args ''template_id'')) of
                       Some ls \<Rightarrow> ls | None \<Rightarrow> [])
               else []))
     | _ \<Rightarrow> Inl AttributeError)"

definition from_steps :: "string \<Rightarrow> pyval pydict list \<Rightarrow> string \<Rightarrow> py_exc + plan_ir" where
  "from_steps g steps src =
    bindr (mapr step_action steps) (\<lambda>rs.
    Inr \<lparr>goal = take 240 g, constraints = [], assumptions = [],
         expected_outputs = dedupe (concat (map snd rs)), actions = map fst rs, validation = [],
         plan_source = src\<rparr>)"

section \<open>Capabilities\<close>

record capability =
  cap_id :: string
  cap_tool :: string
  cap_category :: string
  cap_description :: string
  cap_inputs :: "pyval list"
  cap_outputs :: "string list"

definition tool_capability :: "'w tool_entry \<Rightarrow> py_exc + capability" where
  "tool_capability t =
    bindr (case input_schema t of PDict d \<Rightarrow> py_list (get_or d ''properties'' (PDict [])) | _ \<Rightarrow> Inr []) (\<lambda>ins.
    Inr \<lparr>cap_id = tool_id t, cap_tool = tool_id t, cap_category = category t,
         cap_description = take 220 (tool_description t), cap_inputs = ins, cap_outputs = []\<rparr>)"

text \<open>\<open>(payload.get(k) or {}).keys()\<close>.\<close>

definition keys_at :: "pyval pydict \<Rightarrow> string \<Rightarrow> py_exc + string list" where
  "keys_at d k = (case or_val (getn d k) (PDict []) of PDict e \<Rightarrow> Inr (dkeys e) | _ \<Rightarrow> Inl AttributeError)"

text \<open>A template file: its name without the suffix, and its document.\<close>

type_synonym template_file = "string \<times> pyval option"

definition template_capability :: "template_file \<Rightarrow> py_exc + capability option" where
  "template_capability f =
    (case snd f of
       None \<Rightarrow> Inr None
     | Some (PDict d) \<Rightarrow>
         let tid = py_str (or_val (getn d ''template_id'') (PStr (fst f))) in
         bindr (keys_at d ''outputs'') (\<lambda>outs.
         bindr (keys_at d ''inputs'') (\<lambda>ins.
         Inr (Some \<lparr>cap_id = ''run.'' @ tid, cap_tool = ''graph.run'', cap_category = ''graph-template'',
                    cap_description = take 220 (py_str (or_val (getn d ''description'') (PStr tid))),
                    cap_inputs = map PStr ins, cap_outputs = outs\<rparr>)))
     | Some _ \<Rightarrow> Inl AttributeError)"

text \<open>The templates directory is \<open>None\<close> when none is given or it does not exist.\<close>

definition build_capability_graph ::
  "'w registry \<Rightarrow> template_file list option \<Rightarrow> py_exc + capability list" where
  "build_capability_graph r dir =
    bindr (mapr tool_capability (filter enabled (list_all_tools r))) (\<lambda>ts.
    bindr (case dir of None \<Rightarrow> Inr []
       | Some fs \<Rightarrow> mapr template_capability (sort_key (\<lambda>f. fst f @ ''.json'') fs)) (\<lambda>cs.
    Inr (ts @ concat (map (\<lambda>c. case c of None \<Rightarrow> [] | Some x \<Rightarrow> [x]) cs))))"

section \<open>Compilation\<close>

definition tool_ids :: "'w registry \<Rightarrow> string list" where
  "tool_ids r = map tool_id (filter enabled (list_all_tools r))"

record exec_step =
  es_tool :: string
  es_args :: "pyval pydict"
  es_description :: string

definition action_capability :: "pyval pydict \<Rightarrow> string" where
  "action_capability a = py_strip (py_str (or_val (or_val (getn a ''capability'') (getn a ''tool'')) (PStr [])))"

text \<open>One action: the step it compiles to, or the error text.\<close>

definition compile_action ::
  "string list \<Rightarrow> string list \<Rightarrow> pyval pydict \<Rightarrow> py_exc + (string + exec_step)" where
  "compile_action cap_ids ids a =
    (let capability = action_capability a;
         template = (starts_with ''run.'' capability \<and> capability \<in> set cap_ids);
         resolved = (if template then ''graph.run''
                     else case dget CAPABILITY_ALIASES capability of Some t \<Rightarrow> t | None \<Rightarrow> capability) in
     bindr (py_dict (or_val (getn a ''args'') (PDict []))) (\<lambda>args0.
     let args = (if template \<and> \<not> dmem ''template_id'' args0
                 then dput ''template_id'' (PStr (drop 4 capability)) args0 else args0) in
     Inr (if resolved \<notin> set ids then Inl (''unknown capability: '' @ capability)
          else Inr \<lparr>es_tool = resolved, es_args = args,
                    es_description = take 180 (py_str (or_val (getn a ''description'') (PStr capability)))\<rparr>)))"

definition lefts :: "('a + 'b) list \<Rightarrow> 'a list" where
  "lefts xs = concat (map (\<lambda>x. case x of Inl a \<Rightarrow> [a] | Inr _ \<Rightarrow> []) xs)"

definition rights :: "('a + 'b) list \<Rightarrow> 'b list" where
  "rights xs = concat (map (\<lambda>x. case x of Inl _ \<Rightarrow> [] | Inr b \<Rightarrow> [b]) xs)"

text \<open>\<open>compile_plan\<close>: the compiled steps, and the plan with the errors added to its validation.\<close>

definition compile_plan ::
  "plan_ir \<Rightarrow> 'w registry \<Rightarrow> template_file list option \<Rightarrow> py_exc + (exec_step list \<times> plan_ir)" where
  "compile_plan plan r dir =
    bindr (build_capability_graph r dir) (\<lambda>caps.
    bindr (mapr (compile_action (map cap_id caps) (tool_ids r)) (take 8 (actions plan))) (\<lambda>rs.
    Inr (rights rs, plan\<lparr>validation := validation plan @ lefts rs\<rparr>)))"

definition capability_catalog_text ::
  "'w registry \<Rightarrow> template_file list option \<Rightarrow> py_exc + string" where
  "capability_catalog_text r dir =
    bindr (build_capability_graph r dir) (\<lambda>caps.
    bindr (mapr (\<lambda>c. bindr (mapr (\<lambda>v. case v of PStr s \<Rightarrow> Inr s | _ \<Rightarrow> Inl TypeError) (cap_inputs c)) (\<lambda>ins.
      Inr (''- '' @ cap_id c @ '' (tool='' @ cap_tool c @ '') | inputs: '' @ join '', '' ins @ '' | '' @
           cap_description c @
           (if cap_outputs c = [] then [] else '' -> outputs: '' @ join '', '' (cap_outputs c))))) caps) (\<lambda>ls.
    Inr (join nl ls)))"

section \<open>What compilation guarantees\<close>

lemma lefts_rights_length: "length (lefts xs) + length (rights xs) = length xs"
  by (induction xs) (auto simp: lefts_def rights_def split: sum.splits)

lemma rights_mem: "x \<in> set (rights xs) \<longleftrightarrow> Inr x \<in> set xs"
  by (induction xs) (auto simp: rights_def split: sum.splits)

lemma tool_ids_enabled: "i \<in> set (tool_ids r) \<Longrightarrow> reg_inv r \<Longrightarrow> \<exists>t. get_tool r i = Some t \<and> enabled t"
proof -
  assume i: "i \<in> set (tool_ids r)" and inv: "reg_inv r"
  then obtain t where t: "t \<in> set (dvals r)" "enabled t" "i = tool_id t"
    by (auto simp: tool_ids_def list_all_tools_def)
  from inv have "wf_dict r" by (simp add: reg_inv_def)
  from t(1) dvals_in [OF this, of t] obtain k where k: "dget r k = Some t" by blast
  with reg_inv_get [OF inv k] t show ?thesis by (auto simp: get_tool_def)
qed

lemma compiled_step:
  assumes "compile_action cs ids a = Inr (Inr s)"
  shows "es_tool s \<in> set ids \<and> length (es_description s) \<le> 180
     \<and> (starts_with ''run.'' (action_capability a) \<and> action_capability a \<in> set cs \<longrightarrow>
          es_tool s = ''graph.run'' \<and> dmem ''template_id'' (es_args s))"
  using assms by (auto simp: compile_action_def Let_def bindr_eq_Inr dmem_def pydict split: if_splits)

text \<open>
  C40. A compiled plan is executable. Of at most eight actions every one either becomes a step,
  in order, or adds one error to the plan's validation; every step names a tool that is
  registered and enabled, with a description of at most 180 characters.
\<close>

theorem compiled_plan_executable:
  assumes "compile_plan plan r dir = Inr (steps, plan')" and "reg_inv r"
  shows "length steps + (length (validation plan') - length (validation plan)) = min 8 (length (actions plan))
     \<and> take (length (validation plan)) (validation plan') = validation plan
     \<and> (\<forall>s \<in> set steps. (\<exists>t. get_tool r (es_tool s) = Some t \<and> enabled t) \<and> length (es_description s) \<le> 180)
     \<and> actions plan' = actions plan"
proof -
  obtain caps rs where caps: "build_capability_graph r dir = Inr caps"
    and rs: "mapr (compile_action (map cap_id caps) (tool_ids r)) (take 8 (actions plan)) = Inr rs"
    and out: "steps = rights rs" "plan' = plan\<lparr>validation := validation plan @ lefts rs\<rparr>"
    using assms(1) by (auto simp: compile_plan_def bindr_eq_Inr)
  have len: "length (lefts rs) + length (rights rs) = min 8 (length (actions plan))"
    using mapr_length [OF rs] lefts_rights_length [of rs] by (simp add: min.commute)
  have "(\<exists>t. get_tool r (es_tool s) = Some t \<and> enabled t) \<and> length (es_description s) \<le> 180"
    if "s \<in> set steps" for s
  proof -
    from that out(1) have "Inr s \<in> set rs" by (simp add: rights_mem)
    with mapr_mem [OF rs] obtain a where "compile_action (map cap_id caps) (tool_ids r) a = Inr (Inr s)"
      by blast
    from compiled_step [OF this] tool_ids_enabled [OF _ assms(2)] show ?thesis by blast
  qed
  with len out show ?thesis by simp
qed

text \<open>
  A payload is cut to size. Whatever a model returns, a plan made from it has a goal of at
  most 240 characters, at most 8 assumptions and checks and 12 outputs, each bounded, and
  normal actions only: every one has the same four keys.
\<close>

theorem payload_bounded:
  assumes "from_payload payload src = Inr p"
  shows "length (goal p) \<le> 240 \<and> length (assumptions p) \<le> 8 \<and> length (expected_outputs p) \<le> 12
     \<and> length (validation p) \<le> 8
     \<and> (\<forall>x \<in> set (assumptions p). length x \<le> 180) \<and> (\<forall>x \<in> set (expected_outputs p). length x \<le> 120)
     \<and> (\<forall>x \<in> set (validation p). length x \<le> 160)
     \<and> (\<forall>a \<in> set (actions p). dkeys a = [''capability'', ''tool'', ''args'', ''description''])
     \<and> plan_source p = src"
proof -
  have t: "texts n m v = Inr xs \<Longrightarrow> length xs \<le> n \<and> (\<forall>x \<in> set xs. length x \<le> m)" for n m v xs
    by (auto simp: texts_def bindr_eq_Inr py_slice_def split: pyval.splits)
  show ?thesis
    using assms by (auto simp: from_payload_def Let_def bindr_eq_Inr normalize_action_def dest!: t)
qed

section \<open>Witnesses\<close>

definition demo_registry :: "nat registry" where
  "demo_registry = [(''graph.run'', demo_tool)]"

definition demo_plan_ir :: plan_ir where
  "demo_plan_ir = \<lparr>goal = ''bands of Si'', constraints = [], assumptions = [], expected_outputs = [],
     actions = [[(''capability'', PStr ''run.template''), (''args'', PDict [(''material'', PStr ''Si'')])],
                [(''tool'', PStr ''rm'')]],
     validation = [], plan_source = ''llm''\<rparr>"

lemma demo_compiled: "compile_plan demo_plan_ir demo_registry None =
    Inr ([\<lparr>es_tool = ''graph.run'', es_args = [(''material'', PStr ''Si'')], es_description = ''run.template''\<rparr>],
         demo_plan_ir\<lparr>validation := [''unknown capability: rm'']\<rparr>)"
  by code_simp

theorem compiled_plan_executable_witness:
  "reg_inv demo_registry \<and> get_tool demo_registry ''graph.run'' \<noteq> None"
proof -
  have "validate_tool_id ''graph.run''" by code_simp
  then have "reg_inv demo_registry"
    by (simp add: reg_inv_def demo_registry_def demo_tool_def wf_dict_def)
  with compiled_plan_executable [OF demo_compiled this] show ?thesis by auto
qed

definition demo_payload :: "pyval pydict" where
  "demo_payload = [(''goal'', PStr '' dos ''), (''steps'', PList [PDict [(''tool'', PStr ''qe'')], PInt 3])]"

theorem payload_bounded_witness:
  "\<exists>p. from_payload demo_payload ''llm'' = Inr p \<and> length (goal p) \<le> 240
     \<and> map dkeys (actions p) = [[''capability'', ''tool'', ''args'', ''description'']]"
proof -
  have "case from_payload demo_payload ''llm'' of Inl _ \<Rightarrow> False | Inr p \<Rightarrow> length (actions p) = 1"
    by code_simp
  then obtain p where p: "from_payload demo_payload ''llm'' = Inr p" and "length (actions p) = 1"
    by (auto split: sum.splits)
  then obtain a where "actions p = [a]" by (cases "actions p") auto
  with payload_bounded [OF p] p show ?thesis by auto
qed

end
