(* ===== verification/Qe_Repair.thy ===== *)
theory Qe_Repair
  imports Scheduler Hpc_Script
begin

text \<open>
  The repair handler of the QE engine and its choice of the upstream wavefunctions
  (\<open>QEParamRepairer\<close> and \<open>_link_upstream_save\<close> of \<open>engines/qe.py\<close>).

  The handler is a \<open>repairer\<close> of the scheduler: it returns the node's new parameters and error
  text and whether the node goes back to the queue. An exception inside it is a crash of the
  repair; its text is modelled for the conversions that state one.
\<close>

section \<open>Numbers\<close>

fun pf_add :: "pyfloat \<Rightarrow> pyfloat \<Rightarrow> pyfloat" where
  "pf_add NaN _ = NaN"
| "pf_add _ NaN = NaN"
| "pf_add (Fin a) (Fin b) = Fin (a + b)"
| "pf_add PosInf NegInf = NaN"
| "pf_add NegInf PosInf = NaN"
| "pf_add PosInf _ = PosInf"
| "pf_add _ PosInf = PosInf"
| "pf_add NegInf _ = NegInf"
| "pf_add _ NegInf = NegInf"

text \<open>\<open>float(v)\<close>.\<close>

fun as_real :: "pyval \<Rightarrow> py_exc + pyfloat" where
  "as_real (PStr s) = the_or (ValueError (''could not convert string to float: '' @ str_repr s)) (py_float s)"
| "as_real v = arith v"

fun exc_text :: "py_exc \<Rightarrow> string" where
  "exc_text (ValueError s) = s"
| "exc_text (KeyError s) = str_repr s"
| "exc_text (FileNotFound s) = s"
| "exc_text (RuntimeError s) = s"
| "exc_text TypeError = ''TypeError''"
| "exc_text IndexError = ''IndexError''"
| "exc_text AttributeError = ''AttributeError''"
| "exc_text OverflowError = ''OverflowError''"

section \<open>The repair handler\<close>

definition CUTOFF_BUMP_STEP :: pyfloat where "CUTOFF_BUMP_STEP = Fin 10"
definition MAX_ECUT :: pyfloat where "MAX_ECUT = Fin 120"
definition MIN_BAND_PATH_POINTS :: int where "MIN_BAND_PATH_POINTS = 24"

definition REPAIRABLE_CATEGORIES :: "string list" where
  "REPAIRABLE_CATEGORIES = [''scf_not_converged'', ''verification'', ''execution'']"

definition val_or :: "pyval pydict \<Rightarrow> string \<Rightarrow> pyval \<Rightarrow> pyval" where
  "val_or d k dflt = (let v = get_or d k PNone in if py_true v then v else dflt)"

text \<open>A repair: the new parameters and the note added to the node's error, or \<open>None\<close> when the handler
  declines.\<close>

definition repair_nbnd :: "pyval pydict \<Rightarrow> py_exc + (pyval pydict \<times> string) option" where
  "repair_nbnd params =
    bindr (as_integer (val_or params ''nbnd'' (PInt 0))) (\<lambda>current.
    let bumped = max (current * 2) 24 in
    Inr (Some (dput ''nbnd'' (PInt bumped) params, '' | repair: nbnd -> '' @ show_int bumped)))"

text \<open>\<open>n > 2\<close> and the halved mesh number.\<close>

definition halve :: "pyval \<Rightarrow> py_exc + int" where
  "halve v = bindr (arith v) (\<lambda>x. bindr (as_integer v) (\<lambda>n.
     Inr (if pf_lt (Fin 2) x then max 2 (n div 2) else n)))"

definition above_two :: "pyval \<Rightarrow> py_exc + bool" where
  "above_two v = bindr (arith v) (\<lambda>x. Inr (pf_lt (Fin 2) x))"

definition repair_mesh :: "pyval pydict \<Rightarrow> py_exc + (pyval pydict \<times> string) option" where
  "repair_mesh params =
    (case get_or params ''kpoints'' PNone of
       PList kpts \<Rightarrow>
         if 3 \<le> length kpts then
           bindr (mapr above_two (take 3 kpts)) (\<lambda>bs.
           if True \<in> set bs then
             bindr (mapr halve (take 3 kpts)) (\<lambda>reduced.
             bindr (mapr as_integer (drop 3 kpts)) (\<lambda>rest.
             let new = ints (reduced @ rest) in
             Inr (Some (dput ''kpoints'' new params, '' | repair: kpoints -> '' @ py_str new))))
           else Inr None)
         else Inr None
     | _ \<Rightarrow> Inr None)"

definition repair_timeout :: "pyval pydict \<Rightarrow> py_exc + (pyval pydict \<times> string) option" where
  "repair_timeout params =
    (let v = get_or params ''nkpoints_bands'' PNone in
     if py_true v then
       bindr (as_integer v) (\<lambda>current.
       if current \<le> MIN_BAND_PATH_POINTS then Inr None
       else let reduced = max MIN_BAND_PATH_POINTS (current * 6 div 10) in
            Inr (Some (dput ''nkpoints_bands'' (PInt reduced) params,
                       '' | repair: nkpoints_bands -> '' @ show_int reduced)))
     else repair_mesh params)"

definition repair_cutoff :: "pyval pydict \<Rightarrow> py_exc + (pyval pydict \<times> string) option" where
  "repair_cutoff params =
    bindr (as_real (val_or params ''ecutwfc'' (PFloat (Fin 45)))) (\<lambda>current.
    if pf_le MAX_ECUT current then Inr None
    else let w = pf_min (pf_add current CUTOFF_BUMP_STEP) MAX_ECUT in
         Inr (Some (dput ''ecutrho'' (PFloat (pf_mul w (Fin 8))) (dput ''ecutwfc'' (PFloat w) params),
                    '' | repair: ecutwfc -> '' @ float_repr w)))"

definition repair_plan :: "pyval pydict \<Rightarrow> tool_error \<Rightarrow> py_exc + (pyval pydict \<times> string) option" where
  "repair_plan params e =
    (if te_category e \<notin> set REPAIRABLE_CATEGORIES then Inr None
     else if contains ''too few bands'' (te_message e) then repair_nbnd params
     else if contains ''timed out'' (lower (te_message e)) then repair_timeout params
     else repair_cutoff params)"

definition qe_repair :: repairer where
  "qe_repair node e =
    (let err = (case nr_error node of Some s \<Rightarrow> s | None \<Rightarrow> []) in
     case repair_plan (nr_params node) e of
       Inl x \<Rightarrow> (nr_params node, err, RepairCrashed (exc_text x))
     | Inr None \<Rightarrow> (nr_params node, err, Repaired False)
     | Inr (Some (ps, note)) \<Rightarrow> (ps, err @ note, Repaired True))"

section \<open>The upstream save directory\<close>

text \<open>What stands at the node's own \<open>{prefix}.save\<close>: nothing, something that exists (a directory or a
  live link), or a link whose target is gone.\<close>

datatype save_entry = Absent | Existing | StaleLink | LinkTo string

definition preferred :: "string list \<Rightarrow> string list" where
  "preferred deps = filter (contains ''nscf'') deps @ filter (\<lambda>d. \<not> contains ''nscf'' d) deps"

text \<open>\<open>has_save d\<close> says whether dependency \<open>d\<close> left a save directory; the result is the entry after
  the call.\<close>

definition link_upstream_save :: "string list \<Rightarrow> (string \<Rightarrow> bool) \<Rightarrow> string \<Rightarrow> save_entry \<Rightarrow> tool_error + save_entry" where
  "link_upstream_save deps has_save prefix entry =
    (case find has_save (preferred deps) of
       None \<Rightarrow> Inl \<lparr>te_message = ''no upstream '' @ prefix @ ''.save found '' @ [CHR 0xE2, CHR 0x80, CHR 0x94] @
                      '' add a succeeded scf/nscf dependency'',
                    te_category = ''missing_upstream'', te_repairable = False\<rparr>
     | Some d \<Rightarrow>
         Inr (case entry of
                StaleLink \<Rightarrow> LinkTo d
              | Absent \<Rightarrow> LinkTo d
              | _ \<Rightarrow> entry))"

section \<open>What a repair does to the parameters\<close>

definition ecut_of :: "pyval pydict \<Rightarrow> pyfloat option" where
  "ecut_of ps = (case as_real (val_or ps ''ecutwfc'' (PFloat (Fin 45))) of Inr x \<Rightarrow> Some x | Inl _ \<Rightarrow> None)"

lemma repair_cutoff_step:
  assumes "repair_cutoff ps = Inr (Some (ps', nt))" and "ecut_of ps = Some (Fin x)"
  shows "\<exists>y. dget ps' ''ecutwfc'' = Some (PFloat (Fin y)) \<and> x < y \<and> y \<le> x + 10 \<and> y \<le> 120
     \<and> dget ps' ''ecutrho'' = Some (PFloat (Fin (8 * y)))"
  using assms
  by (auto simp: repair_cutoff_def ecut_of_def bindr_eq_Inr MAX_ECUT_def CUTOFF_BUMP_STEP_def pf_min_def
      pydict Let_def split: if_splits sum.splits)

text \<open>The cost of the k-points: the band path when there is one, else the mesh, with one more for every
  number that can still be halved.\<close>

definition mesh_number :: "pyval \<Rightarrow> nat" where
  "mesh_number v = (case as_integer v of Inr n \<Rightarrow> nat n | Inl _ \<Rightarrow> 0)"

definition mesh_cost :: "pyval \<Rightarrow> nat" where
  "mesh_cost v = mesh_number v + (if above_two v = Inr True then 1 else 0)"

definition kpoint_cost :: "pyval pydict \<Rightarrow> nat" where
  "kpoint_cost ps =
    (let v = get_or ps ''nkpoints_bands'' PNone in
     if py_true v then mesh_number v
     else case get_or ps ''kpoints'' PNone of PList ks \<Rightarrow> sum_list (map mesh_cost (take 3 ks)) | _ \<Rightarrow> 0)"

lemma above_two_int:
  assumes "above_two v = Inr b" "as_integer v = Inr n"
  shows "b \<Longrightarrow> 2 \<le> n" and "\<not> b \<Longrightarrow> n \<le> 2"
proof -
  have "(b \<longrightarrow> 2 \<le> n) \<and> (\<not> b \<longrightarrow> n \<le> 2)"
  proof (cases v)
    case (PBool x)
    with assms show ?thesis by (cases x) (auto simp: above_two_def arith_def)
  next
    case (PFloat f)
    have neg: "\<not> 0 \<le> y \<Longrightarrow> - \<lfloor>- y\<rfloor> \<le> 2" for y :: rat
    proof -
      assume "\<not> 0 \<le> y"
      then have "0 \<le> \<lfloor>- y\<rfloor>" by simp
      then show ?thesis by linarith
    qed
    from PFloat assms show ?thesis
      by (cases f) (auto simp: above_two_def arith_def to_int_def le_floor_iff floor_le_iff intro: neg)
  qed (use assms in \<open>auto simp: above_two_def arith_def\<close>)
  then show "b \<Longrightarrow> 2 \<le> n" "\<not> b \<Longrightarrow> n \<le> 2" by blast+
qed

lemma mesh_cost_eq: "above_two v = Inr b \<Longrightarrow> as_integer v = Inr m \<Longrightarrow> mesh_cost v = nat m + (if b then 1 else 0)"
  by (simp add: mesh_cost_def mesh_number_def)

lemma mesh_cost_int: "mesh_cost (PInt n) = nat n + (if 2 < n then 1 else 0)"
  by (subst mesh_cost_eq [of _ "2 < n" n]) (simp_all add: above_two_def arith_def)

lemma halve_cost:
  assumes "halve v = Inr n" and "above_two v = Inr b"
  shows "mesh_cost (PInt n) \<le> mesh_cost v" and "b \<Longrightarrow> mesh_cost (PInt n) < mesh_cost v"
proof -
  obtain m where m: "as_integer v = Inr m" and n: "n = (if b then max 2 (m div 2) else m)"
    using assms by (auto simp: halve_def above_two_def bindr_eq_Inr split: if_splits)
  note cost = mesh_cost_eq [OF assms(2) m] and range = above_two_int [OF assms(2) m]
  show less: "mesh_cost (PInt n) < mesh_cost v" if b
    using range(1) [OF that] that n by (auto simp: mesh_cost_int cost max_def)
  show "mesh_cost (PInt n) \<le> mesh_cost v"
    using less range(2) n by (cases b) (auto simp: mesh_cost_int cost)
qed

lemma halve_list_cost:
  assumes "mapr halve vs = Inr ns" and "mapr above_two vs = Inr bs"
  shows "sum_list (map mesh_cost (map PInt ns)) + (if True \<in> set bs then 1 else 0) \<le> sum_list (map mesh_cost vs)"
  using assms
proof (induction vs arbitrary: ns bs)
  case (Cons v vs)
  from Cons.prems obtain n ns' b bs' where v: "halve v = Inr n" "above_two v = Inr b"
    and vs: "mapr halve vs = Inr ns'" "mapr above_two vs = Inr bs'" "ns = n # ns'" "bs = b # bs'"
    by (auto simp: bindr_eq_Inr)
  from halve_cost [OF v] Cons.IH [OF vs(1,2)] vs(3,4) show ?case by (cases b) (auto split: if_splits)
qed simp

lemma kpoint_cost_path: "py_true (get_or ps ''nkpoints_bands'' PNone) \<Longrightarrow>
    kpoint_cost ps = mesh_number (get_or ps ''nkpoints_bands'' PNone)"
  by (simp add: kpoint_cost_def Let_def)

lemma repair_timeout_cost:
  assumes "repair_timeout ps = Inr (Some (ps', nt))"
  shows "kpoint_cost ps' < kpoint_cost ps"
proof (cases "py_true (get_or ps ''nkpoints_bands'' PNone)")
  case True
  with assms obtain n where n: "as_integer (get_or ps ''nkpoints_bands'' PNone) = Inr n" "24 < n"
    and ps': "ps' = dput ''nkpoints_bands'' (PInt (max 24 (n * 6 div 10))) ps"
    by (auto simp: repair_timeout_def Let_def bindr_eq_Inr MIN_BAND_PATH_POINTS_def split: if_splits)
  have "get_or ps' ''nkpoints_bands'' PNone = PInt (max 24 (n * 6 div 10))"
    by (simp add: ps' get_or_def pydict)
  then have "kpoint_cost ps' = nat (max 24 (n * 6 div 10))"
    using kpoint_cost_path [of ps'] by (simp add: mesh_number_def max_def)
  moreover have "kpoint_cost ps = nat n" using kpoint_cost_path [OF True] n by (simp add: mesh_number_def)
  moreover have "n * 6 div 10 < n" using n(2) by (simp add: div_less_iff_less_mult)
  ultimately show ?thesis using n(2) by (simp add: max_def)
next
  case False
  with assms have "repair_mesh ps = Inr (Some (ps', nt))" by (simp add: repair_timeout_def Let_def)
  then obtain ks bs ns rest where ks: "get_or ps ''kpoints'' PNone = PList ks" "3 \<le> length ks"
    and bs: "mapr above_two (take 3 ks) = Inr bs" "True \<in> set bs"
    and ns: "mapr halve (take 3 ks) = Inr ns" and ps': "ps' = dput ''kpoints'' (ints (ns @ rest)) ps"
    by (auto simp: repair_mesh_def bindr_eq_Inr Let_def split: pyval.splits if_splits)
  have "length ns = 3"
    using mapr_length [OF ns] ks(2) by simp
  then have new: "get_or ps' ''kpoints'' PNone = PList (map PInt (ns @ rest))"
      "take 3 (map PInt (ns @ rest)) = map PInt ns"
    by (simp_all add: ps' get_or_def pydict ints_def)
  have "get_or ps' ''nkpoints_bands'' PNone = get_or ps ''nkpoints_bands'' PNone"
    by (simp add: ps' get_or_def pydict)
  with False ks(1) new have "kpoint_cost ps' = sum_list (map mesh_cost (map PInt ns))"
      "kpoint_cost ps = sum_list (map mesh_cost (take 3 ks))"
    by (simp_all add: kpoint_cost_def Let_def)
  with halve_list_cost [OF ns bs(1)] bs(2) show ?thesis by simp
qed

section \<open>Repair rounds\<close>

text \<open>The parameters after a series of failures, each repaired; \<open>None\<close> when the handler declines or crashes
  at one of them, after which the scheduler does not queue the node again.\<close>

fun repairs :: "tool_error list \<Rightarrow> pyval pydict \<Rightarrow> pyval pydict option" where
  "repairs [] ps = Some ps"
| "repairs (e # es) ps = (case repair_plan ps e of Inr (Some (ps', _)) \<Rightarrow> repairs es ps' | _ \<Rightarrow> None)"

definition timeout_error :: "tool_error \<Rightarrow> bool" where
  "timeout_error e = (contains ''timed out'' (lower (te_message e)) \<and> \<not> contains ''too few bands'' (te_message e))"

definition cutoff_error :: "tool_error \<Rightarrow> bool" where
  "cutoff_error e = (\<not> contains ''timed out'' (lower (te_message e)) \<and> \<not> contains ''too few bands'' (te_message e))"

lemma timeouts_bounded:
  "repairs es ps = Some qs \<Longrightarrow> \<forall>e \<in> set es. timeout_error e \<Longrightarrow> length es \<le> kpoint_cost ps"
proof (induction es arbitrary: ps)
  case (Cons e es)
  then obtain ps' nt where step: "repair_plan ps e = Inr (Some (ps', nt))" and rest: "repairs es ps' = Some qs"
    by (auto split: sum.splits option.splits)
  from step Cons.prems(2) have "repair_timeout ps = Inr (Some (ps', nt))"
    by (auto simp: repair_plan_def timeout_error_def split: if_splits)
  with repair_timeout_cost have "kpoint_cost ps' < kpoint_cost ps" by blast
  moreover from Cons rest have "length es \<le> kpoint_cost ps'" by simp
  ultimately show ?case by simp
qed simp

lemma cutoffs_bounded:
  "repairs es ps = Some qs \<Longrightarrow> \<forall>e \<in> set es. cutoff_error e \<Longrightarrow> ecut_of ps = Some (Fin x) \<Longrightarrow> es \<noteq> []
     \<Longrightarrow> 10 * of_nat (length es) < 130 - x"
proof (induction es arbitrary: ps x)
  case (Cons e es)
  then obtain ps' nt where step: "repair_plan ps e = Inr (Some (ps', nt))" and rest: "repairs es ps' = Some qs"
    by (auto split: sum.splits option.splits)
  from step Cons.prems(2) have cut: "repair_cutoff ps = Inr (Some (ps', nt))"
    by (auto simp: repair_plan_def cutoff_error_def split: if_splits)
  from repair_cutoff_step [OF this Cons.prems(3)] obtain y where y: "dget ps' ''ecutwfc'' = Some (PFloat (Fin y))"
      "x < y" "y \<le> x + 10" "y \<le> 120" by blast
  have y': "ecut_of ps' = Some (Fin (if y = 0 then 45 else y))"
    by (simp add: ecut_of_def val_or_def get_or_def y(1) pf_true_def arith_def Let_def)
  have full: "y = x + 10 \<or> y = 120"
    using cut Cons.prems(3) y(1)
    by (auto simp: repair_cutoff_def ecut_of_def bindr_eq_Inr MAX_ECUT_def CUTOFF_BUMP_STEP_def pf_min_def
        pydict Let_def split: if_splits sum.splits)
  show ?case
  proof (cases "es = []")
    case True
    with y show ?thesis by simp
  next
    case False
    with Cons.IH [OF rest _ y'] Cons.prems(2) have "10 * of_nat (length es) < 130 - (if y = 0 then 45 else y)"
      by simp
    moreover have "of_nat (length es) \<ge> (1 :: rat)" using False by (simp add: Suc_le_eq)
    ultimately show ?thesis using full y by (auto split: if_splits)
  qed
qed simp

section \<open>Properties\<close>

text \<open>
  C19. Repairs come to an end. A node whose every failure is a timeout is repaired at most as often as
  the cost of its k-points, and a node whose failures ask for a higher cutoff at most until the
  cutoff has reached 120 Ry in steps of 10, whatever the retry limits of the template.
\<close>

theorem repairs_end:
  "(repairs es ps = Some qs \<longrightarrow> (\<forall>e \<in> set es. timeout_error e) \<longrightarrow> length es \<le> kpoint_cost ps)
   \<and> (repairs es ps = Some qs \<longrightarrow> (\<forall>e \<in> set es. cutoff_error e) \<longrightarrow> ecut_of ps = Some (Fin x) \<longrightarrow> es \<noteq> []
        \<longrightarrow> 10 * of_nat (length es) < 130 - x)"
  using timeouts_bounded cutoffs_bounded by blast

lemma qe_repair_cases:
  assumes "qe_repair node e = (ps, err, outcome)"
  shows "(outcome = Repaired True \<and> (\<exists>nt. repair_plan (nr_params node) e = Inr (Some (ps, nt))))
     \<or> (outcome \<noteq> Repaired True \<and> ps = nr_params node
        \<and> (\<forall>ps' nt. repair_plan (nr_params node) e \<noteq> Inr (Some (ps', nt))))"
  using assms by (auto simp: qe_repair_def Let_def split: sum.splits option.splits)

text \<open>What each kind of repair makes of the parameters, key by key.\<close>

definition more_bands :: "pyval pydict \<Rightarrow> pyval pydict \<Rightarrow> bool" where
  "more_bands ps ps' \<longleftrightarrow>
     (\<exists>n. as_integer (val_or ps ''nbnd'' (PInt 0)) = Inr n
        \<and> (\<forall>k. dget ps' k = (if k = ''nbnd'' then Some (PInt (max (2 * n) 24)) else dget ps k)))"

definition shorter_path :: "pyval pydict \<Rightarrow> pyval pydict \<Rightarrow> bool" where
  "shorter_path ps ps' \<longleftrightarrow>
     (\<exists>n. as_integer (get_or ps ''nkpoints_bands'' PNone) = Inr n \<and> 24 < n
        \<and> (\<forall>k. dget ps' k = (if k = ''nkpoints_bands'' then Some (PInt (max 24 (n * 6 div 10))) else dget ps k)))"

definition coarser_mesh :: "pyval pydict \<Rightarrow> pyval pydict \<Rightarrow> bool" where
  "coarser_mesh ps ps' \<longleftrightarrow>
     (\<exists>ks ns rest. get_or ps ''kpoints'' PNone = PList ks \<and> 3 \<le> length ks
        \<and> (\<exists>v \<in> set (take 3 ks). above_two v = Inr True)
        \<and> list_all2 (\<lambda>v n. \<exists>m. as_integer v = Inr m \<and>
             n = (if above_two v = Inr True then max 2 (m div 2) else m)) (take 3 ks) ns
        \<and> list_all2 (\<lambda>v n. as_integer v = Inr n) (drop 3 ks) rest
        \<and> (\<forall>k. dget ps' k = (if k = ''kpoints'' then Some (PList (map PInt (ns @ rest))) else dget ps k)))"

definition higher_cutoff :: "pyval pydict \<Rightarrow> pyval pydict \<Rightarrow> bool" where
  "higher_cutoff ps ps' \<longleftrightarrow>
     (\<forall>k. k \<notin> {''ecutwfc'', ''ecutrho''} \<longrightarrow> dget ps' k = dget ps k)
     \<and> (\<forall>x. ecut_of ps = Some (Fin x) \<longrightarrow> x < 120
          \<and> dget ps' ''ecutwfc'' = Some (PFloat (Fin (min (x + 10) 120)))
          \<and> dget ps' ''ecutrho'' = Some (PFloat (Fin (8 * min (x + 10) 120))))"

lemma repair_nbnd_exact: "repair_nbnd ps = Inr (Some (ps', nt)) \<Longrightarrow> more_bands ps ps'"
  by (auto simp: repair_nbnd_def more_bands_def bindr_eq_Inr pydict Let_def mult.commute)

lemma mapr_list_all2: "mapr f xs = Inr ys \<Longrightarrow> list_all2 (\<lambda>x y. f x = Inr y) xs ys"
  by (induction xs arbitrary: ys) (auto simp: bindr_eq_Inr)

lemma list_all2_source: "list_all2 R xs ys \<Longrightarrow> y \<in> set ys \<Longrightarrow> \<exists>x \<in> set xs. R x y"
  by (induction rule: list_all2_induct) auto

lemma halve_number: "halve v = Inr n \<Longrightarrow>
    \<exists>m. as_integer v = Inr m \<and> n = (if above_two v = Inr True then max 2 (m div 2) else m)"
  by (auto simp: halve_def above_two_def bindr_eq_Inr)

lemma repair_mesh_exact:
  assumes "repair_mesh ps = Inr (Some (ps', nt))"
  shows "coarser_mesh ps ps'"
proof -
  obtain ks bs ns rest where ks: "get_or ps ''kpoints'' PNone = PList ks" "3 \<le> length ks"
    and bs: "mapr above_two (take 3 ks) = Inr bs" "True \<in> set bs"
    and ns: "mapr halve (take 3 ks) = Inr ns" "mapr as_integer (drop 3 ks) = Inr rest"
    and ps': "ps' = dput ''kpoints'' (ints (ns @ rest)) ps"
    using assms by (auto simp: repair_mesh_def bindr_eq_Inr Let_def split: pyval.splits if_splits)
  have "\<exists>v \<in> set (take 3 ks). above_two v = Inr True"
    by (rule list_all2_source [OF mapr_list_all2 [OF bs(1)] bs(2)])
  moreover have "list_all2 (\<lambda>v n. \<exists>m. as_integer v = Inr m \<and>
      n = (if above_two v = Inr True then max 2 (m div 2) else m)) (take 3 ks) ns"
    using mapr_list_all2 [OF ns(1)] by (rule list_all2_mono) (rule halve_number)
  ultimately show ?thesis
    unfolding coarser_mesh_def using ks mapr_list_all2 [OF ns(2)] ps'
    by (intro exI [of _ ks] exI [of _ ns] exI [of _ rest]) (auto simp: pydict ints_def)
qed

lemma repair_timeout_exact:
  assumes "repair_timeout ps = Inr (Some (ps', nt))"
  shows "if py_true (get_or ps ''nkpoints_bands'' PNone) then shorter_path ps ps' else coarser_mesh ps ps'"
  using assms repair_mesh_exact
  by (auto simp: repair_timeout_def shorter_path_def Let_def bindr_eq_Inr MIN_BAND_PATH_POINTS_def pydict split: if_splits)

lemma repair_cutoff_exact: "repair_cutoff ps = Inr (Some (ps', nt)) \<Longrightarrow> higher_cutoff ps ps'"
  by (auto simp: repair_cutoff_def higher_cutoff_def ecut_of_def bindr_eq_Inr MAX_ECUT_def CUTOFF_BUMP_STEP_def
      pf_min_def pydict Let_def min_def split: if_splits sum.splits)

text \<open>
  C20. What a repair changes. When the handler does not repair, the parameters are untouched. When
  it does, the error's category is one of the three repairable ones and exactly one bounded change
  is made, the one the failure asks for, with every other key as it was: for too few bands
  \<open>nbnd\<close> is doubled and at least 24; for a timeout of a node with a band path the path has 0.6
  times the points and at least 24, and otherwise each of the three mesh numbers above 2 is halved
  and at least 2, one of them really being above 2; for any other failure the cutoff grows by 10 Ry
  up to 120 Ry, with the density cutoff at eight times it. A timeout makes the k-points cheaper.
\<close>

theorem repair_effect:
  assumes "qe_repair node e = (ps, err, outcome)"
  shows "(outcome \<noteq> Repaired True \<longrightarrow> ps = nr_params node)
     \<and> (outcome = Repaired True \<longrightarrow>
          te_category e \<in> set REPAIRABLE_CATEGORIES
          \<and> (if contains ''too few bands'' (te_message e) then more_bands (nr_params node) ps
             else if contains ''timed out'' (lower (te_message e))
             then (if py_true (get_or (nr_params node) ''nkpoints_bands'' PNone)
                   then shorter_path (nr_params node) ps else coarser_mesh (nr_params node) ps)
               \<and> kpoint_cost ps < kpoint_cost (nr_params node)
             else higher_cutoff (nr_params node) ps))"
proof (cases "outcome = Repaired True")
  case True
  with qe_repair_cases [OF assms] obtain nt where plan: "repair_plan (nr_params node) e = Inr (Some (ps, nt))"
    by blast
  have cat: "te_category e \<in> set REPAIRABLE_CATEGORIES"
    using plan by (auto simp: repair_plan_def split: if_splits)
  show ?thesis
  proof (cases "contains ''too few bands'' (te_message e)")
    case bands: True
    with plan cat have "repair_nbnd (nr_params node) = Inr (Some (ps, nt))" by (simp add: repair_plan_def)
    from repair_nbnd_exact [OF this] True cat bands show ?thesis by simp
  next
    case nb: False
    show ?thesis
    proof (cases "contains ''timed out'' (lower (te_message e))")
      case time: True
      with plan cat nb have "repair_timeout (nr_params node) = Inr (Some (ps, nt))" by (simp add: repair_plan_def)
      from repair_timeout_exact [OF this] repair_timeout_cost [OF this] True cat nb time show ?thesis by simp
    next
      case False
      with plan cat nb have "repair_cutoff (nr_params node) = Inr (Some (ps, nt))" by (simp add: repair_plan_def)
      from repair_cutoff_exact [OF this] True cat nb False show ?thesis by simp
    qed
  qed
next
  case False
  with qe_repair_cases [OF assms] show ?thesis by blast
qed

text \<open>
  Once the band path is down to 24 points a timeout is not repaired any more, however dense the
  mesh is: the mesh is reduced only for a node without a band path.
\<close>

theorem band_path_blocks_mesh:
  assumes "timeout_error e" and "dget (nr_params node) ''nkpoints_bands'' = Some (PInt n)" and "n \<noteq> 0" and "n \<le> 24"
  shows "snd (snd (qe_repair node e)) = Repaired False"
  using assms
  by (simp add: qe_repair_def repair_plan_def repair_timeout_def timeout_error_def get_or_def
      MIN_BAND_PATH_POINTS_def Let_def)

text \<open>
  The wavefunctions come from an nscf dependency when one has them. The call fails exactly when no
  dependency left a save directory; otherwise the node has one afterwards: the one it had, or a
  link to a dependency that has one, an nscf dependency if any of these has.
\<close>

theorem upstream_save_choice:
  "(case link_upstream_save deps has_save prefix entry of
      Inl e \<Rightarrow> (\<forall>d \<in> set deps. \<not> has_save d) \<and> \<not> te_repairable e
    | Inr entry' \<Rightarrow> (\<exists>d \<in> set deps. has_save d) \<and>
        (if entry \<in> {Absent, StaleLink}
         then \<exists>d. entry' = LinkTo d \<and> d \<in> set deps \<and> has_save d
                \<and> (contains ''nscf'' d \<or> (\<forall>c \<in> set deps. has_save c \<longrightarrow> \<not> contains ''nscf'' c))
         else entry' = entry))"
proof (cases "find has_save (preferred deps)")
  case None
  then have "\<forall>d \<in> set deps. \<not> has_save d" by (auto simp: find_None_iff preferred_def)
  with None show ?thesis by (simp add: link_upstream_save_def)
next
  case (Some d)
  then have d: "has_save d" "d \<in> set deps"
    using find_mem [OF Some] by (auto simp: preferred_def)
  have "contains ''nscf'' d \<or> (\<forall>c \<in> set deps. has_save c \<longrightarrow> \<not> contains ''nscf'' c)"
  proof (cases "find has_save (filter (contains ''nscf'') deps)")
    case None
    then show ?thesis by (auto simp: find_None_iff)
  next
    case (Some c)
    then have "find has_save (preferred deps) = Some c"
      unfolding preferred_def by (rule find_append_left)
    with \<open>find has_save (preferred deps) = Some d\<close> find_mem [OF Some] show ?thesis by simp
  qed
  with Some d show ?thesis by (cases entry) (auto simp: link_upstream_save_def)
qed

section \<open>Witnesses\<close>

definition demo_timeout :: tool_error where
  "demo_timeout = \<lparr>te_message = ''pw.x Timed out'', te_category = ''execution'', te_repairable = True\<rparr>"

definition demo_cutoff :: tool_error where
  "demo_cutoff = \<lparr>te_message = ''no JOB DONE'', te_category = ''execution'', te_repairable = True\<rparr>"

definition demo_params :: "pyval pydict" where
  "demo_params = [(''kpoints'', ints [8, 8, 6, 1, 1, 1]), (''ecutwfc'', PFloat (Fin 105))]"

definition demo_node :: "pyval pydict \<Rightarrow> node_run" where
  "demo_node ps = \<lparr>nr_node_id = ''scf'', nr_state = RUNNING, nr_attempt = 1, nr_repair_attempts = 0,
     nr_params = ps, nr_params_resolved = True, nr_outputs = [], nr_error = None, nr_job_id = None,
     nr_workdir = None, nr_updated_at = 0\<rparr>"

lemma demo_repairs: "repairs [demo_timeout, demo_timeout] demo_params =
    Some [(''kpoints'', ints [2, 2, 2, 1, 1, 1]), (''ecutwfc'', PFloat (Fin 105))]"
  by code_simp

lemma demo_cutoffs: "repairs [demo_cutoff, demo_cutoff] demo_params =
    Some [(''kpoints'', ints [8, 8, 6, 1, 1, 1]), (''ecutwfc'', PFloat (Fin 120)), (''ecutrho'', PFloat (Fin 960))]"
  by code_simp

theorem repairs_end_witness:
  "2 \<le> kpoint_cost demo_params \<and> ecut_of demo_params = Some (Fin 105)"
proof -
  have "timeout_error demo_timeout" by code_simp
  moreover have "ecut_of demo_params = Some (Fin 105)" by code_simp
  ultimately show ?thesis
    using repairs_end [of "[demo_timeout, demo_timeout]" demo_params] demo_repairs by force
qed

lemma demo_repair: "qe_repair (demo_node demo_params) demo_cutoff =
    ([(''kpoints'', ints [8, 8, 6, 1, 1, 1]), (''ecutwfc'', PFloat (Fin 115)), (''ecutrho'', PFloat (Fin 920))],
     '' | repair: ecutwfc -> 115.0'', Repaired True)"
  by code_simp

theorem repair_effect_witness:
  "te_category demo_cutoff \<in> set REPAIRABLE_CATEGORIES
   \<and> higher_cutoff demo_params
       [(''kpoints'', ints [8, 8, 6, 1, 1, 1]), (''ecutwfc'', PFloat (Fin 115)), (''ecutrho'', PFloat (Fin 920))]
   \<and> ecut_of demo_params = Some (Fin 105)"
proof -
  have "\<not> contains ''too few bands'' (te_message demo_cutoff)"
    "\<not> contains ''timed out'' (lower (te_message demo_cutoff))" by code_simp+
  moreover have "ecut_of demo_params = Some (Fin 105)" by code_simp
  ultimately show ?thesis using repair_effect [OF demo_repair] by (simp add: demo_node_def)
qed

theorem band_path_blocks_mesh_witness:
  "snd (snd (qe_repair (demo_node ((''nkpoints_bands'', PInt 24) # demo_params)) demo_timeout)) = Repaired False"
proof (rule band_path_blocks_mesh [where n = 24])
  show "timeout_error demo_timeout" by code_simp
qed (simp_all add: demo_node_def dget_def)

theorem upstream_save_choice_witness:
  "\<exists>d. link_upstream_save [''a_scf'', ''b_nscf''] (\<lambda>_. True) ''si'' StaleLink = Inr (LinkTo d)
     \<and> contains ''nscf'' d"
proof -
  have "link_upstream_save [''a_scf'', ''b_nscf''] (\<lambda>_. True) ''si'' StaleLink = Inr (LinkTo ''b_nscf'')"
    by code_simp
  moreover have "contains ''nscf'' ''b_nscf''" by code_simp
  ultimately show ?thesis
    using upstream_save_choice [where deps = "[''a_scf'', ''b_nscf'']" and has_save = "\<lambda>_. True"
      and entry = StaleLink] by auto
qed

end
