(* ===== verification/Py_Regex.thy ===== *)
theory Py_Regex
  imports Py_Text
begin

text \<open>
  The part of Python's \<open>re\<close> that the modelled modules use: backtracking matching with greedy and
  lazy repetition, groups, anchors and word boundaries.

  A position is the character before it, the text after it and the groups captured so far.
  \<open>matches r p\<close> lists every way to match \<open>r\<close> from \<open>p\<close> in the order in which a backtracking matcher
  tries them; its first element is Python's match. A repetition stops at an iteration that
  consumes nothing.
\<close>

section \<open>Expressions\<close>

datatype re =
    Eps
  | Ch "char \<Rightarrow> bool"
  | Seq re re
  | Alt re re
  | Star re
  | Lazy re
  | Grp nat re
  | LineStart
  | LineEnd
  | WordB

record pos =
  prev :: "char option"
  rest :: string
  caps :: "(nat \<times> string) list"

definition word_at :: "char option \<Rightarrow> bool" where
  "word_at c = (case c of None \<Rightarrow> False | Some x \<Rightarrow> is_word_char x)"

definition next_char :: "pos \<Rightarrow> char option" where
  "next_char p = (case rest p of [] \<Rightarrow> None | c # _ \<Rightarrow> Some c)"

definition newline :: char where "newline = CHR 0x0A"

text \<open>The text between two positions, the second reached from the first.\<close>

definition consumed :: "pos \<Rightarrow> pos \<Rightarrow> string" where
  "consumed p q = take (length (rest p) - length (rest q)) (rest p)"

definition set_cap :: "nat \<Rightarrow> string \<Rightarrow> pos \<Rightarrow> pos" where
  "set_cap n s q = q\<lparr>caps := (n, s) # filter (\<lambda>(k, _). k \<noteq> n) (caps q)\<rparr>"

function (sequential) matches :: "re \<Rightarrow> pos \<Rightarrow> pos list" where
  "matches Eps p = [p]"
| "matches (Ch f) p = (case rest p of [] \<Rightarrow> []
     | c # s \<Rightarrow> if f c then [p\<lparr>prev := Some c, rest := s\<rparr>] else [])"
| "matches (Seq a b) p = concat (map (matches b) (matches a p))"
| "matches (Alt a b) p = matches a p @ matches b p"
| "matches (Star a) p =
     concat (map (matches (Star a)) (filter (\<lambda>q. length (rest q) < length (rest p)) (matches a p))) @ [p]"
| "matches (Lazy a) p =
     p # concat (map (matches (Lazy a)) (filter (\<lambda>q. length (rest q) < length (rest p)) (matches a p)))"
| "matches (Grp n a) p = map (\<lambda>q. set_cap n (consumed p q) q) (matches a p)"
| "matches LineStart p = (if prev p \<in> {None, Some newline} then [p] else [])"
| "matches LineEnd p = (if next_char p \<in> {None, Some newline} then [p] else [])"
| "matches WordB p = (if word_at (prev p) \<noteq> word_at (next_char p) then [p] else [])"
  by pat_completeness auto
termination
  by (relation "measures [\<lambda>(r, _). size r, \<lambda>(_, p). length (rest p)]") auto

section \<open>Abbreviated forms\<close>

fun lit :: "string \<Rightarrow> re" where
  "lit [] = Eps"
| "lit (c # s) = Seq (Ch (\<lambda>d. d = c)) (lit s)"

text \<open>\<open>re.IGNORECASE\<close>.\<close>

fun ilit :: "string \<Rightarrow> re" where
  "ilit [] = Eps"
| "ilit (c # s) = Seq (Ch (\<lambda>d. lower_char d = lower_char c)) (ilit s)"

fun seqs :: "re list \<Rightarrow> re" where
  "seqs [] = Eps"
| "seqs [r] = r"
| "seqs (r # rs) = Seq r (seqs rs)"

definition plus :: "re \<Rightarrow> re" where "plus r = Seq r (Star r)"
definition opt :: "re \<Rightarrow> re" where "opt r = Alt r Eps"
definition spaces0 :: re where "spaces0 = Star (Ch py_isspace)"
definition spaces1 :: re where "spaces1 = plus (Ch py_isspace)"
definition digits1 :: re where "digits1 = plus (Ch is_digit)"
definition dot :: re where "dot = Ch (\<lambda>c. c \<noteq> newline)"
definition one_of :: "string \<Rightarrow> re" where "one_of s = Ch (\<lambda>c. c \<in> set s)"
definition digit_or :: "string \<Rightarrow> re" where "digit_or s = Ch (\<lambda>c. is_digit c \<or> c \<in> set s)"

text \<open>\<open>-?\d+\.\d+\<close>.\<close>

definition decimal :: re where
  "decimal = seqs [opt (one_of ''-''), digits1, one_of ''.'', digits1]"

section \<open>Search\<close>

text \<open>The leftmost match: its start and its end.\<close>

fun search_from :: "re \<Rightarrow> char option \<Rightarrow> string \<Rightarrow> (pos \<times> pos) option" where
  "search_from r b [] = (let p = \<lparr>prev = b, rest = [], caps = []\<rparr> in
     case matches r p of [] \<Rightarrow> None | q # _ \<Rightarrow> Some (p, q))"
| "search_from r b (c # s) = (let p = \<lparr>prev = b, rest = c # s, caps = []\<rparr> in
     case matches r p of [] \<Rightarrow> search_from r (Some c) s | q # _ \<Rightarrow> Some (p, q))"

definition search :: "re \<Rightarrow> string \<Rightarrow> (pos \<times> pos) option" where
  "search r s = search_from r None s"

definition found :: "re \<Rightarrow> string \<Rightarrow> bool" where
  "found r s = (search r s \<noteq> None)"

definition group :: "nat \<Rightarrow> pos \<Rightarrow> string" where
  "group n q = (case map_of (caps q) n of Some s \<Rightarrow> s | None \<Rightarrow> [])"

text \<open>\<open>m.group(n)\<close> of a search.\<close>

definition search_group :: "nat \<Rightarrow> re \<Rightarrow> string \<Rightarrow> string option" where
  "search_group n r s = map_option (\<lambda>(_, q). group n q) (search r s)"

text \<open>\<open>finditer\<close> for an expression that never matches the empty text: the next search starts where the
  last match ended.\<close>

lemma search_from_length: "search_from r b s = Some (p, q) \<Longrightarrow> length (rest p) \<le> length s"
  by (induction r b s rule: search_from.induct) (auto simp: Let_def split: list.splits)

function find_all_from :: "re \<Rightarrow> char option \<Rightarrow> string \<Rightarrow> (pos \<times> pos) list" where
  "find_all_from r b s = (case search_from r b s of
     None \<Rightarrow> []
   | Some (p, q) \<Rightarrow> (p, q) # (if length (rest q) < length (rest p)
                               then find_all_from r (prev q) (rest q) else []))"
  by pat_completeness auto
termination
  by (relation "measure (\<lambda>(_, _, s). length s)") (auto dest: search_from_length)

declare find_all_from.simps [simp del]

definition find_all :: "re \<Rightarrow> string \<Rightarrow> (pos \<times> pos) list" where
  "find_all r s = find_all_from r None s"

text \<open>\<open>re.findall\<close> of an expression with one group, and the whole texts matched.\<close>

definition find_groups :: "nat \<Rightarrow> re \<Rightarrow> string \<Rightarrow> string list" where
  "find_groups n r s = map (\<lambda>(_, q). group n q) (find_all r s)"

definition find_texts :: "re \<Rightarrow> string \<Rightarrow> string list" where
  "find_texts r s = map (\<lambda>(p, q). consumed p q) (find_all r s)"

section \<open>Matching a text literally\<close>

lemma matches_lit: "matches (lit t) p =
    (case strip_prefix t (rest p) of None \<Rightarrow> []
     | Some s \<Rightarrow> [p\<lparr>prev := (if t = [] then prev p else Some (last t)), rest := s\<rparr>])"
proof (induction t arbitrary: p)
  case (Cons c t)
  show ?case
  proof (cases "rest p")
    case (Cons d s)
    then show ?thesis using Cons.IH [of "p\<lparr>prev := Some d, rest := s\<rparr>"] by (auto split: option.splits)
  qed simp
qed simp

lemma search_lit: "found (lit t) s \<longleftrightarrow> contains t s"
proof -
  have "search_from (lit t) b s \<noteq> None \<longleftrightarrow> contains t s" for b
  proof (induction s arbitrary: b)
    case Nil
    then show ?case by (cases t) (auto simp: matches_lit Let_def)
  next
    case (Cons c s)
    then show ?case by (auto simp: matches_lit Let_def split: option.splits)
  qed
  then show ?thesis by (simp add: found_def search_def)
qed

end
