(* ===== verification/Parser.thy ===== *)
theory Parser
  imports Py_Regex Qe_Repair
begin

text \<open>
  The parser of Quantum ESPRESSO's output (\<open>parser.py\<close>): the SCF quantities, the final result of a
  vc-relax run, and the band structure of the XML file.

  \<^item> Numbers read from the text are exact. A square document is rounded down to 20 decimals
    (\<open>rat_sqrt\<close>), and an angle is compared through its cosine, the bounds to 16 digits.
  \<^item> The XML document is a tree: \<open>xml.etree\<close> parses it; what the parser looks up in the tree is
    modelled.
  \<^item> \<open>float()\<close> of a matched text may raise \<open>ValueError\<close> (the classes of the expressions admit texts
    such as a lone minus sign); \<open>parse_vc_relax\<close> lets it through.
\<close>

section \<open>Numbers\<close>

definition RY_TO_EV :: rat where "RY_TO_EV = 13605693122994 / 10 ^ 12"
definition HA_TO_EV :: rat where "HA_TO_EV = 27211386245988 / 10 ^ 12"

function isqrt :: "int \<Rightarrow> int" where
  "isqrt n = (if n < 1 then 0 else let s = 2 * isqrt (n div 4) in if (s + 1) * (s + 1) \<le> n then s + 1 else s)"
  by pat_completeness auto
termination by (relation "measure nat") auto

declare isqrt.simps [simp del]

lemma isqrt_bounds: "0 \<le> n \<Longrightarrow> 0 \<le> isqrt n \<and> isqrt n * isqrt n \<le> n \<and> n < (isqrt n + 1) * (isqrt n + 1)"
proof (induction n rule: isqrt.induct)
  case (1 n)
  show ?case
  proof (cases "n < 1")
    case True
    with 1 show ?thesis by (simp add: isqrt.simps [of n])
  next
    case False
    let ?r = "isqrt (n div 4)"
    from 1 False have IH: "0 \<le> ?r" "?r * ?r \<le> n div 4" "n div 4 < (?r + 1) * (?r + 1)" by auto
    have "(2 * ?r) * (2 * ?r) \<le> n" using IH(2) by (simp add: algebra_simps)
    moreover have "n < (2 * ?r + 1 + 1) * (2 * ?r + 1 + 1)"
      using IH(3) by (simp add: algebra_simps)
    ultimately show ?thesis using False IH(1) by (simp add: isqrt.simps [of n] Let_def algebra_simps)
  qed
qed

definition rat_sqrt :: "rat \<Rightarrow> rat" where
  "rat_sqrt x = of_int (isqrt \<lfloor>x * 10 ^ 40\<rfloor>) / 10 ^ 20"

definition read_float :: "string \<Rightarrow> py_exc + pyfloat" where
  "read_float s = as_real (PStr s)"

definition read_int :: "string \<Rightarrow> py_exc + int" where
  "read_int s = as_integer (PStr s)"

definition last_opt :: "'a list \<Rightarrow> 'a option" where
  "last_opt xs = (if xs = [] then None else Some (last xs))"

section \<open>Results\<close>

record parsed_scf =
  total_energy_ry :: pyfloat
  total_energy_ev :: pyfloat
  n_iterations :: int
  converged :: bool
  convergence_thr :: pyfloat
  final_delta :: pyfloat
  fermi_energy_ev :: pyfloat
  k_points :: int
  n_bands :: int

record parsed_cell =
  a_bohr :: pyfloat
  b_bohr :: pyfloat
  c_bohr :: pyfloat
  cell_ibrav :: int
  volume_bohr3 :: pyfloat

record parsed_vc =
  final_energy_ry :: pyfloat
  final_energy_ev_per_atom :: pyfloat
  max_force_ry_bohr :: pyfloat
  pressure_kbar :: pyfloat
  vc_n_iterations :: int
  vc_converged :: bool
  vc_cell :: "parsed_cell option"
  vc_natoms :: int

section \<open>SCF output\<close>

definition RE_CONVERGED :: re where
  "RE_CONVERGED = seqs [lit ''convergence has been achieved in'', spaces1, Grp 1 digits1, spaces1, lit ''iterations'']"

definition RE_ENERGY :: re where
  "RE_ENERGY = seqs [lit ''!'', spaces1, lit ''total energy'', spaces1, lit ''='', spaces1, Grp 1 decimal,
     spaces1, lit ''Ry'']"

definition RE_THRESHOLD :: re where
  "RE_THRESHOLD = seqs [lit ''convergence threshold'', spaces1, lit ''='', spaces1,
     Grp 1 (seqs [digits1, one_of ''.'', digits1, one_of ''E'', opt (one_of ''+-''), digits1])]"

definition RE_FERMI :: re where
  "RE_FERMI = seqs [ilit ''the Fermi energy is'', spaces1, Grp 1 decimal, spaces1, ilit ''ev'']"

definition RE_KPOINTS :: re where
  "RE_KPOINTS = seqs [lit ''number of k points'', spaces0, lit ''='', spaces0, Grp 1 digits1]"

definition RE_NBND :: re where
  "RE_NBND = seqs [lit ''number of Kohn-Sham states'', spaces0, lit ''='', spaces0, Grp 1 digits1]"

text \<open>The groups these expressions capture are numerals, which \<open>float\<close> and \<open>int\<close> read.\<close>

definition num_float :: "string option \<Rightarrow> pyfloat" where
  "num_float g = (case g of None \<Rightarrow> Fin 0 | Some s \<Rightarrow> (case py_float s of Some x \<Rightarrow> x | None \<Rightarrow> Fin 0))"

definition num_int :: "string option \<Rightarrow> int" where
  "num_int g = (case g of None \<Rightarrow> 0 | Some s \<Rightarrow> (case py_int s of Some n \<Rightarrow> n | None \<Rightarrow> 0))"

definition parse_scf :: "string \<Rightarrow> parsed_scf" where
  "parse_scf stdout =
    (let conv = search_group 1 RE_CONVERGED stdout;
         energy = last_opt (find_groups 1 RE_ENERGY stdout) in
     \<lparr>total_energy_ry = num_float energy,
      total_energy_ev = pf_mul (num_float energy) (Fin RY_TO_EV),
      n_iterations = num_int conv, converged = (conv \<noteq> None),
      convergence_thr = num_float (search_group 1 RE_THRESHOLD stdout), final_delta = Fin 0,
      fermi_energy_ev = num_float (search_group 1 RE_FERMI stdout),
      k_points = num_int (search_group 1 RE_KPOINTS stdout),
      n_bands = num_int (search_group 1 RE_NBND stdout)\<rparr>)"

section \<open>Cell vectors\<close>

type_synonym vec = "rat \<times> rat \<times> rat"

fun dot3 :: "vec \<Rightarrow> vec \<Rightarrow> rat" where
  "dot3 (a, b, c) (x, y, z) = a * x + b * y + c * z"

fun cross3 :: "vec \<Rightarrow> vec \<Rightarrow> vec" where
  "cross3 (a, b, c) (x, y, z) = (b * z - c * y, c * x - a * z, a * y - b * x)"

fun scale3 :: "rat \<Rightarrow> vec \<Rightarrow> vec" where
  "scale3 k (a, b, c) = (k * a, k * b, k * c)"

definition norm3 :: "vec \<Rightarrow> rat" where
  "norm3 v = rat_sqrt (dot3 v v)"

definition SQRT2 :: rat where "SQRT2 = rat_sqrt 2"
definition SQRT3 :: rat where "SQRT3 = rat_sqrt 3"

text \<open>The cosines of the inter-vector angles, or \<open>None\<close> for a degenerate cell. An angle lies within two
  degrees of 60 (of 109.47) when its cosine lies between the cosines of the bounds.\<close>

definition cell_cosines :: "vec \<Rightarrow> vec \<Rightarrow> vec \<Rightarrow> rat list option" where
  "cell_cosines a1 a2 a3 =
    (let n1 = norm3 a1; n2 = norm3 a2; n3 = norm3 a3 in
     if min n1 (min n2 n3) < 1 / 10 ^ 8 then None
     else Some [dot3 a2 a3 / (n2 * n3), dot3 a1 a3 / (n1 * n3), dot3 a1 a2 / (n1 * n2)])"

definition near_60 :: "rat \<Rightarrow> bool" where
  "near_60 c = (46947156278589086 / 10 ^ 17 < c \<and> c < 5299192642332049 / 10 ^ 16)"

definition near_109 :: "rat \<Rightarrow> bool" where
  "near_109 c = (- (3660140110079716 / 10 ^ 16) < c \<and> c < - (30020639327931115 / 10 ^ 17))"

definition lengths :: "vec \<Rightarrow> vec \<Rightarrow> vec \<Rightarrow> rat \<times> rat \<times> rat" where
  "lengths a1 a2 a3 = (norm3 a1, norm3 a2, norm3 a3)"

definition compute_cell_constants :: "vec \<Rightarrow> vec \<Rightarrow> vec \<Rightarrow> int \<Rightarrow> rat \<times> rat \<times> rat" where
  "compute_cell_constants a1 a2 a3 ibrav =
    (let cubic = (\<lambda>x. (x, x, x)); n = norm3 a1 in
     if ibrav = 2 then cubic (n * SQRT2)
     else if ibrav = 3 then cubic (n * 2 / SQRT3)
     else if ibrav = 1 then cubic n
     else if ibrav = 4 then (n, n, norm3 a3)
     else if ibrav = 0 then
       (case cell_cosines a1 a2 a3 of
          Some cs \<Rightarrow>
            if \<bar>n - norm3 a2\<bar> / n < 2 / 100 \<and> \<bar>n - norm3 a3\<bar> / n < 2 / 100 then
              if list_all near_60 cs then cubic (n * SQRT2)
              else if list_all near_109 cs then cubic (n * 2 / SQRT3)
              else lengths a1 a2 a3
            else lengths a1 a2 a3
        | None \<Rightarrow> lengths a1 a2 a3)
     else lengths a1 a2 a3)"

definition cell_of_vectors :: "vec \<Rightarrow> vec \<Rightarrow> vec \<Rightarrow> int \<Rightarrow> parsed_cell" where
  "cell_of_vectors a1 a2 a3 ibrav =
    (let (a, b, c) = compute_cell_constants a1 a2 a3 ibrav in
     \<lparr>a_bohr = Fin a, b_bohr = Fin b, c_bohr = Fin c, cell_ibrav = ibrav,
      volume_bohr3 = Fin \<bar>dot3 a1 (cross3 a2 a3)\<bar>\<rparr>)"

section \<open>vc-relax output\<close>

definition RE_IBRAV :: re where
  "RE_IBRAV = seqs [lit ''bravais-lattice index'', spaces1, lit ''='', spaces1, Grp 1 digits1]"

definition RE_GEOM_DONE :: re where
  "RE_GEOM_DONE = Alt (ilit ''bfgs converged in'') (ilit ''End of BFGS Geometry Optimization'')"

definition RE_GEOM_FAILED :: re where
  "RE_GEOM_FAILED = Alt (ilit ''maximum number of steps has been reached'')
     (ilit ''geometry optimization did not converge'')"

definition RE_PRESSURE :: re where
  "RE_PRESSURE = seqs [lit ''P='', spaces1, Grp 1 (plus (digit_or ''-+.eE''))]"

definition RE_NATOMS :: re where
  "RE_NATOMS = seqs [lit ''number of atoms/cell'', spaces1, lit ''='', spaces1, Grp 1 digits1]"

definition blank :: re where
  "blank = Ch (\<lambda>c. c = CHR '' '' \<or> c = CHR 0x09)"

definition number :: re where
  "number = plus (digit_or ''-.eE+'')"

text \<open>One line of a force block, with its line feed.\<close>

definition RE_FORCE_LINE :: re where
  "RE_FORCE_LINE = seqs [LineStart, Star blank, lit ''atom'', plus blank, digits1, Lazy dot, lit ''force'',
     Star blank, lit ''='', Star blank, number, plus blank, number, plus blank, number, Star blank,
     LineEnd, opt (Ch (\<lambda>c. c = newline))]"

definition RE_FORCE :: re where
  "RE_FORCE = seqs [lit ''force'', Star blank, lit ''='', Star blank, Grp 1 number, plus blank,
     Grp 2 number, plus blank, Grp 3 number]"

text \<open>The text after the last occurrence of the marker, if there is one.\<close>

fun after_last :: "string \<Rightarrow> string \<Rightarrow> string option" where
  "after_last m [] = None"
| "after_last m (c # s) = (case after_last m s of Some r \<Rightarrow> Some r | None \<Rightarrow> strip_prefix m (c # s))"

definition final_part :: "string \<Rightarrow> string" where
  "final_part stdout = (case after_last ''Begin final coordinates'' stdout of Some r \<Rightarrow> r | None \<Rightarrow> stdout)"

fun pf_sqrt :: "pyfloat \<Rightarrow> pyfloat" where
  "pf_sqrt (Fin x) = (if 0 \<le> x then Fin (rat_sqrt x) else NaN)"
| "pf_sqrt PosInf = PosInf"
| "pf_sqrt _ = NaN"

definition magnitude :: "pyfloat list \<Rightarrow> pyfloat" where
  "magnitude vs = pf_sqrt (foldl (\<lambda>acc v. pf_add acc (pf_mul v v)) (Fin 0) vs)"

definition pf_max_list :: "pyfloat list \<Rightarrow> pyfloat option" where
  "pf_max_list xs = (case xs of [] \<Rightarrow> None | x # ys \<Rightarrow> Some (foldl (\<lambda>m y. if pf_lt m y then y else m) x ys))"

definition line_force :: "string \<Rightarrow> py_exc + pyfloat option" where
  "line_force l = (case search RE_FORCE l of None \<Rightarrow> Inr None
     | Some (_, q) \<Rightarrow> bindr (mapr read_float [group 1 q, group 2 q, group 3 q]) (\<lambda>vs. Inr (Some (magnitude vs))))"

definition somes :: "'a option list \<Rightarrow> 'a list" where
  "somes xs = concat (map (\<lambda>x. case x of None \<Rightarrow> [] | Some a \<Rightarrow> [a]) xs)"

text \<open>The largest force of the last block; zero without one.\<close>

definition max_force :: "string \<Rightarrow> py_exc + pyfloat" where
  "max_force stdout =
    (case last_opt (find_texts (plus RE_FORCE_LINE) (final_part stdout)) of
       None \<Rightarrow> Inr (Fin 0)
     | Some block \<Rightarrow> bindr (mapr line_force (splitlines block)) (\<lambda>fs.
         Inr (case pf_max_list (somes fs) of Some m \<Rightarrow> m | None \<Rightarrow> Fin 0)))"

text \<open>The last pressure before the end of the BFGS trajectory; zero without one.\<close>

definition last_pressure :: "string \<Rightarrow> py_exc + pyfloat" where
  "last_pressure stdout =
    (let txt = (case search (ilit ''End of BFGS Geometry Optimization'') stdout of
                   Some (p, _) \<Rightarrow> take (length stdout - length (rest p)) stdout | None \<Rightarrow> stdout) in
     case last_opt (find_groups 1 RE_PRESSURE txt) of None \<Rightarrow> Inr (Fin 0) | Some g \<Rightarrow> read_float g)"

definition geometry_converged :: "string \<Rightarrow> bool" where
  "geometry_converged stdout = (found RE_GEOM_DONE stdout \<and> \<not> found RE_GEOM_FAILED stdout)"

definition coord :: "nat \<Rightarrow> re" where
  "coord n = Grp n (plus (digit_or ''.-''))"

definition cell_row :: "nat \<Rightarrow> re list" where
  "cell_row n = [spaces0, coord n, spaces1, coord (n + 1), spaces1, coord (n + 2)]"

definition RE_CELL :: re where
  "RE_CELL = seqs ([lit ''CELL_PARAMETERS'', spaces1, lit ''(alat='', spaces0, Grp 1 (plus (digit_or ''.'')),
      lit '')'', spaces0, Ch (\<lambda>c. c = newline)]
    @ cell_row 2 @ [spaces0, Ch (\<lambda>c. c = newline)] @ cell_row 5 @ [spaces0, Ch (\<lambda>c. c = newline)] @ cell_row 8)"

definition read_rat :: "string \<Rightarrow> py_exc + rat" where
  "read_rat s = bindr (read_float s) (\<lambda>x. case x of Fin q \<Rightarrow> Inr q | _ \<Rightarrow> Inl OverflowError)"

definition read_vec :: "rat \<Rightarrow> string list \<Rightarrow> py_exc + vec" where
  "read_vec alat ts = bindr (mapr read_rat ts) (\<lambda>vs. case vs of
     [x, y, z] \<Rightarrow> Inr (scale3 alat (x, y, z)) | _ \<Rightarrow> Inl (ValueError ''vector length''))"

definition last_cell :: "string \<Rightarrow> int \<Rightarrow> py_exc + parsed_cell option" where
  "last_cell stdout ibrav =
    (case last_opt (find_all RE_CELL stdout) of None \<Rightarrow> Inr None
     | Some (_, q) \<Rightarrow>
         bindr (read_rat (group 1 q)) (\<lambda>alat.
         bindr (read_vec alat [group 2 q, group 3 q, group 4 q]) (\<lambda>a1.
         bindr (read_vec alat [group 5 q, group 6 q, group 7 q]) (\<lambda>a2.
         bindr (read_vec alat [group 8 q, group 9 q, group 10 q]) (\<lambda>a3.
         Inr (Some (cell_of_vectors a1 a2 a3 ibrav)))))))"

section \<open>The XML document\<close>

datatype xml = Elem (xtag: string) (xattrs: "(string \<times> string) list") (xtext: "string option") (xchildren: "xml list")

definition QES :: string where
  "QES = ''{http://www.quantum-espresso.org/ns/qes/qes-1.0}''"

text \<open>\<open>find\<close> of a path of child tags, without and with the namespace.\<close>

fun select :: "string list \<Rightarrow> xml \<Rightarrow> xml list" where
  "select [] e = [e]"
| "select (t # ts) e = concat (map (select ts) (filter (\<lambda>c. xtag c = t) (xchildren e)))"

definition find_path :: "xml \<Rightarrow> string list \<Rightarrow> xml option" where
  "find_path e path = (case select path e of x # _ \<Rightarrow> Some x
     | [] \<Rightarrow> (case select (map ((@) QES) path) e of x # _ \<Rightarrow> Some x | [] \<Rightarrow> None))"

record xml_data =
  xd_energy :: "pyfloat option"
  xd_cell :: "parsed_cell option"
  xd_natoms :: "int option"
  xd_error :: bool

definition no_xml_data :: xml_data where
  "no_xml_data = \<lparr>xd_energy = None, xd_cell = None, xd_natoms = None, xd_error = False\<rparr>"

definition text_float :: "string option \<Rightarrow> py_exc + pyfloat" where
  "text_float t = (case t of None \<Rightarrow> Inl TypeError | Some s \<Rightarrow> read_float s)"

definition attr_float :: "xml \<Rightarrow> string \<Rightarrow> py_exc + pyfloat" where
  "attr_float e k = (case map_of (xattrs e) k of None \<Rightarrow> Inr (Fin 0) | Some s \<Rightarrow> read_float s)"

definition attr_int :: "xml \<Rightarrow> string \<Rightarrow> py_exc + int" where
  "attr_int e k = (case map_of (xattrs e) k of None \<Rightarrow> Inr 0 | Some s \<Rightarrow> read_int s)"

definition xml_vec :: "rat \<Rightarrow> xml list \<Rightarrow> nat \<Rightarrow> py_exc + vec" where
  "xml_vec alat rows i = (if i < length rows then
     (case xtext (rows ! i) of None \<Rightarrow> Inl AttributeError | Some t \<Rightarrow> read_vec alat (words t)) else Inl IndexError)"

definition xml_cell :: "xml \<Rightarrow> py_exc + parsed_cell option" where
  "xml_cell st =
    bindr (attr_float st ''alat'') (\<lambda>alat.
    bindr (attr_int st ''bravais_index'') (\<lambda>ibrav.
    case (find_path st [''cell''], alat) of
      (Some ce, Fin al) \<Rightarrow>
        if 0 < al then
          bindr (xml_vec al (xchildren ce) 0) (\<lambda>a1.
          bindr (xml_vec al (xchildren ce) 1) (\<lambda>a2.
          bindr (xml_vec al (xchildren ce) 2) (\<lambda>a3. Inr (Some (cell_of_vectors a1 a2 a3 ibrav)))))
        else Inr None
    | _ \<Rightarrow> Inr None))"

definition xml_natoms :: "xml \<Rightarrow> py_exc + int option" where
  "xml_natoms st = (case map_of (xattrs st) ''nat'' of
     Some (c # t) \<Rightarrow> bindr (read_int (c # t)) (\<lambda>n. Inr (Some n)) | _ \<Rightarrow> Inr None)"

text \<open>\<open>parse_xml\<close>: an exception stops it with what it has found so far.\<close>

definition parse_xml :: "xml \<Rightarrow> xml_data" where
  "parse_xml document =
    (let out = (case find_path document [''output''] of Some e \<Rightarrow> Some e
                | None \<Rightarrow> if last (split_on (CHR ''}'') (xtag document)) = ''output'' then Some document else None) in
     case out of
       None \<Rightarrow> no_xml_data
     | Some e \<Rightarrow>
       (case (case find_path e [''total_energy'', ''etot''] of
                None \<Rightarrow> Inr None
              | Some t \<Rightarrow> bindr (text_float (xtext t)) (\<lambda>x. Inr (Some (pf_mul x (Fin (HA_TO_EV / RY_TO_EV)))))) of
          Inl _ \<Rightarrow> no_xml_data\<lparr>xd_error := True\<rparr>
        | Inr en \<Rightarrow>
          let d = no_xml_data\<lparr>xd_energy := en\<rparr> in
          (case find_path e [''atomic_structure''] of
             None \<Rightarrow> d
           | Some st \<Rightarrow>
             (case xml_cell st of
                Inl _ \<Rightarrow> d\<lparr>xd_error := True\<rparr>
              | Inr c \<Rightarrow>
                (case xml_natoms st of
                   Inl _ \<Rightarrow> d\<lparr>xd_cell := c, xd_error := True\<rparr>
                 | Inr n \<Rightarrow> d\<lparr>xd_cell := c, xd_natoms := n\<rparr>)))))"

text \<open>The fallback: the energy when the text had none (a zero counts as none), the cell when it had none.\<close>

definition per_atom :: "pyfloat \<Rightarrow> int \<Rightarrow> pyfloat" where
  "per_atom e n = pf_mul (pf_mul e (Fin RY_TO_EV)) (Fin (1 / of_int n))"

definition with_xml :: "xml_data \<Rightarrow> parsed_vc \<Rightarrow> parsed_vc" where
  "with_xml d r =
    (let r1 = (case xd_energy d of
                 Some e \<Rightarrow> if pf_true e \<and> final_energy_ry r = Fin 0
                            then r\<lparr>final_energy_ry := e,
                                   final_energy_ev_per_atom := (if 0 < vc_natoms r then per_atom e (vc_natoms r) else Fin 0)\<rparr>
                            else r
               | None \<Rightarrow> r) in
     if xd_cell d \<noteq> None \<and> vc_cell r1 = None then r1\<lparr>vc_cell := xd_cell d\<rparr> else r1)"

definition parse_vc_relax :: "string \<Rightarrow> xml option \<Rightarrow> py_exc + parsed_vc" where
  "parse_vc_relax stdout doc =
    (let energy = num_float (last_opt (find_groups 1 RE_ENERGY stdout));
         nat_atoms = num_int (search_group 1 RE_NATOMS stdout) in
     bindr (last_pressure stdout) (\<lambda>pressure.
     bindr (max_force stdout) (\<lambda>force.
     bindr (last_cell stdout (num_int (search_group 1 RE_IBRAV stdout))) (\<lambda>cell.
     let r = \<lparr>final_energy_ry = energy,
              final_energy_ev_per_atom = (if energy \<noteq> Fin 0 \<and> 0 < nat_atoms then per_atom energy nat_atoms else Fin 0),
              max_force_ry_bohr = force, pressure_kbar = pressure,
              vc_n_iterations = num_int (last_opt (find_groups 1 RE_CONVERGED stdout)),
              vc_converged = geometry_converged stdout, vc_cell = cell, vc_natoms = nat_atoms\<rparr> in
     Inr (case doc of None \<Rightarrow> r | Some d \<Rightarrow> with_xml (parse_xml d) r)))))"

section \<open>Band structure\<close>

record parsed_bands =
  pb_n_bands :: int
  pb_n_kpoints :: int
  pb_fermi_ev :: pyfloat
  pb_gap_ev :: pyfloat
  pb_is_metal :: bool
  pb_eigenvalues :: "pyfloat list list option"

definition no_bands :: parsed_bands where
  "no_bands = \<lparr>pb_n_bands = 0, pb_n_kpoints = 0, pb_fermi_ev = Fin 0, pb_gap_ev = Fin 0,
     pb_is_metal = False, pb_eigenvalues = None\<rparr>"

text \<open>Descendants in document order, the element itself excluded.\<close>

fun descendants :: "xml \<Rightarrow> xml list" where
  "descendants (Elem t a x cs) = concat (map (\<lambda>c. c # descendants c) cs)"

definition find_tags :: "xml \<Rightarrow> string \<Rightarrow> xml list" where
  "find_tags e t =
    (let hits = filter (\<lambda>c. xtag c = QES @ t) (descendants e) in
     if hits \<noteq> [] then hits else filter (\<lambda>c. xtag c = t) (descendants e))"

definition find_tag :: "xml \<Rightarrow> string \<Rightarrow> xml option" where
  "find_tag e t = (case find_tags e t of [] \<Rightarrow> None | x # _ \<Rightarrow> Some x)"

definition eigen_rows :: "xml \<Rightarrow> py_exc + pyfloat list list" where
  "eigen_rows bs =
    bindr (mapr (\<lambda>e. case xtext e of None \<Rightarrow> Inr [] | Some t \<Rightarrow> mapr read_float (words t))
      (concat (map (\<lambda>ks. find_tags ks ''eigenvalues'') (find_tags bs ''ks_energies'')))) (\<lambda>rows.
    Inr (filter (\<lambda>r. r \<noteq> []) rows))"

text \<open>\<open>elem is not None and elem.text\<close>: the text of the element, unless there is none or it is empty.\<close>

definition set_text :: "string option \<Rightarrow> string option" where
  "set_text x = (case x of Some (c # s) \<Rightarrow> Some (c # s) | _ \<Rightarrow> None)"

definition given_text :: "xml option \<Rightarrow> string option" where
  "given_text e = (case e of Some x \<Rightarrow> set_text (xtext x) | None \<Rightarrow> None)"

definition fermi_of :: "xml \<Rightarrow> pyfloat list \<Rightarrow> py_exc + pyfloat" where
  "fermi_of document evals =
    (case given_text (find_tag document ''fermi_energy'') of
       Some t \<Rightarrow> bindr (read_float t) (\<lambda>x. Inr (pf_mul x (Fin HA_TO_EV)))
     | None \<Rightarrow>
       (case given_text (find_tag document ''highestOccupiedLevel'') of
          Some t \<Rightarrow> bindr (read_float t) (\<lambda>x. Inr (pf_mul x (Fin HA_TO_EV)))
        | None \<Rightarrow> Inr (if NaN \<in> set evals then NaN
                        else case pf_max_list evals of Some m \<Rightarrow> pf_mul m (Fin (1 / 2)) | None \<Rightarrow> Fin 0)))"

definition pf_min_list :: "pyfloat list \<Rightarrow> pyfloat option" where
  "pf_min_list xs = map_option pf_neg (pf_max_list (map pf_neg xs))"

definition EDGE :: rat where "EDGE = 1 / 10 ^ 9"

text \<open>Gap and metallicity from the levels up to the Fermi level and above it.\<close>

definition gap_of :: "pyfloat \<Rightarrow> pyfloat list \<Rightarrow> pyfloat \<times> bool" where
  "gap_of fermi evals =
    (let edge = pf_add fermi (Fin EDGE) in
     case (pf_max_list (filter (\<lambda>x. pf_le x edge) evals), pf_min_list (filter (\<lambda>x. pf_lt edge x) evals)) of
       (Some vbm, Some cbm) \<Rightarrow>
         if pf_lt vbm cbm
         then (pf_add cbm (pf_neg vbm), pf_lt (pf_add cbm (pf_neg vbm)) (Fin (272 / 1000)))
         else (Fin 0, True)
     | _ \<Rightarrow> (Fin 0, False))"

text \<open>\<open>int(elem.get(k, 0)) or n\<close>.\<close>

definition count_attr :: "xml \<Rightarrow> string \<Rightarrow> nat \<Rightarrow> py_exc + int" where
  "count_attr e k n = bindr (attr_int e k) (\<lambda>i. Inr (if i \<noteq> 0 then i else int n))"

text \<open>Exceptions are logged and swallowed, so the result holds what was set before: rows of different
  lengths stop it before anything, a bad count attribute after the eigenvalues, a bad Fermi
  level after the counts.\<close>

definition parse_bands :: "xml \<Rightarrow> parsed_bands" where
  "parse_bands document =
    (case find_tag document ''band_structure'' of
       None \<Rightarrow> no_bands
     | Some bs \<Rightarrow>
       (case eigen_rows bs of
          Inl _ \<Rightarrow> no_bands
        | Inr [] \<Rightarrow> no_bands
        | Inr (r # rs) \<Rightarrow>
          if \<not> list_all (\<lambda>x. length x = length r) rs then no_bands
          else
            let rows = map (map (\<lambda>x. pf_mul x (Fin HA_TO_EV))) (r # rs);
                d0 = no_bands\<lparr>pb_eigenvalues := Some rows\<rparr> in
            (case count_attr bs ''nks'' (length rows) of
               Inl _ \<Rightarrow> d0
             | Inr nk \<Rightarrow>
               let d1 = d0\<lparr>pb_n_kpoints := nk\<rparr> in
               (case count_attr bs ''nbnd'' (length r) of
                  Inl _ \<Rightarrow> d1
                | Inr nb \<Rightarrow>
                  let d2 = d1\<lparr>pb_n_bands := nb\<rparr> in
                  (case fermi_of document (concat rows) of
                     Inl _ \<Rightarrow> d2
                   | Inr f \<Rightarrow>
                     let (gap, metal) = gap_of f (concat rows) in
                     d2\<lparr>pb_fermi_ev := f, pb_gap_ev := gap, pb_is_metal := metal\<rparr>)))))"

end
