(* ===== verification/Verifier.thy ===== *)
theory Verifier
  imports Parser Schemas
begin

text \<open>
  The scientific verifier (\<open>verifier.py\<close>): it turns the output of a calculation into a report with
  one entry per check, the reasons of a failure, warnings and a summary.

  \<open>verify_t1\<close> takes the parsed result when the caller has one, and the XML document of an existing
  file otherwise. \<open>verify_t2_bands\<close> and \<open>verify_t2_dos\<close> take what the parser finds in the file, or
  \<open>None\<close> when there is no such file. \<open>float()\<close> of a matched text may raise (see \<open>Parser\<close>).
\<close>

section \<open>Reports\<close>

record report =
  passed :: bool
  checks :: "pyval pydict pydict"
  failure_reasons :: "string list"
  warnings :: "string list"
  summary :: string

definition new_report :: report where
  "new_report = \<lparr>passed = True, checks = [], failure_reasons = [], warnings = [], summary = []\<rparr>"

definition report_to_dict :: "report \<Rightarrow> pyval pydict" where
  "report_to_dict r =
    [(''passed'', PBool (passed r)), (''checks'', PDict (map (\<lambda>(k, c). (k, PDict c)) (checks r))),
     (''failure_reasons'', PList (map PStr (failure_reasons r))),
     (''warnings'', PList (map PStr (warnings r))), (''summary'', PStr (summary r))]"

record verifier =
  force_threshold :: pyfloat
  pressure_threshold :: pyfloat
  energy_threshold :: pyfloat

definition default_verifier :: verifier where
  "default_verifier = \<lparr>force_threshold = Fin (1 / 1000), pressure_threshold = Fin (1 / 2),
     energy_threshold = Fin (1 / 10 ^ 6)\<rparr>"

text \<open>Setting an entry of \<open>checks\<close>; a failure, which clears \<open>passed\<close> and gives the reason; and the two
  together for a condition.\<close>

definition set_check :: "string \<Rightarrow> pyval pydict \<Rightarrow> report \<Rightarrow> report" where
  "set_check k d r = r\<lparr>checks := dput k d (checks r)\<rparr>"

definition fail :: "string \<Rightarrow> report \<Rightarrow> report" where
  "fail why r = r\<lparr>passed := False, failure_reasons := failure_reasons r @ [why]\<rparr>"

definition require :: "bool \<Rightarrow> string \<Rightarrow> report \<Rightarrow> report" where
  "require ok why r = (if ok then r else fail why r)"

lemma set_check_sel [simp]:
  "passed (set_check k d r) = passed r" "failure_reasons (set_check k d r) = failure_reasons r"
  "warnings (set_check k d r) = warnings r" "checks (set_check k d r) = dput k d (checks r)"
  by (simp_all add: set_check_def)

lemma require_sel [simp]:
  "passed (require ok why r) = (passed r \<and> ok)"
  "failure_reasons (require ok why r) = failure_reasons r @ (if ok then [] else [why])"
  "warnings (require ok why r) = warnings r" "checks (require ok why r) = checks r"
  by (simp_all add: require_def fail_def)

lemma new_report_sel [simp]:
  "passed new_report" "checks new_report = []" "failure_reasons new_report = []" "warnings new_report = []"
  by (simp_all add: new_report_def)

text \<open>The summary line counts the checks whose \<open>pass\<close> entry is true.\<close>

definition check_passes :: "pyval pydict \<Rightarrow> bool" where
  "check_passes c = (case dget c ''pass'' of None \<Rightarrow> False | Some v \<Rightarrow> py_true v)"

definition n_pass :: "report \<Rightarrow> nat" where
  "n_pass r = length (filter (\<lambda>(_, c). check_passes c) (checks r))"

definition count_line :: "report \<Rightarrow> string" where
  "count_line r = show_int (int (n_pass r)) @ ''/'' @ show_int (int (length (checks r))) @ '' checks passed''"

section \<open>SCF and NSCF\<close>

definition SHORT :: "string \<Rightarrow> bool" where
  "SHORT stdout = (length stdout < 50)"

definition verify_scf :: "string \<Rightarrow> report" where
  "verify_scf stdout =
    (if SHORT stdout then
       (set_check ''scf'' [(''pass'', PBool False)] (fail ''No stdout provided'' new_report))
         \<lparr>summary := ''SCF NOT converged: no output''\<rparr>
     else
       let scf = parse_scf stdout in
       (set_check ''scf'' [(''pass'', PBool (converged scf)), (''n_iterations'', PInt (n_iterations scf)),
           (''energy_ry'', PFloat (total_energy_ry scf))]
         (require (converged scf) ''SCF did not converge'' new_report))
         \<lparr>summary := ''SCF '' @ (if converged scf then ''converged'' else ''NOT converged'') @ '' in '' @
            show_int (n_iterations scf) @ '' iterations''\<rparr>)"

definition verify_nscf :: "string \<Rightarrow> report" where
  "verify_nscf stdout =
    (if SHORT stdout then
       (set_check ''nscf'' [(''pass'', PBool False)] (fail ''No stdout provided'' new_report))
         \<lparr>summary := ''NSCF NOT ok: no output''\<rparr>
     else
       let band_calc_done = contains ''End of band structure calculation'' stdout;
           job_done = contains ''JOB DONE'' stdout;
           has_fermi = (contains ''the Fermi energy is'' stdout
             \<or> contains ''highest occupied, lowest unoccupied level'' stdout
             \<or> contains ''highest occupied level'' stdout);
           r = require has_fermi ''No Fermi/highest-occupied energy in NSCF output''
                 (require job_done ''JOB DONE not found in NSCF output''
                   (require band_calc_done ''NSCF diagonalization did not complete'' new_report)) in
       (set_check ''nscf'' [(''pass'', PBool (passed r)), (''band_calc_done'', PBool band_calc_done),
           (''job_done'', PBool job_done), (''fermi_ev'', PFloat (fermi_energy_ev (parse_scf stdout)))] r)
         \<lparr>summary := (if passed r then ''NSCF diagonalization completed''
            else ''NSCF failed: '' @ join ''; '' (failure_reasons r))\<rparr>)"

section \<open>Band structure and density of states\<close>

definition check_of :: "report \<Rightarrow> string \<Rightarrow> pyval pydict" where
  "check_of r k = (case dget (checks r) k of None \<Rightarrow> [] | Some c \<Rightarrow> c)"

text \<open>The two stages that both T2 checks begin with.\<close>

definition verify_stages :: "string \<Rightarrow> string \<Rightarrow> report" where
  "verify_stages scf_stdout nscf_stdout =
    (let s = verify_scf scf_stdout; n = verify_nscf nscf_stdout in
     set_check ''nscf'' (check_of n ''nscf'')
       (require (passed n) ''NSCF stage did not pass''
         (set_check ''scf'' (check_of s ''scf'')
           (require (passed s) ''SCF stage failed'' new_report))))"

definition verify_t2_bands :: "string \<Rightarrow> string \<Rightarrow> string \<Rightarrow> parsed_bands option \<Rightarrow> report" where
  "verify_t2_bands scf_stdout nscf_stdout bands_xml file =
    (let r0 = verify_stages scf_stdout nscf_stdout;
         r = (case file of
                None \<Rightarrow> set_check ''bands_xml'' [(''pass'', PBool False)] (fail (''bands.xml not found: '' @ bands_xml) r0)
              | Some b \<Rightarrow>
                  set_check ''bands_data'' [(''pass'', PBool (0 < pb_n_bands b)), (''n_bands'', PInt (pb_n_bands b)),
                      (''n_kpoints'', PInt (pb_n_kpoints b)), (''fermi_ev'', PFloat (pb_fermi_ev b))]
                    (require (pb_n_bands b \<noteq> 0) ''bands XML parsed but empty (no eigenvalues)''
                      (set_check ''bands_xml'' [(''pass'', PBool True)] r0))) in
     r\<lparr>summary := ''T2 bands: '' @ count_line r\<rparr>)"

text \<open>Of a parsed DOS file the check reads the number of points and the Fermi energy, which it only prints: a number, or
  nothing when the header of the file states none.\<close>

definition verify_t2_dos :: "string \<Rightarrow> string \<Rightarrow> string \<Rightarrow> (int \<times> pyval) option \<Rightarrow> report" where
  "verify_t2_dos scf_stdout nscf_stdout dos_file file =
    (let r0 = verify_stages scf_stdout nscf_stdout;
         r = (case file of
                None \<Rightarrow> set_check ''dos_file'' [(''pass'', PBool False)] (fail (''DOS file not found: '' @ dos_file) r0)
              | Some (n, fermi) \<Rightarrow>
                  set_check ''dos_file'' [(''pass'', PBool (0 < n)), (''n_points'', PInt n), (''fermi_ev'', fermi)]
                    (require (n \<noteq> 0) ''DOS file parsed but empty (no energy points)'' r0)) in
     r\<lparr>summary := ''T2 DOS: '' @ count_line r\<rparr>)"

section \<open>vc-relax\<close>

definition RE_FORCE_BLOCK :: re where
  "RE_FORCE_BLOCK = seqs [WordB, ilit ''atom'', spaces1, digits1, Lazy dot, WordB, ilit ''force'', spaces0, lit ''='']"

definition RE_P_PRESENT :: re where
  "RE_P_PRESENT = seqs [WordB, lit ''P'', spaces0, lit ''='', spaces0, digit_or ''-+.'']"

fun non_increasing :: "pyfloat list \<Rightarrow> bool" where
  "non_increasing (x # y # xs) = (pf_le y x \<and> non_increasing (y # xs))"
| "non_increasing _ = True"

definition energies_of :: "string \<Rightarrow> pyfloat list" where
  "energies_of stdout = map (\<lambda>g. num_float (Some g)) (find_groups 1 RE_ENERGY stdout)"

text \<open>The checks in their order. The second test of the forces only adds a reason.\<close>

definition check_job :: "bool \<Rightarrow> report \<Rightarrow> report" where
  "check_job job_success r = (if job_success then r else
     set_check ''job_success'' [(''pass'', PBool False)]
       (fail ''Job execution failed (non-zero exit / backend error)'' r))"

definition check_data :: "parsed_vc \<Rightarrow> report \<Rightarrow> report" where
  "check_data p r =
    (if final_energy_ry p = Fin 0 \<and> pressure_kbar p = Fin 0 \<and> vc_natoms p = 0 then
       set_check ''data_quality'' [(''pass'', PBool False), (''detail'', PStr ''All parsed values zero'')]
         (fail ''Parser failed to extract values - possible format mismatch'' r)
     else set_check ''data_quality'' [(''pass'', PBool True), (''detail'', PStr ''Parser extracted non-zero values'')] r)"

definition check_job_done :: "string \<Rightarrow> report \<Rightarrow> report" where
  "check_job_done stdout r = (let ok = contains ''JOB DONE'' stdout in
     set_check ''job_done'' [(''pass'', PBool ok)] (require ok ''JOB DONE not found in output'' r))"

definition check_geometry :: "parsed_vc \<Rightarrow> report \<Rightarrow> report" where
  "check_geometry p r = set_check ''geometry_convergence'' [(''pass'', PBool (vc_converged p))]
     (require (vc_converged p) ''Geometry optimization did not converge'' r)"

definition check_scf :: "parsed_scf \<Rightarrow> report \<Rightarrow> report" where
  "check_scf s r = set_check ''scf_convergence'' [(''pass'', PBool (converged s)),
       (''n_iterations'', PInt (n_iterations s)), (''threshold'', PFloat (convergence_thr s))]
     (require (converged s) ''SCF did not converge'' r)"

definition check_forces :: "pyfloat \<Rightarrow> bool \<Rightarrow> pyfloat \<Rightarrow> report \<Rightarrow> report" where
  "check_forces thr present f r =
    set_check ''forces'' [(''pass'', PBool (present \<and> pf_le f thr)), (''present'', PBool present),
        (''value'', PFloat f), (''threshold'', PFloat thr)]
      (if \<not> present then fail ''No atomic-force block found in vc-relax output'' r
       else require (\<not> pf_lt thr f) (''Max force '' @ with_fmt (fmt_e 2) f @ '' Ry/Bohr exceeds threshold '' @
              with_fmt (fmt_e 0) thr) r)"

definition check_pressure :: "pyfloat \<Rightarrow> bool \<Rightarrow> pyfloat \<Rightarrow> report \<Rightarrow> report" where
  "check_pressure thr present p r =
    set_check ''pressure'' [(''pass'', PBool (present \<and> pf_le (pf_abs p) thr)), (''present'', PBool present),
        (''value'', PFloat p), (''threshold'', PFloat thr)]
      (if \<not> present then fail ''No pressure value found in vc-relax output'' r
       else require (\<not> pf_lt thr (pf_abs p)) (''Pressure '' @ with_fmt (fmt_f 2) p @ '' kbar exceeds threshold '' @
              float_repr thr) r)"

definition check_energies :: "pyfloat list \<Rightarrow> report \<Rightarrow> report" where
  "check_energies es r =
    (if length es \<le> 1 then r else
     let mono = non_increasing es in
     set_check ''energy_monotonicity'' [(''pass'', PBool mono), (''n_points'', PInt (int (length es)))]
       (if mono then r else r\<lparr>warnings := warnings r @ [''Energy not monotonically decreasing'']\<rparr>))"

definition sane_cell :: "parsed_cell \<Rightarrow> bool" where
  "sane_cell c = (pf_lt (Fin 1) (a_bohr c) \<and> pf_lt (a_bohr c) (Fin 100))"

definition check_cell :: "parsed_cell option \<Rightarrow> report \<Rightarrow> report" where
  "check_cell cell r =
    (case cell of
       Some c \<Rightarrow>
         if sane_cell c then set_check ''cell_params'' [(''pass'', PBool True), (''a_bohr'', PFloat (a_bohr c))] r
         else fail (''Unreasonable cell: a='' @ float_repr (a_bohr c)) r
     | None \<Rightarrow> set_check ''cell_params'' [(''pass'', PBool False), (''present'', PBool False)]
         (fail ''No final cell parameters found in vc-relax output'' r))"

definition note_forces :: "pyfloat \<Rightarrow> string \<Rightarrow> pyfloat \<Rightarrow> report \<Rightarrow> report" where
  "note_forces thr stdout f r =
    (if (contains ''bfgs'' (lower stdout) \<or> contains ''vc-relax'' (lower stdout)) \<and> pf_lt thr f
     then r\<lparr>failure_reasons := failure_reasons r @ [''vc-relax did not converge: forces still above threshold'']\<rparr>
     else r)"

definition summarise :: "report \<Rightarrow> report" where
  "summarise r = r\<lparr>summary := count_line r @
     (if failure_reasons r = [] then [] else ''; failures: '' @ join '', '' (take 3 (failure_reasons r)))\<rparr>"

definition verify_parsed :: "verifier \<Rightarrow> verification_input \<Rightarrow> parsed_vc \<Rightarrow> report" where
  "verify_parsed v inp p =
    (let stdout = vi_stdout inp; f = max_force_ry_bohr p in
     summarise
      (note_forces (force_threshold v) stdout f
      (check_cell (vc_cell p)
      (check_energies (energies_of stdout)
      (check_pressure (pressure_threshold v) (found RE_P_PRESENT stdout) (pressure_kbar p)
      (check_forces (force_threshold v) (found RE_FORCE_BLOCK stdout) f
      (check_scf (parse_scf stdout)
      (check_geometry p
      (check_job_done stdout
      (check_data p
      (check_job (vi_job_success inp) new_report)))))))))))"

definition verify_t1 ::
  "verifier \<Rightarrow> verification_input \<Rightarrow> xml option \<Rightarrow> parsed_vc option \<Rightarrow> py_exc + report" where
  "verify_t1 v inp document parsed =
    bindr (case parsed of Some p \<Rightarrow> Inr p | None \<Rightarrow> parse_vc_relax (vi_stdout inp) document)
      (\<lambda>p. Inr (verify_parsed v inp p))"

end
