(* ===== verification/Verifier_Props.thy ===== *)
theory Verifier_Props
  imports Verifier
begin

text \<open>
  What the verifier's reports mean: the exact conditions under which a report passes, and that the
  recovery controller, which reads the failure reasons as text, recognises the failed check.
\<close>

section \<open>Which failure a reason names\<close>

text \<open>The tests of \<open>classify_reasons\<close> in their order, and the ones a single reason meets.\<close>

definition TESTS :: "string list list" where
  "TESTS = [[''scf stage failed'', ''scf did not converge''],
     [''nscf stage did not converge'', ''nscf stage did not pass''],
     [''bands xml parsed but empty'', ''bands.xml not found''],
     [''dos file parsed but empty'', ''dos file not found''],
     [''force''], [''pressure''], [''cell''], [''timed out'', ''timeout''], [''dos.x'', ''bands.x''],
     [''parser failed'', ''format mismatch'']]"

definition hits :: "string \<Rightarrow> bool list" where
  "hits r = map (\<lambda>ps. some_has ps [lower r]) TESTS"

lemma some_has_simps [simp]:
  "some_has ps [] = False" "some_has ps (a @ b) = (some_has ps a \<or> some_has ps b)"
  "NO_MATCH [] rs \<Longrightarrow> some_has ps (r # rs) = (some_has ps [r] \<or> some_has ps rs)"
  by (simp_all add: some_has_def)

lemma some_has_if [simp]: "some_has ps (if b then xs else ys) = (if b then some_has ps xs else some_has ps ys)"
  by simp

lemma classify_eq: "classify ok rs = classify_reasons (map lower rs)"
  by (simp add: classify_def classify_reasons_def Let_def)

lemma timeouts: "some_has [''timed out''] rs \<or> some_has [''timeout''] rs \<longleftrightarrow> some_has [''timed out'', ''timeout''] rs"
  by (auto simp: some_has_def list_ex_iff)

lemma hits_stages:
  "hits ''SCF stage failed'' = [True, False, False, False, False, False, False, False, False, False]"
  "hits ''NSCF stage did not pass'' = [False, True, False, False, False, False, False, False, False, False]"
  "hits ''bands XML parsed but empty (no eigenvalues)'' = [False, False, True, False, False, False, False, False, False, False]"
  "hits ''DOS file parsed but empty (no energy points)'' = [False, False, False, True, False, False, False, False, False, False]"
  by code_simp+

lemma hits_t1:
  "hits ''Job execution failed (non-zero exit / backend error)'' = replicate 10 False"
  "hits ''JOB DONE not found in output'' = replicate 10 False"
  "hits ''Geometry optimization did not converge'' = replicate 10 False"
  "hits ''SCF did not converge'' = [True, False, False, False, False, False, False, False, False, False]"
  "hits ''No atomic-force block found in vc-relax output'' = [False, False, False, False, True, False, False, False, False, False]"
  "hits ''vc-relax did not converge: forces still above threshold'' = [False, False, False, False, True, False, False, False, False, False]"
  "hits ''No pressure value found in vc-relax output'' = [False, False, False, False, False, True, False, False, False, False]"
  "hits ''No final cell parameters found in vc-relax output'' = [False, False, False, False, False, False, True, False, False, False]"
  "hits ''Parser failed to extract values - possible format mismatch'' = [False, False, False, False, False, False, False, False, False, True]"
  by code_simp+
lemma no_phrase:
  "CHR '' '' \<notin> set path \<Longrightarrow> \<not> contains (p @ '' '') (lower a) \<Longrightarrow> \<not> contains (p @ CHR '' '' # q) (lower (a @ path))"
  using contains_around [of p "CHR '' ''" q "lower a" "lower path"] by (auto simp: lower_no_blank)

lemma has_phrase: "contains p (lower a) \<Longrightarrow> contains p (lower (a @ b))"
  using contains_mono [of p "lower a" "[]"] by simp

lemma hits_not_found:
  assumes "CHR '' '' \<notin> set path"
  shows "take 3 (hits (''bands.xml not found: '' @ path)) = [False, False, True]"
    "take 4 (hits (''DOS file not found: '' @ path)) = [False, False, False, True]"
proof -
  let ?b = "''bands.xml not found: ''" and ?d = "''DOS file not found: ''"
  note no = no_phrase [OF assms]
  have "\<not> contains ''scf stage failed'' (lower (a @ path))" if "\<not> contains ''scf stage '' (lower a)" for a
    using no [of "''scf stage''" a "''failed''"] that by simp
  moreover have "\<not> contains ''scf did not converge'' (lower (a @ path))" if "\<not> contains ''scf did not '' (lower a)" for a
    using no [of "''scf did not''" a "''converge''"] that by simp
  moreover have "\<not> contains ''nscf stage did not converge'' (lower (a @ path))"
    if "\<not> contains ''nscf stage did not '' (lower a)" for a
    using no [of "''nscf stage did not''" a "''converge''"] that by simp
  moreover have "\<not> contains ''nscf stage did not pass'' (lower (a @ path))"
    if "\<not> contains ''nscf stage did not '' (lower a)" for a
    using no [of "''nscf stage did not''" a "''pass''"] that by simp
  moreover have "\<not> contains ''bands xml parsed but empty'' (lower (a @ path))"
    if "\<not> contains ''bands xml parsed but '' (lower a)" for a
    using no [of "''bands xml parsed but''" a "''empty''"] that by simp
  moreover have "\<not> contains ''bands.xml not found'' (lower (a @ path))"
    if "\<not> contains ''bands.xml not '' (lower a)" for a
    using no [of "''bands.xml not''" a "''found''"] that by simp
  moreover have "\<not> contains ''scf stage '' (lower ?b)" "\<not> contains ''scf stage '' (lower ?d)"
    "\<not> contains ''scf did not '' (lower ?b)" "\<not> contains ''scf did not '' (lower ?d)"
    "\<not> contains ''nscf stage did not '' (lower ?b)" "\<not> contains ''nscf stage did not '' (lower ?d)"
    "\<not> contains ''bands xml parsed but '' (lower ?d)" "\<not> contains ''bands.xml not '' (lower ?d)"
    by code_simp+
  moreover have "contains ''bands.xml not found'' (lower ?b)" "contains ''dos file not found'' (lower ?d)"
    by code_simp+
  ultimately show "take 3 (hits (?b @ path)) = [False, False, True]"
    "take 4 (hits (?d @ path)) = [False, False, False, True]"
    by (simp_all add: hits_def TESTS_def some_has_def has_phrase del: lower_append append.simps)
qed

text \<open>Messages with numbers.\<close>

lemma not_contains: "c \<in> set p \<Longrightarrow> c \<notin> set s \<Longrightarrow> \<not> contains p s"
  using contains_set by blast

lemma num_text_not: "num_text s \<Longrightarrow> \<not> num_char c \<Longrightarrow> c \<notin> set s"
  by (auto simp: num_text_def list_all_iff)

definition fmt_char :: "char \<Rightarrow> bool" where
  "fmt_char c = (num_char c \<or> c \<in> set ''infa'')"

lemma fmt_chars:
  "\<not> fmt_char c \<Longrightarrow> c \<notin> set (with_fmt (fmt_e n) x)"
  by (cases x) (auto simp: with_fmt_def fmt_char_def num_text_not num_text_fmt_e)

lemma lower_fmt: "lower (with_fmt (fmt_e n) x) = with_fmt (fmt_e n) x"
proof (cases x)
  case (Fin q)
  then show ?thesis by (simp add: with_fmt_def lower_num num_text_fmt_e)
qed (simp_all add: with_fmt_def; code_simp)+

lemma letters:
  "\<not> fmt_char (CHR ''v'')" "\<not> fmt_char (CHR ''g'')" "\<not> fmt_char (CHR ''m'')" "\<not> fmt_char (CHR ''u'')"
  "\<not> fmt_char (CHR ''y'')" "\<not> fmt_char (CHR ''p'')" "\<not> num_char (CHR ''f'')" "\<not> num_char (CHR ''v'')" "\<not> num_char (CHR ''g'')"
  "\<not> num_char (CHR ''m'')" "\<not> num_char (CHR ''u'')" "\<not> num_char (CHR ''y'')" "\<not> num_char (CHR ''p'')"
  by code_simp+

lemma hits_force:
  "take 5 (hits (''Max force '' @ with_fmt (fmt_e 2) f @ '' Ry/Bohr exceeds threshold '' @ with_fmt (fmt_e 0) t))
     = [False, False, False, False, True]"
proof -
  have l: "lower ''Max force '' = ''max force ''" "lower '' Ry/Bohr exceeds threshold '' = '' ry/bohr exceeds threshold ''"
    by code_simp+
  have "contains ''force'' (''max force '' @ s)" for s by simp
  moreover have "\<not> contains p (''max force '' @ with_fmt (fmt_e 2) f @ '' ry/bohr exceeds threshold '' @ with_fmt (fmt_e 0) t)"
    if p: "list_ex (\<lambda>c. c \<in> set ''vgu'') p" for p
  proof -
    from p obtain c where "c \<in> set p" "c \<in> set ''vgu''" by (auto simp: list_ex_iff)
    then show ?thesis by (intro not_contains) (auto simp: fmt_chars letters)
  qed
  ultimately show ?thesis
    by (simp add: hits_def TESTS_def some_has_def lower_fmt l del: append.simps)
qed

lemma lower_fmt_f: "lower (fmt_f n x) = fmt_f n x" and lower_repr: "lower (float_repr_fin x) = float_repr_fin x"
  by (simp_all add: lower_num num_text_fmt_f num_text_repr)

lemma hits_pressure:
  "take 6 (hits (''Pressure '' @ fmt_f 2 q @ '' kbar exceeds threshold '' @ float_repr_fin t))
     = [False, False, False, False, False, True]"
proof -
  have l: "lower ''Pressure '' = ''pressure ''" "lower '' kbar exceeds threshold '' = '' kbar exceeds threshold ''"
    by code_simp+
  have "contains ''pressure'' (''pressure '' @ s)" for s by simp
  moreover have "\<not> contains p (''pressure '' @ fmt_f 2 q @ '' kbar exceeds threshold '' @ float_repr_fin t)"
    if p: "list_ex (\<lambda>c. c \<in> set ''vgmf'') p" for p
  proof -
    from p obtain c where "c \<in> set p" "c \<in> set ''vgmf''" by (auto simp: list_ex_iff)
    then show ?thesis
      by (intro not_contains) (auto simp: letters num_text_not num_text_fmt_f num_text_repr)
  qed
  ultimately show ?thesis
    by (simp add: hits_def TESTS_def some_has_def lower_fmt_f lower_repr l del: append.simps)
qed

lemma hits_cell:
  "take 7 (hits (''Unreasonable cell: a='' @ float_repr_fin a)) = [False, False, False, False, False, False, True]"
proof -
  have l: "lower ''Unreasonable cell: a='' = ''unreasonable cell: a=''" by code_simp
  have "contains ''cell'' (''unreasonable cell: a='' @ s)" for s by simp
  moreover have "\<not> contains p (''unreasonable cell: a='' @ float_repr_fin a)"
    if p: "list_ex (\<lambda>c. c \<in> set ''vgmfp'') p" for p
  proof -
    from p obtain c where "c \<in> set p" "c \<in> set ''vgmfp''" by (auto simp: list_ex_iff)
    then show ?thesis
      by (intro not_contains) (auto simp: letters num_text_not num_text_repr)
  qed
  ultimately show ?thesis
    by (simp add: hits_def TESTS_def some_has_def lower_repr l del: append.simps)
qed
section \<open>Converged stages\<close>

lemma fail_sel [simp]: "passed (fail m r) = False" "failure_reasons (fail m r) = failure_reasons r @ [m]"
  by (simp_all add: fail_def)

lemma converged_found: "converged (parse_scf s) = found RE_CONVERGED s"
  by (simp add: parse_scf_def Let_def found_def search_group_def)

lemma scf_passed: "passed (verify_scf s) \<longleftrightarrow> \<not> SHORT s \<and> found RE_CONVERGED s"
  by (simp add: verify_scf_def Let_def converged_found)

lemma nscf_passed:
  "passed (verify_nscf s) \<longleftrightarrow> \<not> SHORT s \<and> contains ''End of band structure calculation'' s \<and> contains ''JOB DONE'' s
     \<and> (contains ''the Fermi energy is'' s \<or> contains ''highest occupied, lowest unoccupied level'' s
        \<or> contains ''highest occupied level'' s)"
  by (simp add: verify_nscf_def Let_def)

section \<open>The verdict\<close>

text \<open>The conditions of a vc-relax run.\<close>

definition forces_ok :: "verifier \<Rightarrow> string \<Rightarrow> parsed_vc \<Rightarrow> bool" where
  "forces_ok v stdout p = (found RE_FORCE_BLOCK stdout \<and> \<not> pf_lt (force_threshold v) (max_force_ry_bohr p))"

definition pressure_ok :: "verifier \<Rightarrow> string \<Rightarrow> parsed_vc \<Rightarrow> bool" where
  "pressure_ok v stdout p = (found RE_P_PRESENT stdout \<and> \<not> pf_lt (pressure_threshold v) (pf_abs (pressure_kbar p)))"

definition cell_ok :: "parsed_vc \<Rightarrow> bool" where
  "cell_ok p = (case vc_cell p of Some c \<Rightarrow> sane_cell c | None \<Rightarrow> False)"

definition no_data :: "parsed_vc \<Rightarrow> bool" where
  "no_data p = (final_energy_ry p = Fin 0 \<and> pressure_kbar p = Fin 0 \<and> vc_natoms p = 0)"

definition reason_if :: "bool \<Rightarrow> 'a \<Rightarrow> 'a list" where
  "reason_if b m = (if b then [m] else [])"

text \<open>What each check does to the verdict and to the reasons.\<close>

lemma step_passed [simp]:
  "passed (check_job b r) = (passed r \<and> b)"
  "passed (check_data p r) = (passed r \<and> \<not> no_data p)"
  "passed (check_job_done out r) = (passed r \<and> contains ''JOB DONE'' out)"
  "passed (check_geometry p r) = (passed r \<and> vc_converged p)"
  "passed (check_scf s r) = (passed r \<and> converged s)"
  "passed (check_forces t b f r) = (passed r \<and> b \<and> \<not> pf_lt t f)"
  "passed (check_pressure t b q r) = (passed r \<and> b \<and> \<not> pf_lt t (pf_abs q))"
  "passed (check_energies es r) = passed r"
  "passed (check_cell c r) = (passed r \<and> (case c of None \<Rightarrow> False | Some x \<Rightarrow> sane_cell x))"
  "passed (note_forces t out f r) = passed r"
  "passed (summarise r) = passed r"
  by (simp_all add: check_job_def check_data_def no_data_def check_job_done_def check_geometry_def check_scf_def
      check_forces_def check_pressure_def check_energies_def check_cell_def note_forces_def summarise_def Let_def
      split: option.split)

lemma step_reasons [simp]:
  "failure_reasons (check_job b r) = failure_reasons r @
     reason_if (\<not> b) ''Job execution failed (non-zero exit / backend error)''"
  "failure_reasons (check_data p r) = failure_reasons r @
     reason_if (no_data p) ''Parser failed to extract values - possible format mismatch''"
  "failure_reasons (check_job_done out r) = failure_reasons r @
     reason_if (\<not> contains ''JOB DONE'' out) ''JOB DONE not found in output''"
  "failure_reasons (check_geometry p r) = failure_reasons r @
     reason_if (\<not> vc_converged p) ''Geometry optimization did not converge''"
  "failure_reasons (check_scf s r) = failure_reasons r @ reason_if (\<not> converged s) ''SCF did not converge''"
  "failure_reasons (check_forces t b f r) = failure_reasons r @
     (if \<not> b then [''No atomic-force block found in vc-relax output'']
      else reason_if (pf_lt t f) (''Max force '' @ with_fmt (fmt_e 2) f @ '' Ry/Bohr exceeds threshold '' @ with_fmt (fmt_e 0) t))"
  "failure_reasons (check_pressure t b q r) = failure_reasons r @
     (if \<not> b then [''No pressure value found in vc-relax output'']
      else reason_if (pf_lt t (pf_abs q)) (''Pressure '' @ with_fmt (fmt_f 2) q @ '' kbar exceeds threshold '' @ float_repr t))"
  "failure_reasons (check_energies es r) = failure_reasons r"
  "failure_reasons (check_cell c r) = failure_reasons r @
     (case c of None \<Rightarrow> [''No final cell parameters found in vc-relax output'']
      | Some x \<Rightarrow> reason_if (\<not> sane_cell x) (''Unreasonable cell: a='' @ float_repr (a_bohr x)))"
  "failure_reasons (note_forces t out f r) = failure_reasons r @
     reason_if ((contains ''bfgs'' (lower out) \<or> contains ''vc-relax'' (lower out)) \<and> pf_lt t f)
       ''vc-relax did not converge: forces still above threshold''"
  "failure_reasons (summarise r) = failure_reasons r"
  by (simp_all add: check_job_def check_data_def no_data_def check_job_done_def check_geometry_def check_scf_def
      check_forces_def check_pressure_def check_energies_def check_cell_def note_forces_def summarise_def Let_def
      reason_if_def split: option.split)

definition t1_reasons :: "verifier \<Rightarrow> verification_input \<Rightarrow> parsed_vc \<Rightarrow> string list" where
  "t1_reasons v inp p = (let stdout = vi_stdout inp; f = max_force_ry_bohr p; ft = force_threshold v;
        pr = pressure_kbar p; pt = pressure_threshold v in
     reason_if (\<not> vi_job_success inp) ''Job execution failed (non-zero exit / backend error)''
   @ reason_if (no_data p) ''Parser failed to extract values - possible format mismatch''
   @ reason_if (\<not> contains ''JOB DONE'' stdout) ''JOB DONE not found in output''
   @ reason_if (\<not> vc_converged p) ''Geometry optimization did not converge''
   @ reason_if (\<not> converged (parse_scf stdout)) ''SCF did not converge''
   @ (if \<not> found RE_FORCE_BLOCK stdout then [''No atomic-force block found in vc-relax output'']
      else reason_if (pf_lt ft f) (''Max force '' @ with_fmt (fmt_e 2) f @ '' Ry/Bohr exceeds threshold '' @ with_fmt (fmt_e 0) ft))
   @ (if \<not> found RE_P_PRESENT stdout then [''No pressure value found in vc-relax output'']
      else reason_if (pf_lt pt (pf_abs pr)) (''Pressure '' @ with_fmt (fmt_f 2) pr @ '' kbar exceeds threshold '' @ float_repr pt))
   @ (case vc_cell p of None \<Rightarrow> [''No final cell parameters found in vc-relax output'']
      | Some c \<Rightarrow> reason_if (\<not> sane_cell c) (''Unreasonable cell: a='' @ float_repr (a_bohr c)))
   @ reason_if ((contains ''bfgs'' (lower stdout) \<or> contains ''vc-relax'' (lower stdout)) \<and> pf_lt ft f)
       ''vc-relax did not converge: forces still above threshold'')"

lemma verify_parsed_reasons: "failure_reasons (verify_parsed v inp p) = t1_reasons v inp p"
  by (simp add: verify_parsed_def t1_reasons_def Let_def)

lemma verify_parsed_passed:
  "passed (verify_parsed v inp p) \<longleftrightarrow>
     vi_job_success inp \<and> \<not> no_data p \<and> contains ''JOB DONE'' (vi_stdout inp) \<and> vc_converged p
     \<and> converged (parse_scf (vi_stdout inp)) \<and> forces_ok v (vi_stdout inp) p
     \<and> pressure_ok v (vi_stdout inp) p \<and> cell_ok p"
  by (auto simp: verify_parsed_def forces_ok_def pressure_ok_def cell_ok_def Let_def)

lemma t1_reasons_Nil: "t1_reasons v inp p = [] \<longleftrightarrow> passed (verify_parsed v inp p)"
  by (auto simp: t1_reasons_def verify_parsed_passed forces_ok_def pressure_ok_def cell_ok_def Let_def reason_if_def
      split: option.split)
lemma dput_mem: "x \<in> set (dput k v d) \<Longrightarrow> x = (k, v) \<or> x \<in> set d"
  by (induction d) (auto simp: dput_def split: if_splits)

text \<open>Every check passes, but for the monotonicity of the energies, which is a warning only.\<close>

definition all_pass :: "report \<Rightarrow> bool" where
  "all_pass r = (\<forall>(k, c) \<in> set (checks r). k \<noteq> ''energy_monotonicity'' \<longrightarrow> check_passes c)"

lemma all_pass_new [simp]: "all_pass new_report"
  by (simp add: all_pass_def)

lemma all_pass_set: "all_pass r \<Longrightarrow> k = ''energy_monotonicity'' \<or> check_passes c \<Longrightarrow> all_pass (set_check k c r)"
  unfolding all_pass_def set_check_sel using dput_mem by fastforce

lemma all_pass_summary [simp]: "all_pass (r\<lparr>summary := s\<rparr>) = all_pass r" "all_pass (r\<lparr>warnings := w\<rparr>) = all_pass r"
  by (simp_all add: all_pass_def)

lemma pf_le_lt: "x \<noteq> NaN \<Longrightarrow> y \<noteq> NaN \<Longrightarrow> \<not> pf_lt y x \<Longrightarrow> pf_le x y"
  by (cases x; cases y) auto

lemma pf_abs_NaN [simp]: "pf_abs x = NaN \<longleftrightarrow> x = NaN"
  by (cases x) auto

lemma step_all_pass:
  "all_pass r \<Longrightarrow> b \<Longrightarrow> all_pass (check_job b r)"
  "all_pass r \<Longrightarrow> \<not> no_data p \<Longrightarrow> all_pass (check_data p r)"
  "all_pass r \<Longrightarrow> contains ''JOB DONE'' out \<Longrightarrow> all_pass (check_job_done out r)"
  "all_pass r \<Longrightarrow> vc_converged p \<Longrightarrow> all_pass (check_geometry p r)"
  "all_pass r \<Longrightarrow> converged s \<Longrightarrow> all_pass (check_scf s r)"
  "all_pass r \<Longrightarrow> f \<noteq> NaN \<Longrightarrow> t \<noteq> NaN \<Longrightarrow> b \<Longrightarrow> \<not> pf_lt t f \<Longrightarrow> all_pass (check_forces t b f r)"
  "all_pass r \<Longrightarrow> q \<noteq> NaN \<Longrightarrow> t \<noteq> NaN \<Longrightarrow> b \<Longrightarrow> \<not> pf_lt t (pf_abs q) \<Longrightarrow> all_pass (check_pressure t b q r)"
  "all_pass r \<Longrightarrow> all_pass (check_energies es r)"
  "all_pass r \<Longrightarrow> cell_ok p \<Longrightarrow> all_pass (check_cell (vc_cell p) r)"
  "all_pass r \<Longrightarrow> \<not> pf_lt t f \<Longrightarrow> all_pass (note_forces t out f r)"
  "all_pass r \<Longrightarrow> all_pass (summarise r)"
  by (auto simp: check_job_def check_data_def no_data_def check_job_done_def check_geometry_def check_scf_def
      check_forces_def check_pressure_def check_energies_def check_cell_def note_forces_def summarise_def Let_def
      check_passes_def dget_def cell_ok_def require_def pf_le_lt intro!: all_pass_set split: option.splits)

lemma verify_parsed_all_pass:
  assumes "passed (verify_parsed v inp p)" "max_force_ry_bohr p \<noteq> NaN" "pressure_kbar p \<noteq> NaN"
    "force_threshold v \<noteq> NaN" "pressure_threshold v \<noteq> NaN"
  shows "all_pass (verify_parsed v inp p)"
  using assms unfolding verify_parsed_passed forces_ok_def pressure_ok_def
  by (simp add: verify_parsed_def Let_def step_all_pass)

text \<open>
  C31. The verdict on a vc-relax run. Whether the caller has parsed the output or not, the
  report passes exactly when the job succeeded, the parser found data, the output says JOB DONE,
  the geometry and the electronic cycle converged, a force block and a pressure are present
  and within the thresholds, and the cell is sane. It passes exactly when there is no reason
  of failure, and then every check passes except, possibly, the energies, which only warn.
\<close>

theorem verify_t1_verdict:
  assumes "(case parsed of Some q \<Rightarrow> Inr q | None \<Rightarrow> parse_vc_relax (vi_stdout inp) document) = Inr p"
  shows "\<exists>r. verify_t1 v inp document parsed = Inr r
    \<and> (passed r \<longleftrightarrow> vi_job_success inp \<and> \<not> no_data p \<and> contains ''JOB DONE'' (vi_stdout inp) \<and> vc_converged p
         \<and> converged (parse_scf (vi_stdout inp)) \<and> forces_ok v (vi_stdout inp) p
         \<and> pressure_ok v (vi_stdout inp) p \<and> cell_ok p)
    \<and> (passed r \<longleftrightarrow> failure_reasons r = [])
    \<and> (passed r \<and> max_force_ry_bohr p \<noteq> NaN \<and> pressure_kbar p \<noteq> NaN \<and> force_threshold v \<noteq> NaN
         \<and> pressure_threshold v \<noteq> NaN \<longrightarrow> all_pass r)"
  using assms verify_parsed_all_pass [of v inp p]
  by (simp add: verify_t1_def verify_parsed_reasons t1_reasons_Nil verify_parsed_passed)

section \<open>From the report to the recovery plan\<close>

lemma TESTS_length [simp]: "length TESTS = 10"
  by (simp add: TESTS_def)

lemma hits_nth: "i < 10 \<Longrightarrow> some_has (TESTS ! i) [lower r] = hits r ! i"
  by (simp add: hits_def)

lemma classify_reasons_TESTS:
  "classify_reasons rs =
    (if some_has (TESTS ! 0) rs then SCF_NOT_CONVERGED else if some_has (TESTS ! 1) rs then NSCF_NOT_CONVERGED
     else if some_has (TESTS ! 2) rs then BANDS_XML_MISSING else if some_has (TESTS ! 3) rs then DOS_FILE_MISSING
     else if some_has (TESTS ! 4) rs then FORCES_TOO_HIGH else if some_has (TESTS ! 5) rs then PRESSURE_TOO_HIGH
     else if some_has (TESTS ! 6) rs then BAD_CELL else if some_has (TESTS ! 7) rs then JOB_TIMEOUT
     else if some_has (TESTS ! 8) rs then TOOL_FAILURE else if some_has (TESTS ! 9) rs then PARSER_MISMATCH
     else UNKNOWN)"
  unfolding classify_reasons_def timeouts by (simp add: TESTS_def numeral_nat)

definition meets :: "nat \<Rightarrow> string list \<Rightarrow> bool" where
  "meets i rs = (\<exists>r \<in> set rs. hits r ! i)"

lemma meets_simps [simp]:
  "meets i [] = False" "meets i (r # rs) = (hits r ! i \<or> meets i rs)" "meets i (a @ b) = (meets i a \<or> meets i b)"
  "meets i (reason_if q r) = (q \<and> hits r ! i)" "meets i (if q then a else b) = (if q then meets i a else meets i b)"
  by (auto simp: meets_def reason_if_def)

lemma some_has_meets: "i < 10 \<Longrightarrow> some_has (TESTS ! i) (map lower rs) = meets i rs"
  by (induction rs) (simp_all add: hits_nth [symmetric] some_has_def)

lemma classify_meets:
  "classify ok rs =
    (if meets 0 rs then SCF_NOT_CONVERGED else if meets 1 rs then NSCF_NOT_CONVERGED
     else if meets 2 rs then BANDS_XML_MISSING else if meets 3 rs then DOS_FILE_MISSING
     else if meets 4 rs then FORCES_TOO_HIGH else if meets 5 rs then PRESSURE_TOO_HIGH
     else if meets 6 rs then BAD_CELL else if meets 7 rs then JOB_TIMEOUT
     else if meets 8 rs then TOOL_FAILURE else if meets 9 rs then PARSER_MISMATCH
     else UNKNOWN)"
  unfolding classify_eq classify_reasons_TESTS by (simp add: some_has_meets)

lemma hits_take: "take n (hits r) = bs \<Longrightarrow> i < length bs \<Longrightarrow> hits r ! i = bs ! i"
  by (metis length_take min_less_iff_conj nth_take)
lemma stages_sel [simp]:
  "passed (verify_stages s n) = (passed (verify_scf s) \<and> passed (verify_nscf n))"
  "failure_reasons (verify_stages s n) =
     reason_if (\<not> passed (verify_scf s)) ''SCF stage failed'' @ reason_if (\<not> passed (verify_nscf n)) ''NSCF stage did not pass''"
  by (simp_all add: verify_stages_def Let_def reason_if_def)

lemma t2_reasons:
  "failure_reasons (verify_t2_bands s n path file) = failure_reasons (verify_stages s n) @
     (case file of None \<Rightarrow> [''bands.xml not found: '' @ path]
      | Some b \<Rightarrow> reason_if (pb_n_bands b = 0) ''bands XML parsed but empty (no eigenvalues)'')"
  "failure_reasons (verify_t2_dos s n path dfile) = failure_reasons (verify_stages s n) @
     (case dfile of None \<Rightarrow> [''DOS file not found: '' @ path]
      | Some (k, x) \<Rightarrow> reason_if (k = 0) ''DOS file parsed but empty (no energy points)'')"
  by (simp_all add: verify_t2_bands_def verify_t2_dos_def Let_def reason_if_def split: option.split)

lemma t2_passed:
  "passed (verify_t2_bands s n path file) \<longleftrightarrow> passed (verify_scf s) \<and> passed (verify_nscf n)
     \<and> (\<exists>b. file = Some b \<and> pb_n_bands b \<noteq> 0)"
  "passed (verify_t2_dos s n path dfile) \<longleftrightarrow> passed (verify_scf s) \<and> passed (verify_nscf n)
     \<and> (\<exists>k x. dfile = Some (k, x) \<and> k \<noteq> 0)"
  by (auto simp: verify_t2_bands_def verify_t2_dos_def Let_def fail_def split: option.split)

lemma hits_not_found_nth:
  assumes "CHR '' '' \<notin> set path"
  shows "\<not> hits (''bands.xml not found: '' @ path) ! 0" "\<not> hits (''bands.xml not found: '' @ path) ! Suc 0"
    "hits (''bands.xml not found: '' @ path) ! 2"
    "\<not> hits (''DOS file not found: '' @ path) ! 0" "\<not> hits (''DOS file not found: '' @ path) ! Suc 0"
    "\<not> hits (''DOS file not found: '' @ path) ! 2" "hits (''DOS file not found: '' @ path) ! 3"
  by (simp_all add: hits_take [OF hits_not_found(1) [OF assms]] hits_take [OF hits_not_found(2) [OF assms]] del: append.simps)

text \<open>
  C32. Verifier and recovery speak the same language. For a band structure and a density of
  states the controller's classification of the report is exactly the first stage that failed
  (SCF, then NSCF, then a missing or empty result file), whatever the outputs say, as long as
  the path holds no blank; a report that passes is classified as unknown.
\<close>

theorem t2_failures_classified:
  assumes "CHR '' '' \<notin> set path"
  shows "classify (passed (verify_t2_bands s n path bands)) (failure_reasons (verify_t2_bands s n path bands)) =
      (if \<not> passed (verify_scf s) then SCF_NOT_CONVERGED
       else if \<not> passed (verify_nscf n) then NSCF_NOT_CONVERGED
       else if \<not> passed (verify_t2_bands s n path bands) then BANDS_XML_MISSING else UNKNOWN)
   \<and> classify (passed (verify_t2_dos s n path dos)) (failure_reasons (verify_t2_dos s n path dos)) =
      (if \<not> passed (verify_scf s) then SCF_NOT_CONVERGED
       else if \<not> passed (verify_nscf n) then NSCF_NOT_CONVERGED
       else if \<not> passed (verify_t2_dos s n path dos) then DOS_FILE_MISSING else UNKNOWN)" (is "?bands \<and> ?dos")
proof
  show "?bands" unfolding classify_meets t2_reasons stages_sel t2_passed
    by (cases bands) (simp_all add: hits_not_found_nth [OF assms] hits_stages del: append.simps)
  show "?dos" unfolding classify_meets t2_reasons stages_sel t2_passed
    by (cases dos) (simp_all add: hits_not_found_nth [OF assms] hits_stages split_paired_all split: prod.split del: append.simps)
qed

text \<open>The first test a reason meets.\<close>

definition first_hit :: "nat \<Rightarrow> string \<Rightarrow> bool" where
  "first_hit k r = (hits r ! k \<and> (\<forall>i < k. \<not> hits r ! i))"

lemma first_hitI: "take (Suc k) (hits r) = replicate k False @ [True] \<Longrightarrow> first_hit k r"
  unfolding first_hit_def using hits_take [of "Suc k" r "replicate k False @ [True]"]
  by (auto simp: nth_append)

lemma first_hit_numbers:
  "first_hit 4 (''Max force '' @ with_fmt (fmt_e 2) f @ '' Ry/Bohr exceeds threshold '' @ with_fmt (fmt_e 0) t)"
  "first_hit 5 (''Pressure '' @ fmt_f 2 q @ '' kbar exceeds threshold '' @ float_repr_fin u)"
  "first_hit 6 (''Unreasonable cell: a='' @ float_repr_fin a)"
  by (rule first_hitI, use hits_force hits_pressure hits_cell in \<open>simp add: numeral_nat del: append.simps\<close>)+
text \<open>The first test met by what a check adds.\<close>

lemma hits_known:
  "hits ''Job execution failed (non-zero exit / backend error)'' ! i = (replicate 10 False) ! i"
  "hits ''JOB DONE not found in output'' ! i = (replicate 10 False) ! i"
  "hits ''Geometry optimization did not converge'' ! i = (replicate 10 False) ! i"
  by (simp_all add: hits_t1)

definition force_reasons :: "verifier \<Rightarrow> verification_input \<Rightarrow> parsed_vc \<Rightarrow> string list" where
  "force_reasons v inp p = (let ft = force_threshold v; f = max_force_ry_bohr p in
     if \<not> found RE_FORCE_BLOCK (vi_stdout inp) then [''No atomic-force block found in vc-relax output'']
     else reason_if (pf_lt ft f) (''Max force '' @ with_fmt (fmt_e 2) f @ '' Ry/Bohr exceeds threshold '' @ with_fmt (fmt_e 0) ft))"

definition pressure_reasons :: "verifier \<Rightarrow> verification_input \<Rightarrow> parsed_vc \<Rightarrow> string list" where
  "pressure_reasons v inp p = (let pt = pressure_threshold v; pr = pressure_kbar p in
     if \<not> found RE_P_PRESENT (vi_stdout inp) then [''No pressure value found in vc-relax output'']
     else reason_if (pf_lt pt (pf_abs pr)) (''Pressure '' @ with_fmt (fmt_f 2) pr @ '' kbar exceeds threshold '' @ float_repr pt))"

definition cell_reasons :: "parsed_vc \<Rightarrow> string list" where
  "cell_reasons p = (case vc_cell p of None \<Rightarrow> [''No final cell parameters found in vc-relax output'']
     | Some c \<Rightarrow> reason_if (\<not> sane_cell c) (''Unreasonable cell: a='' @ float_repr (a_bohr c)))"

lemma first_hit_meets: "first_hit k r \<Longrightarrow> meets i [r] \<longleftrightarrow> i = k \<or> k < i \<and> hits r ! i"
  by (auto simp: first_hit_def linorder_not_less) (metis linorder_neqE_nat)+

lemma first_hit_lits:
  "first_hit 4 ''No atomic-force block found in vc-relax output''"
  "first_hit 4 ''vc-relax did not converge: forces still above threshold''"
  "first_hit 5 ''No pressure value found in vc-relax output''"
  "first_hit 6 ''No final cell parameters found in vc-relax output''"
  by (rule first_hitI, simp add: hits_t1 numeral_nat)+

definition first_meet :: "nat \<Rightarrow> bool \<Rightarrow> string list \<Rightarrow> bool" where
  "first_meet k b rs = (meets k rs = b \<and> (\<forall>i < k. \<not> meets i rs) \<and> (\<not> b \<longrightarrow> rs = []))"

lemma first_meetI:
  "first_hit k r \<Longrightarrow> first_meet k True [r]" "first_hit k r \<Longrightarrow> first_meet k b (reason_if b r)"
  by (auto simp: first_meet_def first_hit_def reason_if_def)

lemma first_meet_forces: "first_meet 4 (\<not> forces_ok v (vi_stdout inp) p) (force_reasons v inp p)"
  by (simp add: force_reasons_def forces_ok_def Let_def first_meetI first_hit_lits first_hit_numbers del: append.simps)

lemma first_meet_pressure:
  "pressure_kbar p = Fin q \<Longrightarrow> pressure_threshold v = Fin u \<Longrightarrow>
     first_meet 5 (\<not> pressure_ok v (vi_stdout inp) p) (pressure_reasons v inp p)"
  using first_meetI(2) [OF first_hit_numbers(2) [of q u]]
  by (simp add: pressure_reasons_def pressure_ok_def Let_def first_meetI first_hit_lits with_fmt_def del: append.simps)

lemma first_meet_cell:
  "(\<And>c. vc_cell p = Some c \<Longrightarrow> \<exists>a. a_bohr c = Fin a) \<Longrightarrow> first_meet 6 (\<not> cell_ok p) (cell_reasons p)"
  using first_meetI(2) [OF first_hit_numbers(3)]
  by (auto simp: cell_reasons_def cell_ok_def first_meetI first_hit_lits split: option.split simp del: append.simps)
lemma t1_reasons_parts:
  "t1_reasons v inp p =
     reason_if (\<not> vi_job_success inp) ''Job execution failed (non-zero exit / backend error)''
   @ reason_if (no_data p) ''Parser failed to extract values - possible format mismatch''
   @ reason_if (\<not> contains ''JOB DONE'' (vi_stdout inp)) ''JOB DONE not found in output''
   @ reason_if (\<not> vc_converged p) ''Geometry optimization did not converge''
   @ reason_if (\<not> converged (parse_scf (vi_stdout inp))) ''SCF did not converge''
   @ force_reasons v inp p @ pressure_reasons v inp p @ cell_reasons p
   @ reason_if ((contains ''bfgs'' (lower (vi_stdout inp)) \<or> contains ''vc-relax'' (lower (vi_stdout inp)))
        \<and> pf_lt (force_threshold v) (max_force_ry_bohr p)) ''vc-relax did not converge: forces still above threshold''"
  by (simp add: t1_reasons_def force_reasons_def pressure_reasons_def cell_reasons_def Let_def)

lemma first_meet_less: "first_meet k b rs \<Longrightarrow> i < k \<Longrightarrow> \<not> meets i rs"
  and first_meet_at: "first_meet k b rs \<Longrightarrow> meets k rs = b"
  and first_meet_none: "first_meet k False rs \<Longrightarrow> rs = []"
  by (auto simp: first_meet_def)

text \<open>
  The same for a vc-relax run: a report whose numbers are finite is classified by the first
  of SCF convergence, forces, pressure, cell and parsed data that fails, in this order. A run that
  fails only because the job failed, the output is cut off or the geometry did not converge
  is unknown to the controller.
\<close>

theorem t1_failures_classified:
  assumes "pressure_kbar p = Fin q" "pressure_threshold v = Fin u" "\<And>c. vc_cell p = Some c \<Longrightarrow> \<exists>a. a_bohr c = Fin a"
  shows "classify (passed (verify_parsed v inp p)) (failure_reasons (verify_parsed v inp p)) =
      (if \<not> converged (parse_scf (vi_stdout inp)) then SCF_NOT_CONVERGED
       else if \<not> forces_ok v (vi_stdout inp) p then FORCES_TOO_HIGH
       else if \<not> pressure_ok v (vi_stdout inp) p then PRESSURE_TOO_HIGH
       else if \<not> cell_ok p then BAD_CELL
       else if no_data p then PARSER_MISMATCH else UNKNOWN)"
proof -
  note F = first_meet_forces [of v inp p] and P = first_meet_pressure [OF assms(1,2), of inp]
    and C = first_meet_cell [OF assms(3)]
    and N = first_meetI(2) [OF first_hit_lits(2)]
  have n: "\<not> (c \<and> pf_lt (force_threshold v) (max_force_ry_bohr p))" if "forces_ok v (vi_stdout inp) p" for c
    using that by (auto simp: forces_ok_def)
  note before = first_meet_less [OF F] first_meet_less [OF P] first_meet_less [OF C]
  have hN: "i < 4 \<Longrightarrow> \<not> hits ''vc-relax did not converge: forces still above threshold'' ! i" for i
    using first_hit_lits(2) by (simp add: first_hit_def)
  note at = first_meet_at [OF F] first_meet_at [OF P] first_meet_at [OF C]
  have none: "forces_ok v (vi_stdout inp) p \<Longrightarrow> force_reasons v inp p = []"
    "pressure_ok v (vi_stdout inp) p \<Longrightarrow> pressure_reasons v inp p = []" "cell_ok p \<Longrightarrow> cell_reasons p = []"
    using F P C by (simp_all add: first_meet_def)
  show ?thesis
    unfolding verify_parsed_reasons classify_meets t1_reasons_parts
    by (simp add: before at hits_t1 hN none n del: append.simps)
qed

section \<open>Witnesses\<close>

definition good_stdout :: string where
  "good_stdout = join nl
    [''bravais-lattice index = 1'', ''convergence has been achieved in 6 iterations'', ''P= 0.1'', ''bfgs converged in 5 steps'',
     ''CELL_PARAMETERS (alat= 10.0)'', ''1 0 0'', ''0 1 0'', ''0 0 1'', ''atom 1 force = 0.0003 0.0004 0.0'', ''JOB DONE.'']"

definition good_input :: verification_input where
  "good_input = \<lparr>vi_stdout = good_stdout, vi_stderr = [], vi_xml_path = None, vi_job_success = True, vi_metadata = []\<rparr>"

lemma good_facts:
  "found RE_CONVERGED good_stdout" "found RE_FORCE_BLOCK good_stdout" "found RE_P_PRESENT good_stdout"
  "geometry_converged good_stdout" "contains ''JOB DONE'' good_stdout" "\<not> SHORT good_stdout"
  "search_group (Suc 0) RE_IBRAV good_stdout = Some ''1''"
  by code_simp+

lemma good_numbers:
  "last_pressure good_stdout = Inr (Fin (1 / 10))" "max_force good_stdout = Inr (Fin (1 / 2000))"
  by code_simp+

lemma good_cell: "case last_cell good_stdout 1 of Inr (Some c) \<Rightarrow> sane_cell c \<and> (case a_bohr c of Fin a \<Rightarrow> True | _ \<Rightarrow> False) | _ \<Rightarrow> False"
  by code_simp

lemma good_parse:
  obtains p where "parse_vc_relax good_stdout None = Inr p" "max_force_ry_bohr p = Fin (1 / 2000)"
    "pressure_kbar p = Fin (1 / 10)" "vc_converged p" "cell_ok p"
    "\<And>c. vc_cell p = Some c \<Longrightarrow> \<exists>a. a_bohr c = Fin a"
proof -
  obtain c a where "last_cell good_stdout 1 = Inr (Some c)" "sane_cell c" "a_bohr c = Fin a"
    using good_cell by (auto split: sum.splits option.splits pyfloat.splits)
  moreover have "num_int (Some ''1'') = 1" by code_simp
  ultimately have "\<exists>p. parse_vc_relax good_stdout None = Inr p \<and> max_force_ry_bohr p = Fin (1 / 2000)
      \<and> pressure_kbar p = Fin (1 / 10) \<and> vc_converged p \<and> cell_ok p
      \<and> (\<forall>c. vc_cell p = Some c \<longrightarrow> (\<exists>a. a_bohr c = Fin a))"
    by (simp add: parse_vc_relax_def Let_def good_facts good_numbers cell_ok_def)
  then show thesis using that by blast
qed

theorem verify_t1_verdict_witness:
  "\<exists>r. verify_t1 default_verifier good_input None None = Inr r \<and> passed r \<and> failure_reasons r = [] \<and> all_pass r"
proof -
  obtain p where p: "parse_vc_relax good_stdout None = Inr p" "max_force_ry_bohr p = Fin (1 / 2000)"
    "pressure_kbar p = Fin (1 / 10)" "vc_converged p" "cell_ok p"
    by (rule good_parse)
  have "(case None of Some q \<Rightarrow> Inr q | None \<Rightarrow> parse_vc_relax (vi_stdout good_input) None) = Inr p"
    using p(1) by (simp add: good_input_def)
  from verify_t1_verdict [OF this, of default_verifier] show ?thesis
    using p good_facts
    by (auto simp: good_input_def default_verifier_def no_data_def forces_ok_def pressure_ok_def converged_found)
qed

definition nscf_stdout :: string where
  "nscf_stdout = ''End of band structure calculation, the Fermi energy is 1.0 ev, JOB DONE.''"

lemma nscf_good: "passed (verify_nscf nscf_stdout)"
  unfolding nscf_passed by code_simp

theorem t2_failures_classified_witness:
  "classify False (failure_reasons (verify_t2_bands [] [] ''mos2.xml'' None)) = SCF_NOT_CONVERGED
   \<and> classify False (failure_reasons (verify_t2_bands good_stdout [] ''mos2.xml'' None)) = NSCF_NOT_CONVERGED
   \<and> classify False (failure_reasons (verify_t2_bands good_stdout nscf_stdout ''mos2.xml'' None)) = BANDS_XML_MISSING
   \<and> classify False (failure_reasons (verify_t2_dos good_stdout nscf_stdout ''mos2.xml'' (Some (0, PNone)))) = DOS_FILE_MISSING"
proof -
  have path: "CHR '' '' \<notin> set ''mos2.xml''" by simp
  have short: "\<not> passed (verify_scf [])" "\<not> passed (verify_nscf [])" by (simp_all add: scf_passed nscf_passed SHORT_def)
  have good: "passed (verify_scf good_stdout)" by (simp add: scf_passed good_facts)
  note c = t2_failures_classified [OF path]
  show ?thesis
    using c [of "[]" "[]" None None] c [of good_stdout "[]" None None]
      c [of good_stdout nscf_stdout None "Some (0, PNone)"]
    by (simp only: short good nscf_good t2_passed) simp
qed

theorem t1_failures_classified_witness:
  "\<exists>p. classify False (failure_reasons (verify_parsed (default_verifier\<lparr>force_threshold := Fin (1 / 10000)\<rparr>) good_input p))
        = FORCES_TOO_HIGH
     \<and> classify False (failure_reasons (verify_parsed default_verifier (good_input\<lparr>vi_job_success := False\<rparr>) p)) = UNKNOWN"
proof -
  obtain p where p: "max_force_ry_bohr p = Fin (1 / 2000)"
    "pressure_kbar p = Fin (1 / 10)" "cell_ok p" "\<And>c. vc_cell p = Some c \<Longrightarrow> \<exists>a. a_bohr c = Fin a"
    using good_parse by metis
  note c = t1_failures_classified [OF p(2) _ p(4)]
  have t: "pressure_threshold (default_verifier\<lparr>force_threshold := Fin (1 / 10000)\<rparr>) = Fin (1 / 2)"
    "pressure_threshold default_verifier = Fin (1 / 2)"
    by (simp_all add: default_verifier_def)
  show ?thesis
    using c [OF t(1), of good_input] c [OF t(2), of "good_input\<lparr>vi_job_success := False\<rparr>"] p good_facts
    by (intro exI [of _ p])
      (simp add: classify_eq good_input_def default_verifier_def converged_found forces_ok_def pressure_ok_def no_data_def)
qed

end
