(* ===== verification/Ssh_Executor.thy ===== *)
theory Ssh_Executor
  imports Hpc_Jobs Py_Regex
begin

text \<open>
  The remote executor (\<open>SSHExecutor\<close> of \<open>executor.py\<close>) over a command runner and the batch adapters.

  \<^item> The other machine is the \<open>runner\<close> of \<open>Hpc_Jobs\<close>; the commands issued so far are its history.
  \<^item> The local side is a parameter: whether a path exists, the base64 text of a directory's archive, what
    unpacking a downloaded text makes of the disk, and the text of a file. A disk is any type.
  \<^item> Job records live in the registry, keyed by job id. A record keeps what later calls look at: the
    remote path, the state, the batch job id and the error. The request and the specification are stored by
    the code and never read again.
  \<^item> The readings of the clock in the polling loop, the id of a fresh job and the elapsed time are given.
  \<^item> The timeout handed to the runner is part of the runner.
\<close>

section \<open>Data\<close>

fun job_status_value :: "job_status \<Rightarrow> string" where
  "job_status_value JPending = ''pending''"
| "job_status_value JRunning = ''running''"
| "job_status_value JCompleted = ''completed''"
| "job_status_value JFailed = ''failed''"
| "job_status_value JCancelled = ''cancelled''"
| "job_status_value JTimeout = ''timeout''"

record job_handle =
  h_job_id :: string
  h_remote_path :: string

record job_result =
  j_success :: bool
  j_exit_code :: int
  j_stdout :: string
  j_stderr :: string
  j_files :: "string list"
  j_walltime :: pyfloat
  j_done :: bool
  j_converged :: bool
  j_error :: string
  j_sched_id :: "string option"
  j_remote :: "string option"

definition failed_job :: "pyfloat \<Rightarrow> string \<Rightarrow> string option \<Rightarrow> job_result" where
  "failed_job wall msg remote = \<lparr>j_success = False, j_exit_code = - 1, j_stdout = [], j_stderr = [], j_files = [],
     j_walltime = wall, j_done = False, j_converged = False, j_error = msg, j_sched_id = None, j_remote = remote\<rparr>"

record fetch_result =
  f_success :: bool
  f_destination :: string
  f_files :: "string list"
  f_stdout_file :: "string option"
  f_stderr_file :: "string option"
  f_error :: string

record job_rec =
  r_path :: string
  r_state :: string
  r_sched :: "string option"
  r_error :: "string option"

definition STATE_TO_STATUS :: "(string \<times> job_status) list" where
  "STATE_TO_STATUS = [(''staged'', JPending), (''submitted'', JPending), (''running'', JRunning),
     (''pending'', JPending), (''completed'', JCompleted), (''failed'', JFailed),
     (''cancelled'', JCancelled), (''timeout'', JTimeout)]"

definition LIVE :: "string list" where
  "LIVE = [''staged'', ''submitted'', ''running'']"

record 'd local_side =
  l_exists :: "'d \<Rightarrow> string \<Rightarrow> bool"
  l_is_dir :: "'d \<Rightarrow> string \<Rightarrow> bool"
  l_tar :: "'d \<Rightarrow> string \<Rightarrow> string + string"
  l_unpack :: "'d \<Rightarrow> string \<Rightarrow> string \<Rightarrow> 'd \<times> string list"
  l_text :: "'d \<Rightarrow> string \<Rightarrow> string option"

record 'd env =
  e_runner :: runner
  e_local :: "'d local_side"
  e_now :: int
  e_clock :: "nat \<Rightarrow> rat"
  e_elapsed :: pyfloat
  e_uuid :: string

record 'd exec_state =
  x_hist :: "string list"
  x_disk :: 'd
  x_jobs :: "job_rec pydict"

text \<open>The batch system behind the executor, if there is one.\<close>

datatype adapter = Slurm | Pbs

record ssh_exec =
  se_root :: string
  se_bin :: string
  se_adapter :: "adapter option"
  se_walltime :: rat

definition adapter_of :: "string \<Rightarrow> adapter option" where
  "adapter_of scheduler = (let s = lower (or_text scheduler ''slurm'') in
     if s = ''slurm'' then Some Slurm else if s = ''pbs'' then Some Pbs else None)"

fun submit_job :: "adapter \<Rightarrow> runner \<Rightarrow> int \<Rightarrow> string list \<Rightarrow> string \<Rightarrow> string \<Rightarrow> string \<Rightarrow> submission \<times> string list" where
  "submit_job Slurm = slurm_submit"
| "submit_job Pbs = pbs_submit"

fun get_job_status :: "adapter \<Rightarrow> runner \<Rightarrow> string list \<Rightarrow> string \<Rightarrow> job_status option \<times> string list" where
  "get_job_status Slurm = slurm_status"
| "get_job_status Pbs = pbs_status"

fun cancel_job :: "adapter \<Rightarrow> runner \<Rightarrow> string list \<Rightarrow> string \<Rightarrow> (bool \<times> string) \<times> string list" where
  "cancel_job Slurm = slurm_cancel"
| "cancel_job Pbs = pbs_cancel"

section \<open>Paths\<close>

definition base_name :: "string \<Rightarrow> string" where
  "base_name p = last (split_on (CHR ''/'') p)"

definition parent_dir :: "string \<Rightarrow> string" where
  "parent_dir p = join ''/'' (butlast (split_on (CHR ''/'') p))"

text \<open>\<open>Path.stem\<close>: the name without its last suffix; a dot at either end is none.\<close>

definition stem :: "string \<Rightarrow> string" where
  "stem p = (let name = base_name p; ext = takeWhile (\<lambda>c. c \<noteq> CHR ''.'') (rev name);
       n = length name - length ext - 1 in
     if CHR ''.'' \<in> set name \<and> ext \<noteq> [] \<and> 0 < n then take n name else name)"

definition in_dir :: "string \<Rightarrow> string \<Rightarrow> string" where
  "in_dir d f = d @ ''/'' @ f"

section \<open>Transport\<close>

definition B64_CHUNK :: nat where "B64_CHUNK = 48000"

function chunks :: "nat \<Rightarrow> string \<Rightarrow> string list" where
  "chunks n s = (if s = [] \<or> n = 0 then [] else take n s # chunks n (drop n s))"
  by pat_completeness auto
termination by (relation "measure (\<lambda>(_, s). length s)") auto

declare chunks.simps [simp del]

definition mk_cmd :: "string \<Rightarrow> string" where
  "mk_cmd remote_dir = ''mkdir -p '' @ shlex_quote remote_dir @ '' && rm -f '' @ shlex_quote (remote_dir @ ''.b64'')"

definition chunk_cmd :: "string \<Rightarrow> string \<Rightarrow> string" where
  "chunk_cmd remote_dir c =
    ''printf '' @ [sq] @ ''%s'' @ [sq] @ '' '' @ shlex_quote c @ '' >> '' @ shlex_quote (remote_dir @ ''.b64'')"

definition untar_cmd :: "string \<Rightarrow> string" where
  "untar_cmd remote_dir = ''base64 -d '' @ shlex_quote (remote_dir @ ''.b64'') @ '' | tar -C '' @ shlex_quote remote_dir @
     '' -xf - && rm -f '' @ shlex_quote (remote_dir @ ''.b64'')"

definition pack_cmd :: "string \<Rightarrow> string" where
  "pack_cmd remote_dir = ''tar -C '' @ shlex_quote remote_dir @ '' -cf - . 2>/dev/null | base64''"

text \<open>Commands whose results nobody looks at.\<close>

definition run_all :: "runner \<Rightarrow> string list \<Rightarrow> string list \<Rightarrow> string list" where
  "run_all r h cmds = foldl (\<lambda>h c. snd (run r h c)) h cmds"

definition upload_cmds :: "string \<Rightarrow> string \<Rightarrow> string list" where
  "upload_cmds b64 remote_dir = mk_cmd remote_dir # map (chunk_cmd remote_dir) (chunks B64_CHUNK b64)"

definition upload_dir ::
  "runner \<Rightarrow> 'd local_side \<Rightarrow> 'd \<Rightarrow> string list \<Rightarrow> string \<Rightarrow> string \<Rightarrow> py_exc option \<times> string list" where
  "upload_dir r loc d h local_dir remote_dir =
    (if \<not> l_is_dir loc d local_dir then (Some (FileNotFound (''local dir not found: '' @ local_dir)), h)
     else case l_tar loc d local_dir of
       Inl e \<Rightarrow> (Some (RuntimeError (''local tar failed: '' @ take 200 e)), h)
     | Inr b64 \<Rightarrow>
         let (res, h') = run r (run_all r h (upload_cmds b64 remote_dir)) (untar_cmd remote_dir) in
         (if ok res then None else Some (RuntimeError (''remote untar failed: '' @ take 200 (py_strip (err res)))), h'))"

definition download_dir ::
  "runner \<Rightarrow> 'd local_side \<Rightarrow> 'd \<Rightarrow> string list \<Rightarrow> string \<Rightarrow> string \<Rightarrow> string list \<times> 'd \<times> string list" where
  "download_dir r loc d h remote_dir destination =
    (let (res, h') = run r h (pack_cmd remote_dir) in
     if \<not> ok res \<or> py_strip (out res) = [] then ([], d, h')
     else let (d', files) = l_unpack loc d (py_strip (out res)) destination in (files, d', h'))"

definition ssh_exc_text :: "py_exc \<Rightarrow> string" where
  "ssh_exc_text e = (case e of FileNotFound s \<Rightarrow> s | RuntimeError s \<Rightarrow> s | ValueError s \<Rightarrow> s | KeyError s \<Rightarrow> str_repr s | _ \<Rightarrow> [])"

section \<open>Running\<close>

definition int_of_float :: "rat \<Rightarrow> int" where
  "int_of_float x = (if 0 \<le> x then \<lfloor>x\<rfloor> else - \<lfloor>- x\<rfloor>)"

text \<open>\<open>timeout or self.max_walltime_sec\<close>.\<close>

definition walltime_of :: "ssh_exec \<Rightarrow> rat option \<Rightarrow> rat" where
  "walltime_of se timeout = (case timeout of Some t \<Rightarrow> if t = 0 then se_walltime se else t | None \<Rightarrow> se_walltime se)"

definition direct_cmd :: "ssh_exec \<Rightarrow> string \<Rightarrow> string \<Rightarrow> string \<Rightarrow> int \<Rightarrow> string" where
  "direct_cmd se remote_dir binary input_name walltime =
    ''cd '' @ shlex_quote remote_dir @ '' && timeout '' @ show_int walltime @ '' '' @ shlex_quote (se_bin se @ ''/'' @ binary) @
    '' -in '' @ shlex_quote input_name @ '' > '' @ shlex_quote (stem input_name) @ ''.out 2> '' @
    shlex_quote (stem input_name) @ ''.err; echo DFTFORGE_EXIT_$?''"

definition RE_EXIT :: re where
  "RE_EXIT = seqs [lit ''DFTFORGE_EXIT_'', Grp 1 (Seq (opt (one_of ''-'')) digits1)]"

definition exit_of :: "string \<Rightarrow> int" where
  "exit_of s = (case search_group 1 RE_EXIT s of
     Some g \<Rightarrow> (case py_int g of Some n \<Rightarrow> n | None \<Rightarrow> 0) | None \<Rightarrow> 0)"

definition run_direct ::
  "ssh_exec \<Rightarrow> runner \<Rightarrow> string list \<Rightarrow> string \<Rightarrow> string \<Rightarrow> string \<Rightarrow> rat option \<Rightarrow> cmd_result \<times> string list" where
  "run_direct se r h remote_dir binary input_name timeout =
    (let walltime = int_of_float (walltime_of se timeout);
         (res, h') = run r h (direct_cmd se remote_dir binary input_name walltime);
         code = exit_of (out res) in
     (\<lparr>exit_code = code, out = out res,
       err = (if code = 124 then binary @ '' timed out after '' @ show_int walltime @ ''s'' else err res)\<rparr>, h'))"

definition submit_params :: "ssh_exec \<Rightarrow> adapter \<Rightarrow> string \<Rightarrow> string \<Rightarrow> pyval pydict" where
  "submit_params se a input_name binary =
    (let st = stem input_name in
     [(''input_file'', PStr input_name), (''output_file'', PStr (st @ ''.out'')),
      (''env_setup'', PStr (''export PATH='' @ shlex_quote (se_bin se) @ '':$PATH'')),
      (''run_command'', PStr ((if a = Pbs then ''mpirun'' else ''srun'') @ '' '' @ shlex_quote binary @ '' -in '' @
         shlex_quote input_name @ '' > '' @ shlex_quote (st @ ''.out'')))])"

definition submit_script :: "ssh_exec \<Rightarrow> adapter \<Rightarrow> string \<Rightarrow> string \<Rightarrow> string \<Rightarrow> string \<Rightarrow> py_exc + string" where
  "submit_script se a remote_dir input_name job_id binary =
    (if a = Pbs then render_qsub (submit_params se a input_name binary) [] ''qe'' (take 12 job_id) remote_dir
     else render_sbatch (submit_params se a input_name binary) [] ''qe'' (take 12 job_id) remote_dir)"

definition submit_scheduler ::
  "ssh_exec \<Rightarrow> adapter \<Rightarrow> runner \<Rightarrow> int \<Rightarrow> string list \<Rightarrow> string \<Rightarrow> string \<Rightarrow> string \<Rightarrow> string
     \<Rightarrow> (py_exc + submission) \<times> string list" where
  "submit_scheduler se a r now h remote_dir input_name job_id binary =
    (case submit_script se a remote_dir input_name job_id binary of
       Inl e \<Rightarrow> (Inl e, h)
     | Inr script \<Rightarrow>
         let (s, h') = submit_job a r now h script remote_dir (take 12 job_id) in (Inr s, h'))"

definition TERMINAL_JOB :: "job_status list" where
  "TERMINAL_JOB = [JCompleted, JFailed, JCancelled, JTimeout]"

text \<open>The polling loop; the fuel bounds the number of turns, \<open>None\<close> says that it was not enough.\<close>

fun poll ::
  "adapter \<Rightarrow> runner \<Rightarrow> (nat \<Rightarrow> rat) \<Rightarrow> rat \<Rightarrow> string \<Rightarrow> nat \<Rightarrow> nat \<Rightarrow> string list
     \<Rightarrow> (job_status option \<times> string list) option" where
  "poll a r clock deadline sched_id 0 k h = None"
| "poll a r clock deadline sched_id (Suc fuel) k h =
     (if clock k < deadline then
        let (s, h') = get_job_status a r h sched_id in
        (case s of
           Some st \<Rightarrow> if st \<in> set TERMINAL_JOB then Some (Some st, h')
             else poll a r clock deadline sched_id fuel (Suc k) h'
         | None \<Rightarrow> poll a r clock deadline sched_id fuel (Suc k) h')
      else Some (None, h))"

definition poll_scheduler ::
  "adapter \<Rightarrow> runner \<Rightarrow> (nat \<Rightarrow> rat) \<Rightarrow> rat \<Rightarrow> string \<Rightarrow> nat \<Rightarrow> string list \<Rightarrow> (job_status option \<times> string list) option" where
  "poll_scheduler a r clock walltime sched_id fuel h = poll a r clock (clock 0 + walltime + 60) sched_id fuel 1 h"

section \<open>The five operations\<close>

definition remote_job_dir :: "ssh_exec \<Rightarrow> string \<Rightarrow> string" where
  "remote_job_dir se job_id = se_root se @ ''/'' @ job_id"

definition new_rec :: "string \<Rightarrow> job_rec" where
  "new_rec path = \<lparr>r_path = path, r_state = ''staged'', r_sched = None, r_error = None\<rparr>"

definition put_rec :: "string \<Rightarrow> job_rec \<Rightarrow> 'd exec_state \<Rightarrow> 'd exec_state" where
  "put_rec i j x = x\<lparr>x_jobs := dput i j (x_jobs x)\<rparr>"

text \<open>\<open>stage\<close>: the caller's id, unless it is missing or empty.\<close>

definition ssh_stage :: "ssh_exec \<Rightarrow> 'd env \<Rightarrow> string option \<Rightarrow> 'd exec_state \<Rightarrow> job_handle \<times> 'd exec_state" where
  "ssh_stage se e task_uuid x =
    (let i = (case set_opt task_uuid of Some u \<Rightarrow> u | None \<Rightarrow> e_uuid e); path = remote_job_dir se i in
     (\<lparr>h_job_id = i, h_remote_path = path\<rparr>, put_rec i (new_rec path) x))"

definition set_state :: "string \<Rightarrow> string option \<Rightarrow> job_rec \<Rightarrow> job_rec" where
  "set_state st m j = j\<lparr>r_state := st, r_error := m\<rparr>"

text \<open>\<open>submit\<close> of an input file in a working directory (\<open>None\<close>: the directory of the file, or the current
  one when the file does not exist).\<close>

definition ssh_submit ::
  "ssh_exec \<Rightarrow> 'd env \<Rightarrow> job_handle \<Rightarrow> string \<Rightarrow> string option \<Rightarrow> string \<Rightarrow> 'd exec_state \<Rightarrow> py_exc option \<times> 'd exec_state" where
  "ssh_submit se e hdl input_file workdir binary x =
    (let i = h_job_id hdl; r = e_runner e; loc = e_local e; d = x_disk x;
         j = (case dget (x_jobs x) i of Some j \<Rightarrow> j | None \<Rightarrow> new_rec (h_remote_path hdl));
         here = l_exists loc d input_file;
         wd = (case set_opt workdir of Some w \<Rightarrow> w | None \<Rightarrow> if here then parent_dir input_file else ''.'');
         remote_dir = or_text (h_remote_path hdl) (remote_job_dir se i) in
     if \<not> here then
       let m = ''input file not found: '' @ input_file in
       (Some (FileNotFound m), put_rec i (set_state ''failed'' (Some m) j) x)
     else
       let (bad, h1) = upload_dir r loc d (x_hist x) (if l_is_dir loc d wd then wd else parent_dir input_file) remote_dir;
           x1 = x\<lparr>x_hist := h1\<rparr> in
       (case bad of
          Some exc \<Rightarrow> (Some exc, put_rec i (set_state ''failed'' (Some (''upload failed: '' @ ssh_exc_text exc)) j) x1)
        | None \<Rightarrow>
          (case se_adapter se of
             Some a \<Rightarrow>
               (case submit_scheduler se a r (e_now e) h1 remote_dir (base_name input_file) i binary of
                  (Inl exc, h2) \<Rightarrow> (Some exc, put_rec i j (x1\<lparr>x_hist := h2\<rparr>))
                | (Inr (good, msg, sid), h2) \<Rightarrow>
                    let j1 = j\<lparr>r_sched := sid\<rparr>; x2 = x1\<lparr>x_hist := h2\<rparr> in
                    if good then (None, put_rec i (j1\<lparr>r_state := ''submitted''\<rparr>) x2)
                    else (Some (RuntimeError (''scheduler submit failed: '' @ msg)),
                          put_rec i (set_state ''failed'' (Some msg) j1) x2))
           | None \<Rightarrow>
               let (res, h2) = run_direct se r h1 remote_dir binary (base_name input_file) None in
               (None, put_rec i (if ok res then set_state ''completed'' None j
                                 else set_state ''failed'' (Some (take 500 (py_strip (err res)))) j)
                        (x1\<lparr>x_hist := h2\<rparr>)))))"

text \<open>\<open>status\<close> remembers what the batch system says.\<close>

definition state_status :: "string \<Rightarrow> job_status" where
  "state_status st = (case dget STATE_TO_STATUS st of Some s \<Rightarrow> s | None \<Rightarrow> JPending)"

definition ssh_status :: "ssh_exec \<Rightarrow> 'd env \<Rightarrow> job_handle \<Rightarrow> 'd exec_state \<Rightarrow> job_status \<times> 'd exec_state" where
  "ssh_status se e hdl x =
    (case dget (x_jobs x) (h_job_id hdl) of
       None \<Rightarrow> (JPending, x)
     | Some j \<Rightarrow>
       (case (set_opt (r_sched j), se_adapter se) of
          (Some sid, Some a) \<Rightarrow>
            (case get_job_status a (e_runner e) (x_hist x) sid of
               (Some s, h') \<Rightarrow> (s, put_rec (h_job_id hdl) (j\<lparr>r_state := job_status_value s\<rparr>) (x\<lparr>x_hist := h'\<rparr>))
             | (None, h') \<Rightarrow> (state_status (r_state j), x\<lparr>x_hist := h'\<rparr>))
        | _ \<Rightarrow> (state_status (r_state j), x)))"

definition ssh_fetch :: "'d env \<Rightarrow> job_handle \<Rightarrow> string \<Rightarrow> 'd exec_state \<Rightarrow> fetch_result \<times> 'd exec_state" where
  "ssh_fetch e hdl destination x =
    (if (case dget (x_jobs x) (h_job_id hdl) of Some j \<Rightarrow> r_state j \<in> set LIVE | None \<Rightarrow> False)
     then (\<lparr>f_success = False, f_destination = destination, f_files = [], f_stdout_file = None,
            f_stderr_file = None, f_error = ''job not completed''\<rparr>, x)
     else
       let (files, d', h') = download_dir (e_runner e) (e_local e) (x_disk x) (x_hist x) (h_remote_path hdl) destination;
           given = (\<lambda>f. if l_exists (e_local e) d' (in_dir destination f) then Some (in_dir destination f) else None) in
       (\<lparr>f_success = True, f_destination = destination, f_files = files, f_stdout_file = given ''stdout.txt'',
         f_stderr_file = given ''stderr.txt'', f_error = []\<rparr>, x\<lparr>x_hist := h', x_disk := d'\<rparr>))"

definition pkill_cmd :: "string \<Rightarrow> string" where
  "pkill_cmd path = ''pkill -f '' @ shlex_quote path @ ''; true''"

definition ssh_cancel :: "ssh_exec \<Rightarrow> 'd env \<Rightarrow> job_handle \<Rightarrow> 'd exec_state \<Rightarrow> bool \<times> 'd exec_state" where
  "ssh_cancel se e hdl x =
    (case dget (x_jobs x) (h_job_id hdl) of
       None \<Rightarrow> (False, x)
     | Some j \<Rightarrow>
       let (good, h') = (case (set_opt (r_sched j), se_adapter se) of
            (Some sid, Some a) \<Rightarrow> (let ((b, _), h') = cancel_job a (e_runner e) (x_hist x) sid in (b, h'))
          | _ \<Rightarrow> (True, snd (run (e_runner e) (x_hist x) (pkill_cmd (h_remote_path hdl))))) in
       (good, put_rec (h_job_id hdl) (j\<lparr>r_state := ''cancelled''\<rparr>) (x\<lparr>x_hist := h'\<rparr>)))"

text \<open>\<open>cancel_all\<close> over the records as they were at its start; a record's handle is its id and path.\<close>

fun cancel_list :: "ssh_exec \<Rightarrow> 'd env \<Rightarrow> (string \<times> job_rec) list \<Rightarrow> 'd exec_state \<Rightarrow> nat \<times> 'd exec_state" where
  "cancel_list se e [] x = (0, x)"
| "cancel_list se e ((i, j) # js) x =
     (if r_state j \<in> set LIVE then
        let (good, x1) = ssh_cancel se e \<lparr>h_job_id = i, h_remote_path = r_path j\<rparr> x;
            (n, x2) = cancel_list se e js x1 in
        (if good then Suc n else n, x2)
      else cancel_list se e js x)"

definition ssh_cancel_all :: "ssh_exec \<Rightarrow> 'd env \<Rightarrow> 'd exec_state \<Rightarrow> nat \<times> 'd exec_state" where
  "ssh_cancel_all se e x = cancel_list se e (x_jobs x) x"

section \<open>A tool run from the workflow engine\<close>

definition tool_job_id :: "'d env \<Rightarrow> string \<Rightarrow> string" where
  "tool_job_id e binary = replace_all ''.x'' [] binary @ ''_'' @ take 8 (e_uuid e)"

text \<open>The end of \<open>_run_remote_tool\<close>: the outputs come back, the text of the run decides.\<close>

definition collect ::
  "'d env \<Rightarrow> string \<Rightarrow> string \<Rightarrow> string \<Rightarrow> string \<Rightarrow> string option \<Rightarrow> 'd \<Rightarrow> string list \<Rightarrow> job_result \<times> 'd \<times> string list" where
  "collect e binary input_file workdir remote_dir sid d0 h1 =
    (let (files, d, h) = download_dir (e_runner e) (e_local e) d0 h1 remote_dir workdir;
         text = (\<lambda>ext. case l_text (e_local e) d (in_dir workdir (stem input_file @ ext)) of Some t \<Rightarrow> t | None \<Rightarrow> []);
         stdout = text ''.out'' in
     (\<lparr>j_success = (binary \<noteq> ''pw.x'' \<or> contains ''JOB DONE'' stdout), j_exit_code = 0, j_stdout = stdout,
       j_stderr = text ''.err'', j_files = files, j_walltime = e_elapsed e,
       j_done = contains ''JOB DONE'' stdout, j_converged = contains ''convergence has been achieved'' (lower stdout),
       j_error = [], j_sched_id = sid, j_remote = Some remote_dir\<rparr>, d, h))"

text \<open>\<open>None\<close>: the fuel of the polling loop was not enough. An exception leaves only while the job script is
  rendered.\<close>

definition run_remote_tool ::
  "ssh_exec \<Rightarrow> 'd env \<Rightarrow> nat \<Rightarrow> string \<Rightarrow> string \<Rightarrow> string \<Rightarrow> rat option \<Rightarrow> 'd exec_state
     \<Rightarrow> ((py_exc + job_result) \<times> 'd exec_state) option" where
  "run_remote_tool se e fuel binary input_file workdir timeout x =
    (let r = e_runner e; loc = e_local e; wall = e_elapsed e; d = x_disk x in
     if \<not> l_exists loc d input_file
     then Some (Inr (failed_job (Fin 0) (''Input file not found: '' @ input_file) None), x)
     else
       let i = tool_job_id e binary; remote_dir = remote_job_dir se i;
           (_, x0) = ssh_stage se e (Some i) x;
           j = (new_rec remote_dir)\<lparr>r_state := ''running''\<rparr>;
           (bad, h1) = upload_dir r loc d (x_hist x0)
             (if l_is_dir loc d workdir then workdir else parent_dir input_file) remote_dir;
           leave = (\<lambda>st sid h d'. put_rec i (j\<lparr>r_state := st, r_sched := sid\<rparr>) (x0\<lparr>x_hist := h, x_disk := d'\<rparr>));
           finish = (\<lambda>sid h. let (res, d', h') = collect e binary input_file workdir remote_dir sid d h in
                Some (Inr res, leave ''completed'' sid h' d')) in
       case bad of
         Some exc \<Rightarrow> Some (Inr (failed_job wall (''upload failed: '' @ ssh_exc_text exc) (Some remote_dir)),
                           leave ''failed'' None h1 d)
       | None \<Rightarrow>
         (case se_adapter se of
            Some a \<Rightarrow>
              (case submit_scheduler se a r (e_now e) h1 remote_dir (base_name input_file) i binary of
                 (Inl exc, h2) \<Rightarrow> Some (Inl exc, leave ''running'' None h2 d)
               | (Inr (good, msg, sid), h2) \<Rightarrow>
                   if \<not> good
                   then Some (Inr (failed_job wall (''scheduler submit failed: '' @ msg) (Some remote_dir)),
                              leave ''failed'' sid h2 d)
                   else
                     (case poll_scheduler a r (e_clock e) (walltime_of se timeout)
                             (case sid of Some s \<Rightarrow> s | None \<Rightarrow> []) fuel h2 of
                        None \<Rightarrow> None
                      | Some (Some JCompleted, h3) \<Rightarrow> finish sid h3
                      | Some (t, h3) \<Rightarrow>
                          Some (Inr ((failed_job wall (''job ended in state '' @
                                     (case t of Some s \<Rightarrow> job_status_value s | None \<Rightarrow> ''timeout'')) (Some remote_dir))
                                   \<lparr>j_sched_id := sid\<rparr>),
                                leave (if t = None then ''timeout'' else ''failed'') sid h3 d)))
          | None \<Rightarrow>
              let (res, h2) = run_direct se r h1 remote_dir binary (base_name input_file) timeout in
              if ok res then finish None h2
              else
                let (_, d', h3) = download_dir r loc d h2 remote_dir workdir in
                Some (Inr ((failed_job wall (or_text (take 500 (py_strip (err res)))
                               (binary @ '' exited '' @ show_int (exit_code res))) (Some remote_dir))
                         \<lparr>j_exit_code := exit_code res\<rparr>),
                      leave ''failed'' None h3 d')))"

definition run_pw :: "ssh_exec \<Rightarrow> 'd env \<Rightarrow> nat \<Rightarrow> string \<Rightarrow> string \<Rightarrow> rat option \<Rightarrow> 'd exec_state
     \<Rightarrow> ((py_exc + job_result) \<times> 'd exec_state) option" where
  "run_pw se e fuel input_file workdir timeout x = run_remote_tool se e fuel ''pw.x'' input_file workdir timeout x"

end
