(* ===== verification/Ssh_Props.thy ===== *)
theory Ssh_Props
  imports Ssh_Executor
begin

text \<open>
  Properties of the remote executor: what the upload commands leave on the other machine, that the
  polling loop ends, the registry's invariant, and what a run of a tool reports.
\<close>

section \<open>The upload\<close>

text \<open>What the commands of an upload do to the files of the other machine, word by word.\<close>

fun sh_effect :: "sh_tok list \<Rightarrow> (string \<Rightarrow> string option) \<Rightarrow> string \<Rightarrow> string option" where
  "sh_effect [Word a, Word b, Word d, Op x, Word u, Word v, Word f] fs =
     (if [a, b, x, u, v] = [''mkdir'', ''-p'', ''&&'', ''rm'', ''-f''] then fs(f := None) else fs)"
| "sh_effect [Word a, Word b, Word t, Op x, Word f] fs =
     (if [a, b, x] = [''printf'', ''%s'', ''>>'']
      then fs(f := Some ((case fs f of Some s \<Rightarrow> s | None \<Rightarrow> []) @ t)) else fs)"
| "sh_effect _ fs = fs"

definition sh_run :: "(string \<Rightarrow> string option) \<Rightarrow> string \<Rightarrow> string \<Rightarrow> string option" where
  "sh_run fs c = (case sh_tokens c of Some ts \<Rightarrow> sh_effect ts fs | None \<Rightarrow> fs)"

lemma more_safe: "list_all sh_safe ''rm''" "list_all sh_safe ''-f''" "list_all sh_safe ''printf''"
  "list_all sh_safe ''base64''" "list_all sh_safe ''-d''" "list_all sh_safe ''tar''" "list_all sh_safe ''-C''"
  "list_all sh_safe ''-xf''" "list_all sh_safe ''-''" "list_all sh_safe ''%s''"
  by code_simp+

lemmas more_words = more_safe [THEN lit_word, simplified]

lemma sh_lex_append: "sh_lex None (CHR ''>'' # CHR ''>'' # CHR '' '' # r) = map_option ((#) (Op ''>>'')) (sh_lex None r)"
  by (simp add: sh_lex.simps sq_def dq_def is_op_def option.map_comp comp_def)

lemma sh_lex_pipe: "sh_lex None (CHR ''|'' # CHR '' '' # r) = map_option ((#) (Op ''|'')) (sh_lex None r)"
  by (simp add: sh_lex.simps sq_def dq_def is_op_def option.map_comp comp_def)

lemma sh_lex_sq_word: "list_all (\<lambda>c. c \<noteq> sq) s \<Longrightarrow>
   sh_lex None (sq # s @ sq # CHR '' '' # r) = map_option ((#) (Word s)) (sh_lex None r)"
proof -
  assume s: "list_all (\<lambda>c. c \<noteq> sq) s"
  have "upto_quote sq (s @ sq # t) = Some (s, t)" for t using s by (induction s) auto
  then show ?thesis by (simp add: sh_step option.map_comp comp_def)
qed

lemma mk_tokens: "sh_tokens (mk_cmd d) =
    Some [Word ''mkdir'', Word ''-p'', Word d, Op ''&&'', Word ''rm'', Word ''-f'', Word (d @ ''.b64'')]"
  unfolding mk_cmd_def sh_tokens_def by (simp add: sh_cmd lit_words more_words)

lemma chunk_tokens: "sh_tokens (chunk_cmd d c) = Some [Word ''printf'', Word ''%s'', Word c, Op ''>>'', Word (d @ ''.b64'')]"
proof -
  have p: "list_all (\<lambda>c. c \<noteq> sq) ''%s''" by (simp add: sq_def)
  show ?thesis
    unfolding chunk_cmd_def sh_tokens_def
    using sh_lex_sq_word [OF p] by (simp add: sh_cmd more_words sh_lex_append)
qed

lemma untar_tokens: "sh_tokens (untar_cmd d) =
    Some [Word ''base64'', Word ''-d'', Word (d @ ''.b64''), Op ''|'', Word ''tar'', Word ''-C'', Word d, Word ''-xf'', Word ''-'',
      Op ''&&'', Word ''rm'', Word ''-f'', Word (d @ ''.b64'')]"
  unfolding untar_cmd_def sh_tokens_def by (simp add: sh_cmd more_words sh_lex_pipe)

lemma concat_chunks: "0 < n \<Longrightarrow> concat (chunks n s) = s"
  by (induction n s rule: chunks.induct) (auto simp: chunks.simps)

lemma chunk_length: "c \<in> set (chunks n s) \<Longrightarrow> c \<noteq> [] \<and> length c \<le> n \<and> set c \<subseteq> set s"
proof (induction n s rule: chunks.induct)
  case (1 n s)
  then show ?case
    by (cases "s = [] \<or> n = 0") (auto simp: chunks.simps [of n s] dest: in_set_takeD in_set_dropD)
qed

lemma sh_run_chunks:
  "foldl sh_run fs (map (chunk_cmd d) cs) =
     (if cs = [] then fs else fs(d @ ''.b64'' := Some ((case fs (d @ ''.b64'') of Some s \<Rightarrow> s | None \<Rightarrow> []) @ concat cs)))"
  by (induction cs arbitrary: fs) (auto simp: sh_run_def chunk_tokens)

lemma chunks_Nil: "0 < n \<Longrightarrow> chunks n s = [] \<longleftrightarrow> s = []"
  by (simp add: chunks.simps [of n s])

text \<open>
  The upload hands over the archive unchanged. Whatever the directory is called and
  whatever the text, the shell reads the commands as meant, and after they have run the file that the
  last command decodes holds exactly the base64 text, whatever was there before, and no other file has
  changed. A text in the base64 alphabet costs at most its chunk, the path and fifteen
  characters per command.
\<close>

theorem upload_transfers:
  "(let fs' = foldl sh_run fs (upload_cmds b64 d) in
      (b64 \<noteq> [] \<longrightarrow> fs' (d @ ''.b64'') = Some b64) \<and> (\<forall>f. f \<noteq> d @ ''.b64'' \<longrightarrow> fs' f = fs f))
   \<and> sh_tokens (untar_cmd d) =
      Some [Word ''base64'', Word ''-d'', Word (d @ ''.b64''), Op ''|'', Word ''tar'', Word ''-C'', Word d, Word ''-xf'', Word ''-'',
        Op ''&&'', Word ''rm'', Word ''-f'', Word (d @ ''.b64'')]
   \<and> (list_all sh_safe b64 \<longrightarrow>
       (\<forall>c \<in> set (tl (upload_cmds b64 d)). length c \<le> B64_CHUNK + length (shlex_quote (d @ ''.b64'')) + 16))"
proof (intro conjI impI)
  have n: "0 < B64_CHUNK" by (simp add: B64_CHUNK_def)
  show "let fs' = foldl sh_run fs (upload_cmds b64 d) in
      (b64 \<noteq> [] \<longrightarrow> fs' (d @ ''.b64'') = Some b64) \<and> (\<forall>f. f \<noteq> d @ ''.b64'' \<longrightarrow> fs' f = fs f)"
    by (simp add: upload_cmds_def sh_run_chunks concat_chunks n chunks_Nil)
      (simp add: sh_run_def mk_tokens)
  assume safe: "list_all sh_safe b64"
  have "length (chunk_cmd d c) \<le> B64_CHUNK + length (shlex_quote (d @ ''.b64'')) + 16" if c: "c \<in> set (chunks B64_CHUNK b64)" for c
  proof -
    have "list_all sh_safe c" "c \<noteq> []" "length c \<le> B64_CHUNK"
      using safe chunk_length [OF c] by (auto simp: list_all_iff)
    then show ?thesis by (simp add: chunk_cmd_def shlex_quote_def)
  qed
  then show "\<forall>c \<in> set (tl (upload_cmds b64 d)). length c \<le> B64_CHUNK + length (shlex_quote (d @ ''.b64'')) + 16"
    by (auto simp: upload_cmds_def)
qed (rule untar_tokens)

section \<open>Polling\<close>

lemma status_queries:
  "\<exists>cs. snd (get_job_status a r h i) = h @ cs \<and> cs \<noteq> [] \<and> length cs \<le> 2"
  using slurm.status_asks [of r h i] pbs.status_asks [of r h i] by (cases a) auto

definition status_cmds :: "string \<Rightarrow> string set" where
  "status_cmds i = {squeue_cmd i, sacct_cmd i, ''qstat -f '' @ shlex_quote i}"

lemma status_cmds_only: "snd (get_job_status a r h i) = h @ cs \<Longrightarrow> set cs \<subseteq> status_cmds i"
  by (cases a) (auto simp: slurm_status_def pbs_status_def run_def status_cmds_def Let_def split: option.splits)

lemma poll_returns:
  assumes "\<And>n. clock n + 5 \<le> clock (Suc n)" "deadline \<le> clock k + 5 * of_nat fuel"
  shows "\<exists>s cs. poll a r clock deadline i (Suc fuel) k h = Some (s, h @ cs) \<and> set cs \<subseteq> status_cmds i
     \<and> length cs \<le> 2 * fuel \<and> (\<forall>st. s = Some st \<longrightarrow> st \<in> set TERMINAL_JOB)"
  using assms(2)
proof (induction fuel arbitrary: k h)
  case (Suc fuel)
  show ?case
  proof (cases "clock k < deadline")
    case False
    then show ?thesis by simp
  next
    case True
    obtain cs where cs: "snd (get_job_status a r h i) = h @ cs" "length cs \<le> 2" "set cs \<subseteq> status_cmds i"
      using status_queries [of a r h i] status_cmds_only by metis
    obtain s where s: "get_job_status a r h i = (s, h @ cs)" using cs(1) by (cases "get_job_status a r h i") auto
    have "deadline \<le> clock (Suc k) + 5 * of_nat fuel" using Suc.prems assms(1) [of k] by (simp add: algebra_simps)
    from Suc.IH [OF this, of "h @ cs"] obtain t ds where
      IH: "poll a r clock deadline i (Suc fuel) (Suc k) (h @ cs) = Some (t, h @ cs @ ds)" "set ds \<subseteq> status_cmds i"
        "length ds \<le> 2 * fuel" "\<forall>st. t = Some st \<longrightarrow> st \<in> set TERMINAL_JOB"
      by auto
    have unf: "poll a r clock deadline i (Suc (Suc fuel)) k h =
        (case s of Some st \<Rightarrow> if st \<in> set TERMINAL_JOB then Some (Some st, h @ cs)
           else poll a r clock deadline i (Suc fuel) (Suc k) (h @ cs)
         | None \<Rightarrow> poll a r clock deadline i (Suc fuel) (Suc k) (h @ cs))"
      by (subst poll.simps(2)) (simp add: True s del: poll.simps)
    consider st where "s = Some st" "st \<in> set TERMINAL_JOB"
      | "poll a r clock deadline i (Suc (Suc fuel)) k h = poll a r clock deadline i (Suc fuel) (Suc k) (h @ cs)"
      using unf by (cases s) (auto split: if_splits)
    then show ?thesis
    proof cases
      case 1
      with unf cs show ?thesis by (intro exI [of _ "Some st"] exI [of _ cs]) (auto simp del: poll.simps)
    next
      case 2
      with IH cs show ?thesis by (intro exI [of _ t] exI [of _ "cs @ ds"]) (auto simp del: poll.simps)
    qed
  qed
qed simp

lemma poll_scheduler_returns:
  assumes "\<And>n. clock n + 5 \<le> clock (Suc n)" "walltime + 60 \<le> 5 * of_nat fuel"
  shows "\<exists>s cs. poll_scheduler a r clock walltime i (Suc fuel) h = Some (s, h @ cs) \<and> set cs \<subseteq> status_cmds i
     \<and> length cs \<le> 2 * fuel \<and> (\<forall>st. s = Some st \<longrightarrow> st \<in> set TERMINAL_JOB)"
proof -
  have "clock 0 + walltime + 60 \<le> clock 1 + 5 * of_nat fuel" using assms(2) assms(1) [of 0] by simp
  from poll_returns [OF assms(1) this] show ?thesis by (simp add: poll_scheduler_def del: poll.simps)
qed

text \<open>
  Waiting for a batch job ends. If a turn takes at least its five seconds of sleep, one turn
  for every five seconds of the wall time and the extra minute, and one more, is enough; the loop asks for the
  state at most twice a turn and does nothing else (in particular it never cancels the job it gives up on), and
  a state it returns is final.
\<close>

theorem polling_ends:
  assumes "\<And>n. clock n + 5 \<le> clock (Suc n)" "walltime + 60 \<le> 5 * of_nat fuel"
  shows "\<exists>s cs. poll_scheduler a r clock walltime i (Suc fuel) h = Some (s, h @ cs) \<and> set cs \<subseteq> status_cmds i
     \<and> length cs \<le> 2 * fuel \<and> (\<forall>st. s = Some st \<longrightarrow> st \<in> set TERMINAL_JOB)"
  by (rule poll_scheduler_returns [of clock, OF assms])

section \<open>The registry\<close>

definition states :: "string set" where
  "states = set (dkeys STATE_TO_STATUS)"

lemma states_simps [simp]:
  "''staged'' \<in> states" "''submitted'' \<in> states" "''running'' \<in> states" "''completed'' \<in> states"
  "''failed'' \<in> states" "''cancelled'' \<in> states" "''timeout'' \<in> states" "job_status_value s \<in> states"
  by (cases s; simp add: states_def STATE_TO_STATUS_def dkeys_def)+

text \<open>Every record is in a state the status table knows, and a later registry has every job of an earlier one.\<close>

definition jobs_ok :: "job_rec pydict \<Rightarrow> bool" where
  "jobs_ok js = (wf_dict js \<and> (\<forall>i j. dget js i = Some j \<longrightarrow> r_state j \<in> states))"

definition later :: "'d exec_state \<Rightarrow> 'd exec_state \<Rightarrow> bool" where
  "later x x' = ((jobs_ok (x_jobs x) \<longrightarrow> jobs_ok (x_jobs x')) \<and> set (dkeys (x_jobs x)) \<subseteq> set (dkeys (x_jobs x'))
     \<and> (\<exists>cs. x_hist x' = x_hist x @ cs))"

lemma later_refl [simp]: "later x x"
  by (simp add: later_def)

lemma later_trans [trans]: "later x y \<Longrightarrow> later y z \<Longrightarrow> later x z"
  unfolding later_def by (metis append.assoc subset_trans)

lemma later_put: "r_state j \<in> states \<Longrightarrow> later x (put_rec i j x)"
  by (auto simp: later_def put_rec_def jobs_ok_def pydict)

lemma later_disk: "later x (x\<lparr>x_disk := d, x_hist := x_hist x @ cs\<rparr>)" "later x (x\<lparr>x_hist := x_hist x @ cs\<rparr>)"
  by (auto simp: later_def)

lemma put_rec_sel [simp]:
  "x_hist (put_rec i j x) = x_hist x" "x_disk (put_rec i j x) = x_disk x" "x_jobs (put_rec i j x) = dput i j (x_jobs x)"
  by (simp_all add: put_rec_def)

text \<open>Every helper extends the history.\<close>

lemma run_all_hist: "run_all r h cmds = h @ cmds"
  unfolding run_all_def by (induction cmds arbitrary: h) (simp_all add: run_def)

lemma hist_upload: "\<exists>cs. snd (upload_dir r loc d h ld rd) = h @ cs"
  by (auto simp: upload_dir_def run_def run_all_hist Let_def split: sum.split)

lemma hist_download: "\<exists>cs. snd (snd (download_dir r loc d h rd dest)) = h @ cs"
  by (auto simp: download_dir_def run_def Let_def split: prod.split)

lemma hist_submit: "\<exists>cs. snd (submit_job a r now h s w j) = h @ cs"
  by (cases a) (simp_all add: slurm.appends pbs.appends)

lemma hist_submit_scheduler: "\<exists>cs. snd (submit_scheduler se a r now h rd n i b) = h @ cs"
  using hist_submit [of a r now h _ rd "take 12 i"]
  by (auto simp: submit_scheduler_def Let_def case_prod_beta split: sum.split)

lemma hist_cancel: "\<exists>cs. snd (cancel_job a r h i) = h @ cs"
  by (cases a) (simp_all add: slurm.appends pbs.appends)

lemma hist_direct: "\<exists>cs. snd (run_direct se r h rd b n t) = h @ cs"
  by (simp add: run_direct_def run_def Let_def)

lemma hist_poll: "poll a r clock dl i n k h = Some (s, h') \<Longrightarrow> \<exists>cs. h' = h @ cs"
proof (induction a r clock dl i n k h rule: poll.induct)
  case (2 a r clock dl i fuel k h)
  obtain cs where cs: "snd (get_job_status a r h i) = h @ cs" using status_queries [of a r h i] by blast
  then obtain t where t: "get_job_status a r h i = (t, h @ cs)" by (cases "get_job_status a r h i") auto
  show ?case using 2 t by (auto split: if_splits option.splits) (metis append.assoc)+
qed simp

lemma later_hist: "x_jobs x' = x_jobs x \<Longrightarrow> x_hist x' = x_hist x @ cs \<Longrightarrow> later x x'"
  by (auto simp: later_def)

lemma stage_later: "later x (snd (ssh_stage se e u x))"
  by (simp add: ssh_stage_def Let_def later_put new_rec_def)

text \<open>The way an operation leaves a record.\<close>

lemma later_leave:
  assumes "\<exists>cs. h = x_hist x @ cs" "jobs_ok (x_jobs x) \<Longrightarrow> r_state j \<in> states"
  shows "later x (put_rec i j (x\<lparr>x_hist := h\<rparr>))" "later x (put_rec i j (x\<lparr>x_hist := h, x_disk := d\<rparr>))"
  using assms by (auto simp: later_def jobs_ok_def pydict)

lemma upload_pair: "upload_dir r loc d h ld rd = (bad, h') \<Longrightarrow> \<exists>cs. h' = h @ cs"
  and download_pair: "download_dir r loc d h rd dest = (fs, d', h') \<Longrightarrow> \<exists>cs. h' = h @ cs"
  and scheduler_pair: "submit_scheduler se a r now h rd n i b = (s, h') \<Longrightarrow> \<exists>cs. h' = h @ cs"
  and cancel_pair: "cancel_job a r h sid = (bm, h') \<Longrightarrow> \<exists>cs. h' = h @ cs"
  and status_pair: "get_job_status a r h sid = (st, h') \<Longrightarrow> \<exists>cs. h' = h @ cs"
  and direct_pair: "run_direct se r h rd b n t = (res, h') \<Longrightarrow> \<exists>cs. h' = h @ cs"
  using hist_upload [of r loc d h ld rd] hist_download [of r loc d h rd dest] hist_cancel [of a r h sid]
    hist_submit_scheduler [of se a r now h rd n i b] status_queries [of a r h sid] hist_direct [of se r h rd b n t]
  by auto

lemma old_state: "jobs_ok js \<Longrightarrow> r_state (case dget js i of Some j \<Rightarrow> j | None \<Rightarrow> new_rec p) \<in> states"
  by (auto simp: jobs_ok_def new_rec_def split: option.split)

lemma chain: "\<exists>cs. h' = h @ cs \<Longrightarrow> \<exists>cs. h'' = h' @ cs \<Longrightarrow> \<exists>cs. h'' = h @ cs"
  by auto

lemma submit_later: "later x (snd (ssh_submit se e hdl input_file workdir binary x))"
proof -
  define j where "j = (case dget (x_jobs x) (h_job_id hdl) of Some j \<Rightarrow> j | None \<Rightarrow> new_rec (h_remote_path hdl))"
  define rd where "rd = or_text (h_remote_path hdl) (remote_job_dir se (h_job_id hdl))"
  have old: "jobs_ok (x_jobs x) \<Longrightarrow> r_state j \<in> states" unfolding j_def by (rule old_state)
  note leave = later_leave(1) [of _ x]
  show ?thesis
  proof (cases "l_exists (e_local e) (x_disk x) input_file")
    case False
    then show ?thesis by (simp add: ssh_submit_def Let_def later_put set_state_def)
  next
    case True
    let ?wd = "case set_opt workdir of Some w \<Rightarrow> w | None \<Rightarrow> parent_dir input_file"
    let ?ld = "if l_is_dir (e_local e) (x_disk x) ?wd then ?wd else parent_dir input_file"
    obtain bad h1 where u: "upload_dir (e_runner e) (e_local e) (x_disk x) (x_hist x) ?ld rd = (bad, h1)"
      by fastforce
    note c1 = upload_pair [OF u]
    show ?thesis
    proof (cases bad)
      case (Some exc)
      with True u c1 show ?thesis
        unfolding ssh_submit_def Let_def j_def [symmetric] rd_def [symmetric]
        by (auto simp: set_state_def intro!: later_leave(1))
    next
      case None
      show ?thesis
      proof (cases "se_adapter se")
        case no: None
        obtain res h2 where d: "run_direct se (e_runner e) h1 rd binary (base_name input_file) None = (res, h2)"
          by fastforce
        from True u None no d chain [OF c1 direct_pair [OF d]] show ?thesis
          unfolding ssh_submit_def Let_def j_def [symmetric] rd_def [symmetric]
          by (auto simp: set_state_def intro!: later_leave(1))
      next
        case (Some a)
        obtain s h2 where d: "submit_scheduler se a (e_runner e) (e_now e) h1 rd (base_name input_file) (h_job_id hdl) binary = (s, h2)"
          by fastforce
        from True u None Some d chain [OF c1 scheduler_pair [OF d]] old show ?thesis
          unfolding ssh_submit_def Let_def j_def [symmetric] rd_def [symmetric]
          by (auto simp: set_state_def split: sum.split intro!: later_leave(1))
      qed
    qed
  qed
qed

lemma status_later: "later x (snd (ssh_status se e hdl x))"
  unfolding ssh_status_def
  by (auto split: option.split prod.split dest!: status_pair intro!: later_leave(1) later_disk(2))

lemma fetch_later: "later x (snd (ssh_fetch e hdl dest x))"
  by (auto simp: ssh_fetch_def Let_def split: option.split prod.split dest!: download_pair intro: later_hist)

lemma cancel_later: "later x (snd (ssh_cancel se e hdl x))"
  unfolding ssh_cancel_def
  by (auto simp: run_def Let_def split: option.split prod.split dest!: cancel_pair intro!: later_leave(1))

lemma cancel_list_later: "later x (snd (cancel_list se e js x))"
proof (induction js arbitrary: x)
  case (Cons p js)
  obtain i j where p: "p = (i, j)" by fastforce
  obtain g x1 where c: "ssh_cancel se e \<lparr>h_job_id = i, h_remote_path = r_path j\<rparr> x = (g, x1)" by fastforce
  have "later x x1" using cancel_later [of x se e "\<lparr>h_job_id = i, h_remote_path = r_path j\<rparr>"] c by simp
  then show ?case using Cons.IH [of x1] Cons.IH [of x] c later_trans
    by (cases "cancel_list se e js x1") (auto simp: p)
qed simp

text \<open>A tool run: the registry afterwards.\<close>

lemma script_renders: "\<exists>s. submit_script se a rd n i b = Inr s"
  by (cases a) (simp_all add: submit_script_def render_sbatch_def render_qsub_def render_job_def resolve_def
    bindr_def INT_KEYS_def given_in_def submit_params_def dget_def Let_def)

lemma submit_scheduler_runs: "submit_scheduler se a r now h rd n i b = (s, h') \<Longrightarrow> \<exists>g m sid. s = Inr (g, m, sid)"
  using script_renders [of se a rd n i b] by (auto simp: submit_scheduler_def split: prod.splits)

definition tool_end :: "ssh_exec \<Rightarrow> 'd env \<Rightarrow> string \<Rightarrow> 'd exec_state \<Rightarrow> job_result \<Rightarrow> 'd exec_state \<Rightarrow> bool" where
  "tool_end se e binary x res x' =
    (\<exists>j h d. (\<exists>cs. h = x_hist x @ cs) \<and> r_state j \<in> {''completed'', ''failed'', ''timeout''}
       \<and> (r_state j = ''completed'' \<longleftrightarrow> j_error res = [])
       \<and> (j_success res \<longleftrightarrow> j_error res = [] \<and> (binary \<noteq> ''pw.x'' \<or> j_done res))
       \<and> (let (_, x0) = ssh_stage se e (Some (tool_job_id e binary)) x in
           x' = put_rec (tool_job_id e binary) j (x0\<lparr>x_hist := h, x_disk := d\<rparr>)))"

lemma or_text_right: "b \<noteq> [] \<Longrightarrow> or_text a b \<noteq> []"
  by (simp add: or_text_def)

lemma failed_sel [simp]: "j_error (failed_job w m p) = m" "\<not> j_success (failed_job w m p)" "\<not> j_done (failed_job w m p)"
  by (simp_all add: failed_job_def)

lemma collect_sel:
  "collect e b i w rd sid d0 h1 = (res, d, h) \<Longrightarrow> j_error res = [] \<and> (j_success res \<longleftrightarrow> b \<noteq> ''pw.x'' \<or> j_done res)
     \<and> (\<exists>cs. h = h1 @ cs)"
  by (auto simp: collect_def Let_def split: prod.splits dest: download_pair)

lemma stage_hist [simp]: "x_hist (snd (ssh_stage se e u x)) = x_hist x"
  by (simp add: ssh_stage_def Let_def)

lemma tool_end_result:
  assumes here: "l_exists (e_local e) (x_disk x) input_file"
    and returned: "run_remote_tool se e fuel binary input_file workdir timeout x = Some (got, x')"
  shows "\<exists>res. got = Inr res \<and> tool_end se e binary x res x'"
proof -
  let ?i = "tool_job_id e binary" let ?rd = "remote_job_dir se ?i"
  let ?ld = "if l_is_dir (e_local e) (x_disk x) workdir then workdir else parent_dir input_file"
  obtain hd x0 where st: "ssh_stage se e (Some ?i) x = (hd, x0)" by fastforce
  have h0: "x_hist x0 = x_hist x" using stage_hist [of se e "Some ?i" x] st by simp
  obtain bad h1 where u: "upload_dir (e_runner e) (e_local e) (x_disk x) (x_hist x) ?ld ?rd = (bad, h1)" by fastforce
  note c1 = upload_pair [OF u]
  note run = returned [unfolded run_remote_tool_def Let_def st prod.case h0 u, simplified here not_True_eq_False if_False]
  have E: "\<exists>res. got = Inr res \<and> tool_end se e binary x res x'"
    if "got = Inr res" "x' = put_rec ?i ((new_rec ?rd)\<lparr>r_state := stt, r_sched := sid\<rparr>) (x0\<lparr>x_hist := h, x_disk := d\<rparr>)"
      "\<exists>cs. h = x_hist x @ cs" "stt \<in> {''completed'', ''failed'', ''timeout''}" "stt = ''completed'' \<longleftrightarrow> j_error res = []"
      "j_success res \<longleftrightarrow> j_error res = [] \<and> (binary \<noteq> ''pw.x'' \<or> j_done res)" for res stt sid h d
  proof -
    have "tool_end se e binary x res x'"
      unfolding tool_end_def st Let_def prod.case
      by (rule exI [of _ "(new_rec ?rd)\<lparr>r_state := stt, r_sched := sid\<rparr>"], rule exI [of _ h], rule exI [of _ d])
        (use that in simp)
    with that(1) show ?thesis by blast
  qed
  have C: "\<exists>res. got = Inr res \<and> tool_end se e binary x res x'"
    if "collect e binary input_file workdir ?rd sid (x_disk x) h = (res, d', h')" "\<exists>cs. h = x_hist x @ cs" "got = Inr res"
      "x' = put_rec ?i ((new_rec ?rd)\<lparr>r_state := ''completed'', r_sched := sid\<rparr>) (x0\<lparr>x_hist := h', x_disk := d'\<rparr>)" for sid h res d' h'
    using collect_sel [OF that(1)] that(2) by (intro E [OF that(3,4)]) auto
  show ?thesis
  proof (cases bad)
    case (Some exc)
    with run c1 show ?thesis by (intro E [where stt = "''failed''"]) auto
  next
    case ok: None
    show ?thesis
    proof (cases "se_adapter se")
      case no: None
      obtain res h2 where d: "run_direct se (e_runner e) h1 ?rd binary (base_name input_file) timeout = (res, h2)" by fastforce
      note c2 = chain [OF c1 direct_pair [OF d]]
      show ?thesis
      proof (cases "ok res")
        case True
        obtain res' d' h' where c: "collect e binary input_file workdir ?rd None (x_disk x) h2 = (res', d', h')" by (metis prod_cases3)
        from True run ok no d c show ?thesis by (intro C [OF c c2]) auto
      next
        case False
        obtain f d' h3 where dl: "download_dir (e_runner e) (e_local e) (x_disk x) h2 ?rd workdir = (f, d', h3)" by (metis prod_cases3)
        from False run ok no d chain [OF c2 download_pair [OF dl]] dl show ?thesis
          by (intro E [where stt = "''failed''"]) (auto simp: or_text_right)
      qed
    next
      case (Some a)
      obtain s h2 where d: "submit_scheduler se a (e_runner e) (e_now e) h1 ?rd (base_name input_file) ?i binary = (s, h2)"
        by fastforce
      obtain g m sid where s: "s = Inr (g, m, sid)" using submit_scheduler_runs [OF d] by blast
      note c2 = chain [OF c1 scheduler_pair [OF d]]
      show ?thesis
      proof (cases g)
        case False
        with run ok Some d s c2 show ?thesis by (intro E [where stt = "''failed''"]) auto
      next
        case True
        let ?p = "poll_scheduler a (e_runner e) (e_clock e) (walltime_of se timeout) (case sid of Some s \<Rightarrow> s | None \<Rightarrow> []) fuel h2"
        have g: "g = True" using True by simp
        note run' = run [unfolded ok Some d s option.case sum.case prod.case g not_True_eq_False if_False]
        have "?p \<noteq> None"
        proof
          assume "?p = None"
          from run' [unfolded this option.case] show False by simp
        qed
        then obtain t h3 where p: "?p = Some (t, h3)" by fastforce
        have c3: "\<exists>cs. h3 = x_hist x @ cs" by (rule chain [OF c2 hist_poll [OF p [unfolded poll_scheduler_def]]])
        show ?thesis
        proof (cases "t = Some JCompleted")
          case True
          obtain res' d' h' where c: "collect e binary input_file workdir ?rd sid (x_disk x) h3 = (res', d', h')" by (metis prod_cases3)
          from run' [unfolded p True option.case prod.case job_status.case c] show ?thesis by (intro C [OF c c3]) simp_all
        next
          case False
          then have "got = Inr ((failed_job (e_elapsed e) (''job ended in state '' @
                (case t of Some s \<Rightarrow> job_status_value s | None \<Rightarrow> ''timeout'')) (Some ?rd))\<lparr>j_sched_id := sid\<rparr>)
              \<and> x' = put_rec ?i ((new_rec ?rd)\<lparr>r_state := (if t = None then ''timeout'' else ''failed''), r_sched := sid\<rparr>)
                   (x0\<lparr>x_hist := h3, x_disk := x_disk x\<rparr>)"
            using run' [unfolded p prod.case] by (cases t; cases "the t") simp_all
          with c3 show ?thesis by (intro E [where stt = "if t = None then ''timeout'' else ''failed''"]) auto
        qed
      qed
    qed
  qed
qed

lemma tool_end_facts:
  assumes "tool_end se e binary x res x'"
  shows "j_success res \<longleftrightarrow> j_error res = [] \<and> (binary \<noteq> ''pw.x'' \<or> j_done res)"
    and "\<exists>j. dget (x_jobs x') (tool_job_id e binary) = Some j \<and> r_state j \<in> {''completed'', ''failed'', ''timeout''}
       \<and> (r_state j = ''completed'' \<longleftrightarrow> j_error res = [])"
    and "k \<noteq> tool_job_id e binary \<Longrightarrow> dget (x_jobs x') k = dget (x_jobs x) k"
    and "later x x'"
proof -
  let ?i = "tool_job_id e binary"
  obtain hd x0 where st: "ssh_stage se e (Some ?i) x = (hd, x0)" by fastforce
  then have x0: "x_jobs x0 = dput (case set_opt (Some ?i) of Some u \<Rightarrow> u | None \<Rightarrow> e_uuid e) (new_rec (remote_job_dir se (case set_opt (Some ?i) of Some u \<Rightarrow> u | None \<Rightarrow> e_uuid e))) (x_jobs x)"
    "x_hist x0 = x_hist x" by (auto simp: ssh_stage_def Let_def)
  have i: "set_opt (Some ?i) = Some ?i" by (simp add: set_opt_def tool_job_id_def)
  from assms obtain j h d where
    j: "\<exists>cs. h = x_hist x @ cs" "r_state j \<in> {''completed'', ''failed'', ''timeout''}" "r_state j = ''completed'' \<longleftrightarrow> j_error res = []"
      "j_success res \<longleftrightarrow> j_error res = [] \<and> (binary \<noteq> ''pw.x'' \<or> j_done res)"
      "x' = put_rec ?i j (x0\<lparr>x_hist := h, x_disk := d\<rparr>)"
    unfolding tool_end_def st Let_def prod.case by blast
  show "j_success res \<longleftrightarrow> j_error res = [] \<and> (binary \<noteq> ''pw.x'' \<or> j_done res)" by (rule j)
  show "\<exists>j. dget (x_jobs x') ?i = Some j \<and> r_state j \<in> {''completed'', ''failed'', ''timeout''}
       \<and> (r_state j = ''completed'' \<longleftrightarrow> j_error res = [])"
    using j by (simp add: pydict)
  show "k \<noteq> ?i \<Longrightarrow> dget (x_jobs x') k = dget (x_jobs x) k" using j x0 i by (simp add: pydict)
  have "later x x0" using stage_later [of x se e "Some ?i"] st by simp
  also have "later x0 x'" unfolding j(5) using j(1,2) x0(2) by (intro later_leave(2)) auto
  finally show "later x x'" .
qed

text \<open>
  C17. What a remote run reports and records. The result is a value, never an exception. It is a
  success exactly if there is no error message and, for \<open>pw.x\<close>, the output says JOB DONE. If the input file exists, the
  job's own record ends as completed, failed or timed out, completed exactly if there is no error message;
  no other record has changed and the commands sent come after the earlier ones.
\<close>

theorem remote_tool_result:
  assumes "run_remote_tool se e fuel binary input_file workdir timeout x = Some (got, x')"
  shows "\<exists>res. got = Inr res
     \<and> (j_success res \<longleftrightarrow> j_error res = [] \<and> (binary \<noteq> ''pw.x'' \<or> j_done res))
     \<and> (if l_exists (e_local e) (x_disk x) input_file
        then \<exists>j. dget (x_jobs x') (tool_job_id e binary) = Some j \<and> r_state j \<in> {''completed'', ''failed'', ''timeout''}
             \<and> (r_state j = ''completed'' \<longleftrightarrow> j_error res = [])
        else x' = x \<and> j_error res \<noteq> [])
     \<and> (\<forall>k. k \<noteq> tool_job_id e binary \<longrightarrow> dget (x_jobs x') k = dget (x_jobs x) k)
     \<and> (\<exists>cs. x_hist x' = x_hist x @ cs)"
proof (cases "l_exists (e_local e) (x_disk x) input_file")
  case True
  from tool_end_result [OF True assms] obtain res where r: "got = Inr res" "tool_end se e binary x res x'" by blast
  from tool_end_facts [OF r(2)] show ?thesis unfolding r(1) using True by (auto simp: later_def)
next
  case False
  then show ?thesis using assms by (auto simp: run_remote_tool_def)
qed

lemma tool_later: "run_remote_tool se e fuel binary input_file workdir timeout x = Some (got, x') \<Longrightarrow> later x x'"
  using tool_end_result [of e x input_file se fuel binary workdir timeout got x'] tool_end_facts(4)
  by (cases "l_exists (e_local e) (x_disk x) input_file") (auto simp: run_remote_tool_def)

lemma some_intros:
  "(b \<Longrightarrow> y \<noteq> None) \<Longrightarrow> (\<not> b \<Longrightarrow> z \<noteq> None) \<Longrightarrow> (if b then y else z) \<noteq> None"
  "(ov = None \<Longrightarrow> y \<noteq> None) \<Longrightarrow> (\<And>v. ov = Some v \<Longrightarrow> f v \<noteq> None) \<Longrightarrow> (case ov of None \<Rightarrow> y | Some v \<Rightarrow> f v) \<noteq> None"
  "(\<And>v. sv = Inl v \<Longrightarrow> fl v \<noteq> None) \<Longrightarrow> (\<And>v. sv = Inr v \<Longrightarrow> fr v \<noteq> None)
     \<Longrightarrow> (case sv of Inl v \<Rightarrow> fl v | Inr v \<Rightarrow> fr v) \<noteq> None"
  "(\<And>v w. pv = (v, w) \<Longrightarrow> g v w \<noteq> None) \<Longrightarrow> (case pv of (v, w) \<Rightarrow> g v w) \<noteq> None"
  "a1 \<noteq> None \<Longrightarrow> a2 \<noteq> None \<Longrightarrow> a3 \<noteq> None \<Longrightarrow> a4 \<noteq> None \<Longrightarrow> a5 \<noteq> None \<Longrightarrow> a6 \<noteq> None \<Longrightarrow>
   (case js of JPending \<Rightarrow> a1 | JRunning \<Rightarrow> a2 | JCompleted \<Rightarrow> a3 | JFailed \<Rightarrow> a4 | JCancelled \<Rightarrow> a5 | JTimeout \<Rightarrow> a6) \<noteq> None"
  "Some u \<noteq> None"
  by (simp_all split: option.split sum.split prod.split job_status.split)

text \<open>
  C18. A remote run comes back. If a turn of the polling loop takes at least its five seconds, the
  fuel that covers the wall time and a minute is enough.
\<close>

theorem remote_tool_returns:
  assumes slow: "\<And>n. e_clock e n + 5 \<le> e_clock e (Suc n)" and fuel: "walltime_of se timeout + 60 \<le> 5 * of_nat fuel"
  shows "\<exists>res x'. run_remote_tool se e (Suc fuel) binary input_file workdir timeout x = Some (Inr res, x')"
proof -
  have "run_remote_tool se e (Suc fuel) binary input_file workdir timeout x \<noteq> None"
  proof -
    have p: "poll_scheduler a r (e_clock e) (walltime_of se timeout) sid (Suc fuel) h \<noteq> None" for a r sid h
      using poll_scheduler_returns [of "e_clock e", OF slow fuel] by fastforce
    show ?thesis
      unfolding run_remote_tool_def Let_def by (intro some_intros) (use p in \<open>auto simp del: poll.simps\<close>)
  qed
  then obtain got x' where g: "run_remote_tool se e (Suc fuel) binary input_file workdir timeout x = Some (got, x')" by auto
  show ?thesis
  proof (cases "l_exists (e_local e) (x_disk x) input_file")
    case True
    from tool_end_result [OF True g] g show ?thesis by auto
  next
    case False
    then show ?thesis by (simp add: run_remote_tool_def)
  qed
qed

text \<open>All the ways the executor is used, one call at a time.\<close>

inductive ssh_step :: "ssh_exec \<Rightarrow> 'd exec_state \<Rightarrow> 'd exec_state \<Rightarrow> bool" for se where
  do_stage: "ssh_step se x (snd (ssh_stage se e u x))"
| do_submit: "ssh_step se x (snd (ssh_submit se e hdl input_file workdir binary x))"
| do_status: "ssh_step se x (snd (ssh_status se e hdl x))"
| do_fetch: "ssh_step se x (snd (ssh_fetch e hdl dest x))"
| do_cancel: "ssh_step se x (snd (ssh_cancel se e hdl x))"
| do_cancel_all: "ssh_step se x (snd (ssh_cancel_all se e x))"
| do_tool: "run_remote_tool se e fuel binary input_file workdir timeout x = Some (got, x') \<Longrightarrow> ssh_step se x x'"

lemma step_later: "ssh_step se x x' \<Longrightarrow> later x x'"
  by (induction rule: ssh_step.induct)
    (auto simp: stage_later submit_later status_later fetch_later cancel_later ssh_cancel_all_def cancel_list_later
      intro: tool_later)

text \<open>
  C23. The registry under any use. Whatever sequence of calls is made, with whatever answers of
  the other machine: every record stays in a state the status table knows, no job disappears from the registry,
  and the commands sent form one growing sequence.
\<close>

theorem registry_tracks:
  assumes "(ssh_step se)\<^sup>*\<^sup>* x x'"
  shows "(jobs_ok (x_jobs x) \<longrightarrow> jobs_ok (x_jobs x')) \<and> set (dkeys (x_jobs x)) \<subseteq> set (dkeys (x_jobs x'))
     \<and> (\<exists>cs. x_hist x' = x_hist x @ cs)"
proof -
  from assms have "later x x'"
    by (induction rule: rtranclp_induct) (auto intro: later_trans step_later)
  then show ?thesis by (simp add: later_def)
qed

section \<open>Where the reports mislead\<close>

text \<open>
  C24. A run that was cut off counts as done. If the upload worked and the answer to the command
  that runs the program carries no exit marker (the connection broke, the runner gave up waiting: whatever its
  exit code), a tool other than \<open>pw.x\<close> is reported as a success and its record as completed.
\<close>

theorem lost_run_succeeds:
  assumes here: "l_exists (e_local e) (x_disk x) input_file" and direct: "se_adapter se = None"
    and up: "upload_dir (e_runner e) (e_local e) (x_disk x) (x_hist x)
        (if l_is_dir (e_local e) (x_disk x) workdir then workdir else parent_dir input_file)
        (remote_job_dir se (tool_job_id e binary)) = (None, h1)"
    and cut: "search_group 1 RE_EXIT (out (e_runner e h1 (direct_cmd se (remote_job_dir se (tool_job_id e binary)) binary
        (base_name input_file) (int_of_float (walltime_of se timeout))))) = None"
    and tool: "binary \<noteq> ''pw.x''"
  shows "\<exists>res x' j. run_remote_tool se e fuel binary input_file workdir timeout x = Some (Inr res, x') \<and> j_success res
     \<and> j_exit_code res = 0 \<and> dget (x_jobs x') (tool_job_id e binary) = Some j \<and> r_state j = ''completed''"
proof -
  let ?i = "tool_job_id e binary" let ?rd = "remote_job_dir se ?i"
  obtain hd x0 where st: "ssh_stage se e (Some ?i) x = (hd, x0)" by fastforce
  have h0: "x_hist x0 = x_hist x" using stage_hist [of se e "Some ?i" x] st by simp
  obtain res h2 where d: "run_direct se (e_runner e) h1 ?rd binary (base_name input_file) timeout = (res, h2)" by fastforce
  have good: "ok res" using d cut by (auto simp: run_direct_def run_def exit_of_def ok_def Let_def)
  obtain res' d' h' where c: "collect e binary input_file workdir ?rd None (x_disk x) h2 = (res', d', h')" by (metis prod_cases3)
  have run: "run_remote_tool se e fuel binary input_file workdir timeout x =
      Some (Inr res', put_rec ?i ((new_rec ?rd)\<lparr>r_state := ''completed'', r_sched := None\<rparr>) (x0\<lparr>x_hist := h', x_disk := d'\<rparr>))"
    unfolding run_remote_tool_def Let_def st prod.case h0 up direct option.case d c using here good by simp
  have "j_exit_code res' = 0" "j_success res'"
    using c tool by (auto simp: collect_def Let_def split: prod.splits)
  with run show ?thesis by (simp add: pydict)
qed

lemma cancel_other: "k \<noteq> h_job_id hdl \<Longrightarrow> dget (x_jobs (snd (ssh_cancel se e hdl x))) k = dget (x_jobs x) k"
  by (auto simp: ssh_cancel_def Let_def pydict split: option.split prod.split)

lemma cancel_list_other:
  "(\<forall>j. (k, j) \<in> set js \<longrightarrow> r_state j \<notin> set LIVE) \<Longrightarrow> dget (x_jobs (snd (cancel_list se e js x))) k = dget (x_jobs x) k"
proof (induction js arbitrary: x)
  case (Cons p js)
  obtain i j where p: "p = (i, j)" by fastforce
  have rest: "\<forall>j. (k, j) \<in> set js \<longrightarrow> r_state j \<notin> set LIVE" using Cons.prems by simp
  show ?case
  proof (cases "r_state j \<in> set LIVE")
    case False
    then show ?thesis using Cons.IH [OF rest, of x] by (simp add: p)
  next
    case True
    then have "k \<noteq> i" using Cons.prems by (auto simp: p)
    obtain g x1 where c: "ssh_cancel se e \<lparr>h_job_id = i, h_remote_path = r_path j\<rparr> x = (g, x1)" by fastforce
    have "dget (x_jobs x1) k = dget (x_jobs x) k"
      using cancel_other [of k "\<lparr>h_job_id = i, h_remote_path = r_path j\<rparr>" se e x] \<open>k \<noteq> i\<close> c by simp
    then show ?thesis using Cons.IH [OF rest, of x1] True c by (cases "cancel_list se e js x1") (simp add: p)
  qed
qed simp

text \<open>
  C25. A queued job that was asked about slips away. Before the question a submitted job cannot be
  fetched. Once \<open>status\<close> has answered that it is pending, its record says so, fetching it succeeds although it
  has not started, and \<open>cancel_all\<close> leaves it in the queue: its record does not change.
\<close>

theorem pending_job_escapes:
  assumes job: "dget (x_jobs x) (h_job_id hdl) = Some j" "wf_dict (x_jobs x)" "r_state j = ''submitted''"
    and sched: "se_adapter se = Some a" "r_sched j = Some sid" "sid \<noteq> []"
    and pending: "fst (get_job_status a (e_runner e) (x_hist x) sid) = Some JPending"
  shows "\<not> f_success (fst (ssh_fetch e hdl dest x))
     \<and> (let (s, x1) = ssh_status se e hdl x in s = JPending \<and> f_success (fst (ssh_fetch e' hdl dest' x1))
          \<and> dget (x_jobs (snd (ssh_cancel_all se e' x1))) (h_job_id hdl) = Some (j\<lparr>r_state := ''pending''\<rparr>))"
proof -
  obtain h' where q: "get_job_status a (e_runner e) (x_hist x) sid = (Some JPending, h')"
    using pending by (cases "get_job_status a (e_runner e) (x_hist x) sid") auto
  let ?x1 = "put_rec (h_job_id hdl) (j\<lparr>r_state := ''pending''\<rparr>) (x\<lparr>x_hist := h'\<rparr>)"
  have st: "ssh_status se e hdl x = (JPending, ?x1)" using job sched q by (simp add: ssh_status_def set_opt_def)
  have rec: "dget (x_jobs ?x1) (h_job_id hdl) = Some (j\<lparr>r_state := ''pending''\<rparr>)" by (simp add: pydict)
  have no: "\<not> f_success (fst (ssh_fetch e hdl dest x))" using job by (simp add: ssh_fetch_def LIVE_def)
  have f: "f_success (fst (ssh_fetch e' hdl dest' ?x1))"
    using rec by (auto simp: ssh_fetch_def LIVE_def Let_def split: prod.split)
  have "wf_dict (x_jobs ?x1)" using job by (simp add: pydict)
  then have "j' = j\<lparr>r_state := ''pending''\<rparr>" if "(h_job_id hdl, j') \<in> set (x_jobs ?x1)" for j'
    using rec that unfolding wf_dict_def dget_def by (metis map_of_eq_Some_iff option.sel)
  from arg_cong [where f = r_state, OF this] have "\<forall>j'. (h_job_id hdl, j') \<in> set (x_jobs ?x1) \<longrightarrow> r_state j' \<notin> set LIVE"
    by (simp add: LIVE_def del: put_rec_sel)
  from cancel_list_other [OF this, of se e' ?x1] rec have
    "dget (x_jobs (snd (ssh_cancel_all se e' ?x1))) (h_job_id hdl) = Some (j\<lparr>r_state := ''pending''\<rparr>)"
    by (simp add: ssh_cancel_all_def)
  with no f st show ?thesis by simp
qed

section \<open>Concrete runs\<close>

definition demo_exec :: "adapter option \<Rightarrow> ssh_exec" where
  "demo_exec a = \<lparr>se_root = ''/r'', se_bin = ''/q'', se_adapter = a, se_walltime = 10\<rparr>"

text \<open>The machine answers everything but the run of the program, during which the connection breaks.\<close>

definition broken :: runner where
  "broken h c = (if take 3 c = ''cd '' then \<lparr>exit_code = 255, out = [], err = ''closed''\<rparr>
     else \<lparr>exit_code = 0, out = [], err = []\<rparr>)"

text \<open>A queue in which the job waits.\<close>

definition queued :: runner where
  "queued h c = \<lparr>exit_code = 0, out = ''42|PENDING'', err = []\<rparr>"

definition demo_env :: "runner \<Rightarrow> unit env" where
  "demo_env r = \<lparr>e_runner = r,
     e_local = \<lparr>l_exists = (\<lambda>_ _. True), l_is_dir = (\<lambda>_ _. True), l_tar = (\<lambda>_ _. Inr ''QQ==''),
       l_unpack = (\<lambda>d _ _. (d, [])), l_text = (\<lambda>_ _. None)\<rparr>,
     e_now = 0, e_clock = (\<lambda>n. 5 * of_nat n), e_elapsed = Fin 1, e_uuid = ''0a''\<rparr>"

definition demo_state :: "unit exec_state" where
  "demo_state = \<lparr>x_hist = [], x_disk = (),
     x_jobs = [(''j'', \<lparr>r_path = ''/r/j'', r_state = ''submitted'', r_sched = Some ''42'', r_error = None\<rparr>)]\<rparr>"

lemmas demo_defs = demo_exec_def demo_env_def demo_state_def broken_def queued_def

theorem upload_transfers_witness:
  "foldl sh_run (\<lambda>_. None) (upload_cmds ''QQ=='' ''/a b'') ''/a b.b64'' = Some ''QQ==''
   \<and> list_all (\<lambda>c. length c \<le> B64_CHUNK + length (shlex_quote ''/a b.b64'') + 16) (tl (upload_cmds ''QQ=='' ''/a b''))"
proof -
  have "list_all sh_safe ''QQ==''" by code_simp
  with upload_transfers [of "\<lambda>_. None" "''QQ==''" "''/a b''"] show ?thesis by (simp add: Let_def list_all_iff)
qed

theorem polling_ends_witness:
  "\<exists>s cs. poll_scheduler Slurm queued (\<lambda>n. 5 * of_nat n) 10 ''42'' (Suc 14) [] = Some (s, cs) \<and> length cs \<le> 28"
  using polling_ends [of "\<lambda>n. 5 * of_nat n" 10 14 Slurm queued "''42''" "[]"] by auto

theorem remote_tool_returns_witness:
  "\<exists>res x'. run_remote_tool (demo_exec (Some Slurm)) (demo_env queued) (Suc 14) ''pw.x'' ''/w/a.in'' ''/w'' None demo_state
     = Some (Inr res, x')"
  by (rule remote_tool_returns) (simp_all add: demo_defs walltime_of_def)

theorem registry_tracks_witness:
  "jobs_ok (x_jobs (snd (ssh_cancel_all (demo_exec None) (demo_env broken) demo_state)))"
proof -
  have "jobs_ok (x_jobs demo_state)"
    by (auto simp: demo_state_def jobs_ok_def wf_dict_def dget_def split: if_splits)
  moreover have "(ssh_step (demo_exec None))\<^sup>*\<^sup>* demo_state (snd (ssh_cancel_all (demo_exec None) (demo_env broken) demo_state))"
    by (rule r_into_rtranclp, rule do_cancel_all)
  ultimately show ?thesis using registry_tracks by blast
qed

theorem lost_run_succeeds_witness:
  "\<exists>res x' j. run_remote_tool (demo_exec None) (demo_env broken) 1 ''bands.x'' ''/w/a.in'' ''/w'' None demo_state
     = Some (Inr res, x') \<and> j_success res \<and> j_exit_code res = 0
     \<and> dget (x_jobs x') (tool_job_id (demo_env broken) ''bands.x'') = Some j \<and> r_state j = ''completed''"
proof (rule lost_run_succeeds)
  show "search_group 1 RE_EXIT (out (e_runner (demo_env broken) h1 (direct_cmd (demo_exec None)
      (remote_job_dir (demo_exec None) (tool_job_id (demo_env broken) ''bands.x'')) ''bands.x''
      (base_name ''/w/a.in'') (int_of_float (walltime_of (demo_exec None) None))))) = None" for h1
  proof -
    have "out (e_runner (demo_env broken) h1 (direct_cmd se rd b n w)) = []" for se rd b n w
      by (simp add: demo_env_def broken_def direct_cmd_def)
    moreover have "search_group 1 RE_EXIT [] = None" by code_simp
    ultimately show ?thesis by simp
  qed
  show "upload_dir (e_runner (demo_env broken)) (e_local (demo_env broken)) (x_disk demo_state) (x_hist demo_state)
     (if l_is_dir (e_local (demo_env broken)) (x_disk demo_state) ''/w'' then ''/w'' else parent_dir ''/w/a.in'')
     (remote_job_dir (demo_exec None) (tool_job_id (demo_env broken) ''bands.x'')) =
    (None, run_all broken [] (upload_cmds ''QQ=='' (remote_job_dir (demo_exec None) (tool_job_id (demo_env broken) ''bands.x'')))
      @ [untar_cmd (remote_job_dir (demo_exec None) (tool_job_id (demo_env broken) ''bands.x''))])"
    by (simp add: upload_dir_def run_def demo_env_def demo_state_def broken_def untar_cmd_def ok_def)
qed (simp_all add: demo_defs)

theorem pending_job_escapes_witness:
  "let (s, x1) = ssh_status (demo_exec (Some Slurm)) (demo_env queued) \<lparr>h_job_id = ''j'', h_remote_path = ''/r/j''\<rparr> demo_state in
     s = JPending \<and> f_success (fst (ssh_fetch (demo_env queued) \<lparr>h_job_id = ''j'', h_remote_path = ''/r/j''\<rparr> ''/d'' x1))"
proof -
  have p: "fst (slurm_status queued [] ''42'') = Some JPending" by code_simp
  show ?thesis
    using pending_job_escapes [of demo_state "\<lparr>h_job_id = ''j'', h_remote_path = ''/r/j''\<rparr>"
        "\<lparr>r_path = ''/r/j'', r_state = ''submitted'', r_sched = Some ''42'', r_error = None\<rparr>" "demo_exec (Some Slurm)" Slurm
        "''42''" "demo_env queued" "''/d''" "demo_env queued" "''/d''"] p
    by (simp add: demo_exec_def demo_env_def demo_state_def dget_def wf_dict_def split: prod.splits)
qed

theorem remote_tool_result_witness:
  "\<exists>res x'. run_remote_tool (demo_exec None) (demo_env broken) 1 ''pw.x'' ''/w/a.in'' ''/w'' None demo_state = Some (Inr res, x')
     \<and> (j_success res \<longleftrightarrow> j_error res = [] \<and> j_done res)"
proof -
  have "run_remote_tool (demo_exec None) (demo_env broken) 1 ''pw.x'' ''/w/a.in'' ''/w'' None demo_state \<noteq> None"
    unfolding run_remote_tool_def Let_def by (intro some_intros) (simp_all add: demo_exec_def)
  then obtain got x' where g: "run_remote_tool (demo_exec None) (demo_env broken) 1 ''pw.x'' ''/w/a.in'' ''/w'' None demo_state
      = Some (got, x')" by fastforce
  from remote_tool_result [OF this] g show ?thesis by auto
qed

end
