(* ===== verification/Local_Executor.thy ===== *)
theory Local_Executor
  imports Ssh_Executor
begin

text \<open>
  The executors on the same machine (\<open>LocalExecutor\<close> and \<open>FakeExecutor\<close> of \<open>executor.py\<close>) and the loop of the
  task runner that drives any executor (\<open>_execute_pw\<close> of \<open>runner.py\<close>).

  \<^item> What a started program does is given: it could not be started, it ran past the time limit, or it ended with a
    return code (negative: the signal that killed it) and two texts.
  \<^item> The disk is any type with the operations the code uses.
\<close>

section \<open>The local executor\<close>

datatype proc = Launch_Error string | Timed_Out string string | Exited int string string

record 'd disk_ops =
  k_exists :: "'d \<Rightarrow> string \<Rightarrow> bool"
  k_write :: "'d \<Rightarrow> string \<Rightarrow> string \<Rightarrow> 'd"
  k_files :: "'d \<Rightarrow> string \<Rightarrow> string list"
  k_elapsed :: pyfloat

record local_exec =
  le_bin :: string
  le_walltime :: pyval
  le_workdir :: "string option"

text \<open>The constructor looks for \<open>pw.x\<close>.\<close>

definition validate_bins :: "'d disk_ops \<Rightarrow> 'd \<Rightarrow> local_exec \<Rightarrow> py_exc + unit" where
  "validate_bins k d le = (let p = in_dir (le_bin le) ''pw.x'' in
     if k_exists k d p then Inr () else Inl (FileNotFound (''QE binary not found: '' @ p)))"

text \<open>The files of the save directory in order (\<open>k_files\<close> lists a directory's files, sorted), then the six kinds
  of output that are there.\<close>

definition OUTPUT_EXTS :: "string list" where
  "OUTPUT_EXTS = [''xml'', ''out'', ''bands.dat'', ''dos.dat'', ''proj.dat'', ''pdos.dat'']"

definition find_outputs :: "'d disk_ops \<Rightarrow> 'd \<Rightarrow> string \<Rightarrow> string \<Rightarrow> string list" where
  "find_outputs k d workdir prefix =
    (let save = in_dir workdir (prefix @ ''.save'') in
     (if k_exists k d save then k_files k d save else [])
     @ filter (k_exists k d) (map (\<lambda>ext. in_dir workdir (prefix @ ''.'' @ ext)) OUTPUT_EXTS))"

definition was_cancelled :: "int \<Rightarrow> bool" where
  "was_cancelled returncode = (returncode < 0)"

definition limit_of :: "local_exec \<Rightarrow> pyval option \<Rightarrow> pyval" where
  "limit_of le timeout = (case timeout of Some v \<Rightarrow> if py_true v then v else le_walltime le | None \<Rightarrow> le_walltime le)"

definition local_run_tool ::
  "'d disk_ops \<Rightarrow> local_exec \<Rightarrow> proc \<Rightarrow> string \<Rightarrow> string \<Rightarrow> string \<Rightarrow> pyval option \<Rightarrow> 'd \<Rightarrow> job_result \<times> 'd" where
  "local_run_tool k le p binary input_file workdir timeout d =
    (if \<not> k_exists k d input_file then (failed_job (Fin 0) (''Input file not found: '' @ input_file) None, d)
     else if \<not> k_exists k d (in_dir (le_bin le) binary)
     then (failed_job (Fin 0) (''Binary not found: '' @ in_dir (le_bin le) binary) None, d)
     else case p of
       Launch_Error msg \<Rightarrow>
         (failed_job (k_elapsed k) (''failed to launch '' @ binary @ '': '' @ msg) (Some workdir), d)
     | Timed_Out o1 e1 \<Rightarrow>
         ((failed_job (k_elapsed k) (binary @ '' timed out after '' @ py_str (limit_of le timeout) @ ''s'') (Some workdir))
            \<lparr>j_stdout := o1, j_stderr := e1\<rparr>, d)
     | Exited rc o1 e1 \<Rightarrow>
         let st = stem input_file;
             d1 = k_write k (k_write k d (in_dir workdir (st @ ''.out'')) o1) (in_dir workdir (st @ ''.err'')) e1 in
         (\<lparr>j_success = (if was_cancelled rc then False else rc = 0), j_exit_code = rc, j_stdout = o1, j_stderr = e1,
           j_files = find_outputs k d1 workdir st, j_walltime = k_elapsed k, j_done = False, j_converged = False,
           j_error = (if was_cancelled rc then binary @ '' cancelled by user'' else if rc \<noteq> 0 then take 1000 e1 else []),
           j_sched_id = None, j_remote = Some workdir\<rparr>, d1))"

definition run_pw_local ::
  "'d disk_ops \<Rightarrow> local_exec \<Rightarrow> proc \<Rightarrow> string \<Rightarrow> string \<Rightarrow> pyval option \<Rightarrow> 'd \<Rightarrow> job_result \<times> 'd" where
  "run_pw_local k le p input_file workdir timeout d =
    (let (res, d') = local_run_tool k le p ''pw.x'' input_file workdir timeout d;
         low = lower (j_stdout res); fin = contains ''job done'' low in
     (res\<lparr>j_done := fin,
          j_converged := contains ''convergence has been achieved'' low \<or> contains ''scf has been achieved'' low,
          j_success := j_exit_code res = 0 \<and> fin\<rparr>, d'))"

text \<open>\<open>submit\<close> runs to the end; the handle keeps the result.\<close>

record local_handle = job_handle +
  lh_result :: "job_result option"

definition local_stage :: "string \<Rightarrow> local_handle" where
  "local_stage input_file = \<lparr>h_job_id = stem input_file, h_remote_path = parent_dir input_file, lh_result = None\<rparr>"

definition local_submit ::
  "'d disk_ops \<Rightarrow> local_exec \<Rightarrow> proc \<Rightarrow> string \<Rightarrow> local_handle \<Rightarrow> 'd \<Rightarrow> local_handle \<times> 'd" where
  "local_submit k le p input_file hdl d =
    (let workdir = (case le_workdir le of Some w \<Rightarrow> w | None \<Rightarrow> parent_dir input_file);
         (res, d') = run_pw_local k le p input_file workdir None d in
     (hdl\<lparr>lh_result := Some res,
          h_remote_path := (case set_opt (j_remote res) of Some r \<Rightarrow> r | None \<Rightarrow> h_remote_path hdl)\<rparr>, d'))"

definition local_status :: "local_handle \<Rightarrow> job_status" where
  "local_status hdl =
    (case lh_result hdl of
       None \<Rightarrow> JPending
     | Some res \<Rightarrow>
         if j_success res then JCompleted
         else if j_exit_code res = - 1 \<and> contains ''timed out'' (j_error res) then JTimeout else JFailed)"

section \<open>Stopping a process\<close>

text \<open>The signals a group gets: none when the process is over; the second when it outlives the grace period.\<close>

datatype signal = SIGTERM | SIGKILL

definition terminate_group :: "bool \<Rightarrow> bool \<Rightarrow> signal list" where
  "terminate_group gone dies_in_grace = (if gone then [] else if dies_in_grace then [SIGTERM] else [SIGTERM, SIGKILL])"

text \<open>\<open>cancel_all\<close> over the running table: a process by whether it is over and whether it dies in the grace period.\<close>

definition local_cancel_all :: "(int \<times> bool \<times> bool) list \<Rightarrow> nat \<times> (int \<times> signal list) list" where
  "local_cancel_all running = (let procs = filter (\<lambda>(pid, gone, dies). \<not> gone) running in
     (length procs, map (\<lambda>(pid, gone, dies). (pid, terminate_group gone dies)) procs))"

section \<open>The fake executor\<close>

record fake_exec =
  fk_mode :: string
  fk_stdout :: string
  fk_cancelled :: "string list"

definition fake_status :: "fake_exec \<Rightarrow> string \<Rightarrow> job_status" where
  "fake_status fk i = (if i \<in> set (fk_cancelled fk) then JCancelled else if fk_mode fk = ''timeout'' then JRunning
     else if fk_mode fk = ''failure'' then JFailed else JCompleted)"

definition fake_fetch :: "fake_exec \<Rightarrow> string \<Rightarrow> fetch_result" where
  "fake_fetch fk destination =
    (if fk_mode fk = ''failure''
     then \<lparr>f_success = False, f_destination = destination, f_files = [], f_stdout_file = None, f_stderr_file = None,
           f_error = ''fake failure''\<rparr>
     else \<lparr>f_success = True, f_destination = destination, f_files = [in_dir destination ''fake.out''],
           f_stdout_file = Some (in_dir destination ''fake.out''), f_stderr_file = None, f_error = []\<rparr>)"

definition fake_cancel :: "string \<Rightarrow> fake_exec \<Rightarrow> bool \<times> fake_exec" where
  "fake_cancel i fk = (True, fk\<lparr>fk_cancelled := fk_cancelled fk @ [i]\<rparr>)"

section \<open>Driving an executor\<close>

text \<open>The operations of an executor on its state, as \<open>_execute_pw\<close> calls them.\<close>

record 's executor_ops =
  ex_stage :: "string \<Rightarrow> 's \<Rightarrow> job_handle \<times> 's"
  ex_submit :: "job_handle \<Rightarrow> string \<Rightarrow> string \<Rightarrow> 's \<Rightarrow> (py_exc + job_handle) \<times> 's"
  ex_status :: "job_handle \<Rightarrow> 's \<Rightarrow> job_status \<times> 's"
  ex_fetch :: "job_handle \<Rightarrow> string \<Rightarrow> 's \<Rightarrow> fetch_result \<times> 's"
  ex_cancel :: "job_handle \<Rightarrow> 's \<Rightarrow> bool \<times> 's"
  ex_stdout :: "string \<Rightarrow> 's \<Rightarrow> string option"

text \<open>At most \<open>n\<close> questions for the state: whether one was answered with a final state.\<close>

fun wait_final :: "'s executor_ops \<Rightarrow> job_handle \<Rightarrow> nat \<Rightarrow> 's \<Rightarrow> bool \<times> 's" where
  "wait_final ops hdl 0 s = (False, s)"
| "wait_final ops hdl (Suc n) s = (let (st, s') = ex_status ops hdl s in
     if st \<in> set TERMINAL_JOB then (True, s') else wait_final ops hdl n s')"

definition POLLS :: nat where "POLLS = 1200"

definition execute_pw :: "'s executor_ops \<Rightarrow> string \<Rightarrow> string \<Rightarrow> 's \<Rightarrow> (py_exc + job_result) \<times> 's" where
  "execute_pw ops input_file workdir s0 =
    (let (hdl0, s1) = ex_stage ops input_file s0 in
     case ex_submit ops hdl0 input_file workdir s1 of
       (Inl e, s2) \<Rightarrow> (Inl e, s2)
     | (Inr hdl, s2) \<Rightarrow>
         let (final, s3) = wait_final ops hdl POLLS s2 in
         if \<not> final then
           let (_, s4) = ex_cancel ops hdl s3 in
           (Inr (failed_job (Fin 0) ''Executor polling timed out'' (Some (h_remote_path hdl))), s4)
         else
           let (f, s4) = ex_fetch ops hdl workdir s3;
               stdout = (case ex_stdout ops (in_dir workdir (stem input_file @ ''.out'')) s4 of Some t \<Rightarrow> t | None \<Rightarrow> []) in
           (Inr \<lparr>j_success = f_success f, j_exit_code = (if f_success f then 0 else - 1), j_stdout = stdout, j_stderr = [],
              j_files = f_files f, j_walltime = Fin 0, j_done = contains ''JOB DONE'' stdout, j_converged = False,
              j_error = f_error f, j_sched_id = None, j_remote = Some (h_remote_path hdl)\<rparr>, s4))"

text \<open>\<open>_execute_tool\<close> does not wait.\<close>

definition execute_post :: "'s executor_ops \<Rightarrow> string \<Rightarrow> string \<Rightarrow> 's \<Rightarrow> (py_exc + job_result) \<times> 's" where
  "execute_post ops input_file workdir s0 =
    (let (hdl0, s1) = ex_stage ops input_file s0 in
     case ex_submit ops hdl0 input_file workdir s1 of
       (Inl e, s2) \<Rightarrow> (Inl e, s2)
     | (Inr hdl, s2) \<Rightarrow>
         let (f, s3) = ex_fetch ops hdl workdir s2;
             stdout = (case ex_stdout ops (in_dir workdir (stem input_file @ ''.out'')) s3 of Some t \<Rightarrow> t | None \<Rightarrow> []) in
         (Inr \<lparr>j_success = f_success f, j_exit_code = (if f_success f then 0 else - 1), j_stdout = stdout, j_stderr = [],
            j_files = f_files f, j_walltime = Fin 0, j_done = False, j_converged = False,
            j_error = f_error f, j_sched_id = None, j_remote = Some (h_remote_path hdl)\<rparr>, s3))"

section \<open>Properties\<close>

lemma timeout_text: "contains ''timed out'' (''pw.x timed out after '' @ s)"
  by simp

lemma cancelled_text: "\<not> contains ''timed out'' ''pw.x cancelled by user''"
  by code_simp

text \<open>
  What a local job's status says. With the input and the program there, the job is completed
  exactly if the process ended with code 0 and its output says that the job is done, in either case; it is timed out exactly
  if it ran past its limit (or its launch failed with these words); any other end, a signal included, is a failure.
\<close>

theorem local_outcome:
  assumes "k_exists k d input_file" "k_exists k d (in_dir (le_bin le) ''pw.x'')"
  shows "local_status (fst (local_submit k le p input_file hdl d)) =
     (case p of Launch_Error msg \<Rightarrow> if contains ''timed out'' (''failed to launch pw.x: '' @ msg) then JTimeout else JFailed
      | Timed_Out o1 e1 \<Rightarrow> JTimeout
      | Exited rc o1 e1 \<Rightarrow> if rc = 0 \<and> contains ''job done'' (lower o1) then JCompleted else JFailed)"
proof (cases p)
  case (Launch_Error msg)
  with assms show ?thesis
    by (simp add: local_submit_def run_pw_local_def local_run_tool_def local_status_def failed_job_def Let_def del: contains.simps)
next
  case (Timed_Out o1 e1)
  with assms timeout_text [of "py_str (limit_of le None) @ ''s''"] show ?thesis
    by (simp add: local_submit_def run_pw_local_def local_run_tool_def local_status_def failed_job_def Let_def del: contains.simps)
next
  case (Exited rc o1 e1)
  with assms cancelled_text show ?thesis
    by (simp add: local_submit_def run_pw_local_def local_run_tool_def local_status_def was_cancelled_def Let_def del: contains.simps)
qed

text \<open>Death by any signal reads as a cancellation by the user.\<close>

lemma signal_is_cancellation:
  "k_exists k d input_file \<Longrightarrow> k_exists k d (in_dir (le_bin le) binary) \<Longrightarrow> rc < 0 \<Longrightarrow>
   j_error (fst (local_run_tool k le (Exited rc o1 e1) binary input_file workdir timeout d)) = binary @ '' cancelled by user''"
  by (simp add: local_run_tool_def was_cancelled_def Let_def)

lemma wait_never:
  "(\<And>t. fst (ex_status ops hdl t) \<notin> set TERMINAL_JOB) \<Longrightarrow>
   wait_final ops hdl n s = (False, ((\<lambda>t. snd (ex_status ops hdl t)) ^^ n) s)"
  by (induction n arbitrary: s) (simp_all add: case_prod_beta funpow_Suc_right del: funpow.simps(2))

text \<open>
  Driving an executor ends. If no question is ever answered with a final state, the driver asks
  exactly 1200 times, then cancels the job, and reports a failure with its own message; the state it leaves is the
  one the cancellation made.
\<close>

theorem driver_gives_up:
  assumes stage: "ex_stage ops input_file s0 = (hdl0, s1)" and submit: "ex_submit ops hdl0 input_file workdir s1 = (Inr hdl, s2)"
    and never: "\<And>t. fst (ex_status ops hdl t) \<notin> set TERMINAL_JOB"
  shows "execute_pw ops input_file workdir s0 =
     (Inr (failed_job (Fin 0) ''Executor polling timed out'' (Some (h_remote_path hdl))),
      snd (ex_cancel ops hdl (((\<lambda>t. snd (ex_status ops hdl t)) ^^ 1200) s2)))"
  using wait_never [of ops hdl POLLS s2, OF never]
  by (simp add: execute_pw_def stage submit POLLS_def case_prod_beta)

text \<open>The fake executor as such an executor.\<close>

definition fake_ops :: "fake_exec executor_ops" where
  "fake_ops = \<lparr>ex_stage = (\<lambda>_ fk. (\<lparr>h_job_id = ''fake-job'', h_remote_path = ''/fake/remote/path''\<rparr>, fk)),
     ex_submit = (\<lambda>hdl _ _ fk. (Inr hdl, fk)), ex_status = (\<lambda>hdl fk. (fake_status fk (h_job_id hdl), fk)),
     ex_fetch = (\<lambda>hdl dest fk. (fake_fetch fk dest, fk)), ex_cancel = (\<lambda>hdl fk. fake_cancel (h_job_id hdl) fk),
     ex_stdout = (\<lambda>_ _. None)\<rparr>"

definition stuck_ops :: "fake_exec executor_ops" where
  "stuck_ops = fake_ops\<lparr>ex_status := (\<lambda>hdl fk. (JRunning, fk))\<rparr>"

theorem local_outcome_witness:
  "local_status (fst (local_submit \<lparr>k_exists = (\<lambda>_ _. True), k_write = (\<lambda>d _ _. d), k_files = (\<lambda>_ _. []), k_elapsed = Fin 1\<rparr>
     \<lparr>le_bin = ''/q'', le_walltime = PInt 600, le_workdir = None\<rparr> (Exited (- 11) [] ''segfault'') ''/w/a.in'' (local_stage ''/w/a.in'') ()))
   = JFailed"
  by (subst local_outcome) simp_all

theorem driver_gives_up_witness:
  "fk_cancelled (snd (execute_pw stuck_ops ''/w/a.in'' ''/w'' \<lparr>fk_mode = ''timeout'', fk_stdout = [], fk_cancelled = []\<rparr>)) = [''fake-job'']"
proof -
  have "((\<lambda>t. snd (ex_status stuck_ops hdl t)) ^^ n) s = s" for n hdl and s :: fake_exec
    by (induction n) (simp_all add: stuck_ops_def)
  then show ?thesis
    by (subst driver_gives_up) (auto simp: stuck_ops_def fake_ops_def TERMINAL_JOB_def fake_cancel_def)
qed

end
