(* ===== verification/Compiler.thy ===== *)
theory Compiler
  imports Catalog_Data Parser Shell "HOL-Library.List_Lexorder" "HOL-Library.Char_ord"
begin

text \<open>
  The input compiler (\<open>compiler/__init__.py\<close>): from a material or a structure to the text of an input file
  of Quantum ESPRESSO.

  \<^item> An ASE structure is a record of what the code reads: the symbols, the scaled positions as
    \<open>get_scaled_positions\<close> returns them, the cell vectors in Angstrom and the periodic axes.
  \<^item> What ASE and pymatgen compute is a parameter (\<open>ase\<close>): the cell of lengths and angles, the lengths of a
    cell, masses, covalent radii, band paths, the composition of a formula, the fluorite builder.
  \<^item> The pseudopotential directory is its path, the files it has and their texts.
  \<^item> The tables hold finite numbers; writing the file is left out, the functions return its text.
\<close>

type_synonym vec = "rat \<times> rat \<times> rat"

record atoms =
  at_symbols :: "string list"
  at_scaled :: "vec list"
  at_cell :: "vec list"
  at_pbc :: "bool list"

record ase =
  a_cell :: "rat list \<Rightarrow> vec list"
  a_lengths :: "vec list \<Rightarrow> vec"
  a_mass :: "string \<Rightarrow> rat option"
  a_radius :: "string \<Rightarrow> rat option"
  a_path :: "vec list \<Rightarrow> bool list option \<Rightarrow> string \<times> vec pydict"
  a_kpts :: "vec list \<Rightarrow> bool list option \<Rightarrow> int \<Rightarrow> vec list"
  a_composition :: "string \<Rightarrow> (string \<times> rat) list"
  a_reduced :: "string \<Rightarrow> string"
  a_fluorite :: "string \<Rightarrow> rat \<Rightarrow> atoms"

record pseudo_dir =
  pd_path :: string
  pd_has :: "string \<Rightarrow> bool"
  pd_text :: "string \<Rightarrow> string"

section \<open>Materials\<close>

definition BOHR_PER_ANG :: rat where "BOHR_PER_ANG = 18897261246 / 10 ^ 10"

fun the_fin :: "pyfloat \<Rightarrow> rat" where
  "the_fin (Fin x) = x"
| "the_fin _ = 0"

text \<open>The profile of a material, which the compile functions read. A tabulated material and a structure
  from a file have the same keys; only the first has no \<open>_alat_bohr\<close>.\<close>

record qe_profile =
  q_ibrav :: int
  q_nspecies :: int
  q_species :: "string list"
  q_masses :: "rat list"
  q_pseudos :: "string pydict"
  q_occupations :: string
  q_smearing :: string
  q_degauss :: rat
  q_ecutwfc :: rat
  q_ecutrho :: rat
  q_kpoints :: "int list"
  q_is_metal :: bool
  q_input_dft :: "string option"

definition qe_builtin ::
  "int \<Rightarrow> string list \<Rightarrow> rat list \<Rightarrow> string pydict \<Rightarrow> rat \<Rightarrow> rat \<Rightarrow> rat \<Rightarrow> int list \<Rightarrow> bool \<Rightarrow> string option \<Rightarrow> qe_profile" where
  "qe_builtin nspecies species masses pseudos degauss ecutwfc ecutrho kpoints is_metal input_dft =
    \<lparr>q_ibrav = 2, q_nspecies = nspecies, q_species = species, q_masses = masses, q_pseudos = pseudos,
     q_occupations = ''smearing'', q_smearing = ''mp'', q_degauss = degauss, q_ecutwfc = ecutwfc, q_ecutrho = ecutrho,
     q_kpoints = kpoints, q_is_metal = is_metal, q_input_dft = input_dft\<rparr>"

definition MATERIAL_BUILTIN :: "(qe_profile \<times> rat) pydict" where
  "MATERIAL_BUILTIN =
    [(''Si'', qe_builtin 1 [''Si''] [28086 / 1000] [(''Si'', ''Si_r.upf'')] (5 / 1000) 25 200 [4, 4, 4, 1, 1, 1] False None,
       543 / 100),
     (''Al'', qe_builtin 1 [''Al''] [26982 / 1000] [(''Al'', ''Al.upf'')] (2 / 100) 20 160 [8, 8, 8, 1, 1, 1] True None,
       405 / 100),
     (''MgO'', qe_builtin 2 [''Mg'', ''O''] [24305 / 1000, 15999 / 1000] [(''Mg'', ''Mg.pz-n-vbc.UPF''), (''O'', ''O-q6.gth'')]
        (1 / 100) 40 320 [4, 4, 4, 1, 1, 1] False (Some ''pz''), 421 / 100)]"

text \<open>What a library entry contributes: its profile, its cell and its sites.\<close>

definition qe_of_entry :: "db_entry \<Rightarrow> qe_profile" where
  "qe_of_entry d =
    \<lparr>q_ibrav = db_ibrav d, q_nspecies = db_nspecies d, q_species = db_species d, q_masses = map the_fin (db_masses d),
     q_pseudos = db_pseudos d, q_occupations = db_occupations d, q_smearing = db_smearing d,
     q_degauss = the_fin (db_degauss d), q_ecutwfc = (case db_ecutwfc d of Some x \<Rightarrow> the_fin x | None \<Rightarrow> 0),
     q_ecutrho = (case db_ecutrho d of Some x \<Rightarrow> the_fin x | None \<Rightarrow> 0),
     q_kpoints = (case db_kpoints d of Some k \<Rightarrow> k | None \<Rightarrow> [4, 4, 4, 1, 1, 1]), q_is_metal = db_is_metal d,
     q_input_dft = None\<rparr>"

datatype material_data = Builtin qe_profile rat | FromLibrary db_entry

definition MATERIAL_DB :: "material_data pydict" where
  "MATERIAL_DB = dupdate (map (\<lambda>(k, p, a). (k, Builtin p a)) MATERIAL_BUILTIN)
     (map (\<lambda>(k, d). (k, FromLibrary d)) LIBRARY_MATERIALS)"

fun profile_of :: "material_data \<Rightarrow> qe_profile" where
  "profile_of (Builtin p a) = p"
| "profile_of (FromLibrary d) = qe_of_entry d"

definition first_or :: "'a list \<Rightarrow> py_exc + 'a" where
  "first_or xs = (case xs of x # _ \<Rightarrow> Inr x | [] \<Rightarrow> Inl IndexError)"

fun lattice_constant :: "material_data \<Rightarrow> py_exc + rat" where
  "lattice_constant (Builtin p a) = Inr a"
| "lattice_constant (FromLibrary d) = (case db_lattice d of Some a \<Rightarrow> Inr (the_fin a)
     | None \<Rightarrow> (case db_cellpar d of Some c \<Rightarrow> first_or c | None \<Rightarrow> Inl (KeyError ''cellpar'')))"

definition get_lattice_constant_angstrom :: "string \<Rightarrow> py_exc + rat" where
  "get_lattice_constant_angstrom material = (case dget MATERIAL_DB material of
     Some m \<Rightarrow> lattice_constant m | None \<Rightarrow> Inl (KeyError material))"

definition unknown_material :: "string \<Rightarrow> py_exc" where
  "unknown_material material = ValueError (''Unknown material: '' @ material @ ''. Known: '' @
     py_repr (PList (map PStr (dkeys MATERIAL_DB))))"

section \<open>Structures\<close>

fun vec3 :: "rat list \<Rightarrow> vec" where
  "vec3 [x, y, z] = (x, y, z)"
| "vec3 _ = (0, 0, 0)"

definition fcc_cell :: "rat \<Rightarrow> vec list" where
  "fcc_cell a = [(0, a / 2, a / 2), (a / 2, 0, a / 2), (a / 2, a / 2, 0)]"

definition crystal :: "string list \<Rightarrow> vec list \<Rightarrow> vec list \<Rightarrow> atoms" where
  "crystal symbols scaled cell = \<lparr>at_symbols = symbols, at_scaled = scaled, at_cell = cell, at_pbc = [True, True, True]\<rparr>"

definition quarter :: vec where "quarter = (1 / 4, 1 / 4, 1 / 4)"
definition half :: vec where "half = (1 / 2, 1 / 2, 1 / 2)"

definition build_atoms :: "ase \<Rightarrow> string \<Rightarrow> py_exc + atoms" where
  "build_atoms lib material =
    (case dget MATERIAL_DB material of
       None \<Rightarrow> Inl (unknown_material material)
     | Some m \<Rightarrow>
         bindr (lattice_constant m) (\<lambda>a.
         case m of
           FromLibrary d \<Rightarrow>
             (case (db_cellpar d, db_sites d) of
                (Some c, Some sites) \<Rightarrow> Inr (crystal (map fst sites) (map (vec3 \<circ> snd) sites) (a_cell lib c))
              | _ \<Rightarrow> Inl (ValueError (''Material '' @ [sq] @ material @ [sq] @ '' structure not implemented'')))
         | Builtin p _ \<Rightarrow>
             if material = ''Si'' then Inr (crystal [''Si'', ''Si''] [(0, 0, 0), quarter] (fcc_cell a))
             else if material = ''Al'' then Inr (crystal [''Al''] [(0, 0, 0)] (fcc_cell a))
             else if material = ''MgO'' then Inr (crystal [''Mg'', ''O''] [(0, 0, 0), half] (fcc_cell a))
             else Inl (ValueError (''Material '' @ [sq] @ material @ [sq] @ '' structure not implemented''))))"

text \<open>The vacuum axes of a structure read from a file: \<open>f\<close> are the wrapped coordinates along an axis.\<close>

definition gaps :: "rat list \<Rightarrow> rat list" where
  "gaps f = (let s = sort f in map (\<lambda>(x, y). y - x) (zip s (tl s @ [hd s + 1])))"

definition axis_periodic :: "rat \<Rightarrow> nat \<Rightarrow> rat list \<Rightarrow> bool" where
  "axis_periodic len natoms f = (len < 8 \<or> natoms < 2 \<or> \<not> 1 / 2 < foldr max (gaps f) 0)"

definition detect_pbc :: "vec \<Rightarrow> vec list \<Rightarrow> bool list" where
  "detect_pbc lens fr = (case lens of (lx, ly, lz) \<Rightarrow>
     [axis_periodic lx (length fr) (map fst fr), axis_periodic ly (length fr) (map (fst \<circ> snd) fr),
      axis_periodic lz (length fr) (map (snd \<circ> snd) fr)])"

text \<open>\<open>read_structure\<close>: the parsed file (\<open>None\<close>: there is none) and its wrapped coordinates.\<close>

definition read_structure :: "ase \<Rightarrow> string \<Rightarrow> (atoms \<times> vec list) option \<Rightarrow> py_exc + atoms" where
  "read_structure lib path file =
    (case file of
       None \<Rightarrow> Inl (FileNotFound (''structure file not found: '' @ path))
     | Some (cr, fr) \<Rightarrow> Inr (cr\<lparr>at_pbc := detect_pbc (a_lengths lib (at_cell cr)) fr\<rparr>))"

text \<open>The mesh: at most eight points along an axis, one along a vacuum axis.\<close>

definition mesh_count :: "rat \<Rightarrow> bool \<Rightarrow> py_exc + int" where
  "mesh_count len periodic =
    (if \<not> periodic then Inr 1 else if len = 0 then Inl OverflowError
     else Inr (max 1 (min 8 (round_he (24 / len)))))"

definition find_pseudo :: "pseudo_dir \<Rightarrow> string \<Rightarrow> py_exc + string" where
  "find_pseudo pd el =
    (if pd_has pd (el @ ''.upf'') then Inr (el @ ''.upf'')
     else if pd_has pd (el @ ''.UPF'') then Inr (el @ ''.UPF'')
     else Inl (FileNotFound (''no GBRV pseudopotential for element '' @ [sq] @ el @ [sq] @ '' in '' @ pd_path pd)))"

definition sorted_species :: "atoms \<Rightarrow> string list" where
  "sorted_species cr = sort (remdups (at_symbols cr))"

definition profile_from_atoms :: "ase \<Rightarrow> pseudo_dir \<Rightarrow> atoms \<Rightarrow> py_exc + qe_profile \<times> rat" where
  "profile_from_atoms lib pd cr =
    (let species = sorted_species cr in
     bindr (mapr (\<lambda>el. bindr (find_pseudo pd el) (\<lambda>f. Inr (el, f))) species) (\<lambda>pseudos.
     bindr (mapr (\<lambda>el. the_or (ValueError (str_repr el @ '' is not in list'')) (a_mass lib el)) species) (\<lambda>masses.
     case a_lengths lib (at_cell cr) of (lx, ly, lz) \<Rightarrow>
     (case (if length (at_pbc cr) = 3 then at_pbc cr else [True, True, True]) of
        [px, py, pz] \<Rightarrow>
          bindr (mesh_count lx px) (\<lambda>kx. bindr (mesh_count ly py) (\<lambda>ky. bindr (mesh_count lz pz) (\<lambda>kz.
          Inr (\<lparr>q_ibrav = 0, q_nspecies = int (length species), q_species = species, q_masses = masses, q_pseudos = pseudos,
                q_occupations = ''smearing'', q_smearing = ''mv'', q_degauss = 1 / 100, q_ecutwfc = 40, q_ecutrho = 320,
                q_kpoints = [kx, ky, kz, 1, 1, 1], q_is_metal = True, q_input_dft = None\<rparr>,
               max lx (max ly lz) * BOHR_PER_ANG))))
      | _ \<Rightarrow> Inl IndexError))))"

section \<open>Band paths\<close>

text \<open>One piece of a path text: a label for every character; the separators are skipped.\<close>

fun chain_of :: "vec pydict \<Rightarrow> string \<Rightarrow> py_exc + (string \<times> vec) list" where
  "chain_of special [] = Inr []"
| "chain_of special (c # cs) =
     (if c = CHR ''|'' \<or> c = CHR ''$'' then chain_of special cs
      else case dget special [c] of
        None \<Rightarrow> Inl (ValueError (''unknown special point '' @ [sq] @ [c] @ [sq] @ '' for cell''))
      | Some k \<Rightarrow> bindr (chain_of special cs) (\<lambda>r. Inr (([c], k) # r)))"

definition bandpath_segments :: "string \<Rightarrow> vec pydict \<Rightarrow> py_exc + (string \<times> vec) list list" where
  "bandpath_segments path special =
    bindr (mapr (chain_of special) (filter (\<lambda>s. s \<noteq> []) (split_on (CHR '','') path))) (\<lambda>chains.
    let segments = filter (\<lambda>c. 2 \<le> length c) chains in
    if segments = [] then Inl (ValueError ''could not build k-path for cell'') else Inr segments)"

definition pbc_of :: "atoms \<Rightarrow> bool list option" where
  "pbc_of cr = (if length (at_pbc cr) = 3 then Some (at_pbc cr) else None)"

definition bandpath_segments_from_atoms :: "ase \<Rightarrow> atoms \<Rightarrow> py_exc + (string \<times> vec) list list" where
  "bandpath_segments_from_atoms lib cr =
    (case a_path lib (at_cell cr) (pbc_of cr) of (path, special) \<Rightarrow> bandpath_segments path special)"

definition get_bandpath_segments :: "ase \<Rightarrow> string \<Rightarrow> py_exc + (string \<times> vec) list list" where
  "get_bandpath_segments lib material = bindr (build_atoms lib material) (bandpath_segments_from_atoms lib)"

definition get_bandpath_kpoints :: "ase \<Rightarrow> string \<Rightarrow> int \<Rightarrow> atoms option \<Rightarrow> py_exc + vec list" where
  "get_bandpath_kpoints lib material npoints ats =
    bindr (case ats of Some a \<Rightarrow> Inr a | None \<Rightarrow> build_atoms lib material) (\<lambda>a.
    Inr (a_kpts lib (at_cell a) (pbc_of a) (max 10 npoints)))"

definition get_kpoints :: "string \<Rightarrow> int list option \<Rightarrow> int list" where
  "get_kpoints material kpoints_override =
    (case kpoints_override of Some (k # ks) \<Rightarrow> k # ks
     | _ \<Rightarrow> (case dget MATERIAL_DB material of Some m \<Rightarrow> q_kpoints (profile_of m) | None \<Rightarrow> [4, 4, 4, 1, 1, 1]))"

text \<open>The points of all segments in a row, a point that repeats its predecessor left out; the path's
  letter for the zone centre is spelled out.\<close>

definition add_point :: "(string \<times> vec) list \<Rightarrow> string \<times> vec \<Rightarrow> (string \<times> vec) list" where
  "add_point flat pt = (if flat = [] \<or> snd (last flat) \<noteq> snd pt then flat @ [pt] else flat)"

definition flatten_path :: "(string \<times> vec) list list \<Rightarrow> (string \<times> vec) list" where
  "flatten_path segments = foldl (foldl add_point) [] segments"

definition map_label :: "string \<Rightarrow> string" where
  "map_label l = (if l = ''G'' then ''GAMMA'' else l)"

section \<open>Input files\<close>

text \<open>\<open>f"{x:.6g}"\<close>.\<close>

definition fmt_g6 :: "rat \<Rightarrow> string" where
  "fmt_g6 x = (if x = 0 then ''0'' else
     let (ds0, e) = sci 5 \<bar>x\<bar>; ds = strip_zeros ds0; k = nat (e + 1) in
     sign_of x @
     (if 0 \<le> e \<and> e < 6 then
        (if length ds \<le> k then ds @ replicate (k - length ds) (CHR ''0'') else take k ds @ ''.'' @ drop k ds)
      else if - 4 \<le> e \<and> e < 0 then ''0.'' @ replicate (nat (- e - 1)) (CHR ''0'') @ ds
      else take 1 ds @ (if length ds = 1 then [] else ''.'' @ drop 1 ds) @ show_exp e))"

definition dq_text :: "string \<Rightarrow> string" where
  "dq_text s = [dq] @ s @ [dq]"

fun vec_text :: "vec \<Rightarrow> string" where
  "vec_text (x, y, z) = ''  '' @ fmt_f 8 x @ ''  '' @ fmt_f 8 y @ ''  '' @ fmt_f 8 z"

definition resolve_material :: "ase \<Rightarrow> pseudo_dir \<Rightarrow> string \<Rightarrow> atoms option \<Rightarrow> py_exc + qe_profile \<times> atoms \<times> rat" where
  "resolve_material lib pd material ats =
    (case ats of
       Some cr \<Rightarrow> bindr (profile_from_atoms lib pd cr) (\<lambda>(p, alat). Inr (p, cr, alat))
     | None \<Rightarrow>
         (case dget MATERIAL_DB material of
            None \<Rightarrow> Inl (unknown_material material)
          | Some m \<Rightarrow> bindr (build_atoms lib material) (\<lambda>cr.
              bindr (lattice_constant m) (\<lambda>a. Inr (profile_of m, cr, a * BOHR_PER_ANG)))))"

definition check_pseudos :: "pseudo_dir \<Rightarrow> string pydict \<Rightarrow> string list" where
  "check_pseudos pd pseudos = map (\<lambda>(el, f). el @ '': '' @ f) (filter (\<lambda>(el, f). \<not> pd_has pd f) pseudos)"

definition pseudos_present :: "pseudo_dir \<Rightarrow> string pydict \<Rightarrow> py_exc + unit" where
  "pseudos_present pd pseudos = (let missing = check_pseudos pd pseudos in
     if missing = [] then Inr ()
     else Inl (FileNotFound (''Missing pseudopotentials: '' @ py_repr (PList (map PStr missing)))))"

definition system_lines :: "qe_profile \<Rightarrow> atoms \<Rightarrow> rat \<Rightarrow> string \<Rightarrow> string \<Rightarrow> string list" where
  "system_lines db cr alat ecutwfc ecutrho =
    [''&SYSTEM'', ''  ibrav = '' @ show_int (q_ibrav db), ''  celldm(1) = '' @ fmt_f 6 alat,
     ''  nat = '' @ show_int (int (length (at_symbols cr))), ''  ntyp = '' @ show_int (q_nspecies db),
     ''  ecutwfc = '' @ ecutwfc, ''  ecutrho = '' @ ecutrho, ''  occupations = '' @ dq_text (q_occupations db),
     ''  smearing = '' @ dq_text (q_smearing db), ''  degauss = '' @ float_repr (Fin (q_degauss db))]"

definition electron_lines :: "rat \<Rightarrow> string list" where
  "electron_lines conv_thr = [''&ELECTRONS'', ''  conv_thr = '' @ fmt_e 1 conv_thr, ''  mixing_beta = 0.7'', ''/'', []]"

definition species_lines :: "qe_profile \<Rightarrow> py_exc + string list" where
  "species_lines db =
    mapr (\<lambda>(el, mass). bindr (the_or (KeyError el) (dget (q_pseudos db) el)) (\<lambda>f.
       Inr (''  '' @ el @ ''  '' @ fmt_f 3 mass @ ''  '' @ f))) (zip (q_species db) (q_masses db))"

definition position_lines :: "atoms \<Rightarrow> string list" where
  "position_lines cr = map (\<lambda>(sym, pos). ''  '' @ sym @ vec_text pos) (zip (at_symbols cr) (at_scaled cr))"

definition over_alat :: "rat \<Rightarrow> vec \<Rightarrow> vec" where
  "over_alat a v = (case v of (x, y, z) \<Rightarrow> (x / a, y / a, z / a))"

definition cell_lines :: "qe_profile \<Rightarrow> atoms \<Rightarrow> rat \<Rightarrow> string list" where
  "cell_lines db cr alat =
    (if q_ibrav db = 0
     then [''CELL_PARAMETERS (alat=1.0)''] @ map (\<lambda>v. vec_text (over_alat (alat / BOHR_PER_ANG) v)) (at_cell cr) @ [[]]
     else [])"

fun mesh_lines :: "int list \<Rightarrow> py_exc + string list" where
  "mesh_lines (a # b # c # d # e # f # _) = Inr [''K_POINTS automatic'',
     ''  '' @ show_int a @ '' '' @ show_int b @ '' '' @ show_int c @ ''  '' @ show_int d @ '' '' @ show_int e @ '' '' @ show_int f, []]"
| "mesh_lines _ = Inl IndexError"

text \<open>The cards of an input file: species, positions, cell.\<close>

definition card_lines :: "qe_profile \<Rightarrow> atoms \<Rightarrow> rat \<Rightarrow> py_exc + string list" where
  "card_lines db cr alat = bindr (species_lines db) (\<lambda>sl.
     Inr ([''ATOMIC_SPECIES''] @ sl @ [[]] @ [''ATOMIC_POSITIONS (crystal)''] @ position_lines cr @ [[]] @ cell_lines db cr alat))"

definition number_text :: "pyval option \<Rightarrow> rat \<Rightarrow> string" where
  "number_text want dflt = py_str (case want of Some v \<Rightarrow> v | None \<Rightarrow> PFloat (Fin dflt))"

definition mesh_or :: "int list option \<Rightarrow> int list \<Rightarrow> int list" where
  "mesh_or want dflt = (case want of Some (k # ks) \<Rightarrow> k # ks | _ \<Rightarrow> dflt)"

definition prefix_or :: "string option \<Rightarrow> string \<Rightarrow> string" where
  "prefix_or want material = (case want of Some (c # cs) \<Rightarrow> c # cs | _ \<Rightarrow> lower material)"

record t1_options =
  o_ecutwfc :: "pyval option"
  o_ecutrho :: "pyval option"
  o_kpoints :: "int list option"
  o_force :: rat
  o_pressure :: rat
  o_conv_thr :: rat
  o_dynamics :: string
  o_nstep :: int
  o_cell :: bool

definition t1_defaults :: t1_options where
  "t1_defaults = \<lparr>o_ecutwfc = None, o_ecutrho = None, o_kpoints = None, o_force = 1 / 1000, o_pressure = 1 / 2,
     o_conv_thr = 1 / 10 ^ 8, o_dynamics = ''bfgs'', o_nstep = 200, o_cell = True\<rparr>"

definition t1_lines :: "pseudo_dir \<Rightarrow> string \<Rightarrow> t1_options \<Rightarrow> qe_profile \<Rightarrow> atoms \<Rightarrow> rat \<Rightarrow> py_exc + string list" where
  "t1_lines pd prefix_text t1 db cr alat =
    bindr (card_lines db cr alat) (\<lambda>cards.
    bindr (mesh_lines (mesh_or (o_kpoints t1) (q_kpoints db))) (\<lambda>mesh.
    Inr ([''&CONTROL'', ''  calculation = '' @ dq_text (if o_cell t1 then ''vc-relax'' else ''relax''),
          ''  prefix = '' @ dq_text prefix_text, ''  outdir = '' @ dq_text ''./'', ''  pseudo_dir = '' @ dq_text (pd_path pd),
          ''  nstep = '' @ show_int (o_nstep t1), ''  forc_conv_thr = '' @ fmt_g6 (o_force t1), ''/'', []]
       @ system_lines db cr alat (number_text (o_ecutwfc t1) (q_ecutwfc db)) (number_text (o_ecutrho t1) (q_ecutrho db))
       @ (case q_input_dft db of Some (c # cs) \<Rightarrow> [''  input_dft = '' @ dq_text (c # cs)] | _ \<Rightarrow> [])
       @ [''/'', []] @ electron_lines (o_conv_thr t1) @ [''&IONS'', ''  ion_dynamics = '' @ dq_text ''bfgs'', ''/'', []]
       @ (if o_cell t1 then [''&CELL'', ''  cell_dynamics = '' @ dq_text (o_dynamics t1), ''  press = 0.0'',
            ''  press_conv_thr = '' @ fmt_g6 (o_pressure t1), ''/'', []] else [])
       @ cards @ mesh)))"

definition compile_t1 ::
  "ase \<Rightarrow> pseudo_dir \<Rightarrow> string \<Rightarrow> string option \<Rightarrow> t1_options \<Rightarrow> atoms option \<Rightarrow> py_exc + string" where
  "compile_t1 lib pd material prefix_given t1 ats =
    bindr (resolve_material lib pd material ats) (\<lambda>(db, cr, alat).
    bindr (pseudos_present pd (q_pseudos db)) (\<lambda>_.
    bindr (t1_lines pd (prefix_or prefix_given material) t1 db cr alat) (\<lambda>ls. Inr (join nl ls))))"

section \<open>Electrons and bands\<close>

text \<open>The first number of the first line that says Z valence; a text without one counts nothing.\<close>

fun first_number :: "string list \<Rightarrow> pyfloat" where
  "first_number [] = Fin 0"
| "first_number (w # ws) = (case py_float w of Some x \<Rightarrow> x | None \<Rightarrow> first_number ws)"

fun valence_of_lines :: "string list \<Rightarrow> pyfloat" where
  "valence_of_lines [] = Fin 0"
| "valence_of_lines (l # ls) = (if contains ''Z valence'' l then first_number (words l) else valence_of_lines ls)"

text \<open>\<open>_pseudo_z_valence\<close> with its cache.\<close>

definition pseudo_z_valence :: "pseudo_dir \<Rightarrow> string \<Rightarrow> pyfloat pydict \<Rightarrow> pyfloat \<times> pyfloat pydict" where
  "pseudo_z_valence pd f cache =
    (case dget cache f of Some v \<Rightarrow> (v, cache)
     | None \<Rightarrow> let v = valence_of_lines (splitlines (pd_text pd f)) in (v, dput f v cache))"

fun sum_valence ::
  "pseudo_dir \<Rightarrow> string pydict \<Rightarrow> string list \<Rightarrow> pyfloat \<Rightarrow> pyfloat pydict \<Rightarrow> (py_exc + pyfloat) \<times> pyfloat pydict" where
  "sum_valence pd pseudos [] acc cache = (Inr acc, cache)"
| "sum_valence pd pseudos (s # ss) acc cache =
     (case dget pseudos s of
        None \<Rightarrow> (Inl (KeyError s), cache)
      | Some f \<Rightarrow> let (v, cache') = pseudo_z_valence pd f cache in sum_valence pd pseudos ss (pf_add acc v) cache')"

definition occupied_bands :: "pyfloat \<Rightarrow> py_exc + int" where
  "occupied_bands nelec = (case nelec of Fin q \<Rightarrow> Inr \<lceil>q / 2\<rceil>
     | NaN \<Rightarrow> Inl (ValueError ''cannot convert float NaN to integer'') | _ \<Rightarrow> Inl OverflowError)"

definition band_count :: "qe_profile \<Rightarrow> nat \<Rightarrow> int \<Rightarrow> int" where
  "band_count db natoms n_occ = max (int natoms * 4) (n_occ + (if q_is_metal db then 12 else 8))"

definition choose_nbnd ::
  "pseudo_dir \<Rightarrow> qe_profile \<Rightarrow> atoms \<Rightarrow> int option \<Rightarrow> pyfloat pydict \<Rightarrow> (py_exc + int) \<times> pyfloat pydict" where
  "choose_nbnd pd db cr nbnd cache =
    (case nbnd of Some n \<Rightarrow> (Inr n, cache)
     | None \<Rightarrow>
         let (nelec, cache') = sum_valence pd (q_pseudos db) (at_symbols cr) (Fin 0) cache in
         (bindr nelec (\<lambda>n. bindr (occupied_bands n) (\<lambda>n_occ. Inr (band_count db (length (at_symbols cr)) n_occ))), cache'))"

record scf_options =
  s_calculation :: string
  s_ecutwfc :: "pyval option"
  s_ecutrho :: "pyval option"
  s_kpoints :: "int list option"
  s_conv_thr :: rat
  s_nbnd :: "int option"
  s_nkpoints :: int
  s_kmode :: string

definition scf_defaults :: scf_options where
  "scf_defaults = \<lparr>s_calculation = ''scf'', s_ecutwfc = None, s_ecutrho = None, s_kpoints = None,
     s_conv_thr = 1 / 10 ^ 8, s_nbnd = None, s_nkpoints = 60, s_kmode = ''path''\<rparr>"

definition dense :: "int \<Rightarrow> int" where
  "dense n = (if 1 < n then max 1 (2 * n) else 1)"

definition scf_points :: "ase \<Rightarrow> string \<Rightarrow> scf_options \<Rightarrow> qe_profile \<Rightarrow> atoms option \<Rightarrow> py_exc + string list" where
  "scf_points lib material so db ats =
    (let kpoints = mesh_or (s_kpoints so) (q_kpoints db) in
     if s_calculation so = ''nscf'' \<and> s_kmode so = ''path''
     then bindr (get_bandpath_kpoints lib material (s_nkpoints so) ats) (\<lambda>ks.
       Inr ([''K_POINTS crystal'', ''  '' @ show_int (int (length ks))] @ map (\<lambda>k. vec_text k @ ''  1.0'') ks @ [[]]))
     else mesh_lines (if s_calculation so = ''nscf'' then map dense (take 3 kpoints) @ drop 3 kpoints else kpoints))"

definition scf_lines ::
  "ase \<Rightarrow> pseudo_dir \<Rightarrow> string \<Rightarrow> string \<Rightarrow> scf_options \<Rightarrow> qe_profile \<Rightarrow> atoms \<Rightarrow> rat \<Rightarrow> int \<Rightarrow> atoms option
     \<Rightarrow> py_exc + string list" where
  "scf_lines lib pd material prefix_text so db cr alat nbnd ats =
    bindr (card_lines db cr alat) (\<lambda>cards.
    bindr (scf_points lib material so db ats) (\<lambda>points.
    Inr ([''&CONTROL'', ''  calculation = '' @ dq_text (s_calculation so), ''  prefix = '' @ dq_text prefix_text,
          ''  outdir = '' @ dq_text ''./'', ''  pseudo_dir = '' @ dq_text (pd_path pd)]
       @ (if s_calculation so \<in> {''bands'', ''nscf''} then [''  restart_mode = '' @ dq_text ''from_scratch''] else [])
       @ [''/'', []]
       @ system_lines db cr alat (number_text (s_ecutwfc so) (q_ecutwfc db)) (number_text (s_ecutrho so) (q_ecutrho db))
       @ [''  nbnd = '' @ show_int nbnd, ''/'', []] @ electron_lines (s_conv_thr so) @ cards @ points)))"

text \<open>\<open>compile_scf\<close>, with the cache of electron counts before and after.\<close>

definition compile_scf ::
  "ase \<Rightarrow> pseudo_dir \<Rightarrow> string \<Rightarrow> string option \<Rightarrow> scf_options \<Rightarrow> atoms option \<Rightarrow> pyfloat pydict
     \<Rightarrow> (py_exc + string) \<times> pyfloat pydict" where
  "compile_scf lib pd material prefix_given so ats cache =
    (case bindr (resolve_material lib pd material ats) (\<lambda>(db, cr, alat).
          bindr (pseudos_present pd (q_pseudos db)) (\<lambda>_. Inr (db, cr, alat))) of
       Inl e \<Rightarrow> (Inl e, cache)
     | Inr (db, cr, alat) \<Rightarrow>
         let (chosen, cache') = choose_nbnd pd db cr (s_nbnd so) cache in
         (bindr chosen (\<lambda>nbnd. bindr (scf_lines lib pd material (prefix_or prefix_given material) so db cr alat nbnd ats)
            (\<lambda>ls. Inr (join nl ls))), cache'))"

section \<open>Post-processing inputs\<close>

definition known_material :: "string \<Rightarrow> atoms option \<Rightarrow> py_exc + unit" where
  "known_material material ats = (if ats = None \<and> \<not> dmem material MATERIAL_DB
     then Inl (ValueError (''Unknown material: '' @ material)) else Inr ())"

definition compile_bands_input ::
  "ase \<Rightarrow> string \<Rightarrow> string option \<Rightarrow> vec list option \<Rightarrow> string list option \<Rightarrow> atoms option \<Rightarrow> py_exc + string" where
  "compile_bands_input lib material prefix_given kpath klabels ats =
    bindr (known_material material ats) (\<lambda>_.
    bindr (case (kpath, klabels) of
        (Some ks, Some ls) \<Rightarrow> Inr (ks, ls)
      | _ \<Rightarrow> bindr (case ats of Some a \<Rightarrow> Inr a | None \<Rightarrow> build_atoms lib material) (\<lambda>cr.
             bindr (bandpath_segments_from_atoms lib cr) (\<lambda>segments.
             let flat = flatten_path segments in Inr (map snd flat, map (map_label \<circ> fst) flat)))) (\<lambda>(ks, ls).
    Inr (join nl ([''&bands'', ''  prefix = '' @ dq_text (prefix_or prefix_given material), ''  outdir = '' @ dq_text ''./'',
        ''  lsym = .true.'', ''  no_overlap = .true.'', ''/'', [], show_int (int (length ks))]
      @ map (\<lambda>(k, l). vec_text k @ ''  '' @ l) (zip ks ls) @ [[], ''0'', []]))))"

definition compile_dos_input ::
  "string \<Rightarrow> string option \<Rightarrow> pyval option \<Rightarrow> pyval option \<Rightarrow> pyval \<Rightarrow> pyval \<Rightarrow> int \<Rightarrow> atoms option \<Rightarrow> py_exc + string" where
  "compile_dos_input material prefix_given emin emax deltae fwhm ngauss ats =
    bindr (known_material material ats) (\<lambda>_.
    Inr (join nl ([''&dos'', ''  prefix = '' @ dq_text (prefix_or prefix_given material), ''  outdir = '' @ dq_text ''./'',
        ''  ngauss = '' @ show_int ngauss, ''  degauss = '' @ py_str fwhm, ''  DeltaE = '' @ py_str deltae]
      @ (case emin of Some v \<Rightarrow> [''  Emin = '' @ py_str v] | None \<Rightarrow> [])
      @ (case emax of Some v \<Rightarrow> [''  Emax = '' @ py_str v] | None \<Rightarrow> []) @ [''/'']) @ nl))"

definition compile_pdos_input ::
  "string \<Rightarrow> string option \<Rightarrow> pyval \<Rightarrow> pyval \<Rightarrow> int \<Rightarrow> atoms option \<Rightarrow> py_exc + string" where
  "compile_pdos_input material prefix_given deltae fwhm ngauss ats =
    bindr (known_material material ats) (\<lambda>_.
    let p = dq_text (prefix_or prefix_given material) in
    Inr (join nl [''&projwfc'', ''  prefix = '' @ p, ''  outdir = '' @ dq_text ''./'', ''  filpdos = '' @ p,
        ''  ngauss = '' @ show_int ngauss, ''  degauss = '' @ py_str fwhm, ''  DeltaE = '' @ py_str deltae,
        ''  lsym = .true.'', ''/''] @ nl))"

end
