(* ===== verification/Prototypes.thy ===== *)
theory Prototypes
  imports Compiler
begin

text \<open>
  The structures that \<open>formula_atoms\<close> of \<open>compiler/__init__.py\<close> builds for a formula: elemental diamond, bcc,
  hcp and fcc, perovskite, zincblende, rocksalt, fluorite and the layered dichalcogenides. Square roots
  have 20 decimals.
\<close>

definition cubic_cell :: "rat \<Rightarrow> vec list" where
  "cubic_cell a = [(a, 0, 0), (0, a, 0), (0, 0, a)]"

definition hex_cell :: "rat \<Rightarrow> rat \<Rightarrow> vec list" where
  "hex_cell a c = [(a, 0, 0), (- a / 2, a * rat_sqrt 3 / 2, 0), (0, 0, c)]"

definition PEROVSKITE_A :: "rat pydict" where
  "PEROVSKITE_A = map (\<lambda>(k, n). (k, of_int n / 1000))
    [(''CaTiO3'', 3827), (''SrTiO3'', 3905), (''BaTiO3'', 4006), (''KTaO3'', 3983),
     (''KNbO3'', 4021), (''PbTiO3'', 3969), (''SrZrO3'', 4101), (''BaZrO3'', 4193),
     (''LaAlO3'', 3791), (''LaFeO3'', 3930), (''SrCoO3'', 3829), (''BaSnO3'', 4116),
     (''SrSnO3'', 4034), (''CaZrO3'', 4020), (''PbZrO3'', 4155), (''LaCrO3'', 3887),
     (''YAlO3'', 3792), (''NaTaO3'', 3929), (''AgNbO3'', 3953), (''BiFeO3'', 3965)]"

definition DIAMOND_ELS :: "string list" where "DIAMOND_ELS = [''C'', ''Si'', ''Ge'', ''Sn'']"
definition BCC_ELS :: "string list" where
  "BCC_ELS = [''Fe'', ''Cr'', ''W'', ''Mo'', ''V'', ''Nb'', ''Ta'', ''K'', ''Na'', ''Li'']"
definition HCP_ELS :: "string list" where
  "HCP_ELS = [''Mg'', ''Zn'', ''Ti'', ''Zr'', ''Co'', ''Be'', ''Ru'', ''Os'', ''Sc'', ''Y'', ''Hf'', ''Re'']"
definition FCC_ELS :: "string list" where
  "FCC_ELS = [''Al'', ''Cu'', ''Ag'', ''Au'', ''Ni'', ''Ca'', ''Sr'', ''Ir'', ''Rh'', ''Pd'', ''Pt'', ''Pb'']"
definition ZINCBLENDE_FORMULAS :: "string list" where
  "ZINCBLENDE_FORMULAS = [''AlAs'', ''AlP'', ''AlSb'', ''CdS'', ''CdSe'', ''CdTe'', ''GaAs'', ''GaP'', ''GaSb'',
     ''InAs'', ''InP'', ''InSb'', ''SiC'', ''ZnS'', ''ZnSe'', ''ZnTe'']"
definition ROCKSALT_FORMULAS :: "string list" where
  "ROCKSALT_FORMULAS = [''AgCl'', ''AgBr'', ''BaO'', ''CaO'', ''KBr'', ''KCl'', ''KF'', ''LiBr'', ''LiCl'',
     ''LiF'', ''MgO'', ''NaBr'', ''NaCl'', ''NaF'', ''NiO'', ''SrO'']"
definition FLUORITE_FORMULAS :: "string list" where
  "FLUORITE_FORMULAS = [''BaF2'', ''CaF2'', ''CeO2'', ''SrF2'', ''ThO2'', ''UO2'']"
definition ANTIFLUORITE_FORMULAS :: "string list" where
  "ANTIFLUORITE_FORMULAS = [''K2O'', ''Li2O'', ''Na2O'']"

definition TMD_BULKS :: "(string \<times> string \<times> rat \<times> rat \<times> rat) pydict" where
  "TMD_BULKS =
    [(''MoS2'', ''Mo'', ''S'', 316 / 100, 241 / 100, 3), (''WS2'', ''W'', ''S'', 315 / 100, 241 / 100, 31 / 10),
     (''MoSe2'', ''Mo'', ''Se'', 329 / 100, 238 / 100, 33 / 10), (''WSe2'', ''W'', ''Se'', 328 / 100, 241 / 100, 33 / 10),
     (''MoTe2'', ''Mo'', ''Te'', 352 / 100, 273 / 100, 35 / 10), (''WTe2'', ''W'', ''Te'', 351 / 100, 272 / 100, 35 / 10)]"

definition tmd_bulk :: "string \<times> string \<times> rat \<times> rat \<times> rat \<Rightarrow> atoms" where
  "tmd_bulk e = (case e of (metal, chalc, a, bond, gap) \<Rightarrow>
     let inplane = a / rat_sqrt 3; dz = rat_sqrt (bond ^ 2 - inplane ^ 2); c = 4 * dz + 2 * gap; z = dz / c in
     crystal [metal, chalc, chalc, metal, chalc, chalc]
       [(1 / 3, 2 / 3, 1 / 4), (1 / 3, 2 / 3, 1 / 4 + z), (1 / 3, 2 / 3, 1 / 4 - z),
        (2 / 3, 1 / 3, 3 / 4), (2 / 3, 1 / 3, 3 / 4 + z), (2 / 3, 1 / 3, 3 / 4 - z)] (hex_cell a c))"

definition cov_radius :: "ase \<Rightarrow> string \<Rightarrow> py_exc + rat" where
  "cov_radius lib el = the_or (ValueError (str_repr el @ '' is not in list'')) (a_radius lib el)"

definition DIAMOND_SITES :: "vec list" where
  "DIAMOND_SITES = [(0, 0, 0), (1 / 4, 1 / 4, 1 / 4), (1 / 2, 1 / 2, 0), (3 / 4, 3 / 4, 0),
     (1 / 2, 0, 1 / 2), (3 / 4, 1 / 4, 3 / 4), (0, 1 / 2, 1 / 2), (1 / 4, 3 / 4, 3 / 4)]"

definition elemental :: "ase \<Rightarrow> string \<Rightarrow> string \<Rightarrow> py_exc + atoms \<times> string" where
  "elemental lib formula el =
    (if el \<in> set DIAMOND_ELS then
       bindr (cov_radius lib el) (\<lambda>r. Inr (crystal (replicate 8 el) DIAMOND_SITES (cubic_cell (8 / rat_sqrt 3 * r)), ''diamond''))
     else if el \<in> set BCC_ELS then
       bindr (cov_radius lib el) (\<lambda>r. Inr (crystal [el, el] [(0, 0, 0), half] (cubic_cell (4 / rat_sqrt 3 * r)), ''bcc''))
     else if el \<in> set HCP_ELS then
       bindr (cov_radius lib el) (\<lambda>r. Inr (crystal [el, el] [(1 / 3, 2 / 3, 1 / 4), (2 / 3, 1 / 3, 3 / 4)]
         (hex_cell (2 * r) (1633 / 1000 * (2 * r))), ''hcp''))
     else if el \<notin> set FCC_ELS then
       Inl (ValueError (''no trusted elemental prototype for '' @ [sq] @ formula @ [sq] @ ''; provide a CIF/POSCAR structure''))
     else
       bindr (cov_radius lib el) (\<lambda>r. Inr (crystal [el, el, el, el]
         [(0, 0, 0), (1 / 2, 1 / 2, 0), (1 / 2, 0, 1 / 2), (0, 1 / 2, 1 / 2)] (cubic_cell (2 * rat_sqrt 2 * r)), ''fcc'')))"

definition perovskite_a_site :: "ase \<Rightarrow> string list \<Rightarrow> py_exc + string" where
  "perovskite_a_site lib els =
    bindr (mapr (\<lambda>e. bindr (cov_radius lib e) (\<lambda>r. Inr (e, r))) (filter (\<lambda>e. e \<noteq> ''O'') els)) (\<lambda>rs.
    case rs of [] \<Rightarrow> Inl (ValueError ''max() arg is an empty sequence'')
    | r # rs \<Rightarrow> Inr (fst (foldl (\<lambda>best x. if snd best < snd x then x else best) r rs)))"

definition perovskite :: "ase \<Rightarrow> string list \<Rightarrow> rat \<Rightarrow> py_exc + atoms \<times> string" where
  "perovskite lib els a =
    bindr (perovskite_a_site lib els) (\<lambda>a_site.
    bindr (first_or (filter (\<lambda>e. e \<noteq> ''O'' \<and> e \<noteq> a_site) els)) (\<lambda>b_site.
    Inr (crystal [a_site, b_site, ''O'', ''O'', ''O'']
      [half, (0, 0, 0), (1 / 2, 0, 0), (0, 1 / 2, 0), (0, 0, 1 / 2)] (cubic_cell a), ''perovskite'')))"

definition radius_sum :: "ase \<Rightarrow> string \<Rightarrow> string \<Rightarrow> py_exc + rat" where
  "radius_sum lib e1 e2 = bindr (cov_radius lib e1) (\<lambda>r1. bindr (cov_radius lib e2) (\<lambda>r2. Inr (r1 + r2)))"

definition binary :: "ase \<Rightarrow> string \<Rightarrow> string \<Rightarrow> string \<Rightarrow> string \<Rightarrow> py_exc + atoms \<times> string" where
  "binary lib formula key e1 e2 =
    (if key \<in> set ZINCBLENDE_FORMULAS then
       bindr (radius_sum lib e1 e2) (\<lambda>r. Inr (crystal [e1, e2] [(0, 0, 0), quarter] (fcc_cell (4 / rat_sqrt 3 * r)), ''zincblende''))
     else if key \<notin> set ROCKSALT_FORMULAS then
       Inl (ValueError (''formula '' @ [sq] @ formula @ [sq] @ '' has no unique trusted prototype; provide a CIF/POSCAR structure''))
     else
       bindr (radius_sum lib e1 e2) (\<lambda>r. Inr (crystal [e1, e2] [(0, 0, 0), half] (fcc_cell (2 * r * (115 / 100))), ''rocksalt'')))"

definition fluorite :: "ase \<Rightarrow> string \<Rightarrow> string \<Rightarrow> string \<Rightarrow> string \<Rightarrow> py_exc + atoms \<times> string" where
  "fluorite lib formula key a_el b_el =
    (if key \<notin> set FLUORITE_FORMULAS \<union> set ANTIFLUORITE_FORMULAS then
       Inl (ValueError (''formula '' @ [sq] @ formula @ [sq] @
         '' is not a trusted fluorite/antifluorite material; provide a CIF/POSCAR structure''))
     else bindr (radius_sum lib a_el b_el) (\<lambda>r.
       Inr (a_fluorite lib (a_el @ b_el @ ''2'') (4 / rat_sqrt 3 * r * (102 / 100)), ''fluorite'')))"

text \<open>The elements by falling amount, in the order of the formula among equals.\<close>

definition formula_atoms :: "ase \<Rightarrow> string \<Rightarrow> py_exc + atoms \<times> string" where
  "formula_atoms lib formula =
    (let comp = a_composition lib formula; key = a_reduced lib formula;
         pairs = sort_key (\<lambda>(e, n). - n) comp; els = map fst pairs; nums = map (round_he \<circ> snd) pairs in
     if list_ex (\<lambda>n. n \<le> 0) nums then Inl (ValueError (''cannot parse formula: '' @ formula))
     else if length els = 1 then elemental lib formula (hd els)
     else if dmem key PEROVSKITE_A \<and> length els = 3 \<and> ''O'' \<in> set els \<and> sort nums = [1, 1, 3] \<and> map_of comp ''O'' = Some 3
     then perovskite lib els (the (dget PEROVSKITE_A key))
     else (case find (\<lambda>(k, e). lower k = lower key) TMD_BULKS of
         Some (k, e) \<Rightarrow> Inr (tmd_bulk e, ''tmd-2h'')
       | None \<Rightarrow>
         if length els = 2 \<and> nums = [1, 1] then binary lib formula key (els ! 0) (els ! 1)
         else if length els = 2 \<and> sort nums = [1, 2]
         then (if nums ! 0 = 1 then fluorite lib formula key (els ! 0) (els ! 1) else fluorite lib formula key (els ! 1) (els ! 0))
         else Inl (ValueError (''no trusted structure prototype for '' @ [sq] @ formula @ [sq] @
           '' (supports selected elemental, AB, ABO3, AB2 and MoS2-family materials). Provide a CIF file or use structure.build2d ''
           @ ''for 2D monolayers.''))))"

end
