(* ===== verification/Compiler_Props.thy ===== *)
theory Compiler_Props
  imports Prototypes
begin

text \<open>
  Properties of the input compiler: the vacuum test and the mesh of a structure, the tables of
  materials, the texts, the number of bands, and the band path.
\<close>

section \<open>Vacuum axes\<close>

lemma foldr_max: "c < foldr max xs (0::rat) \<longleftrightarrow> c < 0 \<or> (\<exists>x \<in> set xs. c < x)"
  by (induction xs) (auto simp: less_max_iff_disj)

lemma gaps_nth:
  assumes "f \<noteq> []"
  shows "set (gaps f) = {(if Suc i < length f then sort f ! Suc i else sort f ! 0 + 1) - sort f ! i | i. i < length f}"
proof -
  let ?s = "sort f"
  have n: "?s \<noteq> []" "length ?s = length f" using assms by (metis length_0_conv length_sort) simp
  have nth: "(tl ?s @ [hd ?s + 1]) ! i = (if Suc i < length f then ?s ! Suc i else ?s ! 0 + 1)" if "i < length f" for i
  proof (cases "Suc i < length f")
    case True
    then have "i < length f - Suc 0" by simp
    with True show ?thesis using n by (simp add: nth_append nth_tl)
  next
    case False
    then have "i = length ?s - 1" using that n by simp
    then show ?thesis using False n by (simp add: nth_append hd_conv_nth)
  qed
  have "set (zip ?s (tl ?s @ [hd ?s + 1])) = {(?s ! i, (if Suc i < length f then ?s ! Suc i else ?s ! 0 + 1)) | i. i < length f}"
    using n nth by (auto simp: set_zip)
  then show ?thesis unfolding gaps_def Let_def set_map setcompr_eq_image
    by (simp add: image_image split del: if_split)
qed

definition next_pos :: "rat list \<Rightarrow> nat \<Rightarrow> rat" where
  "next_pos f i = (if Suc i < length f then sort f ! Suc i else sort f ! 0 + 1)"

definition arc_from :: "rat list \<Rightarrow> rat \<Rightarrow> bool" where
  "arc_from f b = (\<forall>c \<in> set f. c = b \<or> 1 / 2 < (if b < c then c - b else c + 1 - b))"

lemma sort_mono: "i \<le> j \<Longrightarrow> j < length f \<Longrightarrow> sort f ! i \<le> sort f ! j" for f :: "rat list"
  by (rule sorted_nth_mono) simp_all

lemma mem_sort: "c \<in> set f \<longleftrightarrow> (\<exists>j < length f. sort f ! j = c)" for f :: "rat list"
  using in_set_conv_nth [of c "sort f"] by simp

lemma gap_gives_arc:
  assumes wrapped: "\<forall>x \<in> set f. 0 \<le> x \<and> x < 1" and i: "i < length f" "1 / 2 < next_pos f i - sort f ! i"
  shows "arc_from f (sort f ! i)"
proof -
  have wr: "0 \<le> sort f ! j \<and> sort f ! j < 1" if "j < length f" for j using wrapped mem_sort that by blast
  have "c = sort f ! i \<or> 1 / 2 < (if sort f ! i < c then c - sort f ! i else c + 1 - sort f ! i)" if c: "c \<in> set f" for c
  proof -
    from c obtain j where j: "j < length f" "sort f ! j = c" by (auto simp: mem_sort)
    consider "Suc i < length f" "j \<le> i" | "Suc i < length f" "Suc i \<le> j" | "\<not> Suc i < length f" by linarith
    then show ?thesis
    proof cases
      case 1
      have "sort f ! i < 1 / 2" "sort f ! j \<le> sort f ! i" "0 \<le> sort f ! j"
        using i 1 wr [OF 1(1)] sort_mono [OF 1(2) i(1)] wr [OF j(1)] by (auto simp: next_pos_def)
      with j(2) show ?thesis by auto
    next
      case 2
      with sort_mono [OF 2(2) j(1)] j have "sort f ! Suc i \<le> c" by simp
      with i 2 show ?thesis by (auto simp: next_pos_def)
    next
      case 3
      with i(1) j(1) have "j \<le> i" by simp
      with sort_mono [of j i f] sort_mono [of 0 j f] i j 3 show ?thesis by (auto simp: next_pos_def)
    qed
  qed
  then show ?thesis by (simp add: arc_from_def)
qed

lemma arc_gives_gap:
  assumes b: "b \<in> set f" "arc_from f b"
  shows "\<exists>i < length f. 1 / 2 < next_pos f i - sort f ! i"
proof -
  let ?J = "{j. j < length f \<and> sort f ! j \<le> b}"
  define i where "i = Max ?J"
  from b(1) mem_sort obtain k where k: "k < length f" "sort f ! k = b" by blast
  have J: "finite ?J" "k \<in> ?J" using k by auto
  have "i \<in> ?J" unfolding i_def using Max_in [OF J(1)] J(2) by blast
  then have i: "i < length f" "sort f ! i \<le> b" by simp_all
  have "k \<le> i" using Max_ge [OF J] unfolding i_def .
  with sort_mono i k have eq: "sort f ! i = b" by fastforce
  have arc: "c \<in> set f \<Longrightarrow> c = b \<or> 1 / 2 < (if b < c then c - b else c + 1 - b)" for c using b(2) by (simp add: arc_from_def)
  have "1 / 2 < next_pos f i - sort f ! i"
  proof (cases "Suc i < length f")
    case True
    have "\<not> sort f ! Suc i \<le> b"
    proof
      assume "sort f ! Suc i \<le> b"
      with True have "Suc i \<in> ?J" by simp
      from Max_ge [OF J(1) this] show False unfolding i_def by simp
    qed
    moreover have "sort f ! Suc i \<in> set f" using mem_sort True by blast
    ultimately show ?thesis using arc [of "sort f ! Suc i"] True eq by (auto simp: next_pos_def)
  next
    case False
    have "0 < length f" using i(1) by linarith
    then have "sort f ! 0 \<in> set f" using mem_sort by blast
    moreover have "sort f ! 0 \<le> b" using sort_mono [of 0 i f] i eq by simp
    ultimately have "sort f ! 0 \<in> set f" "sort f ! 0 \<le> b" by simp_all
    with arc [of "sort f ! 0"] False eq show ?thesis by (auto simp: next_pos_def)
  qed
  with i show ?thesis by blast
qed

text \<open>
  The vacuum test. With wrapped coordinates, an axis counts as not periodic exactly if it is at
  least eight Angstrom long, there are two atoms, and from some atom on no other position follows within half of the cell:
  the atoms leave an arc of more than half of the cell empty.
\<close>

theorem vacuum_detection:
  assumes n: "length f = natoms" and wrapped: "\<forall>x \<in> set f. 0 \<le> x \<and> x < 1"
  shows "\<not> axis_periodic len natoms f \<longleftrightarrow>
     8 \<le> len \<and> 2 \<le> natoms \<and> (\<exists>b \<in> set f. \<forall>c \<in> set f. c = b \<or> 1 / 2 < (if b < c then c - b else c + 1 - b))"
proof (cases "f = []")
  case True
  then show ?thesis using n by (simp add: axis_periodic_def)
next
  case False
  have "\<not> 1 / 2 < (0::rat)" by simp
  then have "(1 / 2 < foldr max (gaps f) 0) \<longleftrightarrow> (\<exists>i < length f. 1 / 2 < next_pos f i - sort f ! i)"
    unfolding foldr_max gaps_nth [OF False] next_pos_def by blast
  also have "\<dots> \<longleftrightarrow> (\<exists>b \<in> set f. arc_from f b)"
    using gap_gives_arc [OF wrapped] arc_gives_gap [of _ f] mem_sort [of _ f] by blast
  finally show ?thesis by (auto simp: axis_periodic_def arc_from_def not_less not_le)
qed

section \<open>Structures from files\<close>

lemma mapr_Inr: "mapr f xs = Inr ys \<Longrightarrow> list_all2 (\<lambda>x y. f x = Inr y) xs ys"
  by (induction xs arbitrary: ys) (auto simp: bindr_def split: sum.splits)

lemma mesh_count_bounds: "mesh_count len p = Inr k \<Longrightarrow> 1 \<le> k \<and> k \<le> 8 \<and> (\<not> p \<longrightarrow> k = 1)"
  by (auto simp: mesh_count_def split: if_splits)

lemma pseudos_found:
  "mapr (\<lambda>el. bindr (find_pseudo pd el) (\<lambda>f. Inr (el, f))) xs = Inr ps \<Longrightarrow>
   map fst ps = xs \<and> (\<forall>(el, f) \<in> set ps. pd_has pd f)"
  by (induction xs arbitrary: ps) (auto simp: bindr_eq_Inr find_pseudo_def split: if_splits)

text \<open>
  The profile of a structure. Its species are the elements of the structure, each once and in
  order, each with a pseudopotential file that is there and a mass; the cell is written out; the mesh has one to eight
  points along every axis, one along a vacuum axis.
\<close>

theorem structure_profile_sound:
  assumes "profile_from_atoms lib pd cr = Inr (p, alat)"
  shows "sorted (q_species p) \<and> distinct (q_species p) \<and> set (q_species p) = set (at_symbols cr)
     \<and> q_nspecies p = int (length (q_species p)) \<and> length (q_masses p) = length (q_species p) \<and> q_ibrav p = 0
     \<and> map fst (q_pseudos p) = q_species p \<and> check_pseudos pd (q_pseudos p) = []
     \<and> (\<exists>kx ky kz. q_kpoints p = [kx, ky, kz, 1, 1, 1] \<and> list_all (\<lambda>k. 1 \<le> k \<and> k \<le> 8) [kx, ky, kz]
          \<and> (\<forall>px py pz. at_pbc cr = [px, py, pz] \<longrightarrow> (\<not> px \<longrightarrow> kx = 1) \<and> (\<not> py \<longrightarrow> ky = 1) \<and> (\<not> pz \<longrightarrow> kz = 1)))"
proof -
  let ?s = "sorted_species cr"
  obtain lx ly lz where l: "a_lengths lib (at_cell cr) = (lx, ly, lz)" by (metis prod_cases3)
  let ?pbc = "if length (at_pbc cr) = 3 then at_pbc cr else [True, True, True]"
  have "length ?pbc = 3" by simp
  then obtain px py pz where pbc: "?pbc = [px, py, pz]" by (auto simp: numeral_3_eq_3 length_Suc_conv)
  from assms obtain ps ms kx ky kz where r:
    "mapr (\<lambda>el. bindr (find_pseudo pd el) (\<lambda>f. Inr (el, f))) ?s = Inr ps"
    "mapr (\<lambda>el. the_or (ValueError (str_repr el @ '' is not in list'')) (a_mass lib el)) ?s = Inr ms"
    "mesh_count lx px = Inr kx" "mesh_count ly py = Inr ky" "mesh_count lz pz = Inr kz"
    and p: "p = \<lparr>q_ibrav = 0, q_nspecies = int (length ?s), q_species = ?s, q_masses = ms, q_pseudos = ps,
                q_occupations = ''smearing'', q_smearing = ''mv'', q_degauss = 1 / 100, q_ecutwfc = 40, q_ecutrho = 320,
                q_kpoints = [kx, ky, kz, 1, 1, 1], q_is_metal = True, q_input_dft = None\<rparr>"
    unfolding profile_from_atoms_def Let_def l prod.case pbc list.case bindr_eq_Inr by blast
  note ps = pseudos_found [OF r(1)]
  have ms: "length ms = length ?s" using mapr_Inr [OF r(2)] by (simp add: list_all2_lengthD)
  have "filter (\<lambda>(el, f). \<not> pd_has pd f) ps = []" using ps by (auto simp: filter_empty_conv)
  moreover have "at_pbc cr = [qx, qy, qz] \<Longrightarrow> qx = px \<and> qy = py \<and> qz = pz" for qx qy qz using pbc by simp
  ultimately show ?thesis
    unfolding p using ps ms mesh_count_bounds [OF r(3)] mesh_count_bounds [OF r(4)] mesh_count_bounds [OF r(5)]
    by (auto simp: check_pseudos_def sorted_species_def)
qed

section \<open>Number of bands\<close>

definition valence_of :: "pseudo_dir \<Rightarrow> string \<Rightarrow> pyfloat" where
  "valence_of pd f = valence_of_lines (splitlines (pd_text pd f))"

definition coherent :: "pseudo_dir \<Rightarrow> pyfloat pydict \<Rightarrow> bool" where
  "coherent pd cache = (\<forall>f v. dget cache f = Some v \<longrightarrow> v = valence_of pd f)"

lemma z_valence: "coherent pd cache \<Longrightarrow> \<exists>cache'. pseudo_z_valence pd f cache = (valence_of pd f, cache') \<and> coherent pd cache'"
  by (auto simp: pseudo_z_valence_def coherent_def valence_of_def Let_def pydict split: option.split)

lemma sum_valence_eq:
  "coherent pd cache \<Longrightarrow> \<exists>cache'. coherent pd cache' \<and> sum_valence pd pseudos ss acc cache =
     (bindr (mapr (\<lambda>s. the_or (KeyError s) (dget pseudos s)) ss) (\<lambda>fs. Inr (foldl pf_add acc (map (valence_of pd) fs))), cache')"
proof (induction ss arbitrary: acc cache)
  case (Cons s ss)
  show ?case
  proof (cases "dget pseudos s")
    case (Some f)
    from z_valence [OF Cons.prems, of f] obtain c' where c: "pseudo_z_valence pd f cache = (valence_of pd f, c')" "coherent pd c'"
      by blast
    from Cons.IH [OF c(2), of "pf_add acc (valence_of pd f)"] Some c show ?thesis
      by (auto simp: bindr_def split: sum.split)
  qed (use Cons.prems in \<open>auto simp: bindr_def\<close>)
qed (auto simp: bindr_def)

text \<open>
  The number of bands. Unless the caller gives one, it is at least four for an atom and at least eight
  more than the pairs of valence electrons that the pseudopotential files declare, twelve for a metal; whatever
  the cache holds, as long as it agrees with the files, the number is the one computed without it, and the cache agrees with the files afterwards.
\<close>

theorem nbnd_covers:
  assumes "coherent pd cache" "choose_nbnd pd db cr None cache = (chosen, cache')"
  shows "coherent pd cache' \<and> chosen = fst (choose_nbnd pd db cr None [])
     \<and> (\<forall>n. chosen = Inr n \<longrightarrow> 4 * int (length (at_symbols cr)) \<le> n
          \<and> (\<exists>fs q. map (dget (q_pseudos db)) (at_symbols cr) = map Some fs \<and> foldl pf_add (Fin 0) (map (valence_of pd) fs) = Fin q
               \<and> q / 2 + (if q_is_metal db then 12 else 8) \<le> of_int n))"
proof -
  let ?m = "mapr (\<lambda>s. the_or (KeyError s) (dget (q_pseudos db) s)) (at_symbols cr)"
  have e: "coherent pd []" by (simp add: coherent_def pydict)
  from sum_valence_eq [OF assms(1), of "q_pseudos db" "at_symbols cr" "Fin 0"] sum_valence_eq [OF e, of "q_pseudos db" "at_symbols cr" "Fin 0"] assms(2)
  have c: "coherent pd cache'" "chosen = fst (choose_nbnd pd db cr None [])"
    and v: "chosen = bindr (bindr ?m (\<lambda>fs. Inr (foldl pf_add (Fin 0) (map (valence_of pd) fs))))
       (\<lambda>n. bindr (occupied_bands n) (\<lambda>n_occ. Inr (band_count db (length (at_symbols cr)) n_occ)))"
    by (auto simp: choose_nbnd_def)
  have "4 * int (length (at_symbols cr)) \<le> n
          \<and> (\<exists>fs q. map (dget (q_pseudos db)) (at_symbols cr) = map Some fs \<and> foldl pf_add (Fin 0) (map (valence_of pd) fs) = Fin q
               \<and> q / 2 + (if q_is_metal db then 12 else 8) \<le> of_int n)" if n: "chosen = Inr n" for n
  proof -
    from n v obtain fs k where fs: "?m = Inr fs" "occupied_bands (foldl pf_add (Fin 0) (map (valence_of pd) fs)) = Inr k"
      "n = band_count db (length (at_symbols cr)) k"
      by (auto simp: bindr_eq_Inr)
    from mapr_Inr [OF fs(1)] have m: "map (dget (q_pseudos db)) (at_symbols cr) = map Some fs"
      by (induction rule: list_all2_induct) (auto simp: the_or_Inr)
    from fs(2) obtain q where q: "foldl pf_add (Fin 0) (map (valence_of pd) fs) = Fin q" "k = \<lceil>q / 2\<rceil>"
      by (auto simp: occupied_bands_def split: pyfloat.splits)
    have "q / 2 \<le> of_int k" unfolding q(2) by simp
    moreover have "k + (if q_is_metal db then 12 else 8) \<le> n" unfolding fs(3) band_count_def by simp
    then have "of_int k + (if q_is_metal db then 12 else 8) \<le> (of_int n :: rat)" by (auto split: if_splits)
    ultimately have "q / 2 + (if q_is_metal db then 12 else 8) \<le> of_int n" by linarith
    moreover have "4 * int (length (at_symbols cr)) \<le> n" unfolding fs(3) band_count_def by simp
    ultimately show ?thesis using m q(1) by blast
  qed
  with c show ?thesis by blast
qed

section \<open>The band path\<close>

lemma chain_error: "(\<exists>e. chain_of special cs = Inl e) \<longleftrightarrow> (\<exists>c \<in> set cs. c \<notin> {CHR ''|'', CHR ''$''} \<and> dget special [c] = None)"
proof (induction cs)
  case (Cons c cs)
  then show ?case
    by (cases "c = CHR ''|'' \<or> c = CHR ''$''"; cases "dget special [c]"; cases "chain_of special cs") (auto simp: bindr_def)
qed simp

lemma mapr_error: "(\<exists>e. mapr f xs = Inl e) \<longleftrightarrow> (\<exists>x \<in> set xs. \<exists>e. f x = Inl e)"
proof (induction xs)
  case (Cons x xs)
  then show ?case by (cases "f x"; cases "mapr f xs") (auto simp: bindr_def)
qed simp

lemma chain_points: "chain_of special cs = Inr ch \<Longrightarrow>
   map fst ch = map (\<lambda>c. [c]) (filter (\<lambda>c. c \<notin> {CHR ''|'', CHR ''$''}) cs) \<and> (\<forall>(l, k) \<in> set ch. dget special l = Some k)"
proof (induction cs arbitrary: ch)
  case (Cons c cs)
  show ?case
  proof (cases "c = CHR ''|'' \<or> c = CHR ''$''")
    case True
    with Cons show ?thesis by auto
  next
    case False
    with Cons.prems obtain k r where "dget special [c] = Some k" "chain_of special cs = Inr r" "ch = ([c], k) # r"
      by (auto simp: bindr_eq_Inr split: option.splits)
    with Cons.IH False show ?thesis by auto
  qed
qed simp

lemma short_pieces: "(\<forall>n \<in> set (map (\<lambda>s. length (filter P s)) (filter (\<lambda>s. s \<noteq> []) xs)). n < (2::nat)) \<longleftrightarrow>
   (\<forall>s \<in> set xs. length (filter P s) < 2)"
  by (induction xs) auto

text \<open>
  The band path. It is refused exactly if some letter between the commas is not the label of a special point, or no
  piece has two letters (so a label of two characters, such as S1, is always refused unless both its characters
  are labels); the segments it returns have two points or more, each with the coordinates of its letter.
\<close>

theorem bandpath_outcome:
  "((\<exists>e. bandpath_segments path special = Inl e) \<longleftrightarrow>
     (\<exists>c \<in> set path. c \<notin> {CHR ''|'', CHR ''$'', CHR '',''} \<and> dget special [c] = None)
     \<or> (\<forall>s \<in> set (split_on (CHR '','') path). length (filter (\<lambda>c. c \<notin> {CHR ''|'', CHR ''$''}) s) < 2))
   \<and> (\<forall>segs. bandpath_segments path special = Inr segs \<longrightarrow>
        (\<forall>seg \<in> set segs. 2 \<le> length seg \<and> (\<forall>(l, k) \<in> set seg. dget special l = Some k)))"
proof -
  let ?ps = "filter (\<lambda>s. s \<noteq> []) (split_on (CHR '','') path)"
  have letters: "(\<exists>s \<in> set (split_on d p). c \<in> set s) \<longleftrightarrow> c \<in> set p \<and> c \<noteq> d" for c d and p :: string
    by (induction d p rule: split_on.induct) (auto split: list.splits)
  let ?keep = "\<lambda>c. c \<notin> {CHR ''|'', CHR ''$''}"
  let ?bad = "\<exists>c \<in> set path. c \<notin> {CHR ''|'', CHR ''$'', CHR '',''} \<and> dget special [c] = None"
  have bad: "(\<exists>e. mapr (chain_of special) ?ps = Inl e) \<longleftrightarrow> ?bad"
  proof -
    let ?P = "\<lambda>c. c \<notin> {CHR ''|'', CHR ''$''} \<and> dget special [c] = None"
    have "(\<exists>e. mapr (chain_of special) ?ps = Inl e) \<longleftrightarrow> (\<exists>s \<in> set ?ps. \<exists>c \<in> set s. ?P c)"
      unfolding mapr_error chain_error ..
    also have "\<dots> \<longleftrightarrow> (\<exists>s \<in> set (split_on (CHR '','') path). \<exists>c \<in> set s. ?P c)"
      by fastforce
    also have "\<dots> \<longleftrightarrow> (\<exists>c. (\<exists>s \<in> set (split_on (CHR '','') path). c \<in> set s) \<and> ?P c)" by blast
    also have "\<dots> \<longleftrightarrow> ?bad" unfolding letters by blast
    finally show ?thesis .
  qed
  show ?thesis
  proof (cases "mapr (chain_of special) ?ps")
    case (Inl e)
    with bad have ?bad by blast
    with Inl show ?thesis by (simp add: bandpath_segments_def bindr_def)
  next
    case (Inr chs)
    with bad have ok: "\<not> ?bad" by auto
    from mapr_Inr [OF Inr] have len: "map length chs = map (\<lambda>s. length (filter ?keep s)) ?ps"
      and pts: "\<forall>ch \<in> set chs. \<forall>(l, k) \<in> set ch. dget special l = Some k"
      by (induction rule: list_all2_induct) (auto dest!: chain_points dest: map_eq_imp_length_eq)
    have "filter (\<lambda>c. 2 \<le> length c) chs = [] \<longleftrightarrow> (\<forall>n \<in> set (map length chs). n < 2)"
      by (auto simp: filter_empty_conv not_le)
    also have "\<dots> \<longleftrightarrow> (\<forall>s \<in> set (split_on (CHR '','') path). length (filter ?keep s) < 2)"
      unfolding len by (rule short_pieces)
    finally have short: "filter (\<lambda>c. 2 \<le> length c) chs = [] \<longleftrightarrow> (\<forall>s \<in> set (split_on (CHR '','') path). length (filter ?keep s) < 2)" .
    define F where "F = filter (\<lambda>c. 2 \<le> length c) chs"
    have res: "bandpath_segments path special = (if F = [] then Inl (ValueError ''could not build k-path for cell'') else Inr F)"
      by (simp add: bandpath_segments_def Inr bindr_def Let_def F_def)
    show ?thesis
    proof (cases "F = []")
      case True
      with short have "\<forall>s \<in> set (split_on (CHR '','') path). length (filter ?keep s) < 2" unfolding F_def by (rule iffD1)
      then show ?thesis unfolding res if_P [OF True] by blast
    next
      case False
      then have "\<not> (\<forall>s \<in> set (split_on (CHR '','') path). length (filter ?keep s) < 2)" using short unfolding F_def by blast
      moreover have "\<forall>seg \<in> set F. 2 \<le> length seg \<and> (\<forall>(l, k) \<in> set seg. dget special l = Some k)"
        using pts unfolding F_def by (simp, blast)
      ultimately show ?thesis using ok unfolding res if_not_P [OF False] by blast
    qed
  qed
qed

section \<open>The flat path\<close>

lemma add_point_remdups:
  "remdups_adj (map snd acc) = map snd acc \<Longrightarrow> map snd (foldl add_point acc xs) = remdups_adj (map snd acc @ map snd xs)"
proof (induction xs arbitrary: acc)
  case (Cons x xs)
  show ?case
  proof (cases acc rule: rev_cases)
    case Nil
    with Cons.IH [of "[x]"] show ?thesis by (simp add: add_point_def)
  next
    case (snoc as a)
    show ?thesis
    proof (cases "snd a = snd x")
      case True
      have "remdups_adj (map snd as @ snd a # snd a # map snd xs) = remdups_adj (map snd as @ snd a # map snd xs)"
        by (subst (1 2) remdups_adj_append) simp
      with True snoc Cons show ?thesis by (simp add: add_point_def)
    next
      case False
      have "remdups_adj (map snd (acc @ [x])) = map snd (acc @ [x])"
        using False snoc Cons.prems by (simp add: remdups_adj_append_two)
      from Cons.IH [OF this] False snoc show ?thesis by (simp add: add_point_def)
    qed
  qed
qed simp

text \<open>
  The points handed to bands.x are the segments in a row without immediate repetitions: their coordinates are the
  segments' coordinates with adjacent repeats removed.
\<close>

theorem flat_path: "map snd (flatten_path segs) = remdups_adj (map snd (concat segs))"
proof -
  have "flatten_path segs = foldl add_point [] (concat segs)"
    unfolding flatten_path_def by (induction segs rule: rev_induct) simp_all
  then show ?thesis using add_point_remdups [of "[]" "concat segs"] by simp
qed

section \<open>The tables\<close>

lemma dget_map_snd: "dget (map (\<lambda>(k, d). (k, h d)) xs) k = map_option h (dget xs k)"
  by (simp add: dget_def map_of_map)

lemma db_dget: "dget MATERIAL_DB m = (case dget LIBRARY_MATERIALS m of Some d \<Rightarrow> Some (FromLibrary d)
      | None \<Rightarrow> dget (map (\<lambda>(k, p, a). (k, Builtin p a)) MATERIAL_BUILTIN) m)"
proof -
  have wf: "wf_dict (map (\<lambda>(k, d). (k, FromLibrary d)) LIBRARY_MATERIALS)"
    using library_keys_distinct by (simp add: wf_dict_def comp_def case_prod_beta)
  show ?thesis unfolding MATERIAL_DB_def dget_dupdate [OF wf] dget_map_snd by (cases "dget LIBRARY_MATERIALS m") simp_all
qed

lemma keys_apart: "list_all (\<lambda>k. k \<notin> {''Si'', ''Al'', ''MgO''}) (map fst LIBRARY_MATERIALS)"
  by code_simp

lemma db_lookup:
  assumes "dget MATERIAL_DB m = Some x"
  obtains d where "x = FromLibrary d" "library_entry_ok m d" "m \<notin> {''Si'', ''Al'', ''MgO''}"
  | p a where "x = Builtin p a" "(m, p, a) \<in> set MATERIAL_BUILTIN"
proof (cases "dget LIBRARY_MATERIALS m")
  case (Some d)
  then have d: "(m, d) \<in> set LIBRARY_MATERIALS" by (auto simp: dget_def dest: map_of_SomeD)
  then have "library_entry_ok m d" using library_ok by (auto simp: entries_ok_def list_all_iff)
  moreover have "m \<notin> {''Si'', ''Al'', ''MgO''}" using d keys_apart by (force simp: list_all_iff)
  ultimately show thesis using Some db_dget [of m] assms by (intro that(1)) auto
next
  case None
  with db_dget [of m] assms have "(m, x) \<in> (\<lambda>(k, p, a). (k, Builtin p a)) ` set MATERIAL_BUILTIN"
    by (auto simp: dget_def dest!: map_of_SomeD)
  then show thesis by (auto intro: that(2))
qed

lemma builtin_dget: "m \<in> {''Si'', ''Al'', ''MgO''} \<Longrightarrow> dget MATERIAL_DB m = dget (map (\<lambda>(k, p, a). (k, Builtin p a)) MATERIAL_BUILTIN) m"
proof -
  assume m: "m \<in> {''Si'', ''Al'', ''MgO''}"
  then have "m \<notin> set (map fst LIBRARY_MATERIALS)" using keys_apart by (force simp: list_all_iff)
  then have "dget LIBRARY_MATERIALS m = None" by (simp add: dget_None_iff dkeys_def)
  then show ?thesis by (simp add: db_dget)
qed

section \<open>The texts\<close>

definition CELL_HEAD :: string where "CELL_HEAD = ''CELL_PARAMETERS (alat=1.0)''"

lemma species_lines_head: "species_lines db = Inr ls \<Longrightarrow> CELL_HEAD \<notin> set ls \<and> length ls = min (length (q_species db)) (length (q_masses db))"
proof -
  assume "species_lines db = Inr ls"
  from mapr_Inr [OF this [unfolded species_lines_def]] have "CELL_HEAD \<notin> set ls \<and> length ls = length (zip (q_species db) (q_masses db))"
    by (induction rule: list_all2_induct) (auto simp: bindr_eq_Inr CELL_HEAD_def)
  then show ?thesis by simp
qed

lemma system_head: "CELL_HEAD \<notin> set (system_lines db cr alat w r)"
  by (simp add: system_lines_def CELL_HEAD_def)

section \<open>Tabulated materials\<close>

lemma builtin_materials: "(m, p, a) \<in> set MATERIAL_BUILTIN \<Longrightarrow>
   q_ibrav p = 2 \<and> length (q_kpoints p) = 6 \<and> map fst (q_pseudos p) = q_species p \<and> length (q_masses p) = length (q_species p)
   \<and> (\<exists>cr. build_atoms lib m = Inr cr \<and> set (at_symbols cr) = set (q_species p))"
proof -
  assume m: "(m, p, a) \<in> set MATERIAL_BUILTIN"
  then have k: "m \<in> {''Si'', ''Al'', ''MgO''}" by (auto simp: MATERIAL_BUILTIN_def)
  have d: "dget MATERIAL_DB m = Some (Builtin p a)"
    unfolding builtin_dget [OF k] using m by (auto simp: MATERIAL_BUILTIN_def dget_def)
  show ?thesis using m d
    by (auto simp: MATERIAL_BUILTIN_def qe_builtin_def build_atoms_def bindr_def crystal_def)
qed

lemma library_materials:
  assumes "library_entry_ok m d" "dget MATERIAL_DB m = Some (FromLibrary d)"
  shows "q_ibrav (qe_of_entry d) = 0 \<and> length (q_kpoints (qe_of_entry d)) = 6 \<and> map fst (q_pseudos (qe_of_entry d)) = q_species (qe_of_entry d)
   \<and> length (q_masses (qe_of_entry d)) = length (q_species (qe_of_entry d))
   \<and> (\<exists>cr a. build_atoms lib m = Inr cr \<and> lattice_constant (FromLibrary d) = Inr a \<and> set (at_symbols cr) = set (q_species (qe_of_entry d)))"
proof -
  obtain cp ss ks where e: "db_cellpar d = Some cp" "db_sites d = Some ss" "length cp = 6" "db_species d = rev (remdups (rev (map fst ss)))"
    "db_kpoints d = Some ks" "length ks = 6" "species_ok d" "db_ibrav d = 0"
    using assms(1) by (auto simp: library_entry_ok_def split: option.splits)
  from e(3) obtain c cs where "cp = c # cs" by (cases cp) auto
  then have a: "\<exists>a. lattice_constant (FromLibrary d) = Inr a" using e(1) by (auto simp: first_or_def split: option.split)
  then show ?thesis using e assms(2) by (auto simp: qe_of_entry_def species_ok_def build_atoms_def bindr_def crystal_def)
qed

lemma species_lines_runs: "map fst (q_pseudos p) = q_species p \<Longrightarrow> \<exists>ls. species_lines p = Inr ls"
proof -
  assume k: "map fst (q_pseudos p) = q_species p"
  have "\<exists>f. dget (q_pseudos p) s = Some f" if "s \<in> set (q_species p)" for s
    using that dget_None_iff [of "q_pseudos p" s] k by (auto simp: dkeys_def)
  then have "\<not> (\<exists>x \<in> set (zip (q_species p) (q_masses p)). \<exists>e. (case x of (el, mass) \<Rightarrow>
      bindr (the_or (KeyError el) (dget (q_pseudos p) el)) (\<lambda>f. Inr (''  '' @ el @ ''  '' @ fmt_f 3 mass @ ''  '' @ f))) = Inl e)"
    by (fastforce simp: bindr_def dest: set_zip_leftD)
  then have "\<not> (\<exists>e. species_lines p = Inl e)" unfolding species_lines_def mapr_error .
  then show ?thesis by (cases "species_lines p") auto
qed

lemma mesh_runs: "6 \<le> length ks \<Longrightarrow> \<exists>ls. mesh_lines ks = Inr ls"
  by (cases ks rule: mesh_lines.cases) auto

section \<open>Divergences\<close>

text \<open>
  The functional of MgO is only set in the relaxation. With default options and all files
  there, the relaxation input of MgO sets \<open>input_dft\<close> to pz and the input of the same material's scf and nscf
  calculations on a uniform mesh does not.
\<close>

definition DFT_LINE :: string where "DFT_LINE = ''  input_dft = '' @ dq_text ''pz''"

theorem functional_only_in_relaxation:
  assumes files: "pd_has pd ''Mg.pz-n-vbc.UPF''" "pd_has pd ''O-q6.gth''" and calc: "c \<in> {''scf'', ''nscf''}"
  shows "(\<exists>ls. compile_t1 lib pd ''MgO'' None t1_defaults None = Inr (join nl ls) \<and> DFT_LINE \<in> set ls)
     \<and> (\<exists>ls. fst (compile_scf lib pd ''MgO'' None (scf_defaults\<lparr>s_calculation := c, s_nbnd := Some n, s_kmode := ''uniform''\<rparr>) None cache)
            = Inr (join nl ls) \<and> DFT_LINE \<notin> set ls)"
proof -
  define p where "p = qe_builtin 2 [''Mg'', ''O''] [24305 / 1000, 15999 / 1000] [(''Mg'', ''Mg.pz-n-vbc.UPF''), (''O'', ''O-q6.gth'')]
        (1 / 100) 40 320 [4, 4, 4, 1, 1, 1] False (Some ''pz'')"
  define cr where "cr = crystal [''Mg'', ''O''] [(0, 0, 0), half] (fcc_cell (421 / 100))"
  define al where "al = 421 / 100 * BOHR_PER_ANG"
  let ?so = "scf_defaults\<lparr>s_calculation := c, s_nbnd := Some n, s_kmode := ''uniform''\<rparr>"
  have d: "dget MATERIAL_DB ''MgO'' = Some (Builtin p (421 / 100))"
    unfolding builtin_dget [of "''MgO''", simplified] by (simp add: MATERIAL_BUILTIN_def dget_def p_def)
  then have r: "resolve_material lib pd ''MgO'' None = Inr (p, cr, al)"
    by (simp add: resolve_material_def build_atoms_def bindr_def cr_def al_def)
  have ps: "pseudos_present pd (q_pseudos p) = Inr ()"
    using files by (simp add: p_def qe_builtin_def pseudos_present_def check_pseudos_def)
  have "\<exists>cl. card_lines p cr al = Inr cl \<and> DFT_LINE \<notin> set cl"
    by (simp add: p_def cr_def card_lines_def species_lines_def qe_builtin_def crystal_def position_lines_def cell_lines_def
        bindr_def dget_def DFT_LINE_def)
  then obtain cl where cards: "card_lines p cr al = Inr cl" "DFT_LINE \<notin> set cl" by blast
  have "\<exists>ml. mesh_lines (q_kpoints p) = Inr ml" by (simp add: p_def qe_builtin_def)
  moreover have "mesh_or (o_kpoints t1_defaults) (q_kpoints p) = q_kpoints p" "q_input_dft p = Some ''pz''"
    by (simp_all add: mesh_or_def t1_defaults_def p_def qe_builtin_def)
  ultimately obtain ls where ls: "t1_lines pd (prefix_or None ''MgO'') t1_defaults p cr al = Inr ls" "DFT_LINE \<in> set ls"
    by (auto simp: t1_lines_def cards bindr_def DFT_LINE_def)
  have digits: "show_int 4 = ''4''" "show_int 8 = ''8''" by code_simp+
  obtain ml where ml: "scf_points lib ''MgO'' ?so p None = Inr ml" "DFT_LINE \<notin> set ml"
    using calc by (auto simp: scf_points_def scf_defaults_def mesh_or_def p_def qe_builtin_def dense_def digits DFT_LINE_def)
  then obtain ls' where ls': "scf_lines lib pd ''MgO'' (prefix_or None ''MgO'') ?so p cr al n None = Inr ls'"
    "DFT_LINE \<notin> set ls'"
    using cards by (auto simp: scf_lines_def bindr_def system_lines_def electron_lines_def) (auto simp: DFT_LINE_def)
  have "compile_t1 lib pd ''MgO'' None t1_defaults None = Inr (join nl ls)"
    using ls by (simp add: compile_t1_def r bindr_def ps)
  moreover have "fst (compile_scf lib pd ''MgO'' None ?so None cache) = Inr (join nl ls')"
    using ls' by (simp add: compile_scf_def r bindr_def ps choose_nbnd_def scf_defaults_def)
  ultimately show ?thesis using ls ls' by blast
qed

text \<open>
  A calculation that keeps the default mode runs along the band path: an nscf input without a mode lists the points of the path with equal weights,
  whatever mesh the caller gives. The density-of-states pipeline of the task runner compiles its nscf step this way.
\<close>

theorem nscf_ignores_mesh:
  "scf_points lib m (scf_defaults\<lparr>s_calculation := ''nscf'', s_kpoints := ks\<rparr>) db (Some cr) =
     (let points = a_kpts lib (at_cell cr) (pbc_of cr) 60 in
      Inr ([''K_POINTS crystal'', ''  '' @ show_int (int (length points))] @ map (\<lambda>k. vec_text k @ ''  1.0'') points @ [[]]))"
  by (simp add: scf_points_def scf_defaults_def get_bandpath_kpoints_def bindr_def Let_def)

text \<open>
  The diamond prototype is not diamond. Its sites are not those of the face-centred lattice with a
  copy shifted by a quarter of the diagonal; moving them by a lattice vector of the face-centred lattice does not map them to themselves.
\<close>

definition FCC_SITES :: "vec list" where
  "FCC_SITES = [(0, 0, 0), (1 / 2, 1 / 2, 0), (1 / 2, 0, 1 / 2), (0, 1 / 2, 1 / 2)]"

definition shift :: "vec \<Rightarrow> vec \<Rightarrow> vec" where
  "shift u v = (case (u, v) of ((a, b, c), (x, y, z)) \<Rightarrow> (frac (a + x), frac (b + y), frac (c + z)))"

lemma diamond_sites:
  "set DIAMOND_SITES \<noteq> set FCC_SITES \<union> shift quarter ` set FCC_SITES"
  "shift (1 / 2, 1 / 2, 0) ` set DIAMOND_SITES \<noteq> set DIAMOND_SITES"
  "shift (1 / 2, 1 / 2, 0) ` (set FCC_SITES \<union> shift quarter ` set FCC_SITES) = set FCC_SITES \<union> shift quarter ` set FCC_SITES"
  by code_simp+

theorem diamond_sites_wrong:
  "el \<in> set DIAMOND_ELS \<Longrightarrow> a_radius lib el = Some r \<Longrightarrow>
   (\<exists>cr. elemental lib f el = Inr (cr, ''diamond'')
      \<and> set (at_scaled cr) \<noteq> set FCC_SITES \<union> shift quarter ` set FCC_SITES
      \<and> shift (1 / 2, 1 / 2, 0) ` set (at_scaled cr) \<noteq> set (at_scaled cr))"
  using diamond_sites by (simp add: elemental_def cov_radius_def bindr_def crystal_def)

section \<open>Concrete inputs\<close>

definition demo_ase :: ase where
  "demo_ase = \<lparr>a_cell = (\<lambda>_. [(1, 0, 0), (0, 1, 0), (0, 0, 1)]), a_lengths = (\<lambda>_. (3, 4, 20)), a_mass = (\<lambda>_. Some 12),
     a_radius = (\<lambda>_. Some (3 / 4)), a_path = (\<lambda>_ _. (''GX'', [])), a_kpts = (\<lambda>_ _ _. []), a_composition = (\<lambda>_. []),
     a_reduced = id, a_fluorite = (\<lambda>_ _. crystal [] [] [])\<rparr>"

definition demo_pd :: pseudo_dir where
  "demo_pd = \<lparr>pd_path = ''/p'', pd_has = (\<lambda>_. True), pd_text = (\<lambda>_. ''4.0 Z valence'')\<rparr>"

theorem vacuum_detection_witness: "\<not> axis_periodic 20 2 [1 / 2, 3 / 5]"
proof -
  have "\<exists>b \<in> set [1 / 2, 3 / 5 :: rat]. \<forall>c \<in> set [1 / 2, 3 / 5]. c = b \<or> 1 / 2 < (if b < c then c - b else c + 1 - b)"
    by (intro bexI [of _ "3 / 5"]) simp_all
  with vacuum_detection [of "[1 / 2, 3 / 5]" 2 20] show ?thesis by simp
qed

theorem structure_profile_sound_witness:
  "map_sum id (\<lambda>(p, _). (q_species p, length (q_masses p))) (profile_from_atoms demo_ase demo_pd (crystal [''O'', ''C'', ''O''] [] []))
     = Inr ([''C'', ''O''], 2)"
proof -
  obtain r where r: "profile_from_atoms demo_ase demo_pd (crystal [''O'', ''C'', ''O''] [] []) = Inr r" "fst r = fst r" "q_species (fst r) = [''C'', ''O'']"
    by (simp add: profile_from_atoms_def demo_ase_def demo_pd_def crystal_def sorted_species_def find_pseudo_def bindr_def mesh_count_def)
  obtain p alat where pa: "r = (p, alat)" by (cases r)
  from structure_profile_sound [OF r(1) [unfolded pa]] have "length (q_masses p) = length (q_species p)" by blast
  with r pa show ?thesis by simp
qed

theorem nbnd_covers_witness:
  "\<exists>cache. coherent demo_pd cache \<and> choose_nbnd demo_pd (qe_builtin 1 [''C''] [12] [(''C'', ''C.upf'')] 1 1 1 [] False None)
      (crystal [''C''] [] []) None [(''C.upf'', Fin 4)] = (Inr 10, cache)"
proof -
  have v: "valence_of_lines (splitlines ''4.0 Z valence'') = Fin 4" by code_simp
  have c: "coherent demo_pd [(''C.upf'', Fin 4)]"
    by (auto simp: coherent_def dget_def valence_of_def demo_pd_def v split: if_splits)
  let ?r = "choose_nbnd demo_pd (qe_builtin 1 [''C''] [12] [(''C'', ''C.upf'')] 1 1 1 [] False None) (crystal [''C''] [] []) None [(''C.upf'', Fin 4)]"
  have "?r = (Inr 10, [(''C.upf'', Fin 4)])"
    by (simp add: choose_nbnd_def qe_builtin_def crystal_def pseudo_z_valence_def dget_def bindr_def occupied_bands_def band_count_def)
  with nbnd_covers [OF c, of _ _ "Inr 10"] show ?thesis by blast
qed

theorem bandpath_outcome_witness: "\<exists>e. bandpath_segments ''GS1'' [(''G'', (0, 0, 0)), (''S1'', half)] = Inl e"
proof -
  have "\<exists>c \<in> set ''GS1''. c \<notin> {CHR ''|'', CHR ''$'', CHR '',''} \<and> dget [(''G'', (0, 0, 0)), (''S1'', half)] [c] = None"
    by (simp add: dget_def)
  with bandpath_outcome [of "''GS1''" "[(''G'', (0, 0, 0)), (''S1'', half)]"] show ?thesis by blast
qed

theorem functional_only_in_relaxation_witness:
  "\<exists>ls. fst (compile_scf demo_ase demo_pd ''MgO'' None (scf_defaults\<lparr>s_calculation := ''scf'', s_nbnd := Some 16, s_kmode := ''uniform''\<rparr>) None [])
     = Inr (join nl ls) \<and> DFT_LINE \<notin> set ls"
  using functional_only_in_relaxation [of demo_pd "''scf''" demo_ase 16 "[]"] by (simp add: demo_pd_def)

theorem diamond_sites_wrong_witness:
  "\<exists>cr. elemental demo_ase ''C'' ''C'' = Inr (cr, ''diamond'') \<and> shift (1 / 2, 1 / 2, 0) ` set (at_scaled cr) \<noteq> set (at_scaled cr)"
  using diamond_sites_wrong [of "''C''" demo_ase "3 / 4" "''C''"] by (auto simp: DIAMOND_ELS_def demo_ase_def)

end
