(* ===== verification/Compiler_Lines.thy ===== *)
theory Compiler_Lines
  imports Compiler_Props
begin

text \<open>
  The relaxation inputs that \<open>compile_t1_vcrelax\<close> of \<open>compiler/__init__.py\<close> writes, line by line: every line the compiler
  puts together is one line of the text, so what is said of the lines is said of the file.
\<close>

section \<open>One line\<close>

definition one_line :: "string \<Rightarrow> bool" where
  "one_line s = (CHR 0x0A \<notin> set s)"

lemma one_line_Nil [simp]: "one_line []"
  by (simp add: one_line_def)

lemma one_line_Cons [simp]: "one_line (c # s) \<longleftrightarrow> c \<noteq> CHR 0x0A \<and> one_line s"
  by (auto simp: one_line_def)

lemma one_line_append [simp]: "one_line (a @ b) \<longleftrightarrow> one_line a \<and> one_line b"
  by (auto simp: one_line_def)

lemma one_line_sub: "set a \<subseteq> set b \<Longrightarrow> one_line b \<Longrightarrow> one_line a"
  by (auto simp: one_line_def)

lemma one_line_take [simp]: "one_line s \<Longrightarrow> one_line (take n s)" "one_line s \<Longrightarrow> one_line (drop n s)"
  by (auto simp: one_line_def dest: in_set_takeD in_set_dropD)

lemma one_line_digits: "\<forall>c \<in> set s. is_digit c \<Longrightarrow> one_line s"
  by (auto simp: one_line_def is_digit_def)

lemma one_line_zeros [simp]: "one_line (replicate n (CHR ''0''))"
  by (auto simp: one_line_def)

lemma split_line: "one_line a \<Longrightarrow> split_on (CHR 0x0A) (a @ CHR 0x0A # b) = a # split_on (CHR 0x0A) b"
  by (induction a) simp_all

lemma split_lines: "ls \<noteq> [] \<Longrightarrow> list_all one_line ls \<Longrightarrow> split_on (CHR 0x0A) (join nl ls) = ls"
proof (induction ls)
  case (Cons l ls)
  then show ?case by (cases ls) (simp_all add: nl_def split_line split_on_none one_line_def)
qed simp

section \<open>Numbers\<close>

lemma one_line_show_pos [simp]: "0 \<le> n \<Longrightarrow> one_line (show_pos n)"
  by (rule one_line_digits) (blast dest: show_pos_digits)

lemma one_line_show_int [simp]: "one_line (show_int n)"
  by (simp add: show_int_def)

lemma one_line_sign [simp]: "one_line (sign_of x)"
  by (simp add: sign_of_def)

lemma one_line_pad [simp]: "one_line (pad_left n s) \<longleftrightarrow> one_line s"
  by (simp add: pad_left_def)

lemma one_line_fmt_f [simp]: "one_line (fmt_f n x)"
  by (simp add: fmt_f_def Let_def round_he_nonneg)

lemma one_line_exp [simp]: "one_line (show_exp e)"
  by (simp add: show_exp_def)

lemma one_line_sci: "0 \<le> x \<Longrightarrow> sci n x = (ds, e) \<Longrightarrow> one_line ds"
  using p10_pos [of "exp10 x - int n"] by (auto simp: sci_def Let_def round_he_nonneg split: if_splits)

lemma one_line_strip [simp]: "one_line s \<Longrightarrow> one_line (strip_zeros s)"
  by (rule one_line_sub) (auto simp: strip_zeros_def dest: set_dropWhileD)

lemma one_line_numbers [simp]: "one_line (fmt_e n x)" "one_line (fmt_g6 x)" "one_line (float_repr_fin x)"
  by (auto simp: fmt_e_def fmt_g6_def float_repr_fin_def Let_def split: prod.splits dest!: one_line_sci [rotated])

lemma one_line_vec [simp]: "one_line (vec_text v)"
  by (cases v) simp

lemma one_line_quoted [simp]: "one_line (dq_text s) \<longleftrightarrow> one_line s"
  by (simp add: dq_text_def dq_def)

section \<open>The lines of an input\<close>

text \<open>The texts of a profile hold no line feed.\<close>

definition plain_profile :: "qe_profile \<Rightarrow> bool" where
  "plain_profile p = (one_line (q_occupations p) \<and> one_line (q_smearing p) \<and> list_all one_line (q_species p)
     \<and> list_all (\<lambda>(_, f). one_line f) (q_pseudos p) \<and> (case q_input_dft p of Some d \<Rightarrow> one_line d | None \<Rightarrow> True))"

lemma library_plain: "list_all (\<lambda>(_, d). plain_profile (qe_of_entry d)) LIBRARY_MATERIALS"
  by code_simp

lemma builtin_plain: "list_all (\<lambda>(_, p, _). plain_profile p) MATERIAL_BUILTIN"
  by code_simp

lemma tabulated_plain: "dget MATERIAL_DB m = Some x \<Longrightarrow> plain_profile (profile_of x)"
proof -
  assume x: "dget MATERIAL_DB m = Some x"
  show ?thesis
  proof (cases "dget LIBRARY_MATERIALS m")
    case (Some d)
    then have "(m, d) \<in> set LIBRARY_MATERIALS" by (auto simp: dget_def dest: map_of_SomeD)
    with Some x library_plain show ?thesis by (auto simp: db_dget list_all_iff)
  next
    case None
    with db_dget [of m] x have "(m, x) \<in> (\<lambda>(k, p, a). (k, Builtin p a)) ` set MATERIAL_BUILTIN"
      by (auto simp: dget_def dest!: map_of_SomeD)
    with builtin_plain show ?thesis by (auto simp: list_all_iff)
  qed
qed

lemma plain_species: "species_lines p = Inr ls \<Longrightarrow> plain_profile p \<Longrightarrow> list_all one_line ls"
proof -
  assume ls: "species_lines p = Inr ls" and p: "plain_profile p"
  have f: "one_line f" if "dget (q_pseudos p) el = Some f" for el f
    using that p by (auto simp: plain_profile_def list_all_iff dget_def dest!: map_of_SomeD)
  have el: "one_line el" if "(el, mass) \<in> set (zip (q_species p) (q_masses p))" for el mass
    using that p by (auto simp: plain_profile_def list_all_iff dest: set_zip_leftD)
  have "list_all2 (\<lambda>x l. one_line l) (zip (q_species p) (q_masses p)) ls"
    using mapr_Inr [OF ls [unfolded species_lines_def]] by (rule list.rel_mono_strong) (auto simp: bindr_eq_Inr the_or_def f el split: option.splits)
  then show ?thesis by (induction rule: list_all2_induct) auto
qed

lemma plain_positions: "\<forall>s \<in> set (at_symbols cr). one_line s \<Longrightarrow> list_all one_line (position_lines cr)"
  by (auto simp: position_lines_def list_all_iff dest: set_zip_leftD)

lemma plain_cells: "list_all one_line (cell_lines p cr alat)"
  by (auto simp: cell_lines_def list_all_iff)

lemma plain_number: "\<forall>v. want = Some v \<longrightarrow> one_line (py_str v) \<Longrightarrow> one_line (number_text want d)"
  by (auto simp: number_text_def split: option.split)

lemma plain_front: "plain_profile p \<Longrightarrow> one_line w \<Longrightarrow> one_line r \<Longrightarrow> list_all one_line (system_lines p cr alat w r)"
  "list_all one_line (electron_lines thr)"
  by (simp_all add: system_lines_def electron_lines_def plain_profile_def)

text \<open>The cell vectors, and the lines of the chosen mesh.\<close>

lemma cell_lines_angstrom: "cell_lines p cr (a * BOHR_PER_ANG) =
    (if q_ibrav p = 0 then CELL_HEAD # map (\<lambda>(x, y, z). vec_text (x / a, y / a, z / a)) (at_cell cr) @ [[]] else [])"
  by (auto simp: cell_lines_def CELL_HEAD_def over_alat_def BOHR_PER_ANG_def)

definition mesh_text :: "int list \<Rightarrow> string" where
  "mesh_text ks = ''  '' @ show_int (ks ! 0) @ '' '' @ show_int (ks ! 1) @ '' '' @ show_int (ks ! 2) @ ''  '' @ show_int (ks ! 3)
     @ '' '' @ show_int (ks ! 4) @ '' '' @ show_int (ks ! 5)"

lemma mesh_lines_text: "6 \<le> length ks \<Longrightarrow> mesh_lines ks = Inr [''K_POINTS automatic'', mesh_text ks, []]"
  by (cases ks rule: mesh_lines.cases) (simp_all add: mesh_text_def numeral_eq_Suc)

lemma mesh_text_line [simp]: "one_line (mesh_text ks)"
  by (simp add: mesh_text_def)

lemma t1_lines_text:
  assumes p: "plain_profile p" "map fst (q_pseudos p) = q_species p" "\<forall>s \<in> set (at_symbols cr). one_line s"
    and ks: "6 \<le> length (mesh_or (o_kpoints t1) (q_kpoints p))"
    and texts: "one_line (pd_path pd)" "one_line pfx" "one_line (o_dynamics t1)"
      "\<forall>v. o_ecutwfc t1 = Some v \<or> o_ecutrho t1 = Some v \<longrightarrow> one_line (py_str v)"
  shows "\<exists>front ls. t1_lines pd pfx t1 p cr alat = Inr ls \<and> list_all one_line ls \<and> CELL_HEAD \<notin> set front
     \<and> ls = front @ ''ATOMIC_POSITIONS (crystal)'' # position_lines cr @ [[]] @ cell_lines p cr alat
         @ [''K_POINTS automatic'', mesh_text (mesh_or (o_kpoints t1) (q_kpoints p)), []]"
proof -
  obtain sl where sl: "species_lines p = Inr sl" using species_lines_runs [OF p(2)] by blast
  have n: "one_line (number_text (o_ecutwfc t1) d)" "one_line (number_text (o_ecutrho t1) d)" for d
    using texts(4) plain_number by blast+
  define pre where "pre = [''&CONTROL'', ''  calculation = '' @ dq_text (if o_cell t1 then ''vc-relax'' else ''relax''),
          ''  prefix = '' @ dq_text pfx, ''  outdir = '' @ dq_text ''./'', ''  pseudo_dir = '' @ dq_text (pd_path pd),
          ''  nstep = '' @ show_int (o_nstep t1), ''  forc_conv_thr = '' @ fmt_g6 (o_force t1), ''/'', []]
       @ system_lines p cr alat (number_text (o_ecutwfc t1) (q_ecutwfc p)) (number_text (o_ecutrho t1) (q_ecutrho p))
       @ (case q_input_dft p of Some (c # cs) \<Rightarrow> [''  input_dft = '' @ dq_text (c # cs)] | _ \<Rightarrow> [])
       @ [''/'', []] @ electron_lines (o_conv_thr t1) @ [''&IONS'', ''  ion_dynamics = '' @ dq_text ''bfgs'', ''/'', []]
       @ (if o_cell t1 then [''&CELL'', ''  cell_dynamics = '' @ dq_text (o_dynamics t1), ''  press = 0.0'',
            ''  press_conv_thr = '' @ fmt_g6 (o_pressure t1), ''/'', []] else [])"
  let ?front = "pre @ [''ATOMIC_SPECIES''] @ sl @ [[]]"
  have pre: "list_all one_line pre" "CELL_HEAD \<notin> set pre"
  proof -
    show "list_all one_line pre" unfolding pre_def using p(1) texts(1-3) n plain_front
      by (auto simp: plain_profile_def split: option.splits list.splits)
    show "CELL_HEAD \<notin> set pre" unfolding pre_def
      by (auto simp: system_head electron_lines_def split: option.splits list.splits) (auto simp: CELL_HEAD_def)
  qed
  have "t1_lines pd pfx t1 p cr alat = Inr (?front @ ''ATOMIC_POSITIONS (crystal)'' # position_lines cr @ [[]] @ cell_lines p cr alat
         @ [''K_POINTS automatic'', mesh_text (mesh_or (o_kpoints t1) (q_kpoints p)), []])"
    by (simp add: t1_lines_def card_lines_def sl bindr_def mesh_lines_text [OF ks] pre_def)
  moreover have "list_all one_line (?front @ ''ATOMIC_POSITIONS (crystal)'' # position_lines cr @ [[]] @ cell_lines p cr alat
         @ [''K_POINTS automatic'', mesh_text (mesh_or (o_kpoints t1) (q_kpoints p)), []])"
    using pre(1) plain_species [OF sl p(1)] plain_positions [OF p(3)] plain_cells by simp
  moreover have "CELL_HEAD \<notin> set ?front" using pre(2) species_lines_head [OF sl] by (auto simp: CELL_HEAD_def)
  ultimately show ?thesis by blast
qed

section \<open>Tabulated materials compile\<close>

text \<open>
  C28. Every tabulated material compiles. If its pseudopotential files are there, a mesh that is given has at least six
  numbers (an empty one stands for none) and the texts the caller gives hold no line feed, then the relaxation input is
  written. Split at its line feeds, it ends with the positions of the atoms of the material's structure, whose species are the
  declared ones, then the cell and the mesh. For Si, Al and MgO the part of the cell is empty and no line before is its
  heading; for every other material it is the heading, the cell vectors in units of the lattice constant and an empty line.
\<close>

theorem tabulated_material_compiles:
  assumes m: "dget MATERIAL_DB m = Some x" and files: "check_pseudos pd (q_pseudos (profile_of x)) = []"
    and mesh: "case o_kpoints t1 of Some ks \<Rightarrow> ks = [] \<or> 6 \<le> length ks | None \<Rightarrow> True"
    and texts: "one_line (pd_path pd)" "one_line (prefix_or prefix_given m)" "one_line (o_dynamics t1)"
      "\<forall>v. o_ecutwfc t1 = Some v \<or> o_ecutrho t1 = Some v \<longrightarrow> one_line (py_str v)"
  shows "\<exists>cr a text front cells ks. build_atoms lib m = Inr cr \<and> lattice_constant x = Inr a
     \<and> set (at_symbols cr) = set (q_species (profile_of x))
     \<and> compile_t1 lib pd m prefix_given t1 None = Inr text
     \<and> split_on (CHR 0x0A) text = front
         @ ''ATOMIC_POSITIONS (crystal)'' # map (\<lambda>(sym, pos). ''  '' @ sym @ vec_text pos) (zip (at_symbols cr) (at_scaled cr)) @ [[]]
         @ cells @ [''K_POINTS automatic'', mesh_text ks, []]
     \<and> CELL_HEAD \<notin> set front
     \<and> cells = (if m \<in> {''Si'', ''Al'', ''MgO''} then []
         else CELL_HEAD # map (\<lambda>(u, v, w). vec_text (u / a, v / a, w / a)) (at_cell cr) @ [[]])
     \<and> ks = (case o_kpoints t1 of Some (k # r) \<Rightarrow> k # r | _ \<Rightarrow> q_kpoints (profile_of x))"
proof -
  let ?p = "profile_of x"
  from m obtain cr a where f: "length (q_kpoints ?p) = 6" "map fst (q_pseudos ?p) = q_species ?p"
    "build_atoms lib m = Inr cr" "lattice_constant x = Inr a" "set (at_symbols cr) = set (q_species ?p)"
    "q_ibrav ?p = 0 \<longleftrightarrow> m \<notin> {''Si'', ''Al'', ''MgO''}"
  proof (cases rule: db_lookup)
    case (1 d)
    with library_materials [OF 1(2), of lib] m that show ?thesis by auto
  next
    case (2 p a)
    moreover have "m \<in> {''Si'', ''Al'', ''MgO''}" using 2(2) by (auto simp: MATERIAL_BUILTIN_def)
    ultimately show ?thesis using builtin_materials [OF 2(2), of lib] that by auto
  qed
  have plain: "plain_profile ?p" using tabulated_plain [OF m] .
  then have symbols: "\<forall>s \<in> set (at_symbols cr). one_line s" by (auto simp: f(5) plain_profile_def list_all_iff)
  have ks: "mesh_or (o_kpoints t1) (q_kpoints ?p) = (case o_kpoints t1 of Some (k # r) \<Rightarrow> k # r | _ \<Rightarrow> q_kpoints ?p)"
    by (simp add: mesh_or_def)
  have six: "6 \<le> length (mesh_or (o_kpoints t1) (q_kpoints ?p))"
    using mesh f(1) by (auto simp: mesh_or_def split: option.splits list.splits)
  from t1_lines_text [OF plain f(2) symbols six texts, of "a * BOHR_PER_ANG"]
  obtain front ls where ls: "t1_lines pd (prefix_or prefix_given m) t1 ?p cr (a * BOHR_PER_ANG) = Inr ls" "list_all one_line ls"
    "CELL_HEAD \<notin> set front" "ls = front @ ''ATOMIC_POSITIONS (crystal)'' # position_lines cr @ [[]] @ cell_lines ?p cr (a * BOHR_PER_ANG)
         @ [''K_POINTS automatic'', mesh_text (mesh_or (o_kpoints t1) (q_kpoints ?p)), []]" by blast
  have c: "compile_t1 lib pd m prefix_given t1 None = Inr (join nl ls)"
    using m f ls(1) files by (simp add: compile_t1_def resolve_material_def bindr_def pseudos_present_def)
  have "ls \<noteq> []" by (simp add: ls(4))
  from split_lines [OF this ls(2)] have s: "split_on (CHR 0x0A) (join nl ls) = ls" .
  show ?thesis
    by (intro exI conjI, rule f(3), rule f(4), rule f(5), rule c, subst s, subst ls(4), subst position_lines_def, rule refl, rule ls(3))
      (simp_all only: cell_lines_angstrom f(6) if_not_P ks, simp)
qed

text \<open>The end of the input of MgO.\<close>

theorem tabulated_material_compiles_witness:
  "\<exists>t front ms. compile_t1 demo_ase demo_pd ''MgO'' None t1_defaults None = Inr t \<and> CELL_HEAD \<notin> set front
     \<and> split_on (CHR 0x0A) t = front @ [''ATOMIC_POSITIONS (crystal)'', ''  Mg  0.00000000  0.00000000  0.00000000'',
         ''  O  0.50000000  0.50000000  0.50000000'', [], ''K_POINTS automatic'', ''  4 4 4  1 1 1'', []]"
proof -
  define x where "x = Builtin (qe_builtin 2 [''Mg'', ''O''] [24305 / 1000, 15999 / 1000] [(''Mg'', ''Mg.pz-n-vbc.UPF''), (''O'', ''O-q6.gth'')]
        (1 / 100) 40 320 [4, 4, 4, 1, 1, 1] False (Some ''pz'')) (421 / 100)"
  have x: "dget MATERIAL_DB ''MgO'' = Some x"
    unfolding builtin_dget [of "''MgO''", simplified] by (simp add: MATERIAL_BUILTIN_def dget_def x_def)
  have files: "check_pseudos demo_pd (q_pseudos (profile_of x)) = []" by (simp add: check_pseudos_def demo_pd_def)
  have atoms: "build_atoms demo_ase ''MgO'' = Inr (crystal [''Mg'', ''O''] [(0, 0, 0), half] (fcc_cell (421 / 100)))"
    using x by (simp add: build_atoms_def x_def)
  have shown: "fmt_f 8 0 = ''0.00000000''" "vec_text half = ''  0.50000000  0.50000000  0.50000000''"
    "mesh_text [4, 4, 4, 1, 1, 1] = ''  4 4 4  1 1 1''" "one_line (prefix_or None ''MgO'')" "one_line (pd_path demo_pd)"
    by code_simp+
  from tabulated_material_compiles [OF x files, of t1_defaults None demo_ase] show ?thesis
    by (auto simp: t1_defaults_def shown atoms crystal_def x_def qe_builtin_def)
qed

end
