(* ===== verification/Parser_Files.thy ===== *)
theory Parser_Files
  imports Compiler Hpc_Jobs
begin

text \<open>
  The parser's readers of the remaining output (\<open>parser.py\<close>): the density of states, the projected densities
  summed per element, and the relaxed structure at the end of a relaxation.

  \<^item> \<open>numpy\<close> is a parameter: \<open>np_table\<close> is \<open>np.loadtxt\<close> of a file's text, the rows of a two-dimensional array
    or \<open>None\<close> when it raises or the array has another dimension; \<open>np_interp\<close> is \<open>np.interp\<close>.
  \<^item> A directory is what the code lists of it: the files with their texts, a document that does not parse
    and a file that cannot be read being \<open>None\<close>.
  \<^item> ASE is not called: the relaxed structure is what is handed to \<open>Atoms(...)\<close>.
\<close>

section \<open>Density of states\<close>

record np =
  np_table :: "string \<Rightarrow> pyfloat list list option"
  np_interp :: "pyfloat \<Rightarrow> pyfloat list \<Rightarrow> pyfloat list \<Rightarrow> pyfloat"

record parsed_dos =
  dos_fermi :: "pyfloat option"
  dos_points :: int
  dos_at_fermi :: pyfloat
  dos_energies :: "pyfloat list option"
  dos_values :: "pyfloat list option"

definition no_dos :: parsed_dos where
  "no_dos = \<lparr>dos_fermi = Some (Fin 0), dos_points = 0, dos_at_fermi = Fin 0, dos_energies = None, dos_values = None\<rparr>"

text \<open>The first lines of a text with their line ends (\<open>readline\<close>).\<close>

fun first_lines :: "nat \<Rightarrow> string \<Rightarrow> string" where
  "first_lines 0 s = []"
| "first_lines (Suc n) s = takeWhile (\<lambda>c. c \<noteq> newline) s @
     (case dropWhile (\<lambda>c. c \<noteq> newline) s of [] \<Rightarrow> [] | c # r \<Rightarrow> c # first_lines n r)"

definition RE_EFERMI :: re where
  "RE_EFERMI = seqs [lit ''EFermi'', spaces0, lit ''='', spaces0, Grp 1 (plus (digit_or ''-.Ee+''))]"

definition wide_rows :: "np \<Rightarrow> string \<Rightarrow> pyfloat list list option" where
  "wide_rows np s = (case np_table np s of Some (r # rs) \<Rightarrow> if 2 \<le> length r then Some (r # rs) else None | _ \<Rightarrow> None)"

text \<open>An exception is logged and swallowed: after a table, only the Fermi level's text can raise one, and the
  table stays in the result with the default level.\<close>

definition parse_dos :: "np \<Rightarrow> string option \<Rightarrow> parsed_dos" where
  "parse_dos np file =
    (case file of None \<Rightarrow> no_dos
     | Some s \<Rightarrow>
       (case wide_rows np s of None \<Rightarrow> no_dos
        | Some rows \<Rightarrow>
            let es = map (\<lambda>r. r ! 0) rows; ds = map (\<lambda>r. r ! 1) rows;
                d = no_dos\<lparr>dos_energies := Some es, dos_values := Some ds, dos_points := int (length es)\<rparr> in
            (case search_group 1 RE_EFERMI (first_lines 3 s) of
               None \<Rightarrow> d\<lparr>dos_fermi := None\<rparr>
             | Some g \<Rightarrow> (case read_float g of Inl _ \<Rightarrow> d
                 | Inr f \<Rightarrow> d\<lparr>dos_fermi := Some f, dos_at_fermi := np_interp np f es ds\<rparr>))))"

section \<open>Projected densities\<close>

text \<open>\<open>name.capitalize()\<close> of a name of several letters, \<open>upper()\<close> of one letter; of the letters whose upper case
  lies beyond the 256 characters (and the sharp s) nothing is said.\<close>

definition upper_char :: "char \<Rightarrow> char" where
  "upper_char c = (let n = of_char c :: int in
     if 97 \<le> n \<and> n \<le> 122 \<or> 224 \<le> n \<and> n \<le> 254 \<and> n \<noteq> 247 then char_of (n - 32) else c)"

definition element_name :: "string \<Rightarrow> string" where
  "element_name s = (case s of [] \<Rightarrow> [] | c # t \<Rightarrow> upper_char c # lower t)"

text \<open>A dictionary from atom numbers is an association list; \<open>set_atom\<close> is an assignment to it.\<close>

type_synonym species = "(int \<times> string) list"

definition set_atom :: "int \<Rightarrow> string \<Rightarrow> species \<Rightarrow> species" where
  "set_atom i el d = AList.update i el d"

definition attr_or :: "xml \<Rightarrow> string \<Rightarrow> string \<Rightarrow> string" where
  "attr_or e k1 k2 = (case set_text (map_of (xattrs e) k1) of Some s \<Rightarrow> s
     | None \<Rightarrow> (case map_of (xattrs e) k2 of Some s \<Rightarrow> s | None \<Rightarrow> []))"

definition xml_atom_species :: "xml option \<Rightarrow> species" where
  "xml_atom_species doc =
    (case doc of None \<Rightarrow> []
     | Some top_elem \<Rightarrow> foldl (\<lambda>d (i, a). let name = attr_or a ''name'' ''species'' in
          if name = [] then d else set_atom (int i) (element_name name) d)
        [] (enumerate 1 (find_tags top_elem ''atom'')))"

text \<open>\<open>top_elem.iter(tag)\<close> includes the root and knows no namespace.\<close>

definition first_text :: "xml \<Rightarrow> string \<Rightarrow> string option" where
  "first_text top_elem tag = (case somes (map (\<lambda>e. set_text (xtext e)) (filter (\<lambda>e. xtag e = tag) (top_elem # descendants top_elem)))
     of [] \<Rightarrow> None | s # _ \<Rightarrow> Some s)"

definition xml_fermi_ev :: "xml option \<Rightarrow> pyfloat" where
  "xml_fermi_ev doc =
    (case doc of None \<Rightarrow> Fin 0
     | Some top_elem \<Rightarrow>
       (case (case first_text top_elem ''fermi_energy'' of Some s \<Rightarrow> Some s
              | None \<Rightarrow> first_text top_elem ''highestOccupiedLevel'') of
          None \<Rightarrow> Fin 0
        | Some s \<Rightarrow> (case read_float s of Inl _ \<Rightarrow> Fin 0 | Inr x \<Rightarrow> pf_mul x (Fin HA_TO_EV))))"

definition letter :: re where "letter = Ch (\<lambda>c. is_upper c \<or> is_lower c)"
definition symbol :: re where "symbol = Seq letter (opt letter)"
definition line_break :: re where "line_break = Ch (\<lambda>c. c = newline)"

definition RE_SITES :: re where
  "RE_SITES = seqs [lit ''site n.'', spaces1, lit ''atom'', spaces1, Lazy dot, line_break,
     Grp 1 (plus (seqs [spaces1, digits1, spaces1, symbol, Ch py_isspace, Star dot, line_break]))]"

fun site_rows :: "string list \<Rightarrow> species \<Rightarrow> py_exc + species" where
  "site_rows [] d = Inr d"
| "site_rows (l # ls) d = (case words l of
     n # name # _ \<Rightarrow> if py_isdigit n then bindr (read_int n) (\<lambda>i. site_rows ls (set_atom i (element_name name) d)) else site_rows ls d
   | _ \<Rightarrow> site_rows ls d)"

definition stdout_atom_species :: "string \<Rightarrow> py_exc + species" where
  "stdout_atom_species stdout =
    (case search_group 1 RE_SITES stdout of None \<Rightarrow> Inr [] | Some g \<Rightarrow> site_rows (splitlines (py_strip g)) [])"

record pdos_dir =
  pp_atm :: "(string \<times> string option) list"
  pp_xmls :: "xml option list"
  pp_outs :: "string option list"

text \<open>The first document that names an atom, with its Fermi level; else the first output that does.\<close>

definition species_of_xmls :: "xml option list \<Rightarrow> (species \<times> pyfloat) option" where
  "species_of_xmls docs = map_option (\<lambda>d. (xml_atom_species d, xml_fermi_ev d)) (find (\<lambda>d. xml_atom_species d \<noteq> []) docs)"

fun species_of_outs :: "string option list \<Rightarrow> py_exc + species" where
  "species_of_outs [] = Inr []"
| "species_of_outs (None # fs) = species_of_outs fs"
| "species_of_outs (Some s # fs) = bindr (stdout_atom_species s) (\<lambda>d. if d = [] then species_of_outs fs else Inr d)"

definition RE_ATM :: re where
  "RE_ATM = seqs [lit ''atm#'', Grp 1 digits1, lit ''('']"

record parsed_pdos =
  pdos_fermi :: pyfloat
  pdos_points :: int
  pdos_energies :: "pyfloat list option"
  pdos_elements :: "pyfloat list pydict option"
  pdos_atoms :: "string list option"

definition no_pdos :: parsed_pdos where
  "no_pdos = \<lparr>pdos_fermi = Fin 0, pdos_points = 0, pdos_energies = None, pdos_elements = None, pdos_atoms = None\<rparr>"

text \<open>One file: its density is added to its element's, on the energy grid of the first readable file. A file
  without a number, a table, a grid of that length or a known atom is passed over.\<close>

definition add_density :: "pyfloat list \<Rightarrow> pyfloat list \<Rightarrow> pyfloat list" where
  "add_density xs ys = map2 pf_add xs ys"

definition readable :: "np \<Rightarrow> string \<times> string option \<Rightarrow> (int \<times> pyfloat list \<times> pyfloat list) option" where
  "readable np file =
    (case (search_group 1 RE_ATM (fst file), Option.bind (snd file) (wide_rows np)) of
       (Some g, Some rows) \<Rightarrow> Some (num_int (Some g), map (\<lambda>r. r ! 0) rows, map (\<lambda>r. r ! 1) rows)
     | _ \<Rightarrow> None)"

definition add_reading ::
  "species \<Rightarrow> pyfloat list option \<times> pyfloat list pydict \<Rightarrow> int \<times> pyfloat list \<times> pyfloat list
     \<Rightarrow> pyfloat list option \<times> pyfloat list pydict" where
  "add_reading ats st reading =
    (case (st, reading) of ((grid, dens), (i, es, ds)) \<Rightarrow>
     if grid \<noteq> None \<and> length es \<noteq> length (the grid) then st
     else
       let g = (case grid of None \<Rightarrow> es | Some g0 \<Rightarrow> g0) in
       (case map_of ats i of
          None \<Rightarrow> (Some g, dens)
        | Some el \<Rightarrow> (Some g, dput el (add_density
            (case dget dens el of Some old \<Rightarrow> old | None \<Rightarrow> replicate (length g) (Fin 0)) ds) dens)))"

definition add_atm ::
  "np \<Rightarrow> species \<Rightarrow> pyfloat list option \<times> pyfloat list pydict \<Rightarrow> string \<times> string option
     \<Rightarrow> pyfloat list option \<times> pyfloat list pydict" where
  "add_atm np ats st file = (case readable np file of None \<Rightarrow> st | Some reading \<Rightarrow> add_reading ats st reading)"

definition species_of :: "pdos_dir \<Rightarrow> py_exc + species \<times> pyfloat" where
  "species_of dir = (case species_of_xmls (pp_xmls dir) of Some r \<Rightarrow> Inr r
     | None \<Rightarrow> bindr (species_of_outs (pp_outs dir)) (\<lambda>ats. Inr (ats, Fin 0)))"

definition parse_pdos :: "np \<Rightarrow> pdos_dir \<Rightarrow> py_exc + parsed_pdos" where
  "parse_pdos np dir =
    (if pp_atm dir = [] then Inr no_pdos
     else
       bindr (species_of dir) (\<lambda>(ats, f).
       let (grid, dens) = foldl (add_atm np ats) (None, []) (pp_atm dir);
           p = no_pdos\<lparr>pdos_fermi := f, pdos_points := (case grid of None \<Rightarrow> 0 | Some g \<Rightarrow> int (length g))\<rparr> in
       Inr (if grid \<noteq> None \<and> dens \<noteq> []
            then p\<lparr>pdos_energies := grid, pdos_elements := Some dens,
              pdos_atoms := (if ats = [] then None
                else Some (map (\<lambda>i. case map_of ats i of Some el \<Rightarrow> el | None \<Rightarrow> ''?'') [1..Max (set (map fst ats))]))\<rparr>
            else p)))"

section \<open>The relaxed structure\<close>

definition RE_NUM :: re where
  "RE_NUM = seqs [opt (one_of ''-''), digits1, opt (one_of ''.''), Star (Ch is_digit),
     opt (seqs [one_of ''eE'', opt (one_of ''+-''), digits1])]"

definition three_numbers :: "re list" where
  "three_numbers = [RE_NUM, spaces1, RE_NUM, spaces1, RE_NUM]"

definition cell_line :: re where
  "cell_line = seqs ([spaces0] @ three_numbers @ [spaces0, line_break])"

definition RE_CELL_BLOCK :: re where
  "RE_CELL_BLOCK = seqs [lit ''CELL_PARAMETERS'', spaces1, lit ''('', plus (Ch is_word_char), spaces0, lit ''='', spaces0,
     Grp 1 (plus (digit_or ''.'')), lit '')'', spaces0, line_break, Grp 2 (seqs [cell_line, cell_line, cell_line])]"

definition RE_POSITIONS :: re where
  "RE_POSITIONS = seqs [lit ''ATOMIC_POSITIONS'', spaces0, one_of ''({'', spaces0, Grp 1 (plus (Ch is_word_char)), spaces0,
     one_of ''=)}'', Star dot, line_break,
     Grp 2 (plus (seqs ([spaces0, symbol, spaces1] @ three_numbers @ [Star dot, line_break])))]"

definition BOHR_ANG :: rat where "BOHR_ANG = 529177210903 / 10 ^ 12"

record final_structure =
  fs_symbols :: "string list"
  fs_positions :: "vec list"
  fs_cell :: "vec list"

definition row_vec :: "rat list \<Rightarrow> py_exc + vec" where
  "row_vec r = (case r of [x, y, z] \<Rightarrow> Inr (x, y, z) | _ \<Rightarrow> Inl (ValueError ''shape''))"

text \<open>\<open>xyz @ cell\<close>.\<close>

definition combine :: "vec \<Rightarrow> vec list \<Rightarrow> py_exc + vec" where
  "combine v cell = (case (v, cell) of
     ((x, y, z), [(a1, a2, a3), (b1, b2, b3), (c1, c2, c3)]) \<Rightarrow>
       Inr (x * a1 + y * b1 + z * c1, x * a2 + y * b2 + z * c2, x * a3 + y * b3 + z * c3)
   | _ \<Rightarrow> Inl (ValueError ''shape''))"

definition cartesian :: "string \<Rightarrow> rat \<Rightarrow> vec list \<Rightarrow> vec \<Rightarrow> py_exc + vec" where
  "cartesian mode alat cell v =
    (if mode = ''crystal'' then combine v cell
     else Inr (if mode = ''alat'' then scale3 BOHR_ANG (scale3 alat v)
          else if mode \<in> {''bohr'', ''au''} then scale3 BOHR_ANG v else v))"

fun position_rows :: "string \<Rightarrow> rat \<Rightarrow> vec list \<Rightarrow> string list \<Rightarrow> py_exc + (string \<times> vec) list" where
  "position_rows mode alat cell [] = Inr []"
| "position_rows mode alat cell (l # ls) =
     (case words l of
        name # x # y # z # _ \<Rightarrow>
          if py_isdigit (take 1 name) then position_rows mode alat cell ls
          else bindr (mapr read_rat [x, y, z]) (\<lambda>r. bindr (row_vec r) (\<lambda>v. bindr (cartesian mode alat cell v) (\<lambda>c.
               bindr (position_rows mode alat cell ls) (\<lambda>rest. Inr ((name, c) # rest)))))
      | _ \<Rightarrow> position_rows mode alat cell ls)"

text \<open>The last block of either kind. The three lines of a cell block hold three numbers each, or numpy raises.\<close>

definition extract_final_structure :: "string \<Rightarrow> py_exc + final_structure option" where
  "extract_final_structure stdout =
    (case (last_opt (find_all RE_CELL_BLOCK stdout), last_opt (find_all RE_POSITIONS stdout)) of
       (Some (_, c), Some (_, p)) \<Rightarrow>
         bindr (read_rat (group 1 c)) (\<lambda>alat.
         bindr (mapr (\<lambda>l. bindr (mapr read_rat (words l)) row_vec) (splitlines (py_strip (group 2 c)))) (\<lambda>rows.
         let cell = map (\<lambda>v. scale3 BOHR_ANG (scale3 alat v)) rows in
         bindr (position_rows (lower (group 1 p)) alat cell (splitlines (py_strip (group 2 p)))) (\<lambda>ps.
         Inr (if ps = [] then None
              else Some \<lparr>fs_symbols = map fst ps, fs_positions = map snd ps, fs_cell = cell\<rparr>))))
     | _ \<Rightarrow> Inr None)"

section \<open>Sums per element\<close>

text \<open>The readings of all files, and the densities that count for an element on a grid of \<open>n\<close> points.\<close>

definition readings :: "np \<Rightarrow> (string \<times> string option) list \<Rightarrow> (int \<times> pyfloat list \<times> pyfloat list) list" where
  "readings np files = somes (map (readable np) files)"

definition contributions :: "species \<Rightarrow> nat \<Rightarrow> (int \<times> pyfloat list \<times> pyfloat list) list \<Rightarrow> string \<Rightarrow> pyfloat list list" where
  "contributions ats n rs el = map (\<lambda>(i, es, ds). ds) (filter (\<lambda>(i, es, ds). length es = n \<and> map_of ats i = Some el) rs)"

definition total :: "nat \<Rightarrow> pyfloat list list \<Rightarrow> pyfloat list" where
  "total n dss = foldl add_density (replicate n (Fin 0)) dss"

lemma contributions_simps [simp]:
  "contributions ats n [] el = []" "contributions ats n (rs @ rs') el = contributions ats n rs el @ contributions ats n rs' el"
  "contributions ats n [(i, es, ds)] el = (if length es = n \<and> map_of ats i = Some el then [ds] else [])"
  by (simp_all add: contributions_def)

lemma foldl_add_atm: "foldl (add_atm np ats) st files = foldl (add_reading ats) st (readings np files)"
  by (induction files arbitrary: st) (auto simp: readings_def somes_def add_atm_def split: option.split)

lemma sums_of_readings:
  assumes "rs \<noteq> []" and "foldl (add_reading ats) (None, []) rs = (grid, dens)"
  shows "\<exists>i g ds. hd rs = (i, g, ds) \<and> grid = Some g
     \<and> (\<forall>el. dget dens el = (let cs = contributions ats (length g) rs el in if cs = [] then None else Some (total (length g) cs)))"
  using assms
proof (induction rs arbitrary: grid dens rule: rev_induct)
  case (snoc r rs)
  obtain i es ds where r: "r = (i, es, ds)" by (cases r)
  show ?case
  proof (cases "rs = []")
    case True
    with snoc.prems r show ?thesis
      by (auto simp: add_reading_def total_def pydict Let_def split: option.splits)
  next
    case False
    obtain grid0 dens0 where st: "foldl (add_reading ats) (None, []) rs = (grid0, dens0)" by (cases "foldl (add_reading ats) (None, []) rs")
    from snoc.IH [OF False st] obtain i0 g ds0 where g: "hd rs = (i0, g, ds0)" "grid0 = Some g"
      and dens0: "\<And>el. dget dens0 el = (let cs = contributions ats (length g) rs el in if cs = [] then None else Some (total (length g) cs))"
      by blast
    have new: "(grid, dens) = add_reading ats (Some g, dens0) (i, es, ds)" using snoc.prems(2) st g(2) r by simp
    show ?thesis
    proof (cases "length es = length g \<and> map_of ats i \<noteq> None")
      case True
      then obtain el0 where el0: "map_of ats i = Some el0" "length es = length g" by auto
      with new have n: "grid = Some g" "dens = dput el0 (add_density
          (case dget dens0 el0 of Some old \<Rightarrow> old | None \<Rightarrow> replicate (length g) (Fin 0)) ds) dens0"
        by (simp_all add: add_reading_def)
      have "dget dens el = (let cs = contributions ats (length g) (rs @ [r]) el in if cs = [] then None else Some (total (length g) cs))" for el
        using el0 r by (cases "el = el0") (auto simp: n pydict dens0 [of el] dens0 [of el0] total_def Let_def split: if_splits)
      with n g \<open>rs \<noteq> []\<close> show ?thesis by auto
    next
      case off: False
      with new have "grid = Some g" "dens = dens0" by (auto simp: add_reading_def split: if_splits option.splits)
      moreover have "contributions ats (length g) (rs @ [r]) el = contributions ats (length g) rs el" for el using off r by auto
      ultimately show ?thesis using g dens0 \<open>rs \<noteq> []\<close> by (auto simp del: contributions_simps)
    qed
  qed
qed simp

text \<open>
  C30. Projected densities add up. What the parser returns is on the energy grid of the first readable file of an atom, and
  the density of an element is the sum of the densities of exactly the readable files on a grid of that length whose atom
  is of the element; an element without such a file is absent.
\<close>

theorem pdos_sums:
  assumes "parse_pdos np dir = Inr p" and "pdos_elements p = Some dens"
  shows "\<exists>ats f i g ds rs. species_of dir = Inr (ats, f) \<and> readings np (pp_atm dir) = (i, g, ds) # rs \<and> pdos_energies p = Some g \<and> pdos_points p = int (length g)
     \<and> (\<forall>el. dget dens el = (let cs = contributions ats (length g) ((i, g, ds) # rs) el in if cs = [] then None else Some (total (length g) cs)))"
proof -
  from assms obtain ats f where sp: "species_of dir = Inr (ats, f)"
    by (auto simp: parse_pdos_def no_pdos_def bindr_eq_Inr split: if_splits)
  obtain grid dens0 where fold: "foldl (add_atm np ats) (None, []) (pp_atm dir) = (grid, dens0)" by fastforce
  from assms have g: "grid \<noteq> None" and p: "dens = dens0" "pdos_energies p = grid"
    "pdos_points p = (case grid of None \<Rightarrow> 0 | Some g \<Rightarrow> int (length g))"
    by (auto simp: parse_pdos_def no_pdos_def bindr_eq_Inr sp fold Let_def split: if_splits)
  from fold have fold': "foldl (add_reading ats) (None, []) (readings np (pp_atm dir)) = (grid, dens0)" by (simp add: foldl_add_atm)
  with g have "readings np (pp_atm dir) \<noteq> []" by auto
  with sums_of_readings [OF this fold'] p sp show ?thesis by (cases "readings np (pp_atm dir)") auto
qed

text \<open>Two files of one element.\<close>

definition demo_np :: np where
  "demo_np = \<lparr>np_table = (\<lambda>s. Some [[Fin 0, Fin (if s = [] then 1 else 2)], [Fin 1, Fin 3]]), np_interp = (\<lambda>x _ _. x)\<rparr>"

definition demo_pdos :: pdos_dir where
  "demo_pdos = \<lparr>pp_atm = [(''a.pdos_atm#1(O)'', Some []), (''a.pdos_atm#2(O)'', Some ''x'')],
     pp_xmls = [Some (Elem ''x'' [] None [Elem ''atom'' [(''name'', ''o'')] None [], Elem ''atom'' [(''name'', ''O'')] None []])], pp_outs = []\<rparr>"

theorem pdos_sums_witness:
  "\<exists>p dens. parse_pdos demo_np demo_pdos = Inr p \<and> pdos_elements p = Some dens \<and> dget dens ''O'' = Some [Fin 3, Fin 6]"
proof -
  have "case parse_pdos demo_np demo_pdos of Inr p \<Rightarrow> (case pdos_elements p of Some dens \<Rightarrow> dget dens ''O'' = Some [Fin 3, Fin 6] | None \<Rightarrow> False)
      | Inl _ \<Rightarrow> False"
    by code_simp
  then obtain p dens where p: "parse_pdos demo_np demo_pdos = Inr p" "pdos_elements p = Some dens" "dget dens ''O'' = Some [Fin 3, Fin 6]"
    by (auto split: sum.splits option.splits)
  with pdos_sums [OF p(1,2)] show ?thesis by blast
qed

end
