(* ===== verification/Qe_Engine.thy ===== *)
theory Qe_Engine
  imports Parser_Files Prototypes Verifier_Props Local_Executor
begin

text \<open>
  One calculation of the QE engine (\<open>QECalcTool\<close> of \<open>engines/qe.py\<close>), the tool a graph node runs: it finds the
  structure, links the wavefunctions of an upstream node, compiles the input, runs the program, parses and verifies
  its output and returns the outputs, or raises.

  \<^item> The surroundings are a record \<open>qe_ops\<close>: the disk, the executor (\<open>w_run\<close>: program, input file, directory and
    time limit, with the disk before and after), numpy, ASE and the analysis of a structure. What the tool changes
    is a \<open>qe_state\<close>: the disk and the compiler's cache of electron counts.
  \<^item> A step is a function from the state to an error or a result and the state after it (\<open>andThen\<close> sequences
    them); an error is the tool's own or an exception of the code it calls.
  \<^item> Numbers in the parameters: a mesh of integers, an integer \<open>nbnd\<close> and a finite \<open>conv_thr\<close> are modelled; what the
    input compiler would print of other values is not, they count as a \<open>TypeError\<close>.
\<close>

section \<open>Surroundings and steps\<close>

datatype qe_exc = Tool tool_error | Py py_exc

record 'w qe_ops =
  w_exists :: "'w \<Rightarrow> string \<Rightarrow> bool"
  w_text :: "'w \<Rightarrow> string \<Rightarrow> string"
  w_write :: "'w \<Rightarrow> string \<Rightarrow> string \<Rightarrow> 'w"
  w_mkdir :: "'w \<Rightarrow> string \<Rightarrow> 'w"
  w_glob :: "'w \<Rightarrow> string \<Rightarrow> string \<Rightarrow> string list"
  w_xml :: "'w \<Rightarrow> string \<Rightarrow> xml option"
  w_structure :: "'w \<Rightarrow> string \<Rightarrow> (atoms \<times> vec list) option"
  w_entry :: "'w \<Rightarrow> string \<Rightarrow> save_entry"
  w_link :: "'w \<Rightarrow> string \<Rightarrow> string \<Rightarrow> 'w"
  w_pdos :: "'w \<Rightarrow> string \<Rightarrow> string \<Rightarrow> pdos_dir"
  w_run :: "string \<Rightarrow> string \<Rightarrow> string \<Rightarrow> pyval option \<Rightarrow> 'w \<Rightarrow> (py_exc + job_result) \<times> 'w"
  w_ase :: ase
  w_pseudos :: pseudo_dir
  w_np :: np
  w_write_cif :: "string \<Rightarrow> final_structure \<Rightarrow> 'w \<Rightarrow> (py_exc + unit) \<times> 'w"
  w_analyze :: "final_structure \<Rightarrow> py_exc + pyval"
  w_axis :: "vec list \<Rightarrow> bool list option \<Rightarrow> int \<Rightarrow> py_exc + pyfloat list \<times> pyfloat list \<times> string list"

record 'w qe_state =
  es_disk :: 'w
  es_cache :: "pyfloat pydict"

type_synonym ('w, 'a) step = "'w qe_state \<Rightarrow> (qe_exc + 'a) \<times> 'w qe_state"

definition ret :: "'a \<Rightarrow> ('w, 'a) step" where
  "ret a = (\<lambda>st. (Inr a, st))"

definition throw :: "tool_error \<Rightarrow> ('w, 'a) step" where
  "throw e = (\<lambda>st. (Inl (Tool e), st))"

definition py :: "py_exc + 'a \<Rightarrow> ('w, 'a) step" where
  "py r = (\<lambda>st. (case r of Inl e \<Rightarrow> Inl (Py e) | Inr a \<Rightarrow> Inr a, st))"

definition andThen :: "('w, 'a) step \<Rightarrow> ('a \<Rightarrow> ('w, 'b) step) \<Rightarrow> ('w, 'b) step" where
  "andThen m f = (\<lambda>st. case m st of (Inl e, st') \<Rightarrow> (Inl e, st') | (Inr a, st') \<Rightarrow> f a st')"

definition ask :: "('w \<Rightarrow> 'a) \<Rightarrow> ('w, 'a) step" where
  "ask f = (\<lambda>st. (Inr (f (es_disk st)), st))"

definition change :: "('w \<Rightarrow> 'w) \<Rightarrow> ('w, unit) step" where
  "change f = (\<lambda>st. (Inr (), st\<lparr>es_disk := f (es_disk st)\<rparr>))"

text \<open>A call that may raise and changes the disk.\<close>

definition call_out :: "('w \<Rightarrow> (py_exc + 'a) \<times> 'w) \<Rightarrow> ('w, 'a) step" where
  "call_out f = (\<lambda>st. case f (es_disk st) of (r, d) \<Rightarrow>
     (case r of Inl e \<Rightarrow> Inl (Py e) | Inr a \<Rightarrow> Inr a, st\<lparr>es_disk := d\<rparr>))"

definition tool_error_of :: "string \<Rightarrow> string \<Rightarrow> bool \<Rightarrow> tool_error" where
  "tool_error_of msg cat rep = \<lparr>te_message = msg, te_category = cat, te_repairable = rep\<rparr>"

lemma step_simps:
  "andThen m f st = (case m st of (Inl e, st') \<Rightarrow> (Inl e, st') | (Inr a, st') \<Rightarrow> f a st')"
  "ret a st = (Inr a, st)" "throw e st = (Inl (Tool e), st)" "ask g st = (Inr (g (es_disk st)), st)"
  "change h st = (Inr (), st\<lparr>es_disk := h (es_disk st)\<rparr>)" "py (Inr b) st = (Inr b, st)" "py (Inl x) st = (Inl (Py x), st)"
  by (simp_all add: andThen_def ret_def throw_def ask_def change_def py_def)

text \<open>What a successful step went through.\<close>

lemma andThen_Inr:
  "andThen m f st = (Inr b, st2) \<longleftrightarrow> (\<exists>a st1. m st = (Inr a, st1) \<and> f a st1 = (Inr b, st2))"
  by (auto simp: andThen_def split: prod.splits sum.splits)

lemma andThen_Inl:
  "andThen m f st = (Inl e, st2) \<longleftrightarrow> m st = (Inl e, st2) \<or> (\<exists>a st1. m st = (Inr a, st1) \<and> f a st1 = (Inl e, st2))"
  by (auto simp: andThen_def split: prod.splits sum.splits)

lemma py_Inr: "py r st = (Inr a, st') \<longleftrightarrow> r = Inr a \<and> st' = st"
  by (cases r) (auto simp: py_def)

lemma py_Tool: "py r st \<noteq> (Inl (Tool e), st')"
  by (cases r) (auto simp: py_def)

section \<open>Parameters\<close>

definition opt_param :: "pyval pydict \<Rightarrow> string \<Rightarrow> pyval option" where
  "opt_param params k = (case get_or params k PNone of PNone \<Rightarrow> None | v \<Rightarrow> Some v)"

definition as_float_param :: "pyval pydict \<Rightarrow> string \<Rightarrow> pyfloat \<Rightarrow> py_exc + pyfloat" where
  "as_float_param params k dflt = (case opt_param params k of None \<Rightarrow> Inr dflt | Some v \<Rightarrow> as_real v)"

definition as_int_param :: "pyval pydict \<Rightarrow> string \<Rightarrow> int \<Rightarrow> py_exc + int" where
  "as_int_param params k dflt = (case opt_param params k of None \<Rightarrow> Inr dflt | Some v \<Rightarrow> as_integer v)"

definition mesh_param :: "pyval pydict \<Rightarrow> py_exc + int list option" where
  "mesh_param params =
    (let v = get_or params ''kpoints'' PNone in
     if \<not> py_true v then Inr None
     else case v of
       PList vs \<Rightarrow> bindr (mapr (\<lambda>x. case x of PInt i \<Rightarrow> Inr i | _ \<Rightarrow> Inl TypeError) vs) (\<lambda>ks. Inr (Some ks))
     | _ \<Rightarrow> Inl TypeError)"

definition nbnd_param :: "pyval pydict \<Rightarrow> py_exc + int option" where
  "nbnd_param params = (case opt_param params ''nbnd'' of None \<Rightarrow> Inr None | Some (PInt n) \<Rightarrow> Inr (Some n) | Some _ \<Rightarrow> Inl TypeError)"

definition conv_param :: "pyval pydict \<Rightarrow> py_exc + rat" where
  "conv_param params = bindr (as_float_param params ''conv_thr'' (Fin (1 / 10 ^ 8)))
     (\<lambda>x. case x of Fin q \<Rightarrow> Inr q | _ \<Rightarrow> Inl TypeError)"

section \<open>Material, structure and prefix\<close>

definition suffix :: "string \<Rightarrow> string" where
  "suffix p = drop (length (stem p)) (base_name p)"

definition spaces_to_underscores :: "string \<Rightarrow> string" where
  "spaces_to_underscores s = map (\<lambda>c. if c = CHR '' '' then CHR ''_'' else c) s"

definition STRUCTURE_SUFFIXES :: "string list" where
  "STRUCTURE_SUFFIXES = [''.cif'', ''.poscar'', ''.xyz'']"

definition load_structure :: "'w qe_ops \<Rightarrow> string \<Rightarrow> ('w, atoms) step" where
  "load_structure w path = andThen (ask (\<lambda>d. w_structure w d path)) (\<lambda>file. py (read_structure (w_ase w) path file))"

text \<open>A structure parameter wins over the material, and gives its name to an empty or default one; a material that
  is not tabulated is a structure file or a formula.\<close>

definition choose_structure :: "'w qe_ops \<Rightarrow> pyval pydict \<Rightarrow> ('w, string \<times> atoms option) step" where
  "choose_structure w params =
    (let material = py_str (get_or params ''material'' (PStr []));
         structure = get_or params ''structure'' PNone in
     if py_true structure then
       andThen (load_structure w (py_str structure)) (\<lambda>a.
       ret (if lower material \<in> {[], ''si''} then spaces_to_underscores (stem (py_str structure)) else material, Some a))
     else if material \<noteq> [] \<and> \<not> dmem material MATERIAL_DB \<and> lower (suffix material) \<in> set STRUCTURE_SUFFIXES then
       andThen (load_structure w material) (\<lambda>a. ret (spaces_to_underscores (stem material), Some a))
     else if material \<noteq> [] \<and> \<not> dmem material MATERIAL_DB then
       andThen (py (formula_atoms (w_ase w) material)) (\<lambda>(a, proto). ret (material, Some a))
     else if material = [] then throw (tool_error_of (''qe node missing '' @ quoted ''material'' @ '' param'') ''config'' False)
     else ret (material, None))"

definition slug :: "string \<Rightarrow> string" where
  "slug material =
    (let s = take 24 (map (\<lambda>c. if is_alnum c \<and> of_char c < (128 :: int) then c else CHR ''_'') (lower material)) in
     if s = [] then ''calc'' else s)"

definition prefix_param :: "pyval pydict \<Rightarrow> string \<Rightarrow> string" where
  "prefix_param params material = py_str (get_or params ''prefix'' (PStr (slug material)))"

section \<open>The upstream wavefunctions\<close>

definition save_of :: "string \<Rightarrow> string" where
  "save_of pfx = pfx @ ''.save''"

definition link_upstream :: "'w qe_ops \<Rightarrow> string \<Rightarrow> string list \<Rightarrow> string \<Rightarrow> string \<Rightarrow> ('w, unit) step" where
  "link_upstream w base deps workdir pfx = (\<lambda>st.
    let target = in_dir workdir (save_of pfx);
        dep_save = (\<lambda>d. in_dir (in_dir base d) (save_of pfx)) in
    case link_upstream_save deps (\<lambda>d. w_exists w (es_disk st) (dep_save d)) pfx (w_entry w (es_disk st) target) of
      Inl e \<Rightarrow> throw e st
    | Inr (LinkTo d) \<Rightarrow> (if w_entry w (es_disk st) target \<in> {Absent, StaleLink}
        then change (\<lambda>k. w_link w k target (dep_save d)) st else ret () st)
    | Inr _ \<Rightarrow> ret () st)"

section \<open>Running a program\<close>

definition RE_ROUTINE :: re where
  "RE_ROUTINE = seqs [lit ''Error in routine'', spaces1, Grp 1 (plus (Ch (\<lambda>c. \<not> py_isspace c))), spaces0, lit ''('', digits1, lit ''):'',
     spaces0, Ch (\<lambda>c. c = newline), Grp 2 (Seq dot (Lazy dot)), Ch (\<lambda>c. c = newline), spaces0, Ch (\<lambda>c. c = newline)]"

definition qe_error_snippet :: "string \<Rightarrow> string option" where
  "qe_error_snippet stdout =
    map_option (\<lambda>(_, q). group 1 q @ '': '' @ py_strip (group 2 q)) (search RE_ROUTINE stdout)"

definition first_given :: "string list \<Rightarrow> string \<Rightarrow> string" where
  "first_given ss dflt = (case filter (\<lambda>s. s \<noteq> []) ss of s # _ \<Rightarrow> s | [] \<Rightarrow> dflt)"

definition job_finished :: "job_result \<Rightarrow> bool" where
  "job_finished r = (j_success r \<and> contains ''JOB DONE'' (j_stdout r))"

definition pw_error :: "string \<Rightarrow> string \<Rightarrow> job_result \<Rightarrow> tool_error" where
  "pw_error program category r = tool_error_of
     (program @ '' failed: '' @ first_given [case qe_error_snippet (j_stdout r) of Some s \<Rightarrow> s | None \<Rightarrow> [], j_error r, j_stderr r]
        ''no JOB DONE in stdout'') category True"

definition run_program ::
  "'w qe_ops \<Rightarrow> string \<Rightarrow> string \<Rightarrow> string \<Rightarrow> string \<Rightarrow> pyval option \<Rightarrow> ('w, job_result) step" where
  "run_program w program category input_file workdir timeout =
    andThen (call_out (w_run w program input_file workdir timeout)) (\<lambda>r.
    if job_finished r then ret r else throw (pw_error program category r))"

definition run_pw_step :: "'w qe_ops \<Rightarrow> string \<Rightarrow> string \<Rightarrow> pyval option \<Rightarrow> ('w, job_result) step" where
  "run_pw_step w = run_program w ''pw.x'' ''execution''"

definition run_projwfc :: "'w qe_ops \<Rightarrow> string \<Rightarrow> string \<Rightarrow> pyval option \<Rightarrow> ('w, job_result) step" where
  "run_projwfc w = run_program w ''projwfc.x'' ''tool_failure''"

definition run_tool :: "'w qe_ops \<Rightarrow> string \<Rightarrow> string \<Rightarrow> string \<Rightarrow> pyval option \<Rightarrow> ('w, job_result) step" where
  "run_tool w program input_file workdir timeout =
    andThen (call_out (w_run w program input_file workdir timeout)) (\<lambda>r.
    if j_success r then ret r
    else throw (tool_error_of (program @ '' failed: '' @ first_given [j_error r, j_stderr r] ''exit != 0'') ''tool_failure'' True))"

text \<open>Writing a compiled input.\<close>

definition emit :: "'w qe_ops \<Rightarrow> string \<Rightarrow> py_exc + string \<Rightarrow> ('w, unit) step" where
  "emit w file content = andThen (py content) (\<lambda>s. change (\<lambda>d. w_write w d file s))"

definition emit_scf ::
  "'w qe_ops \<Rightarrow> string \<Rightarrow> string \<Rightarrow> string \<Rightarrow> scf_options \<Rightarrow> atoms option \<Rightarrow> ('w, unit) step" where
  "emit_scf w file material pfx so ats = (\<lambda>st.
    let (content, cache) = compile_scf (w_ase w) (w_pseudos w) material (Some pfx) so ats (es_cache st) in
    emit w file content (st\<lparr>es_cache := cache\<rparr>))"

definition need_report :: "report \<Rightarrow> string \<Rightarrow> string \<Rightarrow> ('w, unit) step" where
  "need_report r what category =
    (if passed r then ret ()
     else throw (tool_error_of (what @ '' verification failed: '' @ join ''; '' (failure_reasons r)) category True))"

definition out_file :: "string \<Rightarrow> string \<Rightarrow> string" where
  "out_file workdir name = in_dir workdir (name @ ''.out'')"

section \<open>Relaxation\<close>

definition BOHR_TO_ANG :: rat where "BOHR_TO_ANG = 529177210903 / 10 ^ 12"

definition opt_float :: "pyfloat option \<Rightarrow> pyval" where
  "opt_float x = (case x of Some f \<Rightarrow> PFloat f | None \<Rightarrow> PNone)"

definition vc_outputs :: "parsed_vc \<Rightarrow> string \<Rightarrow> pyval pydict" where
  "vc_outputs p stdout_file =
    [(''energy_ry'', PFloat (final_energy_ry p)), (''max_force_ry_bohr'', PFloat (max_force_ry_bohr p)),
     (''pressure_kbar'', PFloat (pressure_kbar p)), (''n_iterations'', PInt (vc_n_iterations p)),
     (''a_angstrom'', opt_float (map_option (\<lambda>c. pf_mul (a_bohr c) (Fin BOHR_TO_ANG)) (vc_cell p))),
     (''volume_a3'', opt_float (map_option (\<lambda>c. pf_mul (volume_bohr3 c) (Fin (BOHR_TO_ANG ^ 3))) (vc_cell p))),
     (''stdout_file'', PStr stdout_file)]"

definition vc_report ::
  "job_result \<Rightarrow> string \<Rightarrow> xml option \<Rightarrow> bool \<Rightarrow> parsed_vc \<Rightarrow> py_exc + report" where
  "vc_report job xml_path doc there p =
    verify_t1 default_verifier \<lparr>vi_stdout = j_stdout job, vi_stderr = [], vi_xml_path = (if there then Some xml_path else None),
      vi_job_success = j_success job, vi_metadata = []\<rparr> doc (Some p)"

definition add_final_structure :: "'w qe_ops \<Rightarrow> string \<Rightarrow> string \<Rightarrow> pyval pydict \<Rightarrow> ('w, pyval pydict) step" where
  "add_final_structure w cif_path stdout outputs =
    andThen (py (extract_final_structure stdout)) (\<lambda>final.
    case final of None \<Rightarrow> ret outputs
    | Some f \<Rightarrow> andThen (call_out (w_write_cif w cif_path f)) (\<lambda>_.
        ret (outputs @ [(''final_structure_cif'', PStr cif_path),
          (case w_analyze w f of Inr a \<Rightarrow> (''analysis'', a) | Inl e \<Rightarrow> (''analysis_error'', PStr (exc_text e)))])))"

definition run_vc_relax ::
  "'w qe_ops \<Rightarrow> string \<Rightarrow> string \<Rightarrow> pyval pydict \<Rightarrow> string \<Rightarrow> atoms option \<Rightarrow> pyval option \<Rightarrow> ('w, pyval pydict) step" where
  "run_vc_relax w material pfx params workdir ats timeout =
    (let name = pfx @ ''_vcrelax''; input_file = in_dir workdir (name @ ''.in''); xml = in_dir workdir (pfx @ ''.xml'') in
     andThen (py (mesh_param params)) (\<lambda>mesh.
     andThen (emit w input_file (compile_t1 (w_ase w) (w_pseudos w) material (Some pfx)
       (t1_defaults\<lparr>o_ecutwfc := opt_param params ''ecutwfc'', o_ecutrho := opt_param params ''ecutrho'', o_kpoints := mesh\<rparr>) ats)) (\<lambda>_.
     andThen (run_pw_step w input_file workdir timeout) (\<lambda>job.
     andThen (ask (\<lambda>d. (w_exists w d xml, if w_exists w d xml then w_xml w d xml else None))) (\<lambda>(there, doc).
     andThen (py (parse_vc_relax (j_stdout job) doc)) (\<lambda>parsed.
     andThen (py (vc_report job xml doc there parsed)) (\<lambda>report.
     andThen (need_report report ''vc-relax'' ''verification'') (\<lambda>_.
     add_final_structure w (in_dir workdir (pfx @ ''_relaxed.cif'')) (j_stdout job)
       (vc_outputs parsed (out_file workdir name))))))))))"

section \<open>Self-consistent and non-self-consistent runs\<close>

definition RE_NAT :: re where
  "RE_NAT = seqs [lit ''number of atoms/cell'', spaces1, lit ''='', spaces1, Grp 1 digits1]"

definition scf_natoms :: "string \<Rightarrow> atoms option \<Rightarrow> pyval" where
  "scf_natoms stdout ats = (case search_group 1 RE_NAT stdout of Some g \<Rightarrow> PInt (num_int (Some g))
     | None \<Rightarrow> (case ats of Some a \<Rightarrow> PInt (int (length (at_symbols a))) | None \<Rightarrow> PNone))"

definition scf_options_of :: "pyval pydict \<Rightarrow> py_exc + scf_options" where
  "scf_options_of params =
    bindr (mesh_param params) (\<lambda>mesh. bindr (conv_param params) (\<lambda>thr. bindr (nbnd_param params) (\<lambda>nbnd.
    Inr (scf_defaults\<lparr>s_ecutwfc := opt_param params ''ecutwfc'', s_ecutrho := opt_param params ''ecutrho'', s_kpoints := mesh,
      s_conv_thr := thr, s_nbnd := nbnd\<rparr>))))"

definition run_scf ::
  "'w qe_ops \<Rightarrow> string \<Rightarrow> string \<Rightarrow> pyval pydict \<Rightarrow> string \<Rightarrow> atoms option \<Rightarrow> pyval option \<Rightarrow> ('w, pyval pydict) step" where
  "run_scf w material pfx params workdir ats timeout =
    (let name = pfx @ ''_scf''; input_file = in_dir workdir (name @ ''.in'') in
     andThen (py (scf_options_of params)) (\<lambda>so.
     andThen (emit_scf w input_file material pfx so ats) (\<lambda>_.
     andThen (run_pw_step w input_file workdir timeout) (\<lambda>job.
     let parsed = parse_scf (j_stdout job) in
     andThen (need_report (verify_scf (j_stdout job)) ''scf'' ''scf_not_converged'') (\<lambda>_.
     ret [(''energy_ry'', PFloat (total_energy_ry parsed)), (''fermi_ev'', PFloat (fermi_energy_ev parsed)),
          (''n_iterations'', PInt (n_iterations parsed)), (''natoms'', scf_natoms (j_stdout job) ats),
          (''stdout_file'', PStr (out_file workdir name))])))))"

definition run_nscf ::
  "'w qe_ops \<Rightarrow> string \<Rightarrow> string \<Rightarrow> pyval pydict \<Rightarrow> string \<Rightarrow> atoms option \<Rightarrow> pyval option \<Rightarrow> ('w, pyval pydict) step" where
  "run_nscf w material pfx params workdir ats timeout =
    (let name = pfx @ ''_nscf''; input_file = in_dir workdir (name @ ''.in'') in
     andThen (py (scf_options_of params)) (\<lambda>so.
     andThen (py (as_int_param params ''nkpoints_bands'' 60)) (\<lambda>nk.
     andThen (emit_scf w input_file material pfx
       (so\<lparr>s_calculation := ''nscf'', s_nkpoints := nk, s_kmode := py_str (get_or params ''kmode'' (PStr ''path''))\<rparr>) ats) (\<lambda>_.
     andThen (run_pw_step w input_file workdir timeout) (\<lambda>job.
     andThen (need_report (verify_nscf (j_stdout job)) ''nscf'' ''scf_not_converged'') (\<lambda>_.
     ret [(''energy_ry'', PFloat (total_energy_ry (parse_scf (j_stdout job)))), (''nbnd_used'', get_or params ''nbnd'' PNone),
          (''stdout_file'', PStr (out_file workdir name))]))))))"

section \<open>Post-processing\<close>

definition read_stdout :: "'w qe_ops \<Rightarrow> pyval \<Rightarrow> 'w \<Rightarrow> string" where
  "read_stdout w path d = (if \<not> py_true path then []
     else if w_exists w d (py_str path) then w_text w d (py_str path) else [])"

definition stage_outputs :: "'w qe_ops \<Rightarrow> pyval pydict \<Rightarrow> 'w \<Rightarrow> string \<times> string" where
  "stage_outputs w params d =
    (read_stdout w (get_or params ''scf_stdout'' PNone) d, read_stdout w (get_or params ''nscf_stdout'' PNone) d)"

definition locate_bands_xml :: "'w qe_ops \<Rightarrow> string \<Rightarrow> string \<Rightarrow> 'w \<Rightarrow> string option" where
  "locate_bands_xml w workdir pfx d = find (w_exists w d)
    [in_dir workdir (pfx @ ''.xml''), in_dir (in_dir workdir (save_of pfx)) ''data-file-schema.xml'',
     in_dir workdir (pfx @ ''_bands.xml'')]"

definition bands_of_file :: "xml option \<Rightarrow> parsed_bands" where
  "bands_of_file doc = (case doc of None \<Rightarrow> no_bands | Some d \<Rightarrow> parse_bands d)"

definition upper :: "string \<Rightarrow> string" where
  "upper s = map upper_char s"

definition k_label :: "string \<Rightarrow> pyval" where
  "k_label l = PStr (if upper l \<in> {''G'', ''GAMMA''} then [CHR 0xCE, CHR 0x93] else l)"

definition rounded :: "nat \<Rightarrow> pyfloat list \<Rightarrow> pyval" where
  "rounded n xs = PList (map (\<lambda>x. PFloat (pf_round n x)) xs)"

text \<open>The axis of a plot; whatever raises on the way leaves it out.\<close>

definition plot_axis :: "'w qe_ops \<Rightarrow> string \<Rightarrow> atoms option \<Rightarrow> pyval pydict \<Rightarrow> pyval pydict" where
  "plot_axis w material ats params =
    (case bindr (case ats of Some a \<Rightarrow> Inr a | None \<Rightarrow> build_atoms (w_ase w) material) (\<lambda>src.
          bindr (as_int_param params ''nkpoints_bands'' 100) (\<lambda>n. w_axis w (at_cell src) (pbc_of src) (max 10 n))) of
       Inl _ \<Rightarrow> []
     | Inr (x, ticks, labels) \<Rightarrow>
         [(''k_axis'', rounded 4 x), (''k_ticks'', rounded 4 ticks), (''k_labels'', PList (map k_label labels))])"

definition bands_outputs :: "'w qe_ops \<Rightarrow> string \<Rightarrow> atoms option \<Rightarrow> pyval pydict \<Rightarrow> parsed_bands \<Rightarrow> pyval pydict" where
  "bands_outputs w material ats params parsed =
    [(''n_bands'', PInt (pb_n_bands parsed)), (''n_kpoints'', PInt (pb_n_kpoints parsed)),
     (''band_gap_ev'', PFloat (pb_gap_ev parsed)), (''is_metal'', PBool (pb_is_metal parsed)),
     (''fermi_ev'', PFloat (pb_fermi_ev parsed))]
    @ plot_axis w material ats params
    @ (case pb_eigenvalues parsed of Some rows \<Rightarrow> [(''eigenvalues_ev'', PList (map (rounded 4) rows))] | None \<Rightarrow> [])"

text \<open>What follows the run of \<open>bands.x\<close>, and the whole calculation.\<close>

definition check_bands ::
  "'w qe_ops \<Rightarrow> string \<Rightarrow> string \<Rightarrow> pyval pydict \<Rightarrow> string \<Rightarrow> atoms option \<Rightarrow> job_result \<Rightarrow> ('w, pyval pydict) step" where
  "check_bands w material pfx params workdir ats job =
    andThen (ask (locate_bands_xml w workdir pfx)) (\<lambda>located.
    case located of
      None \<Rightarrow> throw (tool_error_of (''bands.x produced no eigenvalue XML ('' @ pfx @ ''.xml / '' @ pfx
          @ ''.save/data-file-schema.xml): '' @ first_given [j_error job] ''unknown error'') ''tool_failure'' False)
    | Some xml \<Rightarrow>
        andThen (ask (\<lambda>d. bands_of_file (w_xml w d xml))) (\<lambda>parsed.
        andThen (ask (stage_outputs w params)) (\<lambda>(scf, nscf).
        andThen (need_report (verify_t2_bands scf nscf xml (Some parsed)) ''bands'' ''verification'') (\<lambda>_.
        ret (bands_outputs w material ats params parsed)))))"

definition run_bands ::
  "'w qe_ops \<Rightarrow> string \<Rightarrow> string \<Rightarrow> pyval pydict \<Rightarrow> string \<Rightarrow> atoms option \<Rightarrow> pyval option \<Rightarrow> ('w, pyval pydict) step" where
  "run_bands w material pfx params workdir ats timeout =
    (let input_file = in_dir workdir (pfx @ ''_bands.in'') in
     andThen (py (as_int_param params ''nkpoints_bands'' 100)) (\<lambda>_.
     andThen (emit w input_file (compile_bands_input (w_ase w) material (Some pfx) None None ats)) (\<lambda>_.
     andThen (run_tool w ''bands.x'' input_file workdir timeout) (check_bands w material pfx params workdir ats))))"

text \<open>The two numbers of a post-processing input.\<close>

definition broadening :: "pyval pydict \<Rightarrow> py_exc + pyval \<times> pyval" where
  "broadening params =
    bindr (as_float_param params ''dos_deltae'' (Fin (1 / 100))) (\<lambda>deltae.
    bindr (as_float_param params ''dos_fwhm'' (Fin (5 / 100))) (\<lambda>fwhm. Inr (PFloat deltae, PFloat fwhm)))"

definition find_dos_file :: "'w qe_ops \<Rightarrow> string \<Rightarrow> string \<Rightarrow> 'w \<Rightarrow> string option" where
  "find_dos_file w workdir pfx d =
    (let f = in_dir workdir (pfx @ ''.dos'') in
     if w_exists w d f then Some f
     else (case sort (w_glob w d workdir ''*.dos'') of [] \<Rightarrow> None | c # _ \<Rightarrow> Some c))"

text \<open>The verifier's check entry also shows the Fermi level, which decides nothing.\<close>

definition dos_facts :: "parsed_dos \<Rightarrow> int \<times> pyval" where
  "dos_facts p = (dos_points p, opt_float (dos_fermi p))"

definition dos_outputs :: "parsed_dos \<Rightarrow> pyval pydict" where
  "dos_outputs p =
    [(''n_energy_points'', PInt (dos_points p)), (''dos_at_fermi'', PFloat (dos_at_fermi p)), (''fermi_ev'', opt_float (dos_fermi p))]
    @ (case (dos_energies p, dos_values p) of
         (Some es, Some ds) \<Rightarrow> [(''dos_curve'', PDict [(''energies_ev'', rounded 4 es), (''dos'', rounded 3 ds)])]
       | _ \<Rightarrow> [])"

definition check_dos :: "'w qe_ops \<Rightarrow> string \<Rightarrow> pyval pydict \<Rightarrow> string \<Rightarrow> job_result \<Rightarrow> ('w, pyval pydict) step" where
  "check_dos w pfx params workdir job =
    andThen (ask (find_dos_file w workdir pfx)) (\<lambda>located.
    case located of
      None \<Rightarrow> throw (tool_error_of (''dos.x produced no .dos file: '' @ first_given [j_error job] ''unknown error'') ''tool_failure'' False)
    | Some f \<Rightarrow>
        andThen (ask (\<lambda>d. parse_dos (w_np w) (Some (w_text w d f)))) (\<lambda>parsed.
        andThen (ask (stage_outputs w params)) (\<lambda>(scf, nscf).
        andThen (need_report (verify_t2_dos scf nscf f (Some (dos_facts parsed))) ''dos'' ''verification'') (\<lambda>_.
        ret (dos_outputs parsed)))))"

definition run_dos ::
  "'w qe_ops \<Rightarrow> string \<Rightarrow> string \<Rightarrow> pyval pydict \<Rightarrow> string \<Rightarrow> atoms option \<Rightarrow> pyval option \<Rightarrow> ('w, pyval pydict) step" where
  "run_dos w material pfx params workdir ats timeout =
    (let input_file = in_dir workdir (pfx @ ''_dos.in'') in
     andThen (py (broadening params)) (\<lambda>(deltae, fwhm).
     andThen (emit w input_file (compile_dos_input material (Some pfx) None None deltae fwhm 1 ats)) (\<lambda>_.
     andThen (run_tool w ''dos.x'' input_file workdir timeout) (check_dos w pfx params workdir))))"

definition pdos_outputs :: "parsed_pdos \<Rightarrow> pyfloat list pydict \<Rightarrow> pyval pydict" where
  "pdos_outputs p dens =
    [(''n_energy_points'', PInt (pdos_points p)), (''elements'', strs (sort (dkeys dens))),
     (''fermi_ev'', if pf_true (pdos_fermi p) then PFloat (pdos_fermi p) else PNone),
     (''pdos_curve'', PDict [(''energies_ev'', rounded 4 (case pdos_energies p of Some es \<Rightarrow> es | None \<Rightarrow> [])),
        (''element_dos'', PDict (map (\<lambda>el. (el, rounded 3 (case dget dens el of Some xs \<Rightarrow> xs | None \<Rightarrow> []))) (sort (dkeys dens))))])]"

definition check_pdos :: "'w qe_ops \<Rightarrow> string \<Rightarrow> string \<Rightarrow> job_result \<Rightarrow> ('w, pyval pydict) step" where
  "check_pdos w pfx workdir job =
    andThen (ask (\<lambda>d. w_pdos w d workdir pfx)) (\<lambda>dir.
    if pp_atm dir = [] then
      throw (tool_error_of (''projwfc.x produced no pdos_atm files: '' @ first_given [j_error job] ''unknown error'') ''tool_failure'' False)
    else
      andThen (py (parse_pdos (w_np w) dir)) (\<lambda>parsed.
      case pdos_elements parsed of
        Some (d # ds) \<Rightarrow> ret (pdos_outputs parsed (d # ds))
      | _ \<Rightarrow> throw (tool_error_of ''pdos parse failed: no element-resolved projections recovered'' ''tool_failure'' False)))"

definition run_pdos ::
  "'w qe_ops \<Rightarrow> string \<Rightarrow> string \<Rightarrow> pyval pydict \<Rightarrow> string \<Rightarrow> atoms option \<Rightarrow> pyval option \<Rightarrow> ('w, pyval pydict) step" where
  "run_pdos w material pfx params workdir ats timeout =
    (let input_file = in_dir workdir (pfx @ ''_pdos.in'') in
     andThen (py (broadening params)) (\<lambda>(deltae, fwhm).
     andThen (emit w input_file (compile_pdos_input material (Some pfx) deltae fwhm 1 ats)) (\<lambda>_.
     andThen (run_projwfc w input_file workdir timeout) (check_pdos w pfx workdir))))"

section \<open>The tool\<close>

record qe_context =
  cx_base :: string
  cx_upstream :: "string list"
  cx_timeout :: "pyval option"

definition NEEDS_SAVE :: "string list" where
  "NEEDS_SAVE = [''nscf'', ''bands'', ''dos'', ''pdos'']"

definition calculation ::
  "'w qe_ops \<Rightarrow> string \<Rightarrow> string \<Rightarrow> string \<Rightarrow> pyval pydict \<Rightarrow> string \<Rightarrow> atoms option \<Rightarrow> pyval option \<Rightarrow> ('w, pyval pydict) step" where
  "calculation w calc material pfx params workdir ats timeout =
    (if calc = ''vc-relax'' then run_vc_relax w material pfx params workdir ats timeout
     else if calc = ''scf'' then run_scf w material pfx params workdir ats timeout
     else if calc = ''nscf'' then run_nscf w material pfx params workdir ats timeout
     else if calc = ''bands'' then run_bands w material pfx params workdir ats timeout
     else if calc = ''dos'' then run_dos w material pfx params workdir ats timeout
     else if calc = ''pdos'' then run_pdos w material pfx params workdir ats timeout
     else throw (tool_error_of (''unknown qe calc type '' @ quoted calc) ''config'' False))"

definition calc_of :: "pyval pydict \<Rightarrow> string" where
  "calc_of params = py_str (get_or params ''calc'' (PStr ''scf''))"

definition qe_execute :: "'w qe_ops \<Rightarrow> qe_context \<Rightarrow> string \<Rightarrow> pyval pydict \<Rightarrow> ('w, pyval pydict) step" where
  "qe_execute w cx node_id params =
    (let calc = calc_of params; workdir = in_dir (cx_base cx) node_id in
     andThen (choose_structure w params) (\<lambda>(material, ats).
     let pfx = prefix_param params material in
     andThen (change (\<lambda>d. w_mkdir w d workdir)) (\<lambda>_.
     andThen (if calc \<in> set NEEDS_SAVE then link_upstream w (cx_base cx) (cx_upstream cx) workdir pfx else ret ()) (\<lambda>_.
     calculation w calc material pfx params workdir ats (cx_timeout cx)))))"

text \<open>What the scheduler gets of it.\<close>

definition qe_outcome :: "qe_exc + pyval pydict \<Rightarrow> tool_result" where
  "qe_outcome r = (case r of Inr outs \<Rightarrow> ToolOk outs | Inl (Tool e) \<Rightarrow> ToolRaised e | Inl (Py e) \<Rightarrow> ToolCrashed (exc_text e))"

definition qe_tool :: "'w qe_ops \<Rightarrow> qe_context \<Rightarrow> node_run \<Rightarrow> 'w qe_state \<Rightarrow> tool_result \<times> 'w qe_state" where
  "qe_tool w cx node st = (case qe_execute w cx (nr_node_id node) (nr_params node) st of (r, st') \<Rightarrow> (qe_outcome r, st'))"

end
