(* ===== verification/Qe_Props.thy ===== *)
theory Qe_Props
  imports Qe_Engine
begin

text \<open>
  What the engine tool of \<open>engines/qe.py\<close> establishes when it returns outputs: for each of the six calculations the run
  of its program, what the verifier passed, and where every output comes from; and the categories of the errors it raises.
\<close>

section \<open>Steps that succeed\<close>

lemma basic_Inr:
  "ret a st = (Inr b, st') \<longleftrightarrow> b = a \<and> st' = st" "throw e st \<noteq> (Inr b, st')"
  "ask g st = (Inr b, st') \<longleftrightarrow> b = g (es_disk st) \<and> st' = st"
  "change h st = (Inr u, st') \<longleftrightarrow> st' = st\<lparr>es_disk := h (es_disk st)\<rparr>"
  by (auto simp: step_simps)

lemma call_out_Inr:
  "call_out f st = (Inr a, st') \<longleftrightarrow> (\<exists>d. f (es_disk st) = (Inr a, d) \<and> st' = st\<lparr>es_disk := d\<rparr>)"
  by (auto simp: call_out_def split: prod.splits sum.splits)

lemma ask_bind: "andThen (ask g) f st = f (g (es_disk st)) st"
  by (simp add: andThen_def ask_def)

lemma need_report_Inr: "need_report r what cat st = (Inr u, st') \<longleftrightarrow> passed r \<and> st' = st"
  by (auto simp: need_report_def basic_Inr)

lemma run_program_Inr:
  "run_program w p cat i wd t st = (Inr job, st') \<longleftrightarrow>
     (\<exists>d. w_run w p i wd t (es_disk st) = (Inr job, d) \<and> st' = st\<lparr>es_disk := d\<rparr>) \<and> job_finished job"
  by (auto simp: run_program_def andThen_Inr call_out_Inr basic_Inr split: if_splits)

lemma run_tool_Inr:
  "run_tool w p i wd t st = (Inr job, st') \<longleftrightarrow>
     (\<exists>d. w_run w p i wd t (es_disk st) = (Inr job, d) \<and> st' = st\<lparr>es_disk := d\<rparr>) \<and> j_success job"
  by (auto simp: run_tool_def andThen_Inr call_out_Inr basic_Inr split: if_splits)

lemmas step_Inr = andThen_Inr basic_Inr call_out_Inr need_report_Inr run_program_Inr run_tool_Inr py_Inr

section \<open>What each calculation establishes\<close>

text \<open>
  What stands behind the outputs of each kind of calculation: the run of the program, what the verifier asks of its
  output, and where each output comes from. \<open>program_ran\<close> ties the result to the program, its input file and the disk it left.
\<close>

definition program_ran :: "'w qe_ops \<Rightarrow> string \<Rightarrow> string \<Rightarrow> string \<Rightarrow> pyval option \<Rightarrow> job_result \<Rightarrow> 'w \<Rightarrow> bool" where
  "program_ran w program input_file workdir timeout job after = (\<exists>d. w_run w program input_file workdir timeout d = (Inr job, after))"

definition vc_verified :: "'w qe_ops \<Rightarrow> string \<Rightarrow> string \<Rightarrow> pyval option \<Rightarrow> pyval pydict \<Rightarrow> bool" where
  "vc_verified w wd pfx t outs \<longleftrightarrow> (\<exists>job d p rest.
     let xml = in_dir wd (pfx @ ''.xml''); there = w_exists w d xml; out = in_dir wd (pfx @ ''_vcrelax.out'');
         cif = in_dir wd (pfx @ ''_relaxed.cif'') in
     program_ran w ''pw.x'' (in_dir wd (pfx @ ''_vcrelax.in'')) wd t job d \<and> job_finished job
     \<and> parse_vc_relax (j_stdout job) (if there then w_xml w d xml else None) = Inr p
     \<and> passed (verify_parsed default_verifier \<lparr>vi_stdout = j_stdout job, vi_stderr = [],
          vi_xml_path = (if there then Some xml else None), vi_job_success = True, vi_metadata = []\<rparr> p)
     \<and> outs = [(''energy_ry'', PFloat (final_energy_ry p)), (''max_force_ry_bohr'', PFloat (max_force_ry_bohr p)),
          (''pressure_kbar'', PFloat (pressure_kbar p)), (''n_iterations'', PInt (vc_n_iterations p)),
          (''a_angstrom'', case vc_cell p of Some c \<Rightarrow> PFloat (pf_mul (a_bohr c) (Fin BOHR_TO_ANG)) | None \<Rightarrow> PNone),
          (''volume_a3'', case vc_cell p of Some c \<Rightarrow> PFloat (pf_mul (volume_bohr3 c) (Fin (BOHR_TO_ANG ^ 3))) | None \<Rightarrow> PNone),
          (''stdout_file'', PStr out)] @ rest
     \<and> (case extract_final_structure (j_stdout job) of
          Inl _ \<Rightarrow> False | Inr None \<Rightarrow> rest = []
        | Inr (Some f) \<Rightarrow> rest = [(''final_structure_cif'', PStr cif),
            (case w_analyze w f of Inr a \<Rightarrow> (''analysis'', a) | Inl e \<Rightarrow> (''analysis_error'', PStr (exc_text e)))]))"

definition scf_verified :: "'w qe_ops \<Rightarrow> string \<Rightarrow> string \<Rightarrow> pyval option \<Rightarrow> 'w \<Rightarrow> pyval pydict \<Rightarrow> bool" where
  "scf_verified w wd pfx t d outs \<longleftrightarrow> (\<exists>job (ats :: atoms option).
     program_ran w ''pw.x'' (in_dir wd (pfx @ ''_scf.in'')) wd t job d \<and> job_finished job \<and> found RE_CONVERGED (j_stdout job)
     \<and> (let p = parse_scf (j_stdout job) in
        outs = [(''energy_ry'', PFloat (total_energy_ry p)), (''fermi_ev'', PFloat (fermi_energy_ev p)),
          (''n_iterations'', PInt (n_iterations p)),
          (''natoms'', case search_group 1 RE_NAT (j_stdout job) of Some g \<Rightarrow> PInt (num_int (Some g))
             | None \<Rightarrow> (case ats of Some a \<Rightarrow> PInt (int (length (at_symbols a))) | None \<Rightarrow> PNone)),
          (''stdout_file'', PStr (in_dir wd (pfx @ ''_scf.out'')))]))"

definition nscf_verified ::
  "'w qe_ops \<Rightarrow> string \<Rightarrow> string \<Rightarrow> pyval option \<Rightarrow> pyval pydict \<Rightarrow> 'w \<Rightarrow> pyval pydict \<Rightarrow> bool" where
  "nscf_verified w wd pfx t params d outs \<longleftrightarrow> (\<exists>job.
     program_ran w ''pw.x'' (in_dir wd (pfx @ ''_nscf.in'')) wd t job d \<and> job_finished job
     \<and> contains ''End of band structure calculation'' (j_stdout job)
     \<and> outs = [(''energy_ry'', PFloat (total_energy_ry (parse_scf (j_stdout job)))), (''nbnd_used'', get_or params ''nbnd'' PNone),
          (''stdout_file'', PStr (in_dir wd (pfx @ ''_nscf.out'')))])"

text \<open>The texts of the upstream stages that the parameters name, read when the post-processing node checks them.\<close>

definition stages_verified :: "'w qe_ops \<Rightarrow> pyval pydict \<Rightarrow> 'w \<Rightarrow> bool" where
  "stages_verified w params d \<longleftrightarrow>
     passed (verify_scf (read_stdout w (get_or params ''scf_stdout'' PNone) d))
     \<and> passed (verify_nscf (read_stdout w (get_or params ''nscf_stdout'' PNone) d))"

definition bands_verified ::
  "'w qe_ops \<Rightarrow> string \<Rightarrow> string \<Rightarrow> pyval option \<Rightarrow> pyval pydict \<Rightarrow> 'w \<Rightarrow> pyval pydict \<Rightarrow> bool" where
  "bands_verified w wd pfx t params d outs \<longleftrightarrow> (\<exists>job xml.
     program_ran w ''bands.x'' (in_dir wd (pfx @ ''_bands.in'')) wd t job d \<and> j_success job \<and> stages_verified w params d
     \<and> locate_bands_xml w wd pfx d = Some xml \<and> w_exists w d xml
     \<and> (let b = bands_of_file (w_xml w d xml) in pb_n_bands b \<noteq> 0
        \<and> take 5 outs = [(''n_bands'', PInt (pb_n_bands b)), (''n_kpoints'', PInt (pb_n_kpoints b)),
             (''band_gap_ev'', PFloat (pb_gap_ev b)), (''is_metal'', PBool (pb_is_metal b)),
             (''fermi_ev'', PFloat (pb_fermi_ev b))]
        \<and> dget outs ''eigenvalues_ev'' = map_option (\<lambda>rows. PList (map (rounded 4) rows)) (pb_eigenvalues b)))"

definition dos_verified ::
  "'w qe_ops \<Rightarrow> string \<Rightarrow> string \<Rightarrow> pyval option \<Rightarrow> pyval pydict \<Rightarrow> 'w \<Rightarrow> pyval pydict \<Rightarrow> bool" where
  "dos_verified w wd pfx t params d outs \<longleftrightarrow> (\<exists>job f.
     program_ran w ''dos.x'' (in_dir wd (pfx @ ''_dos.in'')) wd t job d \<and> j_success job \<and> stages_verified w params d
     \<and> find_dos_file w wd pfx d = Some f
     \<and> (let p = parse_dos (w_np w) (Some (w_text w d f)) in dos_points p \<noteq> 0
        \<and> outs = [(''n_energy_points'', PInt (dos_points p)), (''dos_at_fermi'', PFloat (dos_at_fermi p)),
             (''fermi_ev'', case dos_fermi p of Some x \<Rightarrow> PFloat x | None \<Rightarrow> PNone)]
           @ (case (dos_energies p, dos_values p) of
                (Some es, Some ds) \<Rightarrow> [(''dos_curve'', PDict [(''energies_ev'', rounded 4 es), (''dos'', rounded 3 ds)])]
              | _ \<Rightarrow> [])))"

definition pdos_recovered :: "'w qe_ops \<Rightarrow> string \<Rightarrow> string \<Rightarrow> pyval option \<Rightarrow> 'w \<Rightarrow> pyval pydict \<Rightarrow> bool" where
  "pdos_recovered w wd pfx t d outs \<longleftrightarrow> (\<exists>job p dens.
     program_ran w ''projwfc.x'' (in_dir wd (pfx @ ''_pdos.in'')) wd t job d \<and> job_finished job
     \<and> parse_pdos (w_np w) (w_pdos w d wd pfx) = Inr p \<and> pdos_elements p = Some dens \<and> dens \<noteq> []
     \<and> take 3 outs = [(''n_energy_points'', PInt (pdos_points p)), (''elements'', strs (sort (dkeys dens))),
          (''fermi_ev'', if pf_true (pdos_fermi p) then PFloat (pdos_fermi p) else PNone)]
     \<and> dget outs ''pdos_curve'' = Some (PDict
          [(''energies_ev'', rounded 4 (case pdos_energies p of Some es \<Rightarrow> es | None \<Rightarrow> [])),
           (''element_dos'', PDict (map (\<lambda>el. (el, rounded 3 (case dget dens el of Some xs \<Rightarrow> xs | None \<Rightarrow> []))) (sort (dkeys dens))))]))"

lemma add_final_Inr:
  assumes "add_final_structure w cif stdout outputs st = (Inr outs, st')"
  shows "\<exists>rest. outs = outputs @ rest \<and> (case extract_final_structure stdout of
          Inl _ \<Rightarrow> False | Inr None \<Rightarrow> rest = []
        | Inr (Some f) \<Rightarrow> rest = [(''final_structure_cif'', PStr cif),
            (case w_analyze w f of Inr a \<Rightarrow> (''analysis'', a) | Inl e \<Rightarrow> (''analysis_error'', PStr (exc_text e)))])"
  using assms
  by (cases "extract_final_structure stdout")
    (auto simp: add_final_structure_def andThen_Inr py_Inr basic_Inr split: option.splits)

lemma vc_relax_Inr:
  assumes "run_vc_relax w material pfx params wd ats t st = (Inr outs, st')"
  shows "vc_verified w wd pfx t outs"
proof -
  let ?xml = "in_dir wd (pfx @ ''.xml'')"
  from assms obtain job st1 st2 p where
      run: "run_pw_step w (in_dir wd ((pfx @ ''_vcrelax'') @ ''.in'')) wd t st1 = (Inr job, st2)"
    and p: "parse_vc_relax (j_stdout job) (if w_exists w (es_disk st2) ?xml then w_xml w (es_disk st2) ?xml else None) = Inr p"
    and report: "\<exists>report. vc_report job ?xml (if w_exists w (es_disk st2) ?xml then w_xml w (es_disk st2) ?xml else None)
         (w_exists w (es_disk st2) ?xml) p = Inr report \<and> passed report"
    and outs: "add_final_structure w (in_dir wd (pfx @ ''_relaxed.cif'')) (j_stdout job)
         (vc_outputs p (out_file wd (pfx @ ''_vcrelax''))) st2 = (Inr outs, st')"
    unfolding run_vc_relax_def Let_def ask_bind prod.case andThen_Inr basic_Inr py_Inr need_report_Inr by blast
  from run have "program_ran w ''pw.x'' (in_dir wd (pfx @ ''_vcrelax.in'')) wd t job (es_disk st2)" "job_finished job"
    by (auto simp: run_pw_step_def run_program_Inr program_ran_def)
  moreover from report this(2) have "passed (verify_parsed default_verifier \<lparr>vi_stdout = j_stdout job, vi_stderr = [],
      vi_xml_path = (if w_exists w (es_disk st2) ?xml then Some ?xml else None), vi_job_success = True, vi_metadata = []\<rparr> p)"
    by (auto simp: vc_report_def verify_t1_def job_finished_def)
  moreover from add_final_Inr [OF outs] obtain rest where "outs = vc_outputs p (out_file wd (pfx @ ''_vcrelax'')) @ rest"
    and "case extract_final_structure (j_stdout job) of
          Inl _ \<Rightarrow> False | Inr None \<Rightarrow> rest = []
        | Inr (Some f) \<Rightarrow> rest = [(''final_structure_cif'', PStr (in_dir wd (pfx @ ''_relaxed.cif''))),
            (case w_analyze w f of Inr a \<Rightarrow> (''analysis'', a) | Inl e \<Rightarrow> (''analysis_error'', PStr (exc_text e)))]"
    by blast
  moreover have "vc_outputs p (out_file wd (pfx @ ''_vcrelax'')) =
      [(''energy_ry'', PFloat (final_energy_ry p)), (''max_force_ry_bohr'', PFloat (max_force_ry_bohr p)),
       (''pressure_kbar'', PFloat (pressure_kbar p)), (''n_iterations'', PInt (vc_n_iterations p)),
       (''a_angstrom'', case vc_cell p of Some c \<Rightarrow> PFloat (pf_mul (a_bohr c) (Fin BOHR_TO_ANG)) | None \<Rightarrow> PNone),
       (''volume_a3'', case vc_cell p of Some c \<Rightarrow> PFloat (pf_mul (volume_bohr3 c) (Fin (BOHR_TO_ANG ^ 3))) | None \<Rightarrow> PNone),
       (''stdout_file'', PStr (in_dir wd (pfx @ ''_vcrelax.out'')))]"
    by (simp add: vc_outputs_def opt_float_def out_file_def split: option.split)
  ultimately show ?thesis
    using p unfolding vc_verified_def Let_def by (intro exI [of _ job] exI [of _ "es_disk st2"] exI [of _ p] exI [of _ rest]) simp
qed

lemma scf_Inr:
  assumes "run_scf w material pfx params wd ats t st = (Inr outs, st')"
  shows "\<exists>job d. w_run w ''pw.x'' (in_dir wd ((pfx @ ''_scf'') @ ''.in'')) wd t d = (Inr job, es_disk st') \<and> job_finished job
     \<and> passed (verify_scf (j_stdout job)) \<and> dget outs ''stdout_file'' = Some (PStr (out_file wd (pfx @ ''_scf'')))
     \<and> scf_verified w wd pfx t (es_disk st') outs"
proof -
  obtain job d where job: "w_run w ''pw.x'' (in_dir wd ((pfx @ ''_scf'') @ ''.in'')) wd t d = (Inr job, es_disk st')"
      "job_finished job" "passed (verify_scf (j_stdout job))"
    and outs: "outs = [(''energy_ry'', PFloat (total_energy_ry (parse_scf (j_stdout job)))),
       (''fermi_ev'', PFloat (fermi_energy_ev (parse_scf (j_stdout job)))),
       (''n_iterations'', PInt (n_iterations (parse_scf (j_stdout job)))), (''natoms'', scf_natoms (j_stdout job) ats),
       (''stdout_file'', PStr (out_file wd (pfx @ ''_scf'')))]"
    using assms by (auto simp: run_scf_def Let_def step_Inr run_pw_step_def)
  moreover from job have "scf_verified w wd pfx t (es_disk st') outs"
    unfolding scf_verified_def outs
    by (intro exI [of _ job] exI [of _ ats]) (auto simp: program_ran_def scf_passed scf_natoms_def out_file_def Let_def)
  ultimately show ?thesis by (auto simp: dget_def)
qed

lemma nscf_Inr:
  assumes "run_nscf w material pfx params wd ats t st = (Inr outs, st')"
  shows "\<exists>job d. w_run w ''pw.x'' (in_dir wd ((pfx @ ''_nscf'') @ ''.in'')) wd t d = (Inr job, es_disk st') \<and> job_finished job
     \<and> passed (verify_nscf (j_stdout job)) \<and> dget outs ''stdout_file'' = Some (PStr (out_file wd (pfx @ ''_nscf'')))
     \<and> nscf_verified w wd pfx t params (es_disk st') outs"
proof -
  obtain job d where job: "w_run w ''pw.x'' (in_dir wd ((pfx @ ''_nscf'') @ ''.in'')) wd t d = (Inr job, es_disk st')"
      "job_finished job" "passed (verify_nscf (j_stdout job))"
    and outs: "outs = [(''energy_ry'', PFloat (total_energy_ry (parse_scf (j_stdout job)))), (''nbnd_used'', get_or params ''nbnd'' PNone),
       (''stdout_file'', PStr (out_file wd (pfx @ ''_nscf'')))]"
    using assms by (auto simp: run_nscf_def Let_def step_Inr run_pw_step_def)
  moreover from job have "nscf_verified w wd pfx t params (es_disk st') outs"
    unfolding nscf_verified_def outs
    by (intro exI [of _ job]) (auto simp: program_ran_def nscf_passed out_file_def)
  ultimately show ?thesis by (auto simp: dget_def)
qed

lemma check_bands_Inr:
  assumes "check_bands w material pfx params wd ats job st = (Inr outs, st')"
  shows "st' = st \<and> (\<exists>xml. locate_bands_xml w wd pfx (es_disk st) = Some xml
     \<and> passed (verify_t2_bands (read_stdout w (get_or params ''scf_stdout'' PNone) (es_disk st))
          (read_stdout w (get_or params ''nscf_stdout'' PNone) (es_disk st)) xml (Some (bands_of_file (w_xml w (es_disk st) xml))))
     \<and> outs = bands_outputs w material ats params (bands_of_file (w_xml w (es_disk st) xml)))"
  using assms
  by (auto simp: check_bands_def ask_bind andThen_Inr basic_Inr need_report_Inr stage_outputs_def split: option.splits prod.splits)

lemma check_dos_Inr:
  assumes "check_dos w pfx params wd job st = (Inr outs, st')"
  shows "st' = st \<and> (\<exists>f. find_dos_file w wd pfx (es_disk st) = Some f
     \<and> passed (verify_t2_dos (read_stdout w (get_or params ''scf_stdout'' PNone) (es_disk st))
          (read_stdout w (get_or params ''nscf_stdout'' PNone) (es_disk st)) f
          (Some (dos_facts (parse_dos (w_np w) (Some (w_text w (es_disk st) f))))))
     \<and> outs = dos_outputs (parse_dos (w_np w) (Some (w_text w (es_disk st) f))))"
  using assms
  by (auto simp: check_dos_def ask_bind andThen_Inr basic_Inr need_report_Inr stage_outputs_def split: option.splits prod.splits)

lemma check_pdos_Inr:
  assumes "check_pdos w pfx wd job st = (Inr outs, st')"
  shows "st' = st \<and> (\<exists>p dens. parse_pdos (w_np w) (w_pdos w (es_disk st) wd pfx) = Inr p \<and> pdos_elements p = Some dens
     \<and> dens \<noteq> [] \<and> outs = pdos_outputs p dens)"
proof -
  from assms obtain p where p: "parse_pdos (w_np w) (w_pdos w (es_disk st) wd pfx) = Inr p"
    and rest: "(case pdos_elements p of Some (d # ds) \<Rightarrow> ret (pdos_outputs p (d # ds))
      | _ \<Rightarrow> throw (tool_error_of ''pdos parse failed: no element-resolved projections recovered'' ''tool_failure'' False)) st = (Inr outs, st')"
    unfolding check_pdos_def ask_bind andThen_Inr py_Inr by (auto simp: basic_Inr andThen_Inr py_Inr split: if_splits)
  from rest p show ?thesis
    by (cases "pdos_elements p"; cases "the (pdos_elements p)"; auto simp: basic_Inr)
qed

lemma plot_axis_keys: "dget (plot_axis w material ats params) ''eigenvalues_ev'' = None"
  by (auto simp: plot_axis_def dget_def split: sum.splits prod.splits)

lemma dget_append: "dget (d @ e) k = (case dget d k of Some v \<Rightarrow> Some v | None \<Rightarrow> dget e k)"
  unfolding dget_def by (induction d) auto

lemma dget_empty_keys: "dget [] k = None" "dget ((j, v) # d) k = (if k = j then Some v else dget d k)"
  unfolding dget_def by auto

lemma bands_outputs_fields:
  "take 5 (bands_outputs w material ats params b) =
     [(''n_bands'', PInt (pb_n_bands b)), (''n_kpoints'', PInt (pb_n_kpoints b)),
      (''band_gap_ev'', PFloat (pb_gap_ev b)), (''is_metal'', PBool (pb_is_metal b)), (''fermi_ev'', PFloat (pb_fermi_ev b))]"
  "dget (bands_outputs w material ats params b) ''eigenvalues_ev'' =
     map_option (\<lambda>rows. PList (map (rounded 4) rows)) (pb_eigenvalues b)"
  by (simp_all add: bands_outputs_def)
    (simp_all add: dget_append plot_axis_keys dget_empty_keys split: option.split)

lemma find_SomeD: "find P xs = Some x \<Longrightarrow> P x \<and> x \<in> set xs"
  by (induction xs) (auto split: if_splits)

lemma bands_Inr:
  assumes "run_bands w material pfx params wd ats t st = (Inr outs, st')"
  shows "bands_verified w wd pfx t params (es_disk st') outs"
proof -
  from assms obtain job st1 st2 where r: "run_tool w ''bands.x'' (in_dir wd (pfx @ ''_bands.in'')) wd t st1 = (Inr job, st2)"
    and c: "check_bands w material pfx params wd ats job st2 = (Inr outs, st')"
    unfolding run_bands_def Let_def andThen_Inr by blast
  from check_bands_Inr [OF c] obtain xml where x: "st' = st2" "locate_bands_xml w wd pfx (es_disk st2) = Some xml"
    "passed (verify_t2_bands (read_stdout w (get_or params ''scf_stdout'' PNone) (es_disk st2))
        (read_stdout w (get_or params ''nscf_stdout'' PNone) (es_disk st2)) xml (Some (bands_of_file (w_xml w (es_disk st2) xml))))"
    "outs = bands_outputs w material ats params (bands_of_file (w_xml w (es_disk st2) xml))" by blast
  moreover have "w_exists w (es_disk st2) xml"
    using x(2) find_SomeD unfolding locate_bands_xml_def by fast
  ultimately show ?thesis
    using r unfolding bands_verified_def
    by (intro exI [of _ job] exI [of _ xml])
      (auto simp: run_tool_Inr program_ran_def stages_verified_def t2_passed Let_def bands_outputs_fields)
qed

lemma dos_Inr:
  assumes "run_dos w material pfx params wd ats t st = (Inr outs, st')"
  shows "dos_verified w wd pfx t params (es_disk st') outs"
proof -
  from assms obtain job st1 st2 where r: "run_tool w ''dos.x'' (in_dir wd (pfx @ ''_dos.in'')) wd t st1 = (Inr job, st2)"
    and c: "check_dos w pfx params wd job st2 = (Inr outs, st')"
    unfolding run_dos_def Let_def split_def andThen_Inr by blast
  from check_dos_Inr [OF c] obtain f where "st' = st2" "find_dos_file w wd pfx (es_disk st2) = Some f"
    "passed (verify_t2_dos (read_stdout w (get_or params ''scf_stdout'' PNone) (es_disk st2))
        (read_stdout w (get_or params ''nscf_stdout'' PNone) (es_disk st2)) f
        (Some (dos_facts (parse_dos (w_np w) (Some (w_text w (es_disk st2) f))))))"
    "outs = dos_outputs (parse_dos (w_np w) (Some (w_text w (es_disk st2) f)))" by blast
  with r show ?thesis unfolding dos_verified_def
    by (intro exI [of _ job] exI [of _ f])
      (auto simp: run_tool_Inr program_ran_def stages_verified_def t2_passed Let_def dos_outputs_def dos_facts_def opt_float_def
        split: option.split)
qed

lemma pdos_Inr:
  assumes "run_pdos w material pfx params wd ats t st = (Inr outs, st')"
  shows "pdos_recovered w wd pfx t (es_disk st') outs"
proof -
  from assms obtain job st1 st2 where r: "run_projwfc w (in_dir wd (pfx @ ''_pdos.in'')) wd t st1 = (Inr job, st2)"
    and c: "check_pdos w pfx wd job st2 = (Inr outs, st')"
    unfolding run_pdos_def Let_def split_def andThen_Inr by blast
  from check_pdos_Inr [OF c] obtain p dens where "st' = st2" "parse_pdos (w_np w) (w_pdos w (es_disk st2) wd pfx) = Inr p"
    "pdos_elements p = Some dens" "dens \<noteq> []" "outs = pdos_outputs p dens" by blast
  with r show ?thesis unfolding pdos_recovered_def
    by (intro exI [of _ job] exI [of _ p] exI [of _ dens])
      (auto simp: run_projwfc_def run_program_Inr program_ran_def pdos_outputs_def dget_def)
qed

lemma link_upstream_Inr:
  assumes "link_upstream w base deps wd pfx st = (Inr u, st')"
  shows "\<exists>dep \<in> set deps. w_exists w (es_disk st) (in_dir (in_dir base dep) (save_of pfx))"
proof -
  from assms obtain d where "find (\<lambda>d. w_exists w (es_disk st) (in_dir (in_dir base d) (save_of pfx))) (preferred deps) = Some d"
    by (auto simp: link_upstream_def Let_def link_upstream_save_def basic_Inr split: option.splits)
  from find_SomeD [OF this] show ?thesis by (auto simp: preferred_def)
qed

section \<open>Properties\<close>

text \<open>
  C4. A node's outputs are those of a verified calculation. Whenever the tool returns outputs, its kind of calculation is
  one of the six; the program was run on the node's input file, in the node's directory and with its time limit, and
  succeeded; the parsed output passed the verifier (a relaxation all checks of its report, a self-consistent run the
  convergence line, a band structure or a density of states both upstream stages and data in the file); and the outputs
  are the numbers parsed from that run's text or file, with the path of its stdout (of a band structure the plot axis
  apart). A projected density has no verifier report: there the parse must have recovered at least one element. The four
  kinds that reuse wavefunctions found those of a dependency.
\<close>

theorem node_success_verified:
  assumes "qe_execute w cx nid params st = (Inr outs, st')"
  defines "wd \<equiv> in_dir (cx_base cx) nid" and "t \<equiv> cx_timeout cx" and "c \<equiv> calc_of params"
  shows "c \<in> {''vc-relax'', ''scf'', ''nscf'', ''bands'', ''dos'', ''pdos''}
     \<and> (\<exists>material pfx. pfx = prefix_param params material
         \<and> (c = ''vc-relax'' \<longrightarrow> vc_verified w wd pfx t outs)
         \<and> (c = ''scf'' \<longrightarrow> scf_verified w wd pfx t (es_disk st') outs)
         \<and> (c = ''nscf'' \<longrightarrow> nscf_verified w wd pfx t params (es_disk st') outs)
         \<and> (c = ''bands'' \<longrightarrow> bands_verified w wd pfx t params (es_disk st') outs)
         \<and> (c = ''dos'' \<longrightarrow> dos_verified w wd pfx t params (es_disk st') outs)
         \<and> (c = ''pdos'' \<longrightarrow> pdos_recovered w wd pfx t (es_disk st') outs)
         \<and> (c \<in> {''nscf'', ''bands'', ''dos'', ''pdos''} \<longrightarrow> (\<exists>dep \<in> set (cx_upstream cx). \<exists>d.
              w_exists w d (in_dir (in_dir (cx_base cx) dep) (pfx @ ''.save'')))))"
proof -
  obtain material ats pfx st1 st2 where pfx: "pfx = prefix_param params material" and
      link: "(if c \<in> set NEEDS_SAVE then link_upstream w (cx_base cx) (cx_upstream cx) wd pfx else ret ()) st1 = (Inr (), st2)"
    and calc: "calculation w c material pfx params wd ats t st2 = (Inr outs, st')"
    using assms(1) [unfolded qe_execute_def Let_def, folded wd_def t_def c_def] by (auto simp: andThen_Inr)
  have save: "c \<in> {''nscf'', ''bands'', ''dos'', ''pdos''} \<longrightarrow> (\<exists>dep \<in> set (cx_upstream cx). \<exists>d.
      w_exists w d (in_dir (in_dir (cx_base cx) dep) (pfx @ ''.save'')))"
    using link link_upstream_Inr [of w "cx_base cx" "cx_upstream cx" wd pfx st1]
    by (auto simp: NEEDS_SAVE_def save_of_def split: if_splits)
  note calc' = calc [unfolded calculation_def]
  have six: "c \<in> {''vc-relax'', ''scf'', ''nscf'', ''bands'', ''dos'', ''pdos''}"
  proof (rule ccontr)
    assume "\<not> ?thesis"
    with calc' show False by (simp add: basic_Inr)
  qed
  have vc_ok: "c = ''vc-relax'' \<longrightarrow> vc_verified w wd pfx t outs"
    by (rule impI, rule vc_relax_Inr [of w material pfx params wd ats t st2 outs st'], use calc' in simp)
  have scf_ok: "c = ''scf'' \<longrightarrow> scf_verified w wd pfx t (es_disk st') outs"
    by (rule impI, use calc' scf_Inr [of w material pfx params wd ats t st2 outs st'] in fastforce)
  have nscf_ok: "c = ''nscf'' \<longrightarrow> nscf_verified w wd pfx t params (es_disk st') outs"
    by (rule impI, use calc' nscf_Inr [of w material pfx params wd ats t st2 outs st'] in fastforce)
  have bands_ok: "c = ''bands'' \<longrightarrow> bands_verified w wd pfx t params (es_disk st') outs"
    by (rule impI, rule bands_Inr [of w material pfx params wd ats t st2 outs st'], use calc' in simp)
  have dos_ok: "c = ''dos'' \<longrightarrow> dos_verified w wd pfx t params (es_disk st') outs"
    by (rule impI, rule dos_Inr [of w material pfx params wd ats t st2 outs st'], use calc' in simp)
  have pdos_ok: "c = ''pdos'' \<longrightarrow> pdos_recovered w wd pfx t (es_disk st') outs"
    by (rule impI, rule pdos_Inr [of w material pfx params wd ats t st2 outs st'], use calc' in simp)
  show ?thesis
    by (intro conjI exI [of _ material] exI [of _ pfx] six pfx vc_ok scf_ok nscf_ok bands_ok dos_ok pdos_ok save)
qed

section \<open>Steps that fail\<close>

text \<open>Every tool error a step can end with meets a condition; one rule per way of building a step.\<close>

definition raises :: "(tool_error \<Rightarrow> bool) \<Rightarrow> ('w, 'a) step \<Rightarrow> bool" where
  "raises S m \<longleftrightarrow> (\<forall>st e st'. m st = (Inl (Tool e), st') \<longrightarrow> S e)"

named_theorems raises_rules \<open>tool errors of a step, by its form\<close>

lemma raises_andThen [raises_rules]: "raises S m \<Longrightarrow> (\<And>a. raises S (f a)) \<Longrightarrow> raises S (andThen m f)"
  unfolding raises_def andThen_Inl by blast

lemma raises_plain [raises_rules]:
  "raises S (ret a)" "raises S (py r)" "raises S (ask g)" "raises S (change h)" "raises S (call_out k)" "S e \<Longrightarrow> raises S (throw e)"
  by (auto simp: raises_def step_simps py_Tool call_out_def split: prod.splits sum.splits)

lemma raises_cases [raises_rules]:
  "raises S m \<Longrightarrow> raises S m' \<Longrightarrow> raises S (if b then m else m')"
  "raises S m \<Longrightarrow> (\<And>x. raises S (f x)) \<Longrightarrow> raises S (case z of None \<Rightarrow> m | Some x \<Rightarrow> f x)"
  "(\<And>x y. raises S (g x y)) \<Longrightarrow> raises S (case pair of (x, y) \<Rightarrow> g x y)"
  "raises S m \<Longrightarrow> (\<And>x xs. raises S (g' x xs)) \<Longrightarrow> raises S (case l of [] \<Rightarrow> m | x # xs \<Rightarrow> g' x xs)"
  by (auto split: option.split prod.split list.split)

lemma raises_emit [raises_rules]: "raises S (emit w file content)"
  unfolding emit_def by (intro raises_rules)

lemma raises_emit_scf [raises_rules]: "raises S (emit_scf w file material pfx so ats)"
proof -
  have "raises S (emit w file content)" for content by (rule raises_emit)
  then show ?thesis unfolding raises_def emit_scf_def Let_def by (metis (no_types, lifting) split_def)
qed

text \<open>The categories, and which of them say that they can be repaired.\<close>

definition CATEGORIES :: "string list" where
  "CATEGORIES = [''config'', ''missing_upstream'', ''execution'', ''tool_failure'', ''verification'', ''scf_not_converged'']"

definition sorted_error :: "tool_error \<Rightarrow> bool" where
  "sorted_error e \<longleftrightarrow> te_category e \<in> set CATEGORIES
     \<and> (te_category e \<in> set REPAIRABLE_CATEGORIES \<longrightarrow> te_repairable e)
     \<and> (te_repairable e \<longrightarrow> te_category e \<in> set REPAIRABLE_CATEGORIES \<or> te_category e = ''tool_failure'')"

lemma sorted_simp: "sorted_error (tool_error_of msg cat rep) \<longleftrightarrow> cat \<in> set CATEGORIES
     \<and> (cat \<in> set REPAIRABLE_CATEGORIES \<longrightarrow> rep) \<and> (rep \<longrightarrow> cat \<in> set REPAIRABLE_CATEGORIES \<or> cat = ''tool_failure'')"
  by (simp add: sorted_error_def tool_error_of_def)

lemma sorted_steps [raises_rules]:
  "cat \<in> {''execution'', ''verification'', ''scf_not_converged'', ''tool_failure''} \<Longrightarrow> raises sorted_error (need_report r what cat)"
  "cat \<in> {''execution'', ''verification'', ''scf_not_converged'', ''tool_failure''} \<Longrightarrow> raises sorted_error (run_program w p cat i wd t)"
  "raises sorted_error (run_tool w p i wd t)" "raises sorted_error (link_upstream w base deps wd pfx)"
  by (auto simp: need_report_def run_program_def run_tool_def pw_error_def sorted_simp CATEGORIES_def REPAIRABLE_CATEGORIES_def
      intro!: raises_rules)
    (auto simp: raises_def link_upstream_def link_upstream_save_def Let_def step_simps sorted_error_def CATEGORIES_def
      REPAIRABLE_CATEGORIES_def split: option.splits save_entry.splits if_splits)

lemma sorted_throw [raises_rules]:
  "cat \<in> {''config'', ''tool_failure''} \<Longrightarrow> raises sorted_error (throw (tool_error_of msg cat False))"
  by (rule raises_plain) (auto simp: sorted_simp CATEGORIES_def REPAIRABLE_CATEGORIES_def)

lemma sorted_post [raises_rules]:
  "raises sorted_error (check_bands w material pfx params wd ats job)"
  "raises sorted_error (check_dos w pfx params wd job)" "raises sorted_error (check_pdos w pfx wd job)"
  unfolding check_bands_def check_dos_def check_pdos_def by (intro raises_rules; simp)+

lemma sorted_runs [raises_rules]:
  "raises sorted_error (run_vc_relax w material pfx params wd ats t)"
  "raises sorted_error (run_scf w material pfx params wd ats t)" "raises sorted_error (run_nscf w material pfx params wd ats t)"
  "raises sorted_error (run_bands w material pfx params wd ats t)" "raises sorted_error (run_dos w material pfx params wd ats t)"
  "raises sorted_error (run_pdos w material pfx params wd ats t)"
  unfolding run_vc_relax_def run_scf_def run_nscf_def run_bands_def run_dos_def run_pdos_def add_final_structure_def
    run_pw_step_def run_projwfc_def Let_def
  by (intro raises_rules; simp)+

lemma sorted_choose [raises_rules]: "raises sorted_error (choose_structure w params)"
  unfolding choose_structure_def load_structure_def Let_def by (intro raises_rules; simp)

lemma execute_sorted: "raises sorted_error (qe_execute w cx nid params)"
  unfolding qe_execute_def calculation_def Let_def by (intro raises_rules; simp)

text \<open>
  C6. Failures are sorted. Every error the tool raises has one of six categories; one that the repair handler looks at is
  marked as repairable, and one of any other category is declined by the handler, which leaves the node's parameters
  alone, even where the tool marks it as repairable (a post-processing program that fails).
\<close>

theorem failures_sorted:
  assumes "qe_tool w cx node st = (ToolRaised e, st')"
  shows "te_category e \<in> set CATEGORIES
     \<and> (te_category e \<in> set REPAIRABLE_CATEGORIES \<longrightarrow> te_repairable e)
     \<and> (te_category e \<notin> set REPAIRABLE_CATEGORIES \<longrightarrow>
          fst (qe_repair node e) = nr_params node \<and> snd (snd (qe_repair node e)) = Repaired False)"
proof -
  from assms have "qe_execute w cx (nr_node_id node) (nr_params node) st = (Inl (Tool e), st')"
    by (auto simp: qe_tool_def qe_outcome_def split: prod.splits sum.splits qe_exc.splits)
  with execute_sorted have "sorted_error e" unfolding raises_def by blast
  then show ?thesis by (auto simp: sorted_error_def qe_repair_def repair_plan_def Let_def)
qed

end
