(* ===== verification/Qe_Stages.thy ===== *)
theory Qe_Stages
  imports Qe_Props Compiler_Props
begin

text \<open>
  Composition of nodes: the output file of a succeeded stage is what the post-processing nodes read. What this needs
  of an executor is the locale \<open>output_files\<close>; the local executor's model on a disk of texts provides it.
\<close>

section \<open>The contract of an executor\<close>


























section \<open>The local executor as provider\<close>

text \<open>A disk of texts by path, and the processes by program and input.\<close>

definition text_disk :: "string pydict disk_ops" where
  "text_disk = \<lparr>k_exists = (\<lambda>d p. dmem p d), k_write = (\<lambda>d p s. dput p s d),
     k_files = (\<lambda>d dir. filter (\<lambda>p. parent_dir p = dir) (dkeys d)), k_elapsed = Fin 0\<rparr>"

definition local_qe :: "local_exec \<Rightarrow> (string \<Rightarrow> string \<Rightarrow> proc) \<Rightarrow> string pydict qe_ops \<Rightarrow> string pydict qe_ops" where
  "local_qe le procs ops = ops\<lparr>w_exists := (\<lambda>d p. dmem p d), w_text := (\<lambda>d p. case dget d p of Some s \<Rightarrow> s | None \<Rightarrow> []),
     w_write := (\<lambda>d p s. dput p s d),
     w_run := (\<lambda>program input_file workdir timeout d.
       let p = procs program input_file;
           (res, d') = (if program = ''pw.x'' then run_pw_local text_disk le p input_file workdir timeout d
                        else local_run_tool text_disk le p program input_file workdir timeout d)
       in (Inr res, d'))\<rparr>"









section \<open>A concrete pair of nodes\<close>

definition scf_text :: string where
  "scf_text = ''convergence has been achieved in 6 iterations, JOB DONE.''"

definition demo_procs :: "string \<Rightarrow> string \<Rightarrow> proc" where
  "demo_procs program input_file = Exited 0 (if ends_with ''_scf.in'' input_file then scf_text else nscf_stdout) []"

definition demo_qe :: "string pydict qe_ops" where
  "demo_qe = local_qe \<lparr>le_bin = ''/q'', le_walltime = PInt 600, le_workdir = None\<rparr> demo_procs
     \<lparr>w_exists = (\<lambda>d p. True), w_text = (\<lambda>d p. []), w_write = (\<lambda>d p s. d), w_mkdir = (\<lambda>d p. d), w_glob = (\<lambda>d p q. []),
      w_xml = (\<lambda>d p. None), w_structure = (\<lambda>d p. None), w_entry = (\<lambda>d p. Absent), w_link = (\<lambda>d t p. dput t [] d),
      w_pdos = (\<lambda>d p q. \<lparr>pp_atm = [], pp_xmls = [], pp_outs = []\<rparr>), w_run = (\<lambda>_ _ _ _ d. (Inl IndexError, d)), w_ase = demo_ase,
      w_pseudos = demo_pd, w_np = \<lparr>np_table = (\<lambda>_. None), np_interp = (\<lambda>x _ _. x)\<rparr>, w_write_cif = (\<lambda>_ _ d. (Inr (), d)),
      w_analyze = (\<lambda>_. Inl IndexError), w_axis = (\<lambda>_ _ _. Inl IndexError)\<rparr>"

definition demo_disk :: "string pydict" where
  "demo_disk = [(''/q/pw.x'', []), (''/w/a/mgo.save'', [])]"

definition demo_cx :: qe_context where
  "demo_cx = \<lparr>cx_base = ''/w'', cx_upstream = [''a''], cx_timeout = None\<rparr>"

definition stage_params :: "string \<Rightarrow> pyval pydict" where
  "stage_params calc = [(''calc'', PStr calc), (''material'', PStr ''MgO''), (''nbnd'', PInt 16), (''kmode'', PStr ''uniform'')]"

lemma mgo_compiles:
  assumes "s_nbnd so = Some n" "s_kpoints so \<in> {None, Some [8, 8, 8, 1, 1, 1]}"
  shows "\<exists>s. compile_scf lib demo_pd ''MgO'' pg so None cache = (Inr s, cache)"
proof -
  define p where "p = qe_builtin 2 [''Mg'', ''O''] [24305 / 1000, 15999 / 1000] [(''Mg'', ''Mg.pz-n-vbc.UPF''), (''O'', ''O-q6.gth'')]
        (1 / 100) 40 320 [4, 4, 4, 1, 1, 1] False (Some ''pz'')"
  define cr where "cr = crystal [''Mg'', ''O''] [(0, 0, 0), half] (fcc_cell (421 / 100))"
  define al where "al = 421 / 100 * BOHR_PER_ANG"
  have d: "dget MATERIAL_DB ''MgO'' = Some (Builtin p (421 / 100))"
    unfolding builtin_dget [of "''MgO''", simplified] by (simp add: MATERIAL_BUILTIN_def dget_def p_def)
  then have r: "resolve_material lib demo_pd ''MgO'' None = Inr (p, cr, al)"
    by (simp add: resolve_material_def build_atoms_def bindr_def cr_def al_def)
  have ps: "pseudos_present demo_pd (q_pseudos p) = Inr ()"
    by (simp add: p_def qe_builtin_def pseudos_present_def check_pseudos_def demo_pd_def)
  obtain cl where cards: "card_lines p cr al = Inr cl"
    by (simp add: p_def cr_def card_lines_def species_lines_def qe_builtin_def crystal_def bindr_def dget_def)
  have "build_atoms lib ''MgO'' = Inr cr" by (simp add: build_atoms_def d cr_def bindr_def)
  then have "\<exists>ml. scf_points lib ''MgO'' so p None = Inr ml"
    using assms(2) by (auto simp: scf_points_def Let_def mesh_or_def p_def qe_builtin_def get_bandpath_kpoints_def)
  then obtain ml where points: "scf_points lib ''MgO'' so p None = Inr ml" by blast
  show ?thesis
    by (simp add: compile_scf_def r ps choose_nbnd_def assms(1) scf_lines_def cards points bindr_def)
qed

lemma demo_texts:
  "contains ''JOB DONE'' scf_text" "contains ''JOB DONE'' nscf_stdout" "contains ''job done'' (lower scf_text)"
  "contains ''job done'' (lower nscf_stdout)" "passed (verify_scf scf_text)"
  by (unfold scf_passed, code_simp+)

lemma demo_fields:
  "w_write demo_qe = (\<lambda>d p s. dput p s d)" "w_ase demo_qe = demo_ase" "w_pseudos demo_qe = demo_pd"
  by (simp_all add: demo_qe_def local_qe_def)

lemma dmem_dput: "dmem g (dput f s d) \<longleftrightarrow> g = f \<or> dmem g d"
  by (simp add: dmem_def pydict)

lemma demo_run:
  assumes "dmem f d" "dmem ''/q/pw.x'' d"
  shows "\<exists>job d'. w_run demo_qe ''pw.x'' f dir t d = (Inr job, d') \<and> job_finished job
     \<and> j_stdout job = (if ends_with ''_scf.in'' f then scf_text else nscf_stdout) \<and> (\<forall>g. dmem g d \<longrightarrow> dmem g d')"
  using assms demo_texts
  by (simp add: dmem_dput demo_qe_def local_qe_def demo_procs_def run_pw_local_def local_run_tool_def text_disk_def in_dir_def was_cancelled_def
      job_finished_def Let_def)

lemma demo_mkdir: "w_mkdir demo_qe d p = d"
  by (simp add: demo_qe_def local_qe_def)

lemma demo_link: "link_upstream demo_qe ''/w'' [''a''] ''/w/n'' ''mgo'' \<lparr>es_disk = demo_disk, es_cache = []\<rparr>
    = (Inr (), \<lparr>es_disk = dput ''/w/n/mgo.save'' [] demo_disk, es_cache = []\<rparr>)"
proof -
  have "w_exists demo_qe demo_disk ''/w/a/mgo.save''" "w_entry demo_qe demo_disk f = Absent" "w_link demo_qe demo_disk f g = dput f [] demo_disk"
    for f g by (simp_all add: demo_qe_def local_qe_def demo_disk_def dmem_def dget_def)
  moreover have "preferred [''a''] = [''a'']" by code_simp
  ultimately show ?thesis
    by (simp add: link_upstream_def link_upstream_save_def in_dir_def save_of_def Let_def change_def)
qed

lemma demo_pw:
  assumes "compile_scf demo_ase demo_pd ''MgO'' (Some ''mgo'') so None [] = (Inr s, [])" "dmem ''/q/pw.x'' d"
  shows "\<exists>job st1 st2. emit_scf demo_qe (in_dir ''/w/n'' f) ''MgO'' ''mgo'' so None \<lparr>es_disk = d, es_cache = []\<rparr> = (Inr (), st1)
     \<and> run_pw_step demo_qe (in_dir ''/w/n'' f) ''/w/n'' None st1 = (Inr job, st2)
     \<and> j_stdout job = (if ends_with ''_scf.in'' (in_dir ''/w/n'' f) then scf_text else nscf_stdout)"
proof -
  let ?d = "dput (in_dir ''/w/n'' f) s d"
  have "dmem (in_dir ''/w/n'' f) ?d" "dmem ''/q/pw.x'' ?d" using assms(2) by (simp_all add: dmem_def pydict)
  from demo_run [OF this] obtain job d' where "w_run demo_qe ''pw.x'' (in_dir ''/w/n'' f) ''/w/n'' None ?d = (Inr job, d')"
    "job_finished job" "j_stdout job = (if ends_with ''_scf.in'' (in_dir ''/w/n'' f) then scf_text else nscf_stdout)" by blast
  moreover have "emit_scf demo_qe (in_dir ''/w/n'' f) ''MgO'' ''mgo'' so None \<lparr>es_disk = d, es_cache = []\<rparr>
      = (Inr (), \<lparr>es_disk = ?d, es_cache = []\<rparr>)"
    by (simp add: emit_scf_def emit_def demo_fields assms(1) andThen_def py_def change_def)
  ultimately show ?thesis by (auto simp: run_pw_step_def run_program_Inr)
qed

lemma demo_stage:
  assumes "calc \<in> {''scf'', ''nscf''}"
  shows "\<exists>outs st'. qe_execute demo_qe demo_cx ''n'' (stage_params calc) \<lparr>es_disk = demo_disk, es_cache = []\<rparr> = (Inr outs, st')
     \<and> dget outs ''stdout_file'' = Some (PStr (out_file ''/w/n'' (''mgo_'' @ calc)))"
proof -
  have mat: "dmem ''MgO'' MATERIAL_DB"
    unfolding dmem_def builtin_dget [of "''MgO''", simplified] by (simp add: MATERIAL_BUILTIN_def dget_def)
  have params: "get_or (stage_params calc) ''structure'' PNone = PNone" "get_or (stage_params calc) ''material'' (PStr []) = PStr ''MgO''"
    "get_or (stage_params calc) ''calc'' (PStr ''scf'') = PStr calc" "get_or (stage_params calc) ''kpoints'' PNone = PNone"
    "get_or (stage_params calc) ''nbnd'' PNone = PInt 16" "get_or (stage_params calc) ''kmode'' (PStr ''path'') = PStr ''uniform''"
    "get_or (stage_params calc) ''ecutwfc'' PNone = PNone" "get_or (stage_params calc) ''ecutrho'' PNone = PNone"
    "get_or (stage_params calc) ''conv_thr'' PNone = PNone" "get_or (stage_params calc) ''nkpoints_bands'' PNone = PNone"
    "get_or (stage_params calc) ''prefix'' v = v" for v
    by (simp_all add: stage_params_def get_or_def dget_def)
  have pfx: "prefix_param (stage_params calc) ''MgO'' = ''mgo''"
  proof -
    have "slug ''MgO'' = ''mgo''" by code_simp
    then show ?thesis by (simp add: prefix_param_def params)
  qed
  have so: "scf_options_of (stage_params calc) = Inr (scf_defaults\<lparr>s_nbnd := Some 16\<rparr>)"
    by (simp add: scf_options_of_def mesh_param_def conv_param_def nbnd_param_def opt_param_def as_float_param_def params bindr_def
        scf_defaults_def)
  let ?d0 = "if calc = ''nscf'' then dput ''/w/n/mgo.save'' [] demo_disk else demo_disk"
  have chosen: "choose_structure demo_qe (stage_params calc) st = (Inr (''MgO'', None), st)" for st
    by (simp add: choose_structure_def params mat Let_def ret_def)
  have start: "qe_execute demo_qe demo_cx ''n'' (stage_params calc) \<lparr>es_disk = demo_disk, es_cache = []\<rparr>
      = calculation demo_qe calc ''MgO'' ''mgo'' (stage_params calc) ''/w/n'' None None \<lparr>es_disk = ?d0, es_cache = []\<rparr>"
    using assms
    by (auto simp: qe_execute_def calc_of_def params Let_def andThen_def chosen pfx change_def demo_cx_def in_dir_def demo_mkdir demo_link
        NEEDS_SAVE_def ret_def)
  have there: "dmem ''/q/pw.x'' ?d0" by (simp add: demo_disk_def dmem_iff dkeys_def dput_def)
  show ?thesis
  proof (cases "calc = ''scf''")
    case True
    have "\<exists>s. compile_scf demo_ase demo_pd ''MgO'' (Some ''mgo'') (scf_defaults\<lparr>s_nbnd := Some 16\<rparr>) None [] = (Inr s, [])"
      by (rule mgo_compiles) (simp_all add: scf_defaults_def)
    then obtain s where "compile_scf demo_ase demo_pd ''MgO'' (Some ''mgo'') (scf_defaults\<lparr>s_nbnd := Some 16\<rparr>) None [] = (Inr s, [])"
      by blast
    from demo_pw [OF this there, of "''mgo_scf'' @ ''.in''"] obtain job st1 st2 where emitted:
      "emit_scf demo_qe (in_dir ''/w/n'' (''mgo_scf'' @ ''.in'')) ''MgO'' ''mgo'' (scf_defaults\<lparr>s_nbnd := Some 16\<rparr>) None
         \<lparr>es_disk = ?d0, es_cache = []\<rparr> = (Inr (), st1)"
      and run: "run_pw_step demo_qe (in_dir ''/w/n'' (''mgo_scf'' @ ''.in'')) ''/w/n'' None st1 = (Inr job, st2)"
      and out: "j_stdout job = scf_text" by (auto simp: ends_with_def in_dir_def)
    have "need_report (verify_scf (j_stdout job)) ''scf'' ''scf_not_converged'' st2 = (Inr (), st2)"
      using demo_texts out by (simp add: need_report_Inr)
    with emitted run show ?thesis
      unfolding start by (simp add: calculation_def True run_scf_def Let_def andThen_def py_def so [unfolded True] ret_def dget_def)
  next
    case False
    with assms have calc: "calc = ''nscf''" by simp
    let ?so = "scf_defaults\<lparr>s_nbnd := Some 16, s_calculation := ''nscf'', s_nkpoints := 60, s_kmode := ''uniform''\<rparr>"
    have "\<exists>s. compile_scf demo_ase demo_pd ''MgO'' (Some ''mgo'') ?so None [] = (Inr s, [])"
      by (rule mgo_compiles) (simp_all add: scf_defaults_def)
    then obtain s where "compile_scf demo_ase demo_pd ''MgO'' (Some ''mgo'') ?so None [] = (Inr s, [])"
      by blast
    from demo_pw [OF this there, of "''mgo_nscf'' @ ''.in''"] obtain job st1 st2 where emitted:
      "emit_scf demo_qe (in_dir ''/w/n'' (''mgo_nscf'' @ ''.in'')) ''MgO'' ''mgo'' ?so None \<lparr>es_disk = ?d0, es_cache = []\<rparr> = (Inr (), st1)"
      and run: "run_pw_step demo_qe (in_dir ''/w/n'' (''mgo_nscf'' @ ''.in'')) ''/w/n'' None st1 = (Inr job, st2)"
      and out: "j_stdout job = nscf_stdout" by (auto simp: ends_with_def in_dir_def)
    have "need_report (verify_nscf (j_stdout job)) ''nscf'' ''scf_not_converged'' st2 = (Inr (), st2)"
      using nscf_good out by (simp add: need_report_Inr)
    moreover have "as_int_param (stage_params ''nscf'') ''nkpoints_bands'' 60 = Inr 60"
      using params calc by (simp add: as_int_param_def opt_param_def)
    ultimately show ?thesis
      using emitted run
      unfolding start
      by (simp add: calculation_def calc run_nscf_def Let_def andThen_def py_def ret_def so [unfolded calc] params [unfolded calc] dget_def)
  qed
qed

theorem node_success_verified_witness:
  "\<exists>outs st' job pfx. qe_execute demo_qe demo_cx ''n'' (stage_params ''scf'') \<lparr>es_disk = demo_disk, es_cache = []\<rparr> = (Inr outs, st')
     \<and> program_ran demo_qe ''pw.x'' (in_dir ''/w/n'' (pfx @ ''_scf.in'')) ''/w/n'' None job (es_disk st') \<and> found RE_CONVERGED (j_stdout job)
     \<and> dget outs ''energy_ry'' = Some (PFloat (total_energy_ry (parse_scf (j_stdout job))))"
proof -
  obtain outs st' where run: "qe_execute demo_qe demo_cx ''n'' (stage_params ''scf'') \<lparr>es_disk = demo_disk, es_cache = []\<rparr> = (Inr outs, st')"
    using demo_stage [of "''scf''"] by auto
  have c: "calc_of (stage_params ''scf'') = ''scf''" by (simp add: calc_of_def stage_params_def get_or_def dget_def)
  have wd: "in_dir (cx_base demo_cx) ''n'' = ''/w/n''" "cx_timeout demo_cx = None" by (simp_all add: demo_cx_def in_dir_def)
  from node_success_verified [OF run, unfolded c wd] obtain pfx where "scf_verified demo_qe ''/w/n'' pfx None (es_disk st') outs"
    by auto
  then obtain job where "program_ran demo_qe ''pw.x'' (in_dir ''/w/n'' (pfx @ ''_scf.in'')) ''/w/n'' None job (es_disk st')"
    "found RE_CONVERGED (j_stdout job)" "dget outs ''energy_ry'' = Some (PFloat (total_energy_ry (parse_scf (j_stdout job))))"
    by (auto simp: scf_verified_def Let_def dget_def)
  with run show ?thesis by blast
qed

theorem failures_sorted_witness:
  "\<exists>e st. qe_tool demo_qe demo_cx (demo_node [(''calc'', PStr ''scf'')]) \<lparr>es_disk = demo_disk, es_cache = []\<rparr> = (ToolRaised e, st)
     \<and> te_category e = ''config'' \<and> snd (snd (qe_repair (demo_node [(''calc'', PStr ''scf'')]) e)) = Repaired False"
proof -
  have "\<exists>e st. qe_tool demo_qe demo_cx (demo_node [(''calc'', PStr ''scf'')]) \<lparr>es_disk = demo_disk, es_cache = []\<rparr> = (ToolRaised e, st)
      \<and> te_category e = ''config''"
    by (simp add: qe_tool_def qe_outcome_def qe_execute_def choose_structure_def demo_node_def get_or_def dget_def Let_def andThen_def
        step_simps tool_error_of_def)
  with failures_sorted show ?thesis by (fastforce simp: REPAIRABLE_CATEGORIES_def)
qed





end
