(* ===== verification/Runner.thy ===== *)
theory Runner
  imports Verifier_Props Ledger Catalog Local_Executor
begin

text \<open>
  The task runner (\<open>runner.py\<close>) after the execution of a relaxation (\<open>run_t1\<close>): the output is parsed, verified and
  classified, a recovery is planned, and the attempt is written to the evidence, the result and the ledger.
  The job's result, the XML document of the save directory (\<open>None\<close>: no file) and the hash function are given;
  a pseudopotential file is its content, or \<open>None\<close>.
\<close>

section \<open>A relaxation\<close>

definition RE_VERSION :: re where
  "RE_VERSION = seqs [WordB, ilit ''Program'', spaces1, plus (Ch (\<lambda>c. \<not> py_isspace c)), spaces1, ilit ''v'', opt (one_of ''.''),
     Grp 1 (plus (Ch (\<lambda>c. \<not> py_isspace c)))]"

definition rstrip_commas :: "string \<Rightarrow> string" where
  "rstrip_commas s = rev (dropWhile (\<lambda>c. c = CHR '','') (rev s))"

fun qe_version :: "string list \<Rightarrow> string" where
  "qe_version [] = ''unknown''"
| "qe_version (s # ss) = (case search_group 1 RE_VERSION s of Some v \<Rightarrow> rstrip_commas v | None \<Rightarrow> qe_version ss)"

text \<open>The assessment of an attempt: the parsed output, the report, the kind of failure and the actions as texts.\<close>

record assessment =
  as_parsed :: parsed_vc
  as_report :: report
  as_kind :: failure_kind
  as_actions :: "string list"

definition assess_t1 ::
  "verifier \<Rightarrow> controller \<Rightarrow> task_spec \<Rightarrow> job_result \<Rightarrow> string \<Rightarrow> xml option \<Rightarrow> nat \<Rightarrow> py_exc + assessment" where
  "assess_t1 v ctl task job xml_path document earlier =
    bindr (parse_vc_relax (j_stdout job) document) (\<lambda>parsed.
    bindr (verify_t1 v \<lparr>vi_stdout = j_stdout job, vi_stderr = [], vi_xml_path = (if document = None then None else Some xml_path),
        vi_job_success = j_success job, vi_metadata = []\<rparr> document (Some parsed)) (\<lambda>report.
    let kind = classify (passed report) (failure_reasons report) in
    bindr (plan_actions ctl kind (ts_parameters task) (int earlier + 1)) (\<lambda>actions.
    Inr \<lparr>as_parsed = parsed, as_report = report, as_kind = kind, as_actions = map action_str actions\<rparr>)))"

definition run_record_of :: "nat \<Rightarrow> string \<Rightarrow> job_result \<Rightarrow> assessment \<Rightarrow> run_record" where
  "run_record_of earlier input_hash job a =
    \<lparr>rr_attempt = int earlier + 1, rr_success = passed (as_report a), rr_input_hash = input_hash, rr_walltime_sec = j_walltime job,
     rr_verifier_passed = passed (as_report a), rr_failure_reasons = failure_reasons (as_report a),
     rr_recovery_actions = as_actions a\<rparr>"

definition pass_or_fail :: "bool \<Rightarrow> string" where
  "pass_or_fail b = (if b then ''pass'' else ''fail'')"

definition pseudo_hashes :: "(string \<Rightarrow> string) \<Rightarrow> (string \<Rightarrow> string option) \<Rightarrow> string pydict \<Rightarrow> string pydict" where
  "pseudo_hashes sha file psd =
    foldl (\<lambda>d (el, f). case file f of Some content \<Rightarrow> dput el (take 16 (sha content)) d | None \<Rightarrow> d) [] psd"

definition t1_evidence ::
  "(string \<Rightarrow> string) \<Rightarrow> (string \<Rightarrow> string option) \<Rightarrow> string pydict \<Rightarrow> task_spec \<Rightarrow> job_result \<Rightarrow> string \<Rightarrow> assessment \<Rightarrow> evidence_bundle" where
  "t1_evidence sha file psd task job input_hash a =
    \<lparr>ev_task_id = ts_task_id task, ev_task_type = ts_task_type task, ev_status = pass_or_fail (passed (as_report a)),
     ev_input_hash = input_hash, ev_pseudo_hashes = pseudo_hashes sha file psd, ev_qe_version = qe_version [j_stdout job],
     ev_parser_version = ''0.1.0'', ev_commands = [''pw.x -in '' @ ts_material task @ ''_vcrelax.in''],
     ev_walltimes_sec = [j_walltime job], ev_total_walltime_sec = j_walltime job, ev_tokens_used = 0,
     ev_errors = (if j_error job = [] then [] else [j_error job]), ev_recovery_actions = as_actions a,
     ev_verifier_verdict = Some (report_to_dict (as_report a)),
     ev_physical_results =
       [(''final_energy_ry'', PFloat (final_energy_ry (as_parsed a))),
        (''final_energy_ev_per_atom'', PFloat (final_energy_ev_per_atom (as_parsed a))),
        (''max_force_ry_bohr'', PFloat (max_force_ry_bohr (as_parsed a))),
        (''pressure_kbar'', PFloat (pressure_kbar (as_parsed a))), (''natoms'', PInt (vc_natoms (as_parsed a)))],
     ev_output_files = j_files job, ev_log_files = []\<rparr>"

definition t1_physical :: "parsed_vc \<Rightarrow> pyval pydict" where
  "t1_physical p =
    [(''final_energy_ry'', PFloat (final_energy_ry p)), (''final_energy_ev_per_atom'', PFloat (final_energy_ev_per_atom p)),
     (''max_force_ry_bohr'', PFloat (max_force_ry_bohr p)), (''pressure_kbar'', PFloat (pressure_kbar p)),
     (''natoms'', PInt (vc_natoms p)), (''n_iterations'', PInt (vc_n_iterations p))]
    @ (case vc_cell p of None \<Rightarrow> []
       | Some c \<Rightarrow> [(''cell'', PDict [(''a_bohr'', PFloat (a_bohr c)), (''b_bohr'', PFloat (b_bohr c)), (''c_bohr'', PFloat (c_bohr c)),
            (''volume_bohr3'', PFloat (volume_bohr3 c))])])"

definition t1_result ::
  "task_spec \<Rightarrow> job_result \<Rightarrow> string \<Rightarrow> string \<Rightarrow> string \<Rightarrow> assessment \<Rightarrow> pyval pydict" where
  "t1_result task job input_hash input_file workdir a =
    [(''task_id'', PStr (ts_task_id task)), (''task_type'', PStr (ts_task_type task)),
     (''status'', PStr (pass_or_fail (passed (as_report a)))), (''input_hash'', PStr input_hash),
     (''verifier_summary'', PStr (summary (as_report a))), (''verifier_passed'', PBool (passed (as_report a))),
     (''checks'', PDict (map (\<lambda>(k, c). (k, PDict c)) (checks (as_report a)))),
     (''failure_reasons'', strs (failure_reasons (as_report a))), (''warnings'', strs (warnings (as_report a))),
     (''physical_results'', PDict (t1_physical (as_parsed a))), (''evidence_path'', PStr (in_dir workdir ''evidence.json'')),
     (''output_files'', strs (j_files job)), (''walltime_sec'', PFloat (pf_round 3 (j_walltime job))), (''qe_calls'', PInt 1),
     (''input_file'', PStr input_file), (''stdout_file'', PStr (in_dir (parent_dir input_file) (stem input_file @ ''.out'')))]"

definition t1_row :: "task_spec \<Rightarrow> job_result \<Rightarrow> string \<Rightarrow> failure_kind \<Rightarrow> ledger_record" where
  "t1_row task job evidence_path kind =
    \<lparr>lr_task_id = ts_task_id task, lr_task_type = ts_task_type task, lr_attempt = 0, lr_success = False, lr_input_hash = [],
     lr_walltime_sec = Fin 0, lr_verifier_passed = False, lr_failure_reasons = [], lr_recovery_actions = [],
     lr_failure_kind = failure_value kind, lr_evidence_path = evidence_path, lr_output_files = j_files job, lr_timestamp = []\<rparr>"

text \<open>What an attempt leaves: the record in the runner's list, the result and the ledger.\<close>

definition conclude_t1 ::
  "verifier \<Rightarrow> controller \<Rightarrow> task_spec \<Rightarrow> job_result \<Rightarrow> string \<Rightarrow> string \<Rightarrow> string \<Rightarrow> string \<Rightarrow> xml option \<Rightarrow> string
     \<Rightarrow> run_record list \<Rightarrow> ledger \<Rightarrow> py_exc + pyval pydict \<times> run_record list \<times> ledger" where
  "conclude_t1 v ctl task job input_hash input_file workdir xml_path document now records l =
    bindr (assess_t1 v ctl task job xml_path document (length records)) (\<lambda>a.
    let record = run_record_of (length records) input_hash job a in
    Inr (t1_result task job input_hash input_file workdir a, records @ [record],
         snd (record_run (FromRun record) (t1_row task job (in_dir workdir ''evidence.json'') (as_kind a)) now l)))"

section \<open>Properties\<close>

text \<open>
  The three records of an attempt agree. A concluded attempt adds one record and one ledger row, both with the number
  of earlier records plus one and the verifier's verdict; the status of the result is pass exactly for a passed
  report, and the row carries the same hash, wall time, reasons and actions.
\<close>

theorem attempt_recorded:
  assumes "conclude_t1 v ctl task job input_hash input_file workdir xml_path document now records l = Inr (res, records', l')"
  shows "\<exists>record row. records' = records @ [record] \<and> rows l' = rows l @ [row] \<and> row_id row = last_id l + 1
     \<and> rr_attempt record = int (length records) + 1 \<and> lr_attempt row = rr_attempt record
     \<and> lr_success row = rr_success record \<and> lr_verifier_passed row = rr_success record
     \<and> dget res ''status'' = Some (PStr (if rr_success record then ''pass'' else ''fail''))
     \<and> dget res ''failure_reasons'' = Some (strs (rr_failure_reasons record))
     \<and> lr_failure_reasons row = rr_failure_reasons record \<and> lr_recovery_actions row = rr_recovery_actions record
     \<and> lr_input_hash row = input_hash \<and> lr_walltime_sec row = j_walltime job \<and> lr_task_id row = ts_task_id task"
proof -
  from assms obtain a where r: "res = t1_result task job input_hash input_file workdir a"
    "records' = records @ [run_record_of (length records) input_hash job a]"
    "l' = snd (record_run (FromRun (run_record_of (length records) input_hash job a))
       (t1_row task job (in_dir workdir ''evidence.json'') (as_kind a)) now l)"
    by (auto simp: conclude_t1_def bindr_eq_Inr Let_def)
  show ?thesis
    unfolding r by (simp add: run_record_of_def record_run_def row_of_def build_record_def t1_row_def t1_result_def dget_def pass_or_fail_def Let_def)
qed

text \<open>
  A success is recorded as a failure of unknown kind. When the report passes, the ledger row says that the
  attempt succeeded, and also that its failure kind is unknown, with the action to retry with the same parameters (to
  give up, after the last attempt).
\<close>

theorem success_recorded_as_unknown:
  assumes "assess_t1 v ctl task job xml_path document earlier = Inr a" "passed (as_report a)"
    "int earlier + 1 < max_rec_attempts ctl"
  shows "as_kind a = UNKNOWN \<and> as_actions a = [''retry: Unknown failure; retry with same parameters'']
     \<and> lr_failure_kind (build_record (FromRun (run_record_of earlier h job a)) (t1_row task job ep (as_kind a))) = ''unknown''
     \<and> lr_success (build_record (FromRun (run_record_of earlier h job a)) (t1_row task job ep (as_kind a)))"
proof -
  have k: "as_kind a = classify (passed (as_report a)) (failure_reasons (as_report a))"
    and acts: "\<exists>as. plan_actions ctl (as_kind a) (ts_parameters task) (int earlier + 1) = Inr as \<and> as_actions a = map action_str as"
    using assms(1) by (auto simp: assess_t1_def bindr_eq_Inr Let_def)
  from assms(1) obtain p inp where "as_report a = verify_parsed v inp p"
    by (auto simp: assess_t1_def bindr_eq_Inr verify_t1_def Let_def)
  with assms(2) have "failure_reasons (as_report a) = []" by (simp add: verify_parsed_reasons t1_reasons_Nil verify_parsed_passed)
  then have u: "as_kind a = UNKNOWN" using k assms(2) by (simp add: classify_def classify_reasons_def some_has_def)
  with acts assms(3) have "as_actions a = [''retry: Unknown failure; retry with same parameters'']"
    by (auto simp: plan_actions_def action_str_def action_def)
  with u assms(2) show ?thesis by (simp add: build_record_def run_record_of_def t1_row_def)
qed

section \<open>A concrete attempt\<close>

definition demo_task :: task_spec where
  "demo_task = \<lparr>ts_task_id = ''T1'', ts_task_type = ''T1'', ts_material = ''Si'', ts_description = [], ts_profile = None,
     ts_parameters = [], ts_prompt_file = None, ts_metadata = []\<rparr>"

definition demo_job :: job_result where
  "demo_job = (failed_job (Fin 1) [] None)\<lparr>j_success := True, j_exit_code := 0, j_stdout := good_stdout\<rparr>"

lemma demo_assessed:
  "\<exists>a. assess_t1 default_verifier default_controller demo_task demo_job ''x'' None 0 = Inr a \<and> passed (as_report a)"
proof -
  obtain p where p: "parse_vc_relax good_stdout None = Inr p" "max_force_ry_bohr p = Fin (1 / 2000)"
    "pressure_kbar p = Fin (1 / 10)" "vc_converged p" "cell_ok p"
    by (rule good_parse)
  have inp: "\<lparr>vi_stdout = good_stdout, vi_stderr = [], vi_xml_path = None, vi_job_success = True, vi_metadata = []\<rparr> = good_input"
    by (simp add: good_input_def)
  have out: "j_stdout demo_job = good_stdout" "j_success demo_job = True" by (simp_all add: demo_job_def)
  have ok: "passed (verify_parsed default_verifier good_input p)"
    using p good_facts
    by (auto simp: verify_parsed_passed good_input_def default_verifier_def no_data_def forces_ok_def pressure_ok_def converged_found)
  then have r: "failure_reasons (verify_parsed default_verifier good_input p) = []"
    by (simp add: verify_parsed_reasons t1_reasons_Nil verify_parsed_passed)
  have "classify True [] = UNKNOWN" by code_simp
  with ok r p(1) show ?thesis
    by (simp add: assess_t1_def out inp verify_t1_def bindr_def plan_actions_def default_controller_def Let_def)
qed

theorem attempt_recorded_witness:
  "\<exists>res records l. conclude_t1 default_verifier default_controller demo_task demo_job ''h'' ''/w/a.in'' ''/w'' ''x'' None ''now'' [] empty_ledger
     = Inr (res, records, l) \<and> length (rows l) = 1 \<and> length records = 1"
proof -
  obtain a where "assess_t1 default_verifier default_controller demo_task demo_job ''x'' None 0 = Inr a" using demo_assessed by blast
  then obtain res records l where c: "conclude_t1 default_verifier default_controller demo_task demo_job ''h'' ''/w/a.in'' ''/w'' ''x'' None ''now'' [] empty_ledger
     = Inr (res, records, l)" by (simp add: conclude_t1_def bindr_def Let_def)
  from attempt_recorded [OF this] c show ?thesis by (auto simp: empty_ledger_def)
qed

theorem success_recorded_as_unknown_witness:
  "\<exists>a. assess_t1 default_verifier default_controller demo_task demo_job ''x'' None 0 = Inr a \<and> passed (as_report a) \<and> as_kind a = UNKNOWN"
proof -
  obtain a where a: "assess_t1 default_verifier default_controller demo_task demo_job ''x'' None 0 = Inr a" "passed (as_report a)"
    using demo_assessed by blast
  from success_recorded_as_unknown [OF a] a show ?thesis by (auto simp: default_controller_def)
qed

end
