(* ===== verification/Runner_T2.thy ===== *)
theory Runner_T2
  imports Runner Qe_Engine
begin

text \<open>
  The task runner's pipelines (\<open>runner.py\<close>): \<open>run_t1\<close> from the task's parameters to the recorded attempt,
  \<open>run_t2_bands\<close> and \<open>run_t2_dos\<close> with their three programs, and the dispatch of \<open>run_task_deterministic\<close>.

  \<^item> Compiling and running are steps on the disk and the compiler's cache, as in \<open>Qe_Engine\<close>; \<open>w_run\<close> stands for
    \<open>_execute_pw\<close> and \<open>_execute_tool\<close> (an executor's own runner, or the driver of \<open>Local_Executor\<close>).
  \<^item> The runner's list of attempts and the ledger go in and come out; a runner without a ledger is one whose ledger nobody
    reads. \<open>sha\<close> is the hash of a text.
  \<^item> The JSON files of the evidence and of the result hold the values returned here; writing them is left out.
  \<^item> Parameters that the compiler only prints are modelled for the types a task has: integers and finite numbers.
\<close>

section \<open>Parameters\<close>

definition mesh_arg :: "pyval \<Rightarrow> py_exc + int list" where
  "mesh_arg v = (case v of PList vs \<Rightarrow> mapr (\<lambda>x. case x of PInt i \<Rightarrow> Inr i | _ \<Rightarrow> Inl TypeError) vs | _ \<Rightarrow> Inl TypeError)"

definition number_arg :: "pyval \<Rightarrow> py_exc + rat" where
  "number_arg v = (case num_of v of Some (Fin q) \<Rightarrow> Inr q | _ \<Rightarrow> Inl TypeError)"

definition int_arg :: "pyval \<Rightarrow> py_exc + int" where
  "int_arg v = (case v of PInt n \<Rightarrow> Inr n | _ \<Rightarrow> Inl TypeError)"

definition default_thr :: pyval where
  "default_thr = PFloat (Fin (1 / 10 ^ 8))"

definition t1_options_of :: "pyval pydict \<Rightarrow> py_exc + t1_options" where
  "t1_options_of params =
    bindr (mesh_arg (get_or params ''kpoints'' (ints [4, 4, 4, 1, 1, 1]))) (\<lambda>ks.
    bindr (number_arg (get_or params ''conv_thr'' default_thr)) (\<lambda>thr.
    bindr (int_arg (get_or params ''nstep'' (PInt 200))) (\<lambda>n.
    Inr (t1_defaults\<lparr>o_ecutwfc := opt_param params ''ecutwfc'', o_ecutrho := opt_param params ''ecutrho'', o_kpoints := Some ks,
      o_conv_thr := thr, o_nstep := n, o_cell := py_true (get_or params ''cell_optimization'' (PBool True))\<rparr>))))"

definition stage_options :: "pyval pydict \<Rightarrow> string \<Rightarrow> string \<Rightarrow> py_exc + scf_options" where
  "stage_options params mesh_key calc =
    bindr (mesh_arg (get_or params mesh_key (ints [8, 8, 8, 1, 1, 1]))) (\<lambda>ks.
    bindr (number_arg (get_or params ''conv_thr'' default_thr)) (\<lambda>thr.
    bindr (nbnd_param params) (\<lambda>nbnd.
    Inr (scf_defaults\<lparr>s_calculation := calc, s_ecutwfc := opt_param params ''ecutwfc'', s_ecutrho := opt_param params ''ecutrho'',
      s_kpoints := Some ks, s_conv_thr := thr, s_nbnd := nbnd\<rparr>))))"

section \<open>Compiling and running\<close>

definition emit_text :: "'w qe_ops \<Rightarrow> string \<Rightarrow> py_exc + string \<Rightarrow> ('w, string) step" where
  "emit_text w file content = andThen (py content) (\<lambda>s. andThen (change (\<lambda>d. w_write w d file s)) (\<lambda>_. ret s))"

definition emit_stage :: "'w qe_ops \<Rightarrow> string \<Rightarrow> string \<Rightarrow> scf_options \<Rightarrow> ('w, string) step" where
  "emit_stage w file material so = (\<lambda>st.
    let (content, cache) = compile_scf (w_ase w) (w_pseudos w) material None so None (es_cache st) in
    emit_text w file content (st\<lparr>es_cache := cache\<rparr>))"

definition pw_stage ::
  "'w qe_ops \<Rightarrow> string \<Rightarrow> pyval pydict \<Rightarrow> string \<Rightarrow> string \<Rightarrow> string \<Rightarrow> string \<Rightarrow> ('w, string \<times> job_result) step" where
  "pw_stage w material params mesh_key calc input_file workdir =
    andThen (py (stage_options params mesh_key calc)) (\<lambda>so.
    andThen (emit_stage w input_file material so) (\<lambda>content.
    andThen (call_out (w_run w ''pw.x'' input_file workdir None)) (\<lambda>job. ret (content, job))))"

definition input_hash :: "(string \<Rightarrow> string) \<Rightarrow> string \<Rightarrow> string" where
  "input_hash sha content = take 16 (sha content)"

definition known_task :: "catalog \<Rightarrow> string \<Rightarrow> py_exc + task_spec \<times> material_data" where
  "known_task cat task_id =
    bindr (get_task_spec cat task_id) (\<lambda>task.
    bindr (the_or (KeyError (ts_material task)) (dget MATERIAL_DB (ts_material task))) (\<lambda>db. Inr (task, db)))"

type_synonym attempt = "pyval pydict \<times> run_record list \<times> ledger"

definition run_t1 ::
  "'w qe_ops \<Rightarrow> (string \<Rightarrow> string) \<Rightarrow> verifier \<Rightarrow> controller \<Rightarrow> catalog \<Rightarrow> string \<Rightarrow> string \<Rightarrow> string \<Rightarrow> pyval pydict
     \<Rightarrow> run_record list \<Rightarrow> ledger \<Rightarrow> ('w, attempt) step" where
  "run_t1 w sha v ctl cat now task_id workdir retry records l =
    andThen (py (known_task cat task_id)) (\<lambda>(task, db).
    let material = ts_material task; input_file = in_dir workdir (material @ ''_vcrelax.in'');
        xml = in_dir (in_dir workdir (material @ ''_vcrelax.save'')) ''data-file-schema.xml'' in
    andThen (change (\<lambda>d. w_mkdir w d workdir)) (\<lambda>_.
    andThen (py (t1_options_of (dupdate (ts_parameters task) retry))) (\<lambda>opts.
    andThen (emit_text w input_file (compile_t1 (w_ase w) (w_pseudos w) material None opts None)) (\<lambda>content.
    andThen (call_out (w_run w ''pw.x'' input_file workdir None)) (\<lambda>job.
    andThen (ask (\<lambda>d. if w_exists w d xml then w_xml w d xml else None)) (\<lambda>doc.
    py (conclude_t1 v ctl task job (input_hash sha content) input_file workdir xml doc now records l)))))))"

section \<open>Three programs in a row\<close>

text \<open>What tells the two pipelines apart.\<close>

record t2_plan =
  tp_subtype :: string
  tp_nscf :: string
  tp_program :: string
  tp_post :: string
  tp_result :: string

definition bands_plan :: t2_plan where
  "bands_plan = \<lparr>tp_subtype = ''bands'', tp_nscf = ''_nscf_bands'', tp_program = ''bands.x'', tp_post = ''_bands'', tp_result = ''_bands.xml''\<rparr>"

definition dos_plan :: t2_plan where
  "dos_plan = \<lparr>tp_subtype = ''dos'', tp_nscf = ''_nscf_dos'', tp_program = ''dos.x'', tp_post = ''_dos'', tp_result = ''_dos.dat''\<rparr>"

record t2_jobs =
  tj_hash :: string
  tj_scf :: job_result
  tj_nscf :: job_result
  tj_post :: job_result

definition three_jobs ::
  "'w qe_ops \<Rightarrow> (string \<Rightarrow> string) \<Rightarrow> t2_plan \<Rightarrow> string \<Rightarrow> pyval pydict \<Rightarrow> string \<Rightarrow> py_exc + string \<Rightarrow> ('w, t2_jobs) step" where
  "three_jobs w sha plan material params workdir post =
    (let pfx = lower material; post_input = in_dir workdir (pfx @ tp_post plan @ ''.in'') in
     andThen (pw_stage w material params ''kpoints_scf'' ''scf'' (in_dir workdir (pfx @ ''_scf.in'')) workdir) (\<lambda>(c1, j1).
     andThen (pw_stage w material params ''kpoints_nscf'' ''nscf'' (in_dir workdir (pfx @ tp_nscf plan @ ''.in'')) workdir) (\<lambda>(c2, j2).
     andThen (emit_text w post_input post) (\<lambda>c3.
     andThen (call_out (w_run w (tp_program plan) post_input workdir None)) (\<lambda>j3.
     ret \<lparr>tj_hash = input_hash sha c1 @ '':'' @ input_hash sha c2 @ '':'' @ input_hash sha c3, tj_scf = j1, tj_nscf = j2, tj_post = j3\<rparr>)))))"

definition job_list :: "t2_jobs \<Rightarrow> job_result list" where
  "job_list js = [tj_scf js, tj_nscf js, tj_post js]"

definition walltime_sum :: "t2_jobs \<Rightarrow> pyfloat" where
  "walltime_sum js = foldl pf_add (Fin 0) (map j_walltime (job_list js))"

definition t2_errors :: "t2_plan \<Rightarrow> t2_jobs \<Rightarrow> string list" where
  "t2_errors plan js = map (\<lambda>(name, j). name @ '': '' @ j_error j)
     (filter (\<lambda>(_, j). j_error j \<noteq> []) (zip [''SCF'', ''NSCF'', tp_program plan] (job_list js)))"

definition t2_inputs :: "t2_plan \<Rightarrow> string \<Rightarrow> string list" where
  "t2_inputs plan material = map ((@) (lower material)) [''_scf'', tp_nscf plan, tp_post plan]"

definition t2_commands :: "t2_plan \<Rightarrow> string \<Rightarrow> string list" where
  "t2_commands plan material = map (\<lambda>(program, name). program @ '' -in '' @ name @ ''.in'')
     (zip [''pw.x'', ''pw.x'', tp_program plan] (t2_inputs plan material))"

definition t2_files :: "t2_jobs \<Rightarrow> string list" where
  "t2_files js = concat (map j_files (job_list js))"

definition named_files :: "t2_plan \<Rightarrow> string \<Rightarrow> string \<Rightarrow> string \<Rightarrow> pyval" where
  "named_files plan material workdir ext = PDict (map (\<lambda>(k, name). (k, PStr (in_dir workdir (name @ ext))))
     (zip [''scf'', ''nscf'', tp_subtype plan] (t2_inputs plan material)))"

text \<open>The verdict, with the kind of failure and the actions planned for it.\<close>

definition assess_t2 :: "controller \<Rightarrow> task_spec \<Rightarrow> report \<Rightarrow> nat \<Rightarrow> py_exc + failure_kind \<times> string list" where
  "assess_t2 ctl task r earlier =
    (let kind = classify (passed r) (failure_reasons r) in
     bindr (plan_actions ctl kind (ts_parameters task) (int earlier + 1)) (\<lambda>actions. Inr (kind, map action_str actions)))"

definition t2_record :: "nat \<Rightarrow> t2_jobs \<Rightarrow> report \<Rightarrow> string list \<Rightarrow> run_record" where
  "t2_record earlier js r acts =
    \<lparr>rr_attempt = int earlier + 1, rr_success = passed r, rr_input_hash = tj_hash js, rr_walltime_sec = walltime_sum js,
     rr_verifier_passed = passed r, rr_failure_reasons = failure_reasons r, rr_recovery_actions = acts\<rparr>"

definition t2_evidence ::
  "(string \<Rightarrow> string) \<Rightarrow> (string \<Rightarrow> string option) \<Rightarrow> string pydict \<Rightarrow> t2_plan \<Rightarrow> task_spec \<Rightarrow> t2_jobs \<Rightarrow> report \<Rightarrow> string list
     \<Rightarrow> pyval pydict \<Rightarrow> string \<Rightarrow> evidence_bundle" where
  "t2_evidence sha file psd plan task js r acts physical workdir =
    \<lparr>ev_task_id = ts_task_id task, ev_task_type = ts_task_type task, ev_status = pass_or_fail (passed r),
     ev_input_hash = tj_hash js, ev_pseudo_hashes = pseudo_hashes sha file psd,
     ev_qe_version = qe_version [j_stdout (tj_scf js), j_stdout (tj_nscf js)], ev_parser_version = ''0.1.0'',
     ev_commands = t2_commands plan (ts_material task), ev_walltimes_sec = map j_walltime (job_list js),
     ev_total_walltime_sec = walltime_sum js, ev_tokens_used = 0, ev_errors = t2_errors plan js, ev_recovery_actions = acts,
     ev_verifier_verdict = Some (report_to_dict r), ev_physical_results = physical, ev_output_files = t2_files js,
     ev_log_files = map (\<lambda>name. in_dir workdir (name @ ''.out'')) (t2_inputs plan (ts_material task))\<rparr>"

definition t2_result :: "t2_plan \<Rightarrow> task_spec \<Rightarrow> t2_jobs \<Rightarrow> report \<Rightarrow> pyval pydict \<Rightarrow> string \<Rightarrow> pyval pydict" where
  "t2_result plan task js r physical workdir =
    [(''task_id'', PStr (ts_task_id task)), (''task_type'', PStr (ts_task_type task)), (''subtype'', PStr (tp_subtype plan)),
     (''status'', PStr (pass_or_fail (passed r))), (''input_hash'', PStr (tj_hash js)), (''verifier_summary'', PStr (summary r)),
     (''verifier_passed'', PBool (passed r)), (''checks'', PDict (map (\<lambda>(k, c). (k, PDict c)) (checks r))),
     (''failure_reasons'', strs (failure_reasons r)), (''warnings'', strs (warnings r)), (''physical_results'', PDict physical),
     (''evidence_path'', PStr (in_dir workdir ''evidence.json'')), (''output_files'', strs (t2_files js)),
     (''walltime_sec'', PFloat (pf_round 3 (walltime_sum js))), (''qe_calls'', PInt 3),
     (''input_files'', named_files plan (ts_material task) workdir ''.in''),
     (''stdout_files'', named_files plan (ts_material task) workdir ''.out'')]"

definition t2_row :: "task_spec \<Rightarrow> t2_jobs \<Rightarrow> string \<Rightarrow> failure_kind \<Rightarrow> ledger_record" where
  "t2_row task js evidence_path kind = (t1_row task (tj_scf js) evidence_path kind)\<lparr>lr_output_files := t2_files js\<rparr>"

definition conclude_t2 ::
  "controller \<Rightarrow> t2_plan \<Rightarrow> task_spec \<Rightarrow> t2_jobs \<Rightarrow> report \<Rightarrow> pyval pydict \<Rightarrow> string \<Rightarrow> string \<Rightarrow> run_record list \<Rightarrow> ledger
     \<Rightarrow> py_exc + attempt" where
  "conclude_t2 ctl plan task js r physical workdir now records l =
    bindr (assess_t2 ctl task r (length records)) (\<lambda>(kind, acts).
    let record = t2_record (length records) js r acts in
    Inr (t2_result plan task js r physical workdir, records @ [record],
         snd (record_run (FromRun record) (t2_row task js (in_dir workdir ''evidence.json'') kind) now l)))"

section \<open>Bands and density of states\<close>

definition bands_physical :: "parsed_bands \<Rightarrow> t2_jobs \<Rightarrow> pyval pydict" where
  "bands_physical b js =
    [(''band_gap_ev'', PFloat (pb_gap_ev b)), (''fermi_energy_ev'', PFloat (pb_fermi_ev b)), (''n_bands'', PInt (pb_n_bands b)),
     (''n_kpoints'', PInt (pb_n_kpoints b)), (''is_metal'', PBool (pb_is_metal b)),
     (''scf_energy_ry'', PFloat (total_energy_ry (parse_scf (j_stdout (tj_scf js))))),
     (''nscf_energy_ry'', PFloat (total_energy_ry (parse_scf (j_stdout (tj_nscf js)))))]"

definition bands_shape :: "parsed_bands \<Rightarrow> pyval pydict" where
  "bands_shape b = (case pb_eigenvalues b of Some (r # rs) \<Rightarrow>
     [(''eigenvalues_shape'', ints [int (length (r # rs)), int (length r)])] | _ \<Rightarrow> [])"

definition run_t2_bands ::
  "'w qe_ops \<Rightarrow> (string \<Rightarrow> string) \<Rightarrow> controller \<Rightarrow> catalog \<Rightarrow> string \<Rightarrow> string \<Rightarrow> string \<Rightarrow> pyval pydict
     \<Rightarrow> run_record list \<Rightarrow> ledger \<Rightarrow> ('w, attempt) step" where
  "run_t2_bands w sha ctl cat now task_id workdir retry records l =
    andThen (py (known_task cat task_id)) (\<lambda>(task, db).
    let material = ts_material task; pfx = lower material; xml = in_dir workdir (pfx @ tp_result bands_plan) in
    andThen (change (\<lambda>d. w_mkdir w d workdir)) (\<lambda>_.
    andThen (three_jobs w sha bands_plan material (dupdate (ts_parameters task) retry) workdir
      (compile_bands_input (w_ase w) material (Some pfx) None None None)) (\<lambda>js.
    andThen (ask (\<lambda>d. if w_exists w d xml then Some (bands_of_file (w_xml w d xml)) else None)) (\<lambda>file.
    let b = (case file of Some b \<Rightarrow> b | None \<Rightarrow> no_bands);
        r = verify_t2_bands (j_stdout (tj_scf js)) (j_stdout (tj_nscf js)) xml file in
    py (conclude_t2 ctl bands_plan task js r (bands_physical b js @ bands_shape b) workdir now records l)))))"

definition dos_physical :: "parsed_dos \<Rightarrow> t2_jobs \<Rightarrow> pyval pydict" where
  "dos_physical p js =
    [(''dos_at_fermi'', PFloat (dos_at_fermi p)), (''fermi_energy_ev'', opt_float (dos_fermi p)), (''n_energy_points'', PInt (dos_points p)),
     (''scf_energy_ry'', PFloat (total_energy_ry (parse_scf (j_stdout (tj_scf js))))),
     (''nscf_energy_ry'', PFloat (total_energy_ry (parse_scf (j_stdout (tj_nscf js)))))]"

definition dos_ranges :: "parsed_dos \<Rightarrow> t2_jobs \<Rightarrow> pyval pydict" where
  "dos_ranges p js =
    [(''scf_n_iterations'', PInt (n_iterations (parse_scf (j_stdout (tj_scf js))))),
     (''nscf_n_iterations'', PInt (n_iterations (parse_scf (j_stdout (tj_nscf js)))))]
    @ (case (dos_energies p, dos_values p) of
         (Some (e # es), Some ds) \<Rightarrow> [(''energy_range_ev'', floats [e, last (e # es)]), (''dos_shape'', ints [int (length ds)])]
       | _ \<Rightarrow> [])"

definition run_t2_dos ::
  "'w qe_ops \<Rightarrow> (string \<Rightarrow> string) \<Rightarrow> controller \<Rightarrow> catalog \<Rightarrow> string \<Rightarrow> string \<Rightarrow> string \<Rightarrow> pyval pydict
     \<Rightarrow> run_record list \<Rightarrow> ledger \<Rightarrow> ('w, attempt) step" where
  "run_t2_dos w sha ctl cat now task_id workdir retry records l =
    andThen (py (known_task cat task_id)) (\<lambda>(task, db).
    let material = ts_material task; pfx = lower material; params = dupdate (ts_parameters task) retry;
        dos_file = in_dir workdir (pfx @ tp_result dos_plan) in
    andThen (change (\<lambda>d. w_mkdir w d workdir)) (\<lambda>_.
    andThen (three_jobs w sha dos_plan material params workdir
      (compile_dos_input material (Some pfx) None None (get_or params ''dos_deltae'' (PFloat (Fin (1 / 100))))
        (get_or params ''dos_fwhm'' (PFloat (Fin (5 / 100)))) 1 None)) (\<lambda>js.
    andThen (ask (\<lambda>d. if w_exists w d dos_file then Some (w_text w d dos_file) else None)) (\<lambda>text.
    let p = parse_dos (w_np w) text;
        r = verify_t2_dos (j_stdout (tj_scf js)) (j_stdout (tj_nscf js)) dos_file (map_option (\<lambda>_. dos_facts p) text) in
    py (conclude_t2 ctl dos_plan task js r (dos_physical p js @ dos_ranges p js) workdir now records l)))))"

section \<open>Dispatch\<close>

datatype pipeline = Relax | Bands | Density

definition choose_pipeline :: "string \<Rightarrow> task_spec \<Rightarrow> py_exc + pipeline" where
  "choose_pipeline task_id task =
    (if ts_task_type task = ''T1'' then Inr Relax
     else if ts_task_type task = ''T2'' then
       Inr (case get_or (ts_parameters task) ''subtype'' PNone of
              PNone \<Rightarrow> if contains ''dos'' (lower task_id) then Density else Bands
            | v \<Rightarrow> if v = PStr ''dos'' then Density else Bands)
     else Inl (ValueError (''Unsupported task_type: '' @ ts_task_type task)))"

definition run_task_deterministic ::
  "'w qe_ops \<Rightarrow> (string \<Rightarrow> string) \<Rightarrow> catalog \<Rightarrow> string \<Rightarrow> string \<Rightarrow> string \<Rightarrow> pyval pydict \<Rightarrow> ('w, pyval pydict) step" where
  "run_task_deterministic w sha cat now task_id workdir retry =
    andThen (py (bindr (get_task_spec cat task_id) (choose_pipeline task_id))) (\<lambda>p.
    andThen (case p of
        Relax \<Rightarrow> run_t1 w sha default_verifier default_controller cat now task_id workdir retry [] empty_ledger
      | Bands \<Rightarrow> run_t2_bands w sha default_controller cat now task_id workdir retry [] empty_ledger
      | Density \<Rightarrow> run_t2_dos w sha default_controller cat now task_id workdir retry [] empty_ledger) (\<lambda>(res, _, _).
    ret res))"

definition run_smoke ::
  "bool \<Rightarrow> 'w qe_ops \<Rightarrow> (string \<Rightarrow> string) \<Rightarrow> catalog \<Rightarrow> string \<Rightarrow> string \<Rightarrow> string \<Rightarrow> ('w, pyval pydict) step" where
  "run_smoke has_binary w sha cat now task_id workdir =
    (if \<not> has_binary
     then ret [(''task_id'', PStr task_id), (''status'', PStr ''error''), (''error'', PStr ''QE binary not found'')]
     else run_task_deterministic w sha cat now task_id workdir [])"

end
