(* ===== verification/Runner_Props.thy ===== *)
theory Runner_Props
  imports Runner_T2 Qe_Stages Catalog_Props
begin

text \<open>
  Properties of the pipelines of \<open>runner.py\<close>: the programs a density-of-states attempt ran, its verdict and the records
  it leaves, and the mesh that has no effect on it. The last section runs the pipeline on a concrete machine.
\<close>

section \<open>What a pipeline leaves\<close>

text \<open>
  The three records of an attempt agree: the result, the runner's list and the ledger carry one verdict, one set of reasons,
  one input hash \<open>h\<close>, one walltime \<open>t\<close> and the files \<open>fs\<close>.
\<close>

definition recorded ::
  "pyval pydict \<Rightarrow> run_record list \<Rightarrow> ledger \<Rightarrow> run_record list \<Rightarrow> ledger \<Rightarrow> report \<Rightarrow> string \<Rightarrow> pyfloat \<Rightarrow> string list \<Rightarrow> bool" where
  "recorded res records l records' l' r h t fs = (\<exists>record row. records' = records @ [record] \<and> rows l' = rows l @ [row]
     \<and> row_id row = last_id l + 1 \<and> rr_attempt record = int (length records) + 1 \<and> lr_attempt row = rr_attempt record
     \<and> rr_success record = passed r \<and> lr_success row = passed r \<and> lr_verifier_passed row = passed r
     \<and> dget res ''status'' = Some (PStr (if passed r then ''pass'' else ''fail''))
     \<and> dget res ''failure_reasons'' = Some (strs (failure_reasons r)) \<and> lr_failure_reasons row = failure_reasons r
     \<and> rr_input_hash record = h \<and> lr_input_hash row = h \<and> rr_walltime_sec record = t \<and> lr_walltime_sec row = t
     \<and> dget res ''output_files'' = Some (strs fs) \<and> lr_output_files row = fs
     \<and> lr_recovery_actions row = rr_recovery_actions record)"

lemma conclude_t2_recorded:
  assumes "conclude_t2 ctl plan task js r physical wd now records l = Inr (res, records', l')"
  shows "recorded res records l records' l' r (tj_hash js)
     (pf_add (pf_add (pf_add (Fin 0) (j_walltime (tj_scf js))) (j_walltime (tj_nscf js))) (j_walltime (tj_post js)))
     (j_files (tj_scf js) @ j_files (tj_nscf js) @ j_files (tj_post js))"
proof -
  from assms obtain kind acts where e: "res = t2_result plan task js r physical wd" "records' = records @ [t2_record (length records) js r acts]"
    "l' = snd (record_run (FromRun (t2_record (length records) js r acts)) (t2_row task js (in_dir wd ''evidence.json'') kind) now l)"
    by (auto simp: conclude_t2_def bindr_eq_Inr Let_def)
  have "walltime_sum js = pf_add (pf_add (pf_add (Fin 0) (j_walltime (tj_scf js))) (j_walltime (tj_nscf js))) (j_walltime (tj_post js))"
    "t2_files js = j_files (tj_scf js) @ j_files (tj_nscf js) @ j_files (tj_post js)"
    by (simp_all add: walltime_sum_def t2_files_def job_list_def)
  then show ?thesis
    unfolding recorded_def e
    by (simp add: t2_record_def record_run_def row_of_def build_record_def t2_row_def t1_row_def t2_result_def dget_def pass_or_fail_def
        Let_def)
qed

section \<open>What a pipeline ran\<close>

text \<open>An input was written into the file and the program then ran on it.\<close>

definition ran_on :: "'w qe_ops \<Rightarrow> string \<Rightarrow> string \<Rightarrow> string \<Rightarrow> string \<Rightarrow> 'w \<Rightarrow> job_result \<Rightarrow> 'w \<Rightarrow> bool" where
  "ran_on w program input_file content wd before job after =
    (w_run w program input_file wd None (w_write w before input_file content) = (Inr job, after))"

lemma pw_stage_ran:
  assumes "pw_stage w material params key calc input_file wd st = (Inr (c, job), st')"
  shows "ran_on w ''pw.x'' input_file c wd (es_disk st) job (es_disk st')"
  using assms by (auto simp: pw_stage_def emit_stage_def emit_text_def ran_on_def step_Inr Let_def split_beta)

lemma three_jobs_ran:
  assumes "three_jobs w sha plan material params wd post st = (Inr js, st')"
  obtains c1 c2 c3 d1 d2 where
    "ran_on w ''pw.x'' (in_dir wd (lower material @ ''_scf.in'')) c1 wd (es_disk st) (tj_scf js) d1"
    "ran_on w ''pw.x'' (in_dir wd (lower material @ tp_nscf plan @ ''.in'')) c2 wd d1 (tj_nscf js) d2"
    "post = Inr c3"
    "ran_on w (tp_program plan) (in_dir wd (lower material @ tp_post plan @ ''.in'')) c3 wd d2 (tj_post js) (es_disk st')"
    "tj_hash js = input_hash sha c1 @ '':'' @ input_hash sha c2 @ '':'' @ input_hash sha c3"
proof -
  from assms obtain c1 j1 st1 c2 j2 st2 c3 d j3 where
    s: "pw_stage w material params ''kpoints_scf'' ''scf'' (in_dir wd (lower material @ ''_scf.in'')) wd st = (Inr (c1, j1), st1)"
      "pw_stage w material params ''kpoints_nscf'' ''nscf'' (in_dir wd (lower material @ tp_nscf plan @ ''.in'')) wd st1 = (Inr (c2, j2), st2)"
    and p: "post = Inr c3" and j: "w_run w (tp_program plan) (in_dir wd (lower material @ tp_post plan @ ''.in'')) wd None
        (w_write w (es_disk st2) (in_dir wd (lower material @ tp_post plan @ ''.in'')) c3) = (Inr j3, d)"
    and e: "js = \<lparr>tj_hash = input_hash sha c1 @ '':'' @ input_hash sha c2 @ '':'' @ input_hash sha c3, tj_scf = j1, tj_nscf = j2, tj_post = j3\<rparr>"
      "es_disk st' = d"
    by (auto simp: three_jobs_def emit_text_def step_Inr Let_def split_beta)
  show ?thesis
    by (rule that [of c1 "es_disk st1" c2 "es_disk st2" c3])
      (use pw_stage_ran [OF s(1)] pw_stage_ran [OF s(2)] p j e in \<open>simp_all add: ran_on_def\<close>)
qed

text \<open>
  C33. A density-of-states attempt passes exactly on the evidence of its own runs. A concluded attempt wrote three inputs and ran
  \<open>pw.x\<close> on \<open><prefix>_scf.in\<close>, \<open>pw.x\<close> on \<open><prefix>_nscf_dos.in\<close> and \<open>dos.x\<close> on \<open><prefix>_dos.in\<close>, in this order, each on the disk the
  one before left; the prefix is the material in small letters. It passes exactly if the output of the first run passes the
  check of a self-consistent run, the output of the second that of a run at fixed potential, and the disk the third left
  holds a file \<open><prefix>_dos.dat\<close> with energy points. The result, the runner's list and the ledger carry this verdict, the
  hash of the three inputs, the sum of the three walltimes and the files of the three runs.
\<close>

theorem dos_attempt:
  assumes "run_t2_dos w sha ctl cat now task_id wd retry records l st = (Inr (res, records', l'), st')"
  shows "\<exists>task pfx d0 c1 j1 d1 c2 j2 d2 c3 j3 r f. get_task_spec cat task_id = Inr task \<and> pfx = lower (ts_material task)
     \<and> d0 = w_mkdir w (es_disk st) wd
     \<and> ran_on w ''pw.x'' (in_dir wd (pfx @ ''_scf.in'')) c1 wd d0 j1 d1
     \<and> ran_on w ''pw.x'' (in_dir wd (pfx @ ''_nscf_dos.in'')) c2 wd d1 j2 d2
     \<and> ran_on w ''dos.x'' (in_dir wd (pfx @ ''_dos.in'')) c3 wd d2 j3 (es_disk st')
     \<and> f = in_dir wd (pfx @ ''_dos.dat'')
     \<and> (passed r \<longleftrightarrow> passed (verify_scf (j_stdout j1)) \<and> passed (verify_nscf (j_stdout j2))
          \<and> w_exists w (es_disk st') f \<and> dos_points (parse_dos (w_np w) (Some (w_text w (es_disk st') f))) \<noteq> 0)
     \<and> recorded res records l records' l' r (input_hash sha c1 @ '':'' @ input_hash sha c2 @ '':'' @ input_hash sha c3)
          (pf_add (pf_add (pf_add (Fin 0) (j_walltime j1)) (j_walltime j2)) (j_walltime j3)) (j_files j1 @ j_files j2 @ j_files j3)"
proof -
  from assms obtain task db js u st0 st1 post where t: "known_task cat task_id = Inr (task, db)"
    and mk: "change (\<lambda>d. w_mkdir w d wd) st = (Inr u, st0)"
    and jobs: "three_jobs w sha dos_plan (ts_material task) (dupdate (ts_parameters task) retry) wd post st0 = (Inr js, st1)"
    and last: "(let f = in_dir wd (lower (ts_material task) @ tp_result dos_plan);
        file = (if w_exists w (es_disk st1) f then Some (w_text w (es_disk st1) f) else None);
        p = parse_dos (w_np w) file; r = verify_t2_dos (j_stdout (tj_scf js)) (j_stdout (tj_nscf js)) f (map_option (\<lambda>_. dos_facts p) file) in
      py (conclude_t2 ctl dos_plan task js r (dos_physical p js @ dos_ranges p js) wd now records l)) st1 = (Inr (res, records', l'), st')"
    unfolding run_t2_dos_def Let_def andThen_Inr [of "py (known_task cat task_id)"] py_Inr split_paired_Ex prod.case
      andThen_Inr [of "change _"] andThen_Inr [of "three_jobs _ _ _ _ _ _ _"] ask_bind by blast
  have task: "get_task_spec cat task_id = Inr task" using t by (auto simp: known_task_def bindr_eq_Inr)
  have st0: "es_disk st0 = w_mkdir w (es_disk st) wd" using mk by (simp add: basic_Inr)
  let ?f = "in_dir wd (lower (ts_material task) @ ''_dos.dat'')"
  let ?file = "if w_exists w (es_disk st1) ?f then Some (w_text w (es_disk st1) ?f) else None"
  let ?r = "verify_t2_dos (j_stdout (tj_scf js)) (j_stdout (tj_nscf js)) ?f (map_option (\<lambda>_. dos_facts (parse_dos (w_np w) ?file)) ?file)"
  from last have c: "\<exists>ph. conclude_t2 ctl dos_plan task js ?r ph wd now records l = Inr (res, records', l')" and st: "st' = st1"
    unfolding Let_def py_Inr by (auto simp: dos_plan_def)
  have p: "passed ?r \<longleftrightarrow> passed (verify_scf (j_stdout (tj_scf js))) \<and> passed (verify_nscf (j_stdout (tj_nscf js)))
      \<and> w_exists w (es_disk st') ?f \<and> dos_points (parse_dos (w_np w) (Some (w_text w (es_disk st') ?f))) \<noteq> 0"
    by (auto simp: t2_passed dos_facts_def st)
  from c obtain ph where ph: "conclude_t2 ctl dos_plan task js ?r ph wd now records l = Inr (res, records', l')" by blast
  from jobs obtain c1 c2 c3 d1 d2 where runs:
    "ran_on w ''pw.x'' (in_dir wd (lower (ts_material task) @ ''_scf.in'')) c1 wd (es_disk st0) (tj_scf js) d1"
    "ran_on w ''pw.x'' (in_dir wd (lower (ts_material task) @ ''_nscf_dos.in'')) c2 wd d1 (tj_nscf js) d2"
    "ran_on w ''dos.x'' (in_dir wd (lower (ts_material task) @ ''_dos.in'')) c3 wd d2 (tj_post js) (es_disk st1)"
    and h: "tj_hash js = input_hash sha c1 @ '':'' @ input_hash sha c2 @ '':'' @ input_hash sha c3"
    by (rule three_jobs_ran) (simp add: dos_plan_def)
  show ?thesis
    by (intro exI conjI; (rule task refl st0 runs runs(1) [unfolded st0] runs(3) [folded st] p conclude_t2_recorded [OF ph, unfolded h])?)
qed

section \<open>The mesh of the second run\<close>

definition agree_but :: "string \<Rightarrow> pyval pydict \<Rightarrow> pyval pydict \<Rightarrow> bool" where
  "agree_but k ps ps' = (\<forall>j. j \<noteq> k \<longrightarrow> dget ps j = dget ps' j)"

lemma agree_get: "agree_but k ps ps' \<Longrightarrow> j \<noteq> k \<Longrightarrow> get_or ps j v = get_or ps' j v"
  by (simp add: agree_but_def get_or_def)

lemma path_ignores_mesh:
  assumes "s_calculation so = ''nscf''" "s_kmode so = ''path''"
  shows "compile_scf lib pd material pg (so\<lparr>s_kpoints := ks\<rparr>) ats cache = compile_scf lib pd material pg so ats cache"
proof -
  have "scf_points lib material (so\<lparr>s_kpoints := ks\<rparr>) db ats = scf_points lib material so db ats" for db
    using assms by (simp add: scf_points_def Let_def)
  then have lines: "scf_lines lib pd material pt (so\<lparr>s_kpoints := ks\<rparr>) db cr al nb ats = scf_lines lib pd material pt so db cr al nb ats" for pt db cr al nb
    by (simp add: scf_lines_def)
  have "s_nbnd (so\<lparr>s_kpoints := ks\<rparr>) = s_nbnd so" by simp
  then show ?thesis unfolding compile_scf_def lines by metis
qed

lemma mesh_arg_ints [simp]: "mesh_arg (ints m) = Inr m"
proof -
  have "mapr (\<lambda>x. case x of PInt i \<Rightarrow> Inr i | _ \<Rightarrow> Inl TypeError) (map PInt m) = (Inr m :: py_exc + int list)" by (induction m) simp_all
  then show ?thesis by (simp add: mesh_arg_def ints_def)
qed

lemma nscf_stage_ignores_mesh:
  assumes "agree_but ''kpoints_nscf'' ps ps'" "dget ps ''kpoints_nscf'' = Some (ints m)" "dget ps' ''kpoints_nscf'' = Some (ints m')"
  shows "pw_stage w material ps ''kpoints_nscf'' ''nscf'' input wd = pw_stage w material ps' ''kpoints_nscf'' ''nscf'' input wd"
proof
  fix st
  note same = agree_get [OF assms(1)]
  let ?rest = "\<lambda>k. bindr (number_arg (get_or ps' ''conv_thr'' default_thr)) (\<lambda>thr. bindr (nbnd_param ps') (\<lambda>nbnd.
      Inr (scf_defaults\<lparr>s_calculation := ''nscf'', s_ecutwfc := opt_param ps' ''ecutwfc'', s_ecutrho := opt_param ps' ''ecutrho'',
        s_kpoints := Some k, s_conv_thr := thr, s_nbnd := nbnd\<rparr>)))"
  have o: "stage_options ps ''kpoints_nscf'' ''nscf'' = ?rest m" "stage_options ps' ''kpoints_nscf'' ''nscf'' = ?rest m'"
    using assms(2,3) by (simp_all add: stage_options_def get_or_def [of _ "''kpoints_nscf''"] same opt_param_def nbnd_param_def)
  show "pw_stage w material ps ''kpoints_nscf'' ''nscf'' input wd st = pw_stage w material ps' ''kpoints_nscf'' ''nscf'' input wd st"
  proof (cases "?rest m")
    case (Inl e)
    then have "?rest m' = Inl e" by (auto simp: bindr_eq_Inl)
    with Inl o show ?thesis by (simp add: pw_stage_def andThen_def py_def)
  next
    case (Inr so)
    then have so: "s_calculation so = ''nscf''" "s_kmode so = ''path''" by (auto simp: bindr_eq_Inr scf_defaults_def)
    from Inr have "?rest m' = Inr (so\<lparr>s_kpoints := Some m'\<rparr>)" by (auto simp: bindr_eq_Inr)
    with Inr o path_ignores_mesh [OF so] show ?thesis by (simp add: pw_stage_def andThen_def py_def emit_stage_def)
  qed
qed

text \<open>
  C34. The mesh of a density-of-states task has no effect. Whatever six numbers the task or the retry gives as \<open>kpoints_nscf\<close>,
  the attempt is the same in its result, its records and the state it leaves: the input of the second run
  samples the band path, because the pipeline leaves the compiler's k-point mode at its default.
\<close>

theorem dos_mesh_ignored:
  assumes "wf_dict retry"
  shows "run_t2_dos w sha ctl cat now task_id wd (dput ''kpoints_nscf'' (ints m) retry) records l
       = run_t2_dos w sha ctl cat now task_id wd (dput ''kpoints_nscf'' (ints m') retry) records l"
proof -
  have wf: "wf_dict (dput ''kpoints_nscf'' v retry)" for v using assms by (simp add: pydict)
  have agree: "agree_but ''kpoints_nscf'' (dupdate d (dput ''kpoints_nscf'' (ints m) retry)) (dupdate d (dput ''kpoints_nscf'' (ints m') retry))" for d
    by (auto simp: agree_but_def dget_dupdate [OF wf] pydict split: option.split)
  have mesh: "dget (dupdate d (dput ''kpoints_nscf'' v retry)) ''kpoints_nscf'' = Some v" for d v
    by (simp add: dget_dupdate [OF wf] pydict)
  have scf: "pw_stage w mat (dupdate d (dput ''kpoints_nscf'' (ints m) retry)) ''kpoints_scf'' ''scf'' input wd
      = pw_stage w mat (dupdate d (dput ''kpoints_nscf'' (ints m') retry)) ''kpoints_scf'' ''scf'' input wd" for d input mat
    by (simp add: pw_stage_def stage_options_def agree_get [OF agree] opt_param_def nbnd_param_def)
  have jobs: "three_jobs w sha plan mat (dupdate d (dput ''kpoints_nscf'' (ints m) retry)) wd post
      = three_jobs w sha plan mat (dupdate d (dput ''kpoints_nscf'' (ints m') retry)) wd post" for d plan mat post
    unfolding three_jobs_def scf nscf_stage_ignores_mesh [OF agree mesh mesh] ..
  have numbers: "get_or (dupdate d (dput ''kpoints_nscf'' (ints m) retry)) ''dos_deltae'' v = get_or (dupdate d (dput ''kpoints_nscf'' (ints m') retry)) ''dos_deltae'' v"
    "get_or (dupdate d (dput ''kpoints_nscf'' (ints m) retry)) ''dos_fwhm'' v = get_or (dupdate d (dput ''kpoints_nscf'' (ints m') retry)) ''dos_fwhm'' v" for d v
    by (simp_all add: agree_get [OF agree])
  show ?thesis unfolding run_t2_dos_def Let_def jobs numbers ..
qed

section \<open>A concrete attempt\<close>

lemma demo_known: "\<exists>task db. known_task initial_catalog ''T2_MgO_dos'' = Inr (task, db) \<and> ts_material task = ''MgO''
     \<and> ts_parameters task = [(''subtype'', PStr ''dos''), (''ecutwfc'', PFloat (Fin 40)), (''ecutrho'', PFloat (Fin 320)),
         (''kpoints_scf'', ints [8, 8, 8, 1, 1, 1]), (''kpoints_nscf'', ints [8, 8, 8, 1, 1, 1]), (''conv_thr'', PFloat (Fin (1 / 10 ^ 8))),
         (''nbnd'', PInt 24), (''dos_deltae'', PFloat (Fin (1 / 100))), (''dos_fwhm'', PFloat (Fin (5 / 100)))]"
proof -
  obtain x where "dget MATERIAL_DB ''MgO'' = Some x"
    unfolding builtin_dget [of "''MgO''", simplified] by (simp add: MATERIAL_BUILTIN_def dget_def)
  moreover have "''MgO'' \<in> set (dkeys MATERIALS)" by code_simp
  with builtin_profiles obtain p where "get_material_profile initial_catalog ''MgO'' = Inr p"
    by (cases "get_material_profile initial_catalog ''MgO''") (auto simp: list_all_iff)
  ultimately show ?thesis
    by (simp add: known_task_def get_task_spec_def initial_catalog_def TASKS_def task_entry_def dget_def spec_of_task_def)
qed

lemma bind_py: "andThen (py (Inr x)) f st = f x st"
  by (simp add: andThen_def py_def)

lemma bind_change: "andThen (change h) f st = f () (st\<lparr>es_disk := h (es_disk st)\<rparr>)"
  by (simp add: andThen_def change_def)

lemma bind_Inr: "m st = (Inr x, st') \<Longrightarrow> andThen m f st = f x st'"
  by (simp add: andThen_def)

lemma demo_pw_stage:
  assumes "stage_options params key calc = Inr so" "compile_scf demo_ase demo_pd ''MgO'' None so None [] = (Inr s, [])"
    "dmem ''/q/pw.x'' d"
  shows "\<exists>c job d'. pw_stage demo_qe ''MgO'' params key calc f wd \<lparr>es_disk = d, es_cache = []\<rparr> = (Inr (c, job), \<lparr>es_disk = d', es_cache = []\<rparr>)
     \<and> dmem ''/q/pw.x'' d' \<and> j_stdout job = (if ends_with ''_scf.in'' f then scf_text else nscf_stdout)"
proof -
  have "dmem f (dput f s d)" "dmem ''/q/pw.x'' (dput f s d)" using assms(3) by (simp_all add: dmem_dput)
  from demo_run [OF this, of wd None] this(2) obtain job d' where "w_run demo_qe ''pw.x'' f wd None (dput f s d) = (Inr job, d')"
    "j_stdout job = (if ends_with ''_scf.in'' f then scf_text else nscf_stdout)" "dmem ''/q/pw.x'' d'" by blast
  then show ?thesis
    by (auto simp: pw_stage_def andThen_def py_def assms emit_stage_def emit_text_def demo_fields change_def ret_def call_out_def)
qed

lemma demo_dos_attempt:
  "\<exists>res records l st. run_t2_dos demo_qe sha default_controller initial_catalog now ''T2_MgO_dos'' ''/w'' [] [] empty_ledger
     \<lparr>es_disk = demo_disk, es_cache = []\<rparr> = (Inr (res, records, l), st)"
proof -
  obtain task db where t: "known_task initial_catalog ''T2_MgO_dos'' = Inr (task, db)" "ts_material task = ''MgO''"
    and ps: "ts_parameters task = [(''subtype'', PStr ''dos''), (''ecutwfc'', PFloat (Fin 40)), (''ecutrho'', PFloat (Fin 320)),
         (''kpoints_scf'', ints [8, 8, 8, 1, 1, 1]), (''kpoints_nscf'', ints [8, 8, 8, 1, 1, 1]), (''conv_thr'', PFloat (Fin (1 / 10 ^ 8))),
         (''nbnd'', PInt 24), (''dos_deltae'', PFloat (Fin (1 / 100))), (''dos_fwhm'', PFloat (Fin (5 / 100)))]"
    using demo_known by blast
  have "\<exists>so. stage_options (ts_parameters task) key calc = Inr so \<and> s_nbnd so = Some 24 \<and> s_kpoints so \<in> {None, Some [8, 8, 8, 1, 1, 1]}"
    if "key \<in> {''kpoints_scf'', ''kpoints_nscf''}" for key calc
    using that by (auto simp: stage_options_def ps get_or_def dget_def nbnd_param_def opt_param_def number_arg_def bindr_def)
  then have stage: "\<exists>c job d'. pw_stage demo_qe ''MgO'' (ts_parameters task) key calc f wd \<lparr>es_disk = d, es_cache = []\<rparr>
        = (Inr (c, job), \<lparr>es_disk = d', es_cache = []\<rparr>)
     \<and> dmem ''/q/pw.x'' d' \<and> j_stdout job = (if ends_with ''_scf.in'' f then scf_text else nscf_stdout)"
    if "key \<in> {''kpoints_scf'', ''kpoints_nscf''}" "dmem ''/q/pw.x'' d" for key calc f wd d
    using that mgo_compiles demo_pw_stage by metis
  have there: "dmem ''/q/pw.x'' demo_disk" by (simp add: demo_disk_def dmem_def dget_def)
  obtain c1 j1 d1 where r1: "pw_stage demo_qe ''MgO'' (ts_parameters task) ''kpoints_scf'' ''scf'' (in_dir ''/w'' ''mgo_scf.in'') ''/w''
      \<lparr>es_disk = demo_disk, es_cache = []\<rparr> = (Inr (c1, j1), \<lparr>es_disk = d1, es_cache = []\<rparr>)" "dmem ''/q/pw.x'' d1"
      "j_stdout j1 = (if ends_with ''_scf.in'' (in_dir ''/w'' ''mgo_scf.in'') then scf_text else nscf_stdout)"
    using stage [OF _ there] by blast
  obtain c2 j2 d2 where r2: "pw_stage demo_qe ''MgO'' (ts_parameters task) ''kpoints_nscf'' ''nscf'' (in_dir ''/w'' ''mgo_nscf_dos.in'') ''/w''
      \<lparr>es_disk = d1, es_cache = []\<rparr> = (Inr (c2, j2), \<lparr>es_disk = d2, es_cache = []\<rparr>)"
      "j_stdout j2 = (if ends_with ''_scf.in'' (in_dir ''/w'' ''mgo_nscf_dos.in'') then scf_text else nscf_stdout)"
    using stage [OF _ r1(2)] by blast
  have "dmem ''MgO'' MATERIAL_DB"
    unfolding dmem_def builtin_dget [of "''MgO''", simplified] by (simp add: MATERIAL_BUILTIN_def dget_def)
  then have c3: "\<exists>c3. compile_dos_input ''MgO'' (Some ''mgo'') None None de fw 1 None = Inr c3" for de fw
    by (simp add: compile_dos_input_def known_material_def)
  have low: "lower ''MgO'' = ''mgo''" by code_simp
  let ?st = "\<lparr>es_disk = demo_disk, es_cache = []\<rparr>"
  have "\<exists>js st1. three_jobs demo_qe sha dos_plan ''MgO'' (ts_parameters task) ''/w'' (compile_dos_input ''MgO'' (Some ''mgo'') None None de fw 1 None) ?st
      = (Inr js, st1) \<and> j_stdout (tj_scf js) = scf_text \<and> j_stdout (tj_nscf js) = nscf_stdout" for de fw
  proof -
    from c3 obtain s where s: "compile_dos_input ''MgO'' (Some ''mgo'') None None de fw 1 None = Inr s" by blast
    have "\<exists>j3 d3. w_run demo_qe ''dos.x'' (in_dir ''/w'' ''mgo_dos.in'') ''/w'' None (dput (in_dir ''/w'' ''mgo_dos.in'') s d2) = (Inr j3, d3)"
      by (simp add: demo_qe_def local_qe_def Let_def split_beta)
    then obtain j3 d3 where j3: "w_run demo_qe ''dos.x'' (in_dir ''/w'' ''mgo_dos.in'') ''/w'' None (dput (in_dir ''/w'' ''mgo_dos.in'') s d2) = (Inr j3, d3)"
      by blast
    have "j_stdout j1 = scf_text" "j_stdout j2 = nscf_stdout" by (simp_all add: r1(3) r2(2) in_dir_def ends_with_def)
    then show ?thesis
      by (simp add: three_jobs_def low dos_plan_def Let_def andThen_def r1(1) r2(1) emit_text_def s py_def change_def ret_def demo_fields
          call_out_def j3)
  qed
  then obtain js st1 where jobs: "three_jobs demo_qe sha dos_plan ''MgO'' (ts_parameters task) ''/w''
        (compile_dos_input ''MgO'' (Some ''mgo'') None None (get_or (ts_parameters task) ''dos_deltae'' (PFloat (Fin (1 / 100))))
          (get_or (ts_parameters task) ''dos_fwhm'' (PFloat (Fin (5 / 100)))) 1 None) ?st = (Inr js, st1)"
    and out: "j_stdout (tj_scf js) = scf_text" "j_stdout (tj_nscf js) = nscf_stdout" by blast
  let ?f = "in_dir ''/w'' (''mgo'' @ tp_result dos_plan)"
  let ?file = "if w_exists demo_qe (es_disk st1) ?f then Some (w_text demo_qe (es_disk st1) ?f) else None"
  let ?r = "verify_t2_dos scf_text nscf_stdout ?f (map_option (\<lambda>_. dos_facts (parse_dos (w_np demo_qe) ?file)) ?file)"
  have "w_np demo_qe = \<lparr>np_table = (\<lambda>_. None), np_interp = (\<lambda>x _ _. x)\<rparr>" by (simp add: demo_qe_def local_qe_def)
  then have none: "dos_points (parse_dos (w_np demo_qe) x) = 0" for x
    by (cases x) (simp_all add: parse_dos_def no_dos_def wide_rows_def)
  have stages: "passed (verify_scf scf_text)" "passed (verify_nscf nscf_stdout)" using demo_texts nscf_good by blast+
  then have "failure_reasons ?r \<in> {[''DOS file not found: '' @ ?f], [''DOS file parsed but empty (no energy points)'']}" and fails: "\<not> passed ?r"
    by (auto simp: t2_reasons t2_passed reason_if_def dos_facts_def none)
  moreover have "classify False [''DOS file not found: '' @ ?f] = DOS_FILE_MISSING"
    "classify False [''DOS file parsed but empty (no energy points)''] = DOS_FILE_MISSING" by code_simp+
  ultimately have "classify (passed ?r) (failure_reasons ?r) = DOS_FILE_MISSING" by auto
  then have "\<exists>acts. assess_t2 default_controller task ?r 0 = Inr (DOS_FILE_MISSING, acts)"
    by (simp add: assess_t2_def plan_actions_def default_controller_def)
  then have "\<exists>a. conclude_t2 default_controller dos_plan task js ?r ph ''/w'' now [] empty_ledger = Inr a" for ph
    by (auto simp: conclude_t2_def bindr_def Let_def)
  then obtain a where a: "conclude_t2 default_controller dos_plan task js ?r
      (dos_physical (parse_dos (w_np demo_qe) ?file) js @ dos_ranges (parse_dos (w_np demo_qe) ?file) js) ''/w'' now [] empty_ledger = Inr a"
    by blast
  have bj: "andThen (three_jobs demo_qe sha dos_plan ''MgO'' (ts_parameters task) ''/w''
        (compile_dos_input ''MgO'' (Some ''mgo'') None None (get_or (ts_parameters task) ''dos_deltae'' (PFloat (Fin (1 / 100))))
          (get_or (ts_parameters task) ''dos_fwhm'' (PFloat (Fin (5 / 100)))) 1 None)) f ?st = f js st1" for f
    by (rule bind_Inr) (rule jobs)
  have disk: "?st\<lparr>es_disk := w_mkdir demo_qe (es_disk ?st) ''/w''\<rparr> = ?st" by (simp add: demo_mkdir)
  have "run_t2_dos demo_qe sha default_controller initial_catalog now ''T2_MgO_dos'' ''/w'' [] [] empty_ledger ?st = (Inr a, st1)"
    unfolding run_t2_dos_def t(1) bind_py prod.case t(2) low Let_def bind_change disk dupdate_simps
      bj ask_bind out a by (simp only: py_def sum.case)
  then show ?thesis by (metis prod_cases3)
qed

theorem dos_attempt_witness:
  "\<exists>res records l st. run_t2_dos demo_qe (\<lambda>s. s) default_controller initial_catalog ''now'' ''T2_MgO_dos'' ''/w'' [] [] empty_ledger
     \<lparr>es_disk = demo_disk, es_cache = []\<rparr> = (Inr (res, records, l), st) \<and> length records = 1 \<and> length (rows l) = 1"
proof -
  obtain res records l st where r: "run_t2_dos demo_qe (\<lambda>s. s) default_controller initial_catalog ''now'' ''T2_MgO_dos'' ''/w'' [] [] empty_ledger
     \<lparr>es_disk = demo_disk, es_cache = []\<rparr> = (Inr (res, records, l), st)" using demo_dos_attempt by blast
  from dos_attempt [OF r] r show ?thesis by (auto simp: recorded_def empty_ledger_def)
qed

theorem dos_mesh_ignored_witness:
  "run_t2_dos demo_qe (\<lambda>s. s) default_controller initial_catalog ''now'' ''T2_MgO_dos'' ''/w'' [(''kpoints_nscf'', ints [1, 1, 1, 0, 0, 0])] [] empty_ledger
   = run_t2_dos demo_qe (\<lambda>s. s) default_controller initial_catalog ''now'' ''T2_MgO_dos'' ''/w'' [(''kpoints_nscf'', ints [24, 24, 24, 0, 0, 0])] [] empty_ledger"
  using dos_mesh_ignored [of "[]"] by (simp add: wf_dict_def dput_def)

end
