(* ===== verification/Agent.thy ===== *)
theory Agent
  imports Runner_T2
begin

text \<open>
  The agent (\<open>agent.py\<close>): a prompt becomes a plan, the plan a task of the catalog, the task a run, the run a row of
  the ledger.

  \<^item> The agent's state is a record: the disk and the compiler's cache, the catalog's table of tasks (\<open>TASKS\<close>, which
    the agent extends) and the ledger, if it has one.
  \<^item> The language model, the reading of \<open>evidence.json\<close> and the text of a JSON value are parameters.
  \<^item> An exception that leaves the agent is a left value; the state after it is still given.
\<close>

section \<open>State and result\<close>

record 'w agent_state =
  ag_run :: "'w qe_state"
  ag_catalog :: catalog
  ag_ledger :: "ledger option"

record solve_result =
  sv_status :: pyval
  sv_task_id :: string
  sv_workflow :: "workflow_ir option"
  sv_result :: "pyval pydict option"
  sv_evidence :: "pyval option"
  sv_recovery_actions :: pyval
  sv_ledger_rows :: int
  sv_error :: pyval

record 'w agent =
  ag_ops :: "'w qe_ops"
  ag_sha :: "string \<Rightarrow> string"
  ag_provider :: "llm_request \<Rightarrow> llm_response"
  ag_evidence :: "'w \<Rightarrow> string \<Rightarrow> py_exc + pyval"
  ag_dump :: "pyval pydict \<Rightarrow> string"
  ag_now :: string

definition failed_solve :: "string \<Rightarrow> string \<Rightarrow> workflow_ir option \<Rightarrow> string \<Rightarrow> solve_result" where
  "failed_solve status task_id plan msg =
    \<lparr>sv_status = PStr status, sv_task_id = task_id, sv_workflow = plan, sv_result = None, sv_evidence = None,
     sv_recovery_actions = PList [], sv_ledger_rows = 0, sv_error = PStr msg\<rparr>"

definition qe_exc_text :: "qe_exc \<Rightarrow> string" where
  "qe_exc_text e = (case e of Tool t \<Rightarrow> te_message t | Py x \<Rightarrow> exc_text x)"

section \<open>The ledger row of a run\<close>

definition texts_of :: "pyval \<Rightarrow> py_exc + string list" where
  "texts_of v = (case v of PList vs \<Rightarrow> Inr (map py_str vs) | _ \<Rightarrow> Inl TypeError)"

definition agent_row :: "string \<Rightarrow> pyval pydict \<Rightarrow> py_exc + ledger_record" where
  "agent_row task_id res =
    bindr (as_real (get_or res ''walltime_sec'' (PFloat (Fin 0)))) (\<lambda>wall.
    bindr (texts_of (get_or res ''failure_reasons'' (PList []))) (\<lambda>reasons.
    bindr (texts_of (get_or res ''recovery_actions'' (PList []))) (\<lambda>actions.
    bindr (texts_of (get_or res ''output_files'' (PList []))) (\<lambda>files.
    Inr \<lparr>lr_task_id = task_id, lr_task_type = py_str (get_or res ''task_type'' (PStr ''unknown'')), lr_attempt = 1,
         lr_success = (get_or res ''status'' PNone = PStr ''pass''), lr_input_hash = py_str (get_or res ''input_hash'' (PStr [])),
         lr_walltime_sec = wall, lr_verifier_passed = py_true (get_or res ''verifier_passed'' (PBool False)),
         lr_failure_reasons = reasons, lr_recovery_actions = actions, lr_failure_kind = [],
         lr_evidence_path = py_str (get_or res ''evidence_path'' (PStr [])), lr_output_files = files, lr_timestamp = []\<rparr>))))"

definition maybe_record_ledger :: "string \<Rightarrow> string \<Rightarrow> pyval pydict \<Rightarrow> ledger option \<Rightarrow> py_exc + ledger option" where
  "maybe_record_ledger now task_id res l =
    (case l of None \<Rightarrow> Inr None
     | Some l0 \<Rightarrow> bindr (agent_row task_id res) (\<lambda>row. Inr (Some (snd (record_run NoRecord row now l0)))))"

section \<open>A known task\<close>

definition read_evidence :: "'w agent \<Rightarrow> string \<Rightarrow> 'w \<Rightarrow> py_exc + pyval option" where
  "read_evidence a path d =
    (if w_exists (ag_ops a) d path then bindr (ag_evidence a d path) (\<lambda>v. Inr (Some v)) else Inr None)"

definition solved :: "string \<Rightarrow> pyval pydict \<Rightarrow> pyval option \<Rightarrow> bool \<Rightarrow> solve_result" where
  "solved task_id res evidence has_ledger =
    \<lparr>sv_status = get_or res ''status'' (PStr ''unknown''), sv_task_id = task_id, sv_workflow = None, sv_result = Some res,
     sv_evidence = evidence, sv_recovery_actions = get_or res ''failure_reasons'' (PList []),
     sv_ledger_rows = (if has_ledger then 1 else 0),
     sv_error = (if get_or res ''status'' PNone \<noteq> PStr ''pass'' then get_or res ''verifier_summary'' PNone else PNone)\<rparr>"

definition write_out :: "'w agent \<Rightarrow> string option \<Rightarrow> pyval pydict \<Rightarrow> 'w \<Rightarrow> 'w" where
  "write_out a dest res d = (case dest of None \<Rightarrow> d | Some [] \<Rightarrow> d
     | Some p \<Rightarrow> w_write (ag_ops a) (w_mkdir (ag_ops a) d (parent_dir p)) p (ag_dump a res))"

definition run_known_task ::
  "'w agent \<Rightarrow> string \<Rightarrow> string \<Rightarrow> string option \<Rightarrow> 'w agent_state \<Rightarrow> (py_exc + solve_result) \<times> 'w agent_state" where
  "run_known_task a task_id workdir dest st =
    (case run_task_deterministic (ag_ops a) (ag_sha a) (ag_catalog st) (ag_now a) task_id workdir [] (ag_run st) of
       (Inl e, r) \<Rightarrow> (Inr (failed_solve ''error'' task_id None (qe_exc_text e)), st\<lparr>ag_run := r\<rparr>)
     | (Inr res, r) \<Rightarrow>
         let st1 = st\<lparr>ag_run := r\<rparr> in
         (case read_evidence a (in_dir workdir ''evidence.json'') (es_disk r) of
            Inl e \<Rightarrow> (Inl e, st1)
          | Inr evidence \<Rightarrow>
              (case maybe_record_ledger (ag_now a) task_id res (ag_ledger st) of
                 Inl e \<Rightarrow> (Inl e, st1)
               | Inr l \<Rightarrow>
                   (Inr (solved task_id res evidence (l \<noteq> None)),
                    st1\<lparr>ag_ledger := l, ag_run := r\<lparr>es_disk := write_out a dest res (es_disk r)\<rparr>\<rparr>))))"

section \<open>A planned workflow\<close>

definition first_subtype :: "step_ir list \<Rightarrow> string option" where
  "first_subtype steps =
    map_option (\<lambda>s. if step_type s = ''bands_nscf'' then ''bands'' else ''dos'')
      (find (\<lambda>s. step_type s \<in> {''bands_nscf'', ''dos_nscf''}) steps)"

definition register_library_task :: "workflow_ir \<Rightarrow> catalog \<Rightarrow> py_exc + (string \<times> catalog) option" where
  "register_library_task plan cat =
    (if lookup_material cat (wf_material plan) = None then Inr None
     else bindr (build_library_task_spec cat (wf_material plan) (wf_task_type plan) (first_subtype (wf_steps plan))) (\<lambda>spec.
          Inr (Some (tk_task_id spec, cat\<lparr>tasks := dput (tk_task_id spec) spec (tasks cat)\<rparr>))))"

definition run_workflow ::
  "'w agent \<Rightarrow> workflow_ir \<Rightarrow> string \<Rightarrow> string option \<Rightarrow> 'w agent_state \<Rightarrow> (py_exc + solve_result) \<times> 'w agent_state" where
  "run_workflow a plan workdir dest st =
    (let task_id = or_else (wf_task_id plan) ''unknown'' in
     case get_task_spec (ag_catalog st) task_id of
       Inr _ \<Rightarrow> run_known_task a task_id workdir dest st
     | Inl (ValueError _) \<Rightarrow>
         (case register_library_task plan (ag_catalog st) of
            Inl e \<Rightarrow> (Inl e, st)
          | Inr None \<Rightarrow> (Inr (failed_solve ''unsupported'' task_id (Some plan)
                (''Material '' @ quoted (wf_material plan) @ '' is not in the material library'')), st)
          | Inr (Some (new_id, cat)) \<Rightarrow> run_known_task a new_id workdir dest (st\<lparr>ag_catalog := cat\<rparr>))
     | Inl e \<Rightarrow> (Inl e, st))"

definition CALCS :: "string list" where
  "CALCS = [''scf'', ''vc-relax'', ''bands'', ''dos'']"

text \<open>A failed plan is a \<open>RuntimeError\<close> or a \<open>ValueError\<close>, which the agent reports.\<close>

definition solve_from_prompt ::
  "'w agent \<Rightarrow> string \<Rightarrow> string \<Rightarrow> string option \<Rightarrow> string option \<Rightarrow> 'w agent_state \<Rightarrow> (py_exc + solve_result) \<times> 'w agent_state" where
  "solve_from_prompt a prompt workdir dest task_id st0 =
    (let st = st0\<lparr>ag_run := (ag_run st0)\<lparr>es_disk := w_mkdir (ag_ops a) (es_disk (ag_run st0)) workdir\<rparr>\<rparr> in
     case task_id of
       Some (c # i) \<Rightarrow> run_known_task a (c # i) workdir dest st
     | _ \<Rightarrow>
         (case plan_from_prompt (ag_provider a)
             \<lparr>rq_prompt = prompt, rq_materials = Some (list_materials (ag_catalog st)), rq_calcs = Some CALCS\<rparr> of
            Inr plan \<Rightarrow> run_workflow a plan workdir dest st
          | Inl e \<Rightarrow> if (case e of RuntimeError _ \<Rightarrow> True | ValueError _ \<Rightarrow> True | _ \<Rightarrow> False)
              then (Inr (failed_solve ''unsupported'' ''unplanned'' None (exc_text e)), st) else (Inl e, st)))"

end
