(* ===== verification/Agent_Props.thy ===== *)
theory Agent_Props
  imports Agent Runner_Props
begin

text \<open>
  What the agent reports and records: the three pipelines return a result made from one report, the agent hands it on
  and adds one row to its ledger; a planned workflow of a library material becomes a task that the right pipeline runs.
\<close>

section \<open>Results of a run\<close>

text \<open>A result read off a report. None of the pipelines puts the recovery actions into it.\<close>

definition reports :: "pyval pydict \<Rightarrow> report \<Rightarrow> bool" where
  "reports res r = (dget res ''status'' = Some (PStr (pass_or_fail (passed r))) \<and> dget res ''verifier_summary'' = Some (PStr (summary r))
     \<and> dget res ''verifier_passed'' = Some (PBool (passed r)) \<and> dget res ''failure_reasons'' = Some (strs (failure_reasons r))
     \<and> dget res ''recovery_actions'' = None \<and> (\<exists>x. dget res ''walltime_sec'' = Some (PFloat x))
     \<and> (\<exists>fs. dget res ''output_files'' = Some (strs fs)))"

lemma t1_reports: "reports (t1_result task job h f wd a) (as_report a)"
  by (auto simp: reports_def t1_result_def dget_def)

lemma t2_reports: "reports (t2_result plan task js r ph wd) r"
  by (auto simp: reports_def t2_result_def dget_def)

lemma concluded_reports:
  "conclude_t1 v ctl task job h f wd xml doc now records l = Inr (res, records', l') \<Longrightarrow> \<exists>r. reports res r"
  "conclude_t2 ctl plan task js r ph wd now records l = Inr (res, records', l') \<Longrightarrow> \<exists>r. reports res r"
  by (auto simp: conclude_t1_def conclude_t2_def bindr_eq_Inr Let_def) (blast intro: t1_reports t2_reports)+

lemma py_result: "py (conclude_t1 v ctl task job h f wd xml doc now records l) st = (Inr (res, records', l'), st') \<Longrightarrow> \<exists>r. reports res r"
  "py (conclude_t2 ctl plan task js r ph wd now records l) st = (Inr (res, records', l'), st') \<Longrightarrow> \<exists>r. reports res r"
  using concluded_reports by (auto simp: py_Inr)

lemma run_t1_reports:
  assumes "run_t1 w sha v ctl cat now task_id wd retry records l st = (Inr (res, records', l'), st')"
  shows "\<exists>r. reports res r"
  using assms unfolding run_t1_def Let_def andThen_Inr split_paired_Ex prod.case by (blast intro: py_result)

lemma run_t2_reports:
  assumes "run_t2_bands w sha ctl cat now task_id wd retry records l st = (Inr (res, records', l'), st')
     \<or> run_t2_dos w sha ctl cat now task_id wd retry records l st = (Inr (res, records', l'), st')"
  shows "\<exists>r. reports res r"
  using assms unfolding run_t2_bands_def run_t2_dos_def Let_def andThen_Inr split_paired_Ex prod.case by (blast intro: py_result)

lemma run_deterministic_reports:
  assumes "run_task_deterministic w sha cat now task_id wd retry st = (Inr res, st')"
  shows "\<exists>r. reports res r"
proof -
  from assms obtain p a st1 where "(case p of
        Relax \<Rightarrow> run_t1 w sha default_verifier default_controller cat now task_id wd retry [] empty_ledger
      | Bands \<Rightarrow> run_t2_bands w sha default_controller cat now task_id wd retry [] empty_ledger
      | Density \<Rightarrow> run_t2_dos w sha default_controller cat now task_id wd retry [] empty_ledger) st1 = (Inr a, st')" and "fst a = res"
    unfolding run_task_deterministic_def by (auto simp: andThen_Inr ret_def)
  then show ?thesis by (cases a; cases p) (auto intro: run_t1_reports run_t2_reports [OF disjI1] run_t2_reports [OF disjI2])
qed

section \<open>Reports and rows of the agent\<close>

lemma texts_of_strs: "texts_of (strs ss) = Inr ss"
  by (simp add: texts_of_def strs_def comp_def)

lemma texts_of_Nil: "texts_of (PList []) = Inr []"
  by (simp add: texts_of_def)

lemma agent_row_of_report:
  assumes "reports res r"
  shows "\<exists>row. agent_row task_id res = Inr row \<and> lr_task_id row = task_id \<and> lr_attempt row = 1 \<and> lr_success row = passed r
     \<and> lr_verifier_passed row = passed r \<and> lr_failure_reasons row = failure_reasons r \<and> lr_recovery_actions row = [] \<and> lr_failure_kind row = []"
proof -
  from assms obtain x fs where "dget res ''walltime_sec'' = Some (PFloat x)" "dget res ''output_files'' = Some (strs fs)"
    by (auto simp: reports_def)
  with assms show ?thesis
    by (simp add: agent_row_def reports_def get_or_def texts_of_strs texts_of_Nil bindr_def pass_or_fail_def arith_def)
qed

lemma failures_untouched:
  assumes "rows l' = rows l @ [row]" "lr_failure_kind row = []"
  shows "failures t l' = failures t l"
  using assms by (cases t) (simp_all add: failures_def of_task_def)

definition unanswered :: "solve_result \<Rightarrow> bool" where
  "unanswered sv = (sv_status sv \<in> {PStr ''unsupported'', PStr ''error''} \<and> sv_result sv = None \<and> sv_ledger_rows sv = 0)"

lemma known_task_reports:
  assumes "run_known_task a task_id wd dest st = (Inr sv, st')"
  shows "unanswered sv \<and> ag_ledger st' = ag_ledger st
        \<or> (\<exists>res r. sv_result sv = Some res \<and> reports res r \<and> sv_status sv = PStr (pass_or_fail (passed r))
             \<and> sv_error sv = (if passed r then PNone else PStr (summary r)) \<and> sv_recovery_actions sv = strs (failure_reasons r)
             \<and> (case ag_ledger st of
                  None \<Rightarrow> ag_ledger st' = None \<and> sv_ledger_rows sv = 0
                | Some l \<Rightarrow> sv_ledger_rows sv = 1 \<and> (\<exists>l' row. ag_ledger st' = Some l' \<and> rows l' = rows l @ [row] \<and> row_id row = last_id l + 1
                    \<and> lr_task_id row = sv_task_id sv \<and> lr_success row = passed r \<and> lr_failure_reasons row = failure_reasons r
                    \<and> lr_recovery_actions row = [] \<and> (\<forall>t. get_failure_patterns t l' = get_failure_patterns t l))))"
proof -
  obtain out rs where run: "run_task_deterministic (ag_ops a) (ag_sha a) (ag_catalog st) (ag_now a) task_id wd [] (ag_run st) = (out, rs)"
    by fastforce
  show ?thesis
  proof (cases out)
    case (Inl e)
    with assms run show ?thesis by (auto simp: run_known_task_def failed_solve_def unanswered_def)
  next
    case (Inr res)
    with run run_deterministic_reports obtain r where r: "reports res r" by blast
    from agent_row_of_report [OF r] obtain row where row: "agent_row task_id res = Inr row" "lr_task_id row = task_id" "lr_attempt row = 1"
      "lr_success row = passed r" "lr_verifier_passed row = passed r" "lr_failure_reasons row = failure_reasons r"
      "lr_recovery_actions row = []" "lr_failure_kind row = []" by blast
    from assms Inr run row(1) obtain evidence where sv: "sv = solved task_id res evidence (ag_ledger st \<noteq> None)"
      and l: "ag_ledger st' = map_option (\<lambda>l0. snd (record_run NoRecord row (ag_now a) l0)) (ag_ledger st)" "ag_catalog st' = ag_catalog st"
      by (auto simp: run_known_task_def Let_def maybe_record_ledger_def split: sum.splits option.splits)
    have s: "get_or res ''status'' x = PStr (pass_or_fail (passed r))" "get_or res ''failure_reasons'' x = strs (failure_reasons r)"
      "get_or res ''verifier_summary'' x = PStr (summary r)" for x using r by (simp_all add: reports_def get_or_def)
    show ?thesis
    proof (cases "ag_ledger st")
      case None
      with r l show ?thesis by (auto simp: sv solved_def s pass_or_fail_def)
    next
      case (Some l0)
      define new where "new = row_of (last_id l0 + 1) (ag_now a) row"
      have "ag_ledger st' = Some (l0\<lparr>rows := rows l0 @ [new], last_id := last_id l0 + 1\<rparr>)" (is "_ = Some ?l")
        by (simp add: l Some record_run_def Let_def build_record_def new_def)
      moreover have "rows ?l = rows l0 @ [new]" "lr_failure_kind new = []" "row_id new = last_id l0 + 1" "lr_task_id new = task_id"
        "lr_success new = passed r" "lr_failure_reasons new = failure_reasons r" "lr_recovery_actions new = []"
        by (simp_all add: new_def row row_of_def)
      moreover from failures_untouched [OF this(1,2)] have "get_failure_patterns t ?l = get_failure_patterns t l0" for t
        by (simp only: get_failure_patterns_def)
      moreover have "sv_result sv = Some res" "sv_task_id sv = task_id" "sv_ledger_rows sv = 1" "sv_status sv = PStr (pass_or_fail (passed r))"
        "sv_error sv = (if passed r then PNone else PStr (summary r))" "sv_recovery_actions sv = strs (failure_reasons r)"
        by (simp_all add: sv solved_def s pass_or_fail_def Some)
      ultimately show ?thesis using r unfolding Some option.case
        by (intro disjI2 exI [of _ res] exI [of _ r] exI [of _ ?l] exI [of _ new] conjI allI) simp_all
    qed
  qed
qed

definition reached :: "'w agent \<Rightarrow> string \<Rightarrow> string option \<Rightarrow> ledger option \<Rightarrow> solve_result \<Rightarrow> 'w agent_state \<Rightarrow> bool" where
  "reached a wd dest l sv st' = (\<exists>tid s. run_known_task a tid wd dest s = (Inr sv, st') \<and> ag_ledger s = l)"

lemma reachedI: "run_known_task a tid wd dest s = (Inr sv, st') \<Longrightarrow> ag_ledger s = l \<Longrightarrow> reached a wd dest l sv st'"
  by (auto simp: reached_def)

lemma workflow_cases:
  assumes "run_workflow a plan wd dest st = (Inr sv, st')"
  shows "reached a wd dest (ag_ledger st) sv st' \<or> unanswered sv \<and> st' = st"
proof (cases "get_task_spec (ag_catalog st) (or_else (wf_task_id plan) ''unknown'')")
  case (Inr t)
  with assms show ?thesis unfolding run_workflow_def Let_def by (auto intro: reachedI)
next
  case (Inl e)
  with assms obtain msg where "e = ValueError msg" unfolding run_workflow_def Let_def by (cases e) auto
  with assms Inl show ?thesis unfolding run_workflow_def Let_def
    by (cases "register_library_task plan (ag_catalog st)") (auto split: option.splits intro: reachedI simp: unanswered_def failed_solve_def)
qed

lemma solve_cases:
  assumes "solve_from_prompt a prompt wd dest tid st = (Inr sv, st')"
  shows "reached a wd dest (ag_ledger st) sv st' \<or> unanswered sv \<and> ag_ledger st' = ag_ledger st"
proof (cases "tid \<in> {None, Some []}")
  let ?st = "st\<lparr>ag_run := (ag_run st)\<lparr>es_disk := w_mkdir (ag_ops a) (es_disk (ag_run st)) wd\<rparr>\<rparr>"
  case False
  then obtain c i where "tid = Some (c # i)" by (cases tid) (auto simp: neq_Nil_conv)
  with assms have "run_known_task a (c # i) wd dest ?st = (Inr sv, st')" unfolding solve_from_prompt_def Let_def by simp
  moreover have "ag_ledger ?st = ag_ledger st" by simp
  ultimately show ?thesis by (blast intro: reachedI)
next
  case True
  let ?st = "st\<lparr>ag_run := (ag_run st)\<lparr>es_disk := w_mkdir (ag_ops a) (es_disk (ag_run st)) wd\<rparr>\<rparr>"
  from True assms consider (planned) plan where "run_workflow a plan wd dest ?st = (Inr sv, st')"
    | (failed) e where "sv = failed_solve ''unsupported'' ''unplanned'' None e" "st' = ?st"
    unfolding solve_from_prompt_def Let_def by (auto split: sum.splits if_splits)
  then show ?thesis by cases (auto dest: workflow_cases simp: unanswered_def failed_solve_def)
qed

text \<open>
  C35. What the agent reports and records. When an agent answers, either nothing was run to its end, and then the ledger is
  as before; or the status, the error and the reasons it reports are those of one report, and the ledger has one more
  row, which says the same. The row never names a failure kind or a recovery action, so the failure summaries
  of the ledger stay as they were whatever the agent ran; and the recovery actions of the answer are the reasons of the
  failure.
\<close>

theorem agent_reports:
  assumes "solve_from_prompt a prompt wd dest tid st = (Inr sv, st')"
  shows "unanswered sv \<and> ag_ledger st' = ag_ledger st
     \<or> (\<exists>res r. sv_result sv = Some res \<and> reports res r \<and> sv_status sv = PStr (pass_or_fail (passed r))
          \<and> sv_error sv = (if passed r then PNone else PStr (summary r)) \<and> sv_recovery_actions sv = strs (failure_reasons r)
          \<and> (case ag_ledger st of
               None \<Rightarrow> ag_ledger st' = None \<and> sv_ledger_rows sv = 0
             | Some l \<Rightarrow> sv_ledger_rows sv = 1 \<and> (\<exists>l' row. ag_ledger st' = Some l' \<and> rows l' = rows l @ [row] \<and> row_id row = last_id l + 1
                 \<and> lr_task_id row = sv_task_id sv \<and> lr_success row = passed r \<and> lr_failure_reasons row = failure_reasons r
                 \<and> lr_recovery_actions row = [] \<and> (\<forall>t. get_failure_patterns t l' = get_failure_patterns t l))))"
proof -
  from solve_cases [OF assms] consider "unanswered sv" "ag_ledger st' = ag_ledger st" | "reached a wd dest (ag_ledger st) sv st'" by blast
  then show ?thesis
  proof cases
    case 2
    then obtain task_id s where "run_known_task a task_id wd dest s = (Inr sv, st')" and l: "ag_ledger s = ag_ledger st"
      by (auto simp: reached_def)
    from known_task_reports [OF this(1)] show ?thesis unfolding l .
  qed simp
qed

section \<open>Planned workflows\<close>

definition pipeline_of :: "workflow_ir \<Rightarrow> pipeline" where
  "pipeline_of plan = (if wf_task_type plan = ''T1'' then Relax
     else if first_subtype (wf_steps plan) = Some ''dos'' then Density else Bands)"

lemma library_spec:
  assumes "build_library_task_spec cat m ty sub = Inr spec"
  shows "tk_material spec = m \<and> tk_task_type spec = ty
     \<and> (ty = ''T2'' \<longrightarrow> dget (tk_parameters spec) ''subtype'' = Some (PStr (or_else (opt_or [] sub) ''bands'')))"
proof (cases "lookup_material cat m")
  case (Some db)
  from assms show ?thesis unfolding build_library_task_spec_def Some option.case Let_def bindr_eq_Inr
    by (auto simp: task_entry_def dget_def split: if_splits)
qed (use assms in \<open>simp add: build_library_task_spec_def\<close>)

text \<open>
  C36. A planned workflow of a material with a profile becomes a task. After the registration the new task's specification is
  that of the plan's material and type, it goes to the pipeline the plan's first non-self-consistent step asks for,
  and every other task stays as it was; a task that had the same id before is replaced.
\<close>

theorem planned_task_dispatched:
  assumes "valid_workflow plan" and "register_library_task plan cat = Inr (Some (tid, cat'))"
    and "get_material_profile cat (wf_material plan) = Inr p"
  shows "\<exists>task. get_task_spec cat' tid = Inr task \<and> ts_task_id task = tid \<and> ts_material task = wf_material plan
     \<and> ts_task_type task = wf_task_type plan \<and> choose_pipeline tid task = Inr (pipeline_of plan)
     \<and> (\<forall>i t. i \<noteq> tid \<longrightarrow> (get_task_spec cat' i = Inr t \<longleftrightarrow> get_task_spec cat i = Inr t))"
proof -
  from assms(2) obtain spec where spec: "build_library_task_spec cat (wf_material plan) (wf_task_type plan) (first_subtype (wf_steps plan)) = Inr spec"
    and t: "tid = tk_task_id spec" and c: "cat' = cat\<lparr>tasks := dput tid spec (tasks cat)\<rparr>"
    by (auto simp: register_library_task_def bindr_eq_Inr split: if_splits)
  have prof: "get_material_profile cat' m = get_material_profile cat m" for m
    unfolding c get_material_profile_def lookup_material_def list_materials_def by (simp split: option.split)
  have sub: "first_subtype (wf_steps plan) \<in> {None, Some ''bands'', Some ''dos''}"
    by (auto simp: first_subtype_def)
  have ty: "wf_task_type plan \<in> {''T1'', ''T2''}" using assms(1) by (simp add: valid_workflow_def)
  have m: "tk_material spec = wf_material plan" "tk_task_type spec = wf_task_type plan"
    and st: "wf_task_type plan = ''T2'' \<Longrightarrow>
      dget (tk_parameters spec) ''subtype'' = Some (PStr (or_else (opt_or [] (first_subtype (wf_steps plan))) ''bands''))"
    using library_spec [OF spec] by auto
  have "choose_pipeline tid (spec_of_task spec p) = Inr (pipeline_of plan)"
    using ty sub m st by (auto simp: spec_of_task_def choose_pipeline_def pipeline_of_def get_or_def or_else_def opt_or_def)
  moreover have "get_task_spec cat' tid = Inr (spec_of_task spec p)"
    using m prof assms(3) by (simp add: get_task_spec_def c pydict)
  moreover have "get_task_spec cat' i = Inr x \<longleftrightarrow> get_task_spec cat i = Inr x" if "i \<noteq> tid" for i x
    using that prof by (auto simp: get_task_spec_def c pydict split: option.splits)
  ultimately show ?thesis using m t by (auto simp: spec_of_task_def)
qed

section \<open>A concrete agent\<close>

definition demo_agent :: "string pydict agent" where
  "demo_agent = \<lparr>ag_ops = demo_qe, ag_sha = (\<lambda>s. s), ag_provider = (\<lambda>q. error_response ''off''), ag_evidence = (\<lambda>d p. Inr PNone),
     ag_dump = (\<lambda>r. []), ag_now = ''now''\<rparr>"

definition demo_agent_state :: "string pydict agent_state" where
  "demo_agent_state = \<lparr>ag_run = \<lparr>es_disk = demo_disk, es_cache = []\<rparr>, ag_catalog = initial_catalog, ag_ledger = Some empty_ledger\<rparr>"

definition demo_plan :: workflow_ir where
  "demo_plan = \<lparr>wf_task_id = ''mine'', wf_task_type = ''T2'', wf_material = ''MgO'',
     wf_steps = [new_step ''a'' ''scf'' ''mgo'' [], new_step ''b'' ''dos_nscf'' ''mgo'' [''a'']], wf_reasoning = []\<rparr>"

lemma demo_solve:
  "\<exists>sv st res. solve_from_prompt demo_agent ''dos of MgO'' ''/w'' None (Some ''T2_MgO_dos'') demo_agent_state = (Inr sv, st)
     \<and> sv_result sv = Some res"
proof -
  obtain res records l rs where r: "run_t2_dos demo_qe (\<lambda>s. s) default_controller initial_catalog ''now'' ''T2_MgO_dos'' ''/w'' [] [] empty_ledger
     \<lparr>es_disk = demo_disk, es_cache = []\<rparr> = (Inr (res, records, l), rs)" using demo_dos_attempt by blast
  obtain task db where t: "known_task initial_catalog ''T2_MgO_dos'' = Inr (task, db)"
    and ps: "dget (ts_parameters task) ''subtype'' = Some (PStr ''dos'')" using demo_known by (auto simp: dget_def)
  from t have g: "get_task_spec initial_catalog ''T2_MgO_dos'' = Inr task" by (auto simp: known_task_def bindr_eq_Inr)
  have ty: "ts_task_type task = ''T2''" using g
    by (auto simp: get_task_spec_def initial_catalog_def TASKS_def task_entry_def dget_def spec_of_task_def bindr_eq_Inr)
  have "choose_pipeline ''T2_MgO_dos'' task = Inr Density" by (simp add: choose_pipeline_def ty get_or_def ps)
  then have run: "run_task_deterministic demo_qe (\<lambda>s. s) initial_catalog ''now'' ''T2_MgO_dos'' ''/w'' []
      \<lparr>es_disk = demo_disk, es_cache = []\<rparr> = (Inr res, rs)"
    by (simp add: run_task_deterministic_def g bindr_def andThen_def py_def r ret_def)
  obtain rep where "reports res rep" using run_deterministic_reports [OF run] by blast
  from agent_row_of_report [OF this] obtain row where "agent_row ''T2_MgO_dos'' res = Inr row" by blast
  then show ?thesis
    by (simp add: solve_from_prompt_def run_known_task_def demo_agent_def demo_agent_state_def demo_mkdir run read_evidence_def
        maybe_record_ledger_def solved_def Let_def)
qed

theorem agent_reports_witness:
  "\<exists>sv st l. solve_from_prompt demo_agent ''dos of MgO'' ''/w'' None (Some ''T2_MgO_dos'') demo_agent_state = (Inr sv, st)
     \<and> ag_ledger st = Some l \<and> length (rows l) = 1 \<and> get_failure_patterns None l = []"
proof -
  obtain sv st res where s: "solve_from_prompt demo_agent ''dos of MgO'' ''/w'' None (Some ''T2_MgO_dos'') demo_agent_state = (Inr sv, st)"
    "sv_result sv = Some res" using demo_solve by blast
  have "ag_ledger demo_agent_state = Some empty_ledger" by (simp add: demo_agent_state_def)
  moreover have "get_failure_patterns None empty_ledger = []"
    by (simp add: get_failure_patterns_def failures_def of_task_def empty_ledger_def)
  ultimately show ?thesis using agent_reports [OF s(1)] s by (auto simp: unanswered_def empty_ledger_def)
qed

theorem planned_task_dispatched_witness:
  "\<exists>cat task. register_library_task demo_plan initial_catalog = Inr (Some (''T2_MgO_dos'', cat))
     \<and> get_task_spec cat ''T2_MgO_dos'' = Inr task \<and> choose_pipeline ''T2_MgO_dos'' task = Inr Density"
proof -
  have "case register_library_task demo_plan initial_catalog of Inr (Some (i, c)) \<Rightarrow> i = ''T2_MgO_dos'' | _ \<Rightarrow> False" by code_simp
  then obtain cat where r: "register_library_task demo_plan initial_catalog = Inr (Some (''T2_MgO_dos'', cat))"
    by (auto split: sum.splits option.splits)
  have v: "valid_workflow demo_plan" by code_simp
  have "''MgO'' \<in> set (dkeys MATERIALS)" by code_simp
  with builtin_profiles obtain p where p: "get_material_profile initial_catalog ''MgO'' = Inr p"
    by (cases "get_material_profile initial_catalog ''MgO''") (auto simp: list_all_iff)
  have "pipeline_of demo_plan = Density" by code_simp
  with planned_task_dispatched [OF v r, of p] p r show ?thesis by (auto simp: demo_plan_def)
qed

end
