(* ===== verification/Step_Prep.thy ===== *)
theory Step_Prep
  imports Planning Qe_Engine
begin

text \<open>
  Preparing a planned step (\<open>agent_loop/step_prep.py\<close>): the guard against doping a material with itself, and the
  arguments that a session adds to a step before the tool is called.

  \<^item> The session is its directory, the context (a dictionary kept between messages), the structure built by an earlier
    step of the plan and the energies that earlier steps computed.
  \<^item> The disk is an argument: which paths are files, and how many atoms the structure in a file has (\<open>None\<close> when
    ASE cannot read it).
  \<^item> An exception is a left value. The callbacks put into the arguments of \<open>graph.run\<close> are left out.
\<close>

section \<open>Doping a material with itself\<close>

definition HOST_ELEMENTS_2D :: "string list pydict" where
  "HOST_ELEMENTS_2D =
    [(''graphene'', [''C'']), (''bn'', [''B'', ''N'']), (''mos2'', [''Mo'', ''S'']), (''ws2'', [''W'', ''S'']), (''mose2'', [''Mo'', ''Se'']),
     (''wse2'', [''W'', ''Se'']), (''mote2'', [''Mo'', ''Te'']), (''wte2'', [''W'', ''Te''])]"

definition KIND_NAMES_2D :: "string pydict" where
  "KIND_NAMES_2D =
    [(''graphene'', (utf8 [0xE7, 0x9F, 0xB3, 0xE5, 0xA2, 0xA8, 0xE7, 0x83, 0xAF])), (''bn'', ''h-BN''), (''mos2'', ''MoS2''), (''ws2'', ''WS2''),
     (''mose2'', ''MoSe2''), (''wse2'', ''WSe2''), (''mote2'', ''MoTe2''), (''wte2'', ''WTe2'')]"

definition str_arg :: "pyval pydict \<Rightarrow> string \<Rightarrow> string \<Rightarrow> string" where
  "str_arg args k d = py_str (get_or args k (PStr d))"

text \<open>\<open>el[:1].upper() + el[1:2].lower()\<close> of a symbol in ASCII.\<close>

definition ascii_upper :: "char \<Rightarrow> char" where
  "ascii_upper c = (if is_lower c then char_of (of_char c - (32 :: int)) else c)"

definition symbol_case :: "string \<Rightarrow> string" where
  "symbol_case el = map ascii_upper (take 1 el) @ lower (take 1 (drop 1 el))"

fun doped_with :: "string \<Rightarrow> pyval list \<Rightarrow> py_exc + string option" where
  "doped_with native [] = Inr None"
| "doped_with native (PDict d # ds) =
     (let el = py_strip (str_arg d ''element'' []) in
      if symbol_case el = native then Inr (Some el) else doped_with native ds)"
| "doped_with native (_ # ds) = Inl AttributeError"

definition self_doped_2d :: "string \<Rightarrow> string \<Rightarrow> string" where
  "self_doped_2d el name =
    (utf8 [0xE8, 0xB7, 0xB3, 0xE8, 0xBF, 0x87, 0xE3, 0x80, 0x8C]) @ el @ (utf8 [0xE6, 0x8E, 0xBA, 0xE6, 0x9D, 0x82]) @ name @ (utf8 [0xE3, 0x80,
        0x8D] @ '': '') @ name @ (utf8 [0xE6, 0x9C, 0xAC, 0xE8, 0xBA, 0xAB, 0xE5, 0xB0, 0xB1, 0xE6, 0x98, 0xAF, 0xE7, 0xBA,
        0xAF]) @ el @ (utf8 [0xE6, 0x9E, 0x84, 0xE6, 0x88, 0x90, 0xE7, 0x9A, 0x84, 0xEF, 0xBC, 0x8C, 0xE6, 0x8A, 0x8A]) @ el @ (utf8 [0xE6, 0x8D,
        0xA2, 0xE6, 0x88, 0x90]) @ el @ (utf8 [0xE5, 0xBE, 0x97, 0xE5, 0x88, 0xB0, 0xE7, 0x9A, 0x84, 0xE8, 0xBF, 0x98, 0xE6, 0x98, 0xAF, 0xE7,
        0xBA, 0xAF]) @ name
    @ (utf8 [0xEF, 0xBC, 0x8C, 0xE8, 0xBF, 0x99, 0xE4, 0xB8, 0xAA, 0xE8, 0xAE, 0xA1, 0xE7, 0xAE, 0x97, 0xE6, 0xB2, 0xA1, 0xE6, 0x9C, 0x89, 0xE7,
        0x89, 0xA9, 0xE7, 0x90, 0x86, 0xE6, 0x84, 0x8F, 0xE4, 0xB9, 0x89, 0xE3, 0x80, 0x82, 0xE5, 0x90, 0x88, 0xE7, 0x90, 0x86, 0xE5, 0x81, 0x9A,
        0xE6, 0xB3, 0x95, 0xEF, 0xBC, 0x9A, 0xE5, 0xAF, 0xB9, 0xE6, 0xAF, 0x94] @ '' '' @ utf8 [0xE6, 0x8E, 0xBA, 0xE6, 0x9D,
        0x82] @ '' vs '' @ utf8 [0xE7, 0xBA, 0xAF]) @ name @ (utf8 [0xEF, 0xBC, 0x88, 0xE4, 0xBE, 0x8B, 0xE5, 0xA6, 0x82, 0xE8, 0xAF, 0xB4, 0x22,
        0xE7, 0xAE, 0x97, 0xE7, 0xBA, 0xAF]) @ name @ (utf8 [0xE7, 0x9A, 0x84, 0xE8, 0x83, 0xBD, 0xE5, 0xB8, 0xA6, 0x22, 0xEF, 0xBC, 0x89, 0xEF,
        0xBC, 0x8C, 0xE6, 0x88, 0x96, 0xE6, 0x94, 0xB9, 0xE7, 0x94, 0xA8, 0xE7, 0x9C, 0x9F, 0xE6, 0xAD, 0xA3, 0xE7, 0x9A, 0x84, 0xE5, 0xBC, 0x82,
        0xE8, 0xB4, 0xA8, 0xE5, 0x8E, 0x9F, 0xE5, 0xAD, 0x90, 0xEF, 0xBC, 0x88, 0xE5, 0xA6, 0x82] @ '' B/N/P/S'' @ utf8 [0xEF, 0xBC, 0x89, 0xE6,
        0x8E, 0xBA, 0xE6, 0x9D, 0x82, 0xE3, 0x80, 0x82])"

definition self_doped :: "string \<Rightarrow> string \<Rightarrow> string" where
  "self_doped el native =
    (utf8 [0xE8, 0xB7, 0xB3, 0xE8, 0xBF, 0x87, 0xE3, 0x80, 0x8C]) @ el @ (utf8 [0xE6, 0x8E, 0xBA, 0xE6, 0x9D, 0x82]) @ native @ (utf8 [0xE3, 0x80,
        0x8D] @ '': '' @ utf8 [0xE6, 0x8E, 0xBA, 0xE6, 0x9D, 0x82, 0xE5, 0x8E, 0x9F, 0xE5, 0xAD, 0x90, 0xE4, 0xB8, 0x8E, 0xE6, 0x9C, 0xAC, 0xE4,
        0xBD, 0x93, 0xE5, 0x85, 0x83, 0xE7, 0xB4, 0xA0, 0xE7, 0x9B, 0xB8, 0xE5, 0x90, 0x8C, 0xEF, 0xBC, 0x8C, 0xE6, 0x9B, 0xBF, 0xE6, 0x8D, 0xA2,
        0xE5, 0x90, 0x8E, 0xE7, 0xBB, 0x93, 0xE6, 0x9E, 0x84, 0xE5, 0xAE, 0x8C, 0xE5, 0x85, 0xA8, 0xE6, 0xB2, 0xA1, 0xE6, 0x9C, 0x89, 0xE5, 0x8F,
        0x98, 0xE5, 0x8C, 0x96, 0xE3, 0x80, 0x82, 0xE8, 0xAF, 0xB7, 0xE6, 0x8D, 0xA2, 0xE4, 0xB8, 0x80, 0xE4, 0xB8, 0xAA, 0xE7, 0x9C, 0x9F, 0xE6,
        0xAD, 0xA3, 0xE7, 0x9A, 0x84, 0xE6, 0x8E, 0xBA, 0xE6, 0x9D, 0x82, 0xE5, 0x85, 0x83, 0xE7, 0xB4, 0xA0, 0xEF, 0xBC, 0x88, 0xE5, 0xA6,
        0x82] @ '' P/B/N'' @ utf8 [0xEF, 0xBC, 0x89, 0xEF, 0xBC, 0x8C, 0xE6, 0x88, 0x96, 0xE7, 0x9B, 0xB4, 0xE6, 0x8E, 0xA5, 0xE8, 0xAE, 0xA1,
        0xE7, 0xAE, 0x97, 0xE7, 0xBA, 0xAF, 0xE4, 0xBD, 0x93, 0xE7, 0xB3, 0xBB, 0xE3, 0x80, 0x82])"

text \<open>The elements of the native; whatever raises makes them unknown.\<close>

definition host_elements :: "ase \<Rightarrow> string \<Rightarrow> string list option" where
  "host_elements ase src =
    (case (if dmem src MATERIAL_DB then build_atoms ase src else bindr (formula_atoms ase src) (\<lambda>(a, _). Inr a)) of
       Inl _ \<Rightarrow> None | Inr a \<Rightarrow> Some (dedupe (at_symbols a)))"

definition check_self_doping :: "ase \<Rightarrow> string \<Rightarrow> pyval pydict \<Rightarrow> py_exc + string option" where
  "check_self_doping ase tool args =
    (if tool = ''structure.build2d'' then
       let kind = str_arg args ''kind'' []; name = (case dget KIND_NAMES_2D kind of Some n \<Rightarrow> n | None \<Rightarrow> kind) in
       (case dget HOST_ELEMENTS_2D kind of
          Some [native] \<Rightarrow>
            bindr (py_list (or_val (getn args ''dopants'') (PList []))) (\<lambda>ds.
            bindr (doped_with native ds) (\<lambda>found. Inr (map_option (\<lambda>el. self_doped_2d el name) found)))
        | _ \<Rightarrow> Inr None)
     else if tool = ''structure.dope'' then
       let el = py_strip (str_arg args ''element'' []); src = str_arg args ''source'' [] in
       Inr (if el \<noteq> [] \<and> host_elements ase src = Some [symbol_case el] then Some (self_doped el src) else None)
     else Inr None)"

section \<open>Arguments of a step\<close>

record step_session =
  ss_dir :: string
  ss_ctx :: "pyval pydict"
  ss_built :: pyval
  ss_energies :: "pyval pydict list"

record step_disk =
  sd_is_file :: "string \<Rightarrow> bool"
  sd_natoms :: "string \<Rightarrow> int option"

definition keep_or :: "(char \<Rightarrow> bool) \<Rightarrow> string \<Rightarrow> string \<Rightarrow> string" where
  "keep_or p r s = concat (map (\<lambda>c. if p c then [c] else r) s)"

definition ascii_alnum :: "char \<Rightarrow> bool" where
  "ascii_alnum c = (is_digit c \<or> is_upper c \<or> is_lower c)"

definition put_text :: "string \<Rightarrow> string \<Rightarrow> pyval pydict \<Rightarrow> pyval pydict" where
  "put_text k v args = dput k (PStr v) args"

definition set_default :: "string \<Rightarrow> pyval \<Rightarrow> pyval pydict \<Rightarrow> pyval pydict" where
  "set_default k v args = (if dmem k args then args else dput k v args)"

definition build2d_output :: "pyval pydict \<Rightarrow> py_exc + string" where
  "build2d_output args =
    (case or_val (getn args ''adsorb'') (PDict []) of
       PDict d \<Rightarrow>
         let kind = keep_or (\<lambda>c. c \<noteq> CHR ''/'') ''_'' (str_arg args ''kind'' ''2d'');
             sc = keep_or (\<lambda>c. c \<noteq> CHR ''x'') ''_'' (str_arg args ''supercell'' ''1x1'');
             site = keep_or (\<lambda>c. c \<noteq> CHR ''/'') ''_'' (str_arg d ''site'' []) in
         Inr (kind @ ''_'' @ sc @ (if site = [] then [] else ''_'' @ site) @ ''.cif'')
     | _ \<Rightarrow> Inl AttributeError)"

definition current_structure :: "step_session \<Rightarrow> pyval" where
  "current_structure s = or_val (ss_built s) (getn (ss_ctx s) ''last_structure_source'')"

definition prepare_analyze :: "step_disk \<Rightarrow> step_session \<Rightarrow> pyval pydict \<Rightarrow> pyval pydict" where
  "prepare_analyze dk s args =
    (if ends_with ''.json'' (str_arg args ''output'' []) then put_text ''output'' (in_dir (ss_dir s) ''structure_analysis.json'') args
     else
       let source = py_str (or_val (getn args ''source'') (PStr [])); cur = current_structure s in
       if source = ''__generated__'' \<or> (py_true cur \<and> \<not> sd_is_file dk source \<and> sd_is_file dk (py_str cur))
       then put_text ''source'' (if py_true cur then py_str cur else source) args else args)"

section \<open>Energies\<close>

text \<open>Comparison and difference of two numbers of atoms.\<close>

definition py_gt :: "pyval \<Rightarrow> pyval \<Rightarrow> py_exc + bool" where
  "py_gt a b = (case (num_of a, num_of b) of (Some x, Some y) \<Rightarrow> Inr (pf_lt y x) | _ \<Rightarrow> Inl TypeError)"

definition py_minus :: "pyval \<Rightarrow> pyval \<Rightarrow> pyval" where
  "py_minus a b = (case (a, b) of (PInt x, PInt y) \<Rightarrow> PInt (x - y)
     | _ \<Rightarrow> (case (num_of a, num_of b) of (Some x, Some y) \<Rightarrow> PFloat (pf_add x (pf_neg y)) | _ \<Rightarrow> PNone))"

text \<open>The last three energies, in the order of the plan: adsorbed system, surface, molecule.\<close>

definition inject_eads :: "pyval pydict list \<Rightarrow> pyval pydict \<Rightarrow> py_exc + pyval pydict" where
  "inject_eads es args =
    (if length es < 3 then Inr args
     else
       let e = (\<lambda>i. es ! (length es - i)); n = (\<lambda>i. getn (e i) ''natoms'');
           with_energies = dput ''ry_m'' (getn (e 1) ''energy_ry'') (dput ''ry_s'' (getn (e 2) ''energy_ry'') (dput ''ry_a'' (getn (e 3) ''energy_ry'') args)) in
       if py_true (n 3) \<and> py_true (n 2) \<and> py_true (n 1) then
         bindr (py_gt (n 3) (n 2)) (\<lambda>more.
         Inr (if more then dput ''nat_mol'' (n 1) (dput ''nat_a'' (py_minus (n 3) (n 2)) with_energies) else with_energies))
       else Inr with_energies)"

definition reference_elements :: "ase \<Rightarrow> string \<Rightarrow> py_exc + string list" where
  "reference_elements ase f = bindr (formula_atoms ase f) (\<lambda>(a, _). Inr (dedupe (at_symbols a)))"

definition inject_formation :: "ase \<Rightarrow> pyval pydict list \<Rightarrow> pyval pydict \<Rightarrow> pyval pydict" where
  "inject_formation ase es args =
    (let els = (case reference_elements ase (str_arg args ''formula'' []) of Inr xs \<Rightarrow> xs | Inl _ \<Rightarrow> []) in
     if es \<noteq> [] \<and> length els + 1 \<le> length es then
       dput ''refs'' (PDict (foldl (\<lambda>d (el, e). dput el (PDict [(''energy_ry'', getn e ''energy_ry''), (''natoms'', or_val (getn e ''natoms'') (PInt 1))]) d)
           [] (zip els (tl es))))
         (dput ''compound_energy'' (getn (hd es) ''energy_ry'') args)
     else args)"

definition last_entries :: "int \<Rightarrow> pyval list \<Rightarrow> pyval list" where
  "last_entries n xs = (if 0 < n then drop (length xs - nat n) xs else drop (nat (- n)) xs)"

definition inject_compare :: "pyval pydict \<Rightarrow> pyval pydict \<Rightarrow> py_exc + pyval pydict" where
  "inject_compare ctx args =
    bindr (py_list (or_val (getn ctx ''ledger'') (PList []))) (\<lambda>entries.
    bindr (as_integer (or_val (getn args ''use_last'') (PInt 2))) (\<lambda>n.
    Inr (if n \<le> int (length entries) then dput ''entries'' (PList (last_entries n entries)) args else args)))"

section \<open>Running a graph\<close>

definition APPROVED_KEYS :: "(string \<times> string list) list" where
  "APPROVED_KEYS =
    [(''t0_scf'', [''ecutwfc'', ''kpoints'']), (''t1_vc_relax'', [''ecutwfc'', ''kpoints'']),
     (''t2_bands'', [''ecutwfc'', ''kpoints'', ''nbnd'', ''nkpoints_bands'']), (''t2_dos'', [''ecutwfc'', ''kpoints'', ''nbnd''])]"

text \<open>A structure built by an earlier step of the plan, or else the structure of an earlier message that is still there.\<close>

definition effective_structure :: "step_disk \<Rightarrow> step_session \<Rightarrow> pyval" where
  "effective_structure dk s =
    (let prev = getn (ss_ctx s) ''last_structure_source'' in
     or_val (ss_built s) (if py_true prev \<and> sd_is_file dk (py_str prev) then prev else PNone))"

definition path_points :: "step_disk \<Rightarrow> pyval \<Rightarrow> pyval pydict \<Rightarrow> pyval pydict \<Rightarrow> pyval pydict" where
  "path_points dk structure args inputs =
    (if \<not> py_true (getn inputs ''nkpoints_bands'') \<and> py_str (getn args ''template_id'') = ''t2_bands'' then
       (case sd_natoms dk (py_str structure) of
          Some n \<Rightarrow> if 4 < n then dput ''nkpoints_bands'' (PInt (if n \<le> 12 then 60 else 40)) inputs else inputs
        | None \<Rightarrow> inputs)
     else inputs)"

definition ddel :: "string \<Rightarrow> pyval pydict \<Rightarrow> pyval pydict" where
  "ddel k d = filter (\<lambda>(x, _). x \<noteq> k) d"

text \<open>\<open>None\<close>: nothing to compute on.\<close>

definition chained_inputs :: "step_disk \<Rightarrow> step_session \<Rightarrow> pyval pydict \<Rightarrow> pyval pydict \<Rightarrow> pyval pydict option" where
  "chained_inputs dk s args inputs =
    (let eff = effective_structure dk s in
     if py_true eff \<and> \<not> py_true (getn inputs ''structure'') then
       Some (path_points dk eff args (ddel ''material'' (dput ''structure'' eff inputs)))
     else if \<not> py_true eff \<and> \<not> py_true (getn inputs ''material'') \<and> \<not> py_true (getn inputs ''structure'') then None
     else Some inputs)"

definition method_card :: "pyval pydict \<Rightarrow> pyval pydict \<Rightarrow> pyval pydict \<Rightarrow> py_exc + pyval pydict" where
  "method_card ctx args inputs =
    (let keys = (case dget APPROVED_KEYS (py_str (or_val (getn args ''template_id'') (PStr []))) of Some ks \<Rightarrow> ks | None \<Rightarrow> []) in
     case or_val (getn ctx ''run_config'') (PDict []) of
       PDict cfg \<Rightarrow> Inr (foldl (\<lambda>d k. if getn cfg k \<in> {PNone, PStr []} then d else dput k (getn cfg k) d) inputs keys)
     | _ \<Rightarrow> if keys = [] then Inr inputs else Inl AttributeError)"

definition prepare_run :: "step_disk \<Rightarrow> step_session \<Rightarrow> pyval pydict \<Rightarrow> py_exc + string option \<times> pyval pydict" where
  "prepare_run dk s args =
    bindr (py_dict (or_val (getn args ''inputs'') (PDict []))) (\<lambda>inputs.
    case chained_inputs dk s args inputs of
      None \<Rightarrow> Inr (Some ''no structure to chain (previous build step failed) and no material given'', args)
    | Some inputs1 \<Rightarrow> bindr (method_card (ss_ctx s) args inputs1) (\<lambda>inputs2. Inr (None, dput ''inputs'' (PDict inputs2) args)))"

section \<open>Every tool\<close>

definition no_abort :: "pyval pydict \<Rightarrow> string option \<times> pyval pydict" where
  "no_abort args = (None, args)"

definition prepare_step_args ::
  "ase \<Rightarrow> step_disk \<Rightarrow> step_session \<Rightarrow> string \<Rightarrow> pyval pydict \<Rightarrow> py_exc + string option \<times> pyval pydict" where
  "prepare_step_args ase dk s tool args =
    (let into = (\<lambda>name. no_abort (put_text ''output'' (in_dir (ss_dir s) name) args)) in
     if tool = ''structure.import'' then Inr (into ''structure.json'')
     else if tool = ''structure.generate'' then Inr (into ''generated.cif'')
     else if tool = ''structure.build2d'' then bindr (build2d_output args) (\<lambda>name. Inr (into name))
     else if tool = ''structure.dope'' then
       Inr (into (''doped_'' @ take 20 (keep_or ascii_alnum ''_'' (str_arg args ''source'' ''mat'')) @ ''_''
         @ take 3 (keep_or ascii_alnum [] (str_arg args ''element'' ''X'')) @ ''.cif''))
     else if tool = ''structure.analyze'' then Inr (no_abort (prepare_analyze dk s args))
     else if tool = ''structure.molecule'' then
       Inr (if py_true (getn args ''output'') then no_abort args
            else into (''molecule_'' @ keep_or (\<lambda>c. is_digit c \<or> is_lower c) [] (str_arg args ''kind'' ''mol'') @ ''.cif''))
     else if tool = ''structure.reference'' then
       Inr (if py_true (getn args ''output'') then no_abort args
            else into (''ref_'' @ keep_or (\<lambda>c. is_upper c \<or> is_lower c) [] (str_arg args ''element'' ''X'') @ ''.cif''))
     else if tool = ''thermo.eads'' \<and> getn args ''ry_a'' = PNone then
       bindr (inject_eads (ss_energies s) args) (\<lambda>a. Inr (no_abort a))
     else if tool = ''thermo.formation'' \<and> \<not> py_true (getn args ''refs'') then
       Inr (no_abort (inject_formation ase (ss_energies s) args))
     else if tool = ''analysis.compare'' \<and> \<not> py_true (getn args ''entries'') then
       bindr (inject_compare (ss_ctx s) args) (\<lambda>a. Inr (no_abort a))
     else if tool = ''input.build'' then
       let args1 = put_text ''output'' (in_dir (ss_dir s) ''input.in'') args in
       Inr (no_abort (if \<not> py_true (getn args1 ''structure'') \<and> py_true (ss_built s) then dput ''structure'' (ss_built s) args1 else args1))
     else if tool \<in> {''graph.run'', ''graph.status'', ''graph.templates''} then
       let args1 = put_text ''workdir'' (in_dir (ss_dir s) ''graphs'') args in
       if tool = ''graph.run'' then prepare_run dk s args1 else Inr (no_abort args1)
     else if tool = ''job.submit'' then
       Inr (no_abort (put_text ''output'' (in_dir (ss_dir s) ''job_result.json'') (put_text ''input'' (in_dir (ss_dir s) ''input.in'') args)))
     else if tool = ''result.parse'' then
       Inr (no_abort (set_default ''type'' (get_or (ss_ctx s) ''last_result_type'' (PStr ''vc-relax''))
         (set_default ''input'' (PStr (in_dir (ss_dir s) ''input.in'')) args)))
     else if tool = ''result.verify'' then
       Inr (no_abort (set_default ''task_type'' (get_or (ss_ctx s) ''last_task_type'' (PStr ''T1''))
         (set_default ''input'' (PStr (in_dir (ss_dir s) ''input.in'')) args)))
     else if tool = ''ledger.query'' then Inr (no_abort (put_text ''database'' (in_dir (parent_dir (ss_dir s)) ''ledger.db'') args))
     else Inr (no_abort args))"

end
