(* ===== verification/Rule_Planner.thy ===== *)
theory Rule_Planner
  imports Step_Prep
begin

text \<open>
  The deterministic planner (\<open>agent_loop/rule_planner.py\<close>): from the signals found in a message to the steps to run.

  \<^item> A message is the bytes of its UTF-8 text, in which letters beyond ASCII have no case and only ASCII characters are
    spaces. The detection of the signals (\<open>intent.py\<close>) is an argument: what is proved holds for all signals.
  \<^item> A step is a dictionary with its tool, arguments and description, as in \<open>Planning\<close>.
\<close>

section \<open>Signals\<close>

record intent_signals =
  material_hint :: "string option"
  pair_types :: "string option"
  formula_hint :: "string option"
  build2d_kind :: "string option"
  dopant_el :: "string option"
  ads_el :: "string option"
  ads_site :: "string option"
  wants_analyze :: bool
  wants_import :: bool
  wants_generate :: bool
  wants_build :: bool
  wants_submit :: bool
  wants_status :: bool
  wants_parse :: bool
  wants_verify :: bool
  wants_ledger :: bool
  wants_doctor :: bool
  wants_compare :: bool
  wants_eads :: bool
  wants_formation :: bool
  wants_2d :: bool
  strong_analyze :: bool
  graph_targets :: "string list"
  has_structure_ctx :: bool
  has_job_ctx :: bool

definition given :: "string option \<Rightarrow> bool" where
  "given x = (x \<notin> {None, Some []})"

definition first_of :: "string option list \<Rightarrow> string \<Rightarrow> string" where
  "first_of xs dflt = (case filter given xs of Some s # _ \<Rightarrow> s | _ \<Rightarrow> dflt)"

definition mk_step :: "string \<Rightarrow> pyval pydict \<Rightarrow> string \<Rightarrow> pyval pydict" where
  "mk_step tool args desc = [(''tool'', PStr tool), (''args'', PDict args), (''description'', PStr desc)]"

definition run_step :: "string \<Rightarrow> pyval pydict \<Rightarrow> string \<Rightarrow> pyval pydict" where
  "run_step template inputs desc = mk_step ''graph.run'' [(''template_id'', PStr template), (''inputs'', PDict inputs)] desc"

section \<open>Text\<close>

definition ascii_space :: "char \<Rightarrow> bool" where
  "ascii_space c = (c \<in> set [CHR '' '', CHR 0x09, CHR 0x0A, CHR 0x0B, CHR 0x0C, CHR 0x0D])"

definition ascii_strip :: "string \<Rightarrow> string" where
  "ascii_strip s = rev (dropWhile ascii_space (rev (dropWhile ascii_space s)))"

definition ascii_lower :: "string \<Rightarrow> string" where
  "ascii_lower s = map (\<lambda>c. if is_upper c then char_of (of_char c + (32 :: int)) else c) s"

definition last_word :: "string \<Rightarrow> string \<Rightarrow> string" where
  "last_word dflt s = (let t = rev (takeWhile (\<lambda>c. \<not> ascii_space c) (rev (ascii_strip s))) in if t = [] then dflt else t)"

definition CONFIRMATIONS :: "string list" where
  "CONFIRMATIONS = [(utf8 [0xE9, 0x9C, 0x80, 0xE8, 0xA6, 0x81]), (utf8 [0xE5, 0x8F, 0xAF, 0xE4, 0xBB, 0xA5]), (utf8 [0xE5, 0xA5, 0xBD, 0xE7, 0x9A,
        0x84]), (utf8 [0xE5, 0xA5, 0xBD]), (utf8 [0xE7, 0xBB, 0xA7, 0xE7, 0xBB, 0xAD]), (utf8 [0xE6, 0x98, 0xAF, 0xE7, 0x9A, 0x84]), (utf8 [0xE8,
        0xA6, 0x81]), (utf8 [0xE8, 0xAF, 0xB7]), (utf8 [0xE6, 0x8F, 0x90, 0xE5, 0x8F, 0x96]), (utf8 [0xE6, 0x8B, 0xBF, 0xE5, 0x87, 0xBA, 0xE6,
        0x9D, 0xA5])]"

definition is_confirmation :: "string \<Rightarrow> bool" where
  "is_confirmation message = list_ex (\<lambda>w. case strip_prefix w (ascii_strip message) of
     None \<Rightarrow> False | Some r \<Rightarrow> ascii_strip r \<in> set [[], (utf8 [0xE3, 0x80, 0x82]), (utf8 [0xEF, 0xBC,
        0x81]), ''!'', '','', ''.'', (utf8 [0xEF, 0xBC, 0x8C])]) CONFIRMATIONS"

definition mentions :: "string \<Rightarrow> string list \<Rightarrow> bool" where
  "mentions s ks = list_ex (\<lambda>k. contains k s) ks"

section \<open>Comparison\<close>

definition compare_metric :: "string \<Rightarrow> string" where
  "compare_metric low =
    (if mentions low [(utf8 [0xE8, 0x83, 0xBD, 0xE9, 0x87, 0x8F]), ''energy''] then ''energy''
     else if mentions low [(utf8 [0xE8, 0x83, 0xBD, 0xE5, 0xB8, 0xA6]), (utf8 [0xE5, 0xB8, 0xA6, 0xE9, 0x9A, 0x99]), (utf8 [0xE5, 0xB8, 0xA6, 0xE7,
        0xBB, 0x93, 0xE6, 0x9E, 0x84]), ''band''] then ''band_gap'' else ''auto'')"

definition entry_label :: "pyval \<Rightarrow> py_exc + string" where
  "entry_label e = (case e of PDict d \<Rightarrow> Inr (py_str (or_val (or_val (getn d ''label'') (getn d ''material'')) (PStr (utf8 [0xE8, 0xAE,
        0xA1, 0xE7, 0xAE, 0x97]))))
     | _ \<Rightarrow> Inl AttributeError)"

definition compare_notice :: "string \<Rightarrow> string" where
  "compare_notice known = (utf8 [0xE5, 0xAF, 0xB9, 0xE6, 0xAF, 0x94, 0xE9, 0x9C, 0x80, 0xE8, 0xA6, 0x81, 0xE5, 0x85, 0x88, 0xE6, 0x9C, 0x89, 0xE4,
        0xB8, 0xA4, 0xE4, 0xB8, 0xAA, 0xE4, 0xBD, 0x93, 0xE7, 0xB3, 0xBB, 0xE7, 0x9A, 0x84, 0xE8, 0xAE, 0xA1, 0xE7, 0xAE, 0x97, 0xE7, 0xBB, 0x93,
        0xE6, 0x9E, 0x9C, 0xE3, 0x80, 0x82, 0xE6, 0x9C, 0xAC, 0xE4, 0xBC, 0x9A, 0xE8, 0xAF, 0x9D, 0xE5, 0xB7, 0xB2, 0xE6, 0x9C,
        0x89] @ '': '') @ known
     @ (utf8 [0xE3, 0x80, 0x82, 0xE8, 0xAF, 0xB7, 0xE5, 0x85, 0x88, 0xE8, 0xA1, 0xA5, 0xE7, 0xAE, 0x97, 0xE5, 0x8F, 0xA6, 0xE4, 0xB8, 0x80, 0xE4,
        0xB8, 0xAA, 0xE4, 0xBD, 0x93, 0xE7, 0xB3, 0xBB, 0xEF, 0xBC, 0x88, 0xE4, 0xBE, 0x8B, 0xE5, 0xA6, 0x82, 0x27, 0xE7, 0xAE, 0x97, 0xE7, 0xBA,
        0xAF, 0xE7, 0x9F, 0xB3, 0xE5, 0xA2, 0xA8, 0xE7, 0x83, 0xAF, 0xE7, 0x9A, 0x84, 0xE8, 0x83, 0xBD, 0xE5, 0xB8, 0xA6, 0x27, 0xEF, 0xBC, 0x89,
        0xEF, 0xBC, 0x8C, 0xE5, 0x86, 0x8D, 0xE8, 0xAF, 0xB4, 0x27, 0xE5, 0xAF, 0xB9, 0xE6, 0xAF, 0x94, 0x27, 0xE5, 0x8D, 0xB3, 0xE5, 0x8F, 0xAF,
        0xE3, 0x80, 0x82])"

text \<open>\<open>None\<close>: the message names a system, which is planned as usual.\<close>

definition plan_compare :: "intent_signals \<Rightarrow> string \<Rightarrow> pyval list \<Rightarrow> py_exc + pyval pydict list option" where
  "plan_compare sig low entries =
    (if 2 \<le> length entries then
       Inr (Some [mk_step ''analysis.compare'' [(''use_last'', PInt 2), (''metric'', PStr (compare_metric low))] (utf8 [0xE5, 0xAF, 0xB9, 0xE6,
        0xAF, 0x94, 0xE6, 0x9C, 0xAC, 0xE4, 0xBC, 0x9A, 0xE8, 0xAF, 0x9D, 0xE6, 0x9C, 0x80, 0xE8, 0xBF, 0x91, 0xE4, 0xB8, 0xA4, 0xE6, 0xAC, 0xA1,
        0xE8, 0xAE, 0xA1, 0xE7, 0xAE, 0x97])])
     else if given (build2d_kind sig) \<or> given (dopant_el sig) \<or> given (formula_hint sig) \<or> given (material_hint sig) then Inr None
     else bindr (mapr entry_label entries) (\<lambda>labels.
       let joined = join (utf8 [0xE3, 0x80, 0x81]) labels; known = (if joined = [] then (utf8 [0xE8, 0xBF, 0x98, 0xE6, 0xB2, 0xA1, 0xE6, 0x9C,
        0x89, 0xE4, 0xBB, 0xBB, 0xE4, 0xBD, 0x95, 0xE8, 0xAE, 0xA1, 0xE7, 0xAE, 0x97, 0xE8, 0xAE, 0xB0, 0xE5, 0xBD, 0x95]) else joined) in
       Inr (Some [mk_step ''help'' [(''topic'', PStr ''compare'')] (compare_notice known)])))"

section \<open>Adsorption energy\<close>

definition ADSORBATE_MOLECULE :: "string pydict" where
  "ADSORBATE_MOLECULE =
    [(''O'', ''o2''), (''N'', ''n2''), (''H'', ''h2''), (''Cl'', ''cl2''), (''F'', ''f2''), (''CO'', ''co''), (''OH'', ''oh''),
     (''NO'', ''no''), (''H2O'', ''h2o''), (''CO2'', ''co2''), (''NH3'', ''nh3'')]"

definition ELEMENTS :: "string list" where
  "ELEMENTS = words
    (''H He Li Be B C N O F Ne Na Mg Al Si P S Cl Ar K Ca Sc Ti V Cr Mn Fe Co Ni Cu Zn Ga '' @
     ''Ge As Se Br Kr Rb Sr Y Zr Nb Mo Tc Ru Rh Pd Ag Cd In Sn Sb Te I Xe Cs Ba La Ce Pr Nd Pm '' @
     ''Sm Eu Gd Tb Dy Ho Er Tm Yb Lu Hf Ta W Re Os Ir Pt Au Hg Tl Pb Bi Po At Rn Fr Ra Ac Th Pa U Np Pu'')"

definition FALLBACK_MOLECULES :: "string list" where
  "FALLBACK_MOLECULES = [''co2'', ''h2o'', ''nh3'', ''cl2'', ''o2'', ''n2'', ''h2'', ''co'']"

definition molecule_of :: "string \<Rightarrow> string \<Rightarrow> string option" where
  "molecule_of adsorbate low =
    (case dget ADSORBATE_MOLECULE (map ascii_upper adsorbate) of
       Some m \<Rightarrow> Some m
     | None \<Rightarrow>
         (case dget ADSORBATE_MOLECULE (ascii_lower adsorbate) of
            Some m \<Rightarrow> Some m
          | None \<Rightarrow> find (\<lambda>mk. contains mk (filter (\<lambda>c. c \<noteq> CHR '' '' \<and> c \<noteq> CHR ''-'') low)) FALLBACK_MOLECULES))"

definition capitalized :: "string \<Rightarrow> string" where
  "capitalized s = map ascii_upper (take 1 s) @ ascii_lower (drop 1 s)"

definition single_atom :: "string \<Rightarrow> bool" where
  "single_atom adsorbate = (length adsorbate \<le> 2 \<and> capitalized adsorbate \<in> set ELEMENTS)"

definition eads_notice :: "string \<Rightarrow> string" where
  "eads_notice adsorbate = (utf8 [0xE5, 0x88, 0x86, 0xE5, 0xAD, 0x90, 0xE5, 0x90, 0xB8, 0xE9, 0x99, 0x84, 0xEF, 0xBC,
        0x88]) @ adsorbate @ (utf8 [0xEF, 0xBC, 0x89, 0xE7, 0x9A, 0x84, 0xE5, 0xA4, 0x9A, 0xE5, 0x8E, 0x9F, 0xE5, 0xAD, 0x90, 0xE5, 0xBB, 0xBA,
        0xE6, 0xA8, 0xA1, 0xE6, 0x9A, 0x82, 0xE4, 0xB8, 0x8D, 0xE6, 0x94, 0xAF, 0xE6, 0x8C, 0x81, 0xEF, 0xBC, 0x9B, 0xE5, 0xBD, 0x93, 0xE5, 0x89,
        0x8D] @ '' E_ads '' @ utf8 [0xE9, 0x97, 0xAD, 0xE7, 0x8E, 0xAF, 0xE6, 0x94, 0xAF, 0xE6, 0x8C, 0x81, 0xE5, 0x8D, 0x95, 0xE5, 0x8E, 0x9F,
        0xE5, 0xAD, 0x90, 0xE5, 0x90, 0xB8, 0xE9, 0x99, 0x84, 0xEF, 0xBC, 0x88] @ ''O/H/N/Cl'' @ utf8 [0xEF, 0xBC, 0x8C, 0xE6, 0xB0, 0x94, 0xE7,
        0x9B, 0xB8, 0xE5, 0x8F, 0x82, 0xE8, 0x80, 0x83] @ '' O'' @ utf8 [0xE2, 0x82, 0x82] @ ''/H'' @ utf8 [0xE2, 0x82,
        0x82] @ ''/N'' @ utf8 [0xE2, 0x82, 0x82] @ ''/Cl'' @ utf8 [0xE2, 0x82, 0x82, 0xEF, 0xBC, 0x89, 0xE3, 0x80, 0x82, 0xE5, 0x8F, 0xAF, 0xE5,
        0x85, 0x88, 0xE7, 0xAE, 0x97, 0xE5, 0x8E, 0x9F, 0xE5, 0xAD, 0x90, 0xE5, 0x90, 0xB8, 0xE9, 0x99, 0x84, 0xE8, 0x83, 0xBD, 0xE3, 0x80, 0x82])"

definition eads_steps :: "string \<Rightarrow> string \<Rightarrow> string \<Rightarrow> string \<Rightarrow> pyval pydict list" where
  "eads_steps kind adsorbate site molecule =
    [mk_step ''structure.build2d'' [(''kind'', PStr kind), (''supercell'', PStr ''3x3''),
        (''adsorb'', PDict [(''element'', PStr adsorbate), (''site'', PStr site)])]
       ((utf8 [0xE6, 0x9E, 0x84, 0xE5, 0xBB, 0xBA, 0xE5, 0x90, 0xB8, 0xE9, 0x99, 0x84, 0xE4, 0xBD, 0x93, 0xE7, 0xB3,
        0xBB] @ '': '') @ adsorbate @ ''@'' @ kind @ ('' 3x3 '' @ utf8 [0xE8, 0xB6, 0x85, 0xE8, 0x83, 0x9E] @ ''('') @ site @ (utf8 [0xE4, 0xBD,
        0x8D] @ '')'')),
     run_step ''t0_scf'' [] (utf8 [0xE5, 0x90, 0xB8, 0xE9, 0x99, 0x84, 0xE4, 0xBD, 0x93, 0xE7, 0xB3, 0xBB, 0xE5, 0x8D, 0x95, 0xE7, 0x82, 0xB9,
        0xE8, 0x83, 0xBD] @ '' E(surf+ads)''),
     mk_step ''structure.build2d'' [(''kind'', PStr kind), (''supercell'', PStr ''3x3'')] ((utf8 [0xE6, 0x9E, 0x84, 0xE5, 0xBB, 0xBA, 0xE7, 0xBA,
        0xAF, 0xE8, 0xA1, 0xA8, 0xE9, 0x9D, 0xA2] @ '': '') @ kind @ ('' 3x3 '' @ utf8 [0xE8, 0xB6, 0x85, 0xE8, 0x83, 0x9E])),
     run_step ''t0_scf'' [] (utf8 [0xE7, 0xBA, 0xAF, 0xE8, 0xA1, 0xA8, 0xE9, 0x9D, 0xA2, 0xE5, 0x8D, 0x95, 0xE7, 0x82, 0xB9, 0xE8, 0x83,
        0xBD] @ '' E(surf)''),
     mk_step ''structure.molecule'' [(''kind'', PStr molecule)] ((utf8 [0xE6, 0x9E, 0x84, 0xE5, 0xBB, 0xBA, 0xE6, 0xB0, 0x94, 0xE4, 0xBD, 0x93,
        0xE5, 0x88, 0x86, 0xE5, 0xAD, 0x90, 0xE5, 0x8F, 0x82, 0xE8, 0x80, 0x83] @ '' '') @ map ascii_upper molecule),
     run_step ''t0_scf'' [] (utf8 [0xE5, 0x88, 0x86, 0xE5, 0xAD, 0x90, 0xE5, 0x8D, 0x95, 0xE7, 0x82, 0xB9, 0xE8, 0x83, 0xBD] @ '' E(mol)''),
     mk_step ''thermo.eads'' [] (utf8 [0xE8, 0xAE, 0xA1, 0xE7, 0xAE, 0x97, 0xE5, 0x90, 0xB8, 0xE9, 0x99, 0x84, 0xE8, 0x83,
        0xBD] @ '' E_ads = E(surf+ads) '' @ utf8 [0xE2, 0x88, 0x92] @ '' E(surf) '' @ utf8 [0xE2, 0x88, 0x92] @ '' E(mol)'')]"

definition plan_eads :: "intent_signals \<Rightarrow> string \<Rightarrow> pyval pydict list option" where
  "plan_eads sig low =
    (let adsorbate = first_of [ads_el sig] ''O'' in
     case (build2d_kind sig, molecule_of adsorbate low) of
       (Some (c # k), Some (d # m)) \<Rightarrow>
         Some (if single_atom adsorbate then eads_steps (c # k) adsorbate (first_of [ads_site sig] ''top'') (d # m)
               else [mk_step ''help'' [(''topic'', PStr ''eads'')] (eads_notice adsorbate)])
     | _ \<Rightarrow> None)"

section \<open>Formation energy\<close>

definition REFERENCE_ELEMENTS :: "string list" where
  "REFERENCE_ELEMENTS = [''Si'', ''Ge'', ''C'', ''Sn'', ''Na'', ''K'', ''Mo'', ''W'', ''V'', ''Nb'', ''Ta'', ''Cr'', ''Fe'', ''Ca'', ''Al'', ''Ni'', ''Cu'', ''Ag'', ''Au'', ''Pt'', ''Pd'', ''Pb'', ''Ti'', ''Zr'', ''Hf'', ''Mg'', ''Zn'', ''Co'', ''O'', ''N'', ''H'', ''Cl'', ''F'']"

definition formation_notice :: "string \<Rightarrow> string list \<Rightarrow> string" where
  "formation_notice cmpd missing = (utf8 [0xE6, 0x9A, 0x82, 0xE6, 0x97, 0xA0, 0xE6, 0xB3, 0x95, 0xE8, 0xAE, 0xA1, 0xE7, 0xAE,
        0x97] @ '' '') @ cmpd @ ('' '' @ utf8 [0xE7, 0x9A, 0x84, 0xE5, 0xBD, 0xA2, 0xE6, 0x88, 0x90, 0xE8, 0x83, 0xBD, 0xEF, 0xBC, 0x9A, 0xE7,
        0xBC, 0xBA, 0xE5, 0xB0, 0x91, 0xE5, 0x85, 0x83, 0xE7, 0xB4, 0xA0, 0xE5, 0x8F, 0x82, 0xE8, 0x80, 0x83, 0xE6, 0x80, 0x81, 0xEF, 0xBC,
        0x88]) @ join '', '' missing
     @ (utf8 [0xEF, 0xBC, 0x89, 0xE3, 0x80, 0x82, 0xE5, 0xBD, 0x93, 0xE5, 0x89, 0x8D, 0xE6, 0x94, 0xAF, 0xE6, 0x8C, 0x81, 0xE7, 0x9A, 0x84, 0xE5,
        0x85, 0x83, 0xE7, 0xB4, 0xA0] @ '': '') @ join '', '' (sort REFERENCE_ELEMENTS)"

definition formation_steps :: "string \<Rightarrow> string list \<Rightarrow> pyval pydict list" where
  "formation_steps cmpd els =
    [run_step ''t0_scf'' [(''material'', PStr cmpd)] (cmpd @ ('' '' @ utf8 [0xE5, 0x8C, 0x96, 0xE5, 0x90, 0x88, 0xE7, 0x89, 0xA9, 0xE5, 0x8D, 0x95,
        0xE7, 0x82, 0xB9, 0xE8, 0x83, 0xBD]))]
    @ concat (map (\<lambda>el. [mk_step ''structure.reference'' [(''element'', PStr el)] ((utf8 [0xE6, 0x9E, 0x84, 0xE5, 0xBB,
        0xBA] @ '' '') @ el @ ('' '' @ utf8 [0xE5, 0x85, 0x83, 0xE7, 0xB4, 0xA0, 0xE5, 0x8F, 0x82, 0xE8, 0x80, 0x83, 0xE6, 0x80, 0x81])),
        run_step ''t0_scf'' [] (el @ ('' '' @ utf8 [0xE5, 0x8F, 0x82, 0xE8, 0x80, 0x83, 0xE6, 0x80, 0x81, 0xE5, 0x8D, 0x95, 0xE7, 0x82, 0xB9, 0xE8,
        0x83, 0xBD]))]) els)
    @ [mk_step ''thermo.formation'' [(''formula'', PStr cmpd)] ((utf8 [0xE8, 0xAE, 0xA1, 0xE7, 0xAE, 0x97] @ '' '') @ cmpd @ ('' '' @ utf8 [0xE5,
        0xBD, 0xA2, 0xE6, 0x88, 0x90, 0xE8, 0x83, 0xBD]))]"

definition plan_formation :: "ase \<Rightarrow> string \<Rightarrow> pyval pydict list" where
  "plan_formation ase cmpd =
    (let els = (case reference_elements ase cmpd of Inr xs \<Rightarrow> xs | Inl _ \<Rightarrow> []);
         missing = filter (\<lambda>e. e \<notin> set REFERENCE_ELEMENTS) els in
     if missing \<noteq> [] then [mk_step ''help'' [(''topic'', PStr ''formation'')] (formation_notice cmpd missing)]
     else formation_steps cmpd els)"

section \<open>Structures to build\<close>

definition TARGET_LABELS :: "string pydict" where
  "TARGET_LABELS = [(''t2_bands'', (utf8 [0xE8, 0x83, 0xBD, 0xE5, 0xB8, 0xA6, 0xE7, 0xBB, 0x93, 0xE6, 0x9E, 0x84])), (''t2_dos'', (utf8 [0xE6,
        0x80, 0x81, 0xE5, 0xAF, 0x86, 0xE5, 0xBA, 0xA6])), (''t1_vc_relax'', (utf8 [0xE7, 0xBB, 0x93, 0xE6, 0x9E, 0x84, 0xE4, 0xBC, 0x98, 0xE5,
        0x8C, 0x96]))]"

definition kind_label :: "string \<Rightarrow> string" where
  "kind_label kind = (if kind \<in> {''graphene'', ''bn'', ''mos2'', ''ws2'', ''mose2'', ''wse2''}
     then (case dget KIND_NAMES_2D kind of Some n \<Rightarrow> n | None \<Rightarrow> kind) else kind)"

definition opt_text :: "string option \<Rightarrow> string" where
  "opt_text x = (case x of Some s \<Rightarrow> s | None \<Rightarrow> ''None'')"

definition build2d_args :: "intent_signals \<Rightarrow> string \<Rightarrow> pyval pydict" where
  "build2d_args sig kind =
    [(''kind'', PStr kind)]
    @ (if given (dopant_el sig) \<or> given (ads_el sig) then [(''supercell'', PStr ''3x3'')] else [])
    @ (if given (dopant_el sig) then [(''dopants'', PList [PDict [(''index'', PInt 0), (''element'', PStr (opt_text (dopant_el sig)))]])] else [])
    @ (if given (ads_el sig) then [(''adsorb'', PDict [(''element'', PStr (opt_text (ads_el sig))), (''site'', PStr (first_of [ads_site sig] ''top''))])] else [])"

definition build_steps :: "intent_signals \<Rightarrow> pyval pydict list" where
  "build_steps sig =
    (if given (build2d_kind sig) then
       let kind = opt_text (build2d_kind sig) in
       [mk_step ''structure.build2d'' (build2d_args sig kind)
         ((utf8 [0xE6, 0x9E, 0x84, 0xE5, 0xBB, 0xBA]) @ kind_label kind @ (utf8 [0xE5, 0x8D, 0x95, 0xE5, 0xB1,
        0x82]) @ (if given (dopant_el sig) then opt_text (dopant_el sig) @ (utf8 [0xE6, 0x8E, 0xBA, 0xE6, 0x9D, 0x82]) else [])
          @ (if given (ads_el sig) then opt_text (ads_el sig) @ (utf8 [0xE5, 0x90, 0xB8, 0xE9, 0x99,
        0x84] @ ''('') @ opt_text (ads_site sig) @ '')'' else []))]
     else if given (dopant_el sig) \<and> first_of [formula_hint sig, material_hint sig] [] \<noteq> [] then
       let source = first_of [formula_hint sig, material_hint sig] []; el = opt_text (dopant_el sig) in
       [mk_step ''structure.dope'' [(''source'', PStr source), (''element'', PStr el), (''supercell'', PStr ''2x2x2'')]
         ((utf8 [0xE6, 0x9E, 0x84, 0xE5, 0xBB, 0xBA]) @ el @ (utf8 [0xE6, 0x8E, 0xBA, 0xE6, 0x9D, 0x82]) @ source @ (utf8 [0xE8, 0xB6, 0x85, 0xE8,
        0x83, 0x9E]))]
     else [])"

definition system_name :: "intent_signals \<Rightarrow> string" where
  "system_name sig =
    (if given (build2d_kind sig) then
       let kind = opt_text (build2d_kind sig); name = (case dget KIND_NAMES_2D kind of Some n \<Rightarrow> n | None \<Rightarrow> kind) in
       if given (dopant_el sig) then opt_text (dopant_el sig) @ (utf8 [0xE6, 0x8E, 0xBA, 0xE6, 0x9D, 0x82]) @ name
       else if given (ads_el sig) then name @ ''('' @ opt_text (ads_el sig) @ (utf8 [0xE5, 0x90, 0xB8, 0xE9, 0x99, 0x84] @ '')'')
       else name
     else opt_text (dopant_el sig) @ (utf8 [0xE6, 0x8E, 0xBA, 0xE6, 0x9D, 0x82]) @ first_of [formula_hint sig] [])"

text \<open>A template without a label raises.\<close>

definition target_step :: "string \<Rightarrow> pyval pydict \<Rightarrow> string \<Rightarrow> py_exc + pyval pydict" where
  "target_step name inputs tid =
    bindr (the_or (KeyError tid) (dget TARGET_LABELS tid)) (\<lambda>l. Inr (run_step tid inputs (name @ '' '' @ l)))"

definition build_wanted :: "intent_signals \<Rightarrow> bool" where
  "build_wanted sig = ((given (build2d_kind sig) \<or> given (dopant_el sig)) \<and> \<not> strong_analyze sig \<and> \<not> wants_import sig
     \<and> \<not> wants_generate sig \<and> \<not> (wants_analyze sig \<and> graph_targets sig = []))"

section \<open>Single intents\<close>

definition ctx_source :: "pyval pydict \<Rightarrow> pyval" where
  "ctx_source ctx = or_val (getn ctx ''last_structure_file'') (getn ctx ''last_structure_source'')"

definition opt_val :: "string option \<Rightarrow> pyval" where
  "opt_val x = (case x of Some s \<Rightarrow> PStr s | None \<Rightarrow> PNone)"

definition build_layer :: "string \<Rightarrow> pyval pydict" where
  "build_layer kind = mk_step ''structure.build2d'' [(''kind'', PStr kind)] ((utf8 [0xE6, 0x9E, 0x84, 0xE5, 0xBB,
        0xBA]) @ kind_label kind @ (utf8 [0xE5, 0x8D, 0x95, 0xE5, 0xB1, 0x82]))"

definition generate_step :: "string \<Rightarrow> pyval pydict" where
  "generate_step src = mk_step ''structure.generate'' [(''source'', PStr src)] (''Generate '' @ src @ '' structure'')"

definition plan_analyze :: "intent_signals \<Rightarrow> pyval pydict \<Rightarrow> pyval pydict list" where
  "plan_analyze sig ctx =
    (let analyze = (\<lambda>src. mk_step ''structure.analyze'' [(''source'', src), (''pair_types'', opt_val (pair_types sig))] ''Analyze structure'') in
     if py_true (ctx_source ctx) then [analyze (ctx_source ctx)]
     else if given (build2d_kind sig) then [build_layer (opt_text (build2d_kind sig)), analyze (PStr ''__generated__'')]
     else if wants_generate sig \<or> given (material_hint sig) \<or> given (formula_hint sig) then
       [generate_step (first_of [material_hint sig, formula_hint sig] ''Si''), analyze (PStr ''__generated__'')]
     else [analyze (PStr ''tests/fixtures/POSCAR_Si'')])"

definition plan_structure :: "intent_signals \<Rightarrow> pyval pydict \<Rightarrow> pyval pydict list" where
  "plan_structure sig ctx =
    (if wants_analyze sig then plan_analyze sig ctx
     else if wants_import sig then
       (if has_structure_ctx sig then []
        else [mk_step ''structure.import'' [(''source'', PStr (first_of [material_hint sig] ''tests/fixtures/POSCAR_Si''))] ''Import structure''])
     else if wants_generate sig then
       [if given (build2d_kind sig) then build_layer (opt_text (build2d_kind sig)) else generate_step (first_of [material_hint sig] ''Si'')]
     else [])"

definition input_calc :: "string \<Rightarrow> string" where
  "input_calc low =
    (if mentions low [''vc-relax'', ''relax'', (utf8 [0xE6, 0x9D, 0xBE, 0xE5, 0xBC, 0x9B]), ''vc_relax''] then ''vc-relax''
     else if mentions low [''bands'', (utf8 [0xE5, 0xB8, 0xA6])] then ''bands''
     else if mentions low [''dos'', (utf8 [0xE6, 0x80, 0x81, 0xE5, 0xAF, 0x86, 0xE5, 0xBA, 0xA6])] then ''dos'' else ''scf'')"

definition plan_input :: "intent_signals \<Rightarrow> string \<Rightarrow> pyval pydict \<Rightarrow> pyval pydict list" where
  "plan_input sig low ctx =
    (if \<not> wants_build sig then []
     else
       let calc = input_calc low; material = first_of [material_hint sig] ''Si''; source = ctx_source ctx in
       if py_true source then
         [mk_step ''input.build'' [(''type'', PStr calc), (''structure'', source), (''structure_format'', PStr ''auto'')]
           (''Build '' @ calc @ '' input from structure'')]
       else [mk_step ''input.build'' [(''type'', PStr calc), (''material'', PStr material)] (''Build '' @ calc @ '' input for '' @ material)])"

definition plan_jobs :: "intent_signals \<Rightarrow> string \<Rightarrow> pyval pydict \<Rightarrow> pyval pydict list" where
  "plan_jobs sig message ctx =
    (let or_input = (\<lambda>k. or_val (getn ctx k) (PStr ''input.in'')) in
     (if wants_submit sig then [mk_step ''job.submit'' [(''input'', or_input ''last_input_file''), (''backend'', PStr ''local'')] ''Submit job''] else [])
     @ (if wants_status sig then [mk_step ''job.status'' [(''job_id'', or_val (getn ctx ''last_job_id'') (PStr (last_word ''local_default'' message)))]
          ''Check job status''] else [])
     @ (if wants_parse sig then [mk_step ''result.parse'' [(''input'', or_input ''last_output_file''),
          (''type'', get_or ctx ''last_result_type'' (PStr ''vc-relax''))] ''Parse result''] else [])
     @ (if wants_verify sig then [mk_step ''result.verify'' [(''input'', or_input ''last_output_file''),
          (''task_type'', get_or ctx ''last_task_type'' (PStr ''T1''))] ''Verify result''] else [])
     @ (if wants_ledger sig then [mk_step ''ledger.query'' [(''limit'', PInt 20)] ''Query ledger''] else [])
     @ (if wants_doctor sig then [mk_step ''doctor'' [] ''Check environment''] else []))"

definition plan_single :: "intent_signals \<Rightarrow> string \<Rightarrow> pyval pydict \<Rightarrow> pyval pydict list" where
  "plan_single sig message ctx =
    (let steps = plan_structure sig ctx @ plan_input sig (ascii_lower message) ctx @ plan_jobs sig message ctx in
     if steps = [] then [mk_step ''help'' [] ''Show help''] else steps)"

section \<open>The planner\<close>

definition plan_targets :: "intent_signals \<Rightarrow> string \<Rightarrow> pyval pydict \<Rightarrow> py_exc + pyval pydict list" where
  "plan_targets sig message ctx =
    (let built = (if build_wanted sig then build_steps sig else []) in
     if built \<noteq> [] then
       bindr (mapr (target_step (system_name sig) []) (graph_targets sig)) (\<lambda>runs. Inr (built @ runs))
     else if graph_targets sig \<noteq> [] \<and> given (formula_hint sig) \<and> \<not> strong_analyze sig \<and> \<not> (wants_import sig \<or> wants_generate sig) then
       mapr (target_step (opt_text (formula_hint sig)) [(''material'', PStr (opt_text (formula_hint sig)))]) (graph_targets sig)
     else Inr (plan_single sig message ctx))"

definition plan_thermo :: "ase \<Rightarrow> intent_signals \<Rightarrow> string \<Rightarrow> pyval pydict \<Rightarrow> py_exc + pyval pydict list" where
  "plan_thermo ase sig message ctx =
    (case (if wants_eads sig then plan_eads sig (ascii_lower message) else None) of
       Some steps \<Rightarrow> Inr steps
     | None \<Rightarrow>
         if wants_formation sig \<and> first_of [formula_hint sig, material_hint sig] [] \<noteq> []
         then Inr (plan_formation ase (first_of [formula_hint sig, material_hint sig] []))
         else plan_targets sig message ctx)"

definition status_step :: "pyval \<Rightarrow> pyval pydict" where
  "status_step run_id = mk_step ''graph.status'' [(''run_id'', run_id)] (utf8 [0xE8, 0xAF, 0xBB, 0xE5, 0x8F, 0x96, 0xE4, 0xB8, 0x8A, 0xE4, 0xB8,
        0x80, 0xE6, 0xAC, 0xA1, 0xE8, 0xAE, 0xA1, 0xE7, 0xAE, 0x97, 0xE7, 0x9A, 0x84, 0xE8, 0xAF, 0xA6, 0xE7, 0xBB, 0x86, 0xE8, 0xBE, 0x93, 0xE5,
        0x87, 0xBA, 0xE5, 0xB9, 0xB6, 0xE6, 0x8F, 0x90, 0xE5, 0x8F, 0x96, 0xE5, 0x85, 0xB3, 0xE9, 0x94, 0xAE, 0xE6, 0x95, 0xB0, 0xE5, 0x80, 0xBC])"

definition rule_plan ::
  "ase \<Rightarrow> (string \<Rightarrow> pyval pydict \<Rightarrow> intent_signals) \<Rightarrow> string \<Rightarrow> pyval pydict \<Rightarrow> py_exc + pyval pydict list" where
  "rule_plan ase detect message ctx =
    (if py_true (getn ctx ''last_run_id'') \<and> is_confirmation message then Inr [status_step (getn ctx ''last_run_id'')]
     else
       let sig = detect message ctx in
       if wants_compare sig then
         bindr (py_list (or_val (getn ctx ''ledger'') (PList []))) (\<lambda>entries.
         bindr (plan_compare sig (ascii_lower message) entries) (\<lambda>r.
         case r of Some steps \<Rightarrow> Inr steps | None \<Rightarrow> plan_thermo ase sig message ctx))
       else plan_thermo ase sig message ctx)"

end
