(* ===== verification/Result_Views.thy ===== *)
theory Result_Views
  imports Rule_Planner
begin

text \<open>
  What a session makes of a tool's result (\<open>agent_loop/result_views.py\<close>, \<open>compare_block\<close> of \<open>narration.py\<close>): the
  reply, the facts and metrics kept with the result, and the changes to the context, the structure at hand and the
  list of energies.

  \<^item> The viewer and chart payloads for the browser are left out.
  \<^item> The payload of a graph run has the shape \<open>graph_tools.py\<close> gives it: nodes are dictionaries. Another shape counts
    as an \<open>AttributeError\<close>; when an exception ends a handler, what it changed before stays changed.
\<close>

section \<open>Handled results\<close>

record handled =
  hd_session :: step_session
  hd_reply :: "string list"
  hd_extra :: "pyval pydict"
  hd_raised :: "py_exc option"

definition handle :: "step_session \<Rightarrow> string \<Rightarrow> handled" where
  "handle s reply = \<lparr>hd_session = s, hd_reply = [reply], hd_extra = [], hd_raised = None\<rparr>"

definition put_ctx :: "string \<Rightarrow> pyval \<Rightarrow> step_session \<Rightarrow> step_session" where
  "put_ctx k v s = s\<lparr>ss_ctx := dput k v (ss_ctx s)\<rparr>"

definition with_reply :: "py_exc + string \<Rightarrow> step_session \<Rightarrow> handled" where
  "with_reply r s = (case r of Inr t \<Rightarrow> handle s t | Inl e \<Rightarrow> \<lparr>hd_session = s, hd_reply = [], hd_extra = [], hd_raised = Some e\<rparr>)"

definition shown :: "pyval pydict \<Rightarrow> string \<Rightarrow> string" where
  "shown d k = py_str (getn d k)"

fun dict_arg :: "pyval \<Rightarrow> py_exc + pyval pydict" where
  "dict_arg (PDict d) = Inr d"
| "dict_arg v = (if py_true v then Inl AttributeError else Inr [])"

text \<open>\<open>(d.get(k) or {})\<close>.\<close>

definition sub_dict :: "pyval pydict \<Rightarrow> string \<Rightarrow> py_exc + pyval pydict" where
  "sub_dict d k = dict_arg (getn d k)"

fun py_len :: "pyval \<Rightarrow> py_exc + int" where
  "py_len (PList xs) = Inr (int (length xs))"
| "py_len (PStr s) = Inr (int (length s))"
| "py_len (PDict d) = Inr (int (length d))"
| "py_len _ = Inl TypeError"

section \<open>Structures\<close>

definition take_structure :: "pyval pydict \<Rightarrow> step_session \<Rightarrow> step_session" where
  "take_structure data s =
    (put_ctx ''last_formula'' (getn data ''formula'') (put_ctx ''last_structure_file'' (getn data ''output'')
      (put_ctx ''last_structure_source'' (getn data ''output'') s)))\<lparr>ss_built := getn data ''output''\<rparr>"

definition view_import :: "pyval pydict \<Rightarrow> pyval pydict \<Rightarrow> step_session \<Rightarrow> handled" where
  "view_import data args s = handle
    (put_ctx ''last_formula'' (getn data ''formula'')
      (put_ctx ''last_structure_source'' (or_val (getn data ''source'') (getn args ''source''))
        (put_ctx ''last_structure_file'' (PStr (in_dir (ss_dir s) ''structure.json'')) s)))
    ((utf8 [0xE5, 0xB7, 0xB2, 0xE5, 0xAF, 0xBC, 0xE5, 0x85, 0xA5, 0xE7, 0xBB, 0x93, 0xE6, 0x9E,
        0x84] @ '': '') @ shown data ''formula'' @ '' | atoms='' @ shown data ''natoms'' @ '' species='' @ shown data ''nspecies'')"

definition view_generate :: "pyval pydict \<Rightarrow> step_session \<Rightarrow> handled" where
  "view_generate data s = with_reply
    (bindr (py_len (get_or data ''species'' (PList []))) (\<lambda>n. Inr
      ((utf8 [0xE5, 0xB7, 0xB2, 0xE7, 0x94, 0x9F, 0xE6, 0x88, 0x90, 0xE7, 0xBB, 0x93, 0xE6, 0x9E,
        0x84] @ '': '') @ shown data ''formula'' @ (utf8 [0xEF, 0xBC, 0x88]) @ show_int n @ ('' '' @ utf8 [0xE7, 0xA7, 0x8D, 0xE5, 0x85, 0x83,
        0xE7, 0xB4, 0xA0, 0xEF, 0xBC, 0x8C]) @ shown data ''natoms'' @ ('' '' @ utf8 [0xE5, 0x8E, 0x9F, 0xE5, 0xAD, 0x90, 0xEF, 0xBC,
        0x89]) @ nl @ (utf8 [0xE6, 0x96, 0x87, 0xE4, 0xBB, 0xB6] @ '': '') @ shown data ''output'')))
    (take_structure data s)"

definition view_build2d :: "pyval pydict \<Rightarrow> step_session \<Rightarrow> handled" where
  "view_build2d data s = handle (take_structure data s) (join nl
    [(utf8 [0xE5, 0xB7, 0xB2, 0xE6, 0x9E, 0x84, 0xE5, 0xBB, 0xBA] @ ''2D'' @ utf8 [0xE7, 0xBB, 0x93, 0xE6, 0x9E,
        0x84] @ '': '') @ shown data ''formula'' @ ('' '' @ utf8 [0xE2, 0x80, 0x94] @ '' '') @ shown data ''description'',
     (utf8 [0xE5, 0x8E, 0x9F, 0xE5, 0xAD, 0x90, 0xE6, 0x95, 0xB0] @ '': '') @ shown data ''natoms'' @ ('' | '' @ utf8 [0xE6, 0x9C, 0x80, 0xE5,
        0xB0, 0x8F, 0xE5, 0x8E, 0x9F, 0xE5, 0xAD, 0x90, 0xE9, 0x97, 0xB4, 0xE8, 0xB7,
        0x9D] @ '': '') @ shown data ''min_distance'' @ ('' '' @ utf8 [0xC3, 0x85] @ '' | '' @ utf8 [0xE7, 0x9C, 0x9F, 0xE7, 0xA9, 0xBA, 0xE5,
        0xB1, 0x82, 0xE5, 0xB7, 0xB2, 0xE5, 0x90, 0xAB]),
     (utf8 [0xE5, 0x8F, 0xAF, 0xE7, 0x94, 0xA8, 0xE5, 0x90, 0xB8, 0xE9, 0x99, 0x84, 0xE4, 0xBD, 0x8D, 0xE7, 0x82,
        0xB9] @ '': top / bridge / hollow'' @ utf8 [0xEF, 0xBC, 0x88, 0xE5, 0x9D, 0x90, 0xE6, 0xA0, 0x87, 0xE8, 0xA7,
        0x81] @ '' JSON'' @ utf8 [0xEF, 0xBC, 0x89]), (utf8 [0xE6, 0x96, 0x87, 0xE4, 0xBB, 0xB6] @ '': '') @ shown data ''output''])"

definition view_dope :: "pyval pydict \<Rightarrow> step_session \<Rightarrow> handled" where
  "view_dope data s = handle (take_structure data s) (join nl
    [(utf8 [0xE5, 0xB7, 0xB2, 0xE6, 0x9E, 0x84, 0xE5, 0xBB, 0xBA, 0xE6, 0x8E, 0xBA, 0xE6, 0x9D, 0x82, 0xE7, 0xBB, 0x93, 0xE6, 0x9E,
        0x84] @ '': '') @ shown data ''formula'' @ ('' '' @ utf8 [0xE2, 0x80, 0x94] @ '' '') @ shown data ''description'',
     (utf8 [0xE5, 0x8E, 0x9F, 0xE5, 0xAD, 0x90, 0xE6, 0x95, 0xB0] @ '': '') @ shown data ''natoms'' @ ('' | '' @ utf8 [0xE6, 0x9C, 0x80, 0xE5,
        0xB0, 0x8F, 0xE5, 0x8E, 0x9F, 0xE5, 0xAD, 0x90, 0xE9, 0x97, 0xB4, 0xE8, 0xB7,
        0x9D] @ '': '') @ shown data ''min_distance'' @ ('' '' @ utf8 [0xC3, 0x85]), (utf8 [0xE6, 0x96, 0x87, 0xE4, 0xBB,
        0xB6] @ '': '') @ shown data ''output''])"

definition view_reference :: "pyval pydict \<Rightarrow> step_session \<Rightarrow> handled" where
  "view_reference data s = handle (take_structure data s)
    ((utf8 [0xE5, 0xB7, 0xB2, 0xE6, 0x9E, 0x84, 0xE5, 0xBB, 0xBA] @ '': '') @ shown data ''formula'' @ ('' '' @ utf8 [0xE2, 0x80,
        0x94] @ '' '') @ shown data ''description'' @ nl @ (utf8 [0xE6, 0x96, 0x87, 0xE4, 0xBB, 0xB6] @ '': '') @ shown data ''output'')"

section \<open>Runs of a graph\<close>

definition scalar :: "pyval \<Rightarrow> bool" where
  "scalar v = (case v of PList _ \<Rightarrow> False | PDict _ \<Rightarrow> False | _ \<Rightarrow> True)"

definition run_outputs :: "pyval pydict \<Rightarrow> pyval pydict" where
  "run_outputs data = (case getn data ''outputs'' of PDict d \<Rightarrow> d | _ \<Rightarrow> [])"

definition execution_context :: "pyval pydict \<Rightarrow> pyval pydict \<Rightarrow> string \<Rightarrow> pyval" where
  "execution_context data args desc = PDict
    [(''run_id'', getn data ''run_id''), (''template_id'', or_val (getn args ''template_id'') (getn data ''template_id'')),
     (''state'', getn data ''state''), (''description'', PStr (take 160 desc)),
     (''outputs'', PDict (filter (\<lambda>(_, v). scalar v) (run_outputs data)))]"

type_synonym node_views = "(string \<times> pyval pydict \<times> pyval pydict) list"

text \<open>The nodes of a payload, each with its outputs.\<close>

definition nodes_of :: "pyval pydict \<Rightarrow> py_exc + node_views" where
  "nodes_of data = bindr (sub_dict data ''nodes'') (\<lambda>nodes.
     mapr (\<lambda>(nid, v). case v of PDict info \<Rightarrow> bindr (sub_dict info ''outputs'') (\<lambda>outs. Inr (nid, info, outs)) | _ \<Rightarrow> Inl AttributeError) nodes)"

definition succeeded :: "pyval pydict \<Rightarrow> bool" where
  "succeeded info = (getn info ''state'' = PStr ''succeeded'')"

definition first_outputs :: "(string \<Rightarrow> pyval pydict \<Rightarrow> bool) \<Rightarrow> node_views \<Rightarrow> pyval pydict" where
  "first_outputs p nodes = (case find (\<lambda>(nid, info, outs). succeeded info \<and> p nid outs) nodes of
     Some (_, _, outs) \<Rightarrow> outs | None \<Rightarrow> [])"

definition ledger_entry :: "pyval pydict \<Rightarrow> pyval pydict \<Rightarrow> string \<Rightarrow> node_views \<Rightarrow> py_exc + pyval" where
  "ledger_entry data args desc nodes =
    (let bands = first_outputs (\<lambda>nid _. nid = ''bands'') nodes;
         scf = first_outputs (\<lambda>nid outs. nid \<in> {''scf'', ''vc_relax''} \<and> getn outs ''energy_ry'' \<noteq> PNone) nodes in
     bindr (sub_dict args ''inputs'') (\<lambda>inputs.
     Inr (PDict [(''label'', or_val (or_val (PStr desc) (getn args ''template_id'')) (PStr (utf8 [0xE8, 0xAE, 0xA1, 0xE7, 0xAE, 0x97]))),
       (''template'', getn args ''template_id''), (''material'', getn inputs ''material''), (''run_id'', getn data ''run_id''),
       (''band_gap_ev'', getn bands ''band_gap_ev''), (''is_metal'', getn bands ''is_metal''), (''fermi_ev'', getn bands ''fermi_ev''),
       (''energy_ry'', getn scf ''energy_ry''), (''natoms'', or_val (getn scf ''natoms'') (getn bands ''natoms''))])))"

definition last_n :: "nat \<Rightarrow> 'a list \<Rightarrow> 'a list" where
  "last_n n xs = drop (length xs - n) xs"

definition note_run :: "pyval pydict \<Rightarrow> pyval pydict \<Rightarrow> string \<Rightarrow> node_views \<Rightarrow> step_session \<Rightarrow> py_exc + step_session" where
  "note_run data args desc nodes s =
    (if getn data ''state'' \<noteq> PStr ''succeeded'' then Inr s
     else bindr (ledger_entry data args desc nodes) (\<lambda>entry.
       case get_or (ss_ctx s) ''ledger'' (PList []) of
         PList old \<Rightarrow> Inr (put_ctx ''ledger'' (PList (last_n 20 (old @ [entry]))) s)
       | _ \<Rightarrow> Inl AttributeError))"

definition BULKY :: "string list" where
  "BULKY = [''eigenvalues_ev'', ''k_axis'', ''k_ticks'', ''dos_curve'', ''pdos_curve'', ''analysis'']"

definition round_float :: "nat \<Rightarrow> pyval \<Rightarrow> pyval" where
  "round_float n v = (case v of PFloat x \<Rightarrow> PFloat (pf_round n x) | _ \<Rightarrow> v)"

definition shown_outputs :: "pyval pydict \<Rightarrow> pyval pydict" where
  "shown_outputs outs = map (\<lambda>(k, v). (k, round_float 4 v))
     (filter (\<lambda>(k, v). \<not> ends_with ''stdout'' k \<and> k \<notin> set BULKY \<and> scalar v) outs)"

definition node_line :: "string \<Rightarrow> pyval pydict \<Rightarrow> pyval pydict \<Rightarrow> string" where
  "node_line nid info outs =
    (''  '' @ utf8 [0xE8, 0x8A, 0x82, 0xE7, 0x82, 0xB9] @ '' '') @ nid @ '': '' @ shown info ''state''
    @ (if py_true (getn info ''error'') then '' | '' @ take 100 (shown info ''error'') else [])
    @ (if shown_outputs outs \<noteq> [] then '' | '' @ py_repr (PDict (shown_outputs outs)) else [])"

definition need :: "pyval pydict \<Rightarrow> string \<Rightarrow> py_exc + pyval" where
  "need d k = the_or (KeyError k) (dget d k)"

definition bond_line :: "string \<times> pyval \<Rightarrow> py_exc + string" where
  "bond_line pst = (case pst of (pair, PDict st) \<Rightarrow>
       bindr (need st ''mean_angstrom'') (\<lambda>m. bindr (need st ''count'') (\<lambda>c.
       Inr ((''  '' @ utf8 [0xE9, 0x94, 0xAE, 0xE9, 0x95, 0xBF] @ '' '') @ pair @ '': '' @ py_str m @ ('' '' @ utf8 [0xC3,
        0x85] @ '' ('' @ utf8 [0xE5, 0x9D, 0x87, 0xE5, 0x80, 0xBC] @ '', '') @ py_str c @ ('' '' @ utf8 [0xE6, 0x9D, 0xA1] @ '')''))))
     | _ \<Rightarrow> Inl TypeError)"

definition analysis_lines :: "pyval pydict \<Rightarrow> py_exc + string list" where
  "analysis_lines outs =
    (case getn outs ''analysis'' of
       PDict an \<Rightarrow>
         (case get_or an ''symmetry'' (PDict []) of
            PDict sm \<Rightarrow>
              if \<not> py_true (getn sm ''available'') then Inr []
              else
                (case get_or sm ''conventional_cell'' (PDict []) of
                   PDict conv \<Rightarrow>
                     bindr (sub_dict an ''bond_lengths'') (\<lambda>bl. bindr (mapr bond_line (take 3 bl)) (\<lambda>bonds.
                     Inr (((''  '' @ utf8 [0xE7, 0xBB, 0x93, 0xE6, 0x9E, 0x84, 0xE5, 0x88, 0x86, 0xE6, 0x9E, 0x90] @ '': '' @ utf8 [0xE7, 0xA9,
        0xBA, 0xE9, 0x97, 0xB4, 0xE7, 0xBE,
        0xA4] @ '' '') @ shown sm ''space_group'' @ '' (No.'' @ shown sm ''space_group_number'' @ ('' ) | '' @ utf8 [0xE5, 0xB8, 0xB8, 0xE8, 0xA7,
        0x84, 0xE8, 0x83, 0x9E] @ '' '')
                       @ str_arg conv ''formula'' []) # bonds)))
                 | _ \<Rightarrow> Inl AttributeError)
          | _ \<Rightarrow> Inl AttributeError)
     | _ \<Rightarrow> Inr [])"

text \<open>Every node that succeeded with an energy counts, in the order of the nodes.\<close>

definition energies_of_nodes :: "string \<Rightarrow> node_views \<Rightarrow> pyval pydict list" where
  "energies_of_nodes desc nodes =
    map (\<lambda>(nid, info, outs). [(''energy_ry'', getn outs ''energy_ry''), (''natoms'', getn outs ''natoms''),
        (''label'', PStr (desc @ '':'' @ nid))])
      (filter (\<lambda>(nid, info, outs). succeeded info \<and> getn outs ''energy_ry'' \<noteq> PNone) nodes)"

text \<open>The lines of the nodes and their energies; an exception leaves the energies up to its node.\<close>

fun node_rows :: "string \<Rightarrow> node_views \<Rightarrow> pyval pydict list \<times> (py_exc + string list)" where
  "node_rows desc [] = ([], Inr [])"
| "node_rows desc ((nid, info, outs) # ns) =
     (let es = energies_of_nodes desc [(nid, info, outs)] in
      case analysis_lines outs of
        Inl e \<Rightarrow> (es, Inl e)
      | Inr ls \<Rightarrow> (let (es1, rows) = node_rows desc ns in (es @ es1, bindr rows (\<lambda>more. Inr (node_line nid info outs # ls @ more)))))"

section \<open>Facts\<close>

definition FACT_KEYS :: "string list" where
  "FACT_KEYS = [''energy_ry'', ''scf_energy_ry'', ''a_angstrom'', ''volume_a3'', ''pressure_kbar'', ''max_force_ry_bohr'',
     ''band_gap_ev'', ''fermi_ev'', ''is_metal'', ''natoms'', ''n_iterations'']"

definition NODE_FACT_KEYS :: "string list" where
  "NODE_FACT_KEYS = [''energy_ry'', ''a_angstrom'', ''volume_a3'', ''pressure_kbar'', ''band_gap_ev'', ''fermi_ev'', ''is_metal'',
     ''natoms'', ''n_iterations'']"

definition FACT_LABELS :: "string pydict" where
  "FACT_LABELS = [(''energy_ry'', (utf8 [0xE6, 0x80, 0xBB, 0xE8, 0x83, 0xBD, 0xE9, 0x87, 0x8F] @ '' (Ry)'')), (''scf_energy_ry'', (utf8 [0xE6,
        0x80, 0xBB, 0xE8, 0x83, 0xBD, 0xE9, 0x87, 0x8F] @ '' (Ry)'')), (''a_angstrom'', (utf8 [0xE5, 0xB9, 0xB3, 0xE8, 0xA1, 0xA1, 0xE6, 0x99,
        0xB6, 0xE6, 0xA0, 0xBC, 0xE5, 0x8F, 0x82, 0xE6, 0x95, 0xB0] @ '' a ('' @ utf8 [0xC3, 0x85] @ '')'')),
     (''conventional_a_angstrom'', (utf8 [0xE5, 0xB8, 0xB8, 0xE8, 0xA7, 0x84, 0xE8, 0x83, 0x9E] @ '' a ('' @ utf8 [0xC3,
        0x85] @ '')'')), (''volume_a3'', (utf8 [0xE4, 0xBD, 0x93, 0xE7, 0xA7, 0xAF] @ '' ('' @ utf8 [0xC3, 0x85, 0xC2,
        0xB3] @ '')'')), (''pressure_kbar'', (utf8 [0xE5, 0x8E, 0x8B, 0xE5, 0x8A, 0x9B] @ '' (kbar)'')),
     (''max_force_ry_bohr'', (utf8 [0xE6, 0x9C, 0x80, 0xE5, 0xA4, 0xA7, 0xE5, 0x8A, 0x9B] @ '' (Ry/Bohr)'')), (''band_gap_ev'', (utf8 [0xE5, 0xB8,
        0xA6, 0xE9, 0x9A, 0x99] @ '' (eV)'')), (''fermi_ev'', (utf8 [0xE8, 0xB4, 0xB9, 0xE7, 0xB1, 0xB3, 0xE8, 0x83, 0xBD, 0xE7, 0xBA,
        0xA7] @ '' (eV)'')),
     (''is_metal'', (utf8 [0xE6, 0x98, 0xAF, 0xE5, 0x90, 0xA6, 0xE9, 0x87, 0x91, 0xE5, 0xB1, 0x9E])), (''natoms'', (utf8 [0xE5, 0x8E, 0x9F, 0xE5,
        0xAD, 0x90, 0xE6, 0x95, 0xB0])), (''n_iterations'', (utf8 [0xE8, 0xBF, 0xAD, 0xE4, 0xBB, 0xA3, 0xE6, 0xAC, 0xA1, 0xE6, 0x95,
        0xB0])), (''space_group'', (utf8 [0xE7, 0xA9, 0xBA, 0xE9, 0x97, 0xB4, 0xE7, 0xBE, 0xA4]))]"

definition put_new :: "string \<Rightarrow> pyval \<Rightarrow> pyval pydict \<Rightarrow> pyval pydict" where
  "put_new k v acc = (if v = PNone \<or> dmem k acc then acc else dput k v acc)"

definition node_facts :: "pyval pydict \<Rightarrow> string \<times> pyval pydict \<times> pyval pydict \<Rightarrow> py_exc + pyval pydict" where
  "node_facts acc node = (case node of (nid, info, outs) \<Rightarrow>
     bindr (sub_dict outs ''analysis'') (\<lambda>an. bindr (sub_dict an ''symmetry'') (\<lambda>sm. bindr (sub_dict sm ''conventional_cell'') (\<lambda>conv.
     let out1 = foldl (\<lambda>o1 k. put_new k (getn outs k) o1) acc NODE_FACT_KEYS;
         out2 = put_new ''conventional_a_angstrom'' (getn conv ''a_angstrom'') out1 in
     Inr (if py_true (getn sm ''space_group'') then put_new ''space_group'' (getn sm ''space_group'') out2 else out2)))))"

fun fold_facts :: "node_views \<Rightarrow> pyval pydict \<Rightarrow> py_exc + pyval pydict" where
  "fold_facts [] acc = Inr acc"
| "fold_facts (n # ns) acc = bindr (node_facts acc n) (fold_facts ns)"

definition graph_facts :: "pyval pydict \<Rightarrow> node_views \<Rightarrow> py_exc + string" where
  "graph_facts data nodes =
    bindr (fold_facts nodes (foldl (\<lambda>o1 k. put_new k (getn (run_outputs data) k) o1) [] FACT_KEYS)) (\<lambda>acc.
    Inr (if acc = [] then []
         else (utf8 [0xE5, 0x85, 0xB3, 0xE9, 0x94, 0xAE, 0xE8, 0xAE, 0xA1, 0xE7, 0xAE, 0x97, 0xE7, 0xBB, 0x93, 0xE6, 0x9E, 0x9C, 0xEF, 0xBC, 0x88,
        0xE6, 0x9D, 0xA5, 0xE8, 0x87, 0xAA, 0xE6, 0x89, 0xA7, 0xE8, 0xA1, 0x8C, 0xE8, 0xBE, 0x93, 0xE5, 0x87, 0xBA, 0xEF, 0xBC, 0x89, 0xEF, 0xBC,
        0x9A]) @ join (utf8 [0xEF, 0xBC, 0x9B]) (map (\<lambda>(k, v).
           (case dget FACT_LABELS k of Some l \<Rightarrow> l | None \<Rightarrow> k) @ ''='' @ py_str (round_float 6 v)) acc)))"

definition facts_extra :: "string \<Rightarrow> pyval pydict" where
  "facts_extra facts = (if facts = [] then [] else [(''facts'', PStr facts)])"

definition view_graph_run :: "pyval pydict \<Rightarrow> pyval pydict \<Rightarrow> string \<Rightarrow> step_session \<Rightarrow> handled" where
  "view_graph_run data args desc s =
    (let s1 = put_ctx ''last_execution'' (execution_context data args desc) (put_ctx ''last_run_id'' (getn data ''run_id'') s) in
     case bindr (nodes_of data) (\<lambda>nodes. bindr (note_run data args desc nodes s1) (\<lambda>s2. Inr (nodes, s2))) of
       Inl e \<Rightarrow> \<lparr>hd_session = s1, hd_reply = [], hd_extra = [], hd_raised = Some e\<rparr>
     | Inr (nodes, s2) \<Rightarrow>
         let (es, rows) = node_rows desc nodes; s3 = s2\<lparr>ss_energies := ss_energies s2 @ es\<rparr> in
         (case rows of
            Inl e \<Rightarrow> \<lparr>hd_session = s3, hd_reply = [], hd_extra = [], hd_raised = Some e\<rparr>
          | Inr ls \<Rightarrow>
              let reply = [join nl (((utf8 [0xE5, 0x9B, 0xBE, 0xE8, 0xAE, 0xA1, 0xE7, 0xAE, 0x97, 0xE5, 0xAE, 0x8C, 0xE6, 0x88,
        0x90] @ '': '') @ shown data ''state'' @ (''  ('' @ utf8 [0xE8, 0xBF, 0x90, 0xE8, 0xA1,
        0x8C] @ ''ID: '') @ shown data ''run_id'' @ '')'') # ls)] in
              (case graph_facts data nodes of
                 Inl e \<Rightarrow> \<lparr>hd_session = s3, hd_reply = reply, hd_extra = [], hd_raised = Some e\<rparr>
               | Inr facts \<Rightarrow> \<lparr>hd_session = s3, hd_reply = reply, hd_extra = facts_extra facts, hd_raised = None\<rparr>)))"

definition view_graph_status :: "pyval pydict \<Rightarrow> pyval pydict \<Rightarrow> string \<Rightarrow> step_session \<Rightarrow> handled" where
  "view_graph_status data args desc s =
    (if py_true (getn data ''error'') then handle s (desc @ '': '' @ shown data ''error'')
     else
       let rid = or_val (getn data ''run_id'') (getn args ''run_id'');
           s1 = put_ctx ''last_execution'' (execution_context data args desc) (put_ctx ''last_run_id'' rid s) in
       (case bindr (nodes_of data) (\<lambda>nodes. bindr (graph_facts data nodes) (\<lambda>facts. Inr (nodes, facts))) of
          Inl e \<Rightarrow> \<lparr>hd_session = s1, hd_reply = [], hd_extra = [], hd_raised = Some e\<rparr>
        | Inr (nodes, facts) \<Rightarrow>
            let states = join (utf8 [0xE3, 0x80, 0x81]) (map (\<lambda>(nid, info, outs). nid @ '': '' @ shown info ''state'') nodes) in
            \<lparr>hd_session = s1,
             hd_reply = [(utf8 [0xE4, 0xBB, 0xBB, 0xE5, 0x8A, 0xA1] @ '' '') @ py_str rid @ '': '' @ str_arg data ''state'' ''unknown''
               @ (if states = [] then [] else (utf8 [0xEF, 0xBC, 0x88]) @ states @ (utf8 [0xEF, 0xBC, 0x89]))
               @ nl @ (if facts = [] then (utf8 [0xE6, 0x89, 0xA7, 0xE8, 0xA1, 0x8C, 0xE8, 0xAE, 0xB0, 0xE5, 0xBD, 0x95, 0xE4, 0xB8, 0xAD, 0xE6,
        0xB2, 0xA1, 0xE6, 0x9C, 0x89, 0xE5, 0x8F, 0xAF, 0xE6, 0xB1, 0x87, 0xE6, 0x8A, 0xA5, 0xE7, 0x9A, 0x84, 0xE6, 0x95, 0xB0, 0xE5, 0x80, 0xBC,
        0xE8, 0xBE, 0x93, 0xE5, 0x87, 0xBA, 0xE3, 0x80, 0x82]) else facts)],
             hd_extra = facts_extra facts, hd_raised = None\<rparr>))"

section \<open>Analysis, thermochemistry, comparison\<close>

definition fixed4 :: "pyval \<Rightarrow> py_exc + string" where
  "fixed4 v = (case num_of v of Some x \<Rightarrow> Inr (with_fmt (fmt_f 4) x) | None \<Rightarrow> Inl (ValueError ''format''))"

text \<open>With its sign (\<open>:+.4f\<close>).\<close>

definition signed4 :: "pyval \<Rightarrow> py_exc + string" where
  "signed4 v = bindr (fixed4 v) (\<lambda>t. Inr (if starts_with ''-'' t then t else ''+'' @ t))"

definition joined :: "string \<Rightarrow> pyval \<Rightarrow> py_exc + string" where
  "joined sep v = bindr (py_list v) (\<lambda>xs. bindr (mapr (\<lambda>x. case x of PStr t \<Rightarrow> Inr t | _ \<Rightarrow> Inl TypeError) xs) (\<lambda>ts. Inr (join sep ts)))"

definition with_dict :: "pyval \<Rightarrow> (pyval pydict \<Rightarrow> py_exc + 'a) \<Rightarrow> py_exc + 'a" where
  "with_dict v f = (case v of PDict d \<Rightarrow> f d | _ \<Rightarrow> Inl AttributeError)"

definition pair_line :: "string \<times> pyval \<Rightarrow> py_exc + string" where
  "pair_line p = with_dict (snd p) (\<lambda>d. Inr (fst p @ '': count='' @ shown d ''count'' @ '' min='' @ shown d ''min_angstrom''
     @ ('' '' @ utf8 [0xC3, 0x85] @ '' max='') @ shown d ''max_angstrom'' @ ('' '' @ utf8 [0xC3, 0x85])))"

definition stat_line :: "string \<Rightarrow> string \<Rightarrow> string \<Rightarrow> string \<times> pyval \<Rightarrow> py_exc + string" where
  "stat_line what key unit p =
    (case snd p of
       PDict st \<Rightarrow> bindr (need st key) (\<lambda>m. bindr (need st ''count'') (\<lambda>c.
         Inr (what @ fst p @ ('': '' @ utf8 [0xE5, 0x9D, 0x87, 0xE5, 0x80, 0xBC] @ '' '') @ py_str m @ unit @ ('' '' @ utf8 [0xC3,
        0x97]) @ py_str c)))
     | _ \<Rightarrow> Inl TypeError)"

definition shortest_line :: "pyval pydict \<Rightarrow> py_exc + string list" where
  "shortest_line an =
    (let p = getn an ''minimum_distance_pair''; d = getn an ''minimum_distance_angstrom'' in
     if py_true p \<and> d \<noteq> PNone then bindr (fixed4 d) (\<lambda>t. bindr (joined ''-'' p) (\<lambda>n. Inr [(utf8 [0xE6, 0x9C, 0x80,
        0xE7, 0x9F, 0xAD, 0xE8, 0xB7, 0x9D, 0xE7, 0xA6, 0xBB] @ '': '') @ t @ ('' '' @ utf8 [0xC3, 0x85] @ '' ('') @ n @ '')'']))
     else Inr [])"

definition symmetry_line :: "pyval pydict \<Rightarrow> py_exc + string list" where
  "symmetry_line an =
    bindr (sub_dict an ''symmetry'') (\<lambda>sm.
    if \<not> py_true (getn sm ''available'') then Inr []
    else bindr (sub_dict sm ''conventional_cell'') (\<lambda>conv.
      Inr [(utf8 [0xE7, 0xA9, 0xBA, 0xE9, 0x97, 0xB4, 0xE7, 0xBE,
        0xA4] @ '': '') @ shown sm ''space_group'' @ '' (No.'' @ shown sm ''space_group_number'' @ '')''
        @ (if conv = [] then [] else ('' | '' @ utf8 [0xE5, 0xB8, 0xB8, 0xE8, 0xA7, 0x84, 0xE8, 0x83,
        0x9E] @ '' '') @ shown conv ''formula'' @ '' (a='' @ shown conv ''a_angstrom'' @ ('' '' @ utf8 [0xC3, 0x85] @ '')''))]))"

definition analysis_text :: "pyval pydict \<Rightarrow> pyval pydict \<Rightarrow> pyval pydict \<Rightarrow> pyval pydict \<Rightarrow> py_exc + string" where
  "analysis_text an data args ctx =
    (let fo = or_val (or_val (getn an ''formula'') (getn data ''formula'')) (getn ctx ''last_formula'') in
     if an = [] then
       Inr ((utf8 [0xE7, 0xBB, 0x93, 0xE6, 0x9E, 0x84, 0xE5, 0x88, 0x86, 0xE6, 0x9E, 0x90, 0xE5, 0xA4, 0xB1, 0xE8, 0xB4,
        0xA5] @ '': '') @ py_str (or_val (or_val (getn data ''error'') (getn data ''message'')) (PStr (utf8 [0xE7, 0xBB, 0x93, 0xE6, 0x9E, 0x84,
        0xE8, 0xA7, 0xA3, 0xE6, 0x9E, 0x90, 0xE5, 0xA4, 0xB1, 0xE8, 0xB4, 0xA5, 0xEF, 0xBC, 0x88, 0xE6, 0xA0, 0xBC, 0xE5, 0xBC, 0x8F, 0xE6, 0x88,
        0x96, 0xE6, 0xA0, 0xA1, 0xE9, 0xAA, 0x8C, 0xE9, 0x97, 0xAE, 0xE9, 0xA2, 0x98, 0xEF, 0xBC, 0x89]))))
     else
       bindr (sub_dict an ''pair_distances'') (\<lambda>pairs. bindr (shortest_line an) (\<lambda>shortest. bindr (mapr pair_line pairs) (\<lambda>pair_lines.
       bindr (symmetry_line an) (\<lambda>sym_lines.
       bindr (sub_dict an ''bond_lengths'') (\<lambda>bl. bindr (mapr (stat_line (utf8 [0xE9, 0x94, 0xAE, 0xE9, 0x95,
        0xBF] @ '' '') ''mean_angstrom'' ('' '' @ utf8 [0xC3, 0x85])) (take 4 bl)) (\<lambda>bonds.
       bindr (sub_dict an ''bond_angles'') (\<lambda>ba. bindr (mapr (stat_line (utf8 [0xE9, 0x94, 0xAE, 0xE8, 0xA7,
        0x92] @ '' '') ''mean_deg'' (utf8 [0xC2, 0xB0])) (take 3 ba)) (\<lambda>angles.
       let src = (if getn args ''source'' \<noteq> PStr ''__generated__'' then getn args ''source'' else getn ctx ''last_structure_source'') in
       Inr (join nl (
         [(utf8 [0xE7, 0xBB, 0x93, 0xE6, 0x9E, 0x84, 0xE5, 0x88, 0x86, 0xE6, 0x9E,
        0x90] @ '': '') @ py_str fo @ '' | atoms='' @ shown an ''natoms'' @ '' species='' @ shown an ''nspecies'']
         @ shortest @ pair_lines @ sym_lines @ bonds @ angles
         @ (if py_true src then [(utf8 [0xE6, 0x96, 0x87, 0xE4, 0xBB, 0xB6] @ '': '') @ py_str src] else []))))))))))))"

definition view_analyze :: "pyval pydict \<Rightarrow> pyval pydict \<Rightarrow> step_session \<Rightarrow> handled" where
  "view_analyze data args s = with_reply (bindr (sub_dict data ''analysis'') (\<lambda>an. analysis_text an data args (ss_ctx s))) s"

definition below :: "pyval \<Rightarrow> rat \<Rightarrow> bool" where
  "below v b = (case num_of v of Some x \<Rightarrow> pf_lt x (Fin b) | None \<Rightarrow> False)"

definition view_eads :: "pyval pydict \<Rightarrow> step_session \<Rightarrow> handled" where
  "view_eads data s =
    (let ev = getn data ''e_ads_ev'';
         strength = (if below ev (- 1) then (utf8 [0xE5, 0xBC, 0xBA, 0xE5, 0x90, 0xB8, 0xE9, 0x99, 0x84, 0xEF, 0xBC, 0x88, 0xE6, 0x94, 0xBE, 0xE7,
        0x83, 0xAD, 0xEF, 0xBC, 0x89]) else if below ev (- 3 / 10) then (utf8 [0xE4, 0xB8, 0xAD, 0xE7, 0xAD, 0x89, 0xE5, 0x90, 0xB8, 0xE9, 0x99,
        0x84]) else (utf8 [0xE5, 0xBC, 0xB1, 0xE5, 0x90, 0xB8, 0xE9, 0x99, 0x84] @ ''/'' @ utf8 [0xE8, 0xBF, 0x91, 0xE4, 0xBC, 0xBC, 0xE4, 0xB8,
        0x8D, 0xE5, 0x90, 0xB8, 0xE9, 0x99, 0x84])) in
     (handle s ((utf8 [0xE5, 0x90, 0xB8, 0xE9, 0x99, 0x84, 0xE8, 0x83, 0xBD, 0xE8, 0xAE, 0xA1, 0xE7, 0xAE, 0x97, 0xE5, 0xAE, 0x8C, 0xE6, 0x88,
        0x90] @ '': E_ads = '') @ py_str ev @ ('' eV/'' @ utf8 [0xE5, 0x8E, 0x9F, 0xE5, 0xAD, 0x90]) @ nl @ (utf8 [0xE5, 0x88, 0xA4, 0xE5, 0xAE,
        0x9A] @ '': '') @ strength
        @ (if below ev 0 then (utf8 [0xEF, 0xBC, 0x88, 0xE8, 0xB4, 0x9F, 0xE5, 0x80, 0xBC] @ ''='' @ utf8 [0xE6, 0x94, 0xBE, 0xE7, 0x83, 0xAD,
        0xEF, 0xBC, 0x8C, 0xE4, 0xBD, 0x93, 0xE7, 0xB3, 0xBB, 0xE7, 0xA8, 0xB3, 0xE5, 0xAE, 0x9A, 0xEF, 0xBC, 0x89]) else (utf8 [0xEF, 0xBC, 0x88,
        0xE6, 0xAD, 0xA3, 0xE5, 0x80, 0xBC] @ ''='' @ utf8 [0xE5, 0x90, 0xB8, 0xE7, 0x83, 0xAD, 0xEF, 0xBC, 0x8C, 0xE4, 0xB8, 0x8D, 0xE7, 0xA8,
        0xB3, 0xE5, 0xAE, 0x9A, 0xE5, 0x90, 0xB8, 0xE9, 0x99, 0x84, 0xEF, 0xBC,
        0x89]))))\<lparr>hd_extra := [(''metrics'', PDict [(''e_ads_ev'', ev)])]\<rparr>)"

definition view_formation :: "pyval pydict \<Rightarrow> step_session \<Rightarrow> handled" where
  "view_formation data s =
    (let ev = getn data ''formation_energy_ev_per_atom'' in
     (handle s ((utf8 [0xE5, 0xBD, 0xA2, 0xE6, 0x88, 0x90, 0xE8, 0x83, 0xBD, 0xE8, 0xAE, 0xA1, 0xE7, 0xAE, 0x97, 0xE5, 0xAE, 0x8C, 0xE6, 0x88,
        0x90] @ '': '') @ shown data ''formula'' @ '' E_form = '' @ py_str ev @ ('' eV/'' @ utf8 [0xE5, 0x8E, 0x9F, 0xE5, 0xAD, 0x90, 0xEF, 0xBC,
        0x88])
        @ shown data ''formation_energy_ev_per_formula'' @ ('' eV/'' @ utf8 [0xE5, 0x8C, 0x96, 0xE5, 0xAD, 0xA6, 0xE5, 0xBC, 0x8F, 0xEF, 0xBC,
        0x89]) @ nl @ (utf8 [0xE5, 0x88, 0xA4, 0xE5, 0xAE, 0x9A] @ '': '')
        @ (if below ev 0 then (utf8 [0xE7, 0x9B, 0xB8, 0xE5, 0xAF, 0xB9, 0xE5, 0x8D, 0x95, 0xE8, 0xB4, 0xA8, 0xE7, 0xA8, 0xB3, 0xE5, 0xAE, 0x9A,
        0xEF, 0xBC, 0x88, 0xE8, 0xB4, 0x9F, 0xE5, 0xBD, 0xA2, 0xE6, 0x88, 0x90, 0xE8, 0x83, 0xBD, 0xEF, 0xBC, 0x89]) else (utf8 [0xE7, 0x9B, 0xB8,
        0xE5, 0xAF, 0xB9, 0xE5, 0x8D, 0x95, 0xE8, 0xB4, 0xA8, 0xE4, 0xB8, 0x8D, 0xE7, 0xA8, 0xB3, 0xE5, 0xAE, 0x9A, 0xEF, 0xBC, 0x88, 0xE6, 0xAD,
        0xA3, 0xE5, 0xBD, 0xA2, 0xE6, 0x88, 0x90, 0xE8, 0x83, 0xBD, 0xEF, 0xBC, 0x89]))))
       \<lparr>hd_extra := [(''metrics'', PDict [(''formation_energy_ev_per_atom'', ev)])]\<rparr>)"

definition between :: "pyval pydict \<Rightarrow> py_exc + string" where
  "between d = bindr (need d ''between'') (\<lambda>b. bindr (py_list b) (\<lambda>xs. case xs of
     x # y # _ \<Rightarrow> Inr (py_str x @ '' vs '' @ py_str y) | _ \<Rightarrow> Inl IndexError))"

definition gap_lines :: "pyval list \<Rightarrow> pyval list \<Rightarrow> py_exc + string list" where
  "gap_lines items deltas =
    bindr (mapr (\<lambda>it. with_dict it (\<lambda>d. Inr (''  '' @ shown d ''label'' @ ('': '' @ utf8 [0xE5, 0xB8, 0xA6, 0xE9, 0x9A,
        0x99] @ '' '') @ shown d ''band_gap_ev'' @ '' eV''
       @ (if py_true (getn d ''type'') then '' ('' @ shown d ''type'' @ '')'' else [])))) items) (\<lambda>ils.
    bindr (mapr (\<lambda>df. with_dict df (\<lambda>d. bindr (between d) (\<lambda>b. bindr (need d ''delta_band_gap_ev'') (\<lambda>x. bindr (signed4 x) (\<lambda>t.
       bindr (need d ''wider'') (\<lambda>w. Inr (''  '' @ b @ ('': '' @ utf8 [0xE5, 0xB8, 0xA6, 0xE9, 0x9A, 0x99, 0xE5, 0xB7,
        0xAE] @ '' '') @ t @ ('' eV'' @ utf8 [0xEF, 0xBC, 0x88]) @ py_str w @ ('' '' @ utf8 [0xE6, 0x9B, 0xB4, 0xE5, 0xAE, 0xBD, 0xEF, 0xBC,
        0x89])))))))) deltas) (\<lambda>ds.
    Inr (ils @ ds)))"

definition energy_lines :: "pyval list \<Rightarrow> pyval list \<Rightarrow> py_exc + string list" where
  "energy_lines items deltas =
    bindr (mapr (\<lambda>it. with_dict it (\<lambda>d. bindr (need d ''label'') (\<lambda>l. bindr (need d ''energy_ev'') (\<lambda>e.
       Inr (''  '' @ py_str l @ '': E = '' @ py_str e @ '' eV''
         @ (if getn d ''energy_ev_per_atom'' \<noteq> PNone then (utf8 [0xEF, 0xBC,
        0x8C]) @ shown d ''energy_ev_per_atom'' @ ('' eV/'' @ utf8 [0xE5, 0x8E, 0x9F, 0xE5, 0xAD, 0x90]) else [])))))) items) (\<lambda>ils.
    bindr (mapr (\<lambda>df. with_dict df (\<lambda>d.
       bindr (if getn d ''delta_energy_ev_per_atom'' \<noteq> PNone
              then bindr (signed4 (getn d ''delta_energy_ev_per_atom'')) (\<lambda>t. Inr ((utf8 [0xEF, 0xBC, 0x8C]) @ t @ ('' eV/'' @ utf8 [0xE5,
        0x8E, 0x9F, 0xE5, 0xAD, 0x90]))) else Inr []) (\<lambda>per.
       bindr (between d) (\<lambda>b. bindr (need d ''delta_energy_ev'') (\<lambda>x. bindr (signed4 x) (\<lambda>t.
       bindr (need d ''lower'') (\<lambda>w. Inr (''  '' @ b @ ('': '' @ utf8 [0xE8, 0x83, 0xBD, 0xE9, 0x87, 0x8F, 0xE5, 0xB7,
        0xAE] @ '' '') @ t @ '' eV'' @ per @ (utf8 [0xEF, 0xBC, 0x88]) @ py_str w @ ('' '' @ utf8 [0xE6, 0x9B, 0xB4, 0xE4, 0xBD, 0x8E, 0xEF, 0xBC,
        0x89]))))))))) deltas) (\<lambda>ds.
    Inr (ils @ ds)))"

definition compare_block :: "pyval pydict \<Rightarrow> py_exc + string" where
  "compare_block data =
    bindr (py_list (or_val (getn data ''items'') (PList []))) (\<lambda>items.
    bindr (py_list (or_val (getn data ''differences'') (PList []))) (\<lambda>deltas.
    bindr (if getn data ''metric'' = PStr ''band_gap'' then gap_lines items deltas else energy_lines items deltas) (\<lambda>ls.
    Inr (join nl ([(utf8 [0xE5, 0xAF, 0xB9, 0xE6, 0xAF, 0x94, 0xE7, 0xBB, 0x93, 0xE6, 0x9E,
        0x9C] @ '':'')] @ ls @ [''  '' @ str_arg data ''note'' []])))))"

definition view_compare :: "pyval pydict \<Rightarrow> step_session \<Rightarrow> handled" where
  "view_compare data s = (case compare_block data of
     Inr b \<Rightarrow> (handle s b)\<lparr>hd_extra := [(''metrics'', PDict [(''compare'', getn data ''differences'')])]\<rparr>
   | Inl e \<Rightarrow> with_reply (Inl e) s)"

section \<open>Every tool\<close>

definition view_submit :: "pyval pydict \<Rightarrow> step_session \<Rightarrow> handled" where
  "view_submit data s =
    (let s1 = put_ctx ''last_job_id'' (getn data ''job_id'') s; files = getn data ''output_files'' in
     case (if py_true files then (case files of PDict _ \<Rightarrow> Inl (KeyError ''0'') | _ \<Rightarrow> bindr (py_list files) (\<lambda>xs. Inr (hd xs)))
           else Inr (PStr (in_dir (ss_dir s) ''input.in''))) of
       Inl e \<Rightarrow> with_reply (Inl e) s1
     | Inr f \<Rightarrow> handle (put_ctx ''last_output_file'' f s1)
         ((utf8 [0xE4, 0xBB, 0xBB, 0xE5, 0x8A, 0xA1, 0xE5, 0xB7, 0xB2, 0xE6, 0x8F, 0x90, 0xE4, 0xBA,
        0xA4] @ '': job_id='') @ shown data ''job_id'' @ '' walltime='' @ shown data ''walltime_sec'' @ ''s''))"

definition is_number :: "pyval \<Rightarrow> bool" where
  "is_number v = (case v of PInt _ \<Rightarrow> True | PFloat _ \<Rightarrow> True | PBool _ \<Rightarrow> True | _ \<Rightarrow> False)"

definition handle_tool_result :: "string \<Rightarrow> pyval pydict \<Rightarrow> pyval pydict \<Rightarrow> string \<Rightarrow> step_session \<Rightarrow> handled" where
  "handle_tool_result tool data args desc s =
    (let has = (\<lambda>k. py_true (getn data k)) in
     if tool = ''structure.import'' \<and> has ''ok'' \<and> has ''success'' then view_import data args s
     else if tool = ''structure.generate'' \<and> has ''output'' then view_generate data s
     else if tool = ''structure.build2d'' \<and> has ''output'' then view_build2d data s
     else if tool = ''structure.dope'' \<and> has ''output'' then view_dope data s
     else if tool \<in> {''structure.molecule'', ''structure.reference''} \<and> has ''output'' then view_reference data s
     else if tool = ''graph.run'' \<and> has ''run_id'' then view_graph_run data args desc s
     else if tool = ''graph.status'' then view_graph_status data args desc s
     else if tool = ''input.build'' \<and> has ''input_file'' then
       handle (put_ctx ''last_calc_type'' (getn data ''calc_type'') (put_ctx ''last_input_file'' (getn data ''input_file'') s))
         ((utf8 [0xE5, 0xB7, 0xB2, 0xE6, 0x9E, 0x84, 0xE5, 0xBB, 0xBA, 0xE8, 0xBE, 0x93, 0xE5, 0x85,
        0xA5] @ '': '') @ shown data ''input_file'' @ '' ('' @ shown data ''calc_type'' @ '')'')
     else if tool = ''job.submit'' \<and> has ''ok'' \<and> has ''success'' then view_submit data s
     else if tool = ''job.status'' then handle s ((utf8 [0xE4, 0xBB, 0xBB, 0xE5, 0x8A, 0xA1, 0xE7, 0x8A, 0xB6, 0xE6, 0x80,
        0x81] @ '': '') @ str_arg data ''state'' ''unknown'')
     else if tool = ''result.parse'' then
       handle (put_ctx ''last_result_type'' (getn args ''type'') (put_ctx ''last_output_file'' (getn args ''input'') s))
         ((utf8 [0xE8, 0xA7, 0xA3, 0xE6, 0x9E, 0x90, 0xE5, 0xAE, 0x8C, 0xE6, 0x88, 0x90] @ '': '') @ shown args ''type'')
     else if tool = ''result.verify'' then handle s ((utf8 [0xE9, 0xAA, 0x8C, 0xE8, 0xAF, 0x81, 0xE5, 0xAE, 0x8C, 0xE6, 0x88,
        0x90] @ '': passed='') @ shown data ''passed'')
     else if tool = ''ledger.query'' then handle s ((utf8 [0xE8, 0xB4, 0xA6, 0xE6, 0x9C, 0xAC, 0xE8, 0xAE, 0xB0, 0xE5, 0xBD, 0x95, 0xE6, 0x95,
        0xB0] @ '': '') @ py_str (get_or data ''count'' (PInt 0)))
     else if tool = ''doctor'' then
       handle s ((utf8 [0xE7, 0x8E, 0xAF, 0xE5, 0xA2, 0x83, 0xE8, 0xAF, 0x8A, 0xE6, 0x96, 0xAD, 0xE5, 0xAE, 0x8C, 0xE6, 0x88,
        0x90] @ '': QE='') @ shown data ''qe_binary'' @ '' bands.x='' @ shown data ''bands_x_binary'' @ '' dos.x='' @ shown data ''dos_x_binary'')
     else if tool = ''structure.analyze'' then view_analyze data args s
     else if tool = ''thermo.eads'' \<and> is_number (getn data ''e_ads_ev'') then view_eads data s
     else if tool = ''thermo.formation'' \<and> is_number (getn data ''formation_energy_ev_per_atom'') then view_formation data s
     else if tool = ''analysis.compare'' \<and> has ''ok'' then view_compare data s
     else handle s (desc @ ('': '' @ utf8 [0xE5, 0xAE, 0x8C, 0xE6, 0x88, 0x90])))"

end
