(* ===== verification/Session.thy ===== *)
theory Session
  imports Result_Views
begin

text \<open>
  One message of a chat session (\<open>agent_loop/executor.py\<close>): the steps of the plan are prepared, their tools called
  through the registry, the results taken in, and a reply is put together.

  \<^item> The registry, the language model's planner and narrator and the reading of JSON files are arguments; the rule
    planner is the one of \<open>Rule_Planner\<close>.
  \<^item> The guard and the preparation of a step stand outside the \<open>try\<close> of the source: what they raise ends the
    session (a left value). What the registry and the handlers do inside it never does.
  \<^item> Events, summaries and node logs, which only the browser shows, are left out. Descriptions are texts.
\<close>

section \<open>State\<close>

record 'w session_env =
  av_violations :: violations
  av_registry :: "'w registry"
  av_ase :: ase
  av_disk :: "'w \<Rightarrow> step_disk"
  av_json :: "'w \<Rightarrow> string \<Rightarrow> pyval option"

record 'w session_run =
  sn_session :: step_session
  sn_world :: 'w
  sn_commands :: "pyval pydict list"
  sn_results :: "pyval pydict list"
  sn_replies :: "string list"
  sn_chain :: "(string \<times> string) list"

definition result_dict :: "pyval \<Rightarrow> int \<Rightarrow> pyval \<Rightarrow> pyval \<Rightarrow> pyval pydict" where
  "result_dict tool code inner e = [(''tool_id'', tool), (''returncode'', PInt code), (''json'', inner), (''error'', e), (''traceback'', PNone)]"

definition add_step :: "pyval pydict \<Rightarrow> pyval pydict \<Rightarrow> string list \<Rightarrow> string \<times> string \<Rightarrow> 'w session_run \<Rightarrow> 'w session_run" where
  "add_step command result replies link st = st\<lparr>sn_commands := sn_commands st @ [command], sn_results := sn_results st @ [result],
     sn_replies := sn_replies st @ replies, sn_chain := sn_chain st @ [link]\<rparr>"

definition noop :: "string \<Rightarrow> pyval pydict" where
  "noop desc = [(''command'', PStr ''noop''), (''description'', PStr desc)]"

section \<open>Steps without a call\<close>

fun has_cjk :: "string \<Rightarrow> bool" where
  "has_cjk (c # d # s) = (let n = of_char c :: int; m = of_char d :: int in
     0xE5 \<le> n \<and> n \<le> 0xE9 \<or> n = 0xE4 \<and> 0xB8 \<le> m \<or> has_cjk (d # s))"
| "has_cjk _ = False"

definition HELP_TEXT :: string where
  "HELP_TEXT = join nl
    [(utf8 [0xE6, 0x88, 0x91, 0xE5, 0x8F, 0xAF, 0xE4, 0xBB, 0xA5, 0xE5, 0xB8, 0xAE, 0xE4, 0xBD, 0xA0, 0xE5, 0x81, 0x9A, 0xE8, 0xBF, 0x99, 0xE4,
        0xBA, 0x9B, 0xEF, 0xBC, 0x9A]), (''- '' @ utf8 [0xE8, 0xAE, 0xA1, 0xE7, 0xAE, 0x97, 0xE9, 0x94, 0xAE, 0xE9, 0x95,
        0xBF] @ ''/'' @ utf8 [0xE5, 0x88, 0x86, 0xE6, 0x9E, 0x90, 0xE7, 0xBB, 0x93, 0xE6, 0x9E, 0x84, 0xEF, 0xBC, 0x9A, 0x27, 0xE8, 0xAE, 0xA1,
        0xE7, 0xAE, 0x97] @ ''nacl'' @ utf8 [0xE7, 0x9A, 0x84, 0xE9, 0x94, 0xAE, 0xE9, 0x95, 0xBF, 0x27, 0xE3, 0x80, 0x81, 0x27, 0xE7, 0x9C, 0x8B,
        0xE7, 0x9C, 0x8B] @ ''Si'' @ utf8 [0xE7, 0x9A, 0x84, 0xE7, 0xBB, 0x93, 0xE6, 0x9E, 0x84, 0x27]), (''- '' @ utf8 [0xE7, 0x94, 0x9F, 0xE6,
        0x88, 0x90, 0xE6, 0xA0, 0x87, 0xE5, 0x87, 0x86, 0xE7, 0xBB, 0x93, 0xE6, 0x9E, 0x84, 0xEF, 0xBC, 0x9A, 0x27, 0xE7, 0x94, 0x9F, 0xE6, 0x88,
        0x90] @ ''NaCl'' @ utf8 [0xE7, 0xBB, 0x93, 0xE6, 0x9E, 0x84, 0x27]),
     (''- '' @ utf8 [0xE6, 0x9E, 0x84, 0xE5, 0xBB, 0xBA] @ ''QE'' @ utf8 [0xE8, 0xBE, 0x93, 0xE5, 0x85, 0xA5, 0xEF, 0xBC, 0x9A, 0x27, 0xE6, 0x9E,
        0x84, 0xE5, 0xBB, 0xBA] @ ''vc-relax'' @ utf8 [0xE8, 0xBE, 0x93, 0xE5, 0x85, 0xA5, 0x27, 0xE3, 0x80, 0x81,
        0x27] @ ''build a relax input for Si'' @ utf8 [0x27]), (''- '' @ utf8 [0xE6, 0x8F, 0x90, 0xE4, 0xBA, 0xA4] @ ''/'' @ utf8 [0xE8, 0xBF,
        0x90, 0xE8, 0xA1, 0x8C, 0xE8, 0xAE, 0xA1, 0xE7, 0xAE, 0x97, 0xEF, 0xBC, 0x9A, 0x27, 0xE6, 0x8F, 0x90, 0xE4, 0xBA, 0xA4, 0xE8, 0xAE, 0xA1,
        0xE7, 0xAE, 0x97, 0x27, 0xE3, 0x80, 0x81, 0x27] @ ''run'' @ utf8 [0x27]), (''- '' @ utf8 [0xE6, 0x9F, 0xA5, 0xE7, 0x9C, 0x8B, 0xE7, 0x8A,
        0xB6, 0xE6, 0x80, 0x81, 0xEF, 0xBC, 0x9A, 0x27, 0xE6, 0x9F, 0xA5, 0xE7, 0x9C, 0x8B, 0xE7, 0x8A, 0xB6, 0xE6, 0x80, 0x81, 0x27, 0xE3, 0x80,
        0x81, 0x27] @ ''status'' @ utf8 [0x27]),
     (''- '' @ utf8 [0xE8, 0xA7, 0xA3, 0xE6, 0x9E, 0x90] @ ''/'' @ utf8 [0xE9, 0xAA, 0x8C, 0xE8, 0xAF, 0x81, 0xE7, 0xBB, 0x93, 0xE6, 0x9E, 0x9C,
        0xEF, 0xBC, 0x9A, 0x27, 0xE8, 0xA7, 0xA3, 0xE6, 0x9E, 0x90, 0xE7, 0xBB, 0x93, 0xE6, 0x9E, 0x9C, 0x27, 0xE3, 0x80, 0x81,
        0x27] @ ''verify'' @ utf8 [0x27]), (''- '' @ utf8 [0xE6, 0x9F, 0xA5, 0xE8, 0xAF, 0xA2, 0xE5, 0x8E, 0x86, 0xE5, 0x8F, 0xB2, 0xEF, 0xBC,
        0x9A, 0x27, 0xE6, 0x9F, 0xA5, 0xE8, 0xAF, 0xA2, 0xE8, 0xB4, 0xA6, 0xE6, 0x9C, 0xAC, 0x27, 0xE3, 0x80, 0x81,
        0x27] @ ''history'' @ utf8 [0x27]), (''- '' @ utf8 [0xE7, 0x8E, 0xAF, 0xE5, 0xA2, 0x83, 0xE8, 0xAF, 0x8A, 0xE6, 0x96, 0xAD, 0xEF, 0xBC,
        0x9A, 0x27, 0xE7, 0x8E, 0xAF, 0xE5, 0xA2, 0x83, 0xE8, 0xAF, 0x8A, 0xE6, 0x96, 0xAD, 0x27, 0xE3, 0x80, 0x81,
        0x27] @ ''doctor'' @ utf8 [0x27])]"

definition help_step :: "string \<Rightarrow> pyval pydict \<Rightarrow> 'w session_run \<Rightarrow> 'w session_run" where
  "help_step desc args = (let notice = ascii_strip desc in
     add_step [(''command'', PStr ''help''), (''description'', PStr desc), (''args'', PDict args)]
       (result_dict (PStr ''help'') 0 PNone PNone) [if notice \<noteq> [] \<and> has_cjk notice then notice else HELP_TEXT] (''help'', ''done''))"

definition unmatched_step :: "string \<Rightarrow> 'w session_run \<Rightarrow> 'w session_run" where
  "unmatched_step desc = add_step (noop desc) (result_dict PNone (- 1) PNone (PStr ''No matching tool''))
     [(utf8 [0xE6, 0x9C, 0xAA, 0xE5, 0x8C, 0xB9, 0xE9, 0x85, 0x8D, 0xE5, 0x88, 0xB0, 0xE5, 0x8F, 0xAF, 0xE6, 0x89, 0xA7, 0xE8, 0xA1, 0x8C, 0xE5,
        0xB7, 0xA5, 0xE5, 0x85, 0xB7, 0xEF, 0xBC, 0x8C, 0xE8, 0xAF, 0xB7, 0xE5, 0xB0, 0x9D, 0xE8, 0xAF, 0x95, 0xEF, 0xBC, 0x9A, 0xE5, 0xAF, 0xBC,
        0xE5, 0x85, 0xA5, 0xE7, 0xBB, 0x93, 0xE6, 0x9E, 0x84, 0xE3, 0x80, 0x81, 0xE6, 0x9E, 0x84, 0xE5, 0xBB, 0xBA, 0xE8, 0xBE, 0x93, 0xE5, 0x85,
        0xA5, 0xE3, 0x80, 0x81, 0xE6, 0x8F, 0x90, 0xE4, 0xBA, 0xA4, 0xE4, 0xBB, 0xBB, 0xE5, 0x8A, 0xA1, 0xE3, 0x80, 0x81, 0xE6, 0x9F, 0xA5, 0xE7,
        0x9C, 0x8B, 0xE7, 0x8A, 0xB6, 0xE6, 0x80, 0x81, 0xE3, 0x80, 0x81, 0xE6, 0x9F, 0xA5, 0xE8, 0xAF, 0xA2, 0xE8, 0xB4, 0xA6, 0xE6, 0x9C, 0xAC,
        0xE3, 0x80, 0x81, 0xE7, 0x8E, 0xAF, 0xE5, 0xA2, 0x83, 0xE8, 0xAF, 0x8A, 0xE6, 0x96, 0xAD, 0xE3, 0x80, 0x82])] ([], ''error'')"

definition rejected_step :: "string \<Rightarrow> string \<Rightarrow> string \<Rightarrow> 'w session_run \<Rightarrow> 'w session_run" where
  "rejected_step tool desc notice = add_step (noop desc)
     (result_dict (PStr tool) (- 1) PNone (PStr ''self-doping rejected (dopant == host element)'')) [notice] (tool, ''error'')"

definition aborted_step :: "string \<Rightarrow> string \<Rightarrow> string \<Rightarrow> 'w session_run \<Rightarrow> 'w session_run" where
  "aborted_step tool desc msg = add_step (noop desc) (result_dict (PStr tool) (- 1) PNone (PStr msg))
     [(utf8 [0xE6, 0xAD, 0xA5, 0xE9, 0xAA, 0xA4, 0xE5, 0xA4, 0xB1, 0xE8, 0xB4, 0xA5] @ '': '') @ desc @ ('' '' @ utf8 [0xE2, 0x80,
        0x94] @ '' '' @ utf8 [0xE5, 0x89, 0x8D, 0xE7, 0xBD, 0xAE, 0xE7, 0xBB, 0x93, 0xE6, 0x9E, 0x84, 0xE6, 0x9E, 0x84, 0xE5, 0xBB, 0xBA, 0xE6,
        0x9C, 0xAA, 0xE6, 0x88, 0x90, 0xE5, 0x8A, 0x9F, 0xEF, 0xBC, 0x8C, 0xE6, 0x97, 0xA0, 0xE6, 0xB3, 0x95, 0xE9, 0x93, 0xBE, 0xE6, 0x8E, 0xA5,
        0xE7, 0xBB, 0x93, 0xE6, 0x9E, 0x84, 0xE3, 0x80, 0x82])] (tool, ''error'')"

section \<open>Calls\<close>

definition inner_of :: "'w session_env \<Rightarrow> pyval pydict \<Rightarrow> pyval pydict \<Rightarrow> 'w \<Rightarrow> pyval" where
  "inner_of av data args k =
    (let inner = (case dget data ''json'' of Some v \<Rightarrow> v | None \<Rightarrow> if dmem ''returncode'' data then PNone else PDict data) in
     if inner = PNone \<and> ends_with ''.json'' (str_arg args ''output'' [])
     then (case av_json av k (str_arg args ''output'' []) of Some v \<Rightarrow> v | None \<Rightarrow> PNone) else inner)"

definition add_failure :: "string \<Rightarrow> step_session \<Rightarrow> py_exc + step_session" where
  "add_failure text s = (case get_or (ss_ctx s) ''last_failures'' (PList []) of
     PList old \<Rightarrow> Inr (put_ctx ''last_failures'' (PList (old @ [PStr text])) s) | _ \<Rightarrow> Inl AttributeError)"

text \<open>What is done with an answer: a reply, what is added to the result, or an exception.\<close>

definition failed_answer :: "string \<Rightarrow> string \<Rightarrow> step_session \<Rightarrow> handled" where
  "failed_answer desc msg s =
    (case add_failure (desc @ '': '' @ msg) s of
       Inr s1 \<Rightarrow> handle s1 (desc @ ('': '' @ utf8 [0xE5, 0xA4, 0xB1, 0xE8, 0xB4, 0xA5] @ '' - '') @ msg)
     | Inl e \<Rightarrow> \<lparr>hd_session = s, hd_reply = [desc @ ('': '' @ utf8 [0xE5, 0xA4, 0xB1, 0xE8, 0xB4,
        0xA5] @ '' - '') @ msg], hd_extra = [], hd_raised = Some e\<rparr>)"

definition READ_TOOLS :: "string list" where
  "READ_TOOLS = [''structure.import'', ''structure.generate'', ''structure.build2d'', ''structure.dope'', ''structure.molecule'',
     ''structure.reference'', ''graph.run'', ''graph.status'', ''input.build'', ''job.submit'', ''job.status'', ''result.verify'',
     ''ledger.query'', ''doctor'', ''structure.analyze'', ''thermo.eads'', ''thermo.formation'', ''analysis.compare'']"

definition take_answer :: "string \<Rightarrow> pyval \<Rightarrow> string option \<Rightarrow> pyval pydict \<Rightarrow> string \<Rightarrow> step_session \<Rightarrow> handled" where
  "take_answer tool inner failure args desc s =
    (let data = or_val inner (PDict []) in
     case failure of
       Some (c # msg) \<Rightarrow> failed_answer desc (c # msg) s
     | _ \<Rightarrow>
         (case data of
            PDict d \<Rightarrow> if py_true (getn d ''error'') \<and> tool \<noteq> ''structure.analyze'' then failed_answer desc (shown d ''error'') s
              else handle_tool_result tool d args desc s
          | _ \<Rightarrow> if tool \<in> set READ_TOOLS then \<lparr>hd_session = s, hd_reply = [], hd_extra = [], hd_raised = Some AttributeError\<rparr>
              else handle_tool_result tool [] args desc s))"

definition step_failed :: "string \<Rightarrow> pyval pydict \<Rightarrow> bool" where
  "step_failed tool result = (py_true (getn result ''error'')
     \<or> (case getn result ''json'' of PDict d \<Rightarrow> py_true (getn d ''error'') \<and> tool \<noteq> ''structure.analyze'' | _ \<Rightarrow> False))"

definition call_step ::
  "'w session_env \<Rightarrow> string \<Rightarrow> pyval pydict \<Rightarrow> string \<Rightarrow> 'w session_run \<Rightarrow> 'w session_run" where
  "call_step av tool args desc st =
    (let (r, k) = call (av_violations av) (av_registry av) tool (PDict args) (sn_world st);
         inner = inner_of av (tr_data r) args k;
         h = take_answer tool inner (tr_error r) args desc (sn_session st);
         result = (case hd_raised h of
           Some e \<Rightarrow> result_dict (PStr tool) 1 PNone (PStr (exc_text e))
         | None \<Rightarrow> result_dict (PStr (tr_tool_id r)) (if tr_error r = None then 0 else 1) inner
             (case tr_error r of None \<Rightarrow> PNone | Some e \<Rightarrow> PStr e) @ hd_extra h);
         replies = hd_reply h @ (case hd_raised h of Some e \<Rightarrow> [desc @ ('': '' @ utf8 [0xE5, 0xBC, 0x82, 0xE5, 0xB8,
        0xB8] @ '' - '') @ exc_text e] | None \<Rightarrow> []) in
     add_step [(''command'', PStr tool), (''description'', PStr desc), (''args'', PDict args)] result replies
       (tool, if step_failed tool result then ''error'' else ''done'')
       (st\<lparr>sn_session := hd_session h, sn_world := k\<rparr>))"

section \<open>The loop\<close>

definition run_one :: "'w session_env \<Rightarrow> pyval pydict \<Rightarrow> 'w session_run \<Rightarrow> py_exc + 'w session_run" where
  "run_one av step st =
    bindr (py_dict (or_val (getn step ''args'') (PDict []))) (\<lambda>args.
    let desc = str_arg step ''description'' []; tool = py_str (getn step ''tool'') in
    if \<not> py_true (getn step ''tool'') then Inr (unmatched_step desc st)
    else if tool = ''help'' then Inr (help_step desc args st)
    else bindr (check_self_doping (av_ase av) tool args) (\<lambda>nonsense.
      case nonsense of
        Some notice \<Rightarrow> Inr (rejected_step tool desc notice st)
      | None \<Rightarrow>
          bindr (prepare_step_args (av_ase av) (av_disk av (sn_world st)) (sn_session st) tool args) (\<lambda>(abort, args1).
          case abort of
            Some msg \<Rightarrow> Inr (aborted_step tool desc msg st)
          | None \<Rightarrow> Inr (call_step av tool args1 desc st))))"

fun run_steps :: "'w session_env \<Rightarrow> pyval pydict list \<Rightarrow> 'w session_run \<Rightarrow> py_exc + 'w session_run" where
  "run_steps av [] st = Inr st"
| "run_steps av (s # ss) st = bindr (run_one av s st) (run_steps av ss)"

section \<open>The reply\<close>

definition compare_blocks :: "string \<Rightarrow> pyval pydict list \<Rightarrow> pyval pydict list \<Rightarrow> py_exc + string list" where
  "compare_blocks reply commands results =
    bindr (mapr (\<lambda>(c, r). case getn r ''json'' of
        PDict d \<Rightarrow> if getn c ''command'' = PStr ''analysis.compare'' \<and> py_true (getn d ''ok'')
          then bindr (compare_block d) (\<lambda>b. Inr (if contains b reply then [] else [b])) else Inr []
      | _ \<Rightarrow> Inr []) (zip commands results)) (\<lambda>bs. Inr (concat bs))"

definition ascii_rstrip :: "string \<Rightarrow> string" where
  "ascii_rstrip s = rev (dropWhile ascii_space (rev s))"

definition add_block :: "string \<Rightarrow> string \<Rightarrow> string" where
  "add_block reply b = (if contains b reply then reply else ascii_rstrip reply @ nl @ b)"

definition final_reply :: "string \<Rightarrow> 'w session_run \<Rightarrow> py_exc + string" where
  "final_reply narrated st =
    (let plain = (if sn_replies st = [] then (utf8 [0xE6, 0x88, 0x91, 0xE5, 0xB7, 0xB2, 0xE6, 0x94, 0xB6, 0xE5, 0x88, 0xB0, 0xE4, 0xBD, 0xA0, 0xE7,
        0x9A, 0x84, 0xE6, 0xB6, 0x88, 0xE6, 0x81, 0xAF, 0xE3, 0x80, 0x82]) else join nl (sn_replies st));
         reply = (if narrated \<noteq> [] \<and> sn_commands st \<noteq> [] then narrated else plain) in
     bindr (compare_blocks reply (sn_commands st) (sn_results st)) (\<lambda>bs.
     let reply1 = (if bs = [] then reply else ascii_rstrip reply @ nl @ join nl bs);
         facts = map (\<lambda>r. shown r ''facts'') (filter (\<lambda>r. py_true (getn r ''facts'')) (sn_results st)) in
     Inr (foldl add_block reply1 facts)))"

definition trim_failures :: "pyval pydict \<Rightarrow> py_exc + pyval pydict" where
  "trim_failures ctx = (case getn ctx ''last_failures'' of
     PList (x # xs) \<Rightarrow> Inr (dput ''last_failures'' (PList (last_n 5 (x # xs))) ctx)
   | v \<Rightarrow> if py_true v then Inl TypeError else Inr ctx)"

section \<open>A session\<close>

record session_answer =
  an_reply :: string
  an_commands :: "pyval pydict list"
  an_results :: "pyval pydict list"
  an_chain :: "(string \<times> string) list"
  an_ctx :: "pyval pydict"
  an_planner :: string

definition plan_to_dict :: "plan_ir \<Rightarrow> pyval" where
  "plan_to_dict p = PDict [(''goal'', PStr (goal p)), (''constraints'', PDict (constraints p)), (''assumptions'', strs (assumptions p)),
     (''expected_outputs'', strs (expected_outputs p)), (''actions'', PList (map PDict (actions p))), (''validation'', strs (validation p)),
     (''source'', PStr (plan_source p))]"

text \<open>The language model's planner gives steps, or a reply alone, or nothing, and the plan it made.\<close>

record llm_plan =
  lp_steps :: "pyval pydict list option"
  lp_reply :: "string option"
  lp_plan :: "plan_ir option"

definition new_run :: "string \<Rightarrow> pyval pydict \<Rightarrow> 'w \<Rightarrow> 'w session_run" where
  "new_run dir ctx k = \<lparr>sn_session = \<lparr>ss_dir = dir, ss_ctx = ctx, ss_built = PNone, ss_energies = []\<rparr>, sn_world = k, sn_commands = [],
     sn_results = [], sn_replies = [], sn_chain = []\<rparr>"

definition session_steps ::
  "'w session_env \<Rightarrow> (string \<Rightarrow> pyval pydict \<Rightarrow> intent_signals) \<Rightarrow> llm_plan \<Rightarrow> string \<Rightarrow> pyval pydict
     \<Rightarrow> py_exc + pyval pydict list \<times> plan_ir" where
  "session_steps av detect llm message ctx =
    (case lp_steps llm of
       Some steps \<Rightarrow> (case lp_plan llm of Some p \<Rightarrow> Inr (steps, p) | None \<Rightarrow> bindr (from_steps message steps ''llm'') (\<lambda>p. Inr (steps, p)))
     | None \<Rightarrow> bindr (rule_plan (av_ase av) detect message ctx) (\<lambda>steps. bindr (from_steps message steps ''rules'') (\<lambda>p. Inr (steps, p))))"

definition run_session ::
  "'w session_env \<Rightarrow> (string \<Rightarrow> pyval pydict \<Rightarrow> intent_signals) \<Rightarrow> llm_plan \<Rightarrow> ('w session_run \<Rightarrow> string) \<Rightarrow> string \<Rightarrow> string
     \<Rightarrow> pyval pydict \<Rightarrow> 'w \<Rightarrow> py_exc + session_answer \<times> 'w" where
  "run_session av detect llm narrate message dir ctx k =
    (case lp_reply llm of
       Some text \<Rightarrow> Inr (\<lparr>an_reply = text, an_commands = [], an_results = [], an_chain = [], an_ctx = ctx, an_planner = ''llm''\<rparr>, k)
     | None \<Rightarrow>
         bindr (session_steps av detect llm message ctx) (\<lambda>(steps, p).
         bindr (run_steps av steps (new_run dir (dput ''last_plan'' (plan_to_dict p) ctx) k)) (\<lambda>st.
         bindr (final_reply (narrate st) st) (\<lambda>reply.
         bindr (trim_failures (ss_ctx (sn_session st))) (\<lambda>ctx1.
         Inr (\<lparr>an_reply = reply, an_commands = sn_commands st, an_results = sn_results st, an_chain = sn_chain st, an_ctx = ctx1,
               an_planner = (if lp_steps llm \<noteq> None then ''llm'' else ''rules'')\<rparr>, sn_world st))))))"

end
