(* ===== verification/Session_Props.thy ===== *)
theory Session_Props
  imports Session Compiler_Props
begin

text \<open>
  What a message of a chat session comes to: the plans of the rule planner, the records of the steps, and which
  structure and which energies a step is given.
\<close>

lemma getn_Cons [simp]: "getn ((k, v) # d) j = (if j = k then v else getn d j)"
  by (simp add: getn_def Recovery.get_or_def dget_def)

lemma getn_Nil [simp]: "getn [] j = PNone"
  by (simp add: getn_def Recovery.get_or_def dget_def)

lemma getn_dput: "getn (dput k v d) j = (if j = k then v else getn d j)"
  by (simp add: getn_def Recovery.get_or_def dget_dput)

section \<open>Plans of the rule planner\<close>

definition BUILDERS :: "string list" where
  "BUILDERS = [''structure.build2d'', ''structure.dope'', ''structure.molecule'', ''structure.reference'']"

definition PLAN_TOOLS :: "string list" where
  "PLAN_TOOLS = BUILDERS @ [''structure.generate'', ''structure.import'', ''structure.analyze'', ''graph.run'', ''graph.status'', ''input.build'',
     ''job.submit'', ''job.status'', ''result.parse'', ''result.verify'', ''ledger.query'', ''doctor'', ''thermo.eads'',
     ''thermo.formation'', ''analysis.compare'', ''help'']"

definition step_tool :: "pyval pydict \<Rightarrow> string" where
  "step_tool s = (case getn s ''tool'' of PStr t \<Rightarrow> t | _ \<Rightarrow> [])"

definition names_material :: "pyval pydict \<Rightarrow> bool" where
  "names_material s = (case getn s ''args'' of PDict a \<Rightarrow> (case getn a ''inputs'' of PDict i \<Rightarrow> py_true (getn i ''material'') | _ \<Rightarrow> False)
     | _ \<Rightarrow> False)"

text \<open>Every run has a structure: a step before it builds one, or it names its material.\<close>

fun supplied :: "bool \<Rightarrow> pyval pydict list \<Rightarrow> bool" where
  "supplied built [] = True"
| "supplied built (s # ss) = ((step_tool s = ''graph.run'' \<longrightarrow> built \<or> names_material s) \<and> supplied (built \<or> step_tool s \<in> set BUILDERS) ss)"

definition good_plan :: "pyval pydict list \<Rightarrow> bool" where
  "good_plan ss = (ss \<noteq> [] \<and> (\<forall>s \<in> set ss. step_tool s \<in> set PLAN_TOOLS) \<and> supplied False ss)"

lemma step_tool_mk [simp]: "step_tool (mk_step t a d) = t"
  by (simp add: step_tool_def mk_step_def)

lemma step_tool_run [simp]: "step_tool (run_step t i d) = ''graph.run''"
  by (simp add: run_step_def)

lemma names_material_run [simp]: "names_material (run_step t i d) = py_true (getn i ''material'')"
  by (simp add: run_step_def mk_step_def names_material_def)

lemma supplied_append: "supplied b (xs @ ys) = (supplied b xs \<and> supplied (b \<or> (\<exists>x \<in> set xs. step_tool x \<in> set BUILDERS)) ys)"
  by (induction xs arbitrary: b) (auto simp: ac_simps)

lemma supplied_built: "supplied True ss"
  by (induction ss) auto

lemma supplied_runless: "\<forall>s \<in> set ss. step_tool s \<noteq> ''graph.run'' \<Longrightarrow> supplied b ss"
  by (induction ss arbitrary: b) auto

lemma supplied_named: "\<forall>s \<in> set ss. names_material s \<Longrightarrow> supplied b ss"
  by (induction ss arbitrary: b) auto

lemma runless_plan:
  "ss \<noteq> [] \<Longrightarrow> \<forall>s \<in> set ss. step_tool s \<in> set PLAN_TOOLS - {''graph.run''} \<Longrightarrow> good_plan ss"
  by (auto simp: good_plan_def intro: supplied_runless)

lemma good_eads: "good_plan (eads_steps k a s m)"
  by (simp add: good_plan_def eads_steps_def BUILDERS_def PLAN_TOOLS_def)

lemma supplied_references: "supplied b (concat (map (\<lambda>el. [mk_step ''structure.reference'' (f el) (g el), run_step t [] (h el)]) els))"
  by (induction els arbitrary: b) (auto simp: BUILDERS_def supplied_built)

lemma good_formation: "cmpd \<noteq> [] \<Longrightarrow> good_plan (plan_formation ase cmpd)"
  by (auto simp: plan_formation_def Let_def formation_steps_def good_plan_def BUILDERS_def PLAN_TOOLS_def supplied_append
      intro!: supplied_built supplied_references)

definition calm :: "pyval pydict list \<Rightarrow> bool" where
  "calm ss = (\<forall>s \<in> set ss. step_tool s \<in> set PLAN_TOOLS - {''graph.run''})"

lemma calm_simps [simp]: "calm []" "calm (mk_step t a d # ss) = (t \<in> set PLAN_TOOLS - {''graph.run''} \<and> calm ss)"
  "calm (xs @ ys) = (calm xs \<and> calm ys)"
  by (auto simp: calm_def)

lemma calm_layer: "calm (build_layer k # ss) = calm ss"
  by (simp add: build_layer_def PLAN_TOOLS_def BUILDERS_def)

lemma calm_generate: "calm (generate_step k # ss) = calm ss"
  by (simp add: generate_step_def PLAN_TOOLS_def)

lemma calm_analyze: "calm (plan_analyze sig ctx)"
  by (simp add: plan_analyze_def calm_layer calm_generate Let_def) (simp add: PLAN_TOOLS_def)

lemma calm_structure: "calm (plan_structure sig ctx)"
  by (simp add: plan_structure_def calm_analyze calm_layer calm_generate) (simp add: PLAN_TOOLS_def)

lemma calm_input: "calm (plan_input sig low ctx)"
  by (simp add: plan_input_def Let_def) (simp add: PLAN_TOOLS_def)

lemma calm_jobs: "calm (plan_jobs sig message ctx)"
  by (simp add: plan_jobs_def Let_def) (simp add: PLAN_TOOLS_def)

lemma calm_plan: "ss \<noteq> [] \<Longrightarrow> calm ss \<Longrightarrow> good_plan ss"
  unfolding calm_def by (rule runless_plan)

lemma good_single: "good_plan (plan_single sig message ctx)"
proof (rule calm_plan)
  show "calm (plan_single sig message ctx)"
    by (simp add: plan_single_def Let_def calm_structure calm_input calm_jobs) (simp add: PLAN_TOOLS_def)
qed (simp add: plan_single_def Let_def)

lemma labelled_step: "dget TARGET_LABELS t = Some l \<Longrightarrow> Rule_Planner.target_step name inputs t = Inr (run_step t inputs (name @ '' '' @ l))"
  by (simp add: Rule_Planner.target_step_def)

lemma target_steps:
  assumes "set ts \<subseteq> set (dkeys TARGET_LABELS)"
  shows "\<exists>ls. mapr (Rule_Planner.target_step name inputs) ts = Inr (map2 (\<lambda>t l. run_step t inputs (name @ '' '' @ l)) ts ls) \<and> length ls = length ts"
  using assms
proof (induction ts)
  case Nil show ?case by simp
next
  case (Cons t ts)
  then obtain ls where ls: "mapr (Rule_Planner.target_step name inputs) ts = Inr (map2 (\<lambda>t l. run_step t inputs (name @ '' '' @ l)) ts ls)" "length ls = length ts"
    by auto
  obtain l where "dget TARGET_LABELS t = Some l" using Cons.prems dget_None_iff [of TARGET_LABELS t] by (cases "dget TARGET_LABELS t") auto
  then show ?case using ls by (intro exI [of _ "l # ls"]) (simp add: labelled_step)
qed

lemma build_steps_tools: "s \<in> set (build_steps sig) \<Longrightarrow> step_tool s \<in> set BUILDERS"
  by (auto simp: build_steps_def Let_def BUILDERS_def split: if_splits)

lemma build_steps_plan: "build_steps sig \<noteq> [] \<Longrightarrow> \<forall>s \<in> set ss. step_tool s = ''graph.run'' \<Longrightarrow> good_plan (build_steps sig @ ss)"
proof -
  assume *: "build_steps sig \<noteq> []" "\<forall>s \<in> set ss. step_tool s = ''graph.run''"
  have b: "\<forall>s \<in> set (build_steps sig). step_tool s \<in> set BUILDERS" using build_steps_tools by blast
  then have "\<forall>s \<in> set (build_steps sig). step_tool s \<noteq> ''graph.run''" by (auto simp: BUILDERS_def)
  then have "supplied False (build_steps sig)" by (rule supplied_runless)
  moreover have "\<exists>s \<in> set (build_steps sig). step_tool s \<in> set BUILDERS" using * b by (cases "build_steps sig") auto
  ultimately show ?thesis using * b by (auto simp: good_plan_def PLAN_TOOLS_def supplied_append supplied_built)
qed

lemma good_targets:
  assumes "set (graph_targets sig) \<subseteq> set (dkeys TARGET_LABELS)"
  shows "\<exists>ss. plan_targets sig message ctx = Inr ss \<and> good_plan ss"
proof -
  let ?ts = "graph_targets sig"
  obtain ls where ls: "mapr (Rule_Planner.target_step (system_name sig) []) ?ts = Inr (map2 (\<lambda>t l. run_step t [] (system_name sig @ '' '' @ l)) ?ts ls)"
    using target_steps [OF assms] by blast
  let ?m = "[(''material'', PStr (opt_text (formula_hint sig)))]" and ?f = "opt_text (formula_hint sig)"
  obtain ms where ms: "mapr (Rule_Planner.target_step ?f ?m) ?ts = Inr (map2 (\<lambda>t l. run_step t ?m (?f @ '' '' @ l)) ?ts ms)" "length ms = length ?ts"
    using target_steps [OF assms] by blast
  have gm: "given (formula_hint sig) \<Longrightarrow> ?ts \<noteq> [] \<Longrightarrow> good_plan (map2 (\<lambda>t l. run_step t ?m (?f @ '' '' @ l)) ?ts ms)"
    using ms(2) by (auto simp: good_plan_def PLAN_TOOLS_def given_def opt_text_def zip_eq_Nil_iff split: option.splits intro!: supplied_named)
  have gb: "build_steps sig \<noteq> [] \<Longrightarrow> good_plan (build_steps sig @ map2 (\<lambda>t l. run_step t [] (system_name sig @ '' '' @ l)) ?ts ls)"
    by (rule build_steps_plan) (auto simp: set_zip)
  show ?thesis using ls ms gm gb good_single by (auto simp: plan_targets_def Let_def)
qed

lemma plan_compare_good:
  "plan_compare sig low es = Inr (Some ss) \<Longrightarrow> good_plan ss"
  by (rule calm_plan) (auto simp: plan_compare_def PLAN_TOOLS_def Let_def bindr_eq_Inr split: if_splits)

lemma plan_compare_total: "\<exists>r. plan_compare sig low (map PDict es) = Inr r"
proof -
  have "\<exists>ls. mapr entry_label (map PDict es) = Inr ls" by (induction es) (auto simp: entry_label_def)
  then show ?thesis by (auto simp: plan_compare_def Let_def)
qed

lemma good_thermo:
  assumes "set (graph_targets sig) \<subseteq> set (dkeys TARGET_LABELS)"
  shows "\<exists>ss. plan_thermo ase sig message ctx = Inr ss \<and> good_plan ss"
proof -
  have "plan_eads sig (ascii_lower message) = Some ss \<Longrightarrow> good_plan ss" for ss
    by (auto simp: plan_eads_def Let_def good_eads split: option.splits list.splits if_splits intro: calm_plan)
      (auto intro!: calm_plan simp: PLAN_TOOLS_def)
  then show ?thesis using good_targets [OF assms] good_formation
    by (auto simp: plan_thermo_def split: option.splits if_splits)
qed

text \<open>
  C7. Whatever the message, when the templates asked for have labels and the ledger of the session holds dictionaries, the
  rule planner answers with a plan: it has a step, every step names one of the listed tools, and every run of a graph
  names its material or comes after a step that builds a structure.
\<close>
theorem rule_plan_executable:
  assumes targets: "set (graph_targets (detect message ctx)) \<subseteq> set (dkeys TARGET_LABELS)"
    and ledger: "or_val (getn ctx ''ledger'') (PList []) = PList (map PDict es)"
  shows "\<exists>ss. rule_plan ase detect message ctx = Inr ss \<and> ss \<noteq> [] \<and> (\<forall>s \<in> set ss. step_tool s \<in> set PLAN_TOOLS) \<and> supplied False ss"
proof -
  have st: "good_plan [status_step r]" for r by (rule calm_plan) (auto simp: status_step_def PLAN_TOOLS_def)
  obtain r where r: "plan_compare (detect message ctx) (ascii_lower message) (map PDict es) = Inr r" using plan_compare_total by blast
  have "\<exists>ss. rule_plan ase detect message ctx = Inr ss \<and> good_plan ss"
    using st r ledger good_thermo [OF targets] plan_compare_good by (auto simp: rule_plan_def Let_def split: option.splits)
  then show ?thesis by (simp add: good_plan_def)
qed

definition quiet_signals :: intent_signals where
  "quiet_signals = \<lparr>material_hint = None, pair_types = None, formula_hint = None, build2d_kind = None, dopant_el = None, ads_el = None,
     ads_site = None, wants_analyze = False, wants_import = False, wants_generate = False, wants_build = False, wants_submit = False,
     wants_status = False, wants_parse = False, wants_verify = False, wants_ledger = False, wants_doctor = False, wants_compare = False,
     wants_eads = False, wants_formation = False, wants_2d = False, strong_analyze = False, graph_targets = [], has_structure_ctx = False,
     has_job_ctx = False\<rparr>"

theorem rule_plan_executable_witness:
  "\<exists>ss. rule_plan demo_ase (\<lambda>_ _. quiet_signals\<lparr>build2d_kind := Some ''mos2'', graph_targets := [''t2_bands'']\<rparr>) ''bands of MoS2''
     [(''ledger'', PList [PDict []])] = Inr ss \<and> ss \<noteq> [] \<and> supplied False ss"
  using rule_plan_executable [of "\<lambda>_ _. quiet_signals\<lparr>build2d_kind := Some ''mos2'', graph_targets := [''t2_bands'']\<rparr>" "''bands of MoS2''"
      "[(''ledger'', PList [PDict []])]" "[[]]" demo_ase]
  by (auto simp: TARGET_LABELS_def or_val_def)

section \<open>Records\<close>

text \<open>
  A command, its result and its link of the chain: either nothing was called, and the result says why, or the tool was called,
  or the help text given. Then the link is done exactly when the result has no error of its own and its payload, if it is a
  dict, has none; the error of a payload of \<open>structure.analyze\<close> does not count.
\<close>

definition accounted :: "pyval pydict \<Rightarrow> pyval pydict \<times> pyval pydict \<times> string \<times> string \<Rightarrow> bool" where
  "accounted s = (\<lambda>(c, r, link, status).
     (if getn c ''command'' = PStr ''noop'' \<and> getn r ''returncode'' = PInt (- 1) then status = ''error'' \<and> getn r ''error'' \<noteq> PNone
      else link = py_str (getn s ''tool'') \<and> getn c ''command'' = PStr link
         \<and> (getn r ''returncode'' = PInt 0 \<longleftrightarrow> getn r ''error'' = PNone)
         \<and> status = (if py_true (getn r ''error'') then ''error''
              else if \<exists>d. getn r ''json'' = PDict d \<and> py_true (getn d ''error'') \<and> link \<noteq> ''structure.analyze'' then ''error'' else ''done'')))"

lemma step_failed_iff:
  "step_failed tool r \<longleftrightarrow> py_true (getn r ''error'') \<or> (\<exists>d. getn r ''json'' = PDict d \<and> py_true (getn d ''error'') \<and> tool \<noteq> ''structure.analyze'')"
  by (auto simp: step_failed_def split: pyval.splits)

definition extends :: "pyval pydict list \<Rightarrow> 'w session_run \<Rightarrow> 'w session_run \<Rightarrow> bool" where
  "extends steps st st' = (\<exists>xs. list_all2 accounted steps xs \<and> sn_commands st' = sn_commands st @ map fst xs
     \<and> sn_results st' = sn_results st @ map (fst \<circ> snd) xs \<and> sn_chain st' = sn_chain st @ map (snd \<circ> snd) xs)"

lemma extends_Nil: "extends [] st st"
  by (simp add: extends_def)

lemma extends_add: "accounted s (c, r, l) \<Longrightarrow> extends [s] st (add_step c r reps l st)"
  unfolding extends_def by (rule exI [of _ "[(c, r, l)]"]) (simp add: add_step_def)

lemma extends_session: "extends ss (st\<lparr>sn_session := h, sn_world := k\<rparr>) st' = extends ss st st'"
  by (simp add: extends_def)

lemma extends_trans: "extends [s] st st1 \<Longrightarrow> extends ss st1 st2 \<Longrightarrow> extends (s # ss) st st2"
proof -
  assume "extends [s] st st1" "extends ss st1 st2"
  then obtain xs ys where "list_all2 accounted [s] xs" "list_all2 accounted ss ys"
    "sn_commands st2 = sn_commands st @ map fst (xs @ ys)" "sn_results st2 = sn_results st @ map (fst \<circ> snd) (xs @ ys)"
    "sn_chain st2 = sn_chain st @ map (snd \<circ> snd) (xs @ ys)"
    unfolding extends_def by auto
  then show ?thesis unfolding extends_def by (intro exI [of _ "xs @ ys"]) (auto dest: list_all2_appendI)
qed

lemma result_dict_fields: "getn (result_dict t n inner e @ x) ''error'' = e" "getn (result_dict t n inner e @ x) ''returncode'' = PInt n"
  "getn (result_dict t n inner e) ''error'' = e" "getn (result_dict t n inner e) ''json'' = inner"
  "getn (result_dict t n inner e) ''returncode'' = PInt n"
  by (simp_all add: result_dict_def)

lemma accounted_call: "py_str (getn s ''tool'') = tool \<Longrightarrow> getn r ''returncode'' \<noteq> PInt (- 1)
    \<Longrightarrow> (getn r ''returncode'' = PInt 0 \<longleftrightarrow> getn r ''error'' = PNone)
    \<Longrightarrow> accounted s ((''command'', PStr tool) # c, r, tool, if step_failed tool r then ''error'' else ''done'')"
  by (auto simp: accounted_def step_failed_iff)

lemma extends_call: "py_str (getn s ''tool'') = tool \<Longrightarrow> extends [s] st (call_step av tool args desc st)"
  unfolding call_step_def Let_def split_beta
  by (subst extends_session [symmetric], rule extends_add, rule accounted_call)
    (auto simp: result_dict_fields split: option.split)

lemma run_one_extends: "run_one av s st = Inr st' \<Longrightarrow> extends [s] st st'"
  by (auto simp: run_one_def bindr_eq_Inr Let_def unmatched_step_def help_step_def rejected_step_def aborted_step_def noop_def
      accounted_def result_dict_fields step_failed_iff split: if_splits option.splits intro!: extends_call extends_add)

text \<open>
  C8. When the steps of a plan have been run, each has added exactly one command, one result and one link of the chain, in
  the order of the plan. A step that called nothing is an error and says why. Otherwise the link names the step's tool and is
  done exactly when the result has no error and its payload none either, where the error of a payload of \<open>structure.analyze\<close>
  does not count; a returncode of zero stands for a call without an error. A step never takes away what an earlier one recorded.
\<close>
theorem steps_recorded:
  assumes "run_steps av steps st = Inr st'"
  shows "\<exists>xs. list_all2 accounted steps xs \<and> sn_commands st' = sn_commands st @ map fst xs
     \<and> sn_results st' = sn_results st @ map (fst \<circ> snd) xs \<and> sn_chain st' = sn_chain st @ map (snd \<circ> snd) xs"
proof -
  have "extends steps st st'" using assms
    by (induction steps arbitrary: st) (auto simp: bindr_eq_Inr extends_Nil dest!: run_one_extends intro: extends_trans)
  then show ?thesis by (simp add: extends_def)
qed

section \<open>The structure of a run\<close>

lemma getn_path_points: "j \<noteq> ''nkpoints_bands'' \<Longrightarrow> getn (path_points dk x args inputs) j = getn inputs j"
  by (auto simp: path_points_def getn_dput split: option.splits)

lemma getn_ddel: "getn (ddel k d) j = (if j = k then PNone else getn d j)"
  by (induction d) (auto simp: ddel_def)

lemma approved_keys: "dget APPROVED_KEYS t = Some ks \<Longrightarrow> set ks \<subseteq> set [''ecutwfc'', ''kpoints'', ''nbnd'', ''nkpoints_bands'']"
  by (auto simp: APPROVED_KEYS_def dget_def split: if_splits)

lemma fold_card: "j \<notin> set ks \<Longrightarrow> getn (foldl (\<lambda>d k. if getn cfg k \<in> {PNone, PStr []} then d else dput k (getn cfg k) d) d ks) j = getn d j"
  by (induction ks arbitrary: d) (auto simp: getn_dput)

lemma method_card_keeps:
  "or_val (getn ctx ''run_config'') (PDict []) = PDict cfg \<Longrightarrow> j \<notin> set [''ecutwfc'', ''kpoints'', ''nbnd'', ''nkpoints_bands'']
     \<Longrightarrow> \<exists>d. method_card ctx args inputs = Inr d \<and> getn d j = getn inputs j"
  using approved_keys fold_card by (fastforce simp: method_card_def Let_def split: option.splits)

lemma chained_run:
  assumes eff: "py_true (effective_structure dk s)"
    and run: "or_val (getn args ''inputs'') (PDict []) = PDict inputs" "\<not> py_true (getn inputs ''structure'')"
    and cfg: "or_val (getn (ss_ctx s) ''run_config'') (PDict []) = PDict cfg"
  shows "\<exists>args' inputs'. prepare_step_args ase dk s ''graph.run'' args = Inr (None, args') \<and> getn args' ''inputs'' = PDict inputs'
     \<and> getn inputs' ''structure'' = effective_structure dk s \<and> getn inputs' ''material'' = PNone"
proof -
  let ?args = "put_text ''workdir'' (in_dir (ss_dir s) ''graphs'') args"
  let ?in = "path_points dk (effective_structure dk s) ?args (ddel ''material'' (dput ''structure'' (effective_structure dk s) inputs))"
  have c: "chained_inputs dk s ?args inputs = Some ?in" using eff run(2) by (simp add: chained_inputs_def Let_def)
  obtain d where d: "method_card (ss_ctx s) ?args ?in = Inr d" "getn d ''structure'' = getn ?in ''structure''"
    using method_card_keeps [OF cfg, of "''structure''"] by fastforce
  moreover have "getn d ''material'' = getn ?in ''material''"
    using method_card_keeps [OF cfg, of "''material''" ?args ?in] d(1) by simp
  ultimately show ?thesis using c run(1)
    by (simp add: prepare_step_args_def prepare_run_def put_text_def getn_dput py_dict_def getn_path_points getn_ddel)
qed

lemma failed_session:
  "ss_built (hd_session (failed_answer desc msg s)) = ss_built s"
  "getn (ss_ctx (hd_session (failed_answer desc msg s))) ''run_config'' = getn (ss_ctx s) ''run_config''"
  by (auto simp: failed_answer_def add_failure_def handle_def put_ctx_def getn_dput split: pyval.splits sum.splits)

lemma call_step_failed:
  assumes "tr_error (fst (call (av_violations av) (av_registry av) tool (PDict args) (sn_world st))) = Some (c # msg)"
  shows "sn_session (call_step av tool args desc st) = hd_session (failed_answer desc (c # msg) (sn_session st))"
  using assms by (simp add: call_step_def Let_def split_beta take_answer_def add_step_def)

text \<open>
  C26. A run of a graph is not stopped when the step that should have built its structure failed: if an earlier step of the
  plan built one, that older structure is what the run computes on.
\<close>
theorem failed_build_chains_old_structure:
  assumes built: "ss_built (sn_session st) = PStr (c # p)"
    and failed: "tr_error (fst (call (av_violations av) (av_registry av) tool (PDict args) (sn_world st))) = Some (d # msg)"
    and run: "or_val (getn rargs ''inputs'') (PDict []) = PDict inputs" "\<not> py_true (getn inputs ''structure'')"
    and cfg: "or_val (getn (ss_ctx (sn_session st)) ''run_config'') (PDict []) = PDict cfg"
  shows "\<exists>run' inputs'. prepare_step_args ase dk (sn_session (call_step av tool args desc st)) ''graph.run'' rargs = Inr (None, run')
     \<and> getn run' ''inputs'' = PDict inputs' \<and> getn inputs' ''structure'' = PStr (c # p)"
proof -
  let ?s = "sn_session (call_step av tool args desc st)"
  have e: "effective_structure dk ?s = PStr (c # p)"
    using built by (simp add: effective_structure_def call_step_failed [OF failed] failed_session or_val_def)
  have "or_val (getn (ss_ctx ?s) ''run_config'') (PDict []) = PDict cfg"
    using cfg by (simp add: call_step_failed [OF failed] failed_session)
  from chained_run [OF _ run this, of dk ase] show ?thesis using e by auto
qed

text \<open>
  C27. A run that names its material computes on the structure of an earlier message instead, as long as its file is there.
\<close>
theorem older_structure_replaces_material:
  assumes none: "ss_built s = PNone"
    and older: "getn (ss_ctx s) ''last_structure_source'' = PStr (c # p)" "sd_is_file dk (c # p)"
    and run: "or_val (getn args ''inputs'') (PDict []) = PDict inputs" "\<not> py_true (getn inputs ''structure'')"
    and cfg: "or_val (getn (ss_ctx s) ''run_config'') (PDict []) = PDict cfg"
  shows "\<exists>args' inputs'. prepare_step_args ase dk s ''graph.run'' args = Inr (None, args') \<and> getn args' ''inputs'' = PDict inputs'
     \<and> getn inputs' ''structure'' = PStr (c # p) \<and> getn inputs' ''material'' = PNone"
proof -
  have e: "effective_structure dk s = PStr (c # p)" using none older by (simp add: effective_structure_def or_val_def)
  then show ?thesis using chained_run [OF _ run cfg, of dk ase] by simp
qed

definition demo_disk :: step_disk where
  "demo_disk = \<lparr>sd_is_file = (\<lambda>p. p = ''s/mos2_1_1.cif''), sd_natoms = (\<lambda>_. Some 3)\<rparr>"

text \<open>The formation energy of NaCl, asked for after a message that built MoS2.\<close>

theorem older_structure_replaces_material_witness:
  "\<exists>args' inputs'. prepare_step_args demo_ase demo_disk \<lparr>ss_dir = ''s'', ss_ctx = [(''last_structure_source'', PStr ''s/mos2_1_1.cif'')], ss_built = PNone,
       ss_energies = []\<rparr> ''graph.run'' [(''template_id'', PStr ''t0_scf''), (''inputs'', PDict [(''material'', PStr ''NaCl'')])] = Inr (None, args')
     \<and> getn args' ''inputs'' = PDict inputs' \<and> getn inputs' ''structure'' = PStr ''s/mos2_1_1.cif'' \<and> getn inputs' ''material'' = PNone"
  by (rule older_structure_replaces_material [where inputs = "[(''material'', PStr ''NaCl'')]" and cfg = "[]"]) (simp_all add: demo_disk_def or_val_def)

definition demo_env :: "unit session_env" where
  "demo_env = \<lparr>av_violations = (\<lambda>_ _. []), av_registry = [], av_ase = demo_ase, av_disk = (\<lambda>_. demo_disk), av_json = (\<lambda>_ _. None)\<rparr>"

definition demo_run :: "unit session_run" where
  "demo_run = (new_run ''s'' [] ())\<lparr>sn_session := \<lparr>ss_dir = ''s'', ss_ctx = [], ss_built = PStr ''s/mos2_3_3_top.cif'', ss_energies = []\<rparr>\<rparr>"

text \<open>The surface of the adsorption plan could not be built.\<close>

theorem failed_build_chains_old_structure_witness:
  "\<exists>run' inputs'. prepare_step_args demo_ase demo_disk (sn_session (call_step demo_env ''structure.build2d'' [(''kind'', PStr ''mos2'')] [] demo_run))
       ''graph.run'' [(''template_id'', PStr ''t0_scf''), (''inputs'', PDict [])] = Inr (None, run')
     \<and> getn run' ''inputs'' = PDict inputs' \<and> getn inputs' ''structure'' = PStr ''s/mos2_3_3_top.cif''"
  by (rule failed_build_chains_old_structure [where d = "CHR ''T''" and msg = "''ool not found: structure.build2d''"
        and inputs = "[]" and cfg = "[]"])
    (simp_all add: demo_env_def demo_run_def or_val_def call_def get_tool_def dget_def error_result_def)

text \<open>A step without a tool, one with a tool nobody registered, and the help text.\<close>

theorem steps_recorded_witness:
  "\<exists>xs. list_all2 accounted [mk_step [] [] ''nothing'', mk_step ''doctor'' [] ''check'', mk_step ''help'' [] ''help''] xs
     \<and> map (snd \<circ> snd) xs = [([], ''error''), (''doctor'', ''error''), (''help'', ''done'')]"
proof -
  have "sn_chain demo_run = []" by (simp add: demo_run_def new_run_def)
  moreover have "\<exists>st'. run_steps demo_env [mk_step [] [] ''nothing'', mk_step ''doctor'' [] ''check'', mk_step ''help'' [] ''help''] demo_run = Inr st'
     \<and> sn_chain st' = [([], ''error''), (''doctor'', ''error''), (''help'', ''done'')]"
    by (simp add: run_one_def mk_step_def or_val_def py_dict_def unmatched_step_def help_step_def add_step_def demo_run_def new_run_def
        check_self_doping_def prepare_step_args_def no_abort_def inner_of_def call_step_def demo_env_def call_def get_tool_def dget_def error_result_def
        take_answer_def failed_answer_def add_failure_def handle_def put_ctx_def Graph.get_or_def step_failed_def result_dict_def bindr_def Let_def)
  then obtain st' where "run_steps demo_env [mk_step [] [] ''nothing'', mk_step ''doctor'' [] ''check'', mk_step ''help'' [] ''help''] demo_run = Inr st'"
    "sn_chain st' = [([], ''error''), (''doctor'', ''error''), (''help'', ''done'')]" by blast
  ultimately show ?thesis using steps_recorded [of demo_env _ demo_run st'] by fastforce
qed

section \<open>Adsorption energies\<close>

lemma note_run_energies: "note_run data args desc nodes s = Inr s' \<Longrightarrow> ss_energies s' = ss_energies s"
  by (cases "Graph.get_or (ss_ctx s) ''ledger'' (PList [])") (auto simp: note_run_def bindr_eq_Inr put_ctx_def split: if_splits)

lemma node_rows_energies: "node_rows desc nodes = (es, Inr ls) \<Longrightarrow> es = energies_of_nodes desc nodes"
proof (induction desc nodes arbitrary: es ls rule: node_rows.induct)
  case (2 desc nid info outs ns)
  then show ?case
    by (auto simp: Let_def bindr_eq_Inr energies_of_nodes_def split: sum.splits prod.splits if_splits)
qed (simp add: energies_of_nodes_def)

lemma view_run_energies:
  "hd_raised (view_graph_run data args desc s) = None \<Longrightarrow> nodes_of data = Inr nodes
     \<Longrightarrow> ss_energies (hd_session (view_graph_run data args desc s)) = ss_energies s @ energies_of_nodes desc nodes"
proof -
  assume *: "hd_raised (view_graph_run data args desc s) = None" "nodes_of data = Inr nodes"
  let ?s = "put_ctx ''last_execution'' (execution_context data args desc) (put_ctx ''last_run_id'' (getn data ''run_id'') s)"
  obtain s2 where n: "note_run data args desc nodes ?s = Inr s2"
    using * by (cases "note_run data args desc nodes ?s") (auto simp: view_graph_run_def Let_def)
  then have "ss_energies s2 = ss_energies s" by (simp add: note_run_energies put_ctx_def)
  then show ?thesis using * n
    by (auto simp: view_graph_run_def Let_def dest: node_rows_energies split: sum.splits prod.splits)
qed

text \<open>
  When three runs of a plan were taken in, each with one energy, and the steps between them add none, the adsorption
  energy is computed from the first as the adsorbed system, the second as the surface and the third as the molecule;
  the molecule counts for as many atoms as the first system has more than the second.
\<close>
theorem eads_energies_in_order:
  assumes a: "hd_raised (view_graph_run da aa ta s0) = None" "nodes_of da = Inr na" "energies_of_nodes ta na = [ea]"
      "ss_energies s1 = ss_energies (hd_session (view_graph_run da aa ta s0))"
    and b: "hd_raised (view_graph_run db ab tb s1) = None" "nodes_of db = Inr nb" "energies_of_nodes tb nb = [eb]"
      "ss_energies s2 = ss_energies (hd_session (view_graph_run db ab tb s1))"
    and m: "hd_raised (view_graph_run dm am tm s2) = None" "nodes_of dm = Inr nm" "energies_of_nodes tm nm = [em]"
      "ss_energies s3 = ss_energies (hd_session (view_graph_run dm am tm s2))"
    and atoms: "getn ea ''natoms'' = PInt i" "getn eb ''natoms'' = PInt j" "getn em ''natoms'' = PInt k" "0 < j" "j < i" "0 < k"
    and args: "getn args ''ry_a'' = PNone"
  shows "\<exists>args'. prepare_step_args ase dk s3 ''thermo.eads'' args = Inr (None, args')
     \<and> getn args' ''ry_a'' = getn ea ''energy_ry'' \<and> getn args' ''ry_s'' = getn eb ''energy_ry'' \<and> getn args' ''ry_m'' = getn em ''energy_ry''
     \<and> getn args' ''nat_a'' = PInt (i - j) \<and> getn args' ''nat_mol'' = PInt k"
proof -
  have es: "ss_energies s3 = ss_energies s0 @ [ea, eb, em]"
    using view_run_energies [OF a(1,2)] view_run_energies [OF b(1,2)] view_run_energies [OF m(1,2)] a b m by simp
  have "py_gt (PInt i) (PInt j) = Inr True" using atoms by (simp add: py_gt_def)
  then show ?thesis using es atoms args
    by (simp add: prepare_step_args_def inject_eads_def Let_def no_abort_def getn_dput py_minus_def nth_append)
qed

definition demo_answer :: "int \<Rightarrow> int \<Rightarrow> pyval pydict" where
  "demo_answer e n = [(''run_id'', PStr ''r1''), (''state'', PStr ''succeeded''), (''nodes'', PDict [(''scf'', PDict [(''state'', PStr ''succeeded''),
     (''outputs'', PDict [(''energy_ry'', PInt e), (''natoms'', PInt n)])])])]"

definition demo_session :: "pyval pydict list \<Rightarrow> step_session" where
  "demo_session es = \<lparr>ss_dir = ''s'', ss_ctx = [], ss_built = PNone, ss_energies = es\<rparr>"

lemma demo_nodes: "nodes_of (demo_answer e n) = Inr [(''scf'', [(''state'', PStr ''succeeded''), (''outputs'', PDict [(''energy_ry'', PInt e), (''natoms'', PInt n)])],
     [(''energy_ry'', PInt e), (''natoms'', PInt n)])]"
  by (simp add: nodes_of_def demo_answer_def sub_dict_def Graph.get_or_def Recovery.get_or_def dget_def)

lemma demo_energies: "energies_of_nodes d [(''scf'', [(''state'', PStr ''succeeded''), (''outputs'', PDict [(''energy_ry'', PInt e), (''natoms'', PInt n)])],
     [(''energy_ry'', PInt e), (''natoms'', PInt n)])] = [[(''energy_ry'', PInt e), (''natoms'', PInt n), (''label'', PStr (d @ '':scf''))]]"
  by (simp add: energies_of_nodes_def succeeded_def)

lemma demo_view: "hd_raised (view_graph_run (demo_answer e n) [] [] (demo_session es)) = None"
  by (simp add: view_graph_run_def demo_nodes Let_def note_run_def ledger_entry_def sub_dict_def analysis_lines_def graph_facts_def node_facts_def
      demo_session_def put_ctx_def Graph.get_or_def Recovery.get_or_def dget_dput dget_def [of "[]"])

text \<open>Oxygen on a surface of 27 atoms; O2 counts for one atom.\<close>

theorem eads_energies_in_order_witness:
  "\<exists>s args'. prepare_step_args demo_ase demo_disk s ''thermo.eads'' [] = Inr (None, args')
     \<and> s = hd_session (view_graph_run (demo_answer (- 64) 2) [] [] (demo_session
         [[(''energy_ry'', PInt (- 932)), (''natoms'', PInt 28), (''label'', PStr '':scf'')],
          [(''energy_ry'', PInt (- 900)), (''natoms'', PInt 27), (''label'', PStr '':scf'')]]))
     \<and> getn args' ''ry_a'' = PInt (- 932) \<and> getn args' ''nat_a'' = PInt 1 \<and> getn args' ''nat_mol'' = PInt 2"
proof -
  let ?e = "\<lambda>e n. [(''energy_ry'', PInt e), (''natoms'', PInt n), (''label'', PStr ([] @ '':scf''))]"
  let ?s1 = "demo_session [?e (- 932) 28]" and ?s2 = "demo_session [?e (- 932) 28, ?e (- 900) 27]"
  let ?s3 = "hd_session (view_graph_run (demo_answer (- 64) 2) [] [] ?s2)"
  have 1: "ss_energies ?s1 = ss_energies (hd_session (view_graph_run (demo_answer (- 932) 28) [] [] (demo_session [])))"
    "ss_energies ?s2 = ss_energies (hd_session (view_graph_run (demo_answer (- 900) 27) [] [] ?s1))"
    using view_run_energies [OF demo_view demo_nodes] demo_energies by (simp_all add: demo_session_def)
  have "\<exists>args'. prepare_step_args demo_ase demo_disk ?s3 ''thermo.eads'' [] = Inr (None, args')
     \<and> getn args' ''ry_a'' = getn (?e (- 932) 28) ''energy_ry'' \<and> getn args' ''ry_s'' = getn (?e (- 900) 27) ''energy_ry''
     \<and> getn args' ''ry_m'' = getn (?e (- 64) 2) ''energy_ry'' \<and> getn args' ''nat_a'' = PInt (28 - 27) \<and> getn args' ''nat_mol'' = PInt 2"
    by (rule eads_energies_in_order [OF demo_view demo_nodes demo_energies 1(1) demo_view demo_nodes demo_energies 1(2)
        demo_view demo_nodes demo_energies]) simp_all
  then show ?thesis by auto
qed

end
