(* ===== verification/Spec2Isabelle.thy ===== *)
theory Spec2Isabelle
  imports Engine_Examples Hpc_Jobs Catalog_Props Ledger Planning Qe_Repair Verifier_Props Ssh_Props Local_Executor Compiler_Lines Qe_Stages Runner_Props Agent_Props Session_Props
begin

text \<open>
  Verification development for \<^verbatim>\<open>dft_forge\<close>, a workflow engine that runs density functional
  calculations with Quantum ESPRESSO.

  The program. A user asks for a material property; the planner (\<open>planner.py\<close>) or the goal-first
  agent (\<open>agent_loop/\<close>) turns the question into a graph of calculation nodes
  (\<open>runtime/graph.py\<close>). The engine (\<open>runtime/engine.py\<close>) creates a run of a template, the
  scheduler (\<open>runtime/scheduler.py\<close>) dispatches its nodes in the order of their dependencies,
  saves every change in the state store (\<open>runtime/store.py\<close>) and lets handlers repair the
  parameters of failed nodes. The tools behind the nodes (\<open>engines/qe.py\<close>) run Quantum ESPRESSO on a
  local, ssh or batch back end (\<open>hpc/\<close>), parse its output (\<open>parser.py\<close>) and verify it
  (\<open>verifier.py\<close>); the recovery controller (\<open>recovery.py\<close>) classifies a failed report and plans
  bounded changes for the next attempt; the ledger (\<open>ledger.py\<close>) records every attempt.

  Theories and the code they model.

  \<^item> \<^verbatim>\<open>Forge_Prelude\<close>, \<^verbatim>\<open>Py_Text\<close>, \<^verbatim>\<open>Py_Regex\<close>: the part of Python the sources use. JSON values and
    insertion-ordered dictionaries, computations that raise (\<open>bindr\<close>, \<open>mapr\<close>), text operations, number
    formats and numerals, regular expressions.
  \<^item> \<^verbatim>\<open>States\<close>: \<open>runtime/states.py\<close>. \<^verbatim>\<open>Graph\<close> and \<^verbatim>\<open>Cycle\<close>: \<open>runtime/graph.py\<close>, templates and their
    validation; the depth-first search against an inductive path relation.
  \<^item> \<^verbatim>\<open>Run\<close>, \<^verbatim>\<open>Store\<close>: \<open>runtime/run.py\<close> and \<open>runtime/store.py\<close>, runs, parameter binding, the tables of the
    store and their round trip.
  \<^item> \<^verbatim>\<open>Scheduler\<close>: \<open>runtime/scheduler.py\<close>, one tick of the loop as a function of the tools' answers.
    \<^verbatim>\<open>Sched_Spec\<close>, \<^verbatim>\<open>Sched_Refine\<close>, \<^verbatim>\<open>Sched_Durable\<close>, \<^verbatim>\<open>Sched_Props\<close>: the abstract step relation it
    implements and termination (\<open>Sched_Props\<close>), and what holds at the boundaries of the iterations, a cancelled one
    included: what a crash leaves in the store, the order of dependencies, the concurrency cap and finished nodes
    (\<open>Sched_Durable\<close>).
  \<^item> \<^verbatim>\<open>Engine\<close>, \<^verbatim>\<open>Engine_Props\<close>: \<open>runtime/engine.py\<close> and the template registry: run, resume, retry, cancel.
  \<^item> \<^verbatim>\<open>Recovery\<close>: \<open>recovery.py\<close>. \<^verbatim>\<open>Qe_Repair\<close>: the repair handler and the choice of the upstream save
    directory of \<open>engines/qe.py\<close>, interpreted as the scheduler's repair handler.
  \<^item> \<^verbatim>\<open>Shell\<close>, \<^verbatim>\<open>Hpc_Script\<close>, \<^verbatim>\<open>Hpc_Jobs\<close>: \<open>hpc/\<close>. POSIX word splitting and quoting, job scripts, and the
    SLURM and PBS adapters as interpretations of one locale. \<^verbatim>\<open>Ssh_Executor\<close>, \<^verbatim>\<open>Ssh_Props\<close>: the remote
    executor of \<open>executor.py\<close> over them: its registry, the transfer of files, polling and the runs of tools.
    \<^verbatim>\<open>Local_Executor\<close>: the local and the fake executor, and the loop of \<open>runner.py\<close> that drives an executor
    (1200 questions, \<open>driver_gives_up\<close>). \<^verbatim>\<open>Runner\<close>, \<^verbatim>\<open>Runner_T2\<close>,
    \<^verbatim>\<open>Runner_Props\<close>: \<open>runner.py\<close>, the relaxation, band and density pipelines from the task's parameters to the
    ledger row. \<^verbatim>\<open>Agent\<close>, \<^verbatim>\<open>Agent_Props\<close>: \<open>agent.py\<close>, from a prompt to the run of a task and its ledger row.
  \<^item> \<^verbatim>\<open>Schemas\<close>: \<open>protocol/schemas.py\<close>, \<open>planner.py\<close> and the prompt part of \<open>llm.py\<close>.
    \<^verbatim>\<open>Catalog_Data\<close>, \<^verbatim>\<open>Catalog\<close>, \<^verbatim>\<open>Catalog_Props\<close>: the material library, entry by entry, and the catalog over it.
  \<^item> \<^verbatim>\<open>Ledger\<close>: \<open>ledger.py\<close>. \<^verbatim>\<open>Tool_Registry\<close>: \<open>tools/registry.py\<close> and \<open>tools/models.py\<close>.
    \<^verbatim>\<open>Planning\<close>: \<open>agent_loop/planning.py\<close> and \<open>agent_loop/step_validator.py\<close>.
  \<^item> \<^verbatim>\<open>Step_Prep\<close>, \<^verbatim>\<open>Rule_Planner\<close>, \<^verbatim>\<open>Result_Views\<close>, \<^verbatim>\<open>Session\<close>: the chat
    session of \<open>agent_loop/\<close> (\<open>step_prep.py\<close>, \<open>rule_planner.py\<close>, \<open>result_views.py\<close> with \<open>compare_block\<close>,
    \<open>executor.py\<close>), from the signals of a message over its plan and the calls through the registry to the reply.
    \<^verbatim>\<open>Session_Props\<close>: their theorems.
  \<^item> \<^verbatim>\<open>Compiler\<close>, \<^verbatim>\<open>Prototypes\<close>, \<^verbatim>\<open>Compiler_Props\<close>, \<^verbatim>\<open>Compiler_Lines\<close>: \<open>compiler/__init__.py\<close>, the material
    table of the compiler, the texts of the input files, line by line for the relaxation, the structures built from a formula.
  \<^item> \<^verbatim>\<open>Parser\<close>, \<^verbatim>\<open>Parser_Files\<close>: \<open>parser.py\<close>, the readers of Quantum ESPRESSO's text and XML output, the
    densities of states and the relaxed structure. \<^verbatim>\<open>Verifier\<close>, \<^verbatim>\<open>Verifier_Props\<close>: \<open>verifier.py\<close>, the
    verdicts, and that the recovery controller reads them rightly.
  \<^item> \<^verbatim>\<open>Qe_Engine\<close>, \<^verbatim>\<open>Qe_Props\<close>: \<open>QECalcTool\<close> of \<open>engines/qe.py\<close>, the tool a graph node runs, as steps on the disk
    that raise or return; it joins the compiler, an executor, the parser and the verifier. \<^verbatim>\<open>Qe_Stages\<close>: the scf and
    nscf nodes and the post-processing nodes that read their output, over a locale of executors that keep a
    program's output, interpreted on the local executor.

  What the lemmas show. The scheduler group: every run of a valid template ends, with the outcome the
  dependency graph and the tools' answers determine; nodes run only after their dependencies, never
  above the concurrency cap; a crash between two iterations loses nothing but the nodes marked blocked (inside an
  iteration a node is changed before it is saved); resume and retry restart exactly the right nodes. The validation group: a template validates exactly when
  it is well formed. The recovery group: every automatic change of parameters is bounded and comes to
  an end, and failure reports are classified as the verifier meant them. The submission group: what a
  shell reads from the commands is what the adapter meant, an upload hands over its archive, a remote run
  comes back and its report and record agree. The compiler group: every tabulated material compiles, the lattice is
  given once, the mesh, the vacuum test and the number of bands are as meant. The engine group: a node that reports
  success has run its program to the end, the verifier passed that run (a projected density has no report) and its outputs
  are read from it, what passed in one stage carries over to the next, and every failure has a category the repair handler treats as meant, or never. The session group: a plan of the rules can be
  carried out, every step is accounted for, and where a run takes its structure from. The registry, catalog and ledger groups:
  invariants of the tables and what their lookups return.

  Assumptions and bounds.

  \<^item> Values are JSON values. Floats are exact rationals with the infinities and NaN, square roots have 20
    decimals, integers are unbounded as in Python.
  \<^item> Text has the characters below 256; a label outside this range is written as its UTF-8 bytes.
  \<^item> The answers of tools, the clock, the batch system's runner, the JSON schema checker, the language
    model, the XML reader and what ASE and pymatgen compute are parameters of the definitions.
  \<^item> The scheduler loop takes fuel, one unit for a tick. A fresh run needs at most one tick more than
    twice the dispatches its retry limits allow (\<open>created_run_tick_bound\<close>), whatever the tools answer, so
    this fuel is enough; the theorems on termination state it for the loop itself. The polling of a batch
    job takes fuel too; a unit for every five seconds of the wall time and a minute is enough
    (\<open>remote_tool_returns\<close>).
  \<^item> SQL is modelled by the tables it reads and writes, not as text; logging is left out.

  Not modelled: the command line and the web front end (\<open>cli.py\<close>, \<open>web/\<close>) and the server in \<open>mcp/\<close>, which only call
  the parts above; the HTTP calls of \<open>llm.py\<close>; the structure modules, which are calls of ASE, spglib and numpy;
  the async loop of the scheduler (\<open>run_async\<close> and \<open>_cancel_async\<close>, which repeat the threaded loop over asyncio tasks);
  the async facade of \<open>executor.py\<close>, which hands each call to a thread; and of \<open>agent_loop/\<close>
  the detection of signals by keywords (\<open>intent.py\<close>) and the language model's prompts (\<open>llm_planner.py\<close>, \<open>narrate\<close>),
  which are parameters of the session, and what only the browser shows: events, summaries, viewers and charts.
\<close>

end
